(* ===== verification/Prelude.thy ===== *)
theory Prelude
  imports Complex_Main "HOL-Library.Sublist" "HOL-Library.Multiset"
begin

text \<open>
  Shared vocabulary of the development: the collections of simplification rules that the
  component theories extend, the type of Python exceptions the modelled code can raise, the
  exception monad, and the generic facts on lists, options and maps that several components use.
\<close>

section \<open>Rule collections\<close>

named_theorems pystr \<open>how the Python string operations act on concatenations\<close>
named_theorems pyfmt \<open>which characters the Python formatting operations can produce\<close>
named_theorems scan \<open>how the parenthesis scanner passes over emitted text\<close>

section \<open>Exceptions\<close>

text \<open>
  The exceptions the modelled code can raise; a fallible operation returns a sum. \<open>Raised m\<close> is an exception of a library or of the operating system with the text \<open>m\<close>.
\<close>

datatype py_exc = IndexError | KeyError | ValueError | ZeroDivisionError | TypeError | AttributeError
  | Raised string

type_synonym 'a res = "py_exc + 'a"

definition rbind :: "'a res \<Rightarrow> ('a \<Rightarrow> 'b res) \<Rightarrow> 'b res" where
  "rbind m f = (case m of Inl e \<Rightarrow> Inl e | Inr x \<Rightarrow> f x)"

lemma rbind_simps [simp]:
  "rbind (Inl e) f = Inl e"
  "rbind (Inr x) f = f x"
  by (simp_all add: rbind_def)

lemma rbind_Inr_iff: "rbind r k = Inr b \<longleftrightarrow> (\<exists>a. r = Inr a \<and> k a = Inr b)"
  by (cases r) auto

text \<open>A loop that threads a state through a list and stops at the first exception.\<close>

fun rfold :: "('a \<Rightarrow> 's \<Rightarrow> 's res) \<Rightarrow> 'a list \<Rightarrow> 's \<Rightarrow> 's res" where
  "rfold f [] s = Inr s"
| "rfold f (x # xs) s = rbind (f x s) (rfold f xs)"

lemma rfold_append: "rfold f (xs @ ys) s = rbind (rfold f xs s) (rfold f ys)"
proof (induction xs arbitrary: s)
  case (Cons x xs)
  then show ?case by (cases "f x s") simp_all
qed simp

text \<open>The invariant rule of the loop.\<close>

lemma rfold_invariant:
  assumes "rfold f xs s = Inr t" and "P s"
    and "\<And>x s t. x \<in> set xs \<Longrightarrow> P s \<Longrightarrow> f x s = Inr t \<Longrightarrow> P t"
  shows "P t"
  using assms
proof (induction xs arbitrary: s)
  case (Cons x xs)
  from Cons.prems(1) obtain u where u: "f x s = Inr u" "rfold f xs u = Inr t"
    by (auto simp: rbind_Inr_iff)
  have "P u" using Cons.prems(2,3) u(1) by (meson list.set_intros(1))
  then show ?case using Cons.IH [OF u(2)] Cons.prems(3) by (meson list.set_intros(2))
qed simp

text \<open>A comprehension whose element expression can raise.\<close>

fun rmap :: "('a \<Rightarrow> 'b res) \<Rightarrow> 'a list \<Rightarrow> 'b list res" where
  "rmap f [] = Inr []"
| "rmap f (x # xs) = rbind (f x) (\<lambda>y. rbind (rmap f xs) (\<lambda>ys. Inr (y # ys)))"

lemma rmap_Inr: "(\<And>x. x \<in> set xs \<Longrightarrow> f x = Inr (g x)) \<Longrightarrow> rmap f xs = Inr (map g xs)"
  by (induction xs) auto

section \<open>Lists\<close>

text \<open>First occurrences, in order: what a loop with a \<open>seen\<close> set keeps.\<close>

fun first_by :: "('a \<Rightarrow> 'k) \<Rightarrow> 'a list \<Rightarrow> 'k set \<Rightarrow> 'a list" where
  "first_by key [] seen = []"
| "first_by key (x # xs) seen =
     (if key x \<in> seen then first_by key xs seen
      else x # first_by key xs (insert (key x) seen))"

lemma first_by_set: "key ` set (first_by key xs seen) = key ` set xs - seen"
  by (induction key xs seen rule: first_by.induct) auto

lemma first_by_distinct: "distinct (map key (first_by key xs seen))"
  by (induction key xs seen rule: first_by.induct) (auto simp: first_by_set image_iff)

lemma first_by_subseq: "subseq (first_by key xs seen) xs"
  by (induction key xs seen rule: first_by.induct) auto

lemma concat_map_append: "concat (map f (xs @ ys)) = concat (map f xs) @ concat (map f ys)"
  by simp

text \<open>Python's \<open>sep.join(parts)\<close>.\<close>

fun py_join :: "'a list \<Rightarrow> 'a list list \<Rightarrow> 'a list" where
  "py_join sep [] = []"
| "py_join sep [x] = x"
| "py_join sep (x # y # ys) = x @ sep @ py_join sep (y # ys)"

lemma py_join_Cons: "xs \<noteq> [] \<Longrightarrow> py_join sep (x # xs) = x @ sep @ py_join sep xs"
  by (cases xs) auto

lemma py_join_append:
  "xs \<noteq> [] \<Longrightarrow> ys \<noteq> [] \<Longrightarrow> py_join sep (xs @ ys) = py_join sep xs @ sep @ py_join sep ys"
proof (induction xs)
  case (Cons x xs)
  then show ?case by (cases xs) (auto simp: py_join_Cons)
qed simp

lemma set_py_join_subset: "set (py_join sep xs) \<subseteq> set sep \<union> (\<Union>x \<in> set xs. set x)"
  by (induction sep xs rule: py_join.induct) auto

lemma first_by_find:
  "map (\<lambda>c. find (\<lambda>d. key d = key c) xs) (first_by key xs seen) = map Some (first_by key xs seen)"
proof -
  have "find (\<lambda>d. key d = key c) xs = Some c" if "c \<in> set (first_by key xs seen)" for c
    using that
  proof (induction key xs seen rule: first_by.induct)
    case (2 key x xs seen)
    have k: "key c \<in> key ` set (first_by key (x # xs) seen)" using "2.prems" by blast
    show ?case
    proof (cases "c = x")
      case False
      then have c: "c \<in> set (first_by key xs (insert (key x) seen)) \<or>
          key x \<in> seen \<and> c \<in> set (first_by key xs seen)"
        using "2.prems" by (auto split: if_splits)
      have "key c \<noteq> key x"
      proof (cases "key x \<in> seen")
        case True
        then show ?thesis using k by (simp only: first_by_set) auto
      next
        case False
        then have "c \<in> set (first_by key xs (insert (key x) seen))" using c by blast
        then have "key c \<in> key ` set (first_by key xs (insert (key x) seen))" by blast
        then show ?thesis by (simp only: first_by_set) auto
      qed
      then show ?thesis using 2 False by (auto split: if_splits)
    qed simp
  qed simp
  then show ?thesis by simp
qed

end
