(* ===== verification/PyNum.thy ===== *)
theory PyNum
  imports Prelude
begin

text \<open>
  Python numbers. A finite \<open>float\<close> is modelled by the rational number it denotes; the
  arithmetic operations are the exact rational operations followed by \<open>fl\<close>, which rounds to
  the nearest binary64 value with ties to even. The exponent range is not bounded (the
  coordinates of the program lie between \<open>10^-3\<close> and \<open>10^3\<close>), so overflow, subnormal
  numbers, infinities and NaN are outside the model, and so is the sign of a zero.
\<close>

section \<open>The binary exponent\<close>

text \<open>\<open>fexp x\<close> is the exponent of a positive number: \<open>2 ^ fexp x \<le> x < 2 ^ (fexp x + 1)\<close>.\<close>

function fexp :: "rat \<Rightarrow> int" where
  "fexp x = (if x \<le> 0 then 0 else if 2 \<le> x then fexp (x / 2) + 1
             else if x < 1 then fexp (2 * x) - 1 else 0)"
  by pat_completeness auto
termination
proof (relation "measure (\<lambda>x. 2 * nat \<lceil>1 / x\<rceil> + nat \<lfloor>x\<rfloor>)", goal_cases)
  case 1
  show ?case by simp
next
  case (2 x)
  have a: "\<lceil>1 / x\<rceil> = 1" using 2 by (intro ceiling_unique) (auto simp: field_simps)
  have b: "\<lceil>1 / (x / 2)\<rceil> = 1" using 2 by (intro ceiling_unique) (auto simp: field_simps)
  have "\<lfloor>x / 2\<rfloor> < \<lfloor>x\<rfloor>" and "0 \<le> \<lfloor>x / 2\<rfloor>" using 2 by linarith+
  then have "nat \<lfloor>x / 2\<rfloor> < nat \<lfloor>x\<rfloor>" by linarith
  then show ?case unfolding in_measure a b by linarith
next
  case (3 x)
  have a: "\<lfloor>2 * x\<rfloor> \<le> 1" using 3 by linarith
  have x: "0 < x" "x < 1" using 3 by auto
  have c: "\<lceil>1 / (2 * x)\<rceil> < \<lceil>1 / x\<rceil>"
  proof -
    define y where "y = 1 / (2 * x)"
    have "1 / x = 2 * y" "2 * y > 1" using x by (auto simp: y_def)
    moreover have "\<lceil>y\<rceil> < \<lceil>2 * y\<rceil>"
    proof (cases "y \<le> 1")
      case True
      then have "\<lceil>y\<rceil> \<le> 1" by (simp add: ceiling_le_iff)
      then show ?thesis using \<open>2 * y > 1\<close> by linarith
    next
      case False
      then show ?thesis by linarith
    qed
    ultimately show ?thesis by (simp add: y_def)
  qed
  have "0 < \<lceil>1 / (2 * x)\<rceil>" using x by simp
  with c have "nat \<lceil>1 / (2 * x)\<rceil> < nat \<lceil>1 / x\<rceil>" by linarith
  then show ?case unfolding in_measure using a by linarith
qed

declare fexp.simps [simp del]

lemma powi_2_pos [simp]: "0 < (2 :: rat) powi k"
  by simp

lemma powi_2_step: "(2 :: rat) powi (k + 1) = 2 * 2 powi k"
  by (simp add: power_int_add)

lemma powi_2_step_minus: "(2 :: rat) powi (k - 1) = 2 powi k / 2"
  by (simp add: power_int_diff)

lemma powi_2_mono: "i \<le> j \<Longrightarrow> (2 :: rat) powi i \<le> 2 powi j"
  by (rule power_int_increasing) auto

lemma powi_2_strict: "(2 :: rat) powi i < 2 powi j \<longleftrightarrow> i < j"
  by (meson linorder_not_less one_less_numeral_iff powi_2_mono power_int_strict_increasing
      semiring_norm(76))

lemma fexp_bounds: "0 < x \<Longrightarrow> 2 powi fexp x \<le> x \<and> x < 2 powi (fexp x + 1)"
proof (induction x rule: fexp.induct)
  case (1 x)
  consider "2 \<le> x" | "x < 1" | "1 \<le> x" "x < 2" by linarith
  then show ?case
  proof cases
    case 1
    then have "2 powi fexp (x / 2) \<le> x / 2 \<and> x / 2 < 2 powi (fexp (x / 2) + 1)"
      using "1.IH"(1) "1.prems" by simp
    then have "2 powi (fexp (x / 2) + 1) \<le> x \<and> x < 2 powi (fexp (x / 2) + 1 + 1)"
      unfolding powi_2_step by linarith
    then show ?thesis using 1 by (simp only: fexp.simps [of x]) simp
  next
    case 2
    then have "2 powi fexp (2 * x) \<le> 2 * x \<and> 2 * x < 2 powi (fexp (2 * x) + 1)"
      using "1.IH"(2) "1.prems" by simp
    then have "2 powi (fexp (2 * x) - 1) \<le> x \<and> x < 2 powi (fexp (2 * x) - 1 + 1)"
      unfolding powi_2_step powi_2_step_minus by linarith
    then show ?thesis using 2 "1.prems" by (simp only: fexp.simps [of x]) simp
  next
    case 3
    then show ?thesis by (simp add: fexp.simps [of x])
  qed
qed

lemma fexp_unique:
  assumes "0 < x" "2 powi e \<le> x" "x < 2 powi (e + 1)"
  shows "fexp x = e"
proof -
  have "2 powi e < (2 :: rat) powi (fexp x + 1)" "2 powi fexp x < (2 :: rat) powi (e + 1)"
    using fexp_bounds [OF assms(1)] assms(2,3) by linarith+
  then show ?thesis by (simp add: powi_2_strict)
qed

lemma fexp_mono: "0 < x \<Longrightarrow> x \<le> y \<Longrightarrow> fexp x \<le> fexp y"
proof -
  assume "0 < x" "x \<le> y"
  then have "2 powi fexp x < (2 :: rat) powi (fexp y + 1)"
    using fexp_bounds [of x] fexp_bounds [of y] by linarith
  then show ?thesis by (simp add: powi_2_strict)
qed

section \<open>Rounding to an integer, ties to even\<close>

text \<open>What Python's \<open>round\<close> and the decimal formatter do with an exact value.\<close>

definition rhe :: "rat \<Rightarrow> int" where
  "rhe x = (let f = \<lfloor>x\<rfloor>; d = x - of_int f in
     if d < 1 / 2 then f else if 1 / 2 < d then f + 1 else if even f then f else f + 1)"

lemma rhe_of_int [simp]: "rhe (of_int m) = m"
  by (simp add: rhe_def)

lemma rhe_err: "\<bar>of_int (rhe x) - x\<bar> \<le> 1 / 2"
proof -
  define f where "f = \<lfloor>x\<rfloor>"
  have "of_int f \<le> x" "x < of_int f + 1" unfolding f_def by linarith+
  then show ?thesis
    unfolding rhe_def Let_def f_def [symmetric] by (auto simp: abs_le_iff split: if_splits)
qed

lemma rhe_mono: "x \<le> y \<Longrightarrow> rhe x \<le> rhe y"
proof (rule ccontr)
  assume "x \<le> y" "\<not> rhe x \<le> rhe y"
  then have "of_int (rhe y) + 1 \<le> (of_int (rhe x) :: rat)" by linarith
  with rhe_err [of x] rhe_err [of y] \<open>x \<le> y\<close>
  have "x = y" "of_int (rhe y) + 1 = (of_int (rhe x) :: rat)" by linarith+
  then show False by simp
qed

lemma rhe_minus: "rhe (- x) = - rhe x"
proof (cases "x = of_int \<lfloor>x\<rfloor>")
  case True
  then show ?thesis by (metis of_int_minus rhe_of_int)
next
  case False
  then have c: "\<lfloor>- x\<rfloor> = - \<lfloor>x\<rfloor> - 1" by linarith
  define f where "f = \<lfloor>x\<rfloor>"
  show ?thesis unfolding rhe_def Let_def c f_def [symmetric] by (auto split: if_splits)
qed

lemma rhe_le_of_int: "x \<le> of_int m \<Longrightarrow> rhe x \<le> m"
  using rhe_mono [of x "of_int m"] by simp

lemma rhe_ge_of_int: "of_int m \<le> x \<Longrightarrow> m \<le> rhe x"
  using rhe_mono [of "of_int m" x] by simp

section \<open>Rounding to binary64\<close>

definition fl :: "rat \<Rightarrow> rat" where
  "fl x = (if x = 0 then 0 else
     let u = 2 powi (fexp \<bar>x\<bar> - 52) in of_int (rhe (x / u)) * u)"

definition is_float :: "rat \<Rightarrow> bool" where
  "is_float x \<longleftrightarrow> (\<exists>m k. \<bar>m\<bar> \<le> 2 ^ 53 \<and> x = of_int m * 2 powi k)"

lemma fl_0 [simp]: "fl 0 = 0"
  by (simp add: fl_def)

lemma fl_minus: "fl (- x) = - fl x"
  by (simp add: fl_def Let_def rhe_minus)

lemma fl_err_powi: "x \<noteq> 0 \<Longrightarrow> \<bar>fl x - x\<bar> \<le> 2 powi (fexp \<bar>x\<bar> - 53)"
proof -
  assume "x \<noteq> 0"
  define u :: rat where "u = 2 powi (fexp \<bar>x\<bar> - 52)"
  have u: "0 < u" "u = 2 * 2 powi (fexp \<bar>x\<bar> - 53)"
    using powi_2_step [of "fexp \<bar>x\<bar> - 53"] by (simp_all add: u_def)
  have "fl x - x = (of_int (rhe (x / u)) - x / u) * u"
    using u \<open>x \<noteq> 0\<close> by (simp add: fl_def Let_def u_def [symmetric] field_simps)
  then have "\<bar>fl x - x\<bar> = \<bar>of_int (rhe (x / u)) - x / u\<bar> * u"
    using u by (simp add: abs_mult)
  also have "\<dots> \<le> 1 / 2 * u" using rhe_err u by (intro mult_right_mono) auto
  finally show ?thesis using u by simp
qed

text \<open>The relative error of one rounding is at most \<open>2 ^ -53\<close>.\<close>

lemma fl_err: "\<bar>fl x - x\<bar> \<le> \<bar>x\<bar> / 2 ^ 53"
proof (cases "x = 0")
  case False
  then have "2 powi fexp \<bar>x\<bar> \<le> \<bar>x\<bar>" using fexp_bounds [of "\<bar>x\<bar>"] by simp
  moreover have "(2 :: rat) powi (fexp \<bar>x\<bar> - 53) = 2 powi fexp \<bar>x\<bar> / 2 ^ 53"
    by (simp add: power_int_diff)
  ultimately have "(2 :: rat) powi (fexp \<bar>x\<bar> - 53) \<le> \<bar>x\<bar> / 2 ^ 53"
    by (simp add: divide_right_mono)
  then show ?thesis using fl_err_powi [OF False] by linarith
qed simp

lemma fl_exact_aux:
  assumes "\<bar>m\<bar> \<le> 2 ^ 53" and x: "x = of_int m * 2 powi k" and "0 < x"
  shows "fl x = x"
proof -
  have "(of_int m :: rat) \<le> 2 ^ 53" using assms(1) by (metis abs_le_D1 of_int_le_iff of_int_numeral of_int_power)
  then have "x \<le> 2 ^ 53 * 2 powi k" unfolding x by (intro mult_right_mono) auto
  also have "\<dots> = 2 powi (53 + k)" by (simp add: power_int_add)
  finally have le: "x \<le> 2 powi (53 + k)" .
  then have "2 powi fexp x \<le> (2 :: rat) powi (53 + k)" using fexp_bounds [OF \<open>0 < x\<close>] by linarith
  then have e: "fexp x \<le> 53 + k" by (meson linorder_not_less powi_2_strict)
  define u :: rat where "u = 2 powi (fexp x - 52)"
  have "\<exists>n. x / u = of_int n"
  proof (cases "fexp x = 53 + k")
    case True
    then have "x = 2 powi (53 + k)" using le fexp_bounds [OF \<open>0 < x\<close>] by simp
    then have "x / u = of_int (2 ^ 52)" using True
      by (simp add: u_def power_int_diff power_int_add)
    then show ?thesis by blast
  next
    case False
    define j where "j = nat (k - (fexp x - 52))"
    have "2 powi k / u = (2 :: rat) powi (k - (fexp x - 52))" by (simp add: u_def power_int_diff)
    also have "\<dots> = of_int (2 ^ j)" using e False by (simp add: j_def power_int_def)
    finally have "of_int m * (2 powi k / u) = of_int (m * 2 ^ j)" by simp
    then have "x / u = of_int (m * 2 ^ j)" by (simp add: x)
    then show ?thesis by blast
  qed
  then obtain n where n: "x / u = of_int n" by blast
  then have "of_int n * u = x" by (simp add: u_def field_simps)
  then show ?thesis using \<open>0 < x\<close> n by (simp add: fl_def Let_def u_def)
qed

lemma fl_exact: "is_float x \<Longrightarrow> fl x = x"
proof -
  assume "is_float x"
  then obtain m k where m: "\<bar>m\<bar> \<le> 2 ^ 53" "x = of_int m * 2 powi k" by (auto simp: is_float_def)
  consider "x = 0" | "0 < x" | "0 < - x" by linarith
  then show "fl x = x"
  proof cases
    case 2
    then show ?thesis using fl_exact_aux [OF m] by simp
  next
    case 3
    then have "fl (- x) = - x" using fl_exact_aux [of "- m" "- x" k] m by simp
    then show ?thesis by (simp add: fl_minus)
  qed simp
qed

lemma is_float_fl [simp]: "is_float (fl x)"
proof (cases "x = 0")
  case True
  show ?thesis unfolding is_float_def True by (rule exI [of _ 0]) simp
next
  case False
  define u :: rat where "u = 2 powi (fexp \<bar>x\<bar> - 52)"
  have u: "0 < u" by (simp add: u_def)
  have "\<bar>x\<bar> < 2 powi (fexp \<bar>x\<bar> + 1)" using fexp_bounds [of "\<bar>x\<bar>"] False by simp
  also have "\<dots> = 2 ^ 53 * u" by (simp add: u_def power_int_add power_int_diff)
  finally have "\<bar>x / u\<bar> \<le> of_int (2 ^ 53)" using u by (simp only: abs_divide) (simp add: field_simps)
  then have "rhe (x / u) \<le> 2 ^ 53" "- (2 ^ 53) \<le> rhe (x / u)"
    using rhe_le_of_int [of "x / u" "2 ^ 53"] rhe_ge_of_int [of "- (2 ^ 53)" "x / u"]
    by (simp_all only: abs_le_iff of_int_minus) (simp_all add: minus_le_iff)
  then have "\<bar>rhe (x / u)\<bar> \<le> 2 ^ 53" by linarith
  then show ?thesis unfolding is_float_def using False
    by (intro exI [of _ "rhe (x / u)"] exI [of _ "fexp \<bar>x\<bar> - 52"]) (simp add: fl_def Let_def u_def)
qed

lemma fl_fl [simp]: "fl (fl x) = fl x"
  by (rule fl_exact) simp

lemma is_float_of_int: "\<bar>m\<bar> \<le> 2 ^ 53 \<Longrightarrow> is_float (of_int m)"
  unfolding is_float_def by (intro exI [of _ m] exI [of _ 0]) simp

lemma is_float_dyadic: "\<bar>m\<bar> \<le> 2 ^ 53 \<Longrightarrow> is_float (of_int m / 2 ^ k)"
  unfolding is_float_def
  by (intro exI [of _ m] exI [of _ "- int k"]) (simp add: power_int_minus field_simps)

lemma fl_of_int: "\<bar>m\<bar> \<le> 2 ^ 53 \<Longrightarrow> fl (of_int m) = of_int m"
  by (intro fl_exact is_float_of_int)

lemma fl_numeral: "(numeral w :: int) \<le> 2 ^ 53 \<Longrightarrow> fl (numeral w) = numeral w"
  using fl_of_int [of "numeral w"] by simp

lemma fl_1 [simp]: "fl 1 = 1"
  using fl_of_int [of 1] by simp

section \<open>Rounding is monotone\<close>

lemma fl_nonneg: "0 \<le> x \<Longrightarrow> 0 \<le> fl x"
proof (cases "x = 0")
  case False
  assume "0 \<le> x"
  then have "0 \<le> rhe (x / 2 powi (fexp \<bar>x\<bar> - 52))" using rhe_ge_of_int [of 0] by simp
  then show ?thesis using False by (simp add: fl_def Let_def)
qed simp

lemma fl_mono_pos: "0 < x \<Longrightarrow> x \<le> y \<Longrightarrow> fl x \<le> fl y"
proof -
  assume x: "0 < x" and xy: "x \<le> y"
  show "fl x \<le> fl y"
  proof (cases "fexp x = fexp y")
    case True
    have "x / 2 powi (fexp y - 52) \<le> y / 2 powi (fexp y - 52)"
      using xy by (intro divide_right_mono) auto
    then have "rhe (x / 2 powi (fexp y - 52)) \<le> rhe (y / 2 powi (fexp y - 52))" by (rule rhe_mono)
    then show ?thesis using x xy True by (simp add: fl_def Let_def)
  next
    case False
    then have lt: "fexp x + 1 \<le> fexp y" using fexp_mono [OF x xy] by simp
    have xb: "x \<le> 2 powi (fexp x + 1)" and yb: "2 powi fexp y \<le> y"
      using fexp_bounds x xy by (auto intro: less_imp_le)
    have "x / 2 powi (fexp x - 52) \<le> of_int (2 ^ 53)"
      using xb by (simp add: power_int_add power_int_diff field_simps)
    then have "rhe (x / 2 powi (fexp x - 52)) \<le> 2 ^ 53" by (rule rhe_le_of_int)
    then have "(of_int (rhe (x / 2 powi (fexp x - 52))) :: rat) \<le> of_int (2 ^ 53)"
      by (simp only: of_int_le_iff)
    then have "of_int (rhe (x / 2 powi (fexp x - 52))) * 2 powi (fexp x - 52)
        \<le> (of_int (2 ^ 53) :: rat) * 2 powi (fexp x - 52)" by (rule mult_right_mono) simp
    also have "\<dots> = 2 powi (fexp x + 1)" by (simp add: power_int_add power_int_diff)
    finally have "fl x \<le> 2 powi (fexp x + 1)" using x by (simp add: fl_def Let_def)
    also have "\<dots> \<le> 2 powi fexp y" using lt by (rule powi_2_mono)
    also have "\<dots> \<le> fl y"
    proof -
      have "of_int (2 ^ 52) \<le> y / 2 powi (fexp y - 52)"
        using yb by (simp add: power_int_diff field_simps)
      then have "2 ^ 52 \<le> rhe (y / 2 powi (fexp y - 52))" by (rule rhe_ge_of_int)
      then have "(of_int (2 ^ 52) :: rat) \<le> of_int (rhe (y / 2 powi (fexp y - 52)))"
        by (simp only: of_int_le_iff)
      then have "of_int (2 ^ 52) * 2 powi (fexp y - 52)
          \<le> (of_int (rhe (y / 2 powi (fexp y - 52))) :: rat) * 2 powi (fexp y - 52)"
        by (rule mult_right_mono) simp
      moreover have "(of_int (2 ^ 52) :: rat) * 2 powi (fexp y - 52) = 2 powi fexp y"
        by (simp add: power_int_diff)
      ultimately have "2 powi fexp y
          \<le> (of_int (rhe (y / 2 powi (fexp y - 52))) :: rat) * 2 powi (fexp y - 52)"
        by (simp only:)
      then show ?thesis using x xy by (simp add: fl_def Let_def)
    qed
    finally show ?thesis .
  qed
qed

lemma fl_mono: "x \<le> y \<Longrightarrow> fl x \<le> fl y"
proof -
  assume xy: "x \<le> y"
  consider "0 < x" | "x \<le> 0" "0 \<le> y" | "0 < - y" by linarith
  then show "fl x \<le> fl y"
  proof cases
    case 1
    then show ?thesis using fl_mono_pos xy by blast
  next
    case 2
    then have "0 \<le> fl (- x)" "0 \<le> fl y" by (intro fl_nonneg; simp)+
    then show ?thesis by (simp add: fl_minus)
  next
    case 3
    then have "fl (- y) \<le> fl (- x)" using xy by (intro fl_mono_pos) auto
    then show ?thesis by (simp add: fl_minus)
  qed
qed

text \<open>The bounds that a float between two floats keeps after one more operation.\<close>

lemma fl_ge: "is_float b \<Longrightarrow> b \<le> x \<Longrightarrow> b \<le> fl x"
  using fl_mono [of b x] fl_exact [of b] by simp

lemma fl_le: "is_float b \<Longrightarrow> x \<le> b \<Longrightarrow> fl x \<le> b"
  using fl_mono [of x b] fl_exact [of b] by simp

lemma fl_abs_err: "\<bar>x\<bar> \<le> b \<Longrightarrow> \<bar>fl x - x\<bar> \<le> b / 2 ^ 53"
proof -
  assume "\<bar>x\<bar> \<le> b"
  then have "\<bar>x\<bar> / 2 ^ 53 \<le> b / 2 ^ 53" by (intro divide_right_mono) auto
  then show ?thesis using fl_err [of x] by linarith
qed

section \<open>Float operations\<close>

text \<open>The operators of two floats; an int operand is converted exactly.\<close>

definition fadd :: "rat \<Rightarrow> rat \<Rightarrow> rat" where
  "fadd a b = fl (a + b)"

definition fsub :: "rat \<Rightarrow> rat \<Rightarrow> rat" where
  "fsub a b = fl (a - b)"

definition fmul :: "rat \<Rightarrow> rat \<Rightarrow> rat" where
  "fmul a b = fl (a * b)"

definition fdiv :: "rat \<Rightarrow> rat \<Rightarrow> rat" where
  "fdiv a b = fl (a / b)"

lemmas fops = fadd_def fsub_def fmul_def fdiv_def

lemma is_float_fops [simp]:
  "is_float (fadd a b)" "is_float (fsub a b)" "is_float (fmul a b)" "is_float (fdiv a b)"
  by (simp_all add: fops)

text \<open>\<open>int(x)\<close> of a float: truncation towards zero.\<close>

definition py_int :: "rat \<Rightarrow> int" where
  "py_int x = (if 0 \<le> x then \<lfloor>x\<rfloor> else \<lceil>x\<rceil>)"

text \<open>The integer square root, by halving the number of binary digits.\<close>

function isqrt :: "int \<Rightarrow> int" where
  "isqrt n = (if n < 1 then 0
     else let s = 2 * isqrt (n div 4) in if (s + 1) * (s + 1) \<le> n then s + 1 else s)"
  by pat_completeness auto
termination
  by (relation "measure nat") auto

declare isqrt.simps [simp del]

lemma isqrt_bounds: "0 \<le> n \<Longrightarrow> 0 \<le> isqrt n \<and> isqrt n * isqrt n \<le> n \<and> n < (isqrt n + 1) * (isqrt n + 1)"
proof (induction n rule: isqrt.induct)
  case (1 n)
  show ?case
  proof (cases "n < 1")
    case True
    then show ?thesis using "1.prems" by (simp add: isqrt.simps [of n])
  next
    case False
    define r where "r = isqrt (n div 4)"
    have r: "0 \<le> r" "r * r \<le> n div 4" "n div 4 < (r + 1) * (r + 1)"
      using "1.IH" [OF False] False by (simp_all add: r_def)
    have "(2 * r) * (2 * r) \<le> n" using r(2) by (simp add: algebra_simps)
    moreover have "n < (2 * r + 2) * (2 * r + 2)"
    proof -
      have "n div 4 + 1 \<le> (r + 1) * (r + 1)" using r(3) by simp
      then have "4 * (n div 4 + 1) \<le> 4 * ((r + 1) * (r + 1))" by simp
      moreover have "n < 4 * (n div 4 + 1)" by simp
      ultimately have "n < 4 * ((r + 1) * (r + 1))" by linarith
      then show ?thesis by (simp add: algebra_simps)
    qed
    ultimately show ?thesis using r(1) False
      by (simp add: isqrt.simps [of n] Let_def r_def [symmetric] algebra_simps)
  qed
qed

text \<open>
  \<open>math.hypot\<close>, rounded correctly: the square root is taken to more than 55 binary digits, with
  an extra digit that is odd when digits are lost, so that rounding it gives the nearest float.
\<close>

definition fl_sqrt :: "rat \<Rightarrow> rat" where
  "fl_sqrt r = (if r \<le> 0 then 0 else
     let k = 60 - fexp r div 2; q = r * 4 powi k; s = isqrt \<lfloor>q\<rfloor>
     in fl (of_int (2 * s + (if of_int (s * s) = q then 0 else 1)) * 2 powi (- k - 1)))"

definition py_hypot :: "rat \<Rightarrow> rat \<Rightarrow> rat" where
  "py_hypot x y = fl_sqrt (x * x + y * y)"

lemma py_hypot_nonneg: "0 \<le> py_hypot x y"
proof -
  have "0 \<le> r \<Longrightarrow> 0 \<le> fl_sqrt r" for r
  proof -
    assume "0 \<le> r"
    have "0 \<le> isqrt \<lfloor>r * 4 powi (60 - fexp r div 2)\<rfloor>"
      using \<open>0 \<le> r\<close> isqrt_bounds by simp
    then show ?thesis by (auto simp: fl_sqrt_def Let_def intro!: fl_nonneg mult_nonneg_nonneg)
  qed
  then show ?thesis by (simp add: py_hypot_def)
qed

text \<open>The square root before the last rounding, and how close its square is.\<close>

lemma fl_eq_0_iff: "fl x = 0 \<longleftrightarrow> x = 0"
proof
  assume "fl x = 0"
  then have "\<bar>x\<bar> \<le> \<bar>x\<bar> / 2 ^ 53" using fl_err [of x] by simp
  then have "\<bar>x\<bar> \<le> 0" by simp
  then show "x = 0" by simp
qed simp

definition raw_sqrt :: "rat \<Rightarrow> rat" where
  "raw_sqrt r = (let k = 60 - fexp r div 2; q = r * 4 powi k; s = isqrt \<lfloor>q\<rfloor>
     in of_int (2 * s + (if of_int (s * s) = q then 0 else 1)) * 2 powi (- k - 1))"

lemma fl_sqrt_raw: "0 < r \<Longrightarrow> fl_sqrt r = fl (raw_sqrt r)"
  by (simp add: fl_sqrt_def raw_sqrt_def Let_def)

lemma sqrt_step:
  fixes x :: rat
  assumes "2 ^ 59 \<le> x"
  shows "2 * x + 1 \<le> x * x / 2 ^ 50"
proof -
  have "2 ^ 59 * x \<le> x * x" using assms by (intro mult_right_mono) auto
  then have "2 ^ 59 * x / 2 ^ 50 \<le> x * x / 2 ^ 50" by (rule divide_right_mono) simp
  moreover have "2 * x + 1 \<le> 2 ^ 59 * x / 2 ^ 50" using assms by simp
  ultimately show ?thesis by linarith
qed

lemma sqrt_upper:
  fixes x :: rat
  assumes "2 ^ 59 \<le> x" "x * x \<le> q" "0 \<le> e" "e \<le> 1 / 2"
  shows "(x + e) * (x + e) \<le> q * (1 + 1 / 2 ^ 50)"
proof -
  have x0: "0 \<le> x" using assms(1) by simp
  have "(x + e) * (x + e) \<le> (x + 1 / 2) * (x + 1 / 2)" using x0 assms(3,4) by (intro mult_mono) auto
  also have "\<dots> = x * x + x + 1 / 4" by (simp add: field_simps)
  also have "\<dots> \<le> x * x + x * x / 2 ^ 50" using sqrt_step [OF assms(1)] x0 by linarith
  also have "\<dots> \<le> q + q / 2 ^ 50" using assms(2) by (intro add_mono divide_right_mono) auto
  finally show ?thesis by (simp add: distrib_left)
qed

lemma sqrt_lower:
  fixes x :: rat
  assumes "2 ^ 59 \<le> x" "q < (x + 1) * (x + 1)" "0 \<le> e"
  shows "q \<le> (x + e) * (x + e) * (1 + 1 / 2 ^ 50)"
proof -
  have x0: "0 \<le> x" using assms(1) by simp
  have "q \<le> x * x + (2 * x + 1)" using assms(2) by (simp add: distrib_left distrib_right)
  also have "\<dots> \<le> x * x + x * x / 2 ^ 50" using sqrt_step [OF assms(1)] by linarith
  also have "\<dots> = x * x * (1 + 1 / 2 ^ 50)" by (simp add: distrib_left)
  also have "\<dots> \<le> (x + e) * (x + e) * (1 + 1 / 2 ^ 50)"
    using x0 assms(3) by (intro mult_right_mono mult_mono) auto
  finally show ?thesis .
qed

lemma four_powi: "(2 :: rat) powi k * 2 powi k = 4 powi k"
  using power_int_mult_distrib [of "2 :: rat" 2 k] by simp

lemma scaled_big:
  assumes "0 < r"
  shows "2 ^ 120 \<le> r * 4 powi (60 - fexp r div 2)"
proof -
  let ?k = "60 - fexp r div 2"
  have "120 \<le> fexp r + (?k + ?k)" by presburger
  then have "(2 :: rat) powi 120 \<le> 2 powi (fexp r + (?k + ?k))" by (rule powi_2_mono)
  also have "\<dots> = 2 powi fexp r * (2 powi ?k * 2 powi ?k)"
    by (subst power_int_add, simp, subst power_int_add, simp, rule refl)
  also have "\<dots> \<le> r * 4 powi ?k"
    unfolding four_powi using fexp_bounds [OF assms] by (intro mult_right_mono) (simp_all add: zero_less_power_int less_imp_le)
  finally show ?thesis by (simp add: power_int_numeral)
qed

lemma sqrt_big:
  fixes x :: rat
  assumes "0 \<le> x" "q < (x + 1) * (x + 1)" "2 ^ 120 \<le> q"
  shows "2 ^ 59 \<le> x"
proof (rule ccontr)
  assume "\<not> 2 ^ 59 \<le> x"
  then have "x + 1 \<le> 2 ^ 60" by simp
  then have "(x + 1) * (x + 1) \<le> 2 ^ 60 * 2 ^ 60" using assms(1) by (intro mult_mono) auto
  then show False using assms(2,3) by simp
qed

lemma raw_sqrt_bounds:
  assumes r: "0 < r"
  shows "0 < raw_sqrt r \<and> raw_sqrt r * raw_sqrt r \<le> r * (1 + 1 / 2 ^ 50) \<and>
         r \<le> raw_sqrt r * raw_sqrt r * (1 + 1 / 2 ^ 50)"
proof -
  define k where "k = 60 - fexp r div 2"
  define q where "q = r * 4 powi k"
  define s where "s = isqrt \<lfloor>q\<rfloor>"
  define p :: rat where "p = 4 powi k"
  have p: "0 < p" by (simp add: p_def zero_less_power_int)
  have q0: "0 < q" using r p by (simp add: q_def p_def [symmetric])
  have q1: "2 ^ 120 \<le> q" unfolding q_def k_def by (rule scaled_big [OF r])
  have s: "0 \<le> s" "s * s \<le> \<lfloor>q\<rfloor>" "\<lfloor>q\<rfloor> < (s + 1) * (s + 1)"
    using isqrt_bounds [of "\<lfloor>q\<rfloor>"] q0 unfolding s_def by auto
  have s1: "of_int s * of_int s \<le> q"
    using s(2) by (metis le_floor_iff of_int_mult)
  have s2: "q < (of_int s + 1) * (of_int s + 1)"
  proof -
    have "q < of_int (\<lfloor>q\<rfloor> + 1)" by linarith
    also have "of_int (\<lfloor>q\<rfloor> + 1) \<le> (of_int ((s + 1) * (s + 1)) :: rat)" using s(3) by (simp only: of_int_le_iff)
    finally show ?thesis by simp
  qed
  define x :: rat where "x = of_int s"
  have x0: "0 \<le> x" using s(1) by (simp add: x_def)
  have x2: "x * x \<le> q" "q < (x + 1) * (x + 1)" using s1 s2 by (simp_all add: x_def)
  have x1: "2 ^ 59 \<le> x" by (rule sqrt_big [OF x0 x2(2) q1])
  note x = x1 x2
  define e :: rat where "e = (if of_int (s * s) = q then 0 else 1 / 2)"
  have e: "0 \<le> e" "e \<le> 1 / 2" by (simp_all add: e_def)
  have h: "(2 :: rat) powi (- k - 1) = inverse (2 powi k) / 2" by (simp add: power_int_diff power_int_minus field_simps)
  have raw: "raw_sqrt r = (x + e) / 2 powi k"
    unfolding raw_sqrt_def Let_def k_def [symmetric] q_def [symmetric] s_def [symmetric] h x_def e_def
    by (simp add: field_simps)
  have pp: "(2 :: rat) powi k * 2 powi k = p" unfolding p_def by (rule four_powi)
  have sq: "raw_sqrt r * raw_sqrt r = (x + e) * (x + e) / p" unfolding raw by (simp add: pp)
  have rq: "r = q / p" using p by (simp add: q_def p_def)
  note a = sqrt_upper [OF x(1,2) e] and b = sqrt_lower [OF x(1,3) e(1)]
  have "0 < raw_sqrt r" unfolding raw using x(1) e by (intro divide_pos_pos) auto
  moreover have "raw_sqrt r * raw_sqrt r \<le> r * (1 + 1 / 2 ^ 50)"
  proof -
    have "(x + e) * (x + e) / p \<le> q * (1 + 1 / 2 ^ 50) / p" using a p by (intro divide_right_mono) auto
    then show ?thesis unfolding sq by (subst rq) simp
  qed
  moreover have "r \<le> raw_sqrt r * raw_sqrt r * (1 + 1 / 2 ^ 50)"
  proof -
    have "q / p \<le> (x + e) * (x + e) * (1 + 1 / 2 ^ 50) / p" using b p by (intro divide_right_mono) auto
    then show ?thesis unfolding sq rq [symmetric] by simp
  qed
  ultimately show ?thesis by blast
qed

lemma fl_sqrt_le:
  assumes "is_float b" "0 \<le> b" "r * (1 + 1 / 2 ^ 50) \<le> b * b"
  shows "fl_sqrt r \<le> b"
proof (cases "0 < r")
  case True
  note R = raw_sqrt_bounds [OF True]
  have "raw_sqrt r \<le> b"
  proof (rule ccontr)
    assume "\<not> raw_sqrt r \<le> b"
    then have "b * b < raw_sqrt r * raw_sqrt r" using assms(2) by (intro mult_strict_mono') auto
    then show False using R assms(3) by linarith
  qed
  then show ?thesis using assms(1) fl_sqrt_raw [OF True] fl_le by simp
next
  case False
  then show ?thesis using assms(2) by (simp add: fl_sqrt_def)
qed

lemma fl_sqrt_ge:
  assumes "is_float b" "0 < b" "b * b * (1 + 1 / 2 ^ 50) \<le> r"
  shows "b \<le> fl_sqrt r"
proof -
  have "0 < b * b * (1 + 1 / 2 ^ 50)" using assms(2) by (simp add: add_pos_pos)
  then have r: "0 < r" using assms(3) by linarith
  note R = raw_sqrt_bounds [OF r]
  have "b \<le> raw_sqrt r"
  proof (rule ccontr)
    assume "\<not> b \<le> raw_sqrt r"
    then have "raw_sqrt r * raw_sqrt r < b * b" using R by (intro mult_strict_mono') auto
    then have "raw_sqrt r * raw_sqrt r * (1 + 1 / 2 ^ 50) < b * b * (1 + 1 / 2 ^ 50)"
      by (intro mult_strict_right_mono) (simp_all add: add_pos_pos)
    then show False using R assms(3) by linarith
  qed
  then show ?thesis using assms(1) fl_sqrt_raw [OF r] fl_ge by simp
qed

lemma fl_sqrt_nonneg: "0 \<le> fl_sqrt r"
  using raw_sqrt_bounds [of r] fl_sqrt_raw [of r] fl_nonneg [of "raw_sqrt r"]
  by (cases "0 < r") (auto simp: fl_sqrt_def)

lemma fl_sqrt_eq_0: "fl_sqrt r = 0 \<longleftrightarrow> r \<le> 0"
  using raw_sqrt_bounds [of r] fl_sqrt_raw [of r]
  by (cases "0 < r") (auto simp: fl_sqrt_def fl_eq_0_iff)

end
