(* ===== verification/PyStr.thy ===== *)
theory PyStr
  imports PyNum
begin

text \<open>
  Python strings and number formatting. A \<open>str\<close> is a list of characters with code points
  below 256; the operations are those of the standard library that the generators use.
  Formatting a float follows CPython: \<open>.nf\<close> prints the exact value of the float rounded half
  to even, and \<open>str\<close> prints the shortest decimal that rounds back to the float.
\<close>

section \<open>Character classes\<close>

definition nl :: char where
  "nl = CHR 0x0A"

definition is_dig :: "char \<Rightarrow> bool" where
  "is_dig c = (c \<in> set ''0123456789'')"

text \<open>\<open>str.isspace\<close> and the class \<open>\s\<close> below code point 256.\<close>

definition is_space :: "char \<Rightarrow> bool" where
  "is_space c = (c \<in> set [CHR 0x20, CHR 0x09, CHR 0x0A, CHR 0x0B, CHR 0x0C, CHR 0x0D,
     CHR 0x1C, CHR 0x1D, CHR 0x1E, CHR 0x1F, CHR 0x85, CHR 0xA0])"

text \<open>\<open>str.isdigit\<close>: the decimal digits and the three superscript digits of Latin-1.\<close>

definition py_isdigit :: "string \<Rightarrow> bool" where
  "py_isdigit s = (s \<noteq> [] \<and> list_all (\<lambda>c. is_dig c \<or> c \<in> set [CHR 0xB2, CHR 0xB3, CHR 0xB9]) s)"

section \<open>Searching\<close>

text \<open>\<open>sub in s\<close>\<close>

fun contains :: "string \<Rightarrow> string \<Rightarrow> bool" where
  "contains sub [] = (sub = [])"
| "contains sub (c # s) = (prefix sub (c # s) \<or> contains sub s)"

text \<open>\<open>s.find(sub)\<close>, which is -1 when there is no occurrence\<close>

fun py_find :: "string \<Rightarrow> string \<Rightarrow> int" where
  "py_find sub [] = (if sub = [] then 0 else -1)"
| "py_find sub (c # s) =
     (if prefix sub (c # s) then 0
      else let i = py_find sub s in if i < 0 then -1 else i + 1)"

text \<open>\<open>s.rfind(c)\<close> for a single character\<close>

fun py_rfind :: "char \<Rightarrow> string \<Rightarrow> int" where
  "py_rfind c [] = -1"
| "py_rfind c (x # s) =
     (let i = py_rfind c s in if 0 \<le> i then i + 1 else if x = c then 0 else -1)"

text \<open>\<open>s[:i]\<close> and \<open>s[i:]\<close>, negative indices counting from the end\<close>

definition slice_ix :: "'a list \<Rightarrow> int \<Rightarrow> nat" where
  "slice_ix s i = (if i < 0 then nat (int (length s) + i) else nat i)"

definition py_upto :: "'a list \<Rightarrow> int \<Rightarrow> 'a list" where
  "py_upto s i = take (slice_ix s i) s"

definition py_from :: "'a list \<Rightarrow> int \<Rightarrow> 'a list" where
  "py_from s i = drop (slice_ix s i) s"

lemma contains_iff: "contains sub s \<longleftrightarrow> (\<exists>u v. s = u @ sub @ v)"
proof (induction s)
  case (Cons c s)
  have "(\<exists>u v. c # s = u @ sub @ v) \<longleftrightarrow>
      (\<exists>v. c # s = sub @ v) \<or> (\<exists>u v. s = u @ sub @ v)"
    by (metis append_Cons append_Nil list.inject neq_Nil_conv)
  then show ?case using Cons.IH by (simp add: prefix_def)
qed simp

lemma contains_refl [simp]: "contains s s"
  by (metis append_Nil append_Nil2 contains_iff)

lemma contains_appendI: "contains sub s \<Longrightarrow> contains sub (u @ s @ v)"
  by (metis append.assoc contains_iff)

lemma contains_set: "contains sub s \<Longrightarrow> set sub \<subseteq> set s"
  by (auto simp: contains_iff)

lemma py_find_neg: "py_find sub s < 0 \<longleftrightarrow> \<not> contains sub s"
  by (induction s) (auto simp: Let_def prefix_def)

lemma py_find_eq_minus1: "\<not> contains sub s \<Longrightarrow> py_find sub s = -1"
  by (induction s) (auto simp: Let_def)

lemma py_rfind_bounds: "py_rfind c s = -1 \<or> (0 \<le> py_rfind c s \<and> py_rfind c s < int (length s))"
  by (induction s) (auto simp: Let_def)

lemma py_rfind_append:
  "py_rfind c (s @ t) =
     (if 0 \<le> py_rfind c t then int (length s) + py_rfind c t else py_rfind c s)"
  using py_rfind_bounds [of c t] by (induction s) (auto simp: Let_def)

lemma py_rfind_absent: "c \<notin> set s \<Longrightarrow> py_rfind c s = -1"
  by (induction s) (auto simp: Let_def)

lemma py_rfind_last: "c \<notin> set t \<Longrightarrow> py_rfind c (s @ c # t) = int (length s)"
  by (simp add: py_rfind_append py_rfind_absent Let_def)

lemma py_slice_append [simp]:
  "py_upto (s @ t) (int (length s)) = s"
  "py_from (s @ t) (int (length s)) = t"
  by (simp_all add: py_upto_def py_from_def slice_ix_def)

section \<open>Stripping, splitting, replacing\<close>

definition py_strip :: "string \<Rightarrow> string" where
  "py_strip s = rev (dropWhile is_space (rev (dropWhile is_space s)))"

text \<open>\<open>s.split(c)\<close> for a single character\<close>

fun py_split :: "char \<Rightarrow> string \<Rightarrow> string list" where
  "py_split c [] = [[]]"
| "py_split c (x # s) =
     (if x = c then [] # py_split c s
      else case py_split c s of [] \<Rightarrow> [[x]] | w # ws \<Rightarrow> (x # w) # ws)"

text \<open>\<open>s.replace(a, b)\<close> for a nonempty \<open>a\<close>\<close>

function py_replace :: "string \<Rightarrow> string \<Rightarrow> string \<Rightarrow> string" where
  "py_replace a b s = (case s of [] \<Rightarrow> []
     | c # t \<Rightarrow> if a \<noteq> [] \<and> prefix a s then b @ py_replace a b (drop (length a) s)
               else c # py_replace a b t)"
  by pat_completeness auto
termination
  by (relation "measure (\<lambda>(a, b, s). length s)") (auto simp: Suc_le_eq)

declare py_replace.simps [simp del]

lemma py_split_neq_Nil [simp]: "py_split c s \<noteq> []"
  by (cases s) (auto split: list.splits)

lemma py_split_absent: "c \<notin> set s \<Longrightarrow> py_split c s = [s]"
  by (induction s) auto

lemma py_split_append: "py_split c (s @ c # t) = py_split c s @ py_split c t"
proof (induction s)
  case (Cons x s)
  then show ?case by (cases "py_split c s") auto
qed simp

text \<open>Splitting a joined list of separator-free parts gives the parts back.\<close>

lemma py_split_join:
  "xs \<noteq> [] \<Longrightarrow> \<forall>x \<in> set xs. c \<notin> set x \<Longrightarrow> py_split c (py_join [c] xs) = xs"
proof (induction xs)
  case (Cons x xs)
  then show ?case
    by (cases xs) (simp_all add: py_split_absent py_split_append)
qed simp

lemma py_join_split: "py_join [c] (py_split c s) = s"
proof (induction s)
  case (Cons x s)
  show ?case
  proof (cases "py_split c s")
    case Nil
    then show ?thesis by simp
  next
    case (Cons w ws)
    then show ?thesis using Cons.IH by (cases ws) auto
  qed
qed simp

lemma py_split_parts: "x \<in> set (py_split c s) \<Longrightarrow> c \<notin> set x"
proof (induction s arbitrary: x)
  case (Cons y s)
  then show ?case by (auto split: list.splits if_splits)
qed simp

text \<open>Lines that each end with a newline, and their relation to \<open>"\n".join(lines)\<close>.\<close>

definition unl :: "string list \<Rightarrow> string" where
  "unl ls = concat (map (\<lambda>l. l @ [nl]) ls)"

lemma unl_simps [simp]: "unl [] = []" "unl (l # ls) = l @ nl # unl ls"
  by (simp_all add: unl_def)

lemma unl_append [simp]: "unl (xs @ ys) = unl xs @ unl ys"
  by (simp add: unl_def)

lemma py_join_unl: "py_join [nl] (ls @ [x]) = unl ls @ x"
proof (induction ls)
  case (Cons l ls)
  then show ?case by (simp add: py_join_Cons)
qed simp

section \<open>Decimal numbers\<close>

definition digit_char :: "int \<Rightarrow> char" where
  "digit_char d = ''0123456789'' ! nat (d mod 10)"

definition digit_val :: "char \<Rightarrow> int" where
  "digit_val c = int (length (takeWhile (\<lambda>x. x \<noteq> c) ''0123456789''))"

text \<open>\<open>str(n)\<close> of a nonnegative int\<close>

function digits :: "int \<Rightarrow> string" where
  "digits n = (if n < 10 then [digit_char n] else digits (n div 10) @ [digit_char n])"
  by pat_completeness auto
termination
  by (relation "measure nat") auto

declare digits.simps [simp del]

definition int_str :: "int \<Rightarrow> string" where
  "int_str i = (if i < 0 then ''-'' @ digits (- i) else digits i)"

text \<open>\<open>int(s)\<close> of a string of decimal digits, which the regular expressions guarantee\<close>

definition dec_val :: "string \<Rightarrow> int" where
  "dec_val s = foldl (\<lambda>a c. 10 * a + digit_val c) 0 s"

lemma digit_char_cases: "digit_char d \<in> set ''0123456789''"
  unfolding digit_char_def by (rule nth_mem) (simp add: nat_less_iff)

lemma is_dig_digit_char [simp]: "is_dig (digit_char d)"
  using digit_char_cases by (simp only: is_dig_def)

lemma digit_val_char: "digit_val (digit_char d) = d mod 10"
proof -
  define k where "k = d mod 10"
  have "0 \<le> k" "k < 10" by (simp_all add: k_def)
  then have "k = 0 \<or> k = 1 \<or> k = 2 \<or> k = 3 \<or> k = 4 \<or> k = 5 \<or> k = 6 \<or> k = 7 \<or> k = 8 \<or> k = 9"
    by presburger
  then have "k \<in> {0, 1, 2, 3, 4, 5, 6, 7, 8, 9}" by simp
  then have "d mod 10 \<in> {0, 1, 2, 3, 4, 5, 6, 7, 8, 9}" by (simp only: k_def)
  then show ?thesis by (auto simp: digit_char_def digit_val_def)
qed

lemma digits_dig [pyfmt]: "c \<in> set (digits n) \<Longrightarrow> is_dig c"
proof (induction n rule: digits.induct)
  case (1 n)
  then show ?case by (subst (asm) (2) digits.simps) (auto split: if_splits)
qed

lemma digits_neq_Nil [simp]: "digits n \<noteq> []"
  by (subst digits.simps) simp

lemma dec_val_digits [simp]: "0 \<le> n \<Longrightarrow> dec_val (digits n) = n"
proof (induction n rule: digits.induct)
  case (1 n)
  have big: "\<not> n < 10 \<Longrightarrow> dec_val (digits (n div 10)) = n div 10" by (intro "1.IH") auto
  show ?case using "1.prems" big
    by (subst digits.simps) (simp add: dec_val_def digit_val_char)
qed

lemma int_str_nonneg: "0 \<le> i \<Longrightarrow> int_str i = digits i"
  by (simp add: int_str_def)

section \<open>Formatting\<close>

text \<open>The fraction digits of \<open>.kf\<close>, padded with zeros on the left.\<close>

definition pad_left :: "nat \<Rightarrow> string \<Rightarrow> string" where
  "pad_left k s = replicate (k - length s) (CHR ''0'') @ s"

definition fmt_fixed :: "nat \<Rightarrow> rat \<Rightarrow> string" where
  "fmt_fixed k x =
     (let n = rhe (\<bar>x\<bar> * 10 ^ k)
      in (if x < 0 then ''-'' else []) @ digits (n div 10 ^ k) @
         (if k = 0 then [] else ''.'' @ pad_left k (digits (n mod 10 ^ k))))"

text \<open>
  \<open>str\<close> of a float with \<open>10^-4 \<le> \<bar>x\<bar> < 2^53\<close>: the fewest decimals, at least one, whose
  nearest decimal rounds back to \<open>x\<close>. Seventeen significant digits always do.
\<close>

fun repr_decimals :: "nat \<Rightarrow> nat \<Rightarrow> rat \<Rightarrow> nat" where
  "repr_decimals 0 k x = k"
| "repr_decimals (Suc fuel) k x =
     (if fl (of_int (rhe (x * 10 ^ k)) / 10 ^ k) = x then k else repr_decimals fuel (Suc k) x)"

definition float_str :: "rat \<Rightarrow> string" where
  "float_str x = fmt_fixed (repr_decimals 21 1 x) x"

text \<open>A number the generators print: an int or a float.\<close>

datatype pynum = PInt int | PFloat rat

fun num_str :: "pynum \<Rightarrow> string" where
  "num_str (PInt i) = int_str i"
| "num_str (PFloat x) = float_str x"

fun num_val :: "pynum \<Rightarrow> rat" where
  "num_val (PInt i) = of_int i"
| "num_val (PFloat x) = x"

text \<open>A float literal of the source with \<open>k\<close> decimals.\<close>

definition lit :: "int \<Rightarrow> nat \<Rightarrow> rat" where
  "lit n k = fl (of_int n / 10 ^ k)"

definition num_chars :: "char set" where
  "num_chars = set ''0123456789.-''"

lemma is_dig_num_chars: "is_dig c \<Longrightarrow> c \<in> num_chars"
  by (auto simp: is_dig_def num_chars_def)

lemma fmt_fixed_chars [pyfmt]: "set (fmt_fixed k x) \<subseteq> num_chars"
  by (auto simp: fmt_fixed_def Let_def pad_left_def dest!: digits_dig is_dig_num_chars)
     (auto simp: num_chars_def)

lemma int_str_chars [pyfmt]: "set (int_str i) \<subseteq> num_chars"
  by (auto simp: int_str_def dest!: digits_dig is_dig_num_chars) (auto simp: num_chars_def)

lemma num_str_chars [pyfmt]: "set (num_str n) \<subseteq> num_chars"
  by (cases n) (simp_all add: float_str_def fmt_fixed_chars int_str_chars)

text \<open>\<open>float(s)\<close> of a string of digits and dots, as the regular expressions select them\<close>

definition parse_float :: "string \<Rightarrow> rat res" where
  "parse_float s =
     (let whole = takeWhile (\<lambda>c. c \<noteq> CHR ''.'') s;
          frac = drop (Suc (length whole)) s
      in if list_all is_dig whole \<and> list_all is_dig frac \<and> (whole \<noteq> [] \<or> frac \<noteq> [])
         then Inr (fl (of_int (dec_val (whole @ frac)) / 10 ^ length frac))
         else Inl ValueError)"

end
