(* ===== verification/PyRegex.thy ===== *)
theory PyRegex
  imports PyStr
begin

text \<open>
  Python's backtracking regular expressions, for the constructs the scripts use: character
  classes, greedy and lazy repetition of a class, alternation, capture groups and the anchors.
  A pattern maps a position of the text to the list of positions where a match can end, in the
  order in which the backtracking matcher tries them; the match that \<open>re\<close> reports is the first.
  Every pattern of the sources consumes at least one character, so the scanning functions never
  meet an empty match.
\<close>

section \<open>Patterns and their matches\<close>

datatype rx =
    Chr "char \<Rightarrow> bool"          \<comment> \<open>one character of a class\<close>
  | Eps
  | Seq rx rx
  | Alt rx rx
  | Rep "char \<Rightarrow> bool"          \<comment> \<open>a class repeated, greedy (\<open>*\<close>)\<close>
  | RepL "char \<Rightarrow> bool"         \<comment> \<open>a class repeated, lazy (\<open>*?\<close>)\<close>
  | Grp nat rx                 \<comment> \<open>a capture group\<close>
  | Bol                        \<comment> \<open>\<open>^\<close> with \<open>re.MULTILINE\<close>\<close>
  | Eol                        \<comment> \<open>\<open>$\<close> without \<open>re.MULTILINE\<close>\<close>

text \<open>A position: the text before it, reversed; the text after it; the groups captured.\<close>

type_synonym rpos = "string \<times> string \<times> (nat \<times> string) list"

fun rx_rep :: "(char \<Rightarrow> bool) \<Rightarrow> string \<Rightarrow> string \<Rightarrow> (nat \<times> string) list \<Rightarrow> rpos list" where
  "rx_rep p b [] g = [(b, [], g)]"
| "rx_rep p b (c # s) g = (if p c then rx_rep p (c # b) s g else []) @ [(b, c # s, g)]"

fun rx_match :: "rx \<Rightarrow> rpos \<Rightarrow> rpos list" where
  "rx_match (Chr p) (b, [], g) = []"
| "rx_match (Chr p) (b, c # s, g) = (if p c then [(c # b, s, g)] else [])"
| "rx_match Eps st = [st]"
| "rx_match (Seq r1 r2) st = concat (map (rx_match r2) (rx_match r1 st))"
| "rx_match (Alt r1 r2) st = rx_match r1 st @ rx_match r2 st"
| "rx_match (Rep p) (b, s, g) = rx_rep p b s g"
| "rx_match (RepL p) (b, s, g) = rev (rx_rep p b s g)"
| "rx_match (Grp n r) (b, s, g) =
     map (\<lambda>(b', s', g'). (b', s', (n, take (length s - length s') s) # g')) (rx_match r (b, s, g))"
| "rx_match Bol (b, s, g) = (if b = [] \<or> hd b = nl then [(b, s, g)] else [])"
| "rx_match Eol (b, s, g) = (if s = [] \<or> s = [nl] then [(b, s, g)] else [])"

text \<open>Building blocks: a literal, \<open>+\<close>, an optional part, a sequence of parts.\<close>

definition ch :: "char \<Rightarrow> rx" where
  "ch c = Chr (\<lambda>x. x = c)"

fun rx_seq :: "rx list \<Rightarrow> rx" where
  "rx_seq [] = Eps"
| "rx_seq (r # rs) = Seq r (rx_seq rs)"

fun rx_alts :: "rx list \<Rightarrow> rx" where
  "rx_alts [] = Eps"
| "rx_alts [r] = r"
| "rx_alts (r # q # rs) = Alt r (rx_alts (q # rs))"

definition rx_plus :: "(char \<Rightarrow> bool) \<Rightarrow> rx" where
  "rx_plus p = Seq (Chr p) (Rep p)"

definition rx_opt :: "rx \<Rightarrow> rx" where
  "rx_opt r = Alt r Eps"

definition rx_lit :: "string \<Rightarrow> rx list" where
  "rx_lit s = map ch s"

section \<open>Scanning\<close>

text \<open>\<open>re.match\<close>: the first match at a position.\<close>

definition rx_first :: "rx \<Rightarrow> string \<Rightarrow> string \<Rightarrow> rpos option" where
  "rx_first r b s = (case rx_match r (b, s, []) of [] \<Rightarrow> None | m # _ \<Rightarrow> Some m)"

text \<open>
  \<open>re.finditer\<close>: the leftmost match, then on from its end. Each match is returned with the text
  before it, its text and its groups.
\<close>

function rx_finditer :: "rx \<Rightarrow> string \<Rightarrow> string \<Rightarrow> (string \<times> string \<times> (nat \<times> string) list) list" where
  "rx_finditer r b s = (case s of [] \<Rightarrow> []
     | c # t \<Rightarrow> (case rx_first r b s of
          None \<Rightarrow> rx_finditer r (c # b) t
        | Some (b', s', g) \<Rightarrow>
            if length s' < length s
            then (rev b, take (length s - length s') s, g) # rx_finditer r b' s'
            else rx_finditer r (c # b) t))"
  by pat_completeness auto
termination
  by (relation "measure (\<lambda>(r, b, s). length s)") auto

declare rx_finditer.simps [simp del]

definition rx_group :: "nat \<Rightarrow> string \<times> string \<times> (nat \<times> string) list \<Rightarrow> string option" where
  "rx_group n m = map_of (snd (snd m)) n"

text \<open>\<open>re.findall\<close> of a pattern with one group, and \<open>re.search(...).group(1)\<close>.\<close>

definition rx_findall1 :: "rx \<Rightarrow> string \<Rightarrow> string list" where
  "rx_findall1 r s = map (\<lambda>m. case rx_group 1 m of None \<Rightarrow> [] | Some x \<Rightarrow> x) (rx_finditer r [] s)"

definition rx_search1 :: "rx \<Rightarrow> string \<Rightarrow> string option" where
  "rx_search1 r s = (case rx_finditer r [] s of [] \<Rightarrow> None | m # _ \<Rightarrow> rx_group 1 m)"

section \<open>Matching one step at a time\<close>

lemma concat_map_concat_map:
  "concat (map f (concat (map g xs))) = concat (map (\<lambda>x. concat (map f (g x))) xs)"
  by (induction xs) auto

lemma rx_match_seq_simps [simp]:
  "rx_match (Seq Eps r) st = rx_match r st"
  "rx_match (Seq (Chr p) r) (b, [], g) = []"
  "rx_match (Seq (Chr p) r) (b, c # s, g) = (if p c then rx_match r (c # b, s, g) else [])"
  "rx_match (Seq (Alt r1 r2) r) st = rx_match (Seq r1 r) st @ rx_match (Seq r2 r) st"
  "rx_match (Seq Bol r) (b, s, g) = (if b = [] \<or> hd b = nl then rx_match r (b, s, g) else [])"
  by simp_all

lemma rx_match_seq_assoc [simp]:
  "rx_match (Seq (Seq r1 r2) r) st = rx_match (Seq r1 (Seq r2 r)) st"
  by (simp add: concat_map_concat_map) (simp add: rx_match.simps(4) [abs_def] o_def)

declare rx_match.simps(4) [simp del]

lemma rx_match_seq_single:
  "rx_match r1 st = [st'] \<Longrightarrow> rx_match (Seq r1 r2) st = rx_match r2 st'"
  by (simp add: rx_match.simps(4))

text \<open>
  A repetition whose continuation cannot start with a character of the class does not
  backtrack: only the longest run counts.
\<close>

definition stops :: "(char \<Rightarrow> bool) \<Rightarrow> string \<Rightarrow> bool" where
  "stops p s = (case s of [] \<Rightarrow> True | c # _ \<Rightarrow> \<not> p c)"

lemma stops_simps [simp]: "stops p []" "stops p (c # s) = (\<not> p c)"
  by (simp_all add: stops_def)

definition refuses :: "rx \<Rightarrow> (char \<Rightarrow> bool) \<Rightarrow> bool" where
  "refuses k p \<longleftrightarrow> (\<forall>b c s g. p c \<longrightarrow> rx_match k (b, c # s, g) = [])"

lemma refuses_chr [simp]: "(\<And>c. p c \<Longrightarrow> \<not> q c) \<Longrightarrow> refuses (Seq (Chr q) k) p"
  by (auto simp: refuses_def)

lemma rx_rep_stop: "stops p s \<Longrightarrow> rx_rep p b s g = [(b, s, g)]"
  by (cases s) auto

lemma rx_match_rep:
  assumes "refuses k p" "list_all p u" "stops p s"
  shows "rx_match (Seq (Rep p) k) (b, u @ s, g) = rx_match k (rev u @ b, s, g)"
  using assms(2)
proof (induction u arbitrary: b)
  case Nil
  then show ?case using assms(3) by (simp add: rx_match.simps(4) rx_rep_stop)
next
  case (Cons c u)
  then show ?case using assms(1) by (simp add: rx_match.simps(4) refuses_def)
qed

lemma rx_match_grp_plus:
  assumes "refuses k p" "list_all p u" "u \<noteq> []" "stops p s"
  shows "rx_match (Seq (Grp n (rx_plus p)) k) (b, u @ s, g) = rx_match k (rev u @ b, s, (n, u) # g)"
proof -
  have rep: "concat (map (rx_match k) (map (\<lambda>(b', s', g'). (b', s', (n, take (length (v @ w @ s) - length s') (v @ w @ s)) # g'))
        (rx_rep p b (w @ s) g))) = rx_match k (rev w @ b, s, (n, v @ w) # g)"
    if "list_all p w" for v w b
    using that
  proof (induction w arbitrary: v b)
    case Nil
    then show ?case using assms(4) by (simp add: rx_rep_stop)
  next
    case (Cons c w)
    then show ?case using Cons.IH [of "v @ [c]" "c # b"] assms(1) by (simp add: refuses_def)
  qed
  obtain c w where u: "u = c # w" using assms(3) by (cases u) auto
  show ?thesis using rep [of w "[c]" "c # b"] assms(2)
    by (simp add: u rx_plus_def rx_match.simps(4))
qed

lemma rx_match_grp_rep:
  assumes "refuses k p" "list_all p u" "stops p s"
  shows "rx_match (Seq (Grp n (Rep p)) k) (b, u @ s, g) = rx_match k (rev u @ b, s, (n, u) # g)"
proof -
  have rep: "concat (map (rx_match k) (map (\<lambda>(b', s', g'). (b', s', (n, take (length (v @ w @ s) - length s') (v @ w @ s)) # g'))
        (rx_rep p b (w @ s) g))) = rx_match k (rev w @ b, s, (n, v @ w) # g)"
    if "list_all p w" for v w b
    using that
  proof (induction w arbitrary: v b)
    case Nil
    then show ?case using assms(3) by (simp add: rx_rep_stop)
  next
    case (Cons c w)
    then show ?case using Cons.IH [of "v @ [c]" "c # b"] assms(1) by (simp add: refuses_def)
  qed
  show ?thesis using rep [of u "[]" b] assms(2) by (simp add: rx_match.simps(4))
qed

lemma rx_match_plus:
  assumes "refuses k p" "list_all p u" "u \<noteq> []" "stops p s"
  shows "rx_match (Seq (rx_plus p) k) (b, u @ s, g) = rx_match k (rev u @ b, s, g)"
proof -
  obtain c w where u: "u = c # w" using assms(3) by (cases u) auto
  show ?thesis using rx_match_rep [OF assms(1) _ assms(4), of w "c # b" g] assms(2)
    by (simp add: u rx_plus_def)
qed

section \<open>Text in which no match can start\<close>

text \<open>
  \<open>needs r ps\<close>: every match of \<open>r\<close> begins with characters of the classes \<open>ps\<close>.
  \<open>dead ps u\<close>: the text \<open>u\<close> already contradicts \<open>ps\<close>, whatever follows it.
\<close>

definition needs :: "rx \<Rightarrow> (char \<Rightarrow> bool) list \<Rightarrow> bool" where
  "needs r ps \<longleftrightarrow> (\<forall>b s g. rx_match r (b, s, g) \<noteq> [] \<longrightarrow>
     length ps \<le> length s \<and> list_all2 (\<lambda>p c. p c) ps (take (length ps) s))"

fun dead :: "(char \<Rightarrow> bool) list \<Rightarrow> string \<Rightarrow> bool" where
  "dead [] u = False"
| "dead ps [] = False"
| "dead (p # ps) (c # u) = (\<not> p c \<or> dead ps u)"

lemma needs_Nil [simp]: "needs r []"
  by (simp add: needs_def)

lemma needs_chr [simp]: "needs k ps \<Longrightarrow> needs (Seq (Chr p) k) (p # ps)"
proof -
  assume k: "needs k ps"
  show "needs (Seq (Chr p) k) (p # ps)" unfolding needs_def
  proof (intro allI impI)
    fix b s g assume m: "rx_match (Seq (Chr p) k) (b, s, g) \<noteq> []"
    then obtain c t where "s = c # t" "p c" "rx_match k (c # b, t, g) \<noteq> []"
      by (cases s) (auto split: if_splits)
    then show "length (p # ps) \<le> length s \<and>
        list_all2 (\<lambda>p c. p c) (p # ps) (take (length (p # ps)) s)"
      using k by (auto simp: needs_def)
  qed
qed

lemma needs_plus: "needs (Seq (rx_plus p) k) [p]"
proof -
  have "needs (Seq (Chr p) (Seq (Rep p) k)) [p]" by simp
  then show ?thesis by (simp add: needs_def rx_plus_def)
qed

lemma dead_append: "dead ps u \<Longrightarrow> dead ps (u @ v)"
  by (induction ps u rule: dead.induct) auto

lemma dead_refutes: "dead ps s \<Longrightarrow> \<not> (length ps \<le> length s \<and> list_all2 (\<lambda>p c. p c) ps (take (length ps) s))"
  by (induction ps s rule: dead.induct) auto

lemma needs_dead: "needs r ps \<Longrightarrow> dead ps s \<Longrightarrow> rx_match r (b, s, g) = []"
  using dead_refutes unfolding needs_def by blast

fun no_start :: "(char \<Rightarrow> bool) list \<Rightarrow> string \<Rightarrow> bool" where
  "no_start ps [] = True"
| "no_start ps (c # u) = (dead ps (c # u) \<and> no_start ps u)"

lemma no_start_append: "no_start ps u \<Longrightarrow> no_start ps v \<Longrightarrow> no_start ps (u @ v)"
  by (induction u) (auto dest: dead_append [of ps _ v])

lemma no_start_first: "list_all (\<lambda>c. \<not> p c) u \<Longrightarrow> no_start (p # ps) u"
  by (induction u) auto

lemma finditer_skip:
  assumes "\<And>i. i < length u \<Longrightarrow> rx_first r (rev (take i u) @ b) (drop i u @ s) = None"
  shows "rx_finditer r b (u @ s) = rx_finditer r (rev u @ b) s"
  using assms
proof (induction u arbitrary: b)
  case (Cons c u)
  have "rx_first r b (c # u @ s) = None" using Cons.prems [of 0] by simp
  moreover have "rx_finditer r (c # b) (u @ s) = rx_finditer r (rev u @ c # b) s"
    using Cons.prems [of "Suc _"] by (intro Cons.IH) fastforce
  ultimately show ?case by (simp add: rx_finditer.simps [of r b "c # u @ s"])
qed simp

lemma finditer_no_start:
  "needs r ps \<Longrightarrow> no_start ps u \<Longrightarrow> rx_finditer r b (u @ s) = rx_finditer r (rev u @ b) s"
proof (induction u arbitrary: b)
  case (Cons c u)
  then have "rx_first r b (c # u @ s) = None"
    by (simp add: rx_first_def needs_dead dead_append [of ps "c # u" s, simplified])
  then show ?case using Cons by (simp add: rx_finditer.simps [of r b "c # u @ s"])
qed simp

lemma finditer_match:
  "rx_first r b s = Some (b', s', g) \<Longrightarrow> length s' < length s \<Longrightarrow>
     rx_finditer r b s = (rev b, take (length s - length s') s, g) # rx_finditer r b' s'"
  by (cases s) (simp_all add: rx_finditer.simps [of r b "_ # _"])

lemma finditer_Nil [simp]: "rx_finditer r b [] = []"
  by (simp add: rx_finditer.simps)

text \<open>A repetition none of whose split points lets the continuation start fails.\<close>

lemma rx_match_rep_dead:
  assumes "needs k ps" "no_start ps u" "dead ps s" "stops p s"
  shows "rx_match (Seq (Rep p) k) (b, u @ s, g) = []"
  using assms(2)
proof (induction u arbitrary: b)
  case Nil
  then show ?case using assms(1,3,4) by (simp add: rx_match.simps(4) rx_rep_stop needs_dead)
next
  case (Cons c u)
  then have "rx_match k (b, c # u @ s, g) = []"
    using needs_dead [OF assms(1) dead_append [of ps "c # u" s]] by simp
  moreover have "rx_match (Seq (Rep p) k) (c # b, u @ s, g) = []"
    using Cons by (intro Cons.IH) auto
  ultimately show ?case by (simp add: rx_match.simps(4))
qed

section \<open>Patterns anchored at the start of a line\<close>

text \<open>Patterns of the shape \<open>^\s*\<close> followed by \<open>k\<close>.\<close>

definition rx_line :: "rx \<Rightarrow> rx" where
  "rx_line k = Seq Bol (Seq (Rep is_space) k)"

text \<open>No match starts in \<open>u\<close>, where \<open>prev\<close> is the character before \<open>u\<close>.\<close>

definition dead_line :: "(char \<Rightarrow> bool) list \<Rightarrow> char \<Rightarrow> string \<Rightarrow> bool" where
  "dead_line ps prev u \<longleftrightarrow> prev \<noteq> nl \<or> dead ps (dropWhile is_space u)"

fun no_line_start :: "(char \<Rightarrow> bool) list \<Rightarrow> char \<Rightarrow> string \<Rightarrow> bool" where
  "no_line_start ps prev [] = True"
| "no_line_start ps prev (c # u) = (dead_line ps prev (c # u) \<and> no_line_start ps c u)"

lemma dead_neq_Nil: "dead ps u \<Longrightarrow> u \<noteq> []"
  by (cases ps) auto

lemma dead_line_append: "dead_line ps prev u \<Longrightarrow> dead_line ps prev (u @ v)"
proof -
  assume d: "dead_line ps prev u"
  show "dead_line ps prev (u @ v)"
  proof (cases "prev = nl")
    case True
    then have "dead ps (dropWhile is_space u)" using d by (simp add: dead_line_def)
    then have "dead ps (dropWhile is_space u @ v)" "dropWhile is_space u \<noteq> []"
      by (auto intro: dead_append dest: dead_neq_Nil)
    then show ?thesis by (auto simp: dead_line_def dropWhile_append dropWhile_eq_Nil_conv)
  qed (simp add: dead_line_def)
qed

lemma no_line_start_append:
  "no_line_start ps prev u \<Longrightarrow> no_line_start ps (last (prev # u)) v \<Longrightarrow> no_line_start ps prev (u @ v)"
proof (induction u arbitrary: prev)
  case (Cons c u)
  then show ?case using dead_line_append [of ps prev "c # u" v] by simp
qed simp

lemma no_line_start_inline: "nl \<notin> set u \<Longrightarrow> prev \<noteq> nl \<Longrightarrow> no_line_start ps prev u"
  by (induction u arbitrary: prev) (auto simp: dead_line_def)

text \<open>The start of the text counts as the position after a newline.\<close>

lemma rx_line_dead:
  assumes "needs k ps" "refuses k is_space" "dead_line ps prev u"
    "b = prev # b' \<or> b = [] \<and> prev = nl"
  shows "rx_match (rx_line k) (b, u @ s, g) = []"
proof (cases "prev = nl")
  case True
  define w v where "w = takeWhile is_space u" and "v = dropWhile is_space u"
  have d: "dead ps v" using assms(3) True by (simp add: dead_line_def v_def)
  then obtain c t where v: "v = c # t" "\<not> is_space c"
    using dead_neq_Nil hd_dropWhile [of is_space u] by (metis list.collapse v_def)
  have u: "u @ s = w @ v @ s" by (simp add: w_def v_def)
  have "list_all is_space w" by (simp add: w_def list_all_iff) (meson set_takeWhileD)
  then have "rx_match (Seq (Rep is_space) k) (b, u @ s, g) = rx_match k (rev w @ b, v @ s, g)"
    unfolding u using v by (intro rx_match_rep assms(2)) auto
  also have "\<dots> = []" using assms(1) d by (intro needs_dead dead_append)
  finally show ?thesis using assms(4) True by (simp add: rx_line_def)
next
  case False
  then show ?thesis using assms(4) by (auto simp: rx_line_def)
qed

lemma finditer_no_line_start:
  "needs k ps \<Longrightarrow> refuses k is_space \<Longrightarrow> no_line_start ps prev u \<Longrightarrow>
     b = prev # b' \<or> b = [] \<and> prev = nl \<Longrightarrow>
     rx_finditer (rx_line k) b (u @ s) = rx_finditer (rx_line k) (rev u @ b) s"
proof (induction u arbitrary: prev b b')
  case (Cons c u)
  have "rx_match (rx_line k) (b, (c # u) @ s, []) = []"
    using Cons.prems by (intro rx_line_dead [of _ ps prev _ _ b']) auto
  then have "rx_first (rx_line k) b (c # u @ s) = None" by (simp add: rx_first_def)
  moreover have "rx_finditer (rx_line k) (c # b) (u @ s) = rx_finditer (rx_line k) (rev u @ c # b) s"
    using Cons.prems by (intro Cons.IH [of c _ b]) auto
  ultimately show ?case by (simp add: rx_finditer.simps [of _ b "c # u @ s"])
qed simp

text \<open>
  Text without a start anywhere has no start at the head of a line either, when its last
  character but the final newline is not blank.
\<close>

lemma no_start_dropWhile: "no_start ps u \<Longrightarrow> dropWhile p u \<noteq> [] \<Longrightarrow> dead ps (dropWhile p u)"
  by (induction u) auto

lemma no_start_line:
  "no_start ps u \<Longrightarrow> u = v @ [c, nl] \<Longrightarrow> \<not> is_space c \<Longrightarrow> no_line_start ps prev u"
proof (induction v arbitrary: u prev)
  case Nil
  then have "dead ps [c, nl]" by simp
  moreover have "c \<noteq> nl" using Nil.prems(3) by (auto simp: is_space_def nl_def)
  ultimately show ?case using Nil.prems by (simp add: dead_line_def)
next
  case (Cons x v)
  have "dropWhile is_space (x # v @ [c, nl]) \<noteq> []"
    using Cons.prems(3) by (simp add: dropWhile_eq_Nil_conv)
  then have "dead ps (dropWhile is_space u)"
    using no_start_dropWhile [OF Cons.prems(1)] Cons.prems(2) by simp
  then have "dead_line ps prev u" by (simp add: dead_line_def)
  moreover have "no_line_start ps x (v @ [c, nl])"
    using Cons.prems by (intro Cons.IH) auto
  ultimately show ?case using Cons.prems(2) by simp
qed

section \<open>Literal starts and lazy repetition\<close>

lemma rx_match_repl:
  assumes "needs k ps"
  shows "no_start ps u \<Longrightarrow> list_all p u \<Longrightarrow>
    \<exists>more. rx_match (Seq (RepL p) k) (b, u @ s, g) = rx_match k (rev u @ b, s, g) @ more"
proof (induction u arbitrary: b)
  case Nil
  have "\<exists>ms. rx_rep p b s g = ms @ [(b, s, g)]" by (cases s) auto
  then show ?case by (auto simp: rx_match.simps(4))
next
  case (Cons c u)
  then have "rx_match k (b, c # u @ s, g) = []"
    using needs_dead [OF assms dead_append [of ps "c # u" s]] by simp
  then show ?case using Cons by (simp add: rx_match.simps(4))
qed

lemma rx_match_seq_rep:
  "rx_match (Seq (Rep p) k) (b, s, g) = concat (map (rx_match k) (rx_rep p b s g))"
  "rx_match (Seq (Grp n r) k) (b, s, g) = concat (map (rx_match k)
     (map (\<lambda>(b', s', g'). (b', s', (n, take (length s - length s') s) # g')) (rx_match r (b, s, g))))"
  by (simp_all add: rx_match.simps(4))

lemma no_start_skip:
  "list_all (\<lambda>c. \<not> p c) u \<Longrightarrow> no_start (p # ps) (u @ v) \<longleftrightarrow> no_start (p # ps) v"
  by (induction u) auto

text \<open>Patterns that start with a parenthesis, a name and a space.\<close>

definition pat :: "string \<Rightarrow> (char \<Rightarrow> bool) list" where
  "pat name = map (\<lambda>c x. x = c) (CHR ''('' # name) @ [is_space]"

lemma needs_lit:
  "needs (rx_seq rs) ps \<Longrightarrow> needs (rx_seq (rx_lit s @ rs)) (map (\<lambda>c x. x = c) s @ ps)"
  by (induction s) (auto simp: rx_lit_def ch_def)

lemma refuses_lit: "\<not> p c \<Longrightarrow> refuses (rx_seq (rx_lit (c # s) @ rs)) p"
  by (auto simp: rx_lit_def ch_def intro: refuses_chr)

lemma refuses_plus: "(\<And>c. p c \<Longrightarrow> \<not> q c) \<Longrightarrow> refuses (Seq (rx_plus q) k) p"
  by (simp add: rx_plus_def refuses_def)

lemma refuses_grp_plus: "(\<And>c. p c \<Longrightarrow> \<not> q c) \<Longrightarrow> refuses (Seq (Grp n (rx_plus q)) k) p"
  by (simp add: rx_plus_def refuses_def rx_match.simps(4))

lemma dig_not_space: "is_dig c \<Longrightarrow> \<not> is_space c"
  by (auto simp: is_dig_def is_space_def)

lemma stops_append: "u \<noteq> [] \<Longrightarrow> list_all (\<lambda>c. \<not> p c) u \<Longrightarrow> stops p (u @ v)"
  by (cases u) auto

lemma dead_not_prefix: "dead (map (\<lambda>c x. x = c) sub) s \<Longrightarrow> \<not> prefix sub s"
proof (induction sub arbitrary: s)
  case (Cons c sub)
  then show ?case by (cases s) auto
qed simp

lemma no_start_contains:
  "no_start (map (\<lambda>c x. x = c) sub) s \<Longrightarrow> sub \<noteq> [] \<Longrightarrow> \<not> contains sub s"
proof (induction s)
  case (Cons c s)
  then show ?case using dead_not_prefix [of sub "c # s"] by simp
qed simp

text \<open>Lines in which no pattern of the list can start.\<close>

definition quiet :: "(char \<Rightarrow> bool) list \<Rightarrow> string list \<Rightarrow> bool" where
  "quiet ps ls \<longleftrightarrow> list_all (\<lambda>l. no_start ps (l @ [nl])) ls"

lemma quiet_append [simp]: "quiet ps (us @ vs) \<longleftrightarrow> quiet ps us \<and> quiet ps vs"
  by (simp add: quiet_def)

lemma quiet_Nil [simp]: "quiet ps []"
  by (simp add: quiet_def)

lemma no_start_unl: "quiet ps ls \<Longrightarrow> no_start ps (unl ls)"
proof (induction ls)
  case (Cons l ls)
  then show ?case using no_start_append [of ps "l @ [nl]" "unl ls"] by (simp add: quiet_def)
qed simp

text \<open>\<open>fails name s\<close>: after an opening parenthesis, \<open>s\<close> contradicts \<open>name\<close> followed by a space.\<close>

fun fails :: "string \<Rightarrow> string \<Rightarrow> bool" where
  "fails [] [] = False"
| "fails [] (c # s) = (\<not> is_space c)"
| "fails (a # n) [] = False"
| "fails (a # n) (c # s) = (if c = a then fails n s else True)"

text \<open>\<open>refutes name s\<close>: \<open>s\<close> contradicts \<open>name\<close>, whatever would follow it.\<close>

fun refutes :: "string \<Rightarrow> string \<Rightarrow> bool" where
  "refutes [] s = False"
| "refutes (a # n) [] = False"
| "refutes (a # n) (c # s) = (if c = a then refutes n s else True)"

lemma refutes_fails: "refutes n s \<Longrightarrow> fails n s"
  by (induction n s rule: refutes.induct) (auto split: if_splits)

lemma refutes_dead: "refutes n s \<Longrightarrow> dead (map (\<lambda>c x. x = c) n) s"
  by (induction n s rule: refutes.induct) (auto split: if_splits)

fun opens :: "(string \<Rightarrow> bool) \<Rightarrow> string \<Rightarrow> bool" where
  "opens P [] = True"
| "opens P (c # s) = (if c = CHR ''('' then P s \<and> opens P s else opens P s)"

definition open_free :: "string \<Rightarrow> bool" where
  "open_free u \<longleftrightarrow> CHR ''('' \<notin> set u"

lemma fails_dead: "fails n s \<longleftrightarrow> dead (pat n) (CHR ''('' # s)"
proof -
  have "fails n s \<longleftrightarrow> dead (map (\<lambda>c x. x = c) n @ [is_space]) s"
    by (induction n s rule: fails.induct) auto
  then show ?thesis by (simp add: pat_def)
qed

lemma opens_no_start:
  assumes "\<And>s. P s \<Longrightarrow> fails n s"
  shows "opens P s \<Longrightarrow> no_start (pat n) s"
proof (induction s)
  case (Cons c s)
  then have "c = CHR ''('' \<Longrightarrow> dead (pat n) (c # s)" using assms fails_dead by simp
  then show ?case using Cons by (auto simp: pat_def split: if_splits)
qed simp

lemma opens_absent:
  assumes "\<And>s. P s \<Longrightarrow> refutes n s"
  shows "opens P s \<Longrightarrow> no_start (map (\<lambda>c x. x = c) (CHR ''('' # n)) s"
proof (induction s)
  case (Cons c s)
  then show ?case using refutes_dead [OF assms, of s] by (auto split: if_splits)
qed simp

lemma opens_skip [simp]: "open_free u \<Longrightarrow> opens P (u @ v) \<longleftrightarrow> opens P v"
  by (induction u) (auto simp: open_free_def)

lemma opens_free [simp]: "open_free u \<Longrightarrow> opens P u"
  using opens_skip [of u P "[]"] by simp

lemma open_free_num: "set u \<subseteq> num_chars \<Longrightarrow> open_free u"
  by (auto simp: open_free_def num_chars_def)

lemma open_free_append [simp]: "open_free (u @ v) \<longleftrightarrow> open_free u \<and> open_free v"
  by (simp add: open_free_def)

definition opens_lines :: "(string \<Rightarrow> bool) \<Rightarrow> string list \<Rightarrow> bool" where
  "opens_lines P ls = list_all (\<lambda>l. opens P (l @ [nl])) ls"

lemma open_free_simps [simp]:
  "open_free []" "open_free (c # u) \<longleftrightarrow> c \<noteq> CHR ''('' \<and> open_free u"
  "open_free (int_str i)" "open_free (fmt_fixed n x)" "open_free (num_str p)" "open_free (float_str x)"
proof -
  show "open_free (float_str x)"
    using num_str_chars [of "PFloat x"] by (intro open_free_num) simp
qed (auto simp: open_free_def intro!: open_free_num [unfolded open_free_def] int_str_chars
       fmt_fixed_chars num_str_chars)

lemma opens_mono: "(\<And>s. P s \<Longrightarrow> Q s) \<Longrightarrow> opens P l \<Longrightarrow> opens Q l"
  by (induction l) (auto split: if_splits)

lemma opens_lines_mono: "(\<And>s. P s \<Longrightarrow> Q s) \<Longrightarrow> opens_lines P ls \<Longrightarrow> opens_lines Q ls"
  unfolding opens_lines_def list_all_iff using opens_mono [of P Q] by blast

lemma opens_lines_simps [simp]:
  "opens_lines P []" "opens_lines P (l # ls) \<longleftrightarrow> opens P (l @ [nl]) \<and> opens_lines P ls"
  "opens_lines P (us @ vs) \<longleftrightarrow> opens_lines P us \<and> opens_lines P vs"
  by (simp_all add: opens_lines_def)

lemma opens_lines_quiet:
  "opens_lines P ls \<Longrightarrow> (\<And>s. P s \<Longrightarrow> fails n s) \<Longrightarrow> quiet (pat n) ls"
  by (auto simp: opens_lines_def quiet_def list_all_iff intro: opens_no_start)

lemma opens_lines_no_start:
  "opens_lines P ls \<Longrightarrow> (\<And>s. P s \<Longrightarrow> fails n s) \<Longrightarrow> no_start (pat n) (unl ls)"
  by (intro no_start_unl opens_lines_quiet)

text \<open>An argument of \<open>emit\<close> may hold several lines.\<close>

lemma opens_lines_absent:
  "opens_lines P ls \<Longrightarrow> (\<And>s. P s \<Longrightarrow> refutes n s) \<Longrightarrow> no_start (map (\<lambda>c x. x = c) (CHR ''('' # n)) (unl ls)"
  by (intro no_start_unl) (auto simp: opens_lines_def quiet_def list_all_iff simp del: list.map intro: opens_absent)

lemma join_nl: "ls \<noteq> [] \<Longrightarrow> py_join [nl] ls @ [nl] = unl ls"
  by (cases ls rule: rev_cases) (simp_all add: py_join_unl)

lemma no_start_line_end:
  "no_start ps u \<Longrightarrow> u = v @ [c] \<Longrightarrow> \<not> is_space c \<Longrightarrow> no_line_start ps prev u"
proof (induction v arbitrary: u prev)
  case Nil
  then show ?case by (simp add: dead_line_def)
next
  case (Cons x v)
  have "dropWhile is_space (x # v @ [c]) \<noteq> []"
    using Cons.prems(3) by (simp add: dropWhile_eq_Nil_conv)
  then have "dead_line ps prev u"
    using no_start_dropWhile [OF Cons.prems(1)] Cons.prems(2) by (simp add: dead_line_def)
  moreover have "no_line_start ps x (v @ [c])"
    using Cons.prems by (intro Cons.IH) auto
  ultimately show ?case using Cons.prems(2) by simp
qed

section \<open>The set of matches\<close>

lemma set_rx_rep:
  "m \<in> set (rx_rep p b s g) \<longleftrightarrow> (\<exists>u t. s = u @ t \<and> list_all p u \<and> m = (rev u @ b, t, g))"
proof (induction p b s g rule: rx_rep.induct)
  case (2 p b c s g)
  have "(\<exists>u t. c # s = u @ t \<and> list_all p u \<and> m = (rev u @ b, t, g)) \<longleftrightarrow>
      m = (b, c # s, g) \<or> p c \<and> (\<exists>u t. s = u @ t \<and> list_all p u \<and> m = (rev u @ c # b, t, g))"
    (is "?L \<longleftrightarrow> ?R")
  proof
    assume ?L
    then obtain u t where u: "c # s = u @ t" "list_all p u" "m = (rev u @ b, t, g)" by blast
    then show ?R by (cases u) auto
  next
    assume ?R
    then show ?L
    proof
      assume "m = (b, c # s, g)"
      then show ?L by (intro exI [of _ "[]"] exI [of _ "c # s"]) simp
    next
      assume "p c \<and> (\<exists>u t. s = u @ t \<and> list_all p u \<and> m = (rev u @ c # b, t, g))"
      then obtain u t where "p c" "s = u @ t" "list_all p u" "m = (rev u @ c # b, t, g)" by blast
      then show ?L by (intro exI [of _ "c # u"] exI [of _ t]) simp
    qed
  qed
  then show ?case using 2 by auto
qed auto

text \<open>Whether a pattern matches at a position at all.\<close>

definition hits :: "rx \<Rightarrow> rpos \<Rightarrow> bool" where
  "hits r st \<longleftrightarrow> rx_match r st \<noteq> []"

lemma hits_first: "rx_first r b s \<noteq> None \<longleftrightarrow> hits r (b, s, [])"
  by (cases "rx_match r (b, s, [])") (auto simp: rx_first_def hits_def)

lemma hits_seq: "hits (Seq r k) st \<longleftrightarrow> (\<exists>st' \<in> set (rx_match r st). hits k st')"
  by (auto simp: hits_def rx_match.simps(4))

lemma hits_simps [simp]:
  "hits Eps st"
  "hits (Seq Eps k) st \<longleftrightarrow> hits k st"
  "hits (Seq (Seq r1 r2) k) st \<longleftrightarrow> hits (Seq r1 (Seq r2 k)) st"
  "hits (Seq (Alt r1 r2) k) st \<longleftrightarrow> hits (Seq r1 k) st \<or> hits (Seq r2 k) st"
  by (auto simp: hits_def)

lemma hits_chr: "hits (Seq (Chr p) k) (b, s, g) \<longleftrightarrow> (\<exists>c t. s = c # t \<and> p c \<and> hits k (c # b, t, g))"
  by (cases s) (auto simp: hits_def)

lemma hits_rep:
  "hits (Seq (Rep p) k) (b, s, g) \<longleftrightarrow> (\<exists>u t. s = u @ t \<and> list_all p u \<and> hits k (rev u @ b, t, g))"
proof
  assume "hits (Seq (Rep p) k) (b, s, g)"
  then obtain st where "st \<in> set (rx_rep p b s g)" "hits k st" by (auto simp: hits_seq)
  then show "\<exists>u t. s = u @ t \<and> list_all p u \<and> hits k (rev u @ b, t, g)"
    by (auto simp: set_rx_rep)
next
  assume "\<exists>u t. s = u @ t \<and> list_all p u \<and> hits k (rev u @ b, t, g)"
  then obtain u t where u: "s = u @ t" "list_all p u" "hits k (rev u @ b, t, g)" by blast
  then have "(rev u @ b, t, g) \<in> set (rx_rep p b s g)" by (auto simp: set_rx_rep)
  then show "hits (Seq (Rep p) k) (b, s, g)" using u(3) by (auto simp: hits_seq)
qed

lemma hits_lit:
  "hits (rx_seq (rx_lit w @ rs)) (b, s, g) \<longleftrightarrow> (\<exists>t. s = w @ t \<and> hits (rx_seq rs) (rev w @ b, t, g))"
proof (induction w arbitrary: b s)
  case (Cons c w)
  show ?case using Cons.IH [of "c # b" ] by (auto simp: rx_lit_def ch_def hits_chr)
qed (simp add: rx_lit_def)

lemma hits_eol: "hits (Seq Eol k) (b, s, g) \<longleftrightarrow> (s = [] \<or> s = [nl]) \<and> hits k (b, s, g)"
  by (auto simp: hits_seq)

lemma hits_word: "hits (Seq (rx_seq (rx_lit w)) k) (b, s, g) \<longleftrightarrow> (\<exists>t. s = w @ t \<and> hits k (rev w @ b, t, g))"
proof (induction w arbitrary: b s)
  case (Cons c w)
  show ?case using Cons.IH [of "c # b" ] by (auto simp: rx_lit_def ch_def hits_chr)
qed (simp add: rx_lit_def)

lemma hits_opt:
  "hits (Seq (rx_opt (Chr p)) k) (b, s, g) \<longleftrightarrow>
     (\<exists>c t. s = c # t \<and> p c \<and> hits k (c # b, t, g)) \<or> hits k (b, s, g)"
  by (simp add: rx_opt_def hits_chr)

text \<open>A repetition that the rest cannot continue takes all it can.\<close>

lemma rep_dropWhile:
  assumes "\<And>t. Q t \<Longrightarrow> stops p t"
  shows "(\<exists>u t. s = u @ t \<and> list_all p u \<and> Q t) \<longleftrightarrow> Q (dropWhile p s)"
proof
  assume "\<exists>u t. s = u @ t \<and> list_all p u \<and> Q t"
  then obtain u t where u: "s = u @ t" "list_all p u" "Q t" by blast
  have "dropWhile p t = t" using assms [OF u(3)] by (cases t) auto
  then show "Q (dropWhile p s)" using u by (simp add: list_all_iff)
next
  assume "Q (dropWhile p s)"
  moreover have "list_all p (takeWhile p s)" by (auto simp: list_all_iff dest: set_takeWhileD)
  moreover have "s = takeWhile p s @ dropWhile p s" by simp
  ultimately show "\<exists>u t. s = u @ t \<and> list_all p u \<and> Q t" by blast
qed

text \<open>What a group can capture, when it holds a class of characters.\<close>

fun groups_in :: "(char \<Rightarrow> bool) \<Rightarrow> rx \<Rightarrow> bool" where
  "groups_in p (Seq r1 r2) = (groups_in p r1 \<and> groups_in p r2)"
| "groups_in p (Alt r1 r2) = (groups_in p r1 \<and> groups_in p r2)"
| "groups_in p (Grp n (Rep q)) = (\<forall>c. q c \<longrightarrow> p c)"
| "groups_in p (Grp n (Seq (Chr q) (Rep q'))) = (\<forall>c. q c \<or> q' c \<longrightarrow> p c)"
| "groups_in p (Grp n r) = False"
| "groups_in p r = True"

definition all_groups :: "(char \<Rightarrow> bool) \<Rightarrow> (nat \<times> string) list \<Rightarrow> bool" where
  "all_groups p g \<longleftrightarrow> (\<forall>(n, u) \<in> set g. list_all p u)"

lemma set_rx_chr:
  "m \<in> set (rx_match (Chr p) (b, s, g)) \<longleftrightarrow> (\<exists>c t. s = c # t \<and> p c \<and> m = (c # b, t, g))"
  by (cases s) auto

lemma all_groups_Cons: "all_groups p (x # g) \<longleftrightarrow> list_all p (snd x) \<and> all_groups p g"
  by (auto simp: all_groups_def)

lemma groups_grp:
  assumes "groups_in p (Grp n r)" "all_groups p g" "(b', s', g') \<in> set (rx_match (Grp n r) (b, s, g))"
  shows "all_groups p g'"
proof -
  obtain g1 where r: "(b', s', g1) \<in> set (rx_match r (b, s, g))"
    and g': "g' = (n, take (length s - length s') s) # g1"
    using assms(3) by auto
  consider q where "r = Rep q" "\<forall>c. q c \<longrightarrow> p c"
    | q q' where "r = Seq (Chr q) (Rep q')" "\<forall>c. q c \<or> q' c \<longrightarrow> p c"
    using assms(1) by (cases r rule: rx.exhaust) (auto elim: groups_in.elims)
  then show ?thesis
  proof cases
    case (1 q)
    then obtain u where "s = u @ s'" "list_all q u" "g1 = g" using r by (auto simp: set_rx_rep)
    then show ?thesis using 1 assms(2) g' by (auto simp: all_groups_Cons list_all_iff)
  next
    case (2 q q')
    then obtain c t where s: "s = c # t" "q c" using r by (cases s) auto
    then obtain u where "t = u @ s'" "list_all q' u" "g1 = g" using r 2 by (auto simp: set_rx_rep)
    then show ?thesis using 2 s assms(2) g' by (auto simp: all_groups_Cons list_all_iff)
  qed
qed

lemma groups_match:
  "groups_in p r \<Longrightarrow> all_groups p g \<Longrightarrow> (b', s', g') \<in> set (rx_match r (b, s, g)) \<Longrightarrow> all_groups p g'"
proof (induction r arbitrary: b s g b' s' g')
  case (Seq r1 r2)
  have "\<exists>st \<in> set (rx_match r1 (b, s, g)). (b', s', g') \<in> set (rx_match r2 st)"
    using Seq.prems(3) unfolding rx_match.simps(4) set_concat set_map by blast
  then obtain st where st: "st \<in> set (rx_match r1 (b, s, g))" "(b', s', g') \<in> set (rx_match r2 st)" ..
  obtain b1 s1 g1 where [simp]: "st = (b1, s1, g1)" by (rule prod_cases3)
  note m = st [unfolded \<open>st = (b1, s1, g1)\<close>]
  have "all_groups p g1" using Seq.IH(1) [OF _ Seq.prems(2) m(1)] Seq.prems(1) by simp
  then show ?case using Seq.IH(2) [OF _ _ m(2)] Seq.prems(1) by simp
next
  case (Alt r1 r2)
  have g: "groups_in p r1" "groups_in p r2" using Alt.prems(1) by simp_all
  have "(b', s', g') \<in> set (rx_match r1 (b, s, g)) \<or> (b', s', g') \<in> set (rx_match r2 (b, s, g))"
    using Alt.prems(3) by simp
  then show ?case
    using Alt.IH(1) [OF g(1) Alt.prems(2)] Alt.IH(2) [OF g(2) Alt.prems(2)] by (elim disjE)
next
  case (Chr q)
  have "\<exists>c t. s = c # t \<and> q c \<and> (b', s', g') = (c # b, t, g)" using Chr.prems(3) unfolding set_rx_chr .
  then show ?case using Chr.prems(2) by clarify
next
  case (Rep q)
  have "\<exists>u t. s = u @ t \<and> list_all q u \<and> (b', s', g') = (rev u @ b, t, g)"
    using Rep.prems(3) unfolding rx_match.simps(6) set_rx_rep .
  then show ?case using Rep.prems(2) by clarify
next
  case (RepL q)
  have "\<exists>u t. s = u @ t \<and> list_all q u \<and> (b', s', g') = (rev u @ b, t, g)"
    using RepL.prems(3) unfolding rx_match.simps(7) set_rev set_rx_rep .
  then show ?case using RepL.prems(2) by clarify
next
  case (Grp n r)
  from Grp.prems show ?case by (rule groups_grp)
qed (simp_all split: if_splits)

lemma groups_first:
  "groups_in p r \<Longrightarrow> rx_first r b s = Some (b', s', g) \<Longrightarrow> all_groups p g"
  using groups_match [of p r "[]" b' s' g b s]
  by (cases "rx_match r (b, s, [])") (auto simp: rx_first_def all_groups_def)

lemma groups_finditer:
  "groups_in p r \<Longrightarrow> m \<in> set (rx_finditer r b s) \<Longrightarrow> all_groups p (snd (snd m))"
proof (induction r b s rule: rx_finditer.induct)
  case (1 r b s)
  show ?case
  proof (cases s)
    case Nil
    then show ?thesis using "1.prems" by simp
  next
    case (Cons c t)
    show ?thesis
    proof (cases "rx_first r b s")
      case None
      then have "m \<in> set (rx_finditer r (c # b) t)"
        using "1.prems"(2) Cons by (simp add: rx_finditer.simps [of r b "c # t"])
      then show ?thesis using "1.IH"(1) [OF Cons None] "1.prems"(1) by blast
    next
      case (Some x)
      obtain b' s' g where x: "x = (b', s', g)" by (cases x)
      have "rx_finditer r b s = (if length s' < length s
          then (rev b, take (length s - length s') s, g) # rx_finditer r b' s' else rx_finditer r (c # b) t)"
        using Cons Some x by (simp add: rx_finditer.simps [of r b "c # t"])
      then have "m \<in> set (if length s' < length s
          then (rev b, take (length s - length s') s, g) # rx_finditer r b' s' else rx_finditer r (c # b) t)"
        using "1.prems"(2) by (simp only:)
      moreover have "all_groups p g" using groups_first "1.prems"(1) Some x by blast
      ultimately show ?thesis
        using "1.IH"(2) [OF Cons Some x [symmetric] refl] "1.IH"(3) [OF Cons Some x [symmetric] refl] "1.prems"(1)
        by (auto split: if_splits)
    qed
  qed
qed

lemma group_all: "all_groups p (snd (snd m)) \<Longrightarrow> rx_group n m = Some u \<Longrightarrow> list_all p u"
  by (auto simp: rx_group_def all_groups_def dest: map_of_SomeD)

lemma groups_findall1: "groups_in p r \<Longrightarrow> u \<in> set (rx_findall1 r s) \<Longrightarrow> list_all p u"
  by (auto simp: rx_findall1_def split: option.splits dest!: groups_finditer group_all)

lemma groups_search1:
  assumes "groups_in p r" "rx_search1 r s = Some u"
  shows "list_all p u"
proof (cases "rx_finditer r [] s")
  case Nil
  then show ?thesis using assms by (simp add: rx_search1_def)
next
  case (Cons m ms)
  then have "all_groups p (snd (snd m))" using groups_finditer [OF assms(1), of m "[]" s] by simp
  then show ?thesis using Cons assms(2) by (auto simp: rx_search1_def intro: group_all)
qed

lemma groups_in_append [simp]:
  "groups_in p (rx_seq (rs @ rs')) \<longleftrightarrow> groups_in p (rx_seq rs) \<and> groups_in p (rx_seq rs')"
  by (induction rs) auto

lemma groups_in_lit [simp]: "groups_in p (rx_seq (rx_lit w))"
  by (induction w) (auto simp: rx_lit_def ch_def)

lemma groups_in_plus [simp]:
  "groups_in p (rx_plus q)" "groups_in p (ch c)" "groups_in p (Grp n (rx_plus q)) \<longleftrightarrow> (\<forall>c. q c \<longrightarrow> p c)"
  by (auto simp: rx_plus_def ch_def)

end
