(* ===== verification/Sexpr.thy ===== *)
theory Sexpr
  imports PyStr
begin

text \<open>
  The parenthesis structure of KiCad files: a grammar of balanced text, the scanner that tracks
  the nesting depth, and the interface \<open>text_action\<close> under which every component proves
  that the text it emits leaves the scanner's state as it found it.
\<close>

section \<open>Text that acts on a state\<close>

text \<open>
  A scanner reads text from left to right and may fail. Its two laws make it an action of the
  concatenation of texts; everything the emitters need follows from them.
\<close>

locale text_action =
  fixes act :: "'s \<Rightarrow> 'a list \<Rightarrow> 's option"
    and ok :: "'s \<Rightarrow> bool"
  assumes act_Nil: "act s [] = Some s"
    and act_append: "act s (u @ v) = Option.bind (act s u) (\<lambda>t. act t v)"
begin

lemma act_bindI: "act s u = Some t \<Longrightarrow> act s (u @ v) = act t v"
  by (simp add: act_append)

lemma act_append_neutral:
  "(\<And>s. ok s \<Longrightarrow> act s u = Some s) \<Longrightarrow> (\<And>s. ok s \<Longrightarrow> act s v = Some s) \<Longrightarrow>
     ok s \<Longrightarrow> act s (u @ v) = Some s"
  by (simp add: act_append)

lemma act_concat_neutral:
  "(\<And>u s. u \<in> set us \<Longrightarrow> ok s \<Longrightarrow> act s u = Some s) \<Longrightarrow> ok s \<Longrightarrow> act s (concat us) = Some s"
  by (induction us) (auto simp: act_Nil act_append)

lemma act_join_neutral:
  assumes "\<And>s. ok s \<Longrightarrow> act s sep = Some s"
    and "\<And>u s. u \<in> set us \<Longrightarrow> ok s \<Longrightarrow> act s u = Some s" and "ok s"
  shows "act s (py_join sep us) = Some s"
  using assms(2,3)
proof (induction us)
  case (Cons u us)
  then show ?case using assms(1)
    by (cases us) (auto simp: act_append)
qed (simp add: act_Nil)

end

section \<open>The depth scanner\<close>

text \<open>\<open>scan d s\<close> is the depth after \<open>s\<close>, or \<open>None\<close> when a parenthesis closes nothing.\<close>

fun scan :: "int \<Rightarrow> string \<Rightarrow> int option" where
  "scan d [] = Some d"
| "scan d (c # s) =
     (if c = CHR ''('' then scan (d + 1) s
      else if c = CHR '')'' then (if d \<le> 0 then None else scan (d - 1) s)
      else scan d s)"

definition parens_free :: "string \<Rightarrow> bool" where
  "parens_free s \<longleftrightarrow> CHR ''('' \<notin> set s \<and> CHR '')'' \<notin> set s"

text \<open>Text that returns to the depth it started from, without going below it.\<close>

definition neutral :: "string \<Rightarrow> bool" where
  "neutral s \<longleftrightarrow> scan 0 s = Some 0"

lemma scan_append: "scan d (u @ v) = Option.bind (scan d u) (\<lambda>e. scan e v)"
  by (induction d u rule: scan.induct) auto

lemma scan_nonneg: "scan d u = Some e \<Longrightarrow> 0 \<le> d \<Longrightarrow> 0 \<le> e"
  by (induction d u rule: scan.induct) (auto split: if_splits)

lemma scan_shift: "scan d u = Some e \<Longrightarrow> 0 \<le> k \<Longrightarrow> scan (d + k) u = Some (e + k)"
proof (induction d u rule: scan.induct)
  case (2 d c s)
  then show ?case by (auto split: if_splits simp: algebra_simps)
qed simp

interpretation depth: text_action scan "\<lambda>d. 0 \<le> d"
  by unfold_locales (simp_all add: scan_append)

text \<open>The same scanner, line by line: a newline does not change the depth.\<close>

fun scan_lines :: "int \<Rightarrow> string list \<Rightarrow> int option" where
  "scan_lines d [] = Some d"
| "scan_lines d (l # ls) = (case scan d l of None \<Rightarrow> None | Some e \<Rightarrow> scan_lines e ls)"

lemma scan_lines_append:
  "scan_lines d (us @ vs) = Option.bind (scan_lines d us) (\<lambda>e. scan_lines e vs)"
  by (induction d us rule: scan_lines.induct) (auto split: option.splits)

interpretation lines: text_action scan_lines "\<lambda>d. 0 \<le> d"
  by unfold_locales (simp_all add: scan_lines_append)

lemma nl_paren [simp]: "nl \<noteq> CHR ''(''" "nl \<noteq> CHR '')''"
  by (simp_all add: nl_def)

lemma scan_lines_one: "scan_lines d [l] = scan d l"
  by (simp split: option.split)

lemma scan_unl_append: "scan d (unl ls @ v) = Option.bind (scan_lines d ls) (\<lambda>e. scan e v)"
  by (induction d ls rule: scan_lines.induct) (auto simp: scan_append split: option.splits)

lemma scan_unl: "scan d (unl ls) = scan_lines d ls"
  using scan_unl_append [of d ls "[]"] by simp

lemma scan_join: "scan d (py_join [nl] ls) = scan_lines d ls"
proof (cases ls rule: rev_cases)
  case (snoc us u)
  have "scan_lines e [u] = scan e u" for e by (rule scan_lines_one)
  then show ?thesis
    using snoc by (simp del: scan_lines.simps add: py_join_unl scan_unl_append scan_lines_append)
qed simp

lemma neutralI: "scan 0 u = Some 0 \<Longrightarrow> neutral u"
  by (simp add: neutral_def)

text \<open>Lists of lines that together return to the depth they started from.\<close>

definition neutral_lines :: "string list \<Rightarrow> bool" where
  "neutral_lines ls \<longleftrightarrow> scan_lines 0 ls = Some 0"

lemma neutral_unl: "neutral (unl ls) \<longleftrightarrow> neutral_lines ls"
  by (simp add: neutral_def neutral_lines_def scan_unl)

lemma neutral_join_iff: "neutral (py_join [nl] ls) \<longleftrightarrow> neutral_lines ls"
  by (simp add: neutral_def neutral_lines_def scan_join)

lemma scan_lines_shift: "scan_lines d ls = Some e \<Longrightarrow> 0 \<le> k \<Longrightarrow> scan_lines (d + k) ls = Some (e + k)"
  using scan_shift [of d "unl ls" e k] by (simp add: scan_unl)

lemma neutral_lines_scan: "neutral_lines ls \<Longrightarrow> 0 \<le> d \<Longrightarrow> scan_lines d ls = Some d"
  using scan_lines_shift [of 0 ls 0 d] by (simp add: neutral_lines_def)

lemma neutral_lines_scan_append [scan]:
  "neutral_lines us \<Longrightarrow> 0 \<le> d \<Longrightarrow> scan_lines d (us @ vs) = scan_lines d vs"
  by (rule lines.act_bindI) (rule neutral_lines_scan)

lemma neutral_lines_Nil [simp]: "neutral_lines []"
  by (simp add: neutral_lines_def)

lemma neutral_lines_append [intro]:
  "neutral_lines us \<Longrightarrow> neutral_lines vs \<Longrightarrow> neutral_lines (us @ vs)"
  using neutral_lines_scan_append [of us 0 vs] by (simp add: neutral_lines_def)

lemma neutral_lines_concat:
  "(\<And>us. us \<in> set uss \<Longrightarrow> neutral_lines us) \<Longrightarrow> neutral_lines (concat uss)"
  unfolding neutral_lines_def
  by (rule lines.act_concat_neutral) (auto intro: neutral_lines_scan simp: neutral_lines_def)

lemma neutral_scan: "neutral u \<Longrightarrow> 0 \<le> d \<Longrightarrow> scan d u = Some d"
  using scan_shift [of 0 u 0 d] by (simp add: neutral_def)

lemma neutral_scan_append [scan]: "neutral u \<Longrightarrow> 0 \<le> d \<Longrightarrow> scan d (u @ v) = scan d v"
  by (rule depth.act_bindI) (rule neutral_scan)

lemma neutral_parens_free: "parens_free u \<Longrightarrow> neutral u"
proof -
  have "parens_free u \<Longrightarrow> scan d u = Some d" for d
    by (induction u) (auto simp: parens_free_def)
  then show "parens_free u \<Longrightarrow> neutral u" by (simp add: neutral_def)
qed

lemma neutral_Nil [simp]: "neutral []"
  by (simp add: neutral_def)

lemma neutral_append [intro]: "neutral u \<Longrightarrow> neutral v \<Longrightarrow> neutral (u @ v)"
  by (simp add: neutral_def scan_append)

lemma neutral_Cons: "c \<noteq> CHR ''('' \<Longrightarrow> c \<noteq> CHR '')'' \<Longrightarrow> neutral (c # u) \<longleftrightarrow> neutral u"
  by (simp add: neutral_def)

lemma neutral_concat: "(\<And>u. u \<in> set us \<Longrightarrow> neutral u) \<Longrightarrow> neutral (concat us)"
  unfolding neutral_def by (rule depth.act_concat_neutral) (auto intro: neutral_scan simp: neutral_def)

lemma neutral_join:
  assumes "neutral sep" "\<And>u. u \<in> set us \<Longrightarrow> neutral u"
  shows "neutral (py_join sep us)"
  unfolding neutral_def
  by (rule depth.act_join_neutral) (use assms in \<open>auto intro: neutral_scan\<close>)

lemma neutral_nl [simp]: "neutral [nl]"
  by (simp add: neutral_def nl_def)

lemma neutral_wrap: "neutral u \<Longrightarrow> neutral (CHR ''('' # u @ CHR '')'' # [])"
  by (simp add: neutral_def scan_append neutral_scan [unfolded neutral_def])

text \<open>The characters of formatted numbers never nest.\<close>

lemma parens_free_num_chars: "set s \<subseteq> num_chars \<Longrightarrow> parens_free s"
  by (auto simp: parens_free_def num_chars_def)

lemma neutral_num [scan, simp]:
  "neutral (fmt_fixed k x)" "neutral (int_str i)" "neutral (num_str n)" "neutral (float_str x)"
  by (intro neutral_parens_free parens_free_num_chars fmt_fixed_chars int_str_chars num_str_chars
        num_str_chars [of "PFloat x", simplified])+

text \<open>Lists of lines that are neutral one by one.\<close>

lemma neutral_lines_all: "(\<And>l. l \<in> set ls \<Longrightarrow> neutral l) \<Longrightarrow> neutral_lines ls"
proof (induction ls)
  case (Cons l ls)
  then have "neutral l" "neutral_lines ls" by auto
  then show ?case by (simp add: neutral_lines_def neutral_def)
qed simp

section \<open>The grammar of balanced text\<close>

inductive balanced :: "string \<Rightarrow> bool" where
  bal_Nil: "balanced []"
| bal_char: "c \<noteq> CHR ''('' \<Longrightarrow> c \<noteq> CHR '')'' \<Longrightarrow> balanced s \<Longrightarrow> balanced (c # s)"
| bal_paren: "balanced s \<Longrightarrow> balanced t \<Longrightarrow> balanced (CHR ''('' # s @ CHR '')'' # t)"

lemma balanced_scan: "balanced s \<Longrightarrow> 0 \<le> d \<Longrightarrow> scan d s = Some d"
  by (induction arbitrary: d rule: balanced.induct) (auto simp: scan_append)

text \<open>Text that scans from depth \<open>n\<close> to 0 is balanced pieces separated by \<open>n\<close> closing parentheses.\<close>

lemma balanced_append: "balanced s \<Longrightarrow> balanced t \<Longrightarrow> balanced (s @ t)"
  by (induction rule: balanced.induct) (auto intro: balanced.intros)

lemma scan_split:
  "scan (int (Suc n)) s = Some 0 \<Longrightarrow>
     \<exists>u v. s = u @ CHR '')'' # v \<and> balanced u \<and> scan (int n) v = Some 0"
proof (induction "length s" arbitrary: s n rule: less_induct)
  case less
  show ?case
  proof (cases s)
    case Nil
    then show ?thesis using less.prems by simp
  next
    case (Cons c t)
    consider "c = CHR ''(''" | "c = CHR '')''" | "c \<noteq> CHR ''(''" "c \<noteq> CHR '')''" by blast
    then show ?thesis
    proof cases
      case 1
      then have "scan (int (Suc (Suc n))) t = Some 0"
        using less.prems Cons by (simp add: algebra_simps)
      then obtain u v where uv: "t = u @ CHR '')'' # v" "balanced u" "scan (int (Suc n)) v = Some 0"
        using less.hyps [of t "Suc n"] Cons by auto
      moreover obtain u' v' where "v = u' @ CHR '')'' # v'" "balanced u'" "scan (int n) v' = Some 0"
        using less.hyps [OF _ uv(3)] uv(1) Cons by auto
      ultimately show ?thesis using 1 Cons
        by (intro exI [of _ "CHR ''('' # u @ CHR '')'' # u'"] exI [of _ v'])
           (auto intro: balanced.intros)
    next
      case 2
      then show ?thesis using less.prems Cons
        by (intro exI [of _ "[]"] exI [of _ t]) (auto intro: balanced.intros)
    next
      case 3
      then have "scan (int (Suc n)) t = Some 0" using less.prems Cons by simp
      then obtain u v where "t = u @ CHR '')'' # v" "balanced u" "scan (int n) v = Some 0"
        using less.hyps [of t n] Cons by auto
      then show ?thesis using 3 Cons
        by (intro exI [of _ "c # u"] exI [of _ v]) (auto intro: balanced.intros)
    qed
  qed
qed

lemma scan_balanced: "scan 0 s = Some 0 \<Longrightarrow> balanced s"
proof (induction "length s" arbitrary: s rule: less_induct)
  case less
  show ?case
  proof (cases s)
    case (Cons c t)
    consider "c = CHR ''(''" | "c = CHR '')''" | "c \<noteq> CHR ''(''" "c \<noteq> CHR '')''" by blast
    then show ?thesis
    proof cases
      case 1
      then have "scan (int (Suc 0)) t = Some 0" using less.prems Cons by simp
      then obtain u v where "t = u @ CHR '')'' # v" "balanced u" "scan (int 0) v = Some 0"
        using scan_split by blast
      then show ?thesis using less.hyps [of v] Cons 1 by (auto intro: balanced.intros)
    next
      case 2
      then show ?thesis using less.prems Cons by simp
    next
      case 3
      then show ?thesis using less.prems less.hyps [of t] Cons by (auto intro: balanced.intros)
    qed
  qed (auto intro: balanced.intros)
qed

lemma balanced_iff_neutral: "balanced s \<longleftrightarrow> neutral s"
  using balanced_scan scan_balanced by (auto simp: neutral_def)

end
