(* ===== verification/Drc.thy ===== *)
theory Drc
  imports PyRegex Sexpr
begin

text \<open>
  The design rule check, \<open>hardware/cirradio-devboard/gen_pcb_drc.py\<close>: the parenthesis balance,
  the net references, the element counts and the board outline of a PCB file, and the report.
  Reading the file is outside the model; its text is an argument.
\<close>

section \<open>Parenthesis balance\<close>

text \<open>\<open>check_parens\<close>: the loop over the characters, which returns early below depth 0.\<close>

fun paren_loop :: "int \<Rightarrow> string \<Rightarrow> bool \<times> int" where
  "paren_loop depth [] = (depth = 0, depth)"
| "paren_loop depth (c # s) =
     (let depth' = (if c = CHR ''('' then depth + 1 else if c = CHR '')'' then depth - 1 else depth)
      in if depth' < 0 then (False, depth') else paren_loop depth' s)"

definition check_parens :: "string \<Rightarrow> bool \<times> int" where
  "check_parens text = paren_loop 0 text"

section \<open>Nets and elements\<close>

text \<open>\<open>^\s*\(net\s+(\d+)\s+"\<close>, after its anchor\<close>

definition net_decl_rx :: rx where
  "net_decl_rx = rx_seq (rx_lit ''(net'' @ [rx_plus is_space, Grp 1 (rx_plus is_dig), rx_plus is_space,
     ch (CHR 0x22)])"

definition collect_nets :: "string \<Rightarrow> int set" where
  "collect_nets text = set (map dec_val (rx_findall1 (rx_line net_decl_rx) text))"

text \<open>The patterns of the element counts, \<open>^\s*\(footprint\s+"\<close> and \<open>^\s*\(segment\s+\<close>, ...\<close>

definition footprint_rx :: rx where
  "footprint_rx = rx_line (rx_seq (rx_lit ''(footprint'' @ [rx_plus is_space, ch (CHR 0x22)]))"

definition element_rx :: "string \<Rightarrow> rx" where
  "element_rx name = rx_line (rx_seq (rx_lit (CHR ''('' # name) @ [rx_plus is_space]))"

definition count_pattern :: "string \<Rightarrow> rx \<Rightarrow> nat" where
  "count_pattern text r = length (rx_finditer r [] text)"

text \<open>\<open>\(segment\s[^)]*\(net\s+(\d+)\)\<close> and the same for vias\<close>

definition net_ref_rx :: "string \<Rightarrow> rx" where
  "net_ref_rx name = rx_seq (rx_lit (CHR ''('' # name) @ [Chr is_space, Rep (\<lambda>c. c \<noteq> CHR '')'')]
     @ rx_lit ''(net'' @ [rx_plus is_space, Grp 1 (rx_plus is_dig), ch (CHR '')'')])"

definition extract_net_refs :: "string \<Rightarrow> rx \<Rightarrow> int list" where
  "extract_net_refs text r = map dec_val (rx_findall1 r text)"

section \<open>Board outline\<close>

definition numc :: "char \<Rightarrow> bool" where
  "numc c = (is_dig c \<or> c = CHR ''.'')"

text \<open>\<open>\(gr_xxx\s+\(start\s+([\d.]+)\s+([\d.]+)\)\s+\(end\s+([\d.]+)\s+([\d.]+)\).*?"Edge\.Cuts"\<close>\<close>

definition outline_rx :: "string \<Rightarrow> rx" where
  "outline_rx shape = rx_seq
     (rx_lit (CHR ''('' # shape) @ [rx_plus is_space] @ rx_lit ''(start'' @
      [rx_plus is_space, Grp 1 (rx_plus numc), rx_plus is_space, Grp 2 (rx_plus numc), ch (CHR '')''),
       rx_plus is_space] @ rx_lit ''(end'' @
      [rx_plus is_space, Grp 3 (rx_plus numc), rx_plus is_space, Grp 4 (rx_plus numc), ch (CHR '')''),
       RepL (\<lambda>c. c \<noteq> nl)] @ rx_lit (CHR 0x22 # ''Edge.Cuts'' @ [CHR 0x22]))"

text \<open>The four coordinates of a match, converted by \<open>float\<close>.\<close>

definition outline_coords :: "string \<times> string \<times> (nat \<times> string) list \<Rightarrow> (rat \<times> rat \<times> rat \<times> rat) res" where
  "outline_coords m =
     (let f = (\<lambda>n. parse_float (case rx_group n m of None \<Rightarrow> [] | Some s \<Rightarrow> s))
      in rbind (f 1) (\<lambda>x1. rbind (f 2) (\<lambda>y1. rbind (f 3) (\<lambda>x2. rbind (f 4) (\<lambda>y2.
           Inr (x1, y1, x2, y2))))))"

fun outline_all :: "(string \<times> string \<times> (nat \<times> string) list) list \<Rightarrow> (rat list \<times> rat list) res" where
  "outline_all [] = Inr ([], [])"
| "outline_all (m # ms) = rbind (outline_coords m) (\<lambda>(x1, y1, x2, y2).
     rbind (outline_all ms) (\<lambda>(xs, ys). Inr (x1 # x2 # xs, y1 # y2 # ys)))"

definition check_board_dimensions :: "string \<Rightarrow> (rat \<times> rat) option res" where
  "check_board_dimensions text =
     (case rx_finditer (outline_rx ''gr_rect'') [] text of
        m # _ \<Rightarrow> rbind (outline_coords m) (\<lambda>(x1, y1, x2, y2).
          Inr (Some (\<bar>fl (x2 - x1)\<bar>, \<bar>fl (y2 - y1)\<bar>)))
      | [] \<Rightarrow>
         (let ms = rx_finditer (outline_rx ''gr_line'') [] text
          in if 4 \<le> length ms
             then rbind (outline_all ms) (\<lambda>(xs, ys).
               Inr (Some (fl (Max (set xs) - Min (set xs)), fl (Max (set ys) - Min (set ys)))))
             else Inr None))"

section \<open>The check\<close>

datatype drc_issue =
    is_Unbalanced: Unbalanced int
  | is_InvalidNets: InvalidNets "int list"
  | NoDimensions
  | WrongDimensions rat rat

record drc_report =
  declared :: "int set"
  n_footprints :: nat
  n_segments :: nat
  n_vias :: nat
  n_zones :: nat
  dims :: "(rat \<times> rat) option"
  issues :: "drc_issue list"
  exit_code :: int

text \<open>\<open>main\<close>, from the text of the file to the report and the exit status.\<close>

definition drc_main :: "string \<Rightarrow> drc_report res" where
  "drc_main text =
     (let (bal, depth) = check_parens text;
          i1 = (if \<not> bal then [Unbalanced depth] else []);
          ns = collect_nets text;
          seg_nets = extract_net_refs text (net_ref_rx ''segment'');
          via_nets = extract_net_refs text (net_ref_rx ''via'');
          invalid = set (seg_nets @ via_nets) - ns;
          i2 = (if invalid \<noteq> {} then [InvalidNets (sorted_list_of_set invalid)] else [])
      in rbind (check_board_dimensions text) (\<lambda>dim.
           let i3 = (case dim of None \<Rightarrow> [NoDimensions]
                     | Some (w, h) \<Rightarrow> (if 1 / 2 < \<bar>fl (w - 160)\<bar> \<or> 1 / 2 < \<bar>fl (h - 100)\<bar>
                                       then [WrongDimensions w h] else []));
               iss = i1 @ i2 @ i3
           in Inr \<lparr>declared = ns,
                   n_footprints = count_pattern text footprint_rx,
                   n_segments = count_pattern text (element_rx ''segment''),
                   n_vias = count_pattern text (element_rx ''via''),
                   n_zones = count_pattern text (element_rx ''zone''),
                   dims = dim, issues = iss,
                   exit_code = (if iss = [] then 0 else 1)\<rparr>))"

text \<open>The lines \<open>main\<close> prints for a report.\<close>

definition list_str :: "int list \<Rightarrow> string" where
  "list_str xs = ''['' @ py_join '', '' (map int_str xs) @ '']''"

fun issue_str :: "drc_issue \<Rightarrow> string" where
  "issue_str (Unbalanced d) = ''S-expression unbalanced (depth='' @ int_str d @ '')''"
| "issue_str (InvalidNets ns) = ''Invalid net references: '' @ list_str ns"
| "issue_str NoDimensions = ''Could not determine board dimensions from Edge.Cuts''"
| "issue_str (WrongDimensions w h) =
     ''Board dimensions '' @ float_str w @ ''x'' @ float_str h @ ''mm, expected 160x100mm''"

definition drc_lines :: "drc_report \<Rightarrow> string list" where
  "drc_lines r =
     [replicate 50 (CHR ''=''), ''CIRRADIO Dev Board DRC Report'', replicate 50 (CHR ''=''),
      ''Nets defined:   '' @ int_str (int (card (declared r))),
      ''Components:     '' @ int_str (int (n_footprints r)),
      ''Segments:       '' @ int_str (int (n_segments r)),
      ''Vias:           '' @ int_str (int (n_vias r)),
      ''Zones:          '' @ int_str (int (n_zones r))] @
     (case dims r of None \<Rightarrow> []
      | Some (w, h) \<Rightarrow> [''Board size:     '' @ fmt_fixed 0 w @ '' x '' @ fmt_fixed 0 h @ '' mm'']) @
     [''Parens balanced: '' @ (if list_ex is_Unbalanced (issues r) then ''No'' else ''Yes''),
      ''Net refs valid:  '' @ (if list_ex is_InvalidNets (issues r) then ''No'' else ''Yes''),
      replicate 50 (CHR ''-'')] @
     (if issues r \<noteq> []
      then ''ISSUES FOUND:'' # map (\<lambda>i. ''  - '' @ issue_str i) (issues r) @ [''Result: FAIL'']
      else [''Result: PASS''])"

section \<open>The patterns on generated text\<close>

lemma needs_net_ref: "needs (net_ref_rx name) (pat name)"
  unfolding net_ref_rx_def pat_def append_assoc
  by (rule needs_lit) simp

lemma needs_decl: "needs net_decl_rx (pat ''net'')" 
  unfolding net_decl_rx_def pat_def
  by (rule needs_lit [of _ _ "''(net''"]) (simp add: needs_plus)

lemma refuses_decl: "refuses net_decl_rx is_space"
  unfolding net_decl_rx_def by (rule refuses_lit) (simp add: is_space_def)

lemma needs_outline: "needs (outline_rx shape) (pat shape)"
  unfolding outline_rx_def pat_def append_assoc
  by (rule needs_lit) (simp add: needs_plus)

lemma decl_match:
  assumes "0 \<le> k" "b = [] \<or> hd b = nl"
  shows \<open>rx_first (rx_line net_decl_rx) b (''  (net '' @ int_str k @ '' '' @ CHR 0x22 # t) =
     Some (CHR 0x22 # '' '' @ rev (int_str k) @ rev ''  (net '' @ b, t, [(1, int_str k)])\<close>
proof -
  let ?q = "rx_seq [ch (CHR 0x22)]"
  let ?p = "Seq (rx_plus is_space) ?q"
  let ?g = "Seq (Grp 1 (rx_plus is_dig)) ?p"
  have d: "list_all is_dig (int_str k)" "int_str k \<noteq> []"
    using assms by (auto simp: list_all_iff digits_dig int_str_def)
  have sp: "is_space (CHR '' '')" by (simp add: is_space_def)
  have "rx_match (rx_line net_decl_rx) (b, ''  (net '' @ int_str k @ '' '' @ CHR 0x22 # t, []) =
      rx_match net_decl_rx ('' '' @ '' '' @ b, ''(net '' @ int_str k @ '' '' @ CHR 0x22 # t, [])"
    using rx_match_rep [OF refuses_decl, of "''  ''" "''(net '' @ int_str k @ '' '' @ CHR 0x22 # t" b "[]"]
      assms(2) by (simp add: rx_line_def is_space_def)
  also have "\<dots> = rx_match (Seq (rx_plus is_space) ?g)
      (rev ''  (net'' @ b, '' '' @ int_str k @ '' '' @ CHR 0x22 # t, [])"
    by (simp add: net_decl_rx_def rx_lit_def ch_def)
  also have "\<dots> = rx_match ?g (rev ''  (net '' @ b, int_str k @ '' '' @ CHR 0x22 # t, [])"
  proof -
    have "refuses ?g is_space" by (rule refuses_grp_plus) (auto dest: dig_not_space)
    moreover have "stops is_space (int_str k @ '' '' @ CHR 0x22 # t)"
      using d by (intro stops_append) (auto simp: list_all_iff dig_not_space)
    ultimately show ?thesis
      using rx_match_plus [of ?g is_space "'' ''" "int_str k @ '' '' @ CHR 0x22 # t" "rev ''  (net'' @ b" "[]"] sp
      by simp
  qed
  also have "\<dots> = rx_match ?p (rev (int_str k) @ rev ''  (net '' @ b, '' '' @ CHR 0x22 # t, [(1, int_str k)])"
    using d by (intro rx_match_grp_plus refuses_plus) (auto simp: dig_not_space is_dig_def)
  also have "\<dots> = rx_match ?q ('' '' @ rev (int_str k) @ rev ''  (net '' @ b, CHR 0x22 # t, [(1, int_str k)])"
  proof -
    have "refuses ?q is_space" by (auto simp: refuses_def ch_def is_space_def)
    then show ?thesis
      using rx_match_plus [of ?q is_space "'' ''" "CHR 0x22 # t"
          "rev (int_str k) @ rev ''  (net '' @ b" "[(1, int_str k)]"] sp
      by (simp add: is_space_def)
  qed
  finally show ?thesis by (simp add: rx_first_def ch_def)
qed

definition rect_tail :: string where
  \<open>rect_tail = '' (stroke (width 0.1) (type solid)) (fill none) (layer ''\<close>

lemma rect_match:
  \<open>\<exists>b'. rx_first (outline_rx ''gr_rect'') b (''(gr_rect (start 0 0) (end 160 100)'' @ rect_tail @ ''"Edge.Cuts"'' @ s) =
     Some (b', s, [(4, ''100''), (3, ''160''), (2, ''0''), (1, ''0'')])\<close>
proof -
  let ?k = \<open>rx_seq (rx_lit ''"Edge.Cuts"'')\<close>
  let ?g = "[(4, ''100''), (3, ''160''), (2, ''0''), (1, ''0'')] :: (nat \<times> string) list"
  have eq: "rx_match (outline_rx ''gr_rect'') (b, ''(gr_rect (start 0 0) (end 160 100)'' @ u, []) = 
     rx_match (Seq (RepL (\<lambda>c. c \<noteq> nl)) ?k) (rev ''(gr_rect (start 0 0) (end 160 100)'' @ b, u, ?g)" for u
    by (simp add: outline_rx_def rx_lit_def ch_def rx_plus_def rx_match_seq_rep is_space_def numc_def is_dig_def)
  have n: "needs ?k [\<lambda>x. x = CHR 0x22]" by (simp add: rx_lit_def ch_def)
  have t: "no_start [\<lambda>x. x = CHR 0x22] rect_tail" "list_all (\<lambda>c. c \<noteq> nl) rect_tail"
    by (simp_all add: rect_tail_def nl_def)
  obtain more where more: \<open>rx_match (Seq (RepL (\<lambda>c. c \<noteq> nl)) ?k)
      (rev ''(gr_rect (start 0 0) (end 160 100)'' @ b, rect_tail @ ''"Edge.Cuts"'' @ s, ?g) =
      rx_match ?k (rev rect_tail @ rev ''(gr_rect (start 0 0) (end 160 100)'' @ b, ''"Edge.Cuts"'' @ s, ?g) @ more\<close>
    using rx_match_repl [OF n t] by blast
  show ?thesis unfolding rx_first_def eq more by (simp add: rx_lit_def ch_def)
qed
lemma element_rx_facts:
  "needs (rx_seq (rx_lit (CHR ''('' # name) @ [rx_plus is_space])) (pat name)"
  "refuses (rx_seq (rx_lit (CHR ''('' # name) @ [rx_plus is_space])) is_space"
  unfolding pat_def by (rule needs_lit; simp add: needs_plus) (rule refuses_lit; simp add: is_space_def)

lemma is_space_paren: "\<not> is_space (CHR '')'')"
  by (simp add: is_space_def)

lemma count_none:
  assumes "no_start (pat name) s" "s = v @ [c, nl]" "\<not> is_space c"
  shows "count_pattern s (element_rx name) = 0"
  using finditer_no_line_start [OF element_rx_facts no_start_line [OF assms], of "[]" nl "[]" "[]"]
  by (simp add: count_pattern_def element_rx_def)

lemma findall1_groups:
  "map (rx_group 1) (rx_finditer r [] s) = map (Some \<circ> f) xs \<Longrightarrow> rx_findall1 r s = map f xs"
proof -
  assume "map (rx_group 1) (rx_finditer r [] s) = map (Some \<circ> f) xs"
  then have "map (case_option [] (\<lambda>x. x)) (map (rx_group 1) (rx_finditer r [] s)) = map f xs"
    by (simp add: o_def)
  then show ?thesis by (simp add: rx_findall1_def o_def)
qed

lemma net_refs_none:
  "no_start (pat name) s \<Longrightarrow> extract_net_refs s (net_ref_rx name) = []"
  using finditer_no_start [OF needs_net_ref, of name s "[]" "[]"]
  by (simp add: extract_net_refs_def rx_findall1_def)

section \<open>What the check decides\<close>

lemma paren_loop_scan:
  "0 \<le> d \<Longrightarrow> paren_loop d s = (case scan d s of Some e \<Rightarrow> (e = 0, e) | None \<Rightarrow> (False, -1))"
  by (induction d s rule: paren_loop.induct) (auto simp: Let_def)

lemma check_parens_eq:
  "check_parens s = (case scan 0 s of Some e \<Rightarrow> (e = 0, e) | None \<Rightarrow> (False, -1))"
  by (simp add: check_parens_def paren_loop_scan)

lemma check_parens_neutral: "fst (check_parens s) \<longleftrightarrow> neutral s"
  by (auto simp: check_parens_eq neutral_def split: option.splits)

lemma fst_check_parens: "fst (check_parens s) \<longleftrightarrow> balanced s"
  by (simp add: check_parens_neutral balanced_iff_neutral)

text \<open>The depth after the first \<open>n\<close> characters, as a difference of counts.\<close>

definition depth_at :: "string \<Rightarrow> nat \<Rightarrow> int" where
  "depth_at s n = int (count_list (take n s) (CHR ''('')) - int (count_list (take n s) (CHR '')''))"

lemma depth_at_simps [simp]:
  "depth_at s 0 = 0"
  "depth_at (c # s) (Suc n) =
     (if c = CHR ''('' then 1 else if c = CHR '')'' then - 1 else 0) + depth_at s n"
  by (simp_all add: depth_at_def)

lemma ex_nat_Suc: "(\<exists>n. Q n) \<longleftrightarrow> Q 0 \<or> (\<exists>n. Q (Suc n))"
  by (metis not0_implies_Suc)

lemma scan_None_iff: "0 \<le> d \<Longrightarrow> scan d s = None \<longleftrightarrow> (\<exists>n. d + depth_at s n < 0)"
proof (induction d s rule: scan.induct)
  case (1 d)
  then show ?case by (simp add: depth_at_def)
next
  case (2 d c s)
  have "(\<exists>n. d + depth_at (c # s) n < 0) \<longleftrightarrow> (\<exists>n. d + depth_at (c # s) (Suc n) < 0)"
    using "2.prems" by (subst ex_nat_Suc) simp
  then show ?case using 2
    by (auto simp: algebra_simps)
       (metis add_diff_cancel_left' depth_at_simps(1) linorder_not_less add.right_neutral
          le_less_trans not_less zle_diff1_eq)
qed

lemma scan_Some_depth: "scan d s = Some e \<Longrightarrow> e = d + depth_at s (length s)"
  by (induction d s rule: scan.induct) (auto split: if_splits)

text \<open>
  C7: \<open>check_parens\<close> accepts exactly the texts of the grammar of balanced parentheses. The depth
  it reports is -1 when some prefix of the text closes more than it opens, and otherwise the
  number of parentheses that stay open at the end.
\<close>

theorem check_parens_balanced:
  "check_parens s =
     (balanced s, if \<exists>n. depth_at s n < 0 then -1 else depth_at s (length s))"
proof (cases "scan 0 s")
  case None
  then show ?thesis
    using scan_None_iff [of 0 s] fst_check_parens [of s] by (simp add: check_parens_eq)
next
  case (Some e)
  then have "\<not> (\<exists>n. depth_at s n < 0)" "e = depth_at s (length s)"
    using scan_None_iff [of 0 s] scan_Some_depth [of 0 s e] by auto
  then show ?thesis using Some fst_check_parens [of s] by (simp add: check_parens_eq)
qed

text \<open>
  C8: the exit status of the design rule check is 0 exactly when the text is balanced, every net
  number that the patterns for segments and vias find is declared, and the outline measures 160
  by 100 mm up to half a millimetre; otherwise it is 1.
\<close>

theorem drc_exit_code:
  assumes "drc_main text = Inr r"
  shows "exit_code r = (if balanced text \<and>
    set (extract_net_refs text (net_ref_rx ''segment'')) \<union>
      set (extract_net_refs text (net_ref_rx ''via'')) \<subseteq> collect_nets text \<and>
    (\<exists>w h. check_board_dimensions text = Inr (Some (w, h)) \<and>
       \<bar>fl (w - 160)\<bar> \<le> 1 / 2 \<and> \<bar>fl (h - 100)\<bar> \<le> 1 / 2) then 0 else 1)"
proof -
  obtain dim where dim: "check_board_dimensions text = Inr dim"
    using assms by (auto simp: drc_main_def rbind_Inr_iff Let_def split: prod.splits)
  obtain bal d where cp: "check_parens text = (bal, d)" by fastforce
  then have "bal \<longleftrightarrow> balanced text" using fst_check_parens [of "text"] by simp
  then show ?thesis
    using assms dim cp
    by (auto simp: drc_main_def Let_def not_less split: option.splits prod.splits if_splits)
qed

text \<open>A three-line board on which the check passes.\<close>

definition tiny_board :: string where
  \<open>tiny_board = py_join [nl] [''(kicad_pcb'', ''  (net 0 "")'',
     ''  (gr_rect (start 0 0) (end 160 100) (layer "Edge.Cuts"))'', '')'']\<close>

lemma tiny_board_passes: "map_sum id exit_code (drc_main tiny_board) = Inr 0"
  by code_simp

theorem drc_exit_code_witness:
  "balanced tiny_board \<and>
   (\<exists>w h. check_board_dimensions tiny_board = Inr (Some (w, h)) \<and> \<bar>fl (w - 160)\<bar> \<le> 1 / 2)"
proof -
  obtain r where "drc_main tiny_board = Inr r" "exit_code r = 0"
    using tiny_board_passes by (cases "drc_main tiny_board") auto
  then show ?thesis using drc_exit_code [of tiny_board r] by (auto split: if_splits)
qed

end
