(* ===== verification/Netlist.thy ===== *)
theory Netlist
  imports Drc "HOL-Library.List_Lexorder" "HOL-Library.Char_ord"
begin

text \<open>
  The first half of \<open>hardware/cirradio-devboard/gen_pcb_netlist.py\<close>: reading components and net
  names from the text of a schematic, and the classification of nets. The second half, the PCB
  file, is in \<open>NetlistDoc\<close>.
\<close>

section \<open>Schematic parsing\<close>

record component =
  reference :: string
  comp_value :: string
  footprint :: string
  lib_id :: string

text \<open>
  The loops that find a matching parenthesis: the text up to and including the one that brings
  the depth back to 0, or \<open>None\<close> when the end of the text comes first.
\<close>

fun take_block :: "int \<Rightarrow> string \<Rightarrow> string option" where
  "take_block depth [] = None"
| "take_block depth (c # s) =
     (if c = CHR ''('' then map_option (Cons c) (take_block (depth + 1) s)
      else if c = CHR '')'' then
        (if depth - 1 = 0 then Some [c] else map_option (Cons c) (take_block (depth - 1) s))
      else map_option (Cons c) (take_block depth s))"

text \<open>The text after the \<open>lib_symbols\<close> section.\<close>

definition schematic_body :: "string \<Rightarrow> string" where
  "schematic_body content =
     (let start = py_find ''(lib_symbols'' content
      in if 0 \<le> start
         then (case take_block 0 (drop (nat start) content) of
                 Some blk \<Rightarrow> drop (nat start + length blk) content
               | None \<Rightarrow> content)
         else content)"

definition quote_free :: "char \<Rightarrow> bool" where
  "quote_free c = (c \<noteq> CHR 0x22)"

text \<open>\<open>\(symbol\s+\(lib_id\s+"([^"]+)"\)\s+\(at\s+[\d.\-e ]+ \d+\)\<close>\<close>

definition at_char :: "char \<Rightarrow> bool" where
  "at_char c = (is_dig c \<or> c \<in> set ''.-e '')"

definition sym_rx :: rx where
  "sym_rx = rx_seq (rx_lit ''(symbol'' @ [rx_plus is_space] @ rx_lit ''(lib_id'' @
     [rx_plus is_space, ch (CHR 0x22), Grp 1 (rx_plus quote_free), ch (CHR 0x22), ch (CHR '')''),
      rx_plus is_space] @ rx_lit ''(at'' @
     [rx_plus is_space, rx_plus at_char, ch (CHR '' ''), rx_plus is_dig, ch (CHR '')'')])"

text \<open>\<open>\(property\s+"NAME"\s+"([^"]+)"\<close>; the footprint's value may be empty.\<close>

definition property_rx :: "string \<Rightarrow> rx \<Rightarrow> rx" where
  "property_rx name val = rx_seq (rx_lit ''(property'' @ [rx_plus is_space] @
     rx_lit (CHR 0x22 # name @ [CHR 0x22]) @ [rx_plus is_space, ch (CHR 0x22), Grp 1 val, ch (CHR 0x22)])"

definition property_of :: "string \<Rightarrow> rx \<Rightarrow> string \<Rightarrow> string" where
  "property_of name val block =
     (case rx_search1 (property_rx name val) block of None \<Rightarrow> [] | Some v \<Rightarrow> v)"

text \<open>\<open>\(NAME\s+"([^"]+)"\<close> for the three kinds of label\<close>

definition label_rx :: "string \<Rightarrow> rx" where
  "label_rx name = rx_seq (rx_lit (CHR ''('' # name) @
     [rx_plus is_space, ch (CHR 0x22), Grp 1 (rx_plus quote_free), ch (CHR 0x22)])"

text \<open>One match of the symbol pattern: a power net, nothing, or a component.\<close>

definition parse_symbol ::
    "string \<Rightarrow> string \<times> string \<times> (nat \<times> string) list \<Rightarrow>
       component list \<times> string set \<Rightarrow> component list \<times> string set" where
  "parse_symbol body m st =
     (let lib = (case rx_group 1 m of None \<Rightarrow> [] | Some x \<Rightarrow> x);
          rest = drop (length (fst m)) body;
          block = (case take_block 0 rest of Some blk \<Rightarrow> blk | None \<Rightarrow> rest);
          ref = property_of ''Reference'' (rx_plus quote_free) block;
          val = property_of ''Value'' (rx_plus quote_free) block;
          fp = property_of ''Footprint'' (Rep quote_free) block;
          (comps, nets) = st
      in if prefix ''power:'' lib then
           (if val \<noteq> [] \<and> val \<noteq> ''PWR_FLAG'' then (comps, insert val nets) else st)
         else if prefix ''#'' ref then st
         else (comps @ [\<lparr>reference = ref, comp_value = val, footprint = fp, lib_id = lib\<rparr>], nets))"

definition parse_schematic :: "string \<Rightarrow> component list \<times> string set" where
  "parse_schematic content =
     (let body = schematic_body content;
          (comps, nets) = fold (parse_symbol body) (rx_finditer sym_rx [] body) ([], {})
      in (comps, nets \<union> set (rx_findall1 (label_rx ''global_label'') body)
                 \<union> set (rx_findall1 (label_rx ''hierarchical_label'') body)
                 \<union> set (rx_findall1 (label_rx ''label'') body)))"

section \<open>Net classes\<close>

datatype net_class = Default | Power_Wide | Power | DDR3_DiffPair | DDR3 | LVDS | RF_50ohm

fun class_name :: "net_class \<Rightarrow> string" where
  "class_name Default = ''Default''"
| "class_name Power_Wide = ''Power_Wide''"
| "class_name Power = ''Power''"
| "class_name DDR3_DiffPair = ''DDR3_DiffPair''"
| "class_name DDR3 = ''DDR3''"
| "class_name LVDS = ''LVDS''"
| "class_name RF_50ohm = ''RF_50ohm''"

text \<open>\<open>DDR_(CK|DQS)\d*[_]?[PN]?$\<close>\<close>

definition diffpair_rx :: rx where
  "diffpair_rx = rx_seq (rx_lit ''DDR_'' @
     [rx_alts [rx_seq (rx_lit ''CK''), rx_seq (rx_lit ''DQS'')], Rep is_dig,
      rx_opt (ch (CHR ''_'')), rx_opt (Chr (\<lambda>c. c \<in> set ''PN'')), Eol])"

text \<open>\<open>DDR_(DQ|A|BA|CK|DM|DQS|RAS|CAS|WE|CS|CKE|ODT|RESET)\<close>\<close>

definition ddr_rx :: rx where
  "ddr_rx = rx_seq (rx_lit ''DDR_'' @
     [rx_alts (map (\<lambda>s. rx_seq (rx_lit s))
        [''DQ'', ''A'', ''BA'', ''CK'', ''DM'', ''DQS'', ''RAS'', ''CAS'', ''WE'', ''CS'', ''CKE'',
         ''ODT'', ''RESET''])])"

definition power_nets :: "string list" where
  "power_nets = [''+5V'', ''+3V3'', ''+3V3A'', ''+1V8'', ''+1V5'', ''+1V35'', ''+1V0'',
     ''VTT'', ''VTTREF'', ''+5V_PA'', ''+1V3_AD'']"

definition lvds_prefixes :: "string list" where
  "lvds_prefixes = [''P0_D'', ''P1_D'', ''DATA_CLK_P'', ''DATA_CLK_N'', ''FB_CLK_P'', ''FB_CLK_N'',
     ''RX_FRAME_P'', ''RX_FRAME_N'', ''TX_FRAME_P'', ''TX_FRAME_N'']"

definition rf_nets :: "string list" where
  "rf_nets = [''AD_RX1A_P'', ''AD_RX1A_N'', ''AD_TX1A'', ''AD_RX1B_P'', ''AD_RX1B_N'', ''AD_TX1B'',
     ''AD_RX2A_P'', ''AD_RX2A_N'', ''AD_TX2A'']"

definition classify_net :: "string \<Rightarrow> net_class" where
  "classify_net name =
     (if name \<in> set [''+12V'', ''+12V_IN''] then Power_Wide
      else if name \<in> set power_nets then Power
      else if rx_first diffpair_rx [] name \<noteq> None then DDR3_DiffPair
      else if rx_first ddr_rx [] name \<noteq> None then DDR3
      else if list_ex (\<lambda>p. prefix p name) lvds_prefixes then LVDS
      else if name \<in> set rf_nets then RF_50ohm
      else Default)"

text \<open>Net classes are ordered as the strings that name them, which \<open>sorted\<close> compares.\<close>

instantiation net_class :: linorder
begin

definition less_eq_net_class :: "net_class \<Rightarrow> net_class \<Rightarrow> bool" where
  "less_eq_net_class a b \<longleftrightarrow> class_name a \<le> class_name b"

definition less_net_class :: "net_class \<Rightarrow> net_class \<Rightarrow> bool" where
  "less_net_class a b \<longleftrightarrow> class_name a < class_name b"

instance
proof
  fix a b c :: net_class
  show "(a < b) = (a \<le> b \<and> \<not> b \<le> a)"
    by (auto simp: less_eq_net_class_def less_net_class_def)
  show "a \<le> a" by (simp add: less_eq_net_class_def)
  show "a \<le> b \<Longrightarrow> b \<le> c \<Longrightarrow> a \<le> c" by (auto simp: less_eq_net_class_def)
  show "a \<le> b \<Longrightarrow> b \<le> a \<Longrightarrow> a = b"
    unfolding less_eq_net_class_def by (cases a; cases b) auto
  show "a \<le> b \<or> b \<le> a" by (auto simp: less_eq_net_class_def)
qed

end

section \<open>What the classification accepts\<close>

text \<open>The names of the first DDR3 pattern: a clock or strobe, an index, a polarity.\<close>

definition pair_tails :: "string list" where
  "pair_tails = [[], ''P'', ''N'', ''_'', ''_P'', ''_N'']"

definition ddr_pair :: "string \<Rightarrow> bool" where
  "ddr_pair name = list_ex (\<lambda>stem. prefix stem name \<and>
     dropWhile is_dig (drop (length stem) name) \<in> set (pair_tails @ map (\<lambda>x. x @ [nl]) pair_tails))
     [''DDR_CK'', ''DDR_DQS'']"

lemma tail_hits:
  "hits (Seq (rx_opt (ch (CHR ''_''))) (Seq (rx_opt (Chr (\<lambda>c. c \<in> set ''PN''))) (Seq Eol Eps))) (b, t, g) \<longleftrightarrow>
     t \<in> set (pair_tails @ map (\<lambda>x. x @ [nl]) pair_tails)"
  by (auto simp: hits_opt hits_eol ch_def pair_tails_def)

lemma diffpair_hits: "rx_first diffpair_rx [] name \<noteq> None \<longleftrightarrow> ddr_pair name"
proof -
  let ?Q = "\<lambda>t. t \<in> set (pair_tails @ map (\<lambda>x. x @ [nl]) pair_tails)"
  have st: "stops is_dig t" if "?Q t" for t
    using that by (auto simp: pair_tails_def nl_def is_dig_def)
  have "hits diffpair_rx ([], name, []) \<longleftrightarrow>
     (\<exists>t. name = ''DDR_'' @ t \<and> ((\<exists>r. t = ''CK'' @ r \<and> ?Q (dropWhile is_dig r)) \<or>
        (\<exists>r. t = ''DQS'' @ r \<and> ?Q (dropWhile is_dig r))))"
    unfolding diffpair_rx_def hits_lit
    by (simp only: rx_seq.simps rx_alts.simps hits_simps hits_word hits_rep tail_hits rep_dropWhile [OF st])
  then show ?thesis unfolding hits_first ddr_pair_def
    by (auto simp: prefix_def)
qed

lemma ddr_hits: "rx_first ddr_rx [] name \<noteq> None \<longleftrightarrow> list_ex (\<lambda>w. prefix (''DDR_'' @ w) name)
  [''DQ'', ''A'', ''BA'', ''CK'', ''DM'', ''DQS'', ''RAS'', ''CAS'', ''WE'', ''CS'', ''CKE'',
         ''ODT'', ''RESET'']"
  unfolding hits_first ddr_rx_def hits_lit by (auto simp: hits_word prefix_def)
text \<open>
  C9: the classification of a net name by regular expressions and tables is this function of its
  characters; in particular the regular expression for the DDR3 pairs accepts the stems
  \<open>DDR_CK\<close> and \<open>DDR_DQS\<close> with an index before the polarity, not after it.
\<close>

theorem classify_net_spec:
  "classify_net name =
     (if name = ''+12V'' \<or> name = ''+12V_IN'' then Power_Wide
      else if name \<in> set power_nets then Power
      else if ddr_pair name then DDR3_DiffPair
      else if list_ex (\<lambda>w. prefix (''DDR_'' @ w) name) [''DQ'', ''A'', ''BA'', ''CK'', ''DM'', ''DQS'',
        ''RAS'', ''CAS'', ''WE'', ''CS'', ''CKE'', ''ODT'', ''RESET''] then DDR3
      else if list_ex (\<lambda>p. prefix p name) lvds_prefixes then LVDS
      else if name \<in> set rf_nets then RF_50ohm
      else Default)"
  unfolding classify_net_def diffpair_hits ddr_hits by simp


lemma digits_cases: "\<exists>c t. digits i = c # t \<and> is_dig c"
  by (cases "digits i") (use digits_dig [of _ i] in \<open>auto simp del: digits.simps\<close>)

text \<open>
  C10: the strobe nets as the schematics name them, with the byte lane after the polarity
  (\<open>DDR_DQS_P0\<close>), are put into \<open>DDR3\<close>, although the comment of \<open>classify_net\<close> promises the
  strobe pairs to \<open>DDR3_DiffPair\<close>, which only gets names with the lane before the polarity.
\<close>

theorem strobe_pairs_in_ddr3:
  assumes "0 \<le> i"
  shows "classify_net (''DDR_DQS_P'' @ int_str i) = DDR3 \<and>
    classify_net (''DDR_DQS_N'' @ int_str i) = DDR3 \<and>
    classify_net (''DDR_DQS'' @ int_str i @ ''_P'') = DDR3_DiffPair \<and>
    classify_net ''DDR_CK_P'' = DDR3_DiffPair"
proof (intro conjI)
  obtain c t where d: "int_str i = c # t" "is_dig c"
    using digits_cases [of i] assms by (auto simp: int_str_nonneg)
  have nd: "\<not> is_dig (CHR ''_'')" "c \<noteq> nl" using d(2) by (auto simp: is_dig_def nl_def)
  have sub: "ddr_pair (''DDR_DQS_P'' @ int_str i) = False" "ddr_pair (''DDR_DQS_N'' @ int_str i) = False"
    using d nd by (simp_all add: ddr_pair_def pair_tails_def nl_def)
  have c: "classify_net name = (if ddr_pair name then DDR3_DiffPair else DDR3)" if p: "prefix ''DDR_DQS'' name" for name
  proof -
    obtain t where "name = ''DDR_DQS'' @ t" using p unfolding prefix_def by blast
    then show ?thesis unfolding classify_net_def diffpair_hits ddr_hits by (simp add: power_nets_def)
  qed
  show "classify_net (''DDR_DQS_P'' @ int_str i) = DDR3" "classify_net (''DDR_DQS_N'' @ int_str i) = DDR3"
    using sub by (simp_all add: c)
  have "dropWhile is_dig (int_str i @ ''_P'') = ''_P''"
    using assms digits_dig [of _ i] nd by (subst dropWhile_append2) (auto simp: int_str_nonneg)
  then have "ddr_pair (''DDR_DQS'' @ int_str i @ ''_P'')"
    by (simp add: ddr_pair_def pair_tails_def)
  then show "classify_net (''DDR_DQS'' @ int_str i @ ''_P'') = DDR3_DiffPair" by (simp add: c)
  show "classify_net ''DDR_CK_P'' = DDR3_DiffPair" by code_simp
qed

theorem strobe_pairs_in_ddr3_witness: "classify_net ''DDR_DQS_P0'' = DDR3"
  using strobe_pairs_in_ddr3 [of 0] by (simp add: int_str_nonneg digits.simps digit_char_def)


section \<open>What the parser returns\<close>


definition comp_ok :: "component \<Rightarrow> bool" where
  "comp_ok c \<longleftrightarrow> list_all quote_free (reference c) \<and> list_all quote_free (comp_value c) \<and>
     list_all quote_free (footprint c) \<and> list_all quote_free (lib_id c) \<and>
     \<not> prefix ''#'' (reference c) \<and> \<not> prefix ''power:'' (lib_id c)"

lemma property_of_quote_free:
  "val = Rep quote_free \<or> val = rx_plus quote_free \<Longrightarrow> list_all quote_free (property_of name val block)"
  unfolding property_of_def
  by (auto split: option.splits intro!: groups_search1 [of quote_free "property_rx name val"] simp: property_rx_def)

definition parse_ok :: "component list \<times> string set \<Rightarrow> bool" where
  "parse_ok st \<longleftrightarrow> list_all comp_ok (fst st) \<and> (\<forall>n \<in> snd st. list_all quote_free n)"

lemma parse_symbol_ok:
  assumes "parse_ok st" "m \<in> set (rx_finditer sym_rx [] body)"
  shows "parse_ok (parse_symbol body m st)"
proof -
  have "groups_in quote_free sym_rx" by (simp add: sym_rx_def)
  from group_all [OF groups_finditer [OF this assms(2)], of 1]
  have lib: "list_all quote_free (case rx_group 1 m of None \<Rightarrow> [] | Some x \<Rightarrow> x)"
    by (auto split: option.splits)
  show ?thesis
    using assms(1) lib property_of_quote_free
    by (auto simp: parse_symbol_def Let_def parse_ok_def comp_ok_def split: prod.splits)
qed

lemma fold_parse_ok:
  "set ms \<subseteq> set (rx_finditer sym_rx [] body) \<Longrightarrow> parse_ok st \<Longrightarrow> parse_ok (fold (parse_symbol body) ms st)"
proof (induction ms arbitrary: st)
  case (Cons m ms)
  then have "parse_ok (parse_symbol body m st)" by (intro parse_symbol_ok) auto
  then show ?case using Cons by simp
qed simp

text \<open>
  C11: whatever the text of a schematic, the components that \<open>parse_schematic\<close> returns have
  references, values, footprints and library names without quotes, none of them is a power
  symbol or a flag, and no net name holds a quote: they can be quoted without escaping.
\<close>

theorem parse_schematic_fields:
  "list_all comp_ok (fst (parse_schematic content)) \<and>
   (\<forall>n \<in> snd (parse_schematic content). list_all quote_free n)"
proof -
  have lab: "list_all quote_free n" if "n \<in> set (rx_findall1 (label_rx name) body)" for n name body
    using that by (rule groups_findall1 [rotated]) (simp add: label_rx_def)
  have "parse_ok (fold (parse_symbol body) (rx_finditer sym_rx [] body) ([], {}))" for body
    by (rule fold_parse_ok) (simp_all add: parse_ok_def)
  then show ?thesis using lab
    by (auto simp: parse_schematic_def Let_def parse_ok_def split: prod.splits) (metis fst_conv snd_conv)+
qed

text \<open>A schematic with one resistor and one label.\<close>

definition tiny_schematic :: string where
  \<open>tiny_schematic = ''(kicad_sch (lib_symbols) (symbol (lib_id "Device:R") (at 10 20 0)'' @
     ''(property "Reference" "R1") (property "Value" "10k")) (label "SDA"))''\<close>

lemma tiny_schematic_parsed:
  "parse_schematic tiny_schematic =
     ([\<lparr>reference = ''R1'', comp_value = ''10k'', footprint = [], lib_id = ''Device:R''\<rparr>], {''SDA''})"
  by code_simp
theorem parse_schematic_fields_witness:
  "\<not> prefix ''#'' (reference (hd (fst (parse_schematic tiny_schematic)))) \<and> list_all quote_free ''SDA''"
  using parse_schematic_fields [of tiny_schematic] by (simp add: tiny_schematic_parsed comp_ok_def)

end
