(* ===== verification/Uuid.thy ===== *)
theory Uuid
  imports Sexpr PyRegex "HOL-Library.Word"
begin

unbundle bit_operations_syntax

text \<open>
  \<open>uid()\<close> of the generators is \<open>str(uuid.uuid4())\<close>. The sixteen random bytes of each call come
  from the operating system: the argument \<open>rnd\<close> gives those of the \<open>k\<close>-th call, and every
  generator passes the number of calls made so far. \<open>uuid4\<close> then fixes the variant and version
  bits and prints the 128-bit number in hexadecimal.
\<close>

type_synonym random = "nat \<Rightarrow> 128 word"

definition uuid4_bits :: "128 word \<Rightarrow> 128 word" where
  "uuid4_bits w =
     (let v = (w AND NOT (push_bit 48 0xC000)) OR push_bit 48 0x8000
      in (v AND NOT (push_bit 64 0xF000)) OR push_bit 76 4)"

definition hex_char :: "nat \<Rightarrow> char" where
  "hex_char n = ''0123456789abcdef'' ! (n mod 16)"

definition hex_nibbles :: "128 word \<Rightarrow> string" where
  "hex_nibbles w = map (\<lambda>i. hex_char (unat (drop_bit (4 * (31 - i)) w AND 0xF))) [0..<32]"

definition uuid_str :: "128 word \<Rightarrow> string" where
  "uuid_str w = (let h = hex_nibbles w
     in take 8 h @ ''-'' @ take 4 (drop 8 h) @ ''-'' @ take 4 (drop 12 h) @ ''-'' @
        take 4 (drop 16 h) @ ''-'' @ drop 20 h)"

definition uid :: "random \<Rightarrow> nat \<Rightarrow> string" where
  "uid rnd k = uuid_str (uuid4_bits (rnd k))"

definition uuid_chars :: "char set" where
  "uuid_chars = set ''0123456789abcdef-''"

lemma hex_char_in: "hex_char n \<in> uuid_chars"
proof -
  have "hex_char n \<in> set ''0123456789abcdef''"
    unfolding hex_char_def by (rule nth_mem) simp
  then show ?thesis by (auto simp: uuid_chars_def)
qed

lemma uid_chars [pyfmt]: "set (uid rnd k) \<subseteq> uuid_chars"
proof -
  have h: "set (hex_nibbles w) \<subseteq> uuid_chars" for w
    by (auto simp: hex_nibbles_def hex_char_in)
  have "CHR ''-'' \<in> uuid_chars" by (simp add: uuid_chars_def)
  then show ?thesis
    using h by (auto simp: uid_def uuid_str_def Let_def dest!: in_set_takeD in_set_dropD)
qed

lemma uid_length: "length (uid rnd k) = 36"
  by (simp add: uid_def uuid_str_def Let_def hex_nibbles_def)

lemma neutral_uid [scan, simp]: "neutral (uid rnd k)"
  using uid_chars [of rnd k]
  by (intro neutral_parens_free) (auto simp: parens_free_def uuid_chars_def)

lemma open_free_uid [simp]: "open_free (uid rnd k)"
  using uid_chars [of rnd k] by (auto simp: open_free_def uuid_chars_def)

end
