(* ===== verification/Routing.thy ===== *)
theory Routing
  imports Netlist Uuid
begin

text \<open>
  Traces, via stitching and silkscreen: \<open>hardware/cirradio-devboard/gen_pcb_routing.py\<close>. The
  functions of the script append strings, each with a fresh identifier, to a list; here they
  return the list of the calls (\<open>item\<close>), and \<open>render\<close> makes the strings in the same order, so the
  identifiers are drawn in the order of the script. Coordinates are floats computed as the
  script computes them. The dictionary of nets is a map.
\<close>

section \<open>Constants\<close>

definition zynq_xy :: "rat \<times> rat" where "zynq_xy = (80, 50)"
definition ad9361_xy :: "rat \<times> rat" where "ad9361_xy = (80, 16)"
definition ddr0_xy :: "rat \<times> rat" where "ddr0_xy = (112, 35)"
definition ddr1_xy :: "rat \<times> rat" where "ddr1_xy = (128, 35)"
definition sma_rx_xy :: "rat \<times> rat" where "sma_rx_xy = (10, 10)"
definition bpf_xy :: "rat \<times> rat" where "bpf_xy = (22, 10)"
definition tr_sw_xy :: "rat \<times> rat" where "tr_sw_xy = (34, 10)"
definition lna_xy :: "rat \<times> rat" where "lna_xy = (46, 12)"
definition saw_xy :: "rat \<times> rat" where "saw_xy = (58, 14)"
definition ad9361_rf_xy :: "rat \<times> rat" where "ad9361_rf_xy = (80, 16)"
definition pa_xy :: "rat \<times> rat" where "pa_xy = (46, 8)"
definition sma_tx_xy :: "rat \<times> rat" where "sma_tx_xy = (10, 20)"
definition board_w :: rat where "board_w = 160"
definition board_h :: rat where "board_h = 100"
definition board_margin :: rat where "board_margin = 3"

section \<open>Reading the nets\<close>

text \<open>\<open>\(net\s+(\d+)\s+"([^"]*)"\)\<close>; a later declaration of a name overwrites an earlier one.\<close>

definition net_entry_rx :: rx where
  "net_entry_rx = rx_seq (rx_lit ''(net'' @ [rx_plus is_space, Grp 1 (rx_plus is_dig), rx_plus is_space,
     ch (CHR 0x22), Grp 2 (Rep quote_free), ch (CHR 0x22), ch (CHR '')'')])"

definition add_net_entry :: "string \<times> string \<times> (nat \<times> string) list \<Rightarrow> (string \<rightharpoonup> int) \<Rightarrow> (string \<rightharpoonup> int)" where
  "add_net_entry m nets =
     (case (rx_group 2 m, rx_group 1 m) of (Some name, Some num) \<Rightarrow> nets(name \<mapsto> dec_val num) | _ \<Rightarrow> nets)"

definition parse_nets :: "string \<Rightarrow> (string \<rightharpoonup> int)" where
  "parse_nets pcb_text = fold add_net_entry (rx_finditer net_entry_rx [] pcb_text) Map.empty"

text \<open>\<open>nets.get(name, default)\<close>\<close>

definition net_get :: "(string \<rightharpoonup> int) \<Rightarrow> string \<Rightarrow> int \<Rightarrow> int" where
  "net_get nets name d = (case nets name of None \<Rightarrow> d | Some k \<Rightarrow> k)"

section \<open>Entries of the file\<close>

definition segment :: "string \<Rightarrow> rat \<Rightarrow> rat \<Rightarrow> rat \<Rightarrow> rat \<Rightarrow> rat \<Rightarrow> string \<Rightarrow> int \<Rightarrow> string" where
  \<open>segment u x1 y1 x2 y2 width layer net_num =
     ''  (segment (start '' @ fmt_fixed 3 x1 @ '' '' @ fmt_fixed 3 y1 @ '') (end '' @ fmt_fixed 3 x2 @ '' '' @
     fmt_fixed 3 y2 @ '') (width '' @ float_str width @ '') (layer "'' @ layer @ ''") (net '' @
     int_str net_num @ '') (uuid "'' @ u @ ''"))''\<close>

definition via :: "string \<Rightarrow> rat \<Rightarrow> rat \<Rightarrow> int \<Rightarrow> rat \<Rightarrow> rat \<Rightarrow> string \<times> string \<Rightarrow> string" where
  \<open>via u x y net_num sz drill layers =
     ''  (via (at '' @ fmt_fixed 3 x @ '' '' @ fmt_fixed 3 y @ '') (size '' @ float_str sz @ '') (drill '' @
     float_str drill @ '') (layers "'' @ fst layers @ ''" "'' @ snd layers @ ''") (net '' @
     int_str net_num @ '') (uuid "'' @ u @ ''"))''\<close>

definition gr_text :: "string \<Rightarrow> string \<Rightarrow> rat \<Rightarrow> rat \<Rightarrow> string \<Rightarrow> rat \<Rightarrow> rat \<Rightarrow> string" where
  \<open>gr_text u tx x y layer sz thickness =
     ''  (gr_text "'' @ tx @ ''" (at '' @ fmt_fixed 3 x @ '' '' @ fmt_fixed 3 y @ '') (layer "'' @ layer @
     ''") (uuid "'' @ u @ ''")'' @ [nl] @
     ''    (effects (font (size '' @ float_str sz @ '' '' @ float_str sz @ '') (thickness '' @
     float_str thickness @ '')))'' @ [nl] @ ''  )''\<close>

text \<open>The calls of these functions, in order; vias are always drawn with the default arguments.\<close>

datatype item =
    Comment string
  | Segment rat rat rat rat rat string int
  | Via rat rat int
  | Label string rat rat string rat rat

fun render1 :: "string \<Rightarrow> item \<Rightarrow> string" where
  "render1 u (Comment s) = s"
| "render1 u (Segment x1 y1 x2 y2 width layer net_num) = segment u x1 y1 x2 y2 width layer net_num"
| "render1 u (Via x y net_num) = via u x y net_num (lit 55 2) (lit 3 1) (''F.Cu'', ''B.Cu'')"
| "render1 u (Label tx x y layer sz thickness) = gr_text u tx x y layer sz thickness"

fun draws :: "item \<Rightarrow> nat" where
  "draws (Comment s) = 0"
| "draws _ = 1"

fun render :: "random \<Rightarrow> nat \<Rightarrow> item list \<Rightarrow> string list" where
  "render rnd k [] = []"
| "render rnd k (i # is) = render1 (uid rnd k) i # render rnd (k + draws i) is"

section \<open>Point to point\<close>

definition route_count :: "rat \<Rightarrow> rat \<Rightarrow> rat \<Rightarrow> rat \<Rightarrow> rat \<Rightarrow> int" where
  "route_count x1 y1 x2 y2 max_seg =
     max 1 (py_int (fdiv (py_hypot (fsub x2 x1) (fsub y2 y1)) max_seg))"

text \<open>\<open>a + d * i / n\<close>\<close>

definition route_at :: "rat \<Rightarrow> rat \<Rightarrow> int \<Rightarrow> int \<Rightarrow> rat" where
  "route_at a d i n = fadd a (fdiv (fmul d (of_int i)) (of_int n))"

definition route_point_to_point ::
    "rat \<Rightarrow> rat \<Rightarrow> rat \<Rightarrow> rat \<Rightarrow> rat \<Rightarrow> string \<Rightarrow> int \<Rightarrow> rat \<Rightarrow> item list" where
  "route_point_to_point x1 y1 x2 y2 width layer net_num max_seg =
     (let dx = fsub x2 x1; dy = fsub y2 y1; n = route_count x1 y1 x2 y2 max_seg
      in map (\<lambda>i. Segment (route_at x1 dx i n) (route_at y1 dy i n)
                (route_at x1 dx (i + 1) n) (route_at y1 dy (i + 1) n) width layer net_num) [0..n - 1])"

section \<open>DDR3L\<close>

definition ddr_layer :: "int \<Rightarrow> string" where
  "ddr_layer byte_lane = (if byte_lane < 2 then ''In2.Cu'' else ''In4.Cu'')"

definition ddr_target :: "int \<Rightarrow> rat \<times> rat" where
  "ddr_target byte_lane = (if byte_lane < 2 then ddr0_xy else ddr1_xy)"

definition ddr_bit :: "(string \<rightharpoonup> int) \<Rightarrow> int \<Rightarrow> int \<Rightarrow> item list" where
  "ddr_bit nets byte_lane bit_no =
     (let net_num = net_get nets (''DDR_DQ'' @ int_str (byte_lane * 8 + bit_no)) 0;
          y_offset = fmul (of_int byte_lane) (lit 15 1);
          target = ddr_target byte_lane;
          x_spread = fmul (of_int bit_no) (lit 4 1)
      in if net_num = 0 then []
         else route_point_to_point
           (fadd (fadd (fst zynq_xy) 10) x_spread) (fadd (fsub (snd zynq_xy) 5) y_offset)
           (fadd (fsub (fst target) 4) x_spread) (fadd (snd target) y_offset)
           (lit 1 1) (ddr_layer byte_lane) net_num 5)"

definition ddr_strobe :: "(string \<rightharpoonup> int) \<Rightarrow> int \<Rightarrow> item list" where
  "ddr_strobe nets byte_lane =
     (let dqs_p = net_get nets (''DDR_DQS_P'' @ int_str byte_lane) 0;
          dqs_n = net_get nets (''DDR_DQS_N'' @ int_str byte_lane) 0;
          y_offset = fmul (of_int byte_lane) (lit 15 1);
          target = ddr_target byte_lane;
          gap = lit 15 2;
          src_y = fadd (fadd (fsub (snd zynq_xy) 5) y_offset) (lit 5 1);
          dst_y = fadd (fadd (snd target) y_offset) (lit 5 1)
      in if dqs_p \<noteq> 0 \<and> dqs_n \<noteq> 0
         then route_point_to_point (fadd (fst zynq_xy) 12) (fsub src_y (fdiv gap 2))
                (fsub (fst target) 2) (fsub dst_y (fdiv gap 2)) (lit 1 1) (ddr_layer byte_lane) dqs_p 5 @
              route_point_to_point (fadd (fst zynq_xy) 12) (fadd src_y (fdiv gap 2))
                (fsub (fst target) 2) (fadd dst_y (fdiv gap 2)) (lit 1 1) (ddr_layer byte_lane) dqs_n 5
         else [])"

definition ddr_mask :: "(string \<rightharpoonup> int) \<Rightarrow> int \<Rightarrow> item list" where
  "ddr_mask nets byte_lane =
     (let dm_net = net_get nets (''DDR_DM'' @ int_str byte_lane) 0;
          y_offset = fmul (of_int byte_lane) (lit 15 1);
          target = ddr_target byte_lane
      in if dm_net \<noteq> 0
         then route_point_to_point (fadd (fst zynq_xy) 13) (fadd (fsub (snd zynq_xy) 4) y_offset)
                (fsub (fst target) 1) (fadd (fadd (snd target) 1) y_offset) (lit 1 1)
                (ddr_layer byte_lane) dm_net 5
         else [])"

definition ddr_lane :: "(string \<rightharpoonup> int) \<Rightarrow> int \<Rightarrow> item list" where
  "ddr_lane nets byte_lane =
     concat (map (ddr_bit nets byte_lane) [0..7]) @ ddr_strobe nets byte_lane @ ddr_mask nets byte_lane"

definition addr_nets :: "string list" where
  "addr_nets = map (\<lambda>i. ''DDR_A'' @ int_str i) [0..14] @
     [''DDR_BA0'', ''DDR_BA1'', ''DDR_BA2'', ''DDR_CAS_B'', ''DDR_RAS_B'', ''DDR_WE_B'',
      ''DDR_CKE'', ''DDR_CS_B'', ''DDR_ODT'', ''DDR_RESET_B'']"

definition ddr_addr :: "(string \<rightharpoonup> int) \<Rightarrow> int \<times> string \<Rightarrow> item list" where
  "ddr_addr nets = (\<lambda>(idx, net_name).
     (let net_num = net_get nets net_name 0;
          step = fmul (of_int idx) (lit 35 2);
          y_off = fadd 8 step;
          y_bus = fadd (fadd (snd ddr0_xy) 10) step
      in if net_num = 0 then []
         else route_point_to_point (fadd (fst zynq_xy) 14) (fadd (snd zynq_xy) y_off)
                (fst ddr0_xy) y_bus (lit 1 1) ''In4.Cu'' net_num 5 @
              route_point_to_point (fadd (fst ddr0_xy) 2) y_bus
                (fst ddr1_xy) (fadd (fadd (snd ddr1_xy) 10) step) (lit 1 1) ''In4.Cu'' net_num 5))"

definition ddr_clock1 :: "int \<Rightarrow> rat \<Rightarrow> item list" where
  "ddr_clock1 ck_net offset =
     route_point_to_point (fadd (fst zynq_xy) 14) (fadd (fadd (snd zynq_xy) 6) offset)
       (fst ddr0_xy) (fadd (fadd (snd ddr0_xy) 8) offset) (lit 1 1) ''In4.Cu'' ck_net 5 @
     route_point_to_point (fadd (fst ddr0_xy) 2) (fadd (fadd (snd ddr0_xy) 8) offset)
       (fst ddr1_xy) (fadd (fadd (snd ddr1_xy) 8) offset) (lit 1 1) ''In4.Cu'' ck_net 5"

definition ddr_clock :: "(string \<rightharpoonup> int) \<Rightarrow> item list" where
  "ddr_clock nets =
     (let ck_p = net_get nets ''DDR_CK_P'' 0; ck_n = net_get nets ''DDR_CK_N'' 0
      in if ck_p \<noteq> 0 \<and> ck_n \<noteq> 0 then ddr_clock1 ck_p (- lit 75 3) @ ddr_clock1 ck_n (lit 75 3) else [])"

definition gen_ddr3l_routing :: "(string \<rightharpoonup> int) \<Rightarrow> item list" where
  "gen_ddr3l_routing nets =
     [Comment ''  ; DDR3L byte lane routing (In2.Cu / In4.Cu)''] @
     concat (map (ddr_lane nets) [0..3]) @
     [Comment ''  ; DDR3L address/command fly-by topology (In4.Cu)''] @
     concat (map (ddr_addr nets) (zip [0..int (length addr_nets) - 1] addr_nets)) @
     [Comment ''  ; DDR3L clock differential pair''] @
     ddr_clock nets"

section \<open>LVDS\<close>

definition lvds_gap :: rat where "lvds_gap = lit 20 2"

definition lvds_pair :: "(string \<rightharpoonup> int) \<Rightarrow> int \<Rightarrow> item list" where
  "lvds_pair nets i =
     (let p_net = net_get nets (''P0_D'' @ int_str i @ ''_P'') 0;
          n_net = net_get nets (''P0_D'' @ int_str i @ ''_N'') 0;
          x_spread = fmul (of_int i) (lit 12 1);
          src_x = fadd (fsub (fst ad9361_xy) 8) x_spread;
          src_y = fadd (snd ad9361_xy) 4;
          dst_x = fadd (fsub (fst zynq_xy) 8) x_spread;
          dst_y = fsub (snd zynq_xy) 12
      in if \<not> (p_net \<noteq> 0 \<and> n_net \<noteq> 0) then []
         else route_point_to_point src_x src_y dst_x dst_y (lit 12 2) ''In2.Cu'' p_net 5 @
              route_point_to_point (fadd src_x lvds_gap) src_y (fadd dst_x lvds_gap) dst_y
                (lit 12 2) ''In2.Cu'' n_net 5)"

text \<open>The loop sets \<open>x_base\<close> anew in every round, so its last assignment has no effect.\<close>

definition lvds_control :: "(string \<rightharpoonup> int) \<Rightarrow> string \<Rightarrow> item list" where
  "lvds_control nets base =
     (let p_net = net_get nets (base @ ''_P'') 0;
          n_net = net_get nets (base @ ''_N'') 0;
          x_base = fadd (fst ad9361_xy) 8
      in if \<not> (p_net \<noteq> 0 \<and> n_net \<noteq> 0) then []
         else route_point_to_point x_base (fadd (snd ad9361_xy) 5) x_base (fsub (snd zynq_xy) 10)
                (lit 12 2) ''In2.Cu'' p_net 5 @
              route_point_to_point (fadd x_base lvds_gap) (fadd (snd ad9361_xy) 5)
                (fadd x_base lvds_gap) (fsub (snd zynq_xy) 10) (lit 12 2) ''In2.Cu'' n_net 5)"

definition gen_lvds_routing :: "(string \<rightharpoonup> int) \<Rightarrow> item list" where
  "gen_lvds_routing nets =
     [Comment ''  ; AD9361 LVDS differential pairs (In2.Cu)''] @
     concat (map (lvds_pair nets) [0..11]) @
     concat (map (lvds_control nets) [''RX_FRAME'', ''TX_FRAME'', ''DATA_CLK'', ''FB_CLK''])"

section \<open>RF\<close>

text \<open>A path of points, routed leg by leg.\<close>

fun route_path :: "(rat \<times> rat) list \<Rightarrow> int \<Rightarrow> item list" where
  "route_path (p # q # ps) net_num =
     route_point_to_point (fst p) (snd p) (fst q) (snd q) (lit 28 2) ''F.Cu'' net_num 3 @
     route_path (q # ps) net_num"
| "route_path ps net_num = []"

definition rx_path :: "(rat \<times> rat) list" where
  "rx_path = [sma_rx_xy, bpf_xy, tr_sw_xy, lna_xy, saw_xy, ad9361_rf_xy]"

definition tx_path :: "(rat \<times> rat) list" where
  "tx_path = [ad9361_rf_xy, (58, 8), pa_xy, tr_sw_xy, (22, 16), sma_tx_xy]"

text \<open>The two rows of ground vias beside one leg.\<close>

definition stitch_leg :: "int \<Rightarrow> rat \<times> rat \<Rightarrow> rat \<times> rat \<Rightarrow> item list" where
  "stitch_leg gnd_net p q =
     (let (x1, y1) = p; (x2, y2) = q;
          dist = py_hypot (fsub x2 x1) (fsub y2 y1);
          n_vias = max 1 (py_int (fdiv dist 1));
          dx = fdiv (fsub x2 x1) (of_int n_vias);
          dy = fdiv (fsub y2 y1) (of_int n_vias);
          length = py_hypot dx dy;
          (px, py) = (if 0 < length then (fmul (fdiv (- dy) length) 1, fmul (fdiv dx length) 1) else (0, 1))
      in concat (map (\<lambda>j.
           let vx = fadd (fadd x1 (fmul dx (of_int j))) px; vy = fadd (fadd y1 (fmul dy (of_int j))) py
           in [Via vx vy gnd_net, Via (fsub vx (fmul 2 px)) (fsub vy (fmul 2 py)) gnd_net]) [0..n_vias]))"

fun stitch_path :: "int \<Rightarrow> (rat \<times> rat) list \<Rightarrow> item list" where
  "stitch_path gnd_net (p # q # ps) = stitch_leg gnd_net p q @ stitch_path gnd_net (q # ps)"
| "stitch_path gnd_net ps = []"

definition gen_rf_routing :: "(string \<rightharpoonup> int) \<Rightarrow> item list" where
  "gen_rf_routing nets =
     (let gnd_net = net_get nets ''GND'' 1;
          rx = net_get nets ''AD_RX1A_P'' 0; rx_net = (if rx = 0 then 178 else rx);
          tx = net_get nets ''AD_TX1A'' 0; tx_net = (if tx = 0 then 180 else tx)
      in [Comment ''  ; RF 50-ohm microstrip routing (F.Cu)''] @ route_path rx_path rx_net @
         [Comment ''  ; RF TX path''] @ route_path tx_path tx_net @
         [Comment ''  ; RF ground via stitching''] @ stitch_path gnd_net rx_path)"

section \<open>Power\<close>

definition power_rails :: "(string \<times> (rat \<times> rat) \<times> int) list" where
  "power_rails =
     [(''+1V0'', zynq_xy, 3),
      (''+1V35'', (fdiv (fadd (fst ddr0_xy) (fst ddr1_xy)) 2, snd ddr0_xy), 6),
      (''+1V8'', (fst zynq_xy, fadd (snd zynq_xy) 10), 13),
      (''+3V3'', (80, 75), 16),
      (''+5V'', (80, 85), 20),
      (''+1V3_AD'', ad9361_xy, 9),
      (''+3V3A'', (fadd (fst ad9361_xy) 10, snd ad9361_xy), 17)]"

definition gen_power_routing :: "(string \<rightharpoonup> int) \<Rightarrow> item list" where
  "gen_power_routing nets =
     [Comment ''  ; Power distribution routing (In5.Cu)''] @
     concat (map (\<lambda>(rail, dest, fallback).
       route_point_to_point 135 80 (fst dest) (snd dest) (lit 8 1) ''In5.Cu'' (net_get nets rail fallback) 10)
       power_rails) @
     route_point_to_point 150 10 135 80 1 ''In5.Cu'' (net_get nets ''+12V'' 2) 10"

section \<open>General I/O\<close>

definition spi_signals :: "(string \<times> int) list" where
  "spi_signals = [(''AD_SCLK'', 179), (''AD_MOSI'', 176), (''AD_MISO'', 175), (''AD_CS_N'', 174)]"

definition uart_signals :: "(string \<times> int) list" where
  "uart_signals = [(''PS_UART0_RX'', 392), (''PS_UART0_TX'', 393), (''UART0_MIO46'', 416), (''UART0_MIO47'', 417)]"

definition i2c_signals :: "(string \<times> int) list" where
  "i2c_signals = [(''PS_I2C_SCL'', 385), (''PS_I2C_SDA'', 386)]"

definition jtag_signals :: "(string \<times> int) list" where
  "jtag_signals = [(''MIO10'', 349), (''MIO11'', 350), (''MIO12'', 351), (''MIO13'', 352)]"

text \<open>\<open>for idx, (name, fallback) in enumerate(signals)\<close>\<close>

definition io_bus :: "(string \<rightharpoonup> int) \<Rightarrow> (rat \<Rightarrow> int \<Rightarrow> item list) \<Rightarrow> (string \<times> int) list \<Rightarrow> item list" where
  "io_bus nets body signals =
     concat (map (\<lambda>(idx, name, fallback). body (of_int idx) (net_get nets name fallback))
       (zip [0..int (length signals) - 1] signals))"

definition gen_general_io_routing :: "(string \<rightharpoonup> int) \<Rightarrow> item list" where
  "gen_general_io_routing nets =
     [Comment ''  ; SPI routing to AD9361 (In6.Cu)''] @
     io_bus nets (\<lambda>idx net_num. let y_off = fmul idx (lit 5 1) in
       route_point_to_point (fsub (fst zynq_xy) 5) (fadd (fsub (snd zynq_xy) 8) y_off)
         (fsub (fst ad9361_xy) 5) (fadd (fadd (snd ad9361_xy) 8) y_off) (lit 15 2) ''In6.Cu'' net_num 5)
       spi_signals @
     [Comment ''  ; UART routing (In8.Cu)''] @
     io_bus nets (\<lambda>idx net_num.
       route_point_to_point (fadd (fsub (fst zynq_xy) 10) (fmul idx 1)) (fadd (snd zynq_xy) 15)
         (fadd 20 (fmul idx 2)) (fsub board_h 8) (lit 15 2) ''In8.Cu'' net_num 5)
       uart_signals @
     [Comment ''  ; I2C routing (In6.Cu)''] @
     io_bus nets (\<lambda>idx net_num.
       route_point_to_point (fadd (fst zynq_xy) 5) (fadd (fadd (snd zynq_xy) 12) (fmul idx (lit 5 1)))
         (fadd 40 (fmul idx 2)) (fsub board_h 8) (lit 15 2) ''In6.Cu'' net_num 5)
       i2c_signals @
     [Comment ''  ; JTAG routing (In8.Cu)''] @
     io_bus nets (\<lambda>idx net_num.
       route_point_to_point (fsub (fst zynq_xy) 12) (fadd (fadd (snd zynq_xy) 10) (fmul idx (lit 5 1)))
         (fadd 10 (fmul idx 2)) (fsub board_h 8) (lit 15 2) ''In8.Cu'' net_num 5)
       jtag_signals"

section \<open>Perimeter stitching\<close>

text \<open>
  \<open>while x <= limit: ...; x += spacing\<close>: the values \<open>x\<close> takes. A spacing that rounding swallows
  would never end; \<open>None\<close> stands for that.
\<close>

partial_function (option) while_steps :: "rat \<Rightarrow> rat \<Rightarrow> rat \<Rightarrow> rat list option" where
  "while_steps spacing limit x =
     (if x \<le> limit then Option.bind (while_steps spacing limit (fadd x spacing)) (\<lambda>xs. Some (x # xs))
      else Some [])"

declare while_steps.simps [code]

definition gen_perimeter_via_stitching :: "(string \<rightharpoonup> int) \<Rightarrow> item list option" where
  "gen_perimeter_via_stitching nets =
     (let gnd_net = net_get nets ''GND'' 1; spacing = 2; inset = fadd board_margin 1;
          right = fsub board_w inset; bottom = fsub board_h inset
      in Option.bind (while_steps spacing right inset) (\<lambda>xs.
         Option.bind (while_steps spacing (fsub bottom spacing) (fadd inset spacing)) (\<lambda>ys.
           Some ([Comment ''  ; Board perimeter ground via stitching (every 2mm)''] @
             map (\<lambda>x. Via x inset gnd_net) xs @ map (\<lambda>x. Via x (fsub board_h inset) gnd_net) xs @
             map (\<lambda>y. Via inset y gnd_net) ys @ map (\<lambda>y. Via (fsub board_w inset) y gnd_net) ys))))"

section \<open>Silkscreen\<close>

definition gen_silkscreen :: "item list" where
  "gen_silkscreen =
     [Comment ''  ; Silkscreen labels'',
      Label ''CIRRADIO DevBoard v1.0'' (fdiv board_w 2) (fsub board_h 6) ''F.SilkS'' 2 (lit 3 1),
      Label ''Zynq-7045 + AD9361'' (fdiv board_w 2) (fsub board_h 3) ''F.SilkS'' (lit 12 1) (lit 2 1),
      Label ''RF'' 40 5 ''F.SilkS'' (lit 15 1) (lit 25 2),
      Label ''FPGA'' (fst zynq_xy) (fsub (snd zynq_xy) 18) ''F.SilkS'' (lit 15 1) (lit 25 2),
      Label ''DDR3L'' (fdiv (fadd (fst ddr0_xy) (fst ddr1_xy)) 2) (fsub (snd ddr0_xy) 8) ''F.SilkS'' (lit 15 1) (lit 25 2),
      Label ''POWER'' 135 72 ''F.SilkS'' (lit 12 1) (lit 2 1)]"

section \<open>The whole script\<close>

definition all_entries :: "(string \<rightharpoonup> int) \<Rightarrow> item list option" where
  "all_entries nets =
     Option.bind (gen_perimeter_via_stitching nets) (\<lambda>perim.
       Some ([Comment (nl # ''  ; ========== ROUTING AND VIA STITCHING =========='')] @
         gen_ddr3l_routing nets @ gen_lvds_routing nets @ gen_rf_routing nets @ gen_power_routing nets @
         gen_general_io_routing nets @ perim @ gen_silkscreen))"

text \<open>The text before and from the last closing parenthesis, with the entries between.\<close>

definition insert_before_last_paren :: "string \<Rightarrow> string \<Rightarrow> string" where
  "insert_before_last_paren pcb_text insertion =
     (let idx = py_rfind (CHR '')'') pcb_text
      in py_upto pcb_text idx @ [nl] @ insertion @ [nl] @ py_from pcb_text idx)"

definition routing_main :: "random \<Rightarrow> nat \<Rightarrow> string \<Rightarrow> string option" where
  "routing_main rnd k pcb_text =
     Option.bind (all_entries (parse_nets pcb_text)) (\<lambda>entries.
       Some (insert_before_last_paren pcb_text (py_join [nl] (render rnd k entries) @ [nl])))"

section \<open>Chains of segments\<close>

lemma route_count_pos: "1 \<le> route_count x1 y1 x2 y2 max_seg"
  by (simp add: route_count_def)

lemma route_at_start: "is_float a \<Longrightarrow> route_at a d 0 n = a"
  by (simp add: route_at_def fops fl_exact)

text \<open>The last point misses the goal by the four roundings at most.\<close>

lemma route_at_end:
  assumes n: "0 < n" and a: "\<bar>a\<bar> \<le> 1024" and b: "\<bar>b\<bar> \<le> 1024"
  shows "\<bar>route_at a (fsub b a) n n - b\<bar> \<le> 1 / 2 ^ 39"
proof -
  define e :: rat where "e = 1 / 2 ^ 53"
  have e: "0 \<le> e" "10243 * e \<le> 1" "10243 * e \<le> 1 / 2 ^ 39" by (simp_all add: e_def)
  have err: "\<bar>fl x - x\<bar> \<le> c * e" if "\<bar>x\<bar> \<le> c" for x c
    using fl_abs_err [OF that] by (simp add: e_def)
  define d where "d = fsub b a"
  define m where "m = fmul d (of_int n)"
  define q where "q = fdiv m (of_int n)"
  have N: "(1 :: rat) \<le> of_int n" using n by simp
  have d: "\<bar>d - (b - a)\<bar> \<le> 2048 * e"
    unfolding d_def fsub_def using a b by (intro err) linarith
  then have dd: "\<bar>d\<bar> \<le> 2049" using a b e by linarith
  have "\<bar>m - d * of_int n\<bar> \<le> (2049 * of_int n) * e"
    unfolding m_def fmul_def using dd N by (intro err) (simp add: abs_mult mult_right_mono)
  then have "\<bar>m - d * of_int n\<bar> / of_int n \<le> (2049 * of_int n) * e / of_int n"
    using N by (intro divide_right_mono) auto
  also have "(2049 * of_int n) * e / of_int n = 2049 * e" using N by simp
  also have "\<bar>m - d * of_int n\<bar> / of_int n = \<bar>(m - d * of_int n) / of_int n\<bar>"
    using N by simp
  also have "(m - d * of_int n) / of_int n = m / of_int n - d"
    using N by (simp add: diff_divide_distrib)
  finally have m: "\<bar>m / of_int n - d\<bar> \<le> 2049 * e" .
  have q: "\<bar>q - m / of_int n\<bar> \<le> 2050 * e"
    unfolding q_def fdiv_def using m dd e by (intro err) linarith
  have r: "\<bar>fadd a q - (a + q)\<bar> \<le> 4096 * e"
    unfolding fadd_def using m q dd a e by (intro err) linarith
  have "\<bar>fadd a q - b\<bar> \<le> 1 / 2 ^ 39" using d m q r e by linarith
  then show ?thesis by (simp add: route_at_def q_def m_def d_def)
qed

fun seg_start :: "item \<Rightarrow> rat \<times> rat" where
  "seg_start (Segment x1 y1 x2 y2 width layer net_num) = (x1, y1)"
| "seg_start _ = (0, 0)"

fun seg_end :: "item \<Rightarrow> rat \<times> rat" where
  "seg_end (Segment x1 y1 x2 y2 width layer net_num) = (x2, y2)"
| "seg_end _ = (0, 0)"

text \<open>
  C12: \<open>route_point_to_point\<close> draws an unbroken chain: at least one segment, each with the width,
  layer and net asked for, the first one starting exactly at the start point, every further one
  exactly where its predecessor ends, and the last one ending within \<open>2^-39\<close> mm of the goal,
  for coordinates up to a metre.
\<close>

theorem route_chain:
  assumes "is_float x1" "is_float y1" "\<bar>x1\<bar> \<le> 1024" "\<bar>y1\<bar> \<le> 1024" "\<bar>x2\<bar> \<le> 1024" "\<bar>y2\<bar> \<le> 1024"
  shows "\<exists>s ss. route_point_to_point x1 y1 x2 y2 width layer net_num max_seg = s # ss \<and>
    seg_start s = (x1, y1) \<and>
    (\<forall>i < length ss. seg_start ((s # ss) ! Suc i) = seg_end ((s # ss) ! i)) \<and>
    (\<forall>t \<in> set (s # ss). \<exists>a b c d. t = Segment a b c d width layer net_num) \<and>
    \<bar>fst (seg_end (last (s # ss))) - x2\<bar> \<le> 1 / 2 ^ 39 \<and>
    \<bar>snd (seg_end (last (s # ss))) - y2\<bar> \<le> 1 / 2 ^ 39"
proof -
  let ?n = "route_count x1 y1 x2 y2 max_seg"
  let ?dx = "fsub x2 x1" and ?dy = "fsub y2 y1"
  let ?f = "\<lambda>i. Segment (route_at x1 ?dx i ?n) (route_at y1 ?dy i ?n)
     (route_at x1 ?dx (i + 1) ?n) (route_at y1 ?dy (i + 1) ?n) width layer net_num"
  have n: "1 \<le> ?n" by (rule route_count_pos)
  have r: "route_point_to_point x1 y1 x2 y2 width layer net_num max_seg = map ?f [0..?n - 1]"
    by (simp add: route_point_to_point_def Let_def)
  obtain s ss where s: "map ?f [0..?n - 1] = s # ss" using n by (cases "map ?f [0..?n - 1]") auto
  then have "s = ?f 0" using n by (auto simp: upto_rec1)
  have l: "length (s # ss) = nat ?n" by (simp flip: s)
  have nth: "(s # ss) ! i = ?f (int i)" if "i < nat ?n" for i
    using that by (simp flip: s)
  have "last (s # ss) = ?f (?n - 1)" using n by (simp add: last_conv_nth nth flip: s)
  then have e: "seg_end (last (s # ss)) = (route_at x1 ?dx ?n ?n, route_at y1 ?dy ?n ?n)" by simp
  have "0 < ?n" using n by simp
  note g = route_at_end [OF this assms(3,5)] route_at_end [OF this assms(4,6)]
  have ends: "\<bar>fst (seg_end (last (s # ss))) - x2\<bar> \<le> 1 / 2 ^ 39"
    "\<bar>snd (seg_end (last (s # ss))) - y2\<bar> \<le> 1 / 2 ^ 39"
    unfolding e fst_conv snd_conv by (rule g)+
  have "\<forall>i < length ss. seg_start ((s # ss) ! Suc i) = seg_end ((s # ss) ! i)"
  proof (intro allI impI)
    fix i assume "i < length ss"
    then have "i < nat ?n" "Suc i < nat ?n" using l by simp_all
    then show "seg_start ((s # ss) ! Suc i) = seg_end ((s # ss) ! i)"
      by (simp only: nth) (simp add: algebra_simps)
  qed
  moreover have "\<forall>t \<in> set (s # ss). \<exists>a b c d. t = Segment a b c d width layer net_num"
    by (auto simp flip: s)
  moreover have "seg_start s = (x1, y1)"
    using \<open>s = ?f 0\<close> assms(1,2) by (simp add: route_at_start)
  ultimately show ?thesis unfolding r s
    by (intro exI [of _ s] exI [of _ ss] conjI refl ends)
qed

theorem route_chain_witness:
  "\<exists>s ss. route_point_to_point 10 10 22 10 (lit 28 2) ''F.Cu'' 178 3 = s # ss \<and> seg_start s = (10, 10)"
proof -
  have "is_float (of_int 10 :: rat)" by (rule is_float_of_int) simp
  then show ?thesis using route_chain [of 10 10 22 10 "lit 28 2" "''F.Cu''" 178 3] by auto
qed

text \<open>On integers the loop of the perimeter counts exactly, and it ends.\<close>

function evens :: "int \<Rightarrow> int \<Rightarrow> int list" where
  "evens l a = (if a \<le> l then a # evens l (a + 2) else [])"
  by pat_completeness auto
termination
  by (relation "measure (\<lambda>(l, a). nat (l + 1 - a))") auto

declare evens.simps [simp del]

lemma while_steps_int:
  "\<bar>l\<bar> \<le> 2 ^ 52 \<Longrightarrow> \<bar>a\<bar> \<le> 2 ^ 52 + 2 \<Longrightarrow>
     while_steps 2 (of_int l) (of_int a) = Some (map of_int (evens l a))"
proof (induction l a rule: evens.induct)
  case (1 l a)
  show ?case
  proof (cases "a \<le> l")
    case True
    have f: "fadd (of_int a) 2 = of_int (a + 2)"
      using fl_of_int [of "a + 2"] True "1.prems" by (simp add: fadd_def)
    have "while_steps 2 (of_int l) (of_int (a + 2)) = Some (map of_int (evens l (a + 2)))"
      using "1.IH" [OF True] "1.prems" True by simp
    then show ?thesis using True f
      by (subst while_steps.simps) (simp add: evens.simps [of l a])
  next
    case False
    then show ?thesis by (subst while_steps.simps) (simp add: evens.simps [of l a])
  qed
qed

lemma evens_eq: "evens 156 4 = map (\<lambda>i. 4 + 2 * i) [0..76]" "evens 94 6 = map (\<lambda>i. 6 + 2 * i) [0..44]"
  by code_simp+

lemma perimeter_steps:
  "while_steps 2 156 4 = Some (map (\<lambda>i. of_int (4 + 2 * i)) [0..76])"
  "while_steps 2 94 6 = Some (map (\<lambda>i. of_int (6 + 2 * i)) [0..44])"
  using while_steps_int [of 156 4] while_steps_int [of 94 6]
  unfolding evens_eq map_map o_def by simp_all

lemma perimeter_consts: "fadd board_margin 1 = 4" "fsub board_w 4 = 156" "fsub board_h 4 = 96" "fsub 96 2 = 94" "fadd 4 2 = 6"
  by code_simp+

text \<open>The stitching vias: every 2 mm on the rectangle 4 mm inside the edge, the corners once.\<close>

definition perimeter :: "int \<Rightarrow> item list" where
  "perimeter gnd = map (\<lambda>i. Via (of_int (4 + 2 * i)) 4 gnd) [0..76] @
     map (\<lambda>i. Via (of_int (4 + 2 * i)) 96 gnd) [0..76] @
     map (\<lambda>i. Via 4 (of_int (6 + 2 * i)) gnd) [0..44] @
     map (\<lambda>i. Via 156 (of_int (6 + 2 * i)) gnd) [0..44]"

lemma perimeter_set:
  "set (perimeter g) = {Via (of_int x) (of_int y) g |x y.
     even x \<and> even y \<and> 4 \<le> x \<and> x \<le> 156 \<and> 4 \<le> y \<and> y \<le> 96 \<and> (x = 4 \<or> x = 156 \<or> y = 4 \<or> y = 96)}"
  (is "?L = {Via (of_int x) (of_int y) g |x y. ?P x y}")
proof (intro equalityI subsetI)
  fix v assume "v \<in> ?L"
  then consider i where "v = Via (of_int (4 + 2 * i)) (of_int 4) g" "0 \<le> i" "i \<le> 76"
    | i where "v = Via (of_int (4 + 2 * i)) (of_int 96) g" "0 \<le> i" "i \<le> 76"
    | i where "v = Via (of_int 4) (of_int (6 + 2 * i)) g" "0 \<le> i" "i \<le> 44"
    | i where "v = Via (of_int 156) (of_int (6 + 2 * i)) g" "0 \<le> i" "i \<le> 44"
    by (auto simp: perimeter_def)
  then show "v \<in> {Via (of_int x) (of_int y) g |x y. ?P x y}"
  proof cases
    case (1 i)
    then have "?P (4 + 2 * i) 4" by simp
    then show ?thesis using 1 by blast
  next
    case (2 i)
    then have "?P (4 + 2 * i) 96" by simp
    then show ?thesis using 2 by blast
  next
    case (3 i)
    then have "?P 4 (6 + 2 * i)" by simp
    then show ?thesis using 3 by blast
  next
    case (4 i)
    then have "?P 156 (6 + 2 * i)" by simp
    then show ?thesis using 4 by blast
  qed
next
  fix v assume "v \<in> {Via (of_int x) (of_int y) g |x y. ?P x y}"
  then obtain x y where v: "v = Via (of_int x) (of_int y) g" and p: "?P x y" by blast
  define i j where "i = (x - 4) div 2" and "j = (y - 6) div 2"
  have ij: "x = 4 + 2 * i" "y = 6 + 2 * j" using p by (auto simp: i_def j_def)
  consider "y = 4" | "y = 96" | "x = 4" "0 \<le> j" "j \<le> 44" | "x = 156" "0 \<le> j" "j \<le> 44"
    using p ij by fastforce
  then show "v \<in> ?L"
  proof cases
    case 1
    then have "v = Via (of_int (4 + 2 * i)) 4 g" "i \<in> set [0..76]" using p v ij by auto
    then show ?thesis unfolding perimeter_def by fastforce
  next
    case 2
    then have "v = Via (of_int (4 + 2 * i)) 96 g" "i \<in> set [0..76]" using p v ij by auto
    then show ?thesis unfolding perimeter_def by fastforce
  next
    case 3
    then have "v = Via 4 (of_int (6 + 2 * j)) g" "j \<in> set [0..44]" using v ij(2) by auto
    then show ?thesis unfolding perimeter_def by fastforce
  next
    case 4
    then have "v = Via 156 (of_int (6 + 2 * j)) g" "j \<in> set [0..44]" using v ij(2) by auto
    then show ?thesis unfolding perimeter_def by fastforce
  qed
qed

lemma perimeter_eq:
  "gen_perimeter_via_stitching nets =
     Some (Comment ''  ; Board perimeter ground via stitching (every 2mm)'' # perimeter (net_get nets ''GND'' 1))"
  by (simp add: gen_perimeter_via_stitching_def Let_def perimeter_consts perimeter_steps perimeter_def
      o_def)

text \<open>
  C16: the stitching loops end, for every table of nets: 244 distinct vias, all on the ground net,
  every one on the rectangle 4 mm inside the edge of the board, on even millimetres.
\<close>

theorem perimeter_stitching:
  "\<exists>c vs. gen_perimeter_via_stitching nets = Some (Comment c # vs) \<and> length vs = 244 \<and> distinct vs \<and>
     set vs = {Via (of_int x) (of_int y) (net_get nets ''GND'' 1) |x y.
       even x \<and> even y \<and> 4 \<le> x \<and> x \<le> 156 \<and> 4 \<le> y \<and> y \<le> 96 \<and>
       (x = 4 \<or> x = 156 \<or> y = 4 \<or> y = 96)}"
proof -
  let ?g = "net_get nets ''GND'' 1"
  let ?x = "\<lambda>i::int. of_int (4 + 2 * i) :: rat" and ?y = "\<lambda>i::int. of_int (6 + 2 * i) :: rat"
  have "distinct (perimeter ?g)"
    unfolding perimeter_def distinct_append
    by (intro conjI) (auto simp: distinct_map inj_on_def)
  moreover have "length (perimeter ?g) = 244" by (simp add: perimeter_def)
  moreover have "set (perimeter ?g) = {Via (of_int x) (of_int y) ?g |x y.
       even x \<and> even y \<and> 4 \<le> x \<and> x \<le> 156 \<and> 4 \<le> y \<and> y \<le> 96 \<and>
       (x = 4 \<or> x = 156 \<or> y = 4 \<or> y = 96)}"
    by (rule perimeter_set)
  ultimately show ?thesis unfolding perimeter_eq by blast
qed

end
