(* ===== verification/Board.thy ===== *)
theory Board
  imports Routing Drc
begin

text \<open>
  Board files as the scripts of the chain leave them: a prefix that declares the nets and the
  outline (\<open>board\<close>), followed by sections of complete lines (\<open>chunk\<close>) and a closing parenthesis.
  What the design rule check reports of such a file depends only on how many traces, vias and
  zones each section holds; every later script only adds sections.
\<close>

section \<open>Resuming a search\<close>

text \<open>\<open>passes r w\<close>: at the start of a line, a search for \<open>r\<close> finds nothing in \<open>w\<close>, whatever follows.\<close>

definition passes :: "rx \<Rightarrow> string \<Rightarrow> bool" where
  "passes r w \<longleftrightarrow> (\<forall>b t. rx_finditer r (nl # b) (w @ t) = rx_finditer r (rev w @ nl # b) t)"

text \<open>\<open>adds r c w\<close>: the search finds \<open>c\<close> matches in \<open>w\<close> and goes on behind it.\<close>

definition adds :: "rx \<Rightarrow> nat \<Rightarrow> string \<Rightarrow> bool" where
  "adds r c w \<longleftrightarrow> (\<forall>b t. length (rx_finditer r (nl # b) (w @ t)) =
     c + length (rx_finditer r (rev w @ nl # b) t))"

definition whole_lines :: "string \<Rightarrow> bool" where
  "whole_lines w \<longleftrightarrow> w = [] \<or> last w = nl"

lemma whole_lines_rev: "whole_lines w \<Longrightarrow> \<exists>b'. rev w @ nl # b = nl # b'"
  by (cases w rule: rev_cases) (auto simp: whole_lines_def)

lemma whole_lines_simps [simp]:
  "whole_lines []" "whole_lines (unl ls)" "whole_lines (w @ [nl])"
  by (cases ls rule: rev_cases; simp add: whole_lines_def)+

lemma whole_lines_append: "whole_lines u \<Longrightarrow> whole_lines v \<Longrightarrow> whole_lines (u @ v)"
  by (cases "v = []") (simp_all add: whole_lines_def)

lemma passes_Nil [simp]: "passes r []"
  by (simp add: passes_def)

lemma adds_Nil [simp]: "adds r 0 []"
  by (simp add: adds_def)

lemma passes_append:
  assumes "whole_lines u" "passes r u" "passes r v"
  shows "passes r (u @ v)"
  unfolding passes_def
proof (intro allI)
  fix b t
  obtain b' where "rev u @ nl # b = nl # b'" using whole_lines_rev [OF assms(1)] by blast
  then show "rx_finditer r (nl # b) ((u @ v) @ t) = rx_finditer r (rev (u @ v) @ nl # b) t"
    using assms(2,3) by (simp add: passes_def)
qed

lemma adds_append:
  assumes "whole_lines u" "adds r c u" "adds r d v"
  shows "adds r (c + d) (u @ v)"
  unfolding adds_def
proof (intro allI)
  fix b t
  obtain b' where "rev u @ nl # b = nl # b'" using whole_lines_rev [OF assms(1)] by blast
  then show "length (rx_finditer r (nl # b) ((u @ v) @ t)) =
      c + d + length (rx_finditer r (rev (u @ v) @ nl # b) t)"
    using assms(2,3) by (simp add: adds_def)
qed

lemma passes_adds: "passes r w \<Longrightarrow> adds r 0 w"
  by (simp add: passes_def adds_def)

lemma passes_no_start: "needs r ps \<Longrightarrow> no_start ps w \<Longrightarrow> passes r w"
  by (simp add: passes_def finditer_no_start)

lemma passes_line:
  "needs k ps \<Longrightarrow> refuses k is_space \<Longrightarrow> no_line_start ps nl w \<Longrightarrow> passes (rx_line k) w"
  unfolding passes_def by (intro allI finditer_no_line_start) auto

text \<open>A line that is not blank and cannot start a match.\<close>

lemma no_line_start_one:
  "nl \<notin> set l \<Longrightarrow> dead ps (dropWhile is_space l) \<Longrightarrow> no_line_start ps nl (l @ [nl])"
proof -
  assume l: "nl \<notin> set l" and d: "dead ps (dropWhile is_space l)"
  then obtain c t where c: "l = c # t" "c \<noteq> nl" "nl \<notin> set t"
    by (cases l) (auto dest: dead_neq_Nil)
  have "dead_line ps nl (l @ [nl])" using d by (intro dead_line_append) (simp add: dead_line_def)
  moreover have "no_line_start ps c (t @ [nl])"
  proof (rule no_line_start_append)
    show "no_line_start ps c t" using c by (intro no_line_start_inline)
    have "last (c # t) \<noteq> nl" using c by (metis last_in_set list.distinct(1) set_ConsD)
    then show "no_line_start ps (last (c # t)) [nl]" by (simp add: dead_line_def)
  qed
  ultimately show ?thesis using c by simp
qed

text \<open>\<open>yields r h w xs\<close>: from the start of a line the search finds \<open>xs\<close> in \<open>w\<close>, seen through \<open>h\<close>.\<close>

definition yields :: "rx \<Rightarrow> (string \<times> string \<times> (nat \<times> string) list \<Rightarrow> 'a) \<Rightarrow> string \<Rightarrow> 'a list \<Rightarrow> bool" where
  "yields r h w xs \<longleftrightarrow> (\<forall>b t. map h (rx_finditer r (nl # b) (w @ t)) =
     xs @ map h (rx_finditer r (rev w @ nl # b) t))"

lemma yields_concat:
  "(\<And>d. d \<in> set ds \<Longrightarrow> whole_lines (f d) \<and> yields r h (f d) (g d)) \<Longrightarrow>
     yields r h (concat (map f ds)) (concat (map g ds))"
proof (induction ds)
  case Nil
  then show ?case by (simp add: yields_def)
next
  case (Cons d ds)
  have w: "whole_lines (f d)" "yields r h (f d) (g d)" "yields r h (concat (map f ds)) (concat (map g ds))"
    using Cons by auto
  show ?case unfolding yields_def
  proof (intro allI)
    fix b t
    obtain b' where b: "rev (f d) @ nl # b = nl # b'" using whole_lines_rev [OF w(1)] by blast
    from w(3) have "map h (rx_finditer r (nl # b') (concat (map f ds) @ t)) =
        concat (map g ds) @ map h (rx_finditer r (rev (concat (map f ds)) @ nl # b') t)"
      by (simp add: yields_def)
    then show "map h (rx_finditer r (nl # b) (concat (map f (d # ds)) @ t)) =
        concat (map g (d # ds)) @ map h (rx_finditer r (rev (concat (map f (d # ds))) @ nl # b) t)"
      using w(2) unfolding yields_def by (simp add: b)
  qed
qed

lemma yields_lines:
  "(\<And>d. d \<in> set ds \<Longrightarrow> yields r h (f d @ [nl]) [g d]) \<Longrightarrow> yields r h (unl (map f ds)) (map g ds)"
  using yields_concat [of ds "\<lambda>d. f d @ [nl]" r h "\<lambda>d. [g d]"] by (simp add: unl_def o_def)

section \<open>Patterns on lines\<close>

lemma match_lit: "rx_match (rx_seq (rx_lit w @ rs)) (b, w @ t, g) = rx_match (rx_seq rs) (rev w @ b, t, g)"
proof (induction w arbitrary: b)
  case (Cons c w)
  then show ?case by (simp add: rx_lit_def ch_def)
qed (simp add: rx_lit_def)

lemma finditer_step: "rx_first r b (c # s) = None \<Longrightarrow> rx_finditer r b (c # s) = rx_finditer r (c # b) s"
  by (subst rx_finditer.simps) simp

lemma passes_step:
  assumes "needs r ps" "no_start ps u" "\<And>b t. rx_first r b (c # v @ t) = None" "no_start ps v"
  shows "passes r (u @ c # v)"
  using assms by (simp add: passes_def finditer_no_start finditer_step)

text \<open>\<open>[^)]*\<close> does not get past the parenthesis that closes the first coordinate pair.\<close>

lemma net_ref_blocked:
  assumes "CHR '')'' \<notin> set u" "no_start (pat ''net'') u"
  shows "rx_match (net_ref_rx n) (b, CHR ''('' # n @ CHR '' '' # u @ CHR '')'' # s, g) = []"
proof -
  let ?k = "rx_seq (rx_lit ''(net'' @ [rx_plus is_space, Grp 1 (rx_plus is_dig), ch (CHR '')'')])"
  have n: "needs ?k (pat ''net'')"
    unfolding pat_def by (rule needs_lit [of _ _ "''(net''"]) (simp add: needs_plus)
  have "rx_match (Seq (Rep (\<lambda>c. c \<noteq> CHR '')'')) ?k) (b', u @ CHR '')'' # s, g) = []" for b'
    using assms by (intro rx_match_rep_dead [OF n]) (auto simp: pat_def list_all_iff)
  moreover have "net_ref_rx n = rx_seq (rx_lit (CHR ''('' # n) @ [Chr is_space, Rep (\<lambda>c. c \<noteq> CHR '')'')] @
      rx_lit ''(net'' @ [rx_plus is_space, Grp 1 (rx_plus is_dig), ch (CHR '')'')])"
    by (simp add: net_ref_rx_def)
  ultimately show ?thesis
    using match_lit [of "CHR ''('' # n" "[Chr is_space, Rep (\<lambda>c. c \<noteq> CHR '')'')] @ rx_lit ''(net'' @ [rx_plus is_space, Grp 1 (rx_plus is_dig), ch (CHR '')'')]" b "CHR '' '' # u @ CHR '')'' # s"]
    by (simp add: is_space_def)
qed

lemma passes_net_ref:
  assumes "no_start (pat n) (CHR ''('' # u @ CHR '')'' # v)" "no_start (pat n) w" "CHR '')'' \<notin> set u" "no_start (pat ''net'') (CHR ''('' # u)"
    "no_start (pat n) (n @ '' '')"
  shows "passes (net_ref_rx n) (w @ CHR ''('' # n @ '' ('' @ u @ CHR '')'' # v)"
proof (rule passes_step [OF needs_net_ref assms(2)])
  fix b t
  show "rx_first (net_ref_rx n) b (CHR ''('' # (n @ '' ('' @ u @ CHR '')'' # v) @ t) = None"
    using net_ref_blocked [of "CHR ''('' # u" n b "v @ t" "[]"] assms(3,4) by (simp add: rx_first_def)
  show "no_start (pat n) (n @ '' ('' @ u @ CHR '')'' # v)"
    using no_start_append [OF assms(5,1)] by simp
qed

lemma int_str_neq_Nil [simp]: "int_str k \<noteq> []"
  by (simp add: int_str_def)

text \<open>A net reference without a name is no declaration.\<close>

lemma needs_entry: "needs net_entry_rx (pat ''net'')"
  unfolding net_entry_rx_def pat_def by (rule needs_lit [of _ _ "''(net''"]) (simp add: needs_plus)

lemma entry_blocked: "rx_match net_entry_rx (b, ''(net '' @ int_str k @ CHR '')'' # s, g) = []"
proof -
  let ?k = "rx_seq [Grp 1 (rx_plus is_dig), rx_plus is_space, ch (CHR 0x22), Grp 2 (Rep quote_free), ch (CHR 0x22), ch (CHR '')'')]"
  let ?q = "Seq (rx_plus is_space) (rx_seq [ch (CHR 0x22), Grp 2 (Rep quote_free), ch (CHR 0x22), ch (CHR '')'')])"
  have sp: "list_all is_space '' ''" by (simp add: is_space_def)
  have r: "refuses ?k is_space"
    unfolding rx_seq.simps by (rule refuses_grp_plus) (auto dest: dig_not_space)
  have st: "stops is_space (int_str k @ CHR '')'' # s)"
    using num_str_chars [of "PInt k"] int_str_neq_Nil [of k]
    by (intro stops_append) (auto simp: list_all_iff num_chars_def is_space_def)
  have n: "rx_match ?k (b', int_str k @ CHR '')'' # s, g) = []" for b'
  proof (cases "k < 0")
    case True
    then show ?thesis
      by (simp add: int_str_def rx_match_seq_rep rx_plus_def is_dig_def)
  next
    case False
    then have d: "list_all is_dig (int_str k)" "int_str k \<noteq> []"
      by (auto simp: list_all_iff digits_dig int_str_def)
    have "rx_match ?k (b', int_str k @ CHR '')'' # s, g) = rx_match ?q (rev (int_str k) @ b', CHR '')'' # s, (1, int_str k) # g)"
      using d unfolding rx_seq.simps
      by (intro rx_match_grp_plus refuses_plus) (auto simp: dig_not_space is_dig_def)
    also have "\<dots> = []" by (simp add: rx_plus_def is_space_def)
    finally show ?thesis .
  qed
  have "rx_match net_entry_rx (b, ''(net'' @ '' '' @ int_str k @ CHR '')'' # s, g) =
      rx_match (Seq (rx_plus is_space) ?k) (rev ''(net'' @ b, '' '' @ int_str k @ CHR '')'' # s, g)"
    unfolding net_entry_rx_def using match_lit [of "''(net''" "rx_plus is_space # [Grp 1 (rx_plus is_dig), rx_plus is_space, ch (CHR 0x22), Grp 2 (Rep quote_free), ch (CHR 0x22), ch (CHR '')'')]"]
    by (simp only: rx_seq.simps)
  also have "\<dots> = []"
    using rx_match_plus [OF r sp _ st] n by simp
  finally show ?thesis by simp
qed

lemma passes_entry:
  assumes "no_start (pat ''net'') a" "no_start (pat ''net'') z"
  shows "passes net_entry_rx (a @ ''(net '' @ int_str k @ CHR '')'' # z)"
proof -
  have "no_start (pat ''net'') (''net '' @ int_str k @ '')'' @ z)"
    using assms(2) opens_no_start [of "\<lambda>_. False" "''net''" "int_str k"]
    by (intro no_start_append) (simp_all add: pat_def)
  moreover have "rx_first net_entry_rx b (CHR ''('' # (''net '' @ int_str k @ CHR '')'' # z) @ t) = None" for b t
    using entry_blocked [of b k "z @ t" "[]"] by (simp add: rx_first_def)
  ultimately show ?thesis
    using passes_step [OF needs_entry assms(1), of "CHR ''(''" "''net '' @ int_str k @ CHR '')'' # z"] by simp
qed

section \<open>Counting elements\<close>

text \<open>The patterns of the four counts, by the name of the element.\<close>

definition elem_body :: "string \<Rightarrow> rx" where
  "elem_body n = rx_seq (rx_lit (CHR ''('' # n) @ [rx_plus is_space] @
     (if n = ''footprint'' then [ch (CHR 0x22)] else []))"

definition elem_rx :: "string \<Rightarrow> rx" where
  "elem_rx n = rx_line (elem_body n)"

lemma elem_rx_simps [simp]:
  "elem_rx ''footprint'' = footprint_rx" "elem_rx ''segment'' = element_rx ''segment''"
  "elem_rx ''via'' = element_rx ''via''" "elem_rx ''zone'' = element_rx ''zone''"
  by (simp_all add: elem_rx_def elem_body_def footprint_rx_def element_rx_def)

lemma elem_facts: "needs (elem_body n) (pat n)" "refuses (elem_body n) is_space"
  unfolding pat_def elem_body_def
  by (rule needs_lit; simp add: needs_plus) (rule refuses_lit; simp add: is_space_def)

text \<open>One match at the start of a line; the rest starts none.\<close>

lemma rx_rep_first: "list_all p u \<Longrightarrow> stops p s \<Longrightarrow> \<exists>more. rx_rep p b (u @ s) g = (rev u @ b, s, g) # more"
proof (induction u arbitrary: b)
  case Nil
  then show ?case by (simp add: rx_rep_stop)
next
  case (Cons c u)
  then obtain more where "rx_rep p (c # b) (u @ s) g = (rev u @ c # b, s, g) # more" by fastforce
  then show ?case using Cons.prems by simp
qed

text \<open>One match at the start of a line; the rest starts none.\<close>

lemma adds_match:
  assumes "\<And>b t. rx_first (rx_line k) (nl # b) (u @ v @ t) = Some (rev u @ nl # b, v @ t, [])"
    and "needs k ps" "refuses k is_space" "no_line_start ps (last u) v" "u \<noteq> []"
  shows "adds (rx_line k) 1 (u @ v)"
  unfolding adds_def
proof (intro allI)
  fix b t
  obtain u' c where u: "u = u' @ [c]" using assms(5) by (cases u rule: rev_cases) auto
  have "rx_finditer (rx_line k) (rev u @ nl # b) (v @ t) = rx_finditer (rx_line k) (rev v @ rev u @ nl # b) t"
    using assms(4) by (intro finditer_no_line_start [OF assms(2,3), of c]) (simp_all add: u)
  then show "length (rx_finditer (rx_line k) (nl # b) ((u @ v) @ t)) =
      1 + length (rx_finditer (rx_line k) (rev (u @ v) @ nl # b) t)"
    using finditer_match [OF assms(1)] assms(5) by simp
qed

lemma elem_start:
  assumes "list_all is_space w"
  shows "rx_match (elem_rx n) (nl # b, w @ CHR ''('' # n @ s, []) =
    rx_match (Seq (rx_plus is_space) (rx_seq (if n = ''footprint'' then [ch (CHR 0x22)] else [])))
      (rev (w @ CHR ''('' # n) @ nl # b, s, [])"
proof -
  have "rx_match (elem_rx n) (nl # b, w @ CHR ''('' # n @ s, []) = rx_match (elem_body n) (rev w @ nl # b, CHR ''('' # n @ s, [])"
    using rx_match_rep [OF elem_facts(2) [of n] assms(1), of "CHR ''('' # n @ s" "nl # b" "[]"]
    by (simp add: elem_rx_def rx_line_def is_space_def)
  also have "\<dots> = rx_match (Seq (rx_plus is_space) (rx_seq (if n = ''footprint'' then [ch (CHR 0x22)] else [])))
      (rev (w @ CHR ''('' # n) @ nl # b, s, [])"
    unfolding elem_body_def
    using match_lit [of "CHR ''('' # n" "[rx_plus is_space] @ (if n = ''footprint'' then [ch (CHR 0x22)] else [])" "rev w @ nl # b" s "[]"]
    by simp
  finally show ?thesis .
qed

lemma adds_elem:
  assumes "list_all is_space w" "list_all is_space v" "v \<noteq> []" "\<not> is_space c" "n \<noteq> ''footprint''"
    "no_line_start (pat n) (last v) (c # u)"
  shows "adds (elem_rx n) 1 (w @ CHR ''('' # n @ v @ c # u)"
proof -
  obtain d v' where v: "v = d # v'" using assms(3) by (cases v) auto
  have "rx_first (elem_rx n) (nl # b) ((w @ CHR ''('' # n @ v) @ (c # u) @ t) =
      Some (rev (w @ CHR ''('' # n @ v) @ nl # b, (c # u) @ t, [])" for b t
  proof -
    have "stops is_space (c # u @ t)" "list_all is_space v'" using assms(2,4) v by auto
    then obtain more where m: "rx_rep is_space (d # rev n @ CHR ''('' # rev w @ nl # b) (v' @ c # u @ t) [] =
        (rev v' @ d # rev n @ CHR ''('' # rev w @ nl # b, c # u @ t, []) # more"
      using rx_rep_first by blast
    show ?thesis
      unfolding rx_first_def using elem_start [OF assms(1), of n b "v @ (c # u) @ t"] assms(2,5)
      by (simp add: v rx_plus_def rx_match_seq_rep m)
  qed
  from adds_match [OF this [unfolded elem_rx_def] elem_facts] assms(3,6)
  show ?thesis by (simp add: elem_rx_def)
qed

lemma adds_footprint:
  assumes "list_all is_space w" "no_line_start (pat ''footprint'') (CHR 0x22) u"
  shows "adds (elem_rx ''footprint'') 1 (w @ ''(footprint '' @ CHR 0x22 # u)"
proof -
  let ?q = "Seq (ch (CHR 0x22)) Eps"
  have q: "refuses ?q is_space" by (auto simp: refuses_def ch_def is_space_def)
  have "rx_first (elem_rx ''footprint'') (nl # b) ((w @ ''(footprint '' @ [CHR 0x22]) @ u @ t) =
      Some (rev (w @ ''(footprint '' @ [CHR 0x22]) @ nl # b, u @ t, [])" for b t
    unfolding rx_first_def using elem_start [OF assms(1), of "''footprint''" b "'' '' @ CHR 0x22 # u @ t"]
      rx_match_plus [OF q, of "'' ''" "CHR 0x22 # u @ t" "rev ''(footprint'' @ rev w @ nl # b" "[]"]
    by (simp add: is_space_def ch_def)
  from adds_match [OF this [unfolded elem_rx_def] elem_facts] assms(2)
  show ?thesis by (simp add: elem_rx_def)
qed

section \<open>Sections of a board file\<close>

text \<open>The elements the design rule check counts, and the patterns that find nothing in a section.\<close>

definition counted :: "string set" where
  "counted = {''footprint'', ''segment'', ''via'', ''zone''}"

definition inert :: "rx set" where
  "inert = {rx_line net_decl_rx, net_entry_rx, net_ref_rx ''segment'', net_ref_rx ''via''}"

text \<open>\<open>chunk w c\<close>: complete lines with \<open>c n\<close> elements of each kind \<open>n\<close>.\<close>

definition chunk :: "string \<Rightarrow> (string \<Rightarrow> nat) \<Rightarrow> bool" where
  "chunk w c \<longleftrightarrow> whole_lines w \<and> neutral w \<and> (\<forall>r \<in> inert. passes r w) \<and>
     (\<forall>n \<in> counted. adds (elem_rx n) (c n) w)"

lemma chunk_Nil: "chunk [] (\<lambda>_. 0)"
  by (simp add: chunk_def)

lemma chunk_append: "chunk u c \<Longrightarrow> chunk v d \<Longrightarrow> chunk (u @ v) (\<lambda>n. c n + d n)"
  unfolding chunk_def using whole_lines_append passes_append adds_append by blast

lemma chunk_cong: "chunk w c \<Longrightarrow> (\<And>n. n \<in> counted \<Longrightarrow> c n = d n) \<Longrightarrow> chunk w d"
  by (simp add: chunk_def)

lemma chunk_concat:
  "(\<And>x. x \<in> set xs \<Longrightarrow> chunk (f x) (c x)) \<Longrightarrow>
     chunk (concat (map f xs)) (\<lambda>n. sum_list (map (\<lambda>x. c x n) xs))"
proof (induction xs)
  case (Cons x xs)
  then show ?case using chunk_append [of "f x" "c x"] by simp
qed (simp add: chunk_Nil)

text \<open>Lines none of whose parentheses opens something the check looks for.\<close>

definition plain :: "string \<Rightarrow> bool" where
  "plain s \<longleftrightarrow> list_all (\<lambda>n. fails n s) [''net'', ''footprint'', ''segment'', ''via'', ''zone''] \<and> refutes ''zone'' s"

lemma plain_fails:
  "plain s \<Longrightarrow> n \<in> {''net'', ''footprint'', ''segment'', ''via'', ''zone''} \<Longrightarrow> fails n s"
  by (auto simp: plain_def)

lemma plain_no_start:
  "opens plain u \<Longrightarrow> n \<in> {''net'', ''footprint'', ''segment'', ''via'', ''zone''} \<Longrightarrow> no_start (pat n) u"
  by (rule opens_no_start) (rule plain_fails)

text \<open>Text in which \<open>(zone\<close> does not even begin.\<close>

definition zpat :: "(char \<Rightarrow> bool) list" where
  "zpat = map (\<lambda>c x. x = c) (CHR ''('' # ''zone'')"

definition zoneless :: "string \<Rightarrow> bool" where
  "zoneless w \<longleftrightarrow> no_start zpat w"

lemma zoneless_append: "zoneless u \<Longrightarrow> zoneless v \<Longrightarrow> zoneless (u @ v)"
  unfolding zoneless_def by (rule no_start_append)

lemma zoneless_opens: "opens P u \<Longrightarrow> (\<And>s. P s \<Longrightarrow> refutes ''zone'' s) \<Longrightarrow> zoneless u"
  unfolding zoneless_def zpat_def by (rule opens_absent)

lemma zoneless_lines: "opens_lines P ls \<Longrightarrow> (\<And>s. P s \<Longrightarrow> refutes ''zone'' s) \<Longrightarrow> zoneless (unl ls)"
  unfolding zoneless_def zpat_def by (rule opens_lines_absent)

lemma zoneless_plain: "opens_lines plain ls \<Longrightarrow> zoneless (unl ls)"
  by (rule zoneless_lines [where P = plain]) (auto simp: plain_def)

lemma zoneless_contains: "zoneless s \<Longrightarrow> \<not> contains ''(zone'' s"
  unfolding zoneless_def zpat_def by (rule no_start_contains) simp_all

lemma passes_inert:
  assumes "r \<in> inert" "\<And>n. n \<in> {''net'', ''segment'', ''via''} \<Longrightarrow> no_start (pat n) w"
    "no_line_start (pat ''net'') nl w"
  shows "passes r w"
  using assms passes_line [OF needs_decl refuses_decl, of w] passes_no_start [OF needs_entry, of w]
    passes_no_start [OF needs_net_ref, of _ w]
  unfolding inert_def by blast

lemma passes_elem: "no_line_start (pat n) nl w \<Longrightarrow> adds (elem_rx n) 0 w"
  unfolding elem_rx_def by (intro passes_adds passes_line [OF elem_facts])

lemma chunk_no_start:
  assumes "whole_lines w" "neutral w"
    and "\<And>n. n \<in> {''net'', ''segment'', ''via''} \<Longrightarrow> no_start (pat n) w"
    and "\<And>n. n \<in> {''net'', ''footprint'', ''segment'', ''via'', ''zone''} \<Longrightarrow> no_line_start (pat n) nl w"
  shows "chunk w (\<lambda>_. 0)"
  unfolding chunk_def using assms(1,2) passes_inert [OF _ assms(3) assms(4) [of "''net''"]]
    passes_elem [OF assms(4)] by (auto simp: counted_def)

lemma chunk_plain:
  assumes "opens_lines plain ls" "neutral_lines ls" "ls = [] \<or> (\<exists>us u c. ls = us @ [u @ [c]] \<and> \<not> is_space c)"
  shows "chunk (unl ls) (\<lambda>_. 0)"
proof -
  have s: "no_start (pat n) (unl ls)" if "n \<in> {''net'', ''footprint'', ''segment'', ''via'', ''zone''}" for n
    using that by (intro opens_lines_no_start [OF assms(1)] plain_fails)
  have "no_line_start (pat n) nl (unl ls)" if "n \<in> {''net'', ''footprint'', ''segment'', ''via'', ''zone''}" for n
    using assms(3) no_start_line [OF s [OF that]] by fastforce
  then show ?thesis using s assms(2) by (intro chunk_no_start) (auto simp: neutral_unl)
qed

text \<open>A trace or via: one element on a line, with one reference to a net.\<close>

lemma chunk_element:
  assumes n: "n \<in> {''segment'', ''via''}"
    and l: "l = ''  ('' @ n @ '' ('' @ u @ CHR '')'' # v @ ''(net '' @ int_str k @ CHR '')'' # z"
    and u: "CHR '')'' \<notin> set u" "open_free u" "fails ''net'' u" and s: "opens plain (CHR ''('' # u @ CHR '')'' # v)" "opens plain (z @ [nl])"
    and nl: "nl \<notin> set u" "nl \<notin> set v" "nl \<notin> set z" and neut: "neutral l"
  shows "chunk (l @ [nl]) (\<lambda>m. if m = n then 1 else 0)"
proof -
  let ?v = "v @ ''(net '' @ int_str k @ CHR '')'' # z"
  have opn: "no_start (pat m) (CHR ''('' # u @ CHR '')'' # v)" "no_start (pat m) (z @ [nl])"
    if "m \<in> {''net'', ''footprint'', ''segment'', ''via'', ''zone''}" for m
    using plain_no_start [OF _ that] s by blast+
  have dig: "nl \<notin> set (int_str k)" using int_str_chars [of k] by (auto simp: num_chars_def nl_def)
  have nll: "nl \<notin> set l" using n nl dig by (auto simp: l nl_def)
  have di: "no_start (pat m) (int_str k)" for m
    using opens_no_start [of "\<lambda>_. False" m "int_str k"] by simp
  have net: "no_start (pat m) (''(net '' @ int_str k @ CHR '')'' # z @ [nl])" if "m \<in> {''segment'', ''via''}" for m
  proof -
    have "no_start (pat m) ''(net ''" "no_start (pat m) '')''" using that by (auto simp: pat_def)
    from no_start_append [OF this(1) no_start_append [OF di no_start_append [OF this(2) opn(2) [of m]]]] that
    show ?thesis by auto
  qed
  have rest: "no_start (pat m) (CHR ''('' # u @ CHR '')'' # ?v @ [nl])" if "m \<in> {''segment'', ''via''}" for m
    using no_start_append [OF opn(1) [of m] net [OF that]] that by auto
  have "passes net_entry_rx (l @ [nl])"
  proof -
    have "no_start (pat ''net'') (''  ('' @ n @ '' '')" using n by (auto simp: pat_def)
    from no_start_append [OF this opn(1) [of "''net''"]] opn(2) [of "''net''"]
    have "passes net_entry_rx (((''  ('' @ n @ '' '') @ CHR ''('' # u @ CHR '')'' # v) @ ''(net '' @ int_str k @ CHR '')'' # z @ [nl])"
      by (intro passes_entry) simp_all
    then show ?thesis by (simp add: l)
  qed
  moreover have "passes (rx_line net_decl_rx) (l @ [nl])"
    using n nll by (intro passes_line [OF needs_decl refuses_decl] no_line_start_one) (auto simp: l pat_def is_space_def)
  moreover have "passes (net_ref_rx m) (l @ [nl])" if m: "m \<in> {''segment'', ''via''}" for m
  proof (cases "m = n")
    case True
    have "no_start (pat ''net'') (CHR ''('' # u)"
      using u(2,3) by (intro opens_no_start [of "fails ''net''"]) simp_all
    then show ?thesis
      using passes_net_ref [of n u "?v @ [nl]" "''  ''"] n u rest [of n] True by (auto simp: l pat_def is_space_def)
  next
    case False
    have "no_start (pat m) (''  ('' @ n @ '' '')" using n m False by (auto simp: pat_def is_space_def)
    from no_start_append [OF this rest [OF m]] show ?thesis
      by (intro passes_no_start [OF needs_net_ref]) (simp add: l)
  qed
  ultimately have "\<forall>r \<in> inert. passes r (l @ [nl])" unfolding inert_def by blast
  moreover have "adds (elem_rx m) (if m = n then 1 else 0) (l @ [nl])" if m: "m \<in> counted" for m
  proof (cases "m = n")
    case True
    let ?w = "CHR ''('' # u @ CHR '')'' # ?v"
    have w: "nl \<notin> set (CHR '' '' # ?w)" using nl dig by (auto simp: nl_def)
    then have "last (CHR '' '' # ?w) \<noteq> nl" by (metis last_in_set list.distinct(1))
    moreover have "CHR '' '' \<noteq> nl" by (simp add: nl_def)
    ultimately have "no_line_start (pat n) (CHR '' '') (?w @ [nl])"
      using w by (intro no_line_start_append [OF no_line_start_inline]) (simp_all add: dead_line_def)
    then show ?thesis
      using adds_elem [of "''  ''" "'' ''" "CHR ''(''" n "u @ CHR '')'' # ?v @ [nl]"] n True
      by (auto simp: l is_space_def)
  next
    case False
    have "dead (pat m) (dropWhile is_space l)"
      using m n False by (auto simp: l counted_def pat_def is_space_def)
    then show ?thesis using False nll by (auto intro!: passes_elem no_line_start_one)
  qed
  ultimately show ?thesis using neut unfolding chunk_def
    by (auto intro: neutral_append)
qed

text \<open>A footprint: its first line, and plain lines up to the closing parenthesis.\<close>

lemma chunk_footprint:
  assumes ls: "opens_lines plain ls" "\<exists>us u c. ls = us @ [u @ [c]] \<and> \<not> is_space c"
    and a: "opens plain a" and neut: "neutral_lines ((''  (footprint '' @ CHR 0x22 # a) # ls)"
  shows "chunk (unl ((''  (footprint '' @ CHR 0x22 # a) # ls)) (\<lambda>n. if n = ''footprint'' then 1 else 0)"
proof -
  define r where "r = a @ [nl] @ unl ls"
  define w where "w = ''  (footprint '' @ CHR 0x22 # r"
  obtain v c where v: "r = v @ [c, nl]" "\<not> is_space c"
    using ls(2) unfolding r_def by fastforce
  have s: "no_start (pat n) r" if n: "n \<in> {''net'', ''footprint'', ''segment'', ''via'', ''zone''}" for n
  proof -
    have "no_start (pat n) [nl]" by (simp add: pat_def nl_def)
    then show ?thesis unfolding r_def using n
      by (intro no_start_append plain_no_start [OF a] opens_lines_no_start [OF ls(1)] plain_fails)
  qed
  have w: "no_start (pat n) w" if n: "n \<in> {''net'', ''segment'', ''via'', ''zone''}" for n
  proof -
    have "no_start (pat n) (''  (footprint '' @ [CHR 0x22])" using n by (auto simp: pat_def)
    from no_start_append [OF this s] n show ?thesis by (auto simp: w_def)
  qed
  have lw: "no_line_start (pat n) nl w" if n: "n \<in> {''net'', ''segment'', ''via'', ''zone''}" for n
    using no_start_line [OF w [OF n], of "''  (footprint '' @ CHR 0x22 # v" c nl] v by (simp add: w_def)
  have "list_all is_space ''  ''" by (simp add: is_space_def)
  from adds_footprint [OF this no_start_line [OF s v]]
  have fp: "adds (elem_rx ''footprint'') 1 w" by (simp add: w_def)
  have "adds (elem_rx n) (if n = ''footprint'' then 1 else 0) w" if n: "n \<in> counted" for n
    using n fp passes_elem [OF lw, of n] unfolding counted_def by auto
  moreover have "passes p w" if "p \<in> inert" for p
    using that by (intro passes_inert w lw) auto
  moreover have e: "unl ((''  (footprint '' @ CHR 0x22 # a) # ls) = w" by (simp add: w_def r_def)
  moreover have "neutral w" using neut unfolding neutral_unl [symmetric] e .
  moreover have "whole_lines w" by (simp add: whole_lines_def w_def v(1))
  ultimately show ?thesis unfolding chunk_def by simp
qed

section \<open>The prefix of a board file\<close>

text \<open>
  \<open>board x nets c\<close>: \<open>x\<close> ends a line inside the outermost parenthesis, declares \<open>nets\<close> and the
  outline, and holds \<open>c n\<close> elements of kind \<open>n\<close>.
\<close>

definition board :: "string \<Rightarrow> (string \<rightharpoonup> int) \<Rightarrow> (string \<Rightarrow> nat) \<Rightarrow> bool" where
  "board x nets c \<longleftrightarrow> (\<exists>y. x = y @ [nl]) \<and> scan 0 x = Some 1 \<and>
     (\<forall>t. passes (rx_line net_decl_rx) t \<longrightarrow> collect_nets (x @ t) = ran nets) \<and>
     (\<forall>t. passes net_entry_rx t \<longrightarrow> parse_nets (x @ t) = nets) \<and>
     (\<forall>t. check_board_dimensions (x @ t) = Inr (Some (160, 100))) \<and>
     (\<forall>n \<in> {''segment'', ''via''}. \<forall>t. rx_finditer (net_ref_rx n) [] (x @ t) = rx_finditer (net_ref_rx n) (rev x) t) \<and>
     (\<forall>n \<in> counted. \<forall>t. count_pattern (x @ t) (elem_rx n) = c n + length (rx_finditer (elem_rx n) (rev x) t))"

lemma inert_simps [simp]:
  "rx_line net_decl_rx \<in> inert" "net_entry_rx \<in> inert" "n \<in> {''segment'', ''via''} \<Longrightarrow> net_ref_rx n \<in> inert"
  by (auto simp: inert_def)

text \<open>A board with a section behind it is a board, with the elements of the section counted.\<close>

lemma board_chunk:
  assumes b: "board x nets c" and w: "chunk w d"
  shows "board (x @ w) nets (\<lambda>n. c n + d n)"
proof -
  obtain y where y: "x = y @ [nl]" using b unfolding board_def by blast
  have r: "rev x = nl # rev y" by (simp add: y)
  have wl: "whole_lines w" and wp: "\<And>p. p \<in> inert \<Longrightarrow> passes p w" using w by (auto simp: chunk_def)
  have "\<exists>z. x @ w = z @ [nl]"
    using wl y by (cases w rule: rev_cases) (auto simp: whole_lines_def)
  moreover have "scan 0 (x @ w) = Some 1"
    using b w by (simp add: board_def chunk_def scan_append neutral_scan)
  moreover have "collect_nets ((x @ w) @ t) = ran nets" if "passes (rx_line net_decl_rx) t" for t
    using passes_append [OF wl wp that] b by (simp add: board_def)
  moreover have "parse_nets ((x @ w) @ t) = nets" if "passes net_entry_rx t" for t
    using passes_append [OF wl wp that] b by (simp add: board_def)
  moreover have "check_board_dimensions ((x @ w) @ t) = Inr (Some (160, 100))" for t
    using b by (simp add: board_def)
  moreover have "rx_finditer (net_ref_rx n) [] ((x @ w) @ t) = rx_finditer (net_ref_rx n) (rev (x @ w)) t"
    if n: "n \<in> {''segment'', ''via''}" for n t
  proof -
    have "rx_finditer (net_ref_rx n) [] (x @ w @ t) = rx_finditer (net_ref_rx n) (rev x) (w @ t)"
      using b n unfolding board_def by blast
    then show ?thesis using wp [OF inert_simps(3) [OF n]] by (simp add: passes_def r)
  qed
  moreover have "count_pattern ((x @ w) @ t) (elem_rx n) =
      c n + d n + length (rx_finditer (elem_rx n) (rev (x @ w)) t)" if n: "n \<in> counted" for n t
  proof -
    have "count_pattern (x @ w @ t) (elem_rx n) = c n + length (rx_finditer (elem_rx n) (rev x) (w @ t))"
      using b n unfolding board_def by blast
    then show ?thesis using w n by (simp add: chunk_def adds_def r)
  qed
  ultimately show ?thesis unfolding board_def by blast
qed

text \<open>What may follow the last section: the closing parenthesis, between blank lines.\<close>

definition closes :: "string \<Rightarrow> bool" where
  "closes t \<longleftrightarrow> scan 1 t = Some 0 \<and> (\<forall>r \<in> inert. passes r t) \<and> (\<forall>n \<in> counted. adds (elem_rx n) 0 t)"

definition closing :: string where
  "closing = [CHR '')'', nl]"

lemma closes_simps [simp]: "closes closing" "closes (nl # closing)"
proof -
  have s: "no_start (pat n) closing" "no_start (pat n) (nl # closing)" for n
    by (simp_all add: closing_def pat_def nl_def)
  have l: "no_line_start (pat n) nl closing" "no_line_start (pat n) nl (nl # closing)" for n
    by (simp_all add: closing_def pat_def dead_line_def is_space_def nl_def)
  have "scan 1 closing = Some 0" "scan 1 (nl # closing) = Some 0" by (simp_all add: closing_def)
  then show "closes closing" "closes (nl # closing)"
    unfolding closes_def using s l by (simp_all add: passes_inert passes_elem)
qed

lemma board_refs:
  assumes b: "board x nets c" and t: "closes t" and n: "n \<in> {''segment'', ''via''}"
  shows "extract_net_refs (x @ t) (net_ref_rx n) = []"
proof -
  obtain z where "x = z @ [nl]" using b unfolding board_def by blast
  then obtain y where y: "rev x = nl # y" by simp
  have "passes (net_ref_rx n) t" using t inert_simps(3) [OF n] by (simp add: closes_def)
  then have "rx_finditer (net_ref_rx n) (rev x) t = []"
    unfolding y passes_def by (metis append_Nil2 finditer_Nil)
  moreover have "rx_finditer (net_ref_rx n) [] (x @ t) = rx_finditer (net_ref_rx n) (rev x) t"
    using b n unfolding board_def by blast
  ultimately show ?thesis by (simp add: extract_net_refs_def rx_findall1_def)
qed

lemma board_counts:
  assumes b: "board x nets c" and t: "closes t" and n: "n \<in> counted"
  shows "count_pattern (x @ t) (elem_rx n) = c n"
proof -
  obtain z where "x = z @ [nl]" using b unfolding board_def by blast
  then obtain y where y: "rev x = nl # y" by simp
  have "adds (elem_rx n) 0 t" using t n by (simp add: closes_def)
  then have "\<forall>u. length (rx_finditer (elem_rx n) (nl # y) (t @ u)) = length (rx_finditer (elem_rx n) (rev t @ nl # y) u)"
    by (simp add: adds_def)
  from spec [OF this, of "[]"] have "length (rx_finditer (elem_rx n) (rev x) t) = 0"
    by (simp add: y)
  moreover have "count_pattern (x @ t) (elem_rx n) = c n + length (rx_finditer (elem_rx n) (rev x) t)"
    using b n unfolding board_def by blast
  ultimately show ?thesis by simp
qed

lemma board_report:
  assumes b: "board x nets c" and t: "closes t"
  shows "drc_main (x @ t) = Inr \<lparr>declared = ran nets, n_footprints = c ''footprint'',
     n_segments = c ''segment'', n_vias = c ''via'', n_zones = c ''zone'', dims = Some (160, 100),
     issues = [], exit_code = 0\<rparr>"
proof -
  have tp: "passes p t" if "p \<in> inert" for p using t that by (auto simp: closes_def)
  have "scan 1 t = Some 0" "scan 0 x = Some 1" using b t by (auto simp: board_def closes_def)
  then have cp: "check_parens (x @ t) = (True, 0)"
    by (simp add: check_parens_eq scan_append)
  have ns: "collect_nets (x @ t) = ran nets"
    using b tp unfolding board_def by simp
  have dm: "check_board_dimensions (x @ t) = Inr (Some (160, 100))"
    using b by (simp add: board_def)
  have fl: "fl (160 - 160) = 0" "fl (100 - 100) = 0" by code_simp+
  note cs = board_counts [OF b t, of "''footprint''"] board_counts [OF b t, of "''segment''"]
    board_counts [OF b t, of "''via''"] board_counts [OF b t, of "''zone''"]
  have cs: "count_pattern (x @ t) footprint_rx = c ''footprint''"
    "count_pattern (x @ t) (element_rx ''segment'') = c ''segment''"
    "count_pattern (x @ t) (element_rx ''via'') = c ''via''"
    "count_pattern (x @ t) (element_rx ''zone'') = c ''zone''"
    using cs by (simp_all add: counted_def)
  show ?thesis
    unfolding drc_main_def cp cs board_refs [OF b t insertI1] board_refs [OF b t insertI2 [OF insertI1]] ns dm Let_def
    by (simp del: diff_self cancel_comm_monoid_add_class.diff_cancel add: fl)
qed

lemma board_parse: "board x nets c \<Longrightarrow> closes t \<Longrightarrow> parse_nets (x @ t) = nets"
  by (simp add: board_def closes_def)

end
