(* ===== verification/NetlistDoc.thy ===== *)
theory NetlistDoc
  imports Netlist Uuid
begin

text \<open>
  The PCB file of \<open>gen_pcb_netlist.py\<close>: the numbering of the nets, the sections of the file line
  by line, the removal of the first, unassigned net classes, and the whole of \<open>generate_pcb\<close>
  and \<open>main\<close>. A line of the list may itself hold newlines, as an argument of \<open>emit\<close> may.
\<close>

section \<open>Net numbers and net classes\<close>

text \<open>\<open>sorted(all_nets - {"GND"})\<close> with \<open>GND\<close> in front\<close>

definition net_names :: "string set \<Rightarrow> string list" where
  "net_names all_nets = ''GND'' # sorted_list_of_set (all_nets - {''GND''})"

text \<open>The loop that fills \<open>net_map\<close>.\<close>

fun number_nets :: "nat \<Rightarrow> string list \<Rightarrow> (string \<rightharpoonup> int) \<Rightarrow> (string \<rightharpoonup> int)" where
  "number_nets i [] m = m"
| "number_nets i (name # names) m = number_nets (Suc i) names (m(name \<mapsto> int i + 1))"

definition net_map :: "string list \<Rightarrow> (string \<rightharpoonup> int)" where
  "net_map names = number_nets 0 names Map.empty"

text \<open>The loop that fills the dictionary \<open>net_classes\<close>, whose default is the empty list.\<close>

definition add_member :: "string \<Rightarrow> (net_class \<Rightarrow> string list) \<Rightarrow> (net_class \<Rightarrow> string list)" where
  "add_member name d =
     (let cls = classify_net name in if cls \<noteq> Default then d(cls := d cls @ [name]) else d)"

definition net_classes :: "string list \<Rightarrow> (net_class \<Rightarrow> string list)" where
  "net_classes names = fold add_member names (\<lambda>_. [])"

text \<open>Components counted by the letters their reference starts with.\<close>

definition is_letter :: "char \<Rightarrow> bool" where
  "is_letter c \<longleftrightarrow> (CHR ''A'' \<le> c \<and> c \<le> CHR ''Z'') \<or> (CHR ''a'' \<le> c \<and> c \<le> CHR ''z'')"

definition count_type :: "component \<Rightarrow> (string \<Rightarrow> int) \<Rightarrow> (string \<Rightarrow> int)" where
  "count_type c d =
     (let p = takeWhile is_letter (reference c) in if p \<noteq> [] then d(p := d p + 1) else d)"

definition comp_by_type :: "component list \<Rightarrow> (string \<Rightarrow> int)" where
  "comp_by_type comps = fold count_type comps (\<lambda>_. 0)"

definition led_count :: "component list \<Rightarrow> int" where
  "led_count comps =
     int (length (filter (\<lambda>c. contains ''LED'' (lib_id c) \<or> contains ''LED'' (comp_value c)) comps))"

section \<open>The sections of the file\<close>

definition head_lines :: "int \<Rightarrow> int \<Rightarrow> string list" where
  \<open>head_lines n_comp n_nets = [
    ''(kicad_pcb'',
    ''  (version 20231014)'',
    ''  (generator "gen_pcb_netlist")'',
    ''  (generator_version "9.0")'',
    ''  (general'',
    ''    (thickness 1.6)'',
    ''    (legacy_teardrops no)'',
    ''  )'',
    ''  (paper "A3")'',
    ''  (title_block'',
    ''    (title "CIRRADIO Dev Board")'',
    ''    (date "2026-03-03")'',
    ''    (rev "1.0")'',
    ''    (comment 1 "Tactical SDR Development Board")'',
    ''    (comment 2 "Zynq-7045 + AD9361")'',
    ''    (comment 3 "'' @ int_str n_comp @ '' components, '' @ int_str n_nets @ '' nets")'',
    ''  )'']\<close>

definition layer_lines :: "string list" where
  \<open>layer_lines = [
    ''  (layers'',
    ''    (0 "F.Cu" signal)'',
    ''    (1 "In1.Cu" signal "GND1")'',
    ''    (2 "In2.Cu" signal "SIG1")'',
    ''    (3 "In3.Cu" signal "GND2")'',
    ''    (4 "In4.Cu" signal "SIG2")'',
    ''    (5 "In5.Cu" signal "PWR")'',
    ''    (6 "In6.Cu" signal "SIG3")'',
    ''    (7 "In7.Cu" signal "GND3")'',
    ''    (8 "In8.Cu" signal "SIG4")'',
    ''    (31 "B.Cu" signal)'',
    ''    (32 "B.Adhes" user "B.Adhesive")'',
    ''    (33 "F.Adhes" user "F.Adhesive")'',
    ''    (34 "B.Paste" user)'',
    ''    (35 "F.Paste" user)'',
    ''    (36 "B.SilkS" user "B.Silkscreen")'',
    ''    (37 "F.SilkS" user "F.Silkscreen")'',
    ''    (38 "B.Mask" user "B.Mask")'',
    ''    (39 "F.Mask" user "F.Mask")'',
    ''    (40 "Dwgs.User" user "User.Drawings")'',
    ''    (41 "Cmts.User" user "User.Comments")'',
    ''    (42 "Eco1.User" user "User.Eco1")'',
    ''    (43 "Eco2.User" user "User.Eco2")'',
    ''    (44 "Edge.Cuts" user)'',
    ''    (45 "Margin" user)'',
    ''    (46 "B.CrtYd" user "B.Courtyard")'',
    ''    (47 "F.CrtYd" user "F.Courtyard")'',
    ''    (48 "B.Fab" user "B.Fab")'',
    ''    (49 "F.Fab" user "F.Fab")'',
    ''  )'']\<close>

definition stackup_lines :: "string list" where
  \<open>stackup_lines = [
    ''  (setup'',
    ''    (pad_to_mask_clearance 0)'',
    ''    (allow_soldermask_bridges_in_footprints no)'',
    ''    (stackup'',
    ''      (layer "F.Cu" (type "copper") (thickness 0.035))'',
    ''      (layer "dielectric 1" (type "prepreg") (thickness 0.1) (epsilon_r 4.2))'',
    ''      (layer "In1.Cu" (type "copper") (thickness 0.035))'',
    ''      (layer "dielectric 2" (type "core") (thickness 0.2) (epsilon_r 4.5))'',
    ''      (layer "In2.Cu" (type "copper") (thickness 0.035))'',
    ''      (layer "dielectric 3" (type "prepreg") (thickness 0.1) (epsilon_r 4.2))'',
    ''      (layer "In3.Cu" (type "copper") (thickness 0.035))'',
    ''      (layer "dielectric 4" (type "core") (thickness 0.2) (epsilon_r 4.5))'',
    ''      (layer "In4.Cu" (type "copper") (thickness 0.035))'',
    ''      (layer "dielectric 5" (type "prepreg") (thickness 0.1) (epsilon_r 4.2))'',
    ''      (layer "In5.Cu" (type "copper") (thickness 0.035))'',
    ''      (layer "dielectric 6" (type "core") (thickness 0.2) (epsilon_r 4.5))'',
    ''      (layer "In6.Cu" (type "copper") (thickness 0.035))'',
    ''      (layer "dielectric 7" (type "prepreg") (thickness 0.1) (epsilon_r 4.2))'',
    ''      (layer "In7.Cu" (type "copper") (thickness 0.035))'',
    ''      (layer "dielectric 8" (type "core") (thickness 0.2) (epsilon_r 4.5))'',
    ''      (layer "In8.Cu" (type "copper") (thickness 0.035))'',
    ''      (layer "dielectric 9" (type "prepreg") (thickness 0.1) (epsilon_r 4.2))'',
    ''      (layer "B.Cu" (type "copper") (thickness 0.035))'',
    ''      (copper_finish "ENIG")'',
    ''      (dielectric_constraints yes)'',
    ''    )'']\<close>

definition plot_lines :: "string list" where
  \<open>plot_lines = [
    ''    (pcbplotparams'',
    ''      (layerselection 0x00010fc_ffffffff)'',
    ''      (plot_on_all_layers_selection 0x0000000_00000000)'',
    ''      (disableapertmacros no)'',
    ''      (usegerberextensions yes)'',
    ''      (usegerberattributes yes)'',
    ''      (usegerberadvancedattributes yes)'',
    ''      (creategerberjobfile yes)'',
    ''      (dashed_line_dash_ratio 12.000000)'',
    ''      (dashed_line_gap_ratio 3.000000)'',
    ''      (svgprecision 4)'',
    ''      (plotframeref no)'',
    ''      (viasonmask no)'',
    ''      (mode 1)'',
    ''      (useauxorigin no)'',
    ''      (hpglpennumber 1)'',
    ''      (hpglpenspeed 20)'',
    ''      (hpglpendiameter 15.000000)'',
    ''      (pdf_front_fp_property_popups yes)'',
    ''      (pdf_back_fp_property_popups yes)'',
    ''      (dxf_units_format 0)'',
    ''      (dxf_use_pcbnew_font yes)'',
    ''      (psnegative no)'',
    ''      (psa4output no)'',
    ''      (plotreference yes)'',
    ''      (plotvalue yes)'',
    ''      (plotfptext yes)'',
    ''      (plotinvisibletext no)'',
    ''      (sketchpadsonfab no)'',
    ''      (subtractmaskfromsilk no)'',
    ''      (outputformat 1)'',
    ''      (mirror no)'',
    ''      (drillshape 0)'',
    ''      (scaleselection 1)'',
    ''      (outputdirectory "fab/gerbers/")'',
    ''    )'',
    ''  )'']\<close>

text \<open>The net declarations; a name that the map lacks would raise.\<close>

definition net_line :: "(string \<rightharpoonup> int) \<Rightarrow> string \<Rightarrow> string res" where
  \<open>net_line m name = (case m name of None \<Rightarrow> Inl KeyError
     | Some k \<Rightarrow> Inr (''  (net '' @ int_str k @ '' "'' @ name @ ''")''))\<close>

text \<open>The net classes of the first pass, which have no members and are removed again.\<close>

definition first_class_lines :: "string list" where
  \<open>first_class_lines = [
    ''  (net_class "Default" ""'',
    ''    (clearance 0.1)'',
    ''    (trace_width 0.15)'',
    ''    (via_dia 0.55)'',
    ''    (via_drill 0.3)'',
    ''    (uvia_dia 0.3)'',
    ''    (uvia_drill 0.1)'',
    ''  )'',
    ''  (net_class "Power" ""'',
    ''    (clearance 0.2)'',
    ''    (trace_width 0.4)'',
    ''    (via_dia 0.7)'',
    ''    (via_drill 0.4)'',
    ''    (uvia_dia 0.3)'',
    ''    (uvia_drill 0.1)'',
    ''  )'',
    ''  (net_class "Power_Wide" ""'',
    ''    (clearance 0.2)'',
    ''    (trace_width 0.8)'',
    ''    (via_dia 0.7)'',
    ''    (via_drill 0.4)'',
    ''    (uvia_dia 0.3)'',
    ''    (uvia_drill 0.1)'',
    ''  )'',
    ''  (net_class "RF_50ohm" ""'',
    ''    (clearance 0.2)'',
    ''    (trace_width 0.28)'',
    ''    (via_dia 0.55)'',
    ''    (via_drill 0.3)'',
    ''    (uvia_dia 0.3)'',
    ''    (uvia_drill 0.1)'',
    ''  )'',
    ''  (net_class "LVDS" ""'',
    ''    (clearance 0.12)'',
    ''    (trace_width 0.12)'',
    ''    (via_dia 0.45)'',
    ''    (via_drill 0.2)'',
    ''    (uvia_dia 0.3)'',
    ''    (uvia_drill 0.1)'',
    ''    (diff_pair_width 0.12)'',
    ''    (diff_pair_gap 0.2)'',
    ''  )'',
    ''  (net_class "DDR3" ""'',
    ''    (clearance 0.1)'',
    ''    (trace_width 0.1)'',
    ''    (via_dia 0.45)'',
    ''    (via_drill 0.2)'',
    ''    (uvia_dia 0.3)'',
    ''    (uvia_drill 0.1)'',
    ''  )'',
    ''  (net_class "DDR3_DiffPair" ""'',
    ''    (clearance 0.1)'',
    ''    (trace_width 0.1)'',
    ''    (via_dia 0.45)'',
    ''    (via_drill 0.2)'',
    ''    (uvia_dia 0.3)'',
    ''    (uvia_drill 0.1)'',
    ''    (diff_pair_width 0.1)'',
    ''    (diff_pair_gap 0.15)'',
    ''  )'']\<close>

text \<open>
  The loop over the lines: from a line that opens a net class on, lines are dropped up to the
  line that closes it.
\<close>

fun strip_classes :: "bool \<Rightarrow> string list \<Rightarrow> string list" where
  "strip_classes skip [] = []"
| \<open>strip_classes skip (line # ls) =
     (if contains ''(net_class "'' line then strip_classes True ls
      else if skip \<and> py_strip line = '')'' then strip_classes False ls
      else if skip then strip_classes skip ls
      else line # strip_classes skip ls)\<close>

text \<open>\<open>emit_net_class\<close> and the parameters of the seven calls\<close>

definition emit_net_class :: "net_class \<Rightarrow> (string \<times> string) list \<Rightarrow> string list \<Rightarrow> string list" where
  \<open>emit_net_class cls params nets_list =
     [''  (net_class "'' @ class_name cls @ ''" ""''] @
     map (\<lambda>(k, v). ''    ('' @ k @ '' '' @ v @ '')'') params @
     map (\<lambda>n. ''    (add_net "'' @ n @ ''")'') (sort nets_list) @ [''  )'']\<close>

fun class_params :: "net_class \<Rightarrow> (string \<times> string) list" where
  "class_params Default =
     [(''clearance'', ''0.1''), (''trace_width'', ''0.15''), (''via_dia'', ''0.55''), (''via_drill'', ''0.3''),
      (''uvia_dia'', ''0.3''), (''uvia_drill'', ''0.1'')]"
| "class_params Power =
     [(''clearance'', ''0.2''), (''trace_width'', ''0.4''), (''via_dia'', ''0.7''), (''via_drill'', ''0.4''),
      (''uvia_dia'', ''0.3''), (''uvia_drill'', ''0.1'')]"
| "class_params Power_Wide =
     [(''clearance'', ''0.2''), (''trace_width'', ''0.8''), (''via_dia'', ''0.7''), (''via_drill'', ''0.4''),
      (''uvia_dia'', ''0.3''), (''uvia_drill'', ''0.1'')]"
| "class_params RF_50ohm =
     [(''clearance'', ''0.2''), (''trace_width'', ''0.28''), (''via_dia'', ''0.55''), (''via_drill'', ''0.3''),
      (''uvia_dia'', ''0.3''), (''uvia_drill'', ''0.1'')]"
| "class_params LVDS =
     [(''clearance'', ''0.12''), (''trace_width'', ''0.12''), (''via_dia'', ''0.45''), (''via_drill'', ''0.2''),
      (''uvia_dia'', ''0.3''), (''uvia_drill'', ''0.1''), (''diff_pair_width'', ''0.12''), (''diff_pair_gap'', ''0.2'')]"
| "class_params DDR3 =
     [(''clearance'', ''0.1''), (''trace_width'', ''0.1''), (''via_dia'', ''0.45''), (''via_drill'', ''0.2''),
      (''uvia_dia'', ''0.3''), (''uvia_drill'', ''0.1'')]"
| "class_params DDR3_DiffPair =
     [(''clearance'', ''0.1''), (''trace_width'', ''0.1''), (''via_dia'', ''0.45''), (''via_drill'', ''0.2''),
      (''uvia_dia'', ''0.3''), (''uvia_drill'', ''0.1''), (''diff_pair_width'', ''0.1''), (''diff_pair_gap'', ''0.15'')]"

definition class_lines :: "(net_class \<Rightarrow> string list) \<Rightarrow> string list" where
  "class_lines d =
     (let ddr3_list = filter (\<lambda>n. n \<notin> set (d DDR3_DiffPair)) (d DDR3)
      in emit_net_class Default (class_params Default) [] @
         emit_net_class Power (class_params Power) (d Power) @
         emit_net_class Power_Wide (class_params Power_Wide) (d Power_Wide) @
         emit_net_class RF_50ohm (class_params RF_50ohm) (d RF_50ohm) @
         emit_net_class LVDS (class_params LVDS) (d LVDS) @
         emit_net_class DDR3 (class_params DDR3) ddr3_list @
         emit_net_class DDR3_DiffPair (class_params DDR3_DiffPair) (d DDR3_DiffPair))"

definition outline_lines :: "string list" where
  \<open>outline_lines = [
    [],
    ''  (gr_rect (start 0 0) (end 160 100) (stroke (width 0.1) (type solid)) (fill none) (layer "Edge.Cuts") (uuid "a1b2c3d4-e5f6-7890-abcd-ef0123456789"))'',
    [],
    ''  (gr_text "IMPEDANCE TARGETS:'' @ [CHR 0x5C] @ ''n50'' @ [CHR 0x5C] @ ''u03A9 microstrip (F.Cu): 0.28mm w, ref GND1'' @ [CHR 0x5C] @ ''n100'' @ [CHR 0x5C] @ ''u03A9 diff stripline (In2.Cu): 0.12mm w, 0.20mm gap'' @ [CHR 0x5C] @ ''n50'' @ [CHR 0x5C] @ ''u03A9 stripline (In2/In4.Cu): 0.18mm w"'',
    ''    (at 80 -5) (layer "Cmts.User") (uuid "b2c3d4e5-f6a7-8901-bcde-f01234567890")'',
    ''    (effects (font (size 1.5 1.5) (thickness 0.15)))'',
    ''  )'',
    []]\<close>

text \<open>The summary note; the backslashes stand in the file as written.\<close>

definition summary_text :: "component list \<Rightarrow> int \<Rightarrow> int \<Rightarrow> string" where
  \<open>summary_text comps n_comp n_nets =
     (let d = comp_by_type comps; br = [CHR 0x5C] @ ''n''
      in ''NETLIST IMPORT SUMMARY:'' @ br @ ''Total components: '' @ int_str n_comp @ br @
         ''Total nets: '' @ int_str n_nets @ br @
         ''ICs: '' @ int_str (d ''U'') @ '', Caps: '' @ int_str (d ''C'') @ '', Res: '' @ int_str (d ''R'') @ '', '' @
         ''Ind: '' @ int_str (d ''L'') @ '', Diodes: '' @ int_str (d ''D'') @ '', LEDs: '' @
         int_str (led_count comps) @ br @
         ''Connectors: '' @ int_str (d ''J'') @ '', Crystals: '' @ int_str (d ''Y'') @ br @
         ''Note: Run Update PCB from Schematic to import component footprints'')\<close>

definition summary_lines :: "random \<Rightarrow> nat \<Rightarrow> string \<Rightarrow> string list" where
  \<open>summary_lines rnd k summary =
     [''  (gr_text "'' @ summary @ ''"'',
      ''    (at 80 108) (layer "Cmts.User") (uuid "'' @ uid rnd k @ ''")'',
      ''    (effects (font (size 1.2 1.2) (thickness 0.12)))'',
      ''  )'', []]\<close>

text \<open>\<open>generate_mounting_hole\<close> draws seven identifiers; the one for the silkscreen is not printed.\<close>

definition hole_lines :: "random \<Rightarrow> nat \<Rightarrow> string \<Rightarrow> int \<Rightarrow> int \<Rightarrow> string list" where
  \<open>hole_lines rnd k ref x y = [
     ''  (footprint "MountingHole:MountingHole_3.2mm_M3_Pad"'',
     ''    (layer "F.Cu")'',
     ''    (uuid "'' @ uid rnd k @ ''")'',
     ''    (at '' @ int_str x @ '' '' @ int_str y @ '')'',
     ''    (property "Reference" "'' @ ref @ ''" (at 0 -4.2 0) (layer "F.SilkS") (uuid "'' @ uid rnd (k + 5) @ ''")'',
     ''      (effects (font (size 1 1) (thickness 0.15)))'',
     ''    )'',
     ''    (property "Value" "MountingHole_3.2mm_M3_Pad" (at 0 4.2 0) (layer "F.Fab") (uuid "'' @ uid rnd (k + 6) @ ''")'',
     ''      (effects (font (size 1 1) (thickness 0.15)))'',
     ''    )'',
     ''    (attr exclude_from_pos_files)'',
     ''    (fp_circle'',
     ''      (center 0 0) (end 3.2 0)'',
     ''      (stroke (width 0.15) (type solid)) (fill none) (layer "F.CrtYd") (uuid "'' @ uid rnd (k + 2) @ ''")'',
     ''    )'',
     ''    (fp_circle'',
     ''      (center 0 0) (end 3.0 0)'',
     ''      (stroke (width 0.1) (type solid)) (fill none) (layer "F.Fab") (uuid "'' @ uid rnd (k + 3) @ ''")'',
     ''    )'',
     ''    (pad "1" thru_hole circle'',
     ''      (at 0 0) (size 6.0 6.0) (drill 3.2)'',
     ''      (layers "*.Cu" "*.Mask")'',
     ''      (uuid "'' @ uid rnd (k + 1) @ ''")'',
     ''    )'',
     ''  )'']\<close>

definition generate_mounting_hole :: "random \<Rightarrow> nat \<Rightarrow> string \<Rightarrow> int \<Rightarrow> int \<Rightarrow> string \<times> nat" where
  "generate_mounting_hole rnd k ref x y = (py_join [nl] (hole_lines rnd k ref x y), k + 7)"

fun mounting_holes :: "random \<Rightarrow> nat \<Rightarrow> (string \<times> int \<times> int) list \<Rightarrow> string list \<times> nat" where
  "mounting_holes rnd k [] = ([], k)"
| "mounting_holes rnd k ((ref, x, y) # hs) =
     (let (txt, k1) = generate_mounting_hole rnd k ref x y; (ls, k2) = mounting_holes rnd k1 hs
      in (txt # ls, k2))"

definition hole_positions :: "(string \<times> int \<times> int) list" where
  "hole_positions = [(''MH1'', 5, 5), (''MH2'', 155, 5), (''MH3'', 5, 95), (''MH4'', 155, 95)]"

section \<open>The whole file\<close>

text \<open>The lines emitted before the net classes are stripped.\<close>

definition first_lines :: "component list \<Rightarrow> string list \<Rightarrow> string list res" where
  \<open>first_lines comps names =
     rbind (rmap (net_line (net_map names)) names) (\<lambda>decls.
       Inr (head_lines (int (length comps)) (int (length names)) @ layer_lines @ stackup_lines @
            plot_lines @ [''  (net 0 "")''] @ decls @ [[]] @ first_class_lines @ [[]]))\<close>

definition generate_pcb_lines ::
    "random \<Rightarrow> nat \<Rightarrow> component list \<Rightarrow> string set \<Rightarrow> (string list \<times> nat) res" where
  \<open>generate_pcb_lines rnd k comps all_nets =
     (let names = net_names all_nets;
          n_comp = int (length comps); n_nets = int (length names);
          (holes, k') = mounting_holes rnd (k + 1) hole_positions
      in rbind (first_lines comps names) (\<lambda>first.
           Inr (strip_classes False first @ class_lines (net_classes names) @ outline_lines @
                summary_lines rnd k (summary_text comps n_comp n_nets) @
                [''  ;; Mounting holes - M3, 3.2mm drill, 6mm pad''] @ holes @ [[], '')''], k')))\<close>

definition generate_pcb ::
    "random \<Rightarrow> nat \<Rightarrow> component list \<Rightarrow> string set \<Rightarrow> (string \<times> nat) res" where
  "generate_pcb rnd k comps all_nets =
     rbind (generate_pcb_lines rnd k comps all_nets) (\<lambda>(ls, k'). Inr (py_join [nl] ls, k'))"

text \<open>
  \<open>main\<close>: the schematics that exist are parsed in order, components with a reference already
  seen are dropped, and the text of the PCB file is written with a final newline.
\<close>

definition schematic_files :: "string list" where
  "schematic_files = [''power.kicad_sch'', ''zynq.kicad_sch'', ''ddr3l.kicad_sch'',
     ''ad9361.kicad_sch'', ''rf-frontend.kicad_sch'', ''peripherals.kicad_sch'',
     ''connectors.kicad_sch'']"

definition read_schematics :: "(string \<rightharpoonup> string) \<Rightarrow> component list \<times> string set" where
  "read_schematics files =
     fold (\<lambda>f (comps, nets). case files f of None \<Rightarrow> (comps, nets)
           | Some content \<Rightarrow> (let (cs, ns) = parse_schematic content in (comps @ cs, nets \<union> ns)))
       schematic_files ([], {''GND''})"

definition unique_components :: "component list \<Rightarrow> component list" where
  "unique_components comps = first_by reference comps {}"

definition netlist_main :: "random \<Rightarrow> (string \<rightharpoonup> string) \<Rightarrow> string res" where
  "netlist_main rnd files =
     (let (comps, nets) = read_schematics files
      in rbind (generate_pcb rnd 0 (unique_components comps) nets) (\<lambda>(txt, k). Inr (txt @ [nl])))"

section \<open>Net numbers\<close>

lemma number_nets_append:
  "number_nets i (xs @ ys) m = number_nets (i + length xs) ys (number_nets i xs m)"
  by (induction xs arbitrary: i m) auto

lemma number_nets_nth:
  "distinct xs \<Longrightarrow>
     number_nets i xs m name = (if name \<in> set xs
       then Some (int i + 1 + int (length (takeWhile (\<lambda>x. x \<noteq> name) xs))) else m name)"
  by (induction xs arbitrary: i m) auto

lemma net_map_nth: "distinct xs \<Longrightarrow> j < length xs \<Longrightarrow> net_map xs (xs ! j) = Some (int j + 1)"
proof -
  assume d: "distinct xs" and j: "j < length xs"
  have "takeWhile (\<lambda>x. x \<noteq> xs ! j) xs = take j xs"
    using d j by (intro takeWhile_eq_take_P_nth) (auto simp: nth_eq_iff_index_eq)
  then show ?thesis using d j by (simp add: net_map_def number_nets_nth)
qed

lemma net_map_dom: "distinct xs \<Longrightarrow> dom (net_map xs) = set xs"
  by (auto simp: net_map_def number_nets_nth dom_def split: if_splits)

lemma distinct_net_names [simp]: "distinct (net_names S)"
  by (cases "finite S") (auto simp: net_names_def)

lemma set_net_names: "finite S \<Longrightarrow> set (net_names S) = insert ''GND'' S"
  by (auto simp: net_names_def)

lemma length_net_names: "finite S \<Longrightarrow> length (net_names S) = card (insert ''GND'' S)"
  using distinct_card [OF distinct_net_names [of S]] by (simp add: set_net_names)

lemma rmap_net_line:
  \<open>distinct xs \<Longrightarrow> rmap (net_line (net_map xs)) xs =
     Inr (map (\<lambda>name. ''  (net '' @ int_str (the (net_map xs name)) @ '' "'' @ name @ ''")'') xs)\<close>
  by (rule rmap_Inr) (use net_map_dom [of xs] in \<open>auto simp: net_line_def split: option.splits\<close>)

lemma strict_sorted_nth_less_iff:
  "sorted_wrt (<) (ys :: 'a :: linorder list) \<Longrightarrow> i < length ys \<Longrightarrow> j < length ys \<Longrightarrow>
     ys ! i < ys ! j \<longleftrightarrow> i < j"
  by (metis linorder_neqE_nat order_less_asym order_less_irrefl sorted_wrt_nth_less)

lemma net_map_inj: "distinct xs \<Longrightarrow> inj_on (net_map xs) (set xs)"
  by (rule inj_onI) (auto simp: in_set_conv_nth net_map_nth)

lemma net_map_ran: "distinct xs \<Longrightarrow> ran (net_map xs) = {1 .. int (length xs)}"
proof (intro equalityI subsetI)
  fix k assume d: "distinct xs" and "k \<in> ran (net_map xs)"
  then obtain a where a: "net_map xs a = Some k" by (auto simp: ran_def)
  then have "a \<in> set xs" using net_map_dom [OF d] by blast
  then show "k \<in> {1 .. int (length xs)}" using a d by (auto simp: in_set_conv_nth net_map_nth)
next
  fix k assume d: "distinct xs" and k: "k \<in> {1 .. int (length xs)}"
  then have "net_map xs (xs ! nat (k - 1)) = Some k" by (simp add: net_map_nth nat_less_iff)
  then show "k \<in> ran (net_map xs)" by (rule ranI)
qed

lemma net_map_mono:
  assumes "finite S" "a \<in> S - {''GND''}" "b \<in> S - {''GND''}"
  shows "a < b \<longleftrightarrow> the (net_map (net_names S) a) < the (net_map (net_names S) b)"
proof -
  define ys where "ys = sorted_list_of_set (S - {''GND''})"
  have s: "sorted_wrt (<) ys" and set: "set ys = S - {''GND''}"
    using assms(1) by (simp_all add: ys_def)
  obtain i j where ij: "i < length ys" "j < length ys" "a = ys ! i" "b = ys ! j"
    using assms set by (metis in_set_conv_nth)
  have "net_map (net_names S) (ys ! k) = Some (int k + 2)" if "k < length ys" for k
    using net_map_nth [OF distinct_net_names, of "Suc k" S] that by (simp add: net_names_def ys_def)
  then show ?thesis using ij strict_sorted_nth_less_iff [OF s] by simp
qed

text \<open>
  C4: net numbering: \<open>GND\<close> is net 1, the nets of the schematics and no others have a number,
  the numbers are 1 to the number of nets, no two nets share one, and they follow the order of
  the names.
\<close>

theorem net_numbering:
  assumes "finite S"
  shows "net_map (net_names S) ''GND'' = Some 1 \<and>
    dom (net_map (net_names S)) = insert ''GND'' S \<and>
    ran (net_map (net_names S)) = {1 .. int (card (insert ''GND'' S))} \<and>
    inj_on (net_map (net_names S)) (insert ''GND'' S) \<and>
    (\<forall>a \<in> S - {''GND''}. \<forall>b \<in> S - {''GND''}. a < b \<longleftrightarrow>
       the (net_map (net_names S) a) < the (net_map (net_names S) b))"
proof (intro conjI)
  let ?xs = "net_names S"
  show "net_map ?xs ''GND'' = Some 1"
    using net_map_nth [OF distinct_net_names, of 0 S] by (simp add: net_names_def)
  show "dom (net_map ?xs) = insert ''GND'' S" "inj_on (net_map ?xs) (insert ''GND'' S)"
    using net_map_dom [of ?xs] net_map_inj [of ?xs] set_net_names [OF assms] by simp_all
  show "ran (net_map ?xs) = {1 .. int (card (insert ''GND'' S))}"
    using net_map_ran [of ?xs] length_net_names [OF assms] by simp
qed (use net_map_mono [OF assms] in blast)

theorem net_numbering_witness:
  "net_map (net_names {''VTT'', ''+5V''}) ''GND'' = Some 1 \<and>
   the (net_map (net_names {''VTT'', ''+5V''}) ''+5V'') < the (net_map (net_names {''VTT'', ''+5V''}) ''VTT'')"
  using net_numbering [of "{''VTT'', ''+5V''}"] by simp

lemma classes_filter:
  "fold add_member names d cls = d cls @ filter (\<lambda>n. cls \<noteq> Default \<and> classify_net n = cls) names"
  by (induction names arbitrary: d) (auto simp: add_member_def Let_def)

lemma net_classes_filter:
  "net_classes names cls = filter (\<lambda>n. cls \<noteq> Default \<and> classify_net n = cls) names"
  by (simp add: net_classes_def classes_filter)

lemma class_lines_eq:
  "class_lines (net_classes names) = concat (map (\<lambda>cls. emit_net_class cls (class_params cls)
      (filter (\<lambda>n. cls \<noteq> Default \<and> classify_net n = cls) names))
      [Default, Power, Power_Wide, RF_50ohm, LVDS, DDR3, DDR3_DiffPair])"
proof -
  have "filter (\<lambda>n. n \<notin> set (net_classes names DDR3_DiffPair)) (net_classes names DDR3) =
      net_classes names DDR3"
    by (auto simp: net_classes_filter intro!: filter_cong)
  then show ?thesis by (simp add: class_lines_def Let_def net_classes_filter)
qed

text \<open>
  C17: the loop with \<open>seen_refs\<close> keeps one component for each reference, the first one of the
  list with it, in the order of the list.
\<close>

theorem unique_components_spec:
  "distinct (map reference (unique_components comps)) \<and>
   reference ` set (unique_components comps) = reference ` set comps \<and>
   subseq (unique_components comps) comps \<and>
   map (\<lambda>c. find (\<lambda>d. reference d = reference c) comps) (unique_components comps) =
     map Some (unique_components comps)"
  by (simp only: unique_components_def first_by_distinct first_by_set first_by_subseq
        first_by_find Diff_empty simp_thms)

end
