(* ===== verification/NetlistCheck.thy ===== *)
theory NetlistCheck
  imports Board NetlistDoc
begin

text \<open>
  What the netlist file looks like to the scripts that read it: the file as a list of lines, the
  places where their patterns can start, its balance, and the design rule check on it.
\<close>

section \<open>The file as a list of lines\<close>

text \<open>What the theorems below assume of a net name: nothing that quotes, nests or breaks lines.\<close>

definition name_ok :: "string \<Rightarrow> bool" where
  "name_ok s \<longleftrightarrow> set s \<inter> {CHR ''('', CHR '')'', CHR 0x22, nl} = {}"

lemma name_ok_simps [simp]:
  "name_ok []"
  "name_ok s \<Longrightarrow> parens_free s"
  "name_ok s \<Longrightarrow> open_free s"
  "name_ok s \<Longrightarrow> nl \<notin> set s"
  "name_ok s \<Longrightarrow> CHR 0x22 \<notin> set s"
  by (auto simp: name_ok_def parens_free_def open_free_def)

definition decl_line :: "int \<times> string \<Rightarrow> string" where
  \<open>decl_line d = ''  (net '' @ int_str (fst d) @ '' "'' @ snd d @ ''")''\<close>

definition pre_lines :: "int \<Rightarrow> int \<Rightarrow> string list" where
  \<open>pre_lines n_comp n_nets = head_lines n_comp n_nets @ layer_lines @ stackup_lines @ plot_lines\<close>

definition decls :: "string list \<Rightarrow> (int \<times> string) list" where
  "decls names = (0, []) # map (\<lambda>n. (the (net_map names n), n)) names"

definition post_lines :: "random \<Rightarrow> nat \<Rightarrow> component list \<Rightarrow> string list \<Rightarrow> string list" where
  \<open>post_lines rnd k comps names =
     [[], []] @ class_lines (net_classes names) @ outline_lines @
     summary_lines rnd k (summary_text comps (int (length comps)) (int (length names))) @
     [''  ;; Mounting holes - M3, 3.2mm drill, 6mm pad''] @
     fst (mounting_holes rnd (k + 1) hole_positions) @ [[]]\<close>

section \<open>Where patterns can start\<close>

definition pre_ok :: "string \<Rightarrow> bool" where
  "pre_ok s \<longleftrightarrow> list_all (\<lambda>n. fails n s) [''footprint'', ''net_class'', ''net'', ''segment'', ''via'', ''zone'', ''gr_rect''] \<and> refutes ''zone'' s"

definition decl_ok :: "string \<Rightarrow> bool" where
  "decl_ok s \<longleftrightarrow> list_all (\<lambda>n. fails n s) [''footprint'', ''net_class'', ''segment'', ''via'', ''zone'', ''gr_rect''] \<and> refutes ''zone'' s"

definition class_ok :: "string \<Rightarrow> bool" where
  "class_ok s \<longleftrightarrow> list_all (\<lambda>n. fails n s) [''footprint'', ''net'', ''segment'', ''via'', ''zone'', ''gr_rect''] \<and> refutes ''zone'' s"

definition post_ok :: "string \<Rightarrow> bool" where
  "post_ok s \<longleftrightarrow> list_all (\<lambda>n. fails n s) [''net_class'', ''net'', ''segment'', ''via'', ''zone''] \<and> refutes ''zone'' s"

lemma pre_opens: "opens_lines pre_ok (pre_lines n m)"
proof -
  have "opens_lines pre_ok (head_lines n m)"
    by (simp add: opens_lines_def pre_ok_def is_space_def head_lines_def)
  moreover have "opens_lines pre_ok (layer_lines @ stackup_lines @ plot_lines)"
    by code_simp
  ultimately show ?thesis by (simp add: pre_lines_def)
qed

lemma decl_opens: "name_ok (snd d) \<Longrightarrow> opens decl_ok (decl_line d @ [nl])"
  by (simp add: decl_line_def decl_ok_def is_space_def)

lemma params_opens: "list_all (\<lambda>(k,v). opens class_ok (''    ('' @ k @ '' '' @ v @ '')'' @ [nl])) (class_params cls)"
  by (cases cls; simp only: class_params.simps; code_simp)

lemma emit_opens: "\<forall>n \<in> set ns. name_ok n \<Longrightarrow> opens_lines class_ok (emit_net_class cls (class_params cls) ns)"
  using params_opens [of cls]
  by (auto simp: emit_net_class_def opens_lines_def class_ok_def is_space_def list_all_iff split: prod.splits)
     (cases cls; simp)

lemma class_opens:
  "\<forall>n \<in> set names. name_ok n \<Longrightarrow> opens_lines class_ok (class_lines (net_classes names))"
  by (simp add: class_lines_eq emit_opens del: class_params.simps)

lemma outline_split: "outline_lines = [] # hd (tl outline_lines) # tl (tl outline_lines)"
  by (simp add: outline_lines_def)

lemma outline_opens: "opens_lines post_ok outline_lines"
  by code_simp

lemma open_free_summary: "open_free (summary_text comps n m)"
  by (simp add: summary_text_def Let_def)

lemma summary_opens: "open_free s \<Longrightarrow> opens_lines post_ok (summary_lines rnd k s)"
  by (simp add: summary_lines_def post_ok_def is_space_def)

lemma hole_opens:
  "open_free ref \<Longrightarrow> opens_lines post_ok (hole_lines rnd k ref x y)"
  by (simp add: hole_lines_def post_ok_def is_space_def)

lemma fails_prefix: "fails n s \<Longrightarrow> \<not> prefix (n @ CHR '' '' # x) s"
  by (induction n s rule: fails.induct) (auto simp: is_space_def)

lemma opens_contains:
  assumes "\<And>s. P s \<Longrightarrow> fails n s"
  shows "opens P s \<Longrightarrow> \<not> contains (CHR ''('' # n @ CHR '' '' # x) s"
proof (induction s)
  case (Cons c s)
  then show ?case using fails_prefix [OF assms, of s x] by (auto split: if_splits)
qed simp

lemma opens_butlast: "opens P (l @ [nl]) \<Longrightarrow> opens (\<lambda>s. P (s @ [nl])) l"
  by (induction l) (auto split: if_splits)

lemma strip_append:
  \<open>list_all (\<lambda>l. \<not> contains ''(net_class "'' l) us \<Longrightarrow>
     strip_classes False (us @ vs) = us @ strip_classes False vs\<close>
  by (induction us) auto

lemma strip_opens:
  assumes "opens_lines P us" "\<And>s. P s \<Longrightarrow> fails ''net_class'' s"
  shows "strip_classes False (us @ vs) = us @ strip_classes False vs"
proof (rule strip_append)
  have \<open>\<not> contains ''(net_class "'' l\<close> if "l \<in> set us" for l
  proof -
    have "opens P (l @ [nl])" using assms(1) that by (auto simp: opens_lines_def list_all_iff)
    then have \<open>\<not> contains ''(net_class "'' (l @ [nl])\<close>
      using opens_contains [OF assms(2), of P "l @ [nl]" "[CHR 0x22]"] by simp
    then show ?thesis by (auto simp: contains_iff) (metis append.assoc)
  qed
  then show \<open>list_all (\<lambda>l. \<not> contains ''(net_class "'' l) us\<close> by (simp add: list_all_iff)
qed

lemma strip_first: "strip_classes False ([] # first_class_lines @ [[]]) = [[], []]"
  by code_simp

lemma decls_opens:
  "\<forall>n \<in> set names. name_ok n \<Longrightarrow> opens_lines decl_ok (map decl_line (decls names))"
  using decl_opens by (auto simp: decls_def opens_lines_def list_all_iff)

definition doc_lines :: "random \<Rightarrow> nat \<Rightarrow> component list \<Rightarrow> string list \<Rightarrow> string list" where
  "doc_lines rnd k comps names = pre_lines (int (length comps)) (int (length names)) @
     map decl_line (decls names) @ post_lines rnd k comps names @ ['')'']"

lemma first_lines_eq:
  "distinct names \<Longrightarrow> first_lines comps names =
     Inr (pre_lines (int (length comps)) (int (length names)) @ map decl_line (decls names) @
          [] # first_class_lines @ [[]])"
  by (simp add: first_lines_def rmap_net_line pre_lines_def decls_def decl_line_def int_str_nonneg
      o_def digits.simps digit_char_def)

lemma mounting_holes_snd: "snd (mounting_holes rnd k hs) = k + 7 * length hs"
proof (induction hs arbitrary: k)
  case (Cons h hs)
  obtain ref x y where h: "h = (ref, x, y)" by (cases h)
  show ?case using Cons.IH [of "k + 7"]
    by (auto simp: h generate_mounting_hole_def split: prod.splits)
qed simp

lemma generate_pcb_lines_eq:
  assumes "\<forall>n \<in> set (net_names S). name_ok n"
  shows "generate_pcb_lines rnd k comps S = Inr (doc_lines rnd k comps (net_names S), k + 29)"
proof -
  let ?names = "net_names S"
  have p: "strip_classes False (pre_lines n m @ vs) = pre_lines n m @ strip_classes False vs" for n m vs
    by (rule strip_opens [OF pre_opens]) (simp add: pre_ok_def)
  have d: "strip_classes False (map decl_line (decls ?names) @ vs) =
      map decl_line (decls ?names) @ strip_classes False vs" for vs
    by (rule strip_opens [OF decls_opens [OF assms]]) (simp add: decl_ok_def)
  obtain holes where holes: "mounting_holes rnd (Suc k) hole_positions = (holes, k + 29)"
    using mounting_holes_snd [of rnd "Suc k" hole_positions]
    by (cases "mounting_holes rnd (Suc k) hole_positions") (simp add: hole_positions_def)
  show ?thesis
    using strip_first
    by (simp add: generate_pcb_lines_def first_lines_eq holes Let_def p d doc_lines_def post_lines_def
        del: strip_classes.simps)
qed

lemma generate_pcb_eq:
  assumes "\<forall>n \<in> set (net_names S). name_ok n"
  shows "generate_pcb rnd k comps S = Inr (py_join [nl] (doc_lines rnd k comps (net_names S)), k + 29)"
  using assms by (simp add: generate_pcb_def generate_pcb_lines_eq)

fun flat_holes :: "random \<Rightarrow> nat \<Rightarrow> (string \<times> int \<times> int) list \<Rightarrow> string list" where
  "flat_holes rnd k [] = []"
| "flat_holes rnd k ((ref, x, y) # hs) = hole_lines rnd k ref x y @ flat_holes rnd (k + 7) hs"

lemma unl_mounting_holes: "unl (fst (mounting_holes rnd k hs)) = unl (flat_holes rnd k hs)"
proof (induction hs arbitrary: k)
  case (Cons h hs)
  obtain ref x y where h: "h = (ref, x, y)" by (cases h)
  have "hole_lines rnd k ref x y \<noteq> []" by (simp add: hole_lines_def)
  then show ?case using Cons.IH [of "k + 7"] join_nl [of "hole_lines rnd k ref x y"]
    by (auto simp: h generate_mounting_hole_def split: prod.splits)
qed simp

lemma flat_holes_opens: "opens_lines post_ok (flat_holes rnd k hole_positions)"
  by (simp add: hole_positions_def hole_opens)

text \<open>The lines after the declarations, around the outline.\<close>

definition mid_lines :: "string list \<Rightarrow> string list" where
  "mid_lines names = [[], []] @ class_lines (net_classes names) @ [[]]"

definition end_lines :: "random \<Rightarrow> nat \<Rightarrow> component list \<Rightarrow> string list \<Rightarrow> string list" where
  \<open>end_lines rnd k comps names = tl (tl outline_lines) @
     summary_lines rnd k (summary_text comps (int (length comps)) (int (length names))) @
     [''  ;; Mounting holes - M3, 3.2mm drill, 6mm pad''] @
     flat_holes rnd (k + 1) hole_positions @ [[]]\<close>

definition rect_line :: string where
  \<open>rect_line = ''(gr_rect (start 0 0) (end 160 100)'' @ rect_tail @ ''"Edge.Cuts"'' @
     '') (uuid "a1b2c3d4-e5f6-7890-abcd-ef0123456789"))''\<close>

definition rect_row :: string where
  "rect_row = ''  '' @ rect_line @ [nl]"

lemma hd_outline: "hd (tl outline_lines) = ''  '' @ rect_line"
  by (simp add: outline_lines_def rect_line_def rect_tail_def)

lemma doc_text:
  "py_join [nl] (doc_lines rnd k comps names) @ [nl] =
     unl (pre_lines (int (length comps)) (int (length names))) @
     unl (map decl_line (decls names)) @ unl (mid_lines names) @ rect_row @
     unl (end_lines rnd k comps names) @ [CHR '')'', nl]"
proof -
  have o: "unl (outline_lines @ ls) = [nl] @ ''  '' @ rect_line @ [nl] @ unl (tl (tl outline_lines)) @ unl ls" for ls
    by (subst outline_split) (simp add: hd_outline)
  show ?thesis
    using o unfolding doc_lines_def post_lines_def append_assoc [symmetric] py_join_unl
    by (simp add: mid_lines_def end_lines_def unl_mounting_holes rect_row_def)
qed

section \<open>Balance\<close>

lemma params_neutral: "list_all (\<lambda>(k, v). neutral (''    ('' @ k @ '' '' @ v @ '')'')) (class_params cls)"
  unfolding neutral_def by (cases cls; simp only: class_params.simps; code_simp)

lemma add_net_neutral: \<open>name_ok n \<Longrightarrow> neutral (''    (add_net "'' @ n @ ''")'')\<close>
  by (rule neutralI) (simp add: scan neutral_parens_free)

lemma emit_neutral:
  assumes "\<forall>n \<in> set ns. name_ok n"
  shows "neutral_lines (emit_net_class cls (class_params cls) ns)"
proof -
  let ?ps = "map (\<lambda>(k, v). ''    ('' @ k @ '' '' @ v @ '')'') (class_params cls)"
  let ?as = \<open>map (\<lambda>n. ''    (add_net "'' @ n @ ''")'') (sort ns)\<close>
  have b: "neutral_lines ?ps" "neutral_lines ?as"
    using params_neutral [of cls] add_net_neutral assms
    by (auto intro!: neutral_lines_all simp: list_all_iff)
  have h: \<open>scan 0 (''  (net_class "'' @ class_name cls @ ''" ""'') = Some 1\<close>
    by (cases cls) simp_all
  have "scan_lines 1 (?ps @ ?as @ [''  )'']) = Some 0"
    by (simp only: neutral_lines_scan_append [OF b(1)] neutral_lines_scan_append [OF b(2)] zero_le_one) simp
  then show ?thesis using h
    by (simp add: emit_net_class_def neutral_lines_def)
qed

lemma class_neutral:
  "\<forall>n \<in> set names. name_ok n \<Longrightarrow> neutral_lines (class_lines (net_classes names))"
  unfolding class_lines_eq
  by (rule neutral_lines_concat) (auto intro!: emit_neutral simp del: class_params.simps)

lemma pre_scan: "scan_lines 0 (pre_lines n m @ vs) = scan_lines 1 vs"
proof -
  have "scan_lines 0 (head_lines n m) = Some 1"
    by (simp add: head_lines_def scan)
  moreover have "neutral_lines (layer_lines @ stackup_lines @ plot_lines)"
    unfolding neutral_lines_def by code_simp
  ultimately show ?thesis
    using neutral_lines_scan_append [of "layer_lines @ stackup_lines @ plot_lines" 1 vs]
    by (simp add: pre_lines_def scan_lines_append)
qed

lemma decl_neutral: "name_ok (snd d) \<Longrightarrow> neutral (decl_line d)"
  by (rule neutralI) (simp add: decl_line_def scan neutral_parens_free)

lemma decls_neutral:
  "\<forall>n \<in> set names. name_ok n \<Longrightarrow> neutral_lines (map decl_line (decls names))"
  by (rule neutral_lines_all) (auto simp: decls_def decl_neutral)

lemma outline_neutral: "neutral_lines outline_lines"
  unfolding neutral_lines_def by code_simp

lemma summary_neutral: "parens_free s \<Longrightarrow> neutral_lines (summary_lines rnd k s)"
  by (simp add: neutral_lines_def summary_lines_def scan neutral_parens_free)

lemma hole_neutral: "parens_free ref \<Longrightarrow> neutral_lines (hole_lines rnd k ref x y)"
  by (simp add: neutral_lines_def hole_lines_def scan neutral_parens_free)


lemma summary_text_parens: "parens_free (summary_text comps n m)"
  using int_str_chars by (auto simp: summary_text_def Let_def parens_free_def num_chars_def)

lemma flat_holes_neutral: "neutral_lines (flat_holes rnd k hole_positions)"
  by (simp add: hole_positions_def) (intro neutral_lines_append hole_neutral; simp add: parens_free_def)

lemma rect_neutral: "neutral rect_row"
  unfolding neutral_def by code_simp

lemma end_neutral: "neutral_lines (end_lines rnd k comps names)"
proof -
  have "neutral_lines (tl (tl outline_lines))" unfolding neutral_lines_def by code_simp
  moreover have "neutral_lines [''  ;; Mounting holes - M3, 3.2mm drill, 6mm pad'']" "neutral_lines [[]]"
    by (simp_all add: neutral_lines_def)
  ultimately show ?thesis unfolding end_lines_def
    by (intro neutral_lines_append summary_neutral summary_text_parens flat_holes_neutral)
qed

lemma mid_neutral: "\<forall>n \<in> set names. name_ok n \<Longrightarrow> neutral_lines (mid_lines names)"
  unfolding mid_lines_def by (intro neutral_lines_append class_neutral) (simp_all add: neutral_lines_def)

lemma doc_neutral:
  assumes "\<forall>n \<in> set names. name_ok n"
  shows "neutral (py_join [nl] (doc_lines rnd k comps names) @ [nl])"
proof -
  have "scan_lines 0 (pre_lines n m) = Some 1" for n m using pre_scan [of n m "[]"] by simp
  moreover have "scan 1 (unl (map decl_line (decls names)) @ unl (mid_lines names) @ rect_row @
     unl (end_lines rnd k comps names) @ [CHR '')'', nl]) = Some 0"
    using decls_neutral [OF assms] mid_neutral [OF assms] end_neutral [of rnd k comps names] rect_neutral
    by (simp only: neutral_scan_append neutral_unl zero_le_one) simp
  ultimately show ?thesis
    by (simp add: doc_text neutral_def scan_append [of 0 "unl _"] scan_unl)
qed

section \<open>What the patterns find\<close>

lemma mid_opens: "\<forall>n \<in> set names. name_ok n \<Longrightarrow> opens_lines class_ok (mid_lines names)"
  by (simp add: mid_lines_def class_opens)

lemma end_opens: "opens_lines post_ok (end_lines rnd k comps names)"
proof -
  have "opens_lines post_ok (tl (tl outline_lines))"
    using outline_opens by (subst (asm) outline_split) simp
  then show ?thesis
    by (simp add: end_lines_def summary_opens open_free_summary flat_holes_opens)
qed

lemma rect_opens: "opens post_ok rect_row"
  by code_simp

lemma name_no_line:
  \<open>name_ok n \<Longrightarrow> no_line_start ps (CHR 0x22) (n @ ''")'' @ [nl])\<close>
proof -
  assume "name_ok n"
  then have \<open>no_line_start ps (CHR 0x22) (n @ ''")'')\<close>
    by (intro no_line_start_inline) (auto simp: nl_def dest: name_ok_simps(4))
  moreover have \<open>no_line_start ps (last (CHR 0x22 # n @ ''")'')) [nl]\<close>
    by (simp add: dead_line_def nl_def)
  ultimately show ?thesis
    using no_line_start_append [of ps "CHR 0x22" \<open>n @ ''")''\<close> "[nl]"] by simp
qed

lemma decl_yields:
  assumes "0 \<le> fst d" "name_ok (snd d)"
  shows "yields (rx_line net_decl_rx) (rx_group 1) (decl_line d @ [nl]) [Some (int_str (fst d))]"
  unfolding yields_def
proof (intro allI)
  fix b t
  let ?k = "int_str (fst d)"
  define b1 where "b1 = CHR 0x22 # '' '' @ rev ?k @ rev ''  (net '' @ nl # b"
  define u where \<open>u = snd d @ ''")'' @ [nl]\<close>
  have tx: \<open>(decl_line d @ [nl]) @ t = ''  (net '' @ ?k @ '' '' @ CHR 0x22 # (u @ t)\<close>
    by (simp add: decl_line_def u_def)
  have m: "rx_first (rx_line net_decl_rx) (nl # b) ((decl_line d @ [nl]) @ t) = Some (b1, u @ t, [(1, ?k)])"
    unfolding tx b1_def using assms by (intro decl_match) auto
  have "length (u @ t) < length ((decl_line d @ [nl]) @ t)" unfolding tx by simp
  note f = finditer_match [OF m this]
  have "no_line_start (pat ''net'') (CHR 0x22) u"
    unfolding u_def using assms by (intro name_no_line) auto
  then have "rx_finditer (rx_line net_decl_rx) b1 (u @ t) = rx_finditer (rx_line net_decl_rx) (rev u @ b1) t"
    by (rule finditer_no_line_start [OF needs_decl refuses_decl]) (simp add: b1_def)
  moreover have "rev u @ b1 = rev (decl_line d @ [nl]) @ nl # b" by (simp add: u_def b1_def decl_line_def)
  ultimately show "map (rx_group 1) (rx_finditer (rx_line net_decl_rx) (nl # b) ((decl_line d @ [nl]) @ t)) =
      [Some ?k] @ map (rx_group 1) (rx_finditer (rx_line net_decl_rx) (rev (decl_line d @ [nl]) @ nl # b) t)"
    unfolding f by (simp add: rx_group_def)
qed

definition entry_groups :: "string \<times> string \<times> (nat \<times> string) list \<Rightarrow> string option \<times> string option" where
  "entry_groups m = (rx_group 2 m, rx_group 1 m)"

lemma entry_match:
  assumes "0 \<le> k" "name_ok n"
  shows \<open>rx_first net_entry_rx b (''(net '' @ int_str k @ '' "'' @ n @ ''")'' @ t) =
     Some (rev (''(net '' @ int_str k @ '' "'' @ n @ ''")'') @ b, t, [(2, n), (1, int_str k)])\<close>
proof -
  let ?c = "rx_seq [ch (CHR 0x22), ch (CHR '')'')]"
  let ?q = "rx_seq [ch (CHR 0x22), Grp 2 (Rep quote_free), ch (CHR 0x22), ch (CHR '')'')]"
  let ?p = "Seq (rx_plus is_space) ?q"
  let ?g = "Seq (Grp 1 (rx_plus is_dig)) ?p"
  let ?t = \<open>CHR 0x22 # n @ ''")'' @ t\<close>
  let ?b = "CHR 0x22 # '' '' @ rev (int_str k) @ rev ''(net '' @ b"
  have d: "list_all is_dig (int_str k)"
    using assms(1) by (auto simp: list_all_iff digits_dig int_str_def)
  have sp: "list_all is_space '' ''" by (simp add: is_space_def)
  have rc: "refuses ?c quote_free" by (simp add: refuses_def ch_def quote_free_def)
  have nq: "list_all quote_free n"
    using name_ok_simps(5) [OF assms(2)] by (induction n) (auto simp: quote_free_def)
  have rg: "refuses ?g is_space" by (rule refuses_grp_plus) (auto dest: dig_not_space)
  have st: "stops is_space (int_str k @ '' '' @ ?t)"
    using d by (intro stops_append) (auto simp: list_all_iff dig_not_space)
  have "rx_match net_entry_rx (b, ''(net'' @ '' '' @ int_str k @ '' '' @ ?t, []) =
      rx_match (Seq (rx_plus is_space) ?g) (rev ''(net'' @ b, '' '' @ int_str k @ '' '' @ ?t, [])"
    unfolding net_entry_rx_def using match_lit [of "''(net''" "rx_plus is_space # [Grp 1 (rx_plus is_dig), rx_plus is_space, ch (CHR 0x22), Grp 2 (Rep quote_free), ch (CHR 0x22), ch (CHR '')'')]"]
    by (simp only: rx_seq.simps)
  also have "\<dots> = rx_match ?g (rev ''(net '' @ b, int_str k @ '' '' @ ?t, [])"
    using rx_match_plus [OF rg sp _ st] by simp
  also have "\<dots> = rx_match ?p (rev (int_str k) @ rev ''(net '' @ b, '' '' @ ?t, [(1, int_str k)])"
    using d by (intro rx_match_grp_plus refuses_plus) (auto simp: dig_not_space is_dig_def)
  also have "\<dots> = rx_match ?q ('' '' @ rev (int_str k) @ rev ''(net '' @ b, ?t, [(1, int_str k)])"
  proof -
    have "refuses ?q is_space" by (auto simp: refuses_def ch_def is_space_def)
    then show ?thesis
      using rx_match_plus [of ?q is_space "'' ''" ?t "rev (int_str k) @ rev ''(net '' @ b" "[(1, int_str k)]"] sp
      by (simp add: is_space_def)
  qed
  also have \<open>\<dots> = rx_match (Seq (Grp 2 (Rep quote_free)) ?c) (?b, n @ ''")'' @ t, [(1, int_str k)])\<close>
    by (simp add: ch_def)
  also have \<open>\<dots> = rx_match ?c (rev n @ ?b, ''")'' @ t, (2, n) # [(1, int_str k)])\<close>
    by (rule rx_match_grp_rep [OF rc nq]) (simp add: quote_free_def)
  also have \<open>\<dots> = [(rev (''(net '' @ int_str k @ '' "'' @ n @ ''")'') @ b, t, [(2, n), (1, int_str k)])]\<close>
    by (simp add: ch_def)
  finally show ?thesis by (simp add: rx_first_def)
qed

lemma entry_yields:
  assumes "0 \<le> fst d" "name_ok (snd d)"
  shows "yields net_entry_rx entry_groups (decl_line d @ [nl]) [(Some (snd d), Some (int_str (fst d)))]"
  unfolding yields_def
proof (intro allI)
  fix b t
  have s: "no_start (pat ''net'') ''  ''" "no_start (pat ''net'') [nl]" by (simp_all add: pat_def nl_def)
  let ?m = \<open>''(net '' @ int_str (fst d) @ '' "'' @ snd d @ ''")''\<close>
  have tx: "(decl_line d @ [nl]) @ t = ''  '' @ ?m @ [nl] @ t" by (simp add: decl_line_def)
  have m: "rx_first net_entry_rx (rev ''  '' @ nl # b) (?m @ [nl] @ t) =
      Some (rev ?m @ rev ''  '' @ nl # b, [nl] @ t, [(2, snd d), (1, int_str (fst d))])"
    using entry_match [OF assms, of "rev ''  '' @ nl # b" "[nl] @ t"] by simp
  have "length ([nl] @ t) < length (?m @ [nl] @ t)" by simp
  note f = finditer_match [OF m this]
  show "map entry_groups (rx_finditer net_entry_rx (nl # b) ((decl_line d @ [nl]) @ t)) =
      [(Some (snd d), Some (int_str (fst d)))] @
      map entry_groups (rx_finditer net_entry_rx (rev (decl_line d @ [nl]) @ nl # b) t)"
    unfolding tx finditer_no_start [OF needs_entry s(1)] f list.map
      finditer_no_start [OF needs_entry s(2)]
    by (simp add: entry_groups_def rx_group_def decl_line_def)
qed


lemma pre_last: "\<exists>v. unl (pre_lines n m) = v @ [CHR '')'', nl]"
  by (simp add: pre_lines_def plot_lines_def)

lemma parse_160: "parse_float ''0'' = Inr 0" "parse_float ''160'' = Inr 160" "parse_float ''100'' = Inr 100"
  by code_simp+

text \<open>
  The file up to the comment before the mounting holes, the comment with the holes, and the end.
\<close>

definition note_lines :: "random \<Rightarrow> nat \<Rightarrow> component list \<Rightarrow> string list \<Rightarrow> string list" where
  "note_lines rnd k comps names = tl (tl outline_lines) @
     butlast (summary_lines rnd k (summary_text comps (int (length comps)) (int (length names))))"

definition doc_head :: "component list \<Rightarrow> string list \<Rightarrow> string" where
  "doc_head comps names = unl (pre_lines (int (length comps)) (int (length names)))"

definition doc_tail :: "random \<Rightarrow> nat \<Rightarrow> component list \<Rightarrow> string list \<Rightarrow> string" where
  "doc_tail rnd k comps names = unl (mid_lines names) @ rect_row @ unl (note_lines rnd k comps names)"

definition doc_prefix :: "random \<Rightarrow> nat \<Rightarrow> component list \<Rightarrow> string list \<Rightarrow> string" where
  "doc_prefix rnd k comps names =
     doc_head comps names @ unl (map decl_line (decls names)) @ doc_tail rnd k comps names"

definition holes_comment :: string where
  "holes_comment = ''  ;; Mounting holes - M3, 3.2mm drill, 6mm pad''"

lemma end_lines_split:
  "end_lines rnd k comps names = note_lines rnd k comps names @
     [[], holes_comment] @ flat_holes rnd (k + 1) hole_positions @ [[]]"
  by (simp add: end_lines_def note_lines_def summary_lines_def holes_comment_def)

lemma doc_split:
  "py_join [nl] (doc_lines rnd k comps names) @ [nl] = doc_prefix rnd k comps names @
     unl ([[], holes_comment] @ flat_holes rnd (k + 1) hole_positions) @ nl # closing"
  by (simp add: doc_text end_lines_split doc_prefix_def doc_head_def doc_tail_def closing_def)

lemma note_last: "\<exists>v. unl (note_lines rnd k comps names) = v @ [CHR '')'', nl]"
  by (simp add: note_lines_def summary_lines_def)

lemma neutral_lines_blank: "neutral_lines (ls @ [[]]) \<longleftrightarrow> neutral_lines ls"
  by (cases "scan_lines 0 ls") (simp_all add: neutral_lines_def scan_lines_append)

text \<open>Which searches start where.\<close>

lemma head_opens: "opens_lines plain (pre_lines n m)"
  using opens_lines_mono [OF _ pre_opens, of plain n m] by (simp add: plain_def pre_ok_def)

lemma rect_plain: "opens plain rect_row"
  by code_simp

lemma mid_plain: "\<forall>n \<in> set names. name_ok n \<Longrightarrow> opens_lines plain (mid_lines names)"
  using opens_lines_mono [OF _ mid_opens, of plain names] by (simp add: plain_def class_ok_def)

lemma note_plain: "opens_lines plain (note_lines rnd k comps names)"
proof -
  have "opens_lines plain (tl (tl outline_lines))" by code_simp
  then show ?thesis
    by (simp add: note_lines_def summary_lines_def open_free_summary plain_def is_space_def)
qed

lemma tail_opens: "\<forall>n \<in> set names. name_ok n \<Longrightarrow> n \<in> {''net'', ''footprint'', ''segment'', ''via'', ''zone''} \<Longrightarrow>
    no_start (pat n) (doc_tail rnd k comps names)"
  unfolding doc_tail_def
  by (intro no_start_append opens_lines_no_start [OF mid_plain] opens_lines_no_start [OF note_plain]
      plain_no_start [OF rect_plain] plain_fails)

lemma head_no_start: "n \<in> {''net'', ''footprint'', ''segment'', ''via'', ''zone''} \<Longrightarrow> no_start (pat n) (doc_head comps names)"
  unfolding doc_head_def by (intro opens_lines_no_start [OF head_opens] plain_fails)

lemma prefix_no_start:
  assumes "\<forall>n \<in> set names. name_ok n" "n \<in> {''footprint'', ''segment'', ''via'', ''zone''}"
  shows "no_start (pat n) (doc_prefix rnd k comps names)"
proof -
  have "decl_ok s \<Longrightarrow> fails n s" for s using assms(2) by (auto simp: decl_ok_def)
  then have "no_start (pat n) (unl (map decl_line (decls names)))"
    by (intro opens_lines_no_start [OF decls_opens [OF assms(1)]])
  then show ?thesis unfolding doc_prefix_def using assms
    by (intro no_start_append head_no_start tail_opens) auto
qed

lemma tail_last: "\<exists>v. doc_tail rnd k comps names = v @ [CHR '')'', nl]"
proof -
  obtain v where "unl (note_lines rnd k comps names) = v @ [CHR '')'', nl]" using note_last by blast
  then have "doc_tail rnd k comps names = (unl (mid_lines names) @ rect_row @ v) @ [CHR '')'', nl]"
    by (simp add: doc_tail_def)
  then show ?thesis by blast
qed

lemma prefix_last: "\<exists>v. doc_prefix rnd k comps names = v @ [CHR '')'', nl]"
proof -
  obtain v where "doc_tail rnd k comps names = v @ [CHR '')'', nl]" using tail_last by blast
  then have "doc_prefix rnd k comps names = (doc_head comps names @ unl (map decl_line (decls names)) @ v) @ [CHR '')'', nl]"
    by (simp add: doc_prefix_def)
  then show ?thesis by blast
qed

text \<open>What a search that only meets declarations finds in the prefix and a section behind it.\<close>

lemma prefix_yields:
  assumes head: "\<And>b. rx_finditer r [] (doc_head comps names @ b) = rx_finditer r (rev (doc_head comps names)) b"
    and decl: "\<And>d. d \<in> set (decls names) \<Longrightarrow> yields r h (decl_line d @ [nl]) [g d]"
    and tail: "passes r (doc_tail rnd k comps names)" and t: "passes r t"
  shows "map h (rx_finditer r [] (doc_prefix rnd k comps names @ t)) = map g (decls names)"
proof -
  let ?d = "unl (map decl_line (decls names))"
  obtain v where v: "rev (doc_head comps names) = nl # v"
    using pre_last [of "int (length comps)" "int (length names)"] by (fastforce simp: doc_head_def)
  obtain v' where v': "rev ?d @ nl # v = nl # v'" using whole_lines_rev [of ?d v] by auto
  obtain w where "doc_tail rnd k comps names = w @ [CHR '')'', nl]" using tail_last by blast
  then obtain v'' where v'': "rev (doc_tail rnd k comps names) @ nl # v' = nl # v''" by simp
  have "rx_finditer r (nl # v'') t = []"
    using t unfolding passes_def by (metis append_Nil2 finditer_Nil)
  then have e: "rx_finditer r (nl # v') (doc_tail rnd k comps names @ t) = []"
    using tail by (simp add: passes_def v'')
  have "yields r h ?d (map g (decls names))" by (rule yields_lines) (rule decl)
  then show ?thesis by (simp add: doc_prefix_def head yields_def v v' e)
qed

definition net_table :: "string list \<Rightarrow> (string \<rightharpoonup> int)" where
  "net_table names = (net_map names)([] \<mapsto> 0)"

lemma decls_ok:
  assumes ok: "\<forall>n \<in> set names. name_ok n" and d: "distinct names"
  shows "\<forall>d \<in> set (decls names). 0 \<le> fst d \<and> name_ok (snd d)"
  using ok net_map_nth [OF d] by (auto simp: decls_def in_set_conv_nth)

lemma fold_entries:
  "fold add_net_entry ms m = fold (\<lambda>(n, k). case (n, k) of (Some name, Some num) \<Rightarrow> (\<lambda>nets. nets(name \<mapsto> dec_val num))
     | _ \<Rightarrow> (\<lambda>nets. nets)) (map entry_groups ms) m"
proof -
  have "add_net_entry x = (case entry_groups x of (Some name, Some num) \<Rightarrow> (\<lambda>nets. nets(name \<mapsto> dec_val num)) | _ \<Rightarrow> (\<lambda>nets. nets))" for x
    by (rule ext) (simp add: add_net_entry_def entry_groups_def split: option.splits)
  then show ?thesis by (induction ms arbitrary: m) (simp_all split: prod.splits)
qed

lemma fold_updates:
  "fold (\<lambda>n m. m(n \<mapsto> f n)) names m = (\<lambda>x. if x \<in> set names then Some (f x) else m x)"
  by (induction names arbitrary: m) (auto simp: fun_eq_iff)

lemma fold_decls:
  assumes ok: "\<forall>n \<in> set names. name_ok n" and d: "distinct names" and g: "[] \<notin> set names"
  shows "fold (\<lambda>(n, k). case (n, k) of (Some name, Some num) \<Rightarrow> (\<lambda>nets. nets(name \<mapsto> dec_val num))
     | _ \<Rightarrow> (\<lambda>nets. nets)) (map (\<lambda>d. (Some (snd d), Some (int_str (fst d)))) (decls names)) Map.empty = net_table names"
proof -
  have nn: "0 \<le> the (net_map names n)" if "n \<in> set names" for n
    using decls_ok [OF ok d] that by (auto simp: decls_def)
  have "fold (\<lambda>n m. m(n \<mapsto> dec_val (int_str (the (net_map names n))))) names m =
      fold (\<lambda>n m. m(n \<mapsto> the (net_map names n))) names m" for m
    using nn by (intro fold_cong) (simp_all add: int_str_nonneg)
  then have "fold (\<lambda>(n, k). case (n, k) of (Some name, Some num) \<Rightarrow> (\<lambda>nets. nets(name \<mapsto> dec_val num))
     | _ \<Rightarrow> (\<lambda>nets. nets)) (map (\<lambda>d. (Some (snd d), Some (int_str (fst d)))) (decls names)) Map.empty =
     (\<lambda>x. if x \<in> set names then Some (the (net_map names x)) else (Map.empty([] \<mapsto> 0)) x)"
    by (simp add: decls_def fold_map o_def fold_updates int_str_nonneg)
  also have "\<dots> = net_table names"
    using net_map_dom [OF d] g by (auto simp: fun_eq_iff net_table_def dom_def set_eq_iff)
  finally show ?thesis .
qed

lemma ran_net_table:
  assumes d: "distinct names" and g: "[] \<notin> set names"
  shows "ran (net_table names) = {0 .. int (length names)}"
proof -
  have "net_map names [] = None" using net_map_dom [OF d] g by auto
  then show ?thesis by (auto simp: net_table_def ran_map_upd net_map_ran [OF d])
qed

lemma doc_dims:
  assumes ok: "\<forall>n \<in> set names. name_ok n"
  shows "check_board_dimensions (doc_prefix rnd k comps names @ t) = Inr (Some (160, 100))"
proof -
  let ?u = "unl (pre_lines (int (length comps)) (int (length names))) @
     unl (map decl_line (decls names)) @ unl (mid_lines names) @ ''  ''"
  let ?s = \<open>'') (uuid "a1b2c3d4-e5f6-7890-abcd-ef0123456789"))'' @ [nl] @ unl (note_lines rnd k comps names) @ t\<close>
  let ?t = \<open>''(gr_rect (start 0 0) (end 160 100)'' @ rect_tail @ ''"Edge.Cuts"'' @ ?s\<close>
  have f: "pre_ok s \<Longrightarrow> fails ''gr_rect'' s" "decl_ok s \<Longrightarrow> fails ''gr_rect'' s" "class_ok s \<Longrightarrow> fails ''gr_rect'' s" for s
    by (auto simp: pre_ok_def decl_ok_def class_ok_def)
  have "no_start (pat ''gr_rect'') ''  ''" by (simp add: pat_def)
  then have "no_start (pat ''gr_rect'') ?u"
    using opens_lines_no_start [OF pre_opens f(1)] opens_lines_no_start [OF decls_opens [OF ok] f(2)]
      opens_lines_no_start [OF mid_opens [OF ok] f(3)]
    by (intro no_start_append)
  then have skip: "rx_finditer (outline_rx ''gr_rect'') [] (?u @ ?t) = rx_finditer (outline_rx ''gr_rect'') (rev ?u @ []) ?t"
    by (rule finditer_no_start [OF needs_outline])
  obtain b' where m: "rx_first (outline_rx ''gr_rect'') (rev ?u @ []) ?t =
      Some (b', ?s, [(4, ''100''), (3, ''160''), (2, ''0''), (1, ''0'')])"
    using rect_match by blast
  have "length ?s < length ?t" by simp
  note f = finditer_match [OF m this]
  have tx: "doc_prefix rnd k comps names @ t = ?u @ ?t"
    by (simp add: doc_prefix_def doc_head_def doc_tail_def rect_row_def rect_line_def)
  have "fl 160 = 160" "fl 100 = 100" by code_simp+
  then show ?thesis
    unfolding check_board_dimensions_def tx skip f list.case
    by (simp add: outline_coords_def Let_def rx_group_def parse_160)
qed

lemma doc_board:
  assumes ok: "\<forall>n \<in> set names. name_ok n" and d: "distinct names" and g: "[] \<notin> set names"
  shows "board (doc_prefix rnd k comps names) (net_table names) (\<lambda>_. 0)"
proof -
  let ?p = "doc_prefix rnd k comps names"
  obtain v where v: "?p = v @ [CHR '')'', nl]" using prefix_last by blast
  have "\<exists>y. ?p = y @ [nl]" by (simp add: v)
  moreover have "scan 0 ?p = Some 1"
  proof -
    have "scan_lines 0 (pre_lines n m) = Some 1" for n m using pre_scan [of n m "[]"] by simp
    moreover have "neutral_lines (note_lines rnd k comps names)"
    proof -
      have "neutral_lines (tl (tl outline_lines))" unfolding neutral_lines_def by code_simp
      moreover have "neutral_lines (butlast (summary_lines rnd k (summary_text comps n m)))" for n m
        using summary_neutral [OF summary_text_parens, of rnd k comps n m]
          neutral_lines_blank [of "butlast (summary_lines rnd k (summary_text comps n m))"]
        by (simp add: summary_lines_def del: butlast.simps) (simp add: summary_lines_def)
      ultimately show ?thesis unfolding note_lines_def by blast
    qed
    ultimately show ?thesis
      using decls_neutral [OF ok] mid_neutral [OF ok] rect_neutral
      by (simp add: doc_prefix_def doc_head_def doc_tail_def scan_append [of 0 "unl _"] scan_unl
          neutral_scan_append neutral_scan neutral_unl neutral_lines_scan)
  qed
  moreover have "collect_nets (?p @ t) = ran (net_table names)" if t: "passes (rx_line net_decl_rx) t" for t
  proof -
    obtain w where "doc_tail rnd k comps names = w @ [CHR '')'', nl]" using tail_last by blast
    then have tail: "no_line_start (pat ''net'') nl (doc_tail rnd k comps names)"
      using no_start_line [OF tail_opens [OF ok]] is_space_paren by blast
    obtain w where "doc_head comps names = w @ [CHR '')'', nl]"
      using pre_last unfolding doc_head_def by blast
    then have "no_line_start (pat ''net'') nl (doc_head comps names)"
      using no_start_line [OF head_no_start] is_space_paren by blast
    then have head: "rx_finditer (rx_line net_decl_rx) [] (doc_head comps names @ b) =
        rx_finditer (rx_line net_decl_rx) (rev (doc_head comps names)) b" for b
      using finditer_no_line_start [OF needs_decl refuses_decl, of nl _ "[]" "[]" b] by simp
    have "map (rx_group 1) (rx_finditer (rx_line net_decl_rx) [] (?p @ t)) =
        map (\<lambda>d. Some (int_str (fst d))) (decls names)"
      using decls_ok [OF ok d]
      by (intro prefix_yields [OF head _ passes_line [OF needs_decl refuses_decl tail] t] decl_yields) auto
    then have "rx_findall1 (rx_line net_decl_rx) (?p @ t) = map (int_str \<circ> fst) (decls names)"
      by (intro findall1_groups) (simp add: o_def)
    then have "collect_nets (?p @ t) = fst ` set (decls names)"
      unfolding collect_nets_def using decls_ok [OF ok d] by (force simp: int_str_nonneg image_image)
    also have "fst ` set (decls names) = insert 0 ((\<lambda>n. the (net_map names n)) ` set names)"
      by (auto simp: decls_def image_image)
    also have "(\<lambda>n. the (net_map names n)) ` set names = ran (net_map names)"
      using net_map_dom [OF d] by (force simp: ran_def image_iff)
    also have "insert 0 (ran (net_map names)) = ran (net_table names)"
      by (auto simp: net_map_ran [OF d] ran_net_table [OF d g])
    finally show ?thesis .
  qed
  moreover have "parse_nets (?p @ t) = net_table names" if t: "passes net_entry_rx t" for t
  proof -
    have "map entry_groups (rx_finditer net_entry_rx [] (?p @ t)) =
        map (\<lambda>d. (Some (snd d), Some (int_str (fst d)))) (decls names)"
      using decls_ok [OF ok d] finditer_no_start [OF needs_entry head_no_start, of "[]"]
      by (intro prefix_yields [OF _ _ passes_no_start [OF needs_entry tail_opens [OF ok]] t] entry_yields) auto
    then show ?thesis unfolding parse_nets_def fold_entries by (simp only: fold_decls [OF ok d g])
  qed
  moreover have "check_board_dimensions (?p @ t) = Inr (Some (160, 100))" for t
    by (rule doc_dims [OF ok])
  moreover have "rx_finditer (net_ref_rx n) [] (?p @ t) = rx_finditer (net_ref_rx n) (rev ?p) t"
    if "n \<in> {''segment'', ''via''}" for n t
    using finditer_no_start [OF needs_net_ref prefix_no_start [OF ok], of n "[]"] that by auto
  moreover have "count_pattern (?p @ t) (elem_rx n) = 0 + length (rx_finditer (elem_rx n) (rev ?p) t)"
    if n: "n \<in> counted" for n t
  proof -
    have "no_line_start (pat n) nl ?p"
      using n by (intro no_start_line [OF prefix_no_start [OF ok] v is_space_paren]) (auto simp: counted_def)
    from finditer_no_line_start [OF elem_facts this, of "[]" "[]" t] show ?thesis
      by (simp add: count_pattern_def elem_rx_def)
  qed
  ultimately show ?thesis unfolding board_def by blast
qed



text \<open>The mounting holes.\<close>

lemma hole_chunk:
  assumes "parens_free ref" "nl \<notin> set ref"
  shows "chunk (unl (hole_lines rnd k ref x y)) (\<lambda>n. if n = ''footprint'' then 1 else 0)"
proof -
  define ls where "ls = tl (hole_lines rnd k ref x y)"
  have f: "open_free ref" using assms(1) by (simp add: parens_free_def open_free_def)
  have h: \<open>hole_lines rnd k ref x y = (''  (footprint '' @ CHR 0x22 # ''MountingHole:MountingHole_3.2mm_M3_Pad"'') # ls\<close>
    by (simp add: hole_lines_def ls_def)
  show ?thesis unfolding h
  proof (rule chunk_footprint)
    show "opens_lines plain ls"
      using f by (simp add: ls_def hole_lines_def plain_def is_space_def)
    show \<open>neutral_lines ((''  (footprint '' @ CHR 0x22 # ''MountingHole:MountingHole_3.2mm_M3_Pad"'') # ls)\<close>
      using hole_neutral [OF assms(1), of rnd k x y] by (simp only: h)
    show \<open>opens plain ''MountingHole:MountingHole_3.2mm_M3_Pad"''\<close> by code_simp
    show "\<exists>us u c. ls = us @ [u @ [c]] \<and> \<not> is_space c"
      by (simp add: ls_def hole_lines_def is_space_def)
  qed
qed

lemma flat_holes_chunk:
  "\<forall>(ref, x, y) \<in> set hs. parens_free ref \<and> nl \<notin> set ref \<Longrightarrow>
     chunk (unl (flat_holes rnd k hs)) (\<lambda>n. if n = ''footprint'' then length hs else 0)"
proof (induction hs arbitrary: k)
  case Nil
  then show ?case by (simp add: chunk_cong [OF chunk_Nil])
next
  case (Cons h hs)
  obtain ref x y where h: "h = (ref, x, y)" by (cases h)
  from Cons.prems have "parens_free ref" "nl \<notin> set ref" by (auto simp: h)
  from chunk_append [OF hole_chunk [OF this, of rnd k x y] Cons.IH [of "k + 7"]] Cons.prems
  show ?case by (auto simp: h intro: chunk_cong)
qed

lemma holes_chunk:
  "chunk (unl ([[], holes_comment] @ flat_holes rnd k hole_positions)) (\<lambda>n. if n = ''footprint'' then 4 else 0)"
proof -
  have c: "chunk (unl [[], holes_comment]) (\<lambda>_. 0)"
  proof (rule chunk_plain)
    show "opens_lines plain [[], holes_comment]" "neutral_lines [[], holes_comment]"
      by (simp_all add: holes_comment_def neutral_lines_def)
    show "[[], holes_comment] = [] \<or> (\<exists>us u c. [[], holes_comment] = us @ [u @ [c]] \<and> \<not> is_space c)"
      by (simp add: holes_comment_def is_space_def)
  qed
  have "\<forall>(ref, x, y) \<in> set hole_positions. parens_free ref \<and> nl \<notin> set ref" "length hole_positions = 4"
    by (simp_all add: hole_positions_def parens_free_def nl_def)
  from chunk_append [OF c flat_holes_chunk [OF this(1), of rnd k]] this(2)
  show ?thesis unfolding unl_append by (elim chunk_cong) simp
qed

lemma net_names_ok:
  assumes "finite S" "\<forall>n \<in> S. name_ok n" "[] \<notin> S"
  shows "\<forall>n \<in> set (net_names S). name_ok n" "[] \<notin> set (net_names S)"
proof -
  have "name_ok ''GND''" by (simp add: name_ok_def nl_def)
  then show "\<forall>n \<in> set (net_names S). name_ok n" "[] \<notin> set (net_names S)"
    unfolding set_net_names [OF assms(1)] using assms(2,3) by auto
qed

text \<open>
  C3: for every set of net names without quotes, parentheses or line breaks, \<open>generate_pcb\<close>
  succeeds, uses 29 identifiers, and the design rule check passes on the file that is written:
  balanced, 160 by 100 mm, nets 0 to n declared, the four mounting holes, and nothing routed or
  poured yet.
\<close>

theorem netlist_board_passes_drc:
  assumes "finite S" "\<forall>n \<in> S. name_ok n" "[] \<notin> S"
  shows "\<exists>content. generate_pcb rnd k comps S = Inr (content, k + 29) \<and>
     drc_main (content @ [nl]) = Inr \<lparr>declared = {0 .. int (card (insert ''GND'' S))}, n_footprints = 4,
       n_segments = 0, n_vias = 0, n_zones = 0, dims = Some (160, 100), issues = [], exit_code = 0\<rparr>"
proof -
  let ?c = "py_join [nl] (doc_lines rnd k comps (net_names S))"
  note ok = net_names_ok [OF assms]
  from board_report [OF board_chunk [OF doc_board [OF ok(1) distinct_net_names ok(2)] holes_chunk] closes_simps(2)]
  have "drc_main (?c @ [nl]) = Inr \<lparr>declared = {0 .. int (card (insert ''GND'' S))}, n_footprints = 4,
       n_segments = 0, n_vias = 0, n_zones = 0, dims = Some (160, 100), issues = [], exit_code = 0\<rparr>"
    by (simp add: doc_split ran_net_table [OF distinct_net_names ok(2)] length_net_names [OF assms(1)])
  then show ?thesis using generate_pcb_eq [OF ok(1), of rnd k comps] by blast
qed

definition two_nets :: "string set" where
  "two_nets = {''+5V'', ''DDR_A0''}"

lemma two_nets_facts:
  "finite two_nets" "\<forall>n \<in> two_nets. name_ok n" "[] \<notin> two_nets" "card (insert ''GND'' two_nets) = 3"
proof -
  have "name_ok ''+5V''" "name_ok ''DDR_A0''" by (simp_all add: name_ok_def nl_def)
  then show "\<forall>n \<in> two_nets. name_ok n" unfolding two_nets_def by blast
qed (simp_all add: two_nets_def)

theorem netlist_board_passes_drc_witness:
  "\<exists>content. generate_pcb (\<lambda>_. 0) 0 [] two_nets = Inr (content, 29) \<and>
     map_sum id exit_code (drc_main (content @ [nl])) = Inr 0"
proof -
  from netlist_board_passes_drc [OF two_nets_facts(1-3), of "\<lambda>_. 0" 0 "[]"]
  obtain content where "generate_pcb (\<lambda>_. 0) 0 [] two_nets = Inr (content, 0 + 29)"
    "map_sum id exit_code (drc_main (content @ [nl])) = Inr 0" by auto
  then show ?thesis by auto
qed

text \<open>
  C5: reading the nets of the generated file back with \<open>parse_nets\<close> of the routing script gives
  exactly the numbering the file was written with, and number 0 for the unconnected net.
\<close>

theorem parse_nets_round_trip:
  assumes "finite S" "\<forall>n \<in> S. name_ok n" "[] \<notin> S"
  shows "\<exists>content. generate_pcb rnd k comps S = Inr (content, k + 29) \<and>
     parse_nets (content @ [nl]) = (net_map (net_names S))([] \<mapsto> 0)"
proof -
  let ?c = "py_join [nl] (doc_lines rnd k comps (net_names S))"
  note ok = net_names_ok [OF assms]
  from board_parse [OF board_chunk [OF doc_board [OF ok(1) distinct_net_names ok(2)] holes_chunk] closes_simps(2)]
  have "parse_nets (?c @ [nl]) = (net_map (net_names S))([] \<mapsto> 0)"
    by (simp add: doc_split net_table_def)
  then show ?thesis using generate_pcb_eq [OF ok(1), of rnd k comps] by blast
qed

theorem parse_nets_round_trip_witness:
  "\<exists>content. generate_pcb (\<lambda>_. 0) 0 [] two_nets = Inr (content, 29) \<and> parse_nets (content @ [nl]) [] = Some 0"
proof -
  from parse_nets_round_trip [OF two_nets_facts(1-3), of "\<lambda>_. 0" 0 "[]"]
  obtain content where "generate_pcb (\<lambda>_. 0) 0 [] two_nets = Inr (content, 0 + 29)"
    "parse_nets (content @ [nl]) [] = Some 0" by auto
  then show ?thesis by auto
qed

section \<open>The net classes of the file\<close>

lemma no_start_contains_pat:
  "no_start (pat n) s \<Longrightarrow> \<not> contains (CHR ''('' # n @ CHR '' '' # x) s"
proof (induction s)
  case (Cons c s)
  have "\<not> prefix (CHR ''('' # n @ CHR '' '' # x) (c # s)"
  proof (cases "c = CHR ''(''")
    case True
    then have "fails n s" using Cons.prems by (simp add: fails_dead)
    then show ?thesis using fails_prefix True by simp
  qed simp
  then show ?case using Cons by (simp add: pat_def)
qed simp

lemma contains_unl: "l \<in> set ls \<Longrightarrow> contains sub l \<Longrightarrow> contains sub (unl ls)"
  by (induction ls) (auto intro: contains_appendI [of _ _ "[]", simplified] contains_appendI [of _ _ "_" "[]", simplified] dest: contains_appendI [of sub _ "[]"])

lemma unl_no_class:
  assumes "opens_lines P ls" "\<And>s. P s \<Longrightarrow> fails ''net_class'' s" "unl us = unl ls"
  shows \<open>list_all (\<lambda>l. \<not> contains ''(net_class "'' l) us\<close>
proof -
  have "no_start (pat ''net_class'') (unl us)"
    unfolding assms(3) by (rule opens_lines_no_start [OF assms(1,2)])
  then have \<open>\<not> contains ''(net_class "'' (unl us)\<close>
    using no_start_contains_pat [of "''net_class''" "unl us" "[CHR 0x22]"] by simp
  then show ?thesis using contains_unl unfolding list_all_iff by blast
qed

text \<open>
  C6: in the generated file the net classes stand in one block between lines that open none:
  each of the seven classes once with its parameters, followed by the nets, sorted, that
  \<open>classify_net\<close> puts into it; the seven empty classes emitted first are gone.
\<close>

theorem net_class_sections:
  assumes "finite S" "\<forall>n \<in> S. name_ok n"
  shows \<open>\<exists>pre post. generate_pcb_lines rnd k comps S = Inr (pre @
      concat (map (\<lambda>cls. [''  (net_class "'' @ class_name cls @ ''" ""''] @
          map (\<lambda>(k, v). ''    ('' @ k @ '' '' @ v @ '')'') (class_params cls) @
          map (\<lambda>n. ''    (add_net "'' @ n @ ''")'')
            (sort (filter (\<lambda>n. cls \<noteq> Default \<and> classify_net n = cls) (net_names S))) @ [''  )''])
        [Default, Power, Power_Wide, RF_50ohm, LVDS, DDR3, DDR3_DiffPair]) @ post, k + 29) \<and>
      list_all (\<lambda>l. \<not> contains ''(net_class "'' l) (pre @ post)\<close>
proof -
  let ?names = "net_names S"
  let ?sum = "summary_lines rnd k (summary_text comps (int (length comps)) (int (length ?names)))"
  let ?c = "''  ;; Mounting holes - M3, 3.2mm drill, 6mm pad''"
  let ?pre = "pre_lines (int (length comps)) (int (length ?names)) @ map decl_line (decls ?names) @ [[], []]"
  let ?post = "outline_lines @ ?sum @ [?c] @ fst (mounting_holes rnd (k + 1) hole_positions) @ [[], '')'']"
  let ?flat = "outline_lines @ ?sum @ [?c] @ flat_holes rnd (k + 1) hole_positions @ [[], '')'']"
  have "name_ok ''GND''" by (simp add: name_ok_def nl_def)
  then have ok: "\<forall>n \<in> set ?names. name_ok n"
    unfolding set_net_names [OF assms(1)] using assms(2) by blast
  have f: "post_ok s \<Longrightarrow> fails ''net_class'' s" "pre_ok s \<Longrightarrow> fails ''net_class'' s"
    "decl_ok s \<Longrightarrow> fails ''net_class'' s" for s
    by (simp_all add: post_ok_def pre_ok_def decl_ok_def)
  have "opens_lines post_ok ?flat"
    by (simp add: outline_opens summary_opens open_free_summary flat_holes_opens)
  moreover have "unl ?post = unl ?flat" by (simp add: unl_mounting_holes)
  ultimately have post: \<open>list_all (\<lambda>l. \<not> contains ''(net_class "'' l) ?post\<close>
    using unl_no_class f(1) by blast
  have pre: \<open>list_all (\<lambda>l. \<not> contains ''(net_class "'' l) ?pre\<close>
    using unl_no_class [OF pre_opens f(2) refl] unl_no_class [OF decls_opens [OF ok] f(3) refl] by simp
  have "doc_lines rnd k comps ?names = ?pre @ class_lines (net_classes ?names) @ ?post"
    by (simp add: doc_lines_def post_lines_def)
  then have g: "generate_pcb_lines rnd k comps S = Inr (?pre @ concat (map (\<lambda>cls. emit_net_class cls
      (class_params cls) (filter (\<lambda>n. cls \<noteq> Default \<and> classify_net n = cls) ?names))
      [Default, Power, Power_Wide, RF_50ohm, LVDS, DDR3, DDR3_DiffPair]) @ ?post, k + 29)"
    unfolding generate_pcb_lines_eq [OF ok] class_lines_eq by (simp only:)
  have l: \<open>list_all (\<lambda>l. \<not> contains ''(net_class "'' l) (?pre @ ?post)\<close>
    using pre post unfolding list_all_append by (intro conjI) (elim conjE, assumption)+
  show ?thesis unfolding emit_net_class_def [symmetric]
    by (rule exI [of _ ?pre], rule exI [of _ ?post], rule conjI [OF g l])
qed

theorem net_class_sections_witness:
  \<open>\<exists>ls. generate_pcb_lines (\<lambda>_. 0) 0 [] two_nets = Inr (ls, 29) \<and> ''    (add_net "DDR_A0")'' \<in> set ls\<close>
proof -
  let ?f = \<open>\<lambda>cls. [''  (net_class "'' @ class_name cls @ ''" ""''] @
          map (\<lambda>(k, v). ''    ('' @ k @ '' '' @ v @ '')'') (class_params cls) @
          map (\<lambda>n. ''    (add_net "'' @ n @ ''")'')
            (sort (filter (\<lambda>n. cls \<noteq> Default \<and> classify_net n = cls) (net_names two_nets))) @ [''  )'']\<close>
  let ?cs = "[Default, Power, Power_Wide, RF_50ohm, LVDS, DDR3, DDR3_DiffPair]"
  have "classify_net ''DDR_A0'' = DDR3" by code_simp
  moreover have "''DDR_A0'' \<in> set (net_names two_nets)"
    unfolding set_net_names [OF two_nets_facts(1)] by (simp add: two_nets_def)
  ultimately have \<open>''    (add_net "DDR_A0")'' \<in> set (?f DDR3)\<close>
    by (auto simp: image_iff intro!: bexI [of _ "''DDR_A0''"])
  then have m: \<open>''    (add_net "DDR_A0")'' \<in> set (concat (map ?f ?cs))\<close>
    unfolding set_concat set_map by (intro UN_I [of "?f DDR3"] imageI) simp
  obtain pre post where "generate_pcb_lines (\<lambda>_. 0) 0 [] two_nets = Inr (pre @ concat (map ?f ?cs) @ post, 0 + 29)"
    using net_class_sections [OF two_nets_facts(1,2), of "\<lambda>_. 0" 0 "[]"] by (elim exE conjE) (rule that)
  then show ?thesis using m by (intro exI [of _ "pre @ concat (map ?f ?cs) @ post"] conjI) (simp_all only: add_0 set_append Un_iff simp_thms)
qed

end
