(* ===== verification/RoutingCheck.thy ===== *)
theory RoutingCheck
  imports NetlistCheck
begin

text \<open>
  The routing script on board files: its entries are sections of a board, so that the design rule
  check passes on the routed file and counts exactly what was drawn; the nets the entries are on;
  and two defects that the model shows, the coinciding frame and clock pairs and the net check
  that never sees a net.
\<close>

section \<open>The entries as sections of a board\<close>

text \<open>A name that neither quotes, nests nor breaks lines, and comments that open nothing counted.\<close>

fun item_ok :: "item \<Rightarrow> bool" where
  "item_ok (Comment s) \<longleftrightarrow> opens plain (s @ [nl]) \<and> neutral s \<and> (\<exists>u c. s = u @ [c] \<and> \<not> is_space c)"
| "item_ok (Segment x1 y1 x2 y2 width layer net_num) \<longleftrightarrow> name_ok layer"
| "item_ok (Via x y net_num) \<longleftrightarrow> True"
| "item_ok (Label tx x y layer sz thickness) \<longleftrightarrow> name_ok tx \<and> name_ok layer"

fun item_count :: "item \<Rightarrow> string \<Rightarrow> nat" where
  "item_count (Segment x1 y1 x2 y2 width layer net_num) n = (if n = ''segment'' then 1 else 0)"
| "item_count (Via x y net_num) n = (if n = ''via'' then 1 else 0)"
| "item_count _ n = 0"

lemma nl_num: "nl \<notin> set (int_str i)" "nl \<notin> set (fmt_fixed k x)" "nl \<notin> set (float_str x)"
  using int_str_chars [of i] fmt_fixed_chars [of k x] num_str_chars [of "PFloat x"]
  by (auto simp: num_chars_def nl_def)

lemma nl_uid: "nl \<notin> set (uid rnd k)"
  using uid_chars [of rnd k] by (auto simp: uuid_chars_def nl_def)

lemma rparen_num: "CHR '')'' \<notin> set (fmt_fixed k x)"
  using fmt_fixed_chars [of k x] by (auto simp: num_chars_def)

lemma num_start: "fmt_fixed k x \<noteq> []"
  by (simp add: fmt_fixed_def Let_def)

lemma segment_chunk:
  assumes "name_ok layer"
  shows "chunk (segment (uid rnd k) x1 y1 x2 y2 width layer net_num @ [nl]) (\<lambda>n. if n = ''segment'' then 1 else 0)"
proof (rule chunk_element)
  let ?u = "''start '' @ fmt_fixed 3 x1 @ '' '' @ fmt_fixed 3 y1"
  let ?v = \<open>'' (end '' @ fmt_fixed 3 x2 @ '' '' @ fmt_fixed 3 y2 @ '') (width '' @ float_str width @
     '') (layer "'' @ layer @ ''") ''\<close>
  let ?z = \<open>'' (uuid "'' @ uid rnd k @ ''"))''\<close>
  show "segment (uid rnd k) x1 y1 x2 y2 width layer net_num =
      ''  ('' @ ''segment'' @ '' ('' @ ?u @ CHR '')'' # ?v @ ''(net '' @ int_str net_num @ CHR '')'' # ?z"
    by (simp add: segment_def)
  show "CHR '')'' \<notin> set ?u" by (simp add: rparen_num)
  show "nl \<notin> set ?u" "nl \<notin> set ?v" using assms by (simp_all add: nl_num) (simp_all add: nl_def)
  show "nl \<notin> set ?z" by (simp add: nl_uid) (simp add: nl_def)
  show "opens plain (CHR ''('' # ?u @ CHR '')'' # ?v)" "opens plain (?z @ [nl])"
    using assms by (simp_all add: plain_def is_space_def)
  show "neutral (segment (uid rnd k) x1 y1 x2 y2 width layer net_num)"
    unfolding segment_def using assms by (intro neutralI) (simp add: scan neutral_parens_free)
qed simp_all


lemma via_chunk:
  assumes "name_ok (fst layers)" "name_ok (snd layers)"
  shows "chunk (via (uid rnd k) x y net_num sz drill layers @ [nl]) (\<lambda>n. if n = ''via'' then 1 else 0)"
proof (rule chunk_element)
  let ?u = "''at '' @ fmt_fixed 3 x @ '' '' @ fmt_fixed 3 y"
  let ?v = \<open>'' (size '' @ float_str sz @ '') (drill '' @ float_str drill @
     '') (layers "'' @ fst layers @ ''" "'' @ snd layers @ ''") ''\<close>
  let ?z = \<open>'' (uuid "'' @ uid rnd k @ ''"))''\<close>
  show "via (uid rnd k) x y net_num sz drill layers =
      ''  ('' @ ''via'' @ '' ('' @ ?u @ CHR '')'' # ?v @ ''(net '' @ int_str net_num @ CHR '')'' # ?z"
    by (simp add: via_def)
  show "CHR '')'' \<notin> set ?u" by (simp add: rparen_num)
  show "nl \<notin> set ?u" "nl \<notin> set ?v" using assms by (simp_all add: nl_num) (simp_all add: nl_def)
  show "nl \<notin> set ?z" by (simp add: nl_uid) (simp add: nl_def)
  show "opens plain (CHR ''('' # ?u @ CHR '')'' # ?v)" "opens plain (?z @ [nl])"
    using assms by (simp_all add: plain_def is_space_def)
  show "neutral (via (uid rnd k) x y net_num sz drill layers)"
    unfolding via_def using assms by (intro neutralI) (simp add: scan neutral_parens_free)
qed simp_all

definition label_lines :: "string \<Rightarrow> string \<Rightarrow> rat \<Rightarrow> rat \<Rightarrow> string \<Rightarrow> rat \<Rightarrow> rat \<Rightarrow> string list" where
  \<open>label_lines u tx x y layer sz thickness =
     [''  (gr_text "'' @ tx @ ''" (at '' @ fmt_fixed 3 x @ '' '' @ fmt_fixed 3 y @ '') (layer "'' @ layer @
      ''") (uuid "'' @ u @ ''")'',
      ''    (effects (font (size '' @ float_str sz @ '' '' @ float_str sz @ '') (thickness '' @ float_str thickness @ '')))'',
      ''  )'']\<close>

lemma label_chunk:
  assumes "name_ok tx" "name_ok layer"
  shows "chunk (gr_text (uid rnd k) tx x y layer sz thickness @ [nl]) (\<lambda>n. 0)"
proof -
  let ?ls = "label_lines (uid rnd k) tx x y layer sz thickness"
  have "chunk (unl ?ls) (\<lambda>n. 0)"
  proof (rule chunk_plain)
    show "opens_lines plain ?ls"
      using assms by (simp add: label_lines_def plain_def is_space_def)
    show "neutral_lines ?ls"
      using assms by (simp add: label_lines_def neutral_lines_def scan neutral_parens_free)
    show "?ls = [] \<or> (\<exists>us u c. ?ls = us @ [u @ [c]] \<and> \<not> is_space c)"
      by (simp add: label_lines_def is_space_def)
  qed
  moreover have "unl ?ls = gr_text (uid rnd k) tx x y layer sz thickness @ [nl]"
    by (simp add: label_lines_def gr_text_def)
  ultimately show ?thesis by simp
qed

lemma item_chunk:
  assumes "item_ok i"
  shows "chunk (render1 (uid rnd k) i @ [nl]) (item_count i)"
proof (cases i)
  case (Comment s)
  then have s: "opens_lines plain [s]" "neutral_lines [s]" "\<exists>us u c. [s] = us @ [u @ [c]] \<and> \<not> is_space c"
    using assms by (auto simp: neutral_lines_def neutral_def)
  from chunk_plain [OF s(1,2) disjI2 [OF s(3)]] show ?thesis
    by (auto simp: Comment intro: chunk_cong)
next
  case (Segment x1 y1 x2 y2 width layer net_num)
  then show ?thesis using assms by (auto intro!: chunk_cong [OF segment_chunk])
next
  case (Via x y net_num)
  have "name_ok ''F.Cu''" "name_ok ''B.Cu''" by (simp_all add: name_ok_def nl_def)
  then show ?thesis using Via by (auto intro!: chunk_cong [OF via_chunk])
next
  case (Label tx x y layer sz thickness)
  then show ?thesis using assms by (auto intro!: chunk_cong [OF label_chunk])
qed

lemma render_chunk:
  "list_all item_ok its \<Longrightarrow> chunk (unl (render rnd k its)) (\<lambda>n. \<Sum>i\<leftarrow>its. item_count i n)"
proof (induction its arbitrary: k)
  case (Cons i its)
  then have "item_ok i" "chunk (unl (render rnd (k + draws i) its)) (\<lambda>n. \<Sum>i\<leftarrow>its. item_count i n)" by auto
  from chunk_append [OF item_chunk [OF this(1)] this(2)] show ?case by simp
qed (simp add: chunk_Nil)

lemma count_items:
  "(\<Sum>i\<leftarrow>its. item_count i n) = length (filter (\<lambda>i. item_count i n = 1) its)"
proof (induction its)
  case (Cons i its)
  then show ?case by (cases i) auto
qed simp

section \<open>Every entry of the script is one\<close>

lemma route_ok: "name_ok layer \<Longrightarrow> list_all item_ok (route_point_to_point x1 y1 x2 y2 width layer net_num max_seg)"
  by (simp add: route_point_to_point_def Let_def list_all_iff)

lemma layer_ok [simp]: "name_ok ''F.Cu''" "name_ok ''In2.Cu''" "name_ok ''In4.Cu''" "name_ok ''In5.Cu''" "name_ok ''In6.Cu''"
  "name_ok ''In8.Cu''" "name_ok ''F.SilkS''" "name_ok (ddr_layer b)"
  by (simp_all add: name_ok_def nl_def ddr_layer_def)

lemma list_all_concat_map: "(\<And>x. x \<in> set xs \<Longrightarrow> list_all P (f x)) \<Longrightarrow> list_all P (concat (map f xs))"
  by (auto simp: list_all_iff)

lemma path_ok: "list_all item_ok (route_path ps n)"
  by (induction ps n rule: route_path.induct) (simp_all add: route_ok)

lemma stitch_ok: "list_all item_ok (stitch_path n ps)"
proof -
  have "list_all item_ok (stitch_leg n p q)" for p q
    unfolding stitch_leg_def Let_def split_beta by (intro list_all_concat_map) simp
  then show ?thesis by (induction n ps rule: stitch_path.induct) simp_all
qed

lemma ddr_ok: "list_all item_ok (gen_ddr3l_routing nets)"
proof -
  have "list_all item_ok (ddr_lane nets b)" for b
    by (auto simp: ddr_lane_def ddr_bit_def ddr_strobe_def ddr_mask_def Let_def intro!: list_all_concat_map route_ok)
  moreover have "list_all item_ok (ddr_addr nets p)" for p
    by (cases p) (simp add: ddr_addr_def Let_def route_ok)
  moreover have "list_all item_ok (ddr_clock nets)"
    by (simp add: ddr_clock_def ddr_clock1_def Let_def route_ok)
  moreover have "item_ok (Comment ''  ; DDR3L byte lane routing (In2.Cu / In4.Cu)'')"
    "item_ok (Comment ''  ; DDR3L address/command fly-by topology (In4.Cu)'')"
    "item_ok (Comment ''  ; DDR3L clock differential pair'')"
    by (simp_all add: plain_def is_space_def neutral_def)
  ultimately show ?thesis unfolding gen_ddr3l_routing_def list_all_append
    by (intro conjI list_all_concat_map) (simp_all only: list.pred_inject simp_thms)
qed

lemma comment_ok:
  "item_ok (Comment ''  ; AD9361 LVDS differential pairs (In2.Cu)'')"
  "item_ok (Comment ''  ; RF 50-ohm microstrip routing (F.Cu)'')" "item_ok (Comment ''  ; RF TX path'')"
  "item_ok (Comment ''  ; RF ground via stitching'')" "item_ok (Comment ''  ; Power distribution routing (In5.Cu)'')"
  "item_ok (Comment ''  ; SPI routing to AD9361 (In6.Cu)'')" "item_ok (Comment ''  ; UART routing (In8.Cu)'')"
  "item_ok (Comment ''  ; I2C routing (In6.Cu)'')" "item_ok (Comment ''  ; JTAG routing (In8.Cu)'')"
  "item_ok (Comment ''  ; Board perimeter ground via stitching (every 2mm)'')" "item_ok (Comment ''  ; Silkscreen labels'')"
  by (simp_all add: plain_def is_space_def neutral_def)

lemma list_all_Cons: "list_all P (x # xs) \<longleftrightarrow> P x \<and> list_all P xs"
  by simp

lemma lvds_ok: "list_all item_ok (gen_lvds_routing nets)"
proof -
  have "list_all item_ok (lvds_pair nets i)" "list_all item_ok (lvds_control nets base)" for i base
    by (simp_all add: lvds_pair_def lvds_control_def Let_def route_ok)
  then show ?thesis unfolding gen_lvds_routing_def list_all_append
    by (intro conjI list_all_concat_map) (simp_all only: list.pred_inject comment_ok simp_thms)
qed

lemma rf_ok: "list_all item_ok (gen_rf_routing nets)"
  unfolding gen_rf_routing_def Let_def list_all_append list_all_Cons
  by (simp only: list.pred_inject comment_ok path_ok stitch_ok simp_thms)

lemma power_ok: "list_all item_ok (gen_power_routing nets)"
  unfolding gen_power_routing_def list_all_append list_all_Cons
  by (intro conjI list_all_concat_map comment_ok) (auto simp: route_ok)

lemma io_bus_ok: "(\<And>i n. list_all item_ok (body i n)) \<Longrightarrow> list_all item_ok (io_bus nets body signals)"
  unfolding io_bus_def by (rule list_all_concat_map) auto

lemma io_ok: "list_all item_ok (gen_general_io_routing nets)"
  unfolding gen_general_io_routing_def list_all_append list_all_Cons
  by (intro conjI io_bus_ok comment_ok) (auto simp: route_ok Let_def)

lemma perimeter_ok: "list_all item_ok (perimeter g)"
  by (auto simp: perimeter_def list_all_iff)

lemma silk_ok: "list_all item_ok gen_silkscreen"
proof -
  have "name_ok ''CIRRADIO DevBoard v1.0''" "name_ok ''Zynq-7045 + AD9361''" "name_ok ''RF''"
    "name_ok ''FPGA''" "name_ok ''DDR3L''" "name_ok ''POWER''"
    by (simp_all add: name_ok_def nl_def)
  then show ?thesis unfolding gen_silkscreen_def list_all_Cons
    by (simp only: list.pred_inject comment_ok item_ok.simps(2-4) layer_ok simp_thms)
qed

definition routing_banner :: string where
  "routing_banner = ''  ; ========== ROUTING AND VIA STITCHING ==========''"

definition routing_items :: "(string \<rightharpoonup> int) \<Rightarrow> item list" where
  "routing_items nets = gen_ddr3l_routing nets @ gen_lvds_routing nets @ gen_rf_routing nets @
     gen_power_routing nets @ gen_general_io_routing nets @
     Comment ''  ; Board perimeter ground via stitching (every 2mm)'' # perimeter (net_get nets ''GND'' 1) @
     gen_silkscreen"

lemma all_entries_eq: "all_entries nets = Some (Comment (nl # routing_banner) # routing_items nets)"
  by (simp add: all_entries_def perimeter_eq routing_items_def routing_banner_def)

lemma routing_items_ok: "list_all item_ok (routing_items nets)"
  unfolding routing_items_def list_all_append list_all_Cons
  by (intro conjI ddr_ok lvds_ok rf_ok power_ok io_ok comment_ok perimeter_ok silk_ok)

section \<open>The script on a board\<close>

lemma insert_closing:
  "insert_before_last_paren (x @ closing) ins = x @ [nl] @ ins @ nl # closing"
proof -
  have "py_rfind (CHR '')'') (x @ CHR '')'' # [nl]) = int (length x)"
    by (rule py_rfind_last) (simp add: nl_def)
  then show ?thesis
    using py_slice_append [of x closing] by (simp add: insert_before_last_paren_def closing_def Let_def)
qed

lemma banner_chunk: "chunk (unl (replicate n [] @ [routing_banner])) (\<lambda>_. 0)"
proof (rule chunk_plain)
  have o: "opens_lines plain (replicate n [])" "neutral_lines (replicate n [])"
    by (induction n) (simp_all add: neutral_lines_def)
  then show "opens_lines plain (replicate n [] @ [routing_banner])"
    by (simp add: routing_banner_def)
  have "neutral_lines [routing_banner]" by (simp add: routing_banner_def neutral_lines_def)
  with o(2) show "neutral_lines (replicate n [] @ [routing_banner])" by (rule neutral_lines_append)
  have "routing_banner = ''  ; ========== ROUTING AND VIA STITCHING ========='' @ ''=''"
    by (simp add: routing_banner_def)
  moreover have "\<not> is_space (CHR ''='')" by (simp add: is_space_def)
  ultimately show "replicate n [] @ [routing_banner] = [] \<or>
      (\<exists>us u c. replicate n [] @ [routing_banner] = us @ [u @ [c]] \<and> \<not> is_space c)" by blast
qed

lemma unl_join: "ls \<noteq> [] \<Longrightarrow> py_join [nl] ls @ nl # t = unl ls @ t"
  using join_nl [of ls] by (metis append.assoc append_Cons append_Nil)

text \<open>The section the script adds.\<close>

definition routing_section :: "random \<Rightarrow> nat \<Rightarrow> nat \<Rightarrow> (string \<rightharpoonup> int) \<Rightarrow> string" where
  "routing_section rnd k n nets =
     unl (replicate n [] @ [routing_banner]) @ unl (render rnd k (routing_items nets))"

lemma routing_section_chunk:
  "chunk (routing_section rnd k n nets) (\<lambda>m. length (filter (\<lambda>i. item_count i m = 1) (routing_items nets)))"
  using chunk_append [OF banner_chunk render_chunk [OF routing_items_ok]]
  by (simp add: routing_section_def count_items)

lemma routing_main_board:
  assumes "board x nets c"
  shows "routing_main rnd k (x @ closing) = Some (x @ routing_section rnd k 2 nets @ nl # closing)"
    and "routing_main rnd k (x @ nl # closing) = Some (x @ routing_section rnd k 3 nets @ nl # closing)"
proof -
  have r: "render rnd k (Comment (nl # routing_banner) # routing_items nets) = (nl # routing_banner) # render rnd k (routing_items nets)"
    by simp
  have "routing_main rnd k (y @ closing) = Some (y @ nl # nl # routing_banner @ nl # unl (render rnd k (routing_items nets)) @ nl # closing)"
    if "parse_nets (y @ closing) = nets" for y
    by (simp add: routing_main_def that all_entries_eq insert_closing r unl_join)
  from this [of x] this [of "x @ [nl]"]
  show "routing_main rnd k (x @ closing) = Some (x @ routing_section rnd k 2 nets @ nl # closing)"
    "routing_main rnd k (x @ nl # closing) = Some (x @ routing_section rnd k 3 nets @ nl # closing)"
    using board_parse [OF assms] by (simp_all add: routing_section_def numeral_2_eq_2 numeral_3_eq_3)
qed

text \<open>Kinds of entries.\<close>

fun is_segment :: "item \<Rightarrow> bool" where
  "is_segment (Segment x1 y1 x2 y2 width layer net_num) = True"
| "is_segment _ = False"

fun is_via :: "item \<Rightarrow> bool" where
  "is_via (Via x y net_num) = True"
| "is_via _ = False"

lemma item_count_kind:
  "item_count i ''segment'' = 1 \<longleftrightarrow> is_segment i" "item_count i ''via'' = 1 \<longleftrightarrow> is_via i"
  "item_count i ''footprint'' = 0" "item_count i ''zone'' = 0"
  by (cases i; simp)+

text \<open>The netlist file and the routed one, as boards.\<close>

lemma netlist_board:
  assumes "finite S" "\<forall>n \<in> S. name_ok n" "[] \<notin> S"
  shows "\<exists>content x. generate_pcb rnd k comps S = Inr (content, k + 29) \<and> content @ [nl] = x @ nl # closing \<and>
     board x (net_table (net_names S)) (\<lambda>n. if n = ''footprint'' then 4 else 0)"
proof -
  let ?x = "doc_prefix rnd k comps (net_names S) @ unl ([[], holes_comment] @ flat_holes rnd (k + 1) hole_positions)"
  note ok = net_names_ok [OF assms]
  have "board ?x (net_table (net_names S)) (\<lambda>n. 0 + (if n = ''footprint'' then 4 else 0))"
    by (rule board_chunk [OF doc_board [OF ok(1) distinct_net_names ok(2)] holes_chunk])
  moreover have "py_join [nl] (doc_lines rnd k comps (net_names S)) @ [nl] = ?x @ nl # closing"
    by (simp add: doc_split)
  ultimately show ?thesis
    using generate_pcb_eq [OF ok(1), of rnd k comps] unfolding add_0 by blast
qed

lemma routed_board:
  assumes "finite S" "\<forall>n \<in> S. name_ok n" "[] \<notin> S"
  shows "\<exists>content x. generate_pcb rnd k comps S = Inr (content, k + 29) \<and>
     routing_main rnd (k + 29) (content @ [nl]) = Some (x @ nl # closing) \<and>
     board x (net_table (net_names S)) (\<lambda>m. (if m = ''footprint'' then 4 else 0) +
       length (filter (\<lambda>i. item_count i m = 1) (routing_items (net_table (net_names S)))))"
proof -
  obtain content y where y: "generate_pcb rnd k comps S = Inr (content, k + 29)" "content @ [nl] = y @ nl # closing"
    "board y (net_table (net_names S)) (\<lambda>n. if n = ''footprint'' then 4 else 0)"
    using netlist_board [OF assms] by blast
  let ?w = "routing_section rnd (k + 29) 3 (net_table (net_names S))"
  have "routing_main rnd (k + 29) (content @ [nl]) = Some ((y @ ?w) @ nl # closing)"
    unfolding y(2) append_assoc by (rule routing_main_board(2) [OF y(3)])
  then show ?thesis using y(1) board_chunk [OF y(3) routing_section_chunk] by blast
qed

text \<open>
  C2: routing the file the netlist generator wrote succeeds, and the design rule check passes on
  the result, with the four mounting holes and as many segments and vias as the script drew, for
  all net names without quotes, parentheses or line breaks.
\<close>

theorem routed_board_passes_drc:
  assumes "finite S" "\<forall>n \<in> S. name_ok n" "[] \<notin> S"
  shows "\<exists>content out entries. generate_pcb rnd k comps S = Inr (content, k + 29) \<and>
     routing_main rnd (k + 29) (content @ [nl]) = Some out \<and>
     all_entries ((net_map (net_names S))([] \<mapsto> 0)) = Some entries \<and>
     drc_main out = Inr \<lparr>declared = {0 .. int (card (insert ''GND'' S))}, n_footprints = 4,
       n_segments = length (filter is_segment entries), n_vias = length (filter is_via entries),
       n_zones = 0, dims = Some (160, 100), issues = [], exit_code = 0\<rparr>"
proof -
  let ?nets = "net_table (net_names S)"
  obtain content x where x: "generate_pcb rnd k comps S = Inr (content, k + 29)"
    "routing_main rnd (k + 29) (content @ [nl]) = Some (x @ nl # closing)"
    "board x ?nets (\<lambda>m. (if m = ''footprint'' then 4 else 0) +
       length (filter (\<lambda>i. item_count i m = 1) (routing_items ?nets)))"
    using routed_board [OF assms] by blast
  note ok = net_names_ok [OF assms]
  from board_report [OF x(3) closes_simps(2)]
  have "drc_main (x @ nl # closing) =
      Inr \<lparr>declared = {0 .. int (card (insert ''GND'' S))}, n_footprints = 4,
       n_segments = length (filter is_segment (routing_items ?nets)),
       n_vias = length (filter is_via (routing_items ?nets)),
       n_zones = 0, dims = Some (160, 100), issues = [], exit_code = 0\<rparr>"
    by (simp add: item_count_kind [unfolded One_nat_def] ran_net_table [OF distinct_net_names ok(2)] length_net_names [OF assms(1)])
  then show ?thesis using x(1,2) all_entries_eq [of ?nets] by (simp add: net_table_def)
qed

theorem routed_board_passes_drc_witness:
  "\<exists>content out. generate_pcb (\<lambda>_. 0) 0 [] two_nets = Inr (content, 29) \<and>
     routing_main (\<lambda>_. 0) 29 (content @ [nl]) = Some out \<and> map_sum id exit_code (drc_main out) = Inr 0"
proof -
  from routed_board_passes_drc [OF two_nets_facts(1-3), of "\<lambda>_. 0" 0 "[]"]
  obtain content out where "generate_pcb (\<lambda>_. 0) 0 [] two_nets = Inr (content, 29)"
    "routing_main (\<lambda>_. 0) 29 (content @ [nl]) = Some out" "map_sum id exit_code (drc_main out) = Inr 0"
    by auto
  then show ?thesis by blast
qed

section \<open>The nets of the entries\<close>

fun item_net :: "item \<Rightarrow> int option" where
  "item_net (Segment x1 y1 x2 y2 width layer net_num) = Some net_num"
| "item_net (Via x y net_num) = Some net_num"
| "item_net _ = None"

definition uses :: "int set \<Rightarrow> item \<Rightarrow> bool" where
  "uses N i \<longleftrightarrow> (case item_net i of None \<Rightarrow> True | Some n \<Rightarrow> n \<in> N)"

lemma uses_simps [simp]:
  "uses N (Comment s)" "uses N (Label tx x y layer sz th)"
  "uses N (Segment x1 y1 x2 y2 width layer n) \<longleftrightarrow> n \<in> N" "uses N (Via x y n) \<longleftrightarrow> n \<in> N"
  by (simp_all add: uses_def)

lemma route_uses: "n \<in> N \<Longrightarrow> list_all (uses N) (route_point_to_point x1 y1 x2 y2 width layer n max_seg)"
  by (simp add: route_point_to_point_def Let_def list_all_iff)

lemma net_get_ran: "net_get nets name 0 \<noteq> 0 \<Longrightarrow> net_get nets name 0 \<in> ran nets"
  by (auto simp: net_get_def ran_def split: option.splits)

text \<open>The nets that are routed even when the table does not name them.\<close>

definition routed_names :: "string list" where
  "routed_names = [''GND'', ''AD_RX1A_P'', ''AD_TX1A'', ''+12V''] @ map fst power_rails @
     map fst (spi_signals @ uart_signals @ i2c_signals @ jtag_signals)"

lemma routed_rail: "p \<in> set power_rails \<Longrightarrow> fst p \<in> set routed_names"
  unfolding routed_names_def set_append set_map by blast

lemma routed_io: "p \<in> set (spi_signals @ uart_signals @ i2c_signals @ jtag_signals) \<Longrightarrow> fst p \<in> set routed_names"
  unfolding routed_names_def set_append set_map by blast

lemma routed_fixed: "''GND'' \<in> set routed_names" "''AD_RX1A_P'' \<in> set routed_names" "''AD_TX1A'' \<in> set routed_names"
  "''+12V'' \<in> set routed_names"
  unfolding routed_names_def set_append by (rule UnI1, simp)+

lemma io_bus_uses:
  assumes "\<And>i n. n \<in> N \<Longrightarrow> list_all (uses N) (body i n)" "\<And>name f. (name, f) \<in> set signals \<Longrightarrow> net_get nets name f \<in> N"
  shows "list_all (uses N) (io_bus nets body signals)"
  unfolding io_bus_def using assms by (intro list_all_concat_map) (auto dest!: set_zip_rightD)

lemma path_uses: "n \<in> N \<Longrightarrow> list_all (uses N) (route_path ps n)"
  by (induction ps n rule: route_path.induct) (simp_all add: route_uses)

lemma stitch_uses: "n \<in> N \<Longrightarrow> list_all (uses N) (stitch_path n ps)"
proof -
  assume "n \<in> N"
  then have "list_all (uses N) (stitch_leg n p q)" for p q
    unfolding stitch_leg_def Let_def split_beta by (intro list_all_concat_map) simp
  then show ?thesis by (induction n ps rule: stitch_path.induct) simp_all
qed

lemma ddr_uses: "list_all (uses (ran nets)) (gen_ddr3l_routing nets)"
proof -
  have "list_all (uses (ran nets)) (ddr_lane nets b)" for b
    by (auto simp: ddr_lane_def ddr_bit_def ddr_strobe_def ddr_mask_def Let_def net_get_ran
        intro!: list_all_concat_map route_uses)
  moreover have "list_all (uses (ran nets)) (ddr_addr nets p)" for p
    by (cases p) (simp add: ddr_addr_def Let_def route_uses net_get_ran)
  moreover have "list_all (uses (ran nets)) (ddr_clock nets)"
    by (simp add: ddr_clock_def ddr_clock1_def Let_def route_uses net_get_ran)
  ultimately show ?thesis unfolding gen_ddr3l_routing_def list_all_append
    by (intro conjI list_all_concat_map) simp_all
qed

lemma lvds_uses: "list_all (uses (ran nets)) (gen_lvds_routing nets)"
proof -
  have "list_all (uses (ran nets)) (lvds_pair nets i)" "list_all (uses (ran nets)) (lvds_control nets base)" for i base
    by (simp_all add: lvds_pair_def lvds_control_def Let_def route_uses net_get_ran)
  then show ?thesis unfolding gen_lvds_routing_def list_all_append
    by (intro conjI list_all_concat_map) simp_all
qed

text \<open>
  C13: when the table names the nets that every board routes, with numbers other than 0, each
  segment and each via of the script is on a net of the table.
\<close>

theorem routed_nets_declared:
  assumes n: "\<forall>name \<in> set routed_names. \<exists>k. nets name = Some k \<and> k \<noteq> 0"
    and e: "all_entries nets = Some entries" and i: "i \<in> set entries" "item_net i = Some k"
  shows "k \<in> ran nets"
proof -
  let ?N = "ran nets"
  have get: "net_get nets name f \<in> ?N" "net_get nets name f \<noteq> 0" if "name \<in> set routed_names" for name f
  proof -
    obtain j where "nets name = Some j" "j \<noteq> 0" using n \<open>name \<in> set routed_names\<close> by blast
    then show "net_get nets name f \<in> ?N" "net_get nets name f \<noteq> 0" by (auto simp: net_get_def ran_def)
  qed
  have "list_all (uses ?N) (gen_rf_routing nets)"
    using get [OF routed_fixed(1)] get [OF routed_fixed(2)] get [OF routed_fixed(3)]
    unfolding gen_rf_routing_def Let_def list_all_append
    by (simp add: path_uses stitch_uses)
  moreover have "list_all (uses ?N) (gen_power_routing nets)"
  proof -
    have "list_all (uses ?N) (case p of (rail, dest, fallback) \<Rightarrow>
        route_point_to_point 135 80 (fst dest) (snd dest) (lit 8 1) ''In5.Cu'' (net_get nets rail fallback) 10)"
      if "p \<in> set power_rails" for p
      using get(1) [OF routed_rail [OF that]] by (cases p) (simp add: route_uses)
    then show ?thesis using get [OF routed_fixed(4)] unfolding gen_power_routing_def list_all_append
      by (intro conjI list_all_concat_map route_uses) simp_all
  qed
  moreover have "list_all (uses ?N) (gen_general_io_routing nets)"
  proof -
    have "net_get nets name f \<in> ?N" if "(name, f) \<in> set (spi_signals @ uart_signals @ i2c_signals @ jtag_signals)" for name f
      using get(1) [OF routed_io [OF that]] by simp
    then have io: "list_all (uses ?N) (io_bus nets body signals)"
      if "set signals \<subseteq> set (spi_signals @ uart_signals @ i2c_signals @ jtag_signals)"
        "\<And>i n. n \<in> ?N \<Longrightarrow> list_all (uses ?N) (body i n)" for body signals
      using that by (intro io_bus_uses) blast+
    show ?thesis unfolding gen_general_io_routing_def list_all_append list_all_Cons Let_def
      by (intro conjI io route_uses) auto
  qed
  moreover have "list_all (uses ?N) (perimeter (net_get nets ''GND'' 1))"
    using get [OF routed_fixed(1)] by (auto simp: perimeter_def list_all_iff)
  moreover have "list_all (uses ?N) gen_silkscreen" by (simp add: gen_silkscreen_def)
  ultimately have "list_all (uses ?N) (routing_items nets)"
    using ddr_uses lvds_uses by (simp add: routing_items_def)
  moreover have "i \<in> set (routing_items nets)" using e i by (auto simp: all_entries_eq)
  ultimately have "uses ?N i" by (simp add: list_all_iff)
  then show ?thesis using i(2) by (simp add: uses_def)
qed

definition tiny_table :: "string \<rightharpoonup> int" where
  "tiny_table = (\<lambda>name. if name \<in> set routed_names then Some 7 else None)"

theorem routed_nets_declared_witness:
  "\<exists>entries. all_entries tiny_table = Some entries \<and> (\<forall>i \<in> set entries. item_net i \<in> {None, Some 7})"
proof -
  have t: "\<forall>name \<in> set routed_names. \<exists>k. tiny_table name = Some k \<and> k \<noteq> 0" "ran tiny_table \<subseteq> {7}"
    by (auto simp: tiny_table_def ran_def)
  have "item_net i \<in> {None, Some 7}" if "i \<in> set (Comment (nl # routing_banner) # routing_items tiny_table)" for i
    using routed_nets_declared [OF t(1) all_entries_eq that] t(2) by (cases "item_net i") auto
  then show ?thesis using all_entries_eq by blast
qed



text \<open>
  C14: on the routed file the net check of the design rule check is vacuous: its patterns stop at
  the parenthesis that closes the first coordinate pair and find no net number at all, although
  the file holds the 244 vias of the perimeter and more.
\<close>

theorem drc_sees_no_routed_net:
  assumes "finite S" "\<forall>n \<in> S. name_ok n" "[] \<notin> S"
  shows "\<exists>content out. generate_pcb rnd k comps S = Inr (content, k + 29) \<and>
     routing_main rnd (k + 29) (content @ [nl]) = Some out \<and>
     extract_net_refs out (net_ref_rx ''segment'') = [] \<and> extract_net_refs out (net_ref_rx ''via'') = [] \<and>
     244 \<le> count_pattern out (element_rx ''via'')"
proof -
  let ?items = "routing_items (net_table (net_names S))"
  obtain content x where x: "generate_pcb rnd k comps S = Inr (content, k + 29)"
    "routing_main rnd (k + 29) (content @ [nl]) = Some (x @ nl # closing)"
    "board x (net_table (net_names S)) (\<lambda>m. (if m = ''footprint'' then 4 else 0) +
       length (filter (\<lambda>i. item_count i m = 1) ?items))"
    using routed_board [OF assms] by blast
  have "244 = length (filter is_via (perimeter g))" for g
    by (simp add: perimeter_def o_def)
  then have "244 \<le> length (filter is_via ?items)"
    unfolding routing_items_def filter_append length_append filter.simps by simp
  moreover have "count_pattern (x @ nl # closing) (element_rx ''via'') = length (filter is_via ?items)"
    using board_counts [OF x(3) closes_simps(2), of "''via''"]
    by (simp add: counted_def item_count_kind [unfolded One_nat_def])
  ultimately have "244 \<le> count_pattern (x @ nl # closing) (element_rx ''via'')" by (simp only:)
  then show ?thesis
    using x(1,2) board_refs [OF x(3) closes_simps(2) insertI1]
      board_refs [OF x(3) closes_simps(2) insertI2 [OF insertI1]] by blast
qed

theorem drc_sees_no_routed_net_witness:
  "\<exists>content out. generate_pcb (\<lambda>_. 0) 0 [] two_nets = Inr (content, 29) \<and>
     routing_main (\<lambda>_. 0) 29 (content @ [nl]) = Some out \<and> extract_net_refs out (net_ref_rx ''via'') = []"
  using drc_sees_no_routed_net [OF two_nets_facts(1-3), of "\<lambda>_. 0" 0 "[]"] unfolding add_0 by blast

end
