(* ===== verification/Planes.thy ===== *)
theory Planes
  imports PyRegex Uuid
begin

text \<open>
  Copper planes: \<open>hardware/cirradio-devboard/gen_pcb_planes.py\<close>. The zones of the ground and power
  planes, their KiCad text, and \<open>main\<close>, which removes the zones a board file already has and
  inserts the new ones before the mounting holes. Identifiers are drawn from a stream as in the
  other scripts; the board file is an argument, \<open>None\<close> when it does not exist.
\<close>

section \<open>Zones\<close>

definition point_str :: "pynum \<times> pynum \<Rightarrow> string" where
  "point_str = (\<lambda>(x, y). ''(xy '' @ num_str x @ '' '' @ num_str y @ '')'')"

text \<open>
  \<open>zone_sexpr\<close> for one polygon; the line with the priority is only there when it is positive.
\<close>

definition zone_lines :: "string \<Rightarrow> int \<Rightarrow> string \<Rightarrow> string \<Rightarrow> string \<Rightarrow> (pynum \<times> pynum) list \<Rightarrow> int \<Rightarrow>
    rat \<Rightarrow> rat \<Rightarrow> rat \<Rightarrow> rat \<Rightarrow> string list" where
  \<open>zone_lines u net_num net_name layer zone_name pts priority clearance thermal_gap thermal_bridge_width min_thickness =
     (let pts_str = py_join '' '' (map point_str pts);
          priority_line = (if 0 < priority then [''    (priority '' @ int_str priority @ '')''] else [])
      in [''  (zone'',
          ''    (net '' @ int_str net_num @ '')'',
          ''    (net_name "'' @ net_name @ ''")'',
          ''    (layer "'' @ layer @ ''")'',
          ''    (uuid "'' @ u @ ''")'',
          ''    (name "'' @ zone_name @ ''")''] @ priority_line @
         [''    (hatch edge 0.5)'',
          ''    (connect_pads'',
          ''      (clearance '' @ float_str clearance @ '')'',
          ''    )'',
          ''    (min_thickness '' @ float_str min_thickness @ '')'',
          ''    (filled_areas_thickness no)'',
          ''    (fill yes'',
          ''      (thermal_gap '' @ float_str thermal_gap @ '')'',
          ''      (thermal_bridge_width '' @ float_str thermal_bridge_width @ '')'',
          ''    )'',
          ''    (polygon'',
          ''      (pts'',
          ''        '' @ pts_str,
          ''      )'',
          ''    )'',
          ''  )''])\<close>

fun zone_texts :: "random \<Rightarrow> nat \<Rightarrow> (string \<Rightarrow> (pynum \<times> pynum) list \<Rightarrow> string list) \<Rightarrow>
    (pynum \<times> pynum) list list \<Rightarrow> string list" where
  "zone_texts rnd k lines [] = []"
| "zone_texts rnd k lines (pts # polygons) =
     py_join [nl] (lines (uid rnd k) pts) # zone_texts rnd (k + 1) lines polygons"

definition zone_sexpr :: "random \<Rightarrow> nat \<Rightarrow> int \<Rightarrow> string \<Rightarrow> string \<Rightarrow> string \<Rightarrow> (pynum \<times> pynum) list list \<Rightarrow> int \<Rightarrow>
    rat \<Rightarrow> rat \<Rightarrow> rat \<Rightarrow> rat \<Rightarrow> string \<times> nat" where
  "zone_sexpr rnd k net_num net_name layer zone_name polygons priority clearance thermal_gap
       thermal_bridge_width min_thickness =
     (py_join [nl] (zone_texts rnd k (\<lambda>u pts. zone_lines u net_num net_name layer zone_name pts priority
        clearance thermal_gap thermal_bridge_width min_thickness) polygons), k + length polygons)"

section \<open>The planes of the board\<close>

definition full_board :: "(pynum \<times> pynum) list" where
  "full_board = [(PInt 0, PInt 0), (PFloat 160, PInt 0), (PFloat 160, PFloat 100), (PInt 0, PFloat 100)]"

text \<open>What \<open>generate_all_zones\<close> appends: a comment, or the zones of one call of \<open>zone_sexpr\<close>.\<close>

datatype plane_section =
    Heading string
  | Plane int string string string "(pynum \<times> pynum) list list" int rat

text \<open>A rectangle given by its corners, as the script lists them.\<close>

definition corners :: "int \<Rightarrow> int \<Rightarrow> int \<Rightarrow> int \<Rightarrow> (pynum \<times> pynum) list" where
  "corners x1 y1 x2 y2 = [(PInt x1, PInt y1), (PInt x2, PInt y1), (PInt x2, PInt y2), (PInt x1, PInt y2)]"

definition plane_sections :: "plane_section list" where
  "plane_sections =
     [Heading (nl # ''  ;; ===== GROUND PLANES ====='')] @
     map (\<lambda>(layer, name). Plane 1 ''GND'' layer name [full_board] 0 (lit 2 1))
       [(''In1.Cu'', ''GND1''), (''In3.Cu'', ''GND2''), (''In7.Cu'', ''GND3'')] @
     [Heading (nl # ''  ;; ===== POWER PLANE (In5.Cu) - SPLIT REGIONS =====''),
      Plane 3 ''+1V0'' ''In5.Cu'' ''PWR_1V0'' [corners 30 30 130 70] 1 (lit 15 2),
      Plane 6 ''+1V35'' ''In5.Cu'' ''PWR_1V35'' [corners 100 20 145 60] 1 (lit 15 2),
      Plane 10 ''+1V5'' ''In5.Cu'' ''PWR_1V5'' [corners 55 30 75 50] 1 (lit 15 2),
      Plane 13 ''+1V8'' ''In5.Cu'' ''PWR_1V8'' [corners 60 0 100 35, corners 40 30 60 60] 1 (lit 15 2),
      Plane 16 ''+3V3'' ''In5.Cu'' ''PWR_3V3'' [corners 100 60 160 100, corners 135 0 160 30] 1 (lit 15 2),
      Plane 20 ''+5V'' ''In5.Cu'' ''PWR_5V'' [corners 0 15 25 35] 1 (lit 15 2),
      Heading (nl # ''  ;; ===== GROUND FLOOD FILLS (F.Cu and B.Cu) =====''),
      Plane 1 ''GND'' ''F.Cu'' ''GND_TOP'' [full_board] 0 (lit 2 1),
      Plane 1 ''GND'' ''B.Cu'' ''GND_BOT'' [full_board] 0 (lit 2 1)]"

text \<open>The arguments the calls leave out have their default values.\<close>

fun plane_texts :: "random \<Rightarrow> nat \<Rightarrow> plane_section list \<Rightarrow> string list" where
  "plane_texts rnd k [] = []"
| "plane_texts rnd k (Heading h # ss) = h # plane_texts rnd k ss"
| "plane_texts rnd k (Plane net_num net_name layer zone_name polygons priority clearance # ss) =
     (let (t, k') = zone_sexpr rnd k net_num net_name layer zone_name polygons priority clearance
            (lit 3 1) (lit 3 1) (lit 2 1)
      in t # plane_texts rnd k' ss)"

definition generate_all_zones :: "random \<Rightarrow> nat \<Rightarrow> string" where
  "generate_all_zones rnd k = py_join [nl] (plane_texts rnd k plane_sections) @ [nl]"

section \<open>Removing old zones\<close>

text \<open>\<open>.\<close> with \<open>re.DOTALL\<close>\<close>

definition any_char :: "char \<Rightarrow> bool" where
  "any_char c = True"

text \<open>\<open>re.sub(r, repl, s)\<close> for a fixed replacement: the texts between the matches, joined by it.\<close>

fun sub_from :: "string \<Rightarrow> nat \<Rightarrow> string \<Rightarrow> (string \<times> string \<times> (nat \<times> string) list) list \<Rightarrow> string" where
  "sub_from repl n s [] = drop n s"
| "sub_from repl n s ((pre, matched, g) # ms) =
     drop n pre @ repl @ sub_from repl (length pre + length matched) s ms"

definition rx_sub :: "rx \<Rightarrow> string \<Rightarrow> string \<Rightarrow> string" where
  "rx_sub r repl s = sub_from repl 0 s (rx_finditer r [] s)"

definition zone_block_rx :: rx where
  "zone_block_rx = rx_seq (rx_lit (nl # ''  ;; ===== GROUND PLANES ====='') @ [RepL any_char] @
     rx_lit '';; ===== GROUND FLOOD FILLS (F.Cu and B.Cu) ====='' @ [RepL any_char] @
     rx_lit (nl # ''  )'' @ [nl]))"

definition one_zone_rx :: rx where
  "one_zone_rx = rx_seq ([Rep is_space] @ rx_lit ''(zone'' @ [Chr is_space, RepL any_char] @ rx_lit (nl # ''  )''))"

definition remove_zones :: "string \<Rightarrow> string" where
  "remove_zones content =
     (if contains ''(zone'' content then rx_sub one_zone_rx [] (rx_sub zone_block_rx [nl] content) else content)"

section \<open>The insertion point\<close>

text \<open>\<open>s.rfind(sub)\<close> and \<open>s.count(sub)\<close> for a nonempty \<open>sub\<close>\<close>

fun rfind_str :: "string \<Rightarrow> string \<Rightarrow> int" where
  "rfind_str sub [] = -1"
| "rfind_str sub (c # s) =
     (let i = rfind_str sub s in if 0 \<le> i then i + 1 else if prefix sub (c # s) then 0 else -1)"

function count_str :: "string \<Rightarrow> string \<Rightarrow> nat" where
  "count_str sub s = (case s of [] \<Rightarrow> 0
     | c # t \<Rightarrow> if sub \<noteq> [] \<and> prefix sub s then 1 + count_str sub (drop (length sub) s)
               else count_str sub t)"
  by pat_completeness auto
termination
  by (relation "measure (\<lambda>(sub, s). length s)") (auto simp: Suc_le_eq)

declare count_str.simps [simp del]

definition fp_line_rx :: rx where
  "fp_line_rx = rx_seq (Bol # rx_lit ''  (footprint '')"

text \<open>\<open>while insert_pos > 0 and content[insert_pos - 1] in ('\n', '\r')\<close>\<close>

fun back_up :: "string \<Rightarrow> nat \<Rightarrow> nat" where
  "back_up content 0 = 0"
| "back_up content (Suc p) =
     (if content ! p = nl \<or> content ! p = CHR 0x0D then back_up content p else Suc p)"

text \<open>Before the comment of the mounting holes, or else before the first footprint.\<close>

definition insert_pos :: "string \<Rightarrow> nat \<Rightarrow> nat" where
  "insert_pos content start =
     (let mh_comment = rfind_str '';; Mounting holes'' (take start content)
      in if 0 \<le> mh_comment then back_up content (nat mh_comment) + 1 else start)"

definition insert_zones :: "string \<Rightarrow> string \<Rightarrow> string" where
  "insert_zones content zones_text =
     (case rx_finditer fp_line_rx [] content of
        (pre, m) # _ \<Rightarrow>
          (let p = insert_pos content (length pre)
           in take p content @ [nl] @ zones_text @ [nl] @ drop p content)
      | [] \<Rightarrow>
          (let last_paren = py_rfind (CHR '')'') content
           in py_upto content last_paren @ [nl] @ zones_text @ [nl] @ py_from content last_paren))"

text \<open>
  \<open>main\<close>: \<open>None\<close> is the exit with status 1 when there is no board file; otherwise the new file and
  the number of zones that is printed.
\<close>

definition planes_main :: "random \<Rightarrow> nat \<Rightarrow> string option \<Rightarrow> (string \<times> nat) option" where
  "planes_main rnd k pcb_file =
     (case pcb_file of None \<Rightarrow> None
      | Some file \<Rightarrow>
          (let content = remove_zones file;
               new_content = insert_zones content (generate_all_zones rnd k)
           in Some (new_content, count_str ''(zone'' new_content)))"

end
