(* ===== verification/PlanesCheck.thy ===== *)
theory PlanesCheck
  imports RoutingCheck Planes
begin

text \<open>
  The plane script on board files: a zone is a section of a board, the thirteen zones of the script
  together are one, and they are inserted between the two semicolons that open the comment of the
  mounting holes. The count that is printed is thirteen.
\<close>

section \<open>A zone as a section of a board\<close>

text \<open>\<open>(net n)\<close> on a line of its own is no declaration.\<close>

lemma decl_blocked: "rx_match net_decl_rx (b, ''(net '' @ int_str k @ CHR '')'' # s, g) = []"
proof -
  let ?q = "Seq (rx_plus is_space) (rx_seq [ch (CHR 0x22)])"
  let ?k = "Seq (Grp 1 (rx_plus is_dig)) ?q"
  have sp: "list_all is_space '' ''" by (simp add: is_space_def)
  have r: "refuses ?k is_space" by (rule refuses_grp_plus) (auto dest: dig_not_space)
  have st: "stops is_space (int_str k @ CHR '')'' # s)"
    using num_str_chars [of "PInt k"] int_str_neq_Nil [of k]
    by (intro stops_append) (auto simp: list_all_iff num_chars_def is_space_def)
  have n: "rx_match ?k (b', int_str k @ CHR '')'' # s, g) = []" for b'
  proof (cases "k < 0")
    case True
    then show ?thesis
      by (simp add: int_str_def rx_match_seq_rep rx_plus_def is_dig_def)
  next
    case False
    then have d: "list_all is_dig (int_str k)" "int_str k \<noteq> []"
      by (auto simp: list_all_iff digits_dig int_str_def)
    have "rx_match ?k (b', int_str k @ CHR '')'' # s, g) = rx_match ?q (rev (int_str k) @ b', CHR '')'' # s, (1, int_str k) # g)"
      using d by (intro rx_match_grp_plus refuses_plus) (auto simp: dig_not_space is_dig_def)
    also have "\<dots> = []" by (simp add: rx_plus_def is_space_def)
    finally show ?thesis .
  qed
  have "rx_match net_decl_rx (b, ''(net'' @ '' '' @ int_str k @ CHR '')'' # s, g) =
      rx_match (Seq (rx_plus is_space) ?k) (rev ''(net'' @ b, '' '' @ int_str k @ CHR '')'' # s, g)"
    unfolding net_decl_rx_def using match_lit [of "''(net''" "[rx_plus is_space, Grp 1 (rx_plus is_dig), rx_plus is_space, ch (CHR 0x22)]"]
    by (simp only: rx_seq.simps)
  also have "\<dots> = []"
    using rx_match_plus [OF r sp _ st] n by simp
  finally show ?thesis by simp
qed

lemma passes_net_line: "passes (rx_line net_decl_rx) (''    (net '' @ int_str k @ '')'' @ [nl])"
  unfolding passes_def
proof (intro allI)
  fix b t
  let ?l = "''   (net '' @ int_str k @ '')'' @ [nl]"
  have "rx_match (rx_line net_decl_rx) (nl # b, ''    '' @ (''(net '' @ int_str k @ CHR '')'' # nl # t), []) = []"
    using rx_match_rep [OF refuses_decl, of "''    ''" "''(net '' @ int_str k @ CHR '')'' # nl # t" "nl # b" "[]"] decl_blocked
    by (simp add: rx_line_def is_space_def)
  then have first: "rx_first (rx_line net_decl_rx) (nl # b) (CHR '' '' # ?l @ t) = None" by (simp add: rx_first_def)
  have "no_line_start (pat ''net'') (CHR '' '') (''   (net '' @ int_str k @ '')'')"
    using int_str_chars [of k] by (intro no_line_start_inline) (auto simp: nl_def num_chars_def)
  moreover have "no_line_start (pat ''net'') (CHR '')'') [nl]" by (simp add: nl_def dead_line_def)
  ultimately have "no_line_start (pat ''net'') (CHR '' '') (''   (net '' @ int_str k @ '')'' @ [nl])"
    using no_line_start_append [of "pat ''net''" "CHR '' ''" "''   (net '' @ int_str k @ '')''" "[nl]"] by simp
  from finditer_no_line_start [OF needs_decl refuses_decl this, of "CHR '' '' # nl # b" "nl # b" t]
  show "rx_finditer (rx_line net_decl_rx) (nl # b) ((''    (net '' @ int_str k @ '')'' @ [nl]) @ t) =
      rx_finditer (rx_line net_decl_rx) (rev (''    (net '' @ int_str k @ '')'' @ [nl]) @ nl # b) t"
    using finditer_step [OF first] by simp
qed

lemma adds_zone: 
  assumes "no_line_start (pat ''zone'') (CHR '' '') (CHR ''('' # u)"
  shows "adds (elem_rx ''zone'') 1 (''  (zone'' @ [nl] @ ''    ('' @ u)"
  using adds_elem [of "''  ''" "nl # ''    ''" "CHR ''(''" "''zone''" u] assms
  by (simp add: is_space_def nl_def)

lemma chunkI:
  assumes "whole_lines w" "neutral w" "passes (rx_line net_decl_rx) w" "passes net_entry_rx w"
    "\<And>n. n \<in> {''segment'', ''via''} \<Longrightarrow> passes (net_ref_rx n) w" "\<And>n. n \<in> counted \<Longrightarrow> adds (elem_rx n) (c n) w"
  shows "chunk w c"
  using assms unfolding chunk_def inert_def by blast

lemma chunk_zone:
  assumes ls: "opens_lines plain ls" "\<exists>us u c. ls = us @ [u @ [c]] \<and> \<not> is_space c"
    and neut: "neutral_lines (''  (zone'' # (''    (net '' @ int_str k @ '')'') # ls)"
  shows "chunk (unl (''  (zone'' # (''    (net '' @ int_str k @ '')'') # ls)) (\<lambda>n. if n = ''zone'' then 1 else 0)"
proof -
  define r where "r = unl ls"
  define u where "u = ''net '' @ int_str k @ '')'' @ nl # r"
  let ?h = "''  (zone'' @ [nl]" and ?n = "''    (net '' @ int_str k @ '')'' @ [nl]"
  have w: "unl (''  (zone'' # (''    (net '' @ int_str k @ '')'') # ls) = ?h @ ?n @ r"
    and wu: "?h @ ?n @ r = ''  (zone'' @ [nl] @ ''    ('' @ u" by (simp_all add: r_def u_def)
  obtain v c where v: "r = v @ [c, nl]" "\<not> is_space c" using ls(2) unfolding r_def by fastforce
  have rs: "no_start (pat n) r" if "n \<in> {''net'', ''footprint'', ''segment'', ''via'', ''zone''}" for n
    unfolding r_def using that by (intro opens_lines_no_start [OF ls(1)] plain_fails)
  have di: "no_start (pat n) (int_str k)" for n
    using opens_no_start [of "\<lambda>_. False" n "int_str k"] by simp
  have us: "no_start (pat n) (CHR ''('' # u)" if n: "n \<in> {''footprint'', ''segment'', ''via'', ''zone''}" for n
  proof -
    have "no_start (pat n) ''(net ''" "no_start (pat n) ('')'' @ [nl])" using n by (auto simp: pat_def)
    from no_start_append [OF this(1) no_start_append [OF di no_start_append [OF this(2) rs]]] n
    show ?thesis by (auto simp: u_def)
  qed
  have uv: "CHR ''('' # u = (''(net '' @ int_str k @ '')'' @ nl # v) @ [c, nl]" by (simp add: u_def v)
  have line: "whole_lines ?h" "whole_lines ?n" "whole_lines r" by (simp_all add: whole_lines_def v)
  show ?thesis unfolding w
  proof (rule chunkI)
    show "whole_lines (?h @ ?n @ r)" by (intro whole_lines_append line)
    show "neutral (?h @ ?n @ r)" using neut unfolding neutral_unl [symmetric] w .
    have ph: "passes (rx_line net_decl_rx) ?h"
      by (intro passes_line [OF needs_decl refuses_decl] no_line_start_one) (auto simp: pat_def is_space_def nl_def)
    have pr: "passes (rx_line net_decl_rx) r"
      by (rule passes_line [OF needs_decl refuses_decl], rule no_start_line [OF rs v]) simp
    show "passes (rx_line net_decl_rx) (?h @ ?n @ r)"
      by (rule passes_append [OF line(1) ph passes_append [OF line(2) passes_net_line pr]])
    have a: "no_start (pat ''net'') (?h @ ''    '')" "no_start (pat ''net'') [nl]" by (simp_all add: pat_def nl_def)
    have "no_start (pat ''net'') (nl # r)" using no_start_append [OF a(2) rs] by simp
    from passes_entry [OF a(1) this] show "passes net_entry_rx (?h @ ?n @ r)" by simp
  next
    fix n assume n: "n \<in> {''segment'', ''via''}"
    have "no_start (pat n) (?h @ ''    '')" using n by (auto simp: pat_def nl_def)
    from no_start_append [OF this us [of n]] n have "no_start (pat n) (?h @ ?n @ r)" by (auto simp: u_def)
    then show "passes (net_ref_rx n) (?h @ ?n @ r)" by (rule passes_no_start [OF needs_net_ref])
  next
    fix n assume n: "n \<in> counted"
    show "adds (elem_rx n) (if n = ''zone'' then 1 else 0) (?h @ ?n @ r)"
    proof (cases "n = ''zone''")
      case True
      have "adds (elem_rx ''zone'') 1 (''  (zone'' @ [nl] @ ''    ('' @ u)"
        by (rule adds_zone, rule no_start_line [OF us uv v(2)]) simp
      then show ?thesis unfolding wu True by simp
    next
      case False
      have "no_start (pat n) (''  (zone'' @ [nl] @ ''    '')" using n False by (auto simp: counted_def pat_def nl_def)
      from no_start_append [OF this us [of n]] n False
      have s: "no_start (pat n) (?h @ ?n @ r)" by (auto simp: counted_def u_def)
      have e: "?h @ ?n @ r = (''  (zone'' @ [nl] @ ''    (net '' @ int_str k @ '')'' @ nl # v) @ [c, nl]" by (simp add: v)
      from passes_elem [OF no_start_line [OF s e v(2)]] False show ?thesis by simp
    qed
  qed
qed

section \<open>The planes as a section\<close>

lemma points_opens: "opens plain (py_join '' '' (map point_str pts) @ [nl])"
  by (induction pts rule: induct_list012) (auto simp: point_str_def plain_def is_space_def)

lemma points_neutral: "neutral (py_join '' '' (map point_str pts))"
  by (rule neutral_join) (auto simp: point_str_def neutral_Cons intro!: neutralI simp: scan)

lemma zone_lines_split:
  "\<exists>ls. zone_lines u net_num net_name layer zone_name pts priority cl tg tb mt =
     ''  (zone'' # (''    (net '' @ int_str net_num @ '')'') # ls \<and>
     (name_ok net_name \<longrightarrow> name_ok layer \<longrightarrow> name_ok zone_name \<longrightarrow> open_free u \<longrightarrow> opens_lines plain ls) \<and>
     (\<exists>us v c. ls = us @ [v @ [c]] \<and> \<not> is_space c)"
  using points_opens [of pts]
  by (auto simp: zone_lines_def Let_def plain_def is_space_def)

lemma zone_neutral:
  assumes "name_ok net_name" "name_ok layer" "name_ok zone_name"
  shows "neutral_lines (zone_lines (uid rnd k) net_num net_name layer zone_name pts priority cl tg tb mt)"
  using points_neutral [of pts] assms
  by (simp add: zone_lines_def Let_def neutral_lines_def scan neutral_scan neutral_parens_free)


lemma zone_chunk:
  assumes "name_ok net_name" "name_ok layer" "name_ok zone_name"
  shows "chunk (unl (zone_lines (uid rnd k) net_num net_name layer zone_name pts priority cl tg tb mt))
    (\<lambda>n. if n = ''zone'' then 1 else 0)"
proof -
  obtain ls where ls: "zone_lines (uid rnd k) net_num net_name layer zone_name pts priority cl tg tb mt =
      ''  (zone'' # (''    (net '' @ int_str net_num @ '')'') # ls" "opens_lines plain ls"
    "\<exists>us v c. ls = us @ [v @ [c]] \<and> \<not> is_space c"
    using zone_lines_split [of "uid rnd k" net_num net_name layer zone_name pts priority cl tg tb mt] assms by auto
  show ?thesis unfolding ls(1)
    by (rule chunk_zone [OF ls(2,3)]) (use zone_neutral [OF assms] ls(1) in metis)
qed

lemma zone_texts_unl:
  assumes "\<And>u pts. lines u pts \<noteq> []"
  shows "unl (zone_texts rnd k lines polygons) = concat (map (\<lambda>(i, pts). unl (lines (uid rnd i) pts)) (enumerate k polygons))"
proof (induction polygons arbitrary: k)
  case (Cons p ps)
  then show ?case using join_nl [OF assms, of "uid rnd k" p] by simp
qed simp

lemma zone_sexpr_chunk:
  assumes ok: "name_ok net_name" "name_ok layer" "name_ok zone_name" and ne: "polygons \<noteq> []"
  shows "chunk (fst (zone_sexpr rnd k net_num net_name layer zone_name polygons priority cl tg tb mt) @ [nl])
    (\<lambda>n. if n = ''zone'' then length polygons else 0)"
proof -
  define lines where "lines = (\<lambda>u pts. zone_lines u net_num net_name layer zone_name pts priority cl tg tb mt)"
  have z: "zone_texts rnd k lines polygons \<noteq> []" using ne by (cases polygons) simp_all
  have l: "lines u pts \<noteq> []" for u pts by (simp add: lines_def zone_lines_def Let_def)
  have "fst (zone_sexpr rnd k net_num net_name layer zone_name polygons priority cl tg tb mt) @ [nl] =
      unl (zone_texts rnd k lines polygons)"
    using join_nl [OF z] by (simp add: zone_sexpr_def lines_def)
  also have "\<dots> = concat (map (\<lambda>(i, pts). unl (lines (uid rnd i) pts)) (enumerate k polygons))"
    by (rule zone_texts_unl [OF l])
  finally have e: "fst (zone_sexpr rnd k net_num net_name layer zone_name polygons priority cl tg tb mt) @ [nl] =
      concat (map (\<lambda>(i, pts). unl (lines (uid rnd i) pts)) (enumerate k polygons))" .
  have "chunk (concat (map (\<lambda>(i, pts). unl (lines (uid rnd i) pts)) (enumerate k polygons)))
      (\<lambda>n. \<Sum>x\<leftarrow>enumerate k polygons. if n = ''zone'' then 1 else 0)"
    by (rule chunk_concat) (use zone_chunk [OF ok] in \<open>auto simp: lines_def split: prod.split\<close>)
  then show ?thesis unfolding e by (rule chunk_cong) (simp add: sum_list_triv)
qed

fun section_ok :: "plane_section \<Rightarrow> bool" where
  "section_ok (Heading h) \<longleftrightarrow> (\<exists>s c. h = nl # s @ [c] \<and> \<not> is_space c \<and> opens plain (s @ [c, nl]) \<and> neutral (s @ [c]) \<and> nl \<notin> set (s @ [c]))"
| "section_ok (Plane net_num net_name layer zone_name polygons priority cl) \<longleftrightarrow>
     name_ok net_name \<and> name_ok layer \<and> name_ok zone_name \<and> polygons \<noteq> []"

fun section_zones :: "plane_section \<Rightarrow> nat" where
  "section_zones (Heading h) = 0"
| "section_zones (Plane net_num net_name layer zone_name polygons priority cl) = length polygons"

lemma heading_chunk:
  assumes "section_ok (Heading h)"
  shows "chunk (h @ [nl]) (\<lambda>_. 0)"
proof -
  obtain s c where h: "h = nl # s @ [c]" "\<not> is_space c" "opens plain (s @ [c, nl])" "neutral (s @ [c])"
    using assms by auto
  have n: "scan 0 (s @ [c]) = Some 0" using h(4) by (simp add: neutral_def)
  have "chunk (unl [[], s @ [c]]) (\<lambda>_. 0)"
  proof (rule chunk_plain)
    show "opens_lines plain [[], s @ [c]]" using h(3) by simp
    show "neutral_lines [[], s @ [c]]" by (simp add: neutral_lines_def n)
    show "[[], s @ [c]] = [] \<or> (\<exists>us u c'. [[], s @ [c]] = us @ [u @ [c']] \<and> \<not> is_space c')"
      using h(2) by (intro disjI2 exI [of _ "[[]]"] exI [of _ s] exI [of _ c]) simp
  qed
  then show ?thesis by (simp add: h(1))
qed

lemma plane_texts_chunk:
  "list_all section_ok ss \<Longrightarrow>
     chunk (unl (plane_texts rnd k ss)) (\<lambda>n. if n = ''zone'' then sum_list (map section_zones ss) else 0)"
proof (induction rnd k ss rule: plane_texts.induct)
  case (1 rnd k)
  then show ?case by (simp add: chunk_cong [OF chunk_Nil])
next
  case (2 rnd k h ss)
  then have "chunk (h @ [nl]) (\<lambda>_. 0)" "chunk (unl (plane_texts rnd k ss)) (\<lambda>n. if n = ''zone'' then sum_list (map section_zones ss) else 0)"
    using heading_chunk by simp_all
  from chunk_append [OF this] show ?case by (auto intro: chunk_cong)
next
  case (3 rnd k net_num net_name layer zone_name polygons priority cl ss)
  obtain t k' where z: "zone_sexpr rnd k net_num net_name layer zone_name polygons priority cl (lit 3 1) (lit 3 1) (lit 2 1) = (t, k')"
    by fastforce
  have "chunk (t @ [nl]) (\<lambda>n. if n = ''zone'' then length polygons else 0)"
    using zone_sexpr_chunk [of net_name layer zone_name polygons rnd k net_num priority cl "lit 3 1" "lit 3 1" "lit 2 1"] z "3.prems" by simp
  moreover have "chunk (unl (plane_texts rnd k' ss)) (\<lambda>n. if n = ''zone'' then sum_list (map section_zones ss) else 0)"
    using "3.IH" [OF z [symmetric] refl] "3.prems" by simp
  ultimately have c: "chunk ((t @ [nl]) @ unl (plane_texts rnd k' ss)) (\<lambda>n. (if n = ''zone'' then length polygons else 0) +
      (if n = ''zone'' then sum_list (map section_zones ss) else 0))"
    by (rule chunk_append)
  have "unl (plane_texts rnd k (Plane net_num net_name layer zone_name polygons priority cl # ss)) =
      (t @ [nl]) @ unl (plane_texts rnd k' ss)" by (simp add: z [unfolded One_nat_def])
  then show ?case by (simp only:) (rule chunk_cong [OF c], simp)
qed

lemma plane_sections_ok: "list_all section_ok plane_sections"
proof -
  have h: "section_ok (Heading (nl # ''  ;; ===== GROUND PLANES ===='' @ ''=''))"
    "section_ok (Heading (nl # ''  ;; ===== POWER PLANE (In5.Cu) - SPLIT REGIONS ===='' @ ''=''))"
    "section_ok (Heading (nl # ''  ;; ===== GROUND FLOOD FILLS (F.Cu and B.Cu) ===='' @ ''=''))"
    unfolding section_ok.simps by (rule exI, rule exI, rule conjI, rule refl, code_simp)+
  have n: "name_ok ''GND''" "name_ok ''+1V0''" "name_ok ''+1V35''" "name_ok ''+1V5''" "name_ok ''+1V8''" "name_ok ''+3V3''" "name_ok ''+5V''"
    "name_ok ''In1.Cu''" "name_ok ''In3.Cu''" "name_ok ''In5.Cu''" "name_ok ''In7.Cu''" "name_ok ''F.Cu''" "name_ok ''B.Cu''"
    "name_ok ''GND1''" "name_ok ''GND2''" "name_ok ''GND3''" "name_ok ''PWR_1V0''" "name_ok ''PWR_1V35''" "name_ok ''PWR_1V5''"
    "name_ok ''PWR_1V8''" "name_ok ''PWR_3V3''" "name_ok ''PWR_5V''" "name_ok ''GND_TOP''" "name_ok ''GND_BOT''"
    by (simp_all add: name_ok_def nl_def)
  show ?thesis unfolding plane_sections_def using h n by (simp del: section_ok.simps(1))
qed

lemma zones_chunk: "chunk (generate_all_zones rnd k) (\<lambda>n. if n = ''zone'' then 13 else 0)"
proof -
  have "plane_texts rnd k plane_sections \<noteq> []" by (simp add: plane_sections_def)
  then have "generate_all_zones rnd k = unl (plane_texts rnd k plane_sections)"
    using join_nl by (simp add: generate_all_zones_def)
  moreover have "sum_list (map section_zones plane_sections) = 13" by (simp add: plane_sections_def)
  ultimately show ?thesis using plane_texts_chunk [OF plane_sections_ok, of rnd k] by metis
qed

section \<open>Where the zones are inserted\<close>

lemma no_start_indent:
  assumes "no_start (pat n) s" "s = t @ [c]" "c \<noteq> CHR '' ''" "c \<noteq> CHR ''(''"
  shows "no_start (map (\<lambda>c x. x = c) (''  ('' @ n @ '' '')) s"
  using assms(1,2)
proof (induction s arbitrary: t)
  case (Cons a s)
  have d: "dead (map (\<lambda>c x. x = c) (CHR ''('' # n @ '' '')) u" if "dead (pat n) u" for u
  proof -
    have "dead (map (\<lambda>c x. x = c) xs @ [is_space]) u \<Longrightarrow> dead (map (\<lambda>c x. x = c) xs @ [\<lambda>x. x = CHR '' '']) u" for xs u
    proof (induction xs arbitrary: u)
      case Nil
      then show ?case by (cases u) (auto simp: is_space_def)
    next
      case (Cons x xs)
      then show ?case by (cases u) auto
    qed
    from this [of "CHR ''('' # n"] that show ?thesis by (simp add: pat_def)
  qed
  have "dead (map (\<lambda>c x. x = c) (''  ('' @ n @ '' '')) (a # s)"
  proof (cases "a = CHR '' ''")
    case True
    then obtain b s' where s: "s = b # s'" using Cons.prems(2) assms(3) by (cases s) auto
    show ?thesis
    proof (cases "b = CHR '' ''")
      case bs: True
      then have "s' \<noteq> []" using Cons.prems(2) assms(3) s True by (cases t; cases "tl t") auto
      then have "dead (pat n) s'" using Cons.prems(1) s by (cases s') auto
      then show ?thesis using d [of s'] True bs s by simp
    qed (use True s in simp)
  qed simp
  moreover have "no_start (map (\<lambda>c x. x = c) (''  ('' @ n @ '' '')) s"
  proof (cases t)
    case (Cons x xs)
    then show ?thesis using Cons.IH [of xs] Cons.prems by simp
  qed (use Cons.prems in simp)
  ultimately show ?case by simp
qed simp

lemma needs_fp_line: "needs fp_line_rx (map (\<lambda>c x. x = c) ''  (footprint '')"
proof -
  have "needs (rx_seq (rx_lit ''  (footprint '' @ [])) (map (\<lambda>c x. x = c) ''  (footprint '' @ [])"
    by (rule needs_lit) (simp_all)
  then show ?thesis by (auto simp: needs_def fp_line_rx_def split: if_splits)
qed

lemma fp_first:
  assumes "no_start (pat ''footprint'') u" "u = t @ [nl]"
  shows "\<exists>m ms. rx_finditer fp_line_rx [] (u @ ''  (footprint '' @ w) = (u, m) # ms"
proof -
  have "no_start (map (\<lambda>c x. x = c) (''  ('' @ ''footprint'' @ '' '')) u"
    by (rule no_start_indent [OF assms]) (simp_all add: nl_def)
  then have ns: "no_start (map (\<lambda>c x. x = c) ''  (footprint '') u" by simp
  have s: "rx_finditer fp_line_rx [] (u @ ''  (footprint '' @ w) = rx_finditer fp_line_rx (rev u) (''  (footprint '' @ w)"
    using finditer_no_start [OF needs_fp_line ns, of "[]"] by simp
  have "rx_match fp_line_rx (rev u, ''  (footprint '' @ w, []) = rx_match (rx_seq (rx_lit ''  (footprint '' @ [])) (rev u, ''  (footprint '' @ w, [])"
    using assms(2) by (simp add: fp_line_rx_def)
  also have "\<dots> = [(rev ''  (footprint '' @ rev u, w, [])]" unfolding match_lit by simp
  finally have "rx_first fp_line_rx (rev u) (''  (footprint '' @ w) = Some (rev ''  (footprint '' @ rev u, w, [])"
    by (simp add: rx_first_def)
  from finditer_match [OF this] show ?thesis using s by simp
qed

lemma rfind_neg: "rfind_str sub s < 0 \<longleftrightarrow> \<not> contains sub s" if "sub \<noteq> []"
  using that by (induction s) (auto simp: Let_def split: if_splits)

lemma rfind_bound: "-1 \<le> rfind_str sub s"
  by (induction s) (auto simp: Let_def)

lemma rfind_absent: "sub \<noteq> [] \<Longrightarrow> \<not> contains sub s \<Longrightarrow> rfind_str sub s = -1"
  using rfind_neg [of sub s] rfind_bound [of sub s] by linarith

lemma rfind_append: "0 \<le> rfind_str sub t \<Longrightarrow> rfind_str sub (s @ t) = int (length s) + rfind_str sub t"
  by (induction s) (auto simp: Let_def)

lemma rfind_here: "\<not> contains (c # sub) (sub @ t) \<Longrightarrow> rfind_str (c # sub) (c # sub @ t) = 0"
  using rfind_absent [of "c # sub" "sub @ t"] by (simp add: Let_def)

definition holes_mark :: string where
  "holes_mark = ''; Mounting holes''"

lemma mark_eq: "'';; Mounting holes'' = CHR '';'' # holes_mark"
  by (simp add: holes_mark_def)

lemma insert_pos_mark:
  "insert_pos content start = (let mh_comment = rfind_str (CHR '';'' # holes_mark) (take start content)
      in if 0 \<le> mh_comment then back_up content (nat mh_comment) + 1 else start)"
  unfolding insert_pos_def mark_eq ..

text \<open>
  The comment is found at its second character: the script puts the zones between the two
  semicolons.
\<close>

lemma insert_zones_holes:
  assumes fp: "no_start (pat ''footprint'') (u @ ''  ;'' @ holes_mark @ v)" "v = v' @ [nl]"
    and mark: "\<not> contains (CHR '';'' # holes_mark) (holes_mark @ v)"
  shows "insert_zones (u @ ''  ;'' @ holes_mark @ v @ ''  (footprint '' @ w) zs =
    u @ ''  ;'' @ nl # zs @ nl # holes_mark @ v @ ''  (footprint '' @ w"
proof -
  let ?p = "u @ ''  ;'' @ holes_mark @ v" and ?q = "''  (footprint '' @ w"
  have e: "?p = (u @ ''  ;'' @ holes_mark @ v') @ [nl]" using fp(2) by simp
  obtain m ms where m: "rx_finditer fp_line_rx [] (?p @ ?q) = (?p, m) # ms" using fp_first [OF fp(1) e, of w] by blast
  have "?p = (u @ ''  '') @ CHR '';'' # holes_mark @ v" by simp
  moreover have h: "rfind_str (CHR '';'' # holes_mark) (CHR '';'' # holes_mark @ v) = 0" by (rule rfind_here [OF mark])
  ultimately have r: "rfind_str (CHR '';'' # holes_mark) ?p = int (length (u @ ''  ''))"
    using rfind_append [of "CHR '';'' # holes_mark" "CHR '';'' # holes_mark @ v" "u @ ''  ''"] by (simp only: h add_0_right order_refl)
  have b: "back_up (?p @ ?q) (length (u @ ''  '')) = length (u @ ''  '')"
    by (simp add: nth_append nl_def)
  have "take (length p) (p @ q) = p" for p q :: string by simp
  then have "take (length ?p) (?p @ ?q) = ?p" by blast
  then have "insert_pos (?p @ ?q) (length ?p) = length (u @ ''  '') + 1"
    unfolding insert_pos_mark r Let_def by (simp only: r nat_int b of_nat_0_le_iff if_True)
  then have "insert_pos (?p @ ?q) (length ?p) = length (u @ ''  ;'')" by simp
  then have "insert_zones (?p @ ?q) zs = take (length (u @ ''  ;'')) ((u @ ''  ;'') @ holes_mark @ v @ ?q) @ [nl] @ zs @ [nl] @
      drop (length (u @ ''  ;'')) ((u @ ''  ;'') @ holes_mark @ v @ ?q)"
    unfolding insert_zones_def m by (simp only: list.case prod.case Let_def append_assoc)
  then show ?thesis by simp
qed

lemma remove_absent: "\<not> contains ''(zone'' s \<Longrightarrow> remove_zones s = s"
  by (simp add: remove_zones_def)

section \<open>The number that is printed\<close>

text \<open>\<open>tally n w\<close>: \<open>content.count("(zone")\<close> finds \<open>n\<close> in \<open>w\<close>, whatever follows.\<close>

definition tally :: "nat \<Rightarrow> string \<Rightarrow> bool" where
  "tally n w \<longleftrightarrow> (\<forall>t. count_str ''(zone'' (w @ t) = n + count_str ''(zone'' t)"

lemma tally_append: "tally m u \<Longrightarrow> tally n v \<Longrightarrow> tally (m + n) (u @ v)"
  by (simp add: tally_def)

lemma tally_Nil: "tally 0 []"
  by (simp add: tally_def)

lemma tally_zone: "tally 1 ''(zone''"
  by (simp add: tally_def count_str.simps [of _ "_ # _"])

lemma tally_absent: "zoneless w \<Longrightarrow> tally 0 w"
proof (induction w)
  case (Cons c w)
  have "\<not> prefix ''(zone'' (c # w @ t)" for t
    using dead_not_prefix [of "CHR ''('' # ''zone''" "(c # w) @ t"] dead_append [of zpat "c # w" t] Cons.prems
    by (simp add: zoneless_def zpat_def del: dead.simps)
  then have "count_str ''(zone'' (c # w @ t) = count_str ''(zone'' (w @ t)" for t
    unfolding count_str.simps [of "''(zone''" "c # w @ t"] by (simp only: list.case simp_thms if_False)
  then show ?case using Cons by (simp add: tally_def zoneless_def)
qed (simp add: tally_Nil)

lemma tally_plain: "opens_lines plain ls \<Longrightarrow> tally 0 (unl ls)"
  by (intro tally_absent zoneless_plain)

lemma tally_zone_lines:
  assumes "name_ok net_name" "name_ok layer" "name_ok zone_name"
  shows "tally 1 (unl (zone_lines (uid rnd k) net_num net_name layer zone_name pts priority cl tg tb mt))"
proof -
  obtain ls where ls: "zone_lines (uid rnd k) net_num net_name layer zone_name pts priority cl tg tb mt =
      ''  (zone'' # (''    (net '' @ int_str net_num @ '')'') # ls" "opens_lines plain ls"
    using zone_lines_split [of "uid rnd k" net_num net_name layer zone_name pts priority cl tg tb mt] assms by auto
  have "zoneless (nl # ''    (net '')" by (simp add: zoneless_def zpat_def nl_def)
  moreover have "zoneless (int_str net_num)"
    by (rule zoneless_opens [of "\<lambda>_. False"]) simp_all
  moreover have "zoneless ('')'' @ [nl])" by (simp add: zoneless_def zpat_def nl_def)
  moreover have "zoneless (unl ls)" by (rule zoneless_plain [OF ls(2)])
  ultimately have r: "zoneless ((nl # ''    (net '') @ int_str net_num @ ('')'' @ [nl]) @ unl ls)"
    by (rule zoneless_append [OF _ zoneless_append [OF _ zoneless_append]])
  have "zoneless ''  ''" by (simp add: zoneless_def zpat_def)
  from tally_append [OF tally_absent [OF this] tally_append [OF tally_zone tally_absent [OF r]]]
  show ?thesis by (simp add: ls(1))
qed

lemma tally_zone_sexpr:
  assumes ok: "name_ok net_name" "name_ok layer" "name_ok zone_name" and ne: "polygons \<noteq> []"
  shows "tally (length polygons) (fst (zone_sexpr rnd k net_num net_name layer zone_name polygons priority cl tg tb mt) @ [nl])"
proof -
  define lines where "lines = (\<lambda>u pts. zone_lines u net_num net_name layer zone_name pts priority cl tg tb mt)"
  have l: "lines u pts \<noteq> []" for u pts by (simp add: lines_def zone_lines_def Let_def)
  have "tally (length polygons) (unl (zone_texts rnd k lines polygons))"
  proof (induction polygons arbitrary: k)
    case (Cons p ps)
    have "tally 1 (unl (lines (uid rnd k) p))" unfolding lines_def by (rule tally_zone_lines [OF ok])
    from tally_append [OF this Cons.IH [of "k + 1"]] show ?case
      by (simp add: join_nl [OF l, of "uid rnd k" p, symmetric])
  qed (simp add: tally_Nil)
  moreover have "zone_texts rnd k lines polygons \<noteq> []" using ne by (cases polygons) simp_all
  ultimately show ?thesis using join_nl [of "zone_texts rnd k lines polygons"] by (simp add: zone_sexpr_def lines_def)
qed

lemma tally_plane_texts:
  "list_all section_ok ss \<Longrightarrow> tally (sum_list (map section_zones ss)) (unl (plane_texts rnd k ss))"
proof (induction rnd k ss rule: plane_texts.induct)
  case (2 rnd k h ss)
  then obtain s c where h: "h = nl # s @ [c]" "opens plain (s @ [c, nl])" by auto
  then have "tally 0 (unl [[], s @ [c]])" by (intro tally_plain) simp
  then have "tally 0 (h @ [nl])" by (simp add: h)
  from tally_append [OF this "2.IH"] "2.prems" show ?case by simp
next
  case (3 rnd k net_num net_name layer zone_name polygons priority cl ss)
  obtain t k' where z: "zone_sexpr rnd k net_num net_name layer zone_name polygons priority cl (lit 3 1) (lit 3 1) (lit 2 1) = (t, k')"
    by fastforce
  have "tally (length polygons) (t @ [nl])"
    using tally_zone_sexpr [of net_name layer zone_name polygons rnd k net_num priority cl "lit 3 1" "lit 3 1" "lit 2 1"] z "3.prems" by simp
  from tally_append [OF this "3.IH" [OF z [symmetric] refl]] "3.prems" show ?case by (simp add: z [unfolded One_nat_def])
qed (simp add: tally_Nil)

lemma generate_all_zones_unl: "generate_all_zones rnd k = unl (plane_texts rnd k plane_sections)"
proof -
  have "plane_texts rnd k plane_sections \<noteq> []" by (simp add: plane_sections_def)
  then show ?thesis using join_nl by (simp add: generate_all_zones_def)
qed

lemma tally_zones: "tally 13 (generate_all_zones rnd k)"
proof -
  have "sum_list (map section_zones plane_sections) = 13" by (simp add: plane_sections_def)
  then show ?thesis
    unfolding generate_all_zones_unl using tally_plane_texts [OF plane_sections_ok, of rnd k] by metis
qed

section \<open>The script on a board\<close>

text \<open>
  A file with the comment of the mounting holes and no zones: the zones go in front of the second
  semicolon of the comment, thirteen are counted, and the file is a board with them.
\<close>

lemma planes_main_holes:
  assumes fp: "no_start (pat ''footprint'') (u @ ''  ;'' @ holes_mark @ v)" "v = v' @ [nl]"
    and mark: "\<not> contains (CHR '';'' # holes_mark) (holes_mark @ v)"
    and z: "zoneless (u @ ''  ;'')" "zoneless (holes_mark @ v @ ''  (footprint '' @ w)"
  shows "planes_main rnd k (Some (u @ ''  ;'' @ holes_mark @ v @ ''  (footprint '' @ w)) =
    Some (u @ ''  ;'' @ nl # generate_all_zones rnd k @ nl # holes_mark @ v @ ''  (footprint '' @ w, 13)"
proof -
  define zs where "zs = generate_all_zones rnd k"
  define r where "r = holes_mark @ v @ ''  (footprint '' @ w"
  have i: "insert_zones (u @ ''  ;'' @ r) zs = u @ ''  ;'' @ nl # zs @ nl # r"
    unfolding r_def by (rule insert_zones_holes [OF fp mark])
  have n: "zoneless ((u @ ''  ;'') @ r)" using z unfolding r_def by (rule zoneless_append)
  have m: "remove_zones (u @ ''  ;'' @ r) = u @ ''  ;'' @ r"
    using remove_absent [OF zoneless_contains [OF n]] by simp
  have nls: "zoneless [nl]" by (simp add: zoneless_def zpat_def nl_def)
  note t = tally_absent [OF z(1)] tally_absent [OF nls] tally_zones [of rnd k, folded zs_def] tally_absent [OF z(2), folded r_def]
  have "tally 13 ((u @ ''  ;'') @ [nl] @ zs @ [nl] @ r)"
    using tally_append [OF t(1) tally_append [OF t(2) tally_append [OF t(3) tally_append [OF t(2,4)]]]] by simp
  then have "count_str ''(zone'' (((u @ ''  ;'') @ [nl] @ zs @ [nl] @ r) @ []) = 13 + count_str ''(zone'' []"
    unfolding tally_def by blast
  then have c: "count_str ''(zone'' (u @ ''  ;'' @ nl # zs @ nl # r) = 13"
    by (simp add: count_str.simps [of _ "[]"])
  show ?thesis
    unfolding r_def [symmetric] zs_def [symmetric] planes_main_def by (simp only: option.case Let_def m i c zs_def [symmetric])
qed

end
