(* ===== verification/Footprints.thy ===== *)
theory Footprints
  imports Netlist Uuid
begin

text \<open>
  Footprints of the placed components: \<open>estimate_footprint_size\<close>, \<open>get_pad_info\<close> and
  \<open>generate_footprint\<close> of \<open>hardware/cirradio-devboard/gen_pcb_placement.py\<close>. The pads of each
  package are a definition of their own; the coordinates are the floats the script computes.
\<close>

section \<open>Sizes\<close>

definition estimate_footprint_size :: "string \<Rightarrow> rat \<times> rat" where
  "estimate_footprint_size fp =
    (if contains ''0402'' fp then (1, (lit 5 1))
     else if contains ''0603'' fp then ((lit 16 1), (lit 8 1))
     else if contains ''0805'' fp then (2, (lit 125 2))
     else if contains ''1206'' fp \<or> contains ''1210'' fp then ((lit 32 1), (lit 16 1))
     else if contains ''BGA-900'' fp \<or> contains ''FFG900'' fp then (31, 31)
     else if contains ''BGA-144'' fp then (10, 10)
     else if contains ''BGA-96'' fp then (8, 13)
     else if contains ''BGA-153'' fp then (12, 16)
     else if contains ''QFN-48'' fp then (7, 7)
     else if contains ''QFN-32'' fp then (5, 5)
     else if contains ''QFN-24'' fp \<or> contains ''QFN-16'' fp then (3, 3)
     else if contains ''SOIC-8'' fp then (5, 4)
     else if contains ''SOT-23-5'' fp then (3, 3)
     else if contains ''SOT-23'' fp then (3, (lit 25 1))
     else if contains ''WSON-8_2x2'' fp then (2, 2)
     else if contains ''WSON-8-1EP_6x5'' fp then (6, 5)
     else if contains ''DIP-14'' fp then (8, 20)
     else if contains ''PinHeader_2x20_P2.54'' fp then ((lit 51 1), (lit 508 1))
     else if contains ''PinHeader_2x07_P1.27'' fp then ((lit 25 1), (lit 89 1))
     else if contains ''SMA_Amphenol'' fp then (5, 5)
     else if contains ''BarrelJack'' fp then (9, 11)
     else if contains ''USB_A'' fp then (12, 14)
     else if contains ''USB_Micro'' fp then (8, 6)
     else if contains ''RJ45'' fp then (16, 14)
     else if contains ''microSD'' fp then (14, 15)
     else if contains ''U.FL'' fp then (3, 3)
     else if contains ''LCC-16'' fp then (12, 16)
     else if contains ''TGA2594'' fp then (5, 5)
     else if contains ''TestPoint'' fp then ((lit 15 1), (lit 15 1))
     else if contains ''CP_Radial'' fp then (8, 8)
     else if contains ''Crystal'' fp \<or> contains ''VDFN'' fp then ((lit 32 1), (lit 15 1))
     else if contains ''SW_DIP'' fp then (10, 5)
     else if contains ''SW_Push'' fp \<or> contains ''SW_SPST'' fp then (4, 3)
     else if contains ''D_SMA'' fp \<or> contains ''LED_0603'' fp then ((lit 16 1), (lit 8 1))
     else if contains ''FerriteBead'' fp then (1, (lit 5 1))
     else (2, 1))"

section \<open>Pads\<close>

text \<open>The tuple \<open>(pad_num, pad_type, shape, x, y, sx, sy, drill, layers)\<close>; \<open>drill\<close> is \<open>None\<close> for surface-mount pads.\<close>

record pad =
  pad_num :: string
  pad_type :: string
  pad_shape :: string
  pad_x :: rat
  pad_y :: rat
  pad_sx :: rat
  pad_sy :: rat
  pad_drill :: "rat option"
  pad_layers :: string

definition smd :: "string \<Rightarrow> string \<Rightarrow> rat \<Rightarrow> rat \<Rightarrow> rat \<Rightarrow> rat \<Rightarrow> pad" where
  "smd num shape px py sx sy =
     \<lparr>pad_num = num, pad_type = ''smd'', pad_shape = shape, pad_x = px, pad_y = py, pad_sx = sx, pad_sy = sy,
      pad_drill = None, pad_layers = ''F.Cu''\<rparr>"

definition thru_hole :: "string \<Rightarrow> string \<Rightarrow> rat \<Rightarrow> rat \<Rightarrow> rat \<Rightarrow> rat \<Rightarrow> rat \<Rightarrow> pad" where
  "thru_hole num shape px py sx sy drill =
     \<lparr>pad_num = num, pad_type = ''thru_hole'', pad_shape = shape, pad_x = px, pad_y = py, pad_sx = sx, pad_sy = sy,
      pad_drill = Some drill, pad_layers = ''*.Cu''\<rparr>"

definition pads_chip_0402 :: "pad list" where
  "pads_chip_0402 =
     [smd ''1'' ''roundrect'' (- (lit 48 2)) 0 (lit 56 2) (lit 62 2),
      smd ''2'' ''roundrect'' (lit 48 2) 0 (lit 56 2) (lit 62 2)]"

definition pads_chip_0603 :: "pad list" where
  "pads_chip_0603 =
     [smd ''1'' ''roundrect'' (- (lit 75 2)) 0 (lit 8 1) (lit 95 2),
      smd ''2'' ''roundrect'' (lit 75 2) 0 (lit 8 1) (lit 95 2)]"

definition pads_chip_0805 :: "pad list" where
  "pads_chip_0805 =
     [smd ''1'' ''roundrect'' (- (lit 9 1)) 0 1 (lit 145 2),
      smd ''2'' ''roundrect'' (lit 9 1) 0 1 (lit 145 2)]"

definition pads_chip_1206 :: "pad list" where
  "pads_chip_1206 =
     [smd ''1'' ''roundrect'' (- (lit 14 1)) 0 (lit 13 1) (lit 18 1),
      smd ''2'' ''roundrect'' (lit 14 1) 0 (lit 13 1) (lit 18 1)]"

definition pads_diode_sma :: "pad list" where
  "pads_diode_sma =
     [smd ''1'' ''rect'' (- 2) 0 (lit 15 1) (lit 18 1),
      smd ''2'' ''rect'' 2 0 (lit 15 1) (lit 18 1)]"

definition pads_test_point :: "pad list" where
  "pads_test_point =
     [smd ''1'' ''rect'' 0 0 (lit 15 1) (lit 15 1)]"

definition pads_barrel_jack :: "pad list" where
  "pads_barrel_jack =
     [thru_hole ''1'' ''rect'' 0 0 (lit 35 1) (lit 35 1) (lit 12 1),
      thru_hole ''2'' ''oval'' 6 0 (lit 35 1) (lit 35 1) (lit 12 1),
      thru_hole ''3'' ''oval'' 3 (lit 47 1) (lit 35 1) (lit 35 1) (lit 12 1)]"

definition pads_sma_jack :: "pad list" where
  "pads_sma_jack =
     [smd ''1'' ''rect'' 0 0 (lit 15 1) (lit 15 1),
      thru_hole ''2'' ''circle'' (- (lit 25 1)) (- (lit 25 1)) 2 2 1,
      thru_hole ''2'' ''circle'' (lit 25 1) (- (lit 25 1)) 2 2 1,
      thru_hole ''2'' ''circle'' (- (lit 25 1)) (lit 25 1) 2 2 1,
      thru_hole ''2'' ''circle'' (lit 25 1) (lit 25 1) 2 2 1]"

definition pads_cap_radial :: "pad list" where
  "pads_cap_radial =
     [thru_hole ''1'' ''rect'' 0 0 (lit 18 1) (lit 18 1) (lit 8 1),
      thru_hole ''2'' ''circle'' (lit 35 1) 0 (lit 18 1) (lit 18 1) (lit 8 1)]"

definition pads_soic8 :: "pad list" where
  "pads_soic8 =
     map (\<lambda>i. smd (int_str (i + 1)) ''rect'' (- (lit 27 1)) (fadd (- (lit 1905 3)) (fmul (of_int i) (lit 127 2))) (lit 155 2) (lit 6 1)) [0..3] @
     map (\<lambda>i. smd (int_str (8 - i)) ''rect'' (lit 27 1) (fadd (- (lit 1905 3)) (fmul (of_int i) (lit 127 2))) (lit 155 2) (lit 6 1)) [0..3]"

definition pads_wson8 :: "pad list" where
  "pads_wson8 =
     map (\<lambda>i. smd (int_str (i + 1)) ''rect'' (- (lit 9 1)) (fadd (- (lit 75 2)) (fmul (of_int i) (lit 5 1))) (lit 65 2) (lit 3 1)) [0..3] @
     map (\<lambda>i. smd (int_str (8 - i)) ''rect'' (lit 9 1) (fadd (- (lit 75 2)) (fmul (of_int i) (lit 5 1))) (lit 65 2) (lit 3 1)) [0..3] @
     [smd ''9'' ''rect'' 0 0 (lit 84 2) (lit 84 2)]"

definition pads_sot23_5 :: "pad list" where
  "pads_sot23_5 =
     [smd ''1'' ''rect'' (- (lit 11 1)) (lit 95 2) 1 (lit 6 1),
      smd ''2'' ''rect'' (- (lit 11 1)) 0 1 (lit 6 1),
      smd ''3'' ''rect'' (- (lit 11 1)) (- (lit 95 2)) 1 (lit 6 1),
      smd ''4'' ''rect'' (lit 11 1) (- (lit 95 2)) 1 (lit 6 1),
      smd ''5'' ''rect'' (lit 11 1) (lit 95 2) 1 (lit 6 1)]"

definition pads_sot23 :: "pad list" where
  "pads_sot23 =
     [smd ''1'' ''rect'' (- (lit 11 1)) (lit 95 2) 1 (lit 6 1),
      smd ''2'' ''rect'' (- (lit 11 1)) (- (lit 95 2)) 1 (lit 6 1),
      smd ''3'' ''rect'' (lit 11 1) 0 1 (lit 6 1)]"

definition pads_qfn16 :: "pad list" where
  "pads_qfn16 =
     map (\<lambda>i. smd (int_str (i + 1)) ''rect'' (- (lit 145 2)) (fadd (- (lit 75 2)) (fmul (of_int i) (lit 5 1))) (lit 8 1) (lit 3 1)) [0..3] @
     map (\<lambda>i. smd (int_str (i + 5)) ''rect'' (fadd (- (lit 75 2)) (fmul (of_int i) (lit 5 1))) (lit 145 2) (lit 3 1) (lit 8 1)) [0..3] @
     map (\<lambda>i. smd (int_str (i + 9)) ''rect'' (lit 145 2) (fsub (lit 75 2) (fmul (of_int i) (lit 5 1))) (lit 8 1) (lit 3 1)) [0..3] @
     map (\<lambda>i. smd (int_str (i + 13)) ''rect'' (fsub (lit 75 2) (fmul (of_int i) (lit 5 1))) (- (lit 145 2)) (lit 3 1) (lit 8 1)) [0..3] @
     [smd ''17'' ''rect'' 0 0 (lit 175 2) (lit 175 2)]"

definition pads_qfn24 :: "pad list" where
  "pads_qfn24 =
     map (\<lambda>i. smd (int_str (i + 1)) ''rect'' (- (lit 195 2)) (fadd (- (lit 125 2)) (fmul (of_int i) (lit 5 1))) (lit 8 1) (lit 3 1)) [0..5] @
     map (\<lambda>i. smd (int_str (i + 7)) ''rect'' (fadd (- (lit 125 2)) (fmul (of_int i) (lit 5 1))) (lit 195 2) (lit 3 1) (lit 8 1)) [0..5] @
     map (\<lambda>i. smd (int_str (i + 13)) ''rect'' (lit 195 2) (fsub (lit 125 2) (fmul (of_int i) (lit 5 1))) (lit 8 1) (lit 3 1)) [0..5] @
     map (\<lambda>i. smd (int_str (i + 19)) ''rect'' (fsub (lit 125 2) (fmul (of_int i) (lit 5 1))) (- (lit 195 2)) (lit 3 1) (lit 8 1)) [0..5] @
     [smd ''25'' ''rect'' 0 0 (lit 265 2) (lit 265 2)]"

definition pads_qfn32 :: "pad list" where
  "pads_qfn32 =
     map (\<lambda>i. smd (int_str (i + 1)) ''rect'' (- (lit 245 2)) (fadd (- (lit 175 2)) (fmul (of_int i) (lit 5 1))) (lit 8 1) (lit 3 1)) [0..7] @
     map (\<lambda>i. smd (int_str (i + 9)) ''rect'' (fadd (- (lit 175 2)) (fmul (of_int i) (lit 5 1))) (lit 245 2) (lit 3 1) (lit 8 1)) [0..7] @
     map (\<lambda>i. smd (int_str (i + 17)) ''rect'' (lit 245 2) (fsub (lit 175 2) (fmul (of_int i) (lit 5 1))) (lit 8 1) (lit 3 1)) [0..7] @
     map (\<lambda>i. smd (int_str (i + 25)) ''rect'' (fsub (lit 175 2) (fmul (of_int i) (lit 5 1))) (- (lit 245 2)) (lit 3 1) (lit 8 1)) [0..7] @
     [smd ''33'' ''rect'' 0 0 (lit 31 1) (lit 31 1)]"

definition pads_qfn48 :: "pad list" where
  "pads_qfn48 =
     map (\<lambda>i. smd (int_str (i + 1)) ''rect'' (- (lit 345 2)) (fadd (- (lit 275 2)) (fmul (of_int i) (lit 5 1))) (lit 8 1) (lit 3 1)) [0..11] @
     map (\<lambda>i. smd (int_str (i + 13)) ''rect'' (fadd (- (lit 275 2)) (fmul (of_int i) (lit 5 1))) (lit 345 2) (lit 3 1) (lit 8 1)) [0..11] @
     map (\<lambda>i. smd (int_str (i + 25)) ''rect'' (lit 345 2) (fsub (lit 275 2) (fmul (of_int i) (lit 5 1))) (lit 8 1) (lit 3 1)) [0..11] @
     map (\<lambda>i. smd (int_str (i + 37)) ''rect'' (fsub (lit 275 2) (fmul (of_int i) (lit 5 1))) (- (lit 345 2)) (lit 3 1) (lit 8 1)) [0..11] @
     [smd ''49'' ''rect'' 0 0 (lit 515 2) (lit 515 2)]"

definition pads_wson8_6x5 :: "pad list" where
  "pads_wson8_6x5 =
     map (\<lambda>i. smd (int_str (i + 1)) ''rect'' (- (lit 275 2)) (fadd (- (lit 1905 3)) (fmul (of_int i) (lit 127 2))) (lit 12 1) (lit 6 1)) [0..3] @
     map (\<lambda>i. smd (int_str (8 - i)) ''rect'' (lit 275 2) (fadd (- (lit 1905 3)) (fmul (of_int i) (lit 127 2))) (lit 12 1) (lit 6 1)) [0..3] @
     [smd ''9'' ''rect'' 0 0 (lit 34 1) 4]"

definition pads_bga96 :: "pad list" where
  "pads_bga96 =
     concat (map (\<lambda>row. map (\<lambda>(ci, col). let px = (fmul (of_int (ci - 4)) (lit 8 1)); py = (fmul (fsub (of_int row) (lit 65 1)) (lit 8 1)) in smd ([col] @ int_str (row + 1)) ''circle'' px py (lit 4 1) (lit 4 1)) (zip [0..8] ''ABCDEFGHJ'')) [0..13])"

definition pads_bga144 :: "pad list" where
  "pads_bga144 =
     concat (map (\<lambda>row. map (\<lambda>(ci, col). let px = (fmul (fsub (of_int ci) (lit 55 1)) (lit 8 1)); py = (fmul (fsub (of_int row) (lit 55 1)) (lit 8 1)) in smd ([col] @ int_str (row + 1)) ''circle'' px py (lit 4 1) (lit 4 1)) (zip [0..11] ''ABCDEFGHJKLM'')) [0..11])"

definition pads_bga153 :: "pad list" where
  "pads_bga153 =
     concat (map (\<lambda>row. map (\<lambda>(ci, col). let px = (fmul (of_int (ci - 5)) (lit 8 1)); py = (fmul (fsub (of_int row) (lit 65 1)) (lit 8 1)) in smd ([col] @ int_str (row + 1)) ''circle'' px py (lit 45 2) (lit 45 2)) (zip [0..10] ''ABCDEFGHJKL'')) [0..13])"

definition pads_vdfn4 :: "pad list" where
  "pads_vdfn4 =
     [smd ''1'' ''rect'' (- (lit 55 2)) (- (lit 325 3)) (lit 85 2) (lit 42 2),
      smd ''2'' ''rect'' (lit 55 2) (- (lit 325 3)) (lit 85 2) (lit 42 2),
      smd ''3'' ''rect'' (lit 55 2) (lit 325 3) (lit 85 2) (lit 42 2),
      smd ''4'' ''rect'' (- (lit 55 2)) (lit 325 3) (lit 85 2) (lit 42 2)]"

definition pads_crystal :: "pad list" where
  "pads_crystal =
     [smd ''1'' ''rect'' (- (lit 12 1)) 0 1 (lit 13 1),
      smd ''2'' ''rect'' (lit 12 1) 0 1 (lit 13 1)]"

definition pads_dip14 :: "pad list" where
  "pads_dip14 =
     concat (map (\<lambda>i. [thru_hole (int_str (i + 1)) (if i = 0 then ''rect'' else ''oval'') (- (lit 381 2)) (fadd (- (lit 762 2)) (fmul (of_int i) (lit 254 2))) (lit 16 1) (lit 16 1) (lit 8 1), thru_hole (int_str (14 - i)) ''oval'' (lit 381 2) (fadd (- (lit 762 2)) (fmul (of_int i) (lit 254 2))) (lit 16 1) (lit 16 1) (lit 8 1)]) [0..6])"

definition pads_header_2x07 :: "pad list" where
  "pads_header_2x07 =
     concat (map (\<lambda>row. map (\<lambda>col. let pin = (((row * 2) + col) + 1) in thru_hole (int_str pin) (if pin = 1 then ''rect'' else ''oval'') (fmul (of_int col) (lit 127 2)) (fmul (of_int row) (lit 127 2)) (lit 85 2) (lit 85 2) (lit 5 1)) [0..1]) [0..6])"

definition pads_header_2x20 :: "pad list" where
  "pads_header_2x20 =
     concat (map (\<lambda>row. map (\<lambda>col. let pin = (((row * 2) + col) + 1) in thru_hole (int_str pin) (if pin = 1 then ''rect'' else ''oval'') (fmul (of_int col) (lit 254 2)) (fmul (of_int row) (lit 254 2)) (lit 17 1) (lit 17 1) 1) [0..1]) [0..19])"

definition pads_usb_a :: "pad list" where
  "pads_usb_a =
     [thru_hole ''1'' ''rect'' 0 0 (lit 15 1) (lit 15 1) (lit 8 1),
      thru_hole ''2'' ''oval'' (lit 25 1) 0 (lit 15 1) (lit 15 1) (lit 8 1),
      thru_hole ''3'' ''oval'' 5 0 (lit 15 1) (lit 15 1) (lit 8 1),
      thru_hole ''4'' ''oval'' (lit 75 1) 0 (lit 15 1) (lit 15 1) (lit 8 1),
      thru_hole ''S1'' ''oval'' (- (lit 125 2)) (lit 35 1) (lit 25 1) (lit 25 1) (lit 14 1),
      thru_hole ''S2'' ''oval'' (lit 875 2) (lit 35 1) (lit 25 1) (lit 25 1) (lit 14 1)]"

definition pads_usb_micro :: "pad list" where
  "pads_usb_micro =
     map (\<lambda>i. smd (int_str (i + 1)) ''rect'' (fadd (- (lit 13 1)) (fmul (of_int i) (lit 65 2))) 0 (lit 4 1) (lit 135 2)) [0..4] @
     [smd ''S1'' ''rect'' (- (lit 31 1)) (lit 18 1) (lit 16 1) (lit 15 1)] @
     [smd ''S2'' ''rect'' (lit 31 1) (lit 18 1) (lit 16 1) (lit 15 1)]"

definition pads_rj45 :: "pad list" where
  "pads_rj45 =
     map (\<lambda>i. thru_hole (int_str (i + 1)) ''oval'' (fadd (- (lit 4445 3)) (fmul (of_int i) (lit 127 2))) 0 (lit 11 1) (lit 11 1) (lit 65 2)) [0..7] @
     [thru_hole ''S1'' ''oval'' (- (lit 635 2)) (lit 635 2) (lit 23 1) (lit 23 1) (lit 16 1)] @
     [thru_hole ''S2'' ''oval'' (lit 635 2) (lit 635 2) (lit 23 1) (lit 23 1) (lit 16 1)]"

definition pads_ufl :: "pad list" where
  "pads_ufl =
     [smd ''1'' ''rect'' 0 0 1 1,
      smd ''2'' ''rect'' (- (lit 13 1)) 0 (lit 9 1) 2,
      smd ''2'' ''rect'' (lit 13 1) 0 (lit 9 1) 2]"

definition pads_micro_sd :: "pad list" where
  "pads_micro_sd =
     map (\<lambda>i. smd (int_str (i + 1)) ''rect'' (fadd (- (lit 385 2)) (fmul (of_int i) (lit 11 1))) 0 (lit 7 1) (lit 16 1)) [0..7] @
     [smd ''S1'' ''rect'' (- (lit 685 2)) (lit 55 1) (lit 12 1) (lit 25 1)] @
     [smd ''S2'' ''rect'' (lit 685 2) (lit 55 1) (lit 12 1) (lit 25 1)]"

definition pads_lcc16 :: "pad list" where
  "pads_lcc16 =
     map (\<lambda>i. smd (int_str (i + 1)) ''rect'' (- (lit 55 1)) (fadd (- (lit 225 2)) (fmul (of_int i) (lit 15 1))) 1 (lit 8 1)) [0..3] @
     map (\<lambda>i. smd (int_str (i + 5)) ''rect'' (fadd (- (lit 225 2)) (fmul (of_int i) (lit 15 1))) (lit 75 1) (lit 8 1) 1) [0..3] @
     map (\<lambda>i. smd (int_str (i + 9)) ''rect'' (lit 55 1) (fsub (lit 225 2) (fmul (of_int i) (lit 15 1))) 1 (lit 8 1)) [0..3] @
     map (\<lambda>i. smd (int_str (i + 13)) ''rect'' (fsub (lit 225 2) (fmul (of_int i) (lit 15 1))) (- (lit 75 1)) (lit 8 1) 1) [0..3]"

definition pads_tga2594 :: "pad list" where
  "pads_tga2594 =
     map (\<lambda>i. smd (int_str (i + 1)) ''rect'' (- (lit 225 2)) (fadd (- (lit 75 2)) (fmul (of_int i) (lit 5 1))) (lit 8 1) (lit 3 1)) [0..3] @
     map (\<lambda>i. smd (int_str (i + 5)) ''rect'' (fadd (- (lit 75 2)) (fmul (of_int i) (lit 5 1))) (lit 225 2) (lit 3 1) (lit 8 1)) [0..3] @
     map (\<lambda>i. smd (int_str (i + 9)) ''rect'' (lit 225 2) (fsub (lit 75 2) (fmul (of_int i) (lit 5 1))) (lit 8 1) (lit 3 1)) [0..3] @
     map (\<lambda>i. smd (int_str (i + 13)) ''rect'' (fsub (lit 75 2) (fmul (of_int i) (lit 5 1))) (- (lit 225 2)) (lit 3 1) (lit 8 1)) [0..3] @
     [smd ''17'' ''rect'' 0 0 (lit 25 1) (lit 25 1)]"

definition pads_push_button :: "pad list" where
  "pads_push_button =
     [smd ''1'' ''rect'' (- (lit 17 1)) 0 (lit 8 1) 1,
      smd ''2'' ''rect'' (lit 17 1) 0 (lit 8 1) 1]"

definition pads_dip_switch :: "pad list" where
  "pads_dip_switch =
     concat (map (\<lambda>i. [thru_hole (int_str (i + 1)) (if i = 0 then ''rect'' else ''oval'') 0 (fmul (of_int i) (lit 254 2)) (lit 16 1) (lit 16 1) (lit 8 1), thru_hole (int_str (4 - i)) ''oval'' (lit 762 2) (fmul (of_int i) (lit 254 2)) (lit 16 1) (lit 16 1) (lit 8 1)]) [0..1])"

definition pads_bga900 :: "pad list" where
  "pads_bga900 =
     concat (map (\<lambda>row. map (\<lambda>col. let px = (fmul (fsub (of_int col) (lit 145 1)) 1); py = (fmul (fsub (of_int row) (lit 145 1)) 1) in smd (int_str (((row * 30) + col) + 1)) ''circle'' px py (lit 5 1) (lit 5 1)) [0..29]) [0..29])"

definition pads_filter :: "pad list" where
  "pads_filter =
     [smd ''1'' ''rect'' (- 2) 0 1 (lit 15 1),
      smd ''2'' ''rect'' 2 0 1 (lit 15 1),
      smd ''3'' ''rect'' 0 (- (lit 15 1)) 3 1]"

definition pads_generic :: "pad list" where
  "pads_generic =
     [smd ''1'' ''rect'' (- (lit 5 1)) 0 (lit 6 1) (lit 6 1),
      smd ''2'' ''rect'' (lit 5 1) 0 (lit 6 1) (lit 6 1)]"

definition get_pad_info :: "string \<Rightarrow> string \<Rightarrow> pad list" where
  "get_pad_info fp ref =
    (if list_ex (\<lambda>p. contains p fp) [''R_0402'', ''C_0402'', ''L_0402'', ''FerriteBead_0402''] then pads_chip_0402
     else if list_ex (\<lambda>p. contains p fp) [''R_0603'', ''C_0603'', ''LED_0603''] then pads_chip_0603
     else if list_ex (\<lambda>p. contains p fp) [''R_0805'', ''C_0805'', ''L_0805''] then pads_chip_0805
     else if list_ex (\<lambda>p. contains p fp) [''C_1206'', ''L_1210''] then pads_chip_1206
     else if contains ''D_SMA'' fp then pads_diode_sma
     else if contains ''TestPoint'' fp then pads_test_point
     else if contains ''BarrelJack'' fp then pads_barrel_jack
     else if contains ''SMA_Amphenol'' fp then pads_sma_jack
     else if contains ''CP_Radial'' fp then pads_cap_radial
     else if contains ''SOIC-8'' fp then pads_soic8
     else if contains ''WSON-8_2x2'' fp then pads_wson8
     else if contains ''SOT-23-5'' fp then pads_sot23_5
     else if contains ''SOT-23'' fp then pads_sot23
     else if contains ''QFN-16'' fp \<and> contains ''3x3'' fp then pads_qfn16
     else if contains ''QFN-24'' fp \<and> contains ''4x4'' fp then pads_qfn24
     else if contains ''QFN-32'' fp \<and> contains ''5x5'' fp then pads_qfn32
     else if contains ''QFN-48'' fp \<and> contains ''7x7'' fp then pads_qfn48
     else if contains ''WSON-8-1EP_6x5'' fp then pads_wson8_6x5
     else if contains ''BGA-96'' fp then pads_bga96
     else if contains ''BGA-144'' fp then pads_bga144
     else if contains ''BGA-153'' fp then pads_bga153
     else if contains ''VDFN-4'' fp then pads_vdfn4
     else if contains ''Crystal_SMD_3215'' fp then pads_crystal
     else if contains ''DIP-14'' fp then pads_dip14
     else if contains ''PinHeader_2x07_P1.27'' fp then pads_header_2x07
     else if contains ''PinHeader_2x20_P2.54'' fp then pads_header_2x20
     else if contains ''USB_A'' fp then pads_usb_a
     else if contains ''USB_Micro'' fp then pads_usb_micro
     else if contains ''RJ45'' fp then pads_rj45
     else if contains ''U.FL'' fp then pads_ufl
     else if contains ''microSD'' fp then pads_micro_sd
     else if contains ''LCC-16'' fp then pads_lcc16
     else if contains ''TGA2594'' fp then pads_tga2594
     else if contains ''SW_SPST'' fp \<or> contains ''SW_Push'' fp then pads_push_button
     else if contains ''SW_DIP'' fp then pads_dip_switch
     else if ref = ''U1'' then pads_bga900
     else if prefix ''FL'' ref then pads_filter
     else pads_generic)"

section \<open>The footprint entry\<close>

text \<open>One pad; a drill of 0 is not printed.\<close>

definition pad_entry :: "string \<Rightarrow> string \<Rightarrow> pad \<Rightarrow> string list" where
  \<open>pad_entry u layer p =
     (if pad_type p = ''thru_hole''
      then [''    (pad "'' @ pad_num p @ ''" '' @ pad_type p @ '' '' @ pad_shape p,
            ''      (at '' @ fmt_fixed 3 (pad_x p) @ '' '' @ fmt_fixed 3 (pad_y p) @ '') (size '' @
              fmt_fixed 3 (pad_sx p) @ '' '' @ fmt_fixed 3 (pad_sy p) @ '')'' @
              (case pad_drill p of None \<Rightarrow> [] | Some d \<Rightarrow> if d = 0 then [] else '' (drill '' @ float_str d @ '')''),
            ''      (layers "'' @ pad_layers p @ ''" "*.Mask")'',
            ''      (uuid "'' @ u @ ''")'',
            ''    )'']
      else [''    (pad "'' @ pad_num p @ ''" smd '' @ pad_shape p,
            ''      (at '' @ fmt_fixed 3 (pad_x p) @ '' '' @ fmt_fixed 3 (pad_y p) @ '') (size '' @
              fmt_fixed 3 (pad_sx p) @ '' '' @ fmt_fixed 3 (pad_sy p) @ '')'',
            ''      (layers "'' @ layer @ ''" "'' @ py_replace ''Cu'' ''Paste'' layer @ ''" "'' @
              py_replace ''Cu'' ''Mask'' layer @ ''")'',
            ''      (uuid "'' @ u @ ''")'',
            ''    )''])\<close>

fun pad_entries :: "random \<Rightarrow> nat \<Rightarrow> string \<Rightarrow> pad list \<Rightarrow> string list" where
  "pad_entries rnd k layer [] = []"
| "pad_entries rnd k layer (p # ps) = pad_entry (uid rnd k) layer p @ pad_entries rnd (k + 1) layer ps"

text \<open>The two rectangles, courtyard and fabrication outline.\<close>

definition fp_rect :: "string \<Rightarrow> rat \<Rightarrow> rat \<Rightarrow> string \<Rightarrow> string \<Rightarrow> string list" where
  \<open>fp_rect u x y width layer =
     [''    (fp_rect'',
      ''      (start '' @ fmt_fixed 3 (- x) @ '' '' @ fmt_fixed 3 (- y) @ '') (end '' @ fmt_fixed 3 x @ '' '' @ fmt_fixed 3 y @ '')'',
      ''      (stroke (width '' @ width @ '') (type solid)) (fill none) (layer "'' @ layer @ ''") (uuid "'' @ u @ ''")'',
      ''    )'']\<close>

definition footprint_lines :: "random \<Rightarrow> nat \<Rightarrow> component \<Rightarrow> rat \<Rightarrow> rat \<Rightarrow> int \<Rightarrow> string \<Rightarrow> string list" where
  \<open>footprint_lines rnd k c x y rotation layer =
     (let ref = reference c; val = comp_value c; fp = footprint c;
          fp_lib_name = (if fp \<noteq> [] then fp else ''cirradio:'' @ ref);
          rot_str = (if rotation \<noteq> 0 then '' '' @ int_str rotation else []);
          back = (layer = ''B.Cu'');
          silk_layer = (if back then ''B.SilkS'' else ''F.SilkS'');
          fab_layer = (if back then ''B.Fab'' else ''F.Fab'');
          crtyd_layer = (if back then ''B.CrtYd'' else ''F.CrtYd'');
          (cw, ch) = estimate_footprint_size fp
      in [''  (footprint "'' @ fp_lib_name @ ''"'',
          ''    (layer "'' @ layer @ ''")'',
          ''    (uuid "'' @ uid rnd k @ ''")'',
          ''    (at '' @ fmt_fixed 2 x @ '' '' @ fmt_fixed 2 y @ rot_str @ '')'',
          ''    (property "Reference" "'' @ ref @ ''" (at 0 -2 0) (layer "'' @ silk_layer @ ''") (uuid "'' @ uid rnd (k + 1) @ ''")'',
          ''      (effects (font (size 0.8 0.8) (thickness 0.12)))'',
          ''    )'',
          ''    (property "Value" "'' @ val @ ''" (at 0 2 0) (layer "'' @ fab_layer @ ''") (uuid "'' @ uid rnd (k + 2) @ ''")'',
          ''      (effects (font (size 0.8 0.8) (thickness 0.12)))'',
          ''    )''] @
         fp_rect (uid rnd (k + 3)) (fadd (fdiv cw 2) (lit 25 2)) (fadd (fdiv ch 2) (lit 25 2)) ''0.05'' crtyd_layer @
         fp_rect (uid rnd (k + 4)) (fdiv cw 2) (fdiv ch 2) ''0.1'' fab_layer @
         pad_entries rnd (k + 5) layer (get_pad_info fp ref) @
         [''  )''])\<close>

definition generate_footprint :: "random \<Rightarrow> nat \<Rightarrow> component \<Rightarrow> rat \<Rightarrow> rat \<Rightarrow> int \<Rightarrow> string \<Rightarrow> string \<times> nat" where
  "generate_footprint rnd k c x y rotation layer =
     (py_join [nl] (footprint_lines rnd k c x y rotation layer),
      k + 5 + length (get_pad_info (footprint c) (reference c)))"

end
