(* ===== verification/Placement.thy ===== *)
theory Placement
  imports Footprints "HOL-Library.AList"
begin

text \<open>
  Component placement: \<open>hardware/cirradio-devboard/gen_pcb_placement.py\<close>. Zones place parts row by
  row; the plan assigns every component of the schematics a position; \<open>main\<close> rewrites the
  footprints of the board file. A dictionary whose order matters is an association list. Reading
  and writing files is outside the model: the schematics are a map from names to texts and the
  board file is an argument.
\<close>

section \<open>Parsing the schematics\<close>

text \<open>The parser of the netlist script, without the nets.\<close>

definition place_symbol :: "string \<Rightarrow> string \<times> string \<times> (nat \<times> string) list \<Rightarrow> component list \<Rightarrow> component list" where
  "place_symbol body m comps =
     (let lib = (case rx_group 1 m of None \<Rightarrow> [] | Some x \<Rightarrow> x);
          rest = drop (length (fst m)) body;
          block = (case take_block 0 rest of Some blk \<Rightarrow> blk | None \<Rightarrow> rest);
          ref = property_of ''Reference'' (rx_plus quote_free) block;
          val = property_of ''Value'' (rx_plus quote_free) block;
          fp = property_of ''Footprint'' (Rep quote_free) block
      in if prefix ''power:'' lib then comps
         else if prefix ''#'' ref then comps
         else comps @ [\<lparr>reference = ref, comp_value = val, footprint = fp, lib_id = lib\<rparr>])"

definition place_schematic :: "string \<Rightarrow> component list" where
  "place_schematic content =
     (let body = schematic_body content in fold (place_symbol body) (rx_finditer sym_rx [] body) [])"

section \<open>Zones\<close>

record zone =
  zone_name :: string
  x_min :: rat
  y_min :: rat
  x_max :: rat
  y_max :: rat
  cursor_x :: rat
  cursor_y :: rat
  row_height :: rat

definition new_zone :: "string \<Rightarrow> int \<Rightarrow> int \<Rightarrow> int \<Rightarrow> int \<Rightarrow> zone" where
  "new_zone name x1 y1 x2 y2 =
     \<lparr>zone_name = name, x_min = of_int x1, y_min = of_int y1, x_max = of_int x2, y_max = of_int y2,
      cursor_x = fadd (of_int x1) 1, cursor_y = fadd (of_int y1) 1, row_height = 0\<rparr>"

text \<open>A position: \<open>(x, y, rotation, layer)\<close>.\<close>

type_synonym position = "rat \<times> rat \<times> int \<times> string"

definition margin :: rat where
  "margin = lit 5 1"

definition wrap_row :: "zone \<Rightarrow> rat \<Rightarrow> zone" where
  "wrap_row z needed_w =
     (if x_max z < fadd (cursor_x z) needed_w
      then z\<lparr>cursor_x := fadd (x_min z) 1, cursor_y := fadd (cursor_y z) (fadd (row_height z) margin), row_height := 0\<rparr>
      else z)"

definition place :: "zone \<Rightarrow> string \<Rightarrow> string \<Rightarrow> rat \<Rightarrow> rat \<Rightarrow> position option \<times> zone" where
  "place z0 ref fp_name w h =
     (let needed_w = fadd w margin; needed_h = fadd h margin; z = wrap_row z0 needed_w
      in if y_max z < fadd (cursor_y z) needed_h then (None, z)
         else (Some (fadd (cursor_x z) (fdiv w 2), fadd (cursor_y z) (fdiv h 2), 0, ''F.Cu''),
               z\<lparr>cursor_x := fadd (cursor_x z) needed_w, row_height := max (row_height z) needed_h\<rparr>))"

section \<open>The placement plan\<close>

text \<open>\<open>ref[0] in ("R", "C", "L") and ref[1:].isdigit()\<close>; an empty reference raises.\<close>

definition is_passive :: "component \<Rightarrow> bool res" where
  "is_passive c = (case reference c of [] \<Rightarrow> Inl IndexError
     | r # rest \<Rightarrow> Inr ((r = CHR ''R'' \<or> r = CHR ''C'' \<or> r = CHR ''L'') \<and> py_isdigit rest))"

type_synonym placements = "(string \<times> position) list"

text \<open>
  Measuring a part and placing it in a zone. The position is recorded on layer \<open>B.Cu\<close> when
  \<open>back\<close> is set; a part for which there is no room is left out.
\<close>

definition place_comp :: "bool \<Rightarrow> component \<Rightarrow> placements \<times> zone \<Rightarrow> placements \<times> zone" where
  "place_comp back c st =
     (let (pl, z) = st; (w, h) = estimate_footprint_size (footprint c);
          (result, z') = place z (reference c) (footprint c) w h
      in (case result of None \<Rightarrow> pl
          | Some (x, y, rot, layer) \<Rightarrow> AList.update (reference c) (x, y, rot, if back then ''B.Cu'' else layer) pl, z'))"

definition fixed :: "string \<Rightarrow> rat \<Rightarrow> rat \<Rightarrow> int \<Rightarrow> placements \<Rightarrow> placements" where
  "fixed ref x y rot pl = AList.update ref (x, y, rot, ''F.Cu'') pl"

text \<open>Zynq: decoupling capacitors go below it, as long as the zone's current row leaves room.\<close>

definition zynq_step :: "component \<Rightarrow> placements \<times> zone \<Rightarrow> (placements \<times> zone) res" where
  "zynq_step c st =
     (let (pl, z) = st in
      if reference c = ''U1'' then Inr (fixed (reference c) 80 50 0 pl, z)
      else rbind (is_passive c) (\<lambda>passive.
        if passive then
          (if fadd (cursor_y z) (snd (estimate_footprint_size (footprint c))) < 78
           then Inr (place_comp True c st) else Inr st)
        else Inr (place_comp False c st)))"

definition ddr_step :: "component \<Rightarrow> placements \<times> zone \<Rightarrow> (placements \<times> zone) res" where
  "ddr_step c st =
     (let (pl, z) = st in
      if reference c = ''U2'' then Inr (fixed (reference c) 112 35 0 pl, z)
      else if reference c = ''U3'' then Inr (fixed (reference c) 128 35 0 pl, z)
      else rbind (is_passive c) (\<lambda>passive. Inr (place_comp passive c st)))"

definition ad_step :: "component \<Rightarrow> placements \<times> zone \<Rightarrow> placements \<times> zone" where
  "ad_step c st =
     (let (pl, z) = st in
      if reference c = ''U9'' then (fixed (reference c) 80 16 0 pl, z)
      else if reference c \<in> {''Y1'', ''Y2''}
      then (fixed (reference c) 92 (if reference c = ''Y1'' then 10 else 22) 0 pl, z)
      else place_comp False c st)"

definition rf_ic_positions :: "string \<rightharpoonup> rat \<times> rat \<times> int" where
  "rf_ic_positions = map_of
     [(''U16'', 15, 10, 0), (''U17'', 30, 10, 0), (''FL1'', 42, 10, 0), (''U18'', 30, 25, 0),
      (''U19'', 15, 25, 0), (''J1'', 5, 18, 0)]"

definition rf_step :: "component \<Rightarrow> placements \<times> zone \<Rightarrow> placements \<times> zone" where
  "rf_step c st =
     (let (pl, z) = st in
      case rf_ic_positions (reference c) of
        Some (x, y, rot) \<Rightarrow> (fixed (reference c) x y rot pl, z)
      | None \<Rightarrow>
          if contains ''BPF'' (comp_value c) \<or> contains ''Harmonic'' (comp_value c)
          then (if map_of pl (reference c) = None then place_comp False c st else st)
          else place_comp False c st)"

definition power_ic_positions :: "string \<rightharpoonup> rat \<times> rat \<times> int" where
  "power_ic_positions = map_of
     [(''U4'', 10, 72, 0), (''U5'', 10, 82, 0), (''U6'', 28, 68, 0), (''U7'', 28, 76, 0),
      (''U8'', 28, 84, 0), (''U20'', 44, 68, 0), (''U21'', 44, 78, 0), (''U22'', 44, 88, 0)]"

definition power_step :: "component \<Rightarrow> placements \<times> zone \<Rightarrow> placements \<times> zone" where
  "power_step c st =
     (let (pl, z) = st in
      if map_of pl (reference c) \<noteq> None then st
      else case power_ic_positions (reference c) of
        Some (x, y, rot) \<Rightarrow> (fixed (reference c) x y rot pl, z)
      | None \<Rightarrow>
          if reference c = ''J2'' then (fixed (reference c) 8 94 0 pl, z)
          else place_comp False c st)"

definition periph_ic_positions :: "string \<rightharpoonup> rat \<times> rat \<times> int" where
  "periph_ic_positions = map_of
     [(''U10'', 148, 10, 0), (''U11'', 138, 22, 0), (''U12'', 110, 80, 0), (''U13'', 130, 80, 0),
      (''U14'', 110, 90, 0), (''U15'', 148, 80, 0), (''U23'', 130, 90, 0), (''Y3'', 140, 86, 0)]"

text \<open>Peripherals: their own zone first, the zone of the connectors when that is full.\<close>

definition periph_step :: "component \<Rightarrow> placements \<times> zone \<times> zone \<Rightarrow> placements \<times> zone \<times> zone" where
  "periph_step c st =
     (let (pl, zp, zc) = st in
      if map_of pl (reference c) \<noteq> None then st
      else case periph_ic_positions (reference c) of
        Some (x, y, rot) \<Rightarrow> (fixed (reference c) x y rot pl, zp, zc)
      | None \<Rightarrow>
          if prefix ''J'' (reference c) \<and> contains ''U.FL'' (footprint c)
          then (fixed (reference c) 155 10 0 pl, zp, zc)
          else
            (let (w, h) = estimate_footprint_size (footprint c);
                 (result, zp') = place zp (reference c) (footprint c) w h
             in case result of
                  Some pos \<Rightarrow> (AList.update (reference c) pos pl, zp', zc)
                | None \<Rightarrow> (let (pl', zc') = place_comp False c (pl, zc) in (pl', zp', zc'))))"

definition conn_positions :: "string \<rightharpoonup> rat \<times> rat \<times> int" where
  "conn_positions = map_of
     [(''J3'', 156, 40, 90), (''J4'', 150, 94, 0), (''J5'', 120, 96, 0), (''J6'', 108, 96, 0),
      (''J7'', 135, 70, 0), (''J8'', 115, 70, 0), (''J9'', 125, 96, 0)]"

text \<open>\<open>re.search(r"\d+", ref)\<close>, and the number it selects\<close>

definition ref_number :: "string \<Rightarrow> int option" where
  "ref_number ref = map_option dec_val (rx_search1 (Grp 1 (rx_plus is_dig)) ref)"

text \<open>Test points, LEDs and switches stand in rows, by the number in their reference.\<close>

definition numbered :: "component \<Rightarrow> rat \<Rightarrow> rat \<Rightarrow> rat \<Rightarrow> placements \<Rightarrow> placements" where
  "numbered c x0 pitch y pl =
     (case ref_number (reference c) of None \<Rightarrow> pl
      | Some n \<Rightarrow> fixed (reference c) (fadd x0 (fmul (fl (of_int n)) pitch)) y 0 pl)"

definition conn_step :: "component \<Rightarrow> placements \<times> zone \<Rightarrow> placements \<times> zone" where
  "conn_step c st =
     (let (pl, z) = st in
      if map_of pl (reference c) \<noteq> None then st
      else case conn_positions (reference c) of
        Some (x, y, rot) \<Rightarrow> (fixed (reference c) x y rot pl, z)
      | None \<Rightarrow>
          if prefix ''TP'' (reference c) then (numbered c 62 4 96 pl, z)
          else if prefix ''LED'' (reference c) then (numbered c 102 3 60 pl, z)
          else if prefix ''SW'' (reference c) then (numbered c 102 8 56 pl, z)
          else place_comp False c st)"

text \<open>The sections of \<open>build_placement_plan\<close>, in order; \<open>comps\<close> gives the components of a zone.\<close>

definition build_placement_plan :: "(string \<Rightarrow> component list) \<Rightarrow> placements res" where
  "build_placement_plan comps =
     (let zone_rf = new_zone ''RF Passives'' 2 2 58 38;
          zone_ad = new_zone ''AD9361 Passives'' 62 2 98 30;
          zone_zynq = new_zone ''Zynq Passives'' 42 34 98 78;
          zone_ddr = new_zone ''DDR3L Passives'' 102 27 138 53;
          zone_power = new_zone ''Power Passives'' 2 62 58 98;
          zone_conn = new_zone ''Conn Passives'' 102 62 158 98;
          periph_passive_zone = new_zone ''Periph Passives'' 102 62 158 68
      in rbind (rfold zynq_step (comps ''zynq'') ([], zone_zynq)) (\<lambda>(p1, _).
         rbind (rfold ddr_step (comps ''ddr3l'') (p1, zone_ddr)) (\<lambda>(p2, _).
           let (p3, _) = fold ad_step (comps ''ad9361'') (p2, zone_ad);
               (p4, _) = fold rf_step (comps ''rf'') (p3, zone_rf);
               (p5, _) = fold power_step (comps ''power'') (p4, zone_power);
               (p6, _, zc) = fold periph_step (comps ''peripherals'') (p5, periph_passive_zone, zone_conn);
               (p7, _) = fold conn_step (comps ''connectors'') (p6, zc)
           in Inr p7)))"

section \<open>Reading the components\<close>

definition schematic_zones :: "(string \<times> string) list" where
  "schematic_zones =
     [(''power.kicad_sch'', ''power''), (''zynq.kicad_sch'', ''zynq''), (''ddr3l.kicad_sch'', ''ddr3l''),
      (''ad9361.kicad_sch'', ''ad9361''), (''rf-frontend.kicad_sch'', ''rf''),
      (''peripherals.kicad_sch'', ''peripherals''), (''connectors.kicad_sch'', ''connectors'')]"

text \<open>
  \<open>all_components\<close> in the order of insertion and \<open>components_by_zone\<close>: the first component
  with a reference counts.
\<close>

definition add_component :: "string \<Rightarrow> component \<Rightarrow> component list \<times> (string \<Rightarrow> component list) \<Rightarrow>
    component list \<times> (string \<Rightarrow> component list)" where
  "add_component zone c st =
     (let (all, by_zone) = st
      in if reference c \<in> set (map reference all) then st
         else (all @ [c], by_zone(zone := by_zone zone @ [c])))"

definition read_components :: "(string \<rightharpoonup> string) \<Rightarrow> component list \<times> (string \<Rightarrow> component list)" where
  "read_components files =
     fold (\<lambda>(sch_file, zone) st. case files sch_file of None \<Rightarrow> st
           | Some content \<Rightarrow> fold (add_component zone) (place_schematic content) st)
       schematic_zones ([], \<lambda>_. [])"

text \<open>What the plan left out goes to an overflow zone, and to one fixed place when that is full.\<close>

definition overflow_step :: "component \<Rightarrow> placements \<times> zone \<Rightarrow> placements \<times> zone" where
  "overflow_step c st =
     (let (pl, z) = st in
      if map_of pl (reference c) \<noteq> None then st
      else (let (w, h) = estimate_footprint_size (footprint c);
                (result, z') = place z (reference c) (footprint c) w h
            in case result of Some pos \<Rightarrow> (AList.update (reference c) pos pl, z')
               | None \<Rightarrow> (fixed (reference c) 5 50 0 pl, z')))"

definition all_placements :: "component list \<Rightarrow> (string \<Rightarrow> component list) \<Rightarrow> placements res" where
  "all_placements all by_zone =
     rbind (build_placement_plan by_zone) (\<lambda>pl.
       Inr (fst (fold overflow_step all (pl, new_zone ''Overflow'' 2 42 40 60))))"

section \<open>Stripping the board file\<close>

definition paren_count :: "string \<Rightarrow> int" where
  "paren_count s = int (count_list s (CHR ''('')) - int (count_list s (CHR '')''))"

text \<open>The loop over the lines: the lines outside footprints, and the texts of the mounting holes.\<close>

record strip_state =
  in_footprint :: bool
  fp_depth :: int
  fp_buf :: "string list"
  mounting_hole_fps :: "string list"
  output_lines :: "string list"

definition strip_step :: "string \<Rightarrow> strip_state \<Rightarrow> strip_state" where
  "strip_step line st =
     (if prefix ''(footprint '' (py_strip line) \<and> \<not> in_footprint st
      then st\<lparr>in_footprint := True, fp_buf := [line], fp_depth := paren_count line\<rparr>
      else if in_footprint st then
        (let buf = fp_buf st @ [line]; d = fp_depth st + paren_count line
         in if d \<le> 0 then
              (let fp_text = py_join [nl] buf
               in st\<lparr>in_footprint := False, fp_buf := [], fp_depth := d,
                     mounting_hole_fps := (if contains ''MountingHole'' fp_text
                       then mounting_hole_fps st @ [fp_text] else mounting_hole_fps st)\<rparr>)
            else st\<lparr>fp_buf := buf, fp_depth := d\<rparr>)
      else st\<lparr>output_lines := output_lines st @ [line]\<rparr>)"

definition strip_start :: strip_state where
  "strip_start = \<lparr>in_footprint = False, fp_depth = 0, fp_buf = [], mounting_hole_fps = [], output_lines = []\<rparr>"

text \<open>The trailing blank lines and the closing parenthesis, from the end.\<close>

fun drop_tail :: "string list \<Rightarrow> string list" where
  "drop_tail [] = []"
| "drop_tail (l # ls) =
     (if py_strip l = [] then drop_tail ls else if py_strip l = '')'' then ls else l # ls)"

section \<open>Writing the board file\<close>

definition zone_label :: "rat \<Rightarrow> rat \<Rightarrow> string" where
  "zone_label x y =
     (if x < 60 \<and> y < 40 then ''RF Front-End''
      else if 60 \<le> x \<and> x < 100 \<and> y < 32 then ''AD9361''
      else if 40 \<le> x \<and> x < 100 \<and> 32 \<le> y \<and> y < 80 then ''Zynq''
      else if 100 \<le> x \<and> y < 62 then ''DDR3L / Peripherals-Top''
      else if x < 60 \<and> 60 \<le> y then ''Power''
      else if 140 \<le> x \<and> y < 30 then ''GPS''
      else ''Connectors / Peripherals'')"

definition zone_order :: "string list" where
  "zone_order = [''RF Front-End'', ''AD9361'', ''Zynq'', ''DDR3L / Peripherals-Top'', ''Power'', ''GPS'',
     ''Connectors / Peripherals'']"

text \<open>\<open>zone_assignments\<close>, for one label\<close>

definition zone_refs :: "placements \<Rightarrow> string \<Rightarrow> string list" where
  "zone_refs pl z = filter (\<lambda>ref. case map_of pl ref of None \<Rightarrow> False | Some (x, y, _) \<Rightarrow> zone_label x y = z)
     (sort (map fst pl))"

fun emit_footprints :: "random \<Rightarrow> nat \<Rightarrow> component list \<Rightarrow> placements \<Rightarrow> string list \<Rightarrow> (string list \<times> nat) res" where
  "emit_footprints rnd k all pl [] = Inr ([], k)"
| "emit_footprints rnd k all pl (ref # refs) =
     (case (find (\<lambda>c. reference c = ref) all, map_of pl ref) of
        (Some c, Some (x, y, rot, layer)) \<Rightarrow>
          (let (fp_text, k') = generate_footprint rnd k c x y rot layer
           in rbind (emit_footprints rnd k' all pl refs) (\<lambda>(ls, k''). Inr (fp_text # ls, k'')))
      | _ \<Rightarrow> Inl KeyError)"

fun emit_zones :: "random \<Rightarrow> nat \<Rightarrow> component list \<Rightarrow> placements \<Rightarrow> string list \<Rightarrow> (string list \<times> nat) res" where
  "emit_zones rnd k all pl [] = Inr ([], k)"
| "emit_zones rnd k all pl (z # zs) =
     (let refs = zone_refs pl z
      in if refs = [] then emit_zones rnd k all pl zs
         else rbind (emit_footprints rnd k all pl (sort refs)) (\<lambda>(fps, k').
              rbind (emit_zones rnd k' all pl zs) (\<lambda>(ls, k'').
                Inr ([''  ;; --- '' @ z @ '' ('' @ int_str (int (length refs)) @ '' components) ---''] @
                     fps @ [[]] @ ls, k''))))"

definition placement_main :: "random \<Rightarrow> nat \<Rightarrow> (string \<rightharpoonup> string) \<Rightarrow> string \<Rightarrow> string res" where
  "placement_main rnd k files pcb_content =
     (let (all, by_zone) = read_components files
      in rbind (all_placements all by_zone) (\<lambda>pl.
         let st = fold strip_step (py_split nl pcb_content) strip_start;
             out = rev (drop_tail (rev (output_lines st)))
         in rbind (emit_zones rnd k all pl zone_order) (\<lambda>(zone_lines, k').
            Inr (py_join [nl] (out @ [[], ''  ;; ===== MOUNTING HOLES =====''] @ mounting_hole_fps st @
              [[], ''  ;; ===== COMPONENT PLACEMENT ====='', ''  ;; Generated by gen_pcb_placement.py'',
               ''  ;; '' @ int_str (int (length pl)) @ '' components placed'', []] @
              zone_lines @ ['')'', []])))))"

end
