(* ===== verification/PlacementCheck.thy ===== *)
theory PlacementCheck
  imports Placement
begin

text \<open>
  The placement script: its parser agrees with that of the netlist script; every component of the
  schematics gets exactly one position; the parts of a zone lie inside it and do not overlap, in
  the floating-point arithmetic of the script.
\<close>

section \<open>The parser\<close>

lemma place_symbol_fst: "place_symbol body m comps = fst (parse_symbol body m (comps, nets))"
  by (simp add: place_symbol_def parse_symbol_def Let_def)

text \<open>The parser of the placement script collects the components of the netlist script's parser.\<close>

lemma place_schematic_fst: "place_schematic content = fst (parse_schematic content)"
proof -
  have "fold (place_symbol body) ms comps = fst (fold (parse_symbol body) ms (comps, nets))" for body ms comps nets
  proof (induction ms arbitrary: comps nets)
    case (Cons m ms)
    obtain c n where "parse_symbol body m (comps, nets) = (c, n)" by fastforce
    then show ?case using Cons place_symbol_fst [of body m comps nets] by simp
  qed simp
  then show ?thesis by (simp add: place_schematic_def parse_schematic_def Let_def split_beta)
qed

text \<open>
  C20: the copy of the schematic parser in the placement script agrees with the original in the
  netlist script on the components of every text.
\<close>

theorem parsers_agree: "place_schematic content = fst (parse_schematic content)"
  by (rule place_schematic_fst)

section \<open>Every component gets one position\<close>

definition layer_ok_pos :: "position \<Rightarrow> bool" where
  "layer_ok_pos p \<longleftrightarrow> snd (snd (snd p)) \<in> {''F.Cu'', ''B.Cu''}"

definition layers_ok :: "placements \<Rightarrow> bool" where
  "layers_ok pl \<longleftrightarrow> list_all (layer_ok_pos \<circ> snd) pl"

text \<open>
  A step adds at most the reference of its component, keeps the keys distinct and puts parts on
  one of the two outer layers.
\<close>

definition grows :: "placements \<Rightarrow> component \<Rightarrow> placements \<Rightarrow> bool" where
  "grows pl c pl' \<longleftrightarrow> set (map fst pl) \<subseteq> set (map fst pl') \<and>
     set (map fst pl') \<subseteq> insert (reference c) (set (map fst pl)) \<and>
     (distinct (map fst pl) \<longrightarrow> distinct (map fst pl')) \<and>
     (layers_ok pl \<longrightarrow> layers_ok pl')"

lemma update_keys: "set (map fst (AList.update k v al)) = insert k (set (map fst al))"
  by (induction al) auto

lemma update_values: "P v \<Longrightarrow> list_all (P \<circ> snd) al \<Longrightarrow> list_all (P \<circ> snd) (AList.update k v al)"
  by (induction al) auto

lemma grows_refl [simp]: "grows pl c pl"
  by (auto simp: grows_def)

lemma grows_update [simp]: "layer_ok_pos pos \<Longrightarrow> grows pl c (AList.update (reference c) pos pl)"
  unfolding grows_def layers_ok_def using update_values [of layer_ok_pos pos pl] by (auto simp: update_keys simp del: set_map intro: distinct_update)

lemma grows_fixed [simp]: "r = reference c \<Longrightarrow> grows pl c (fixed r x y rot pl)"
  by (simp add: fixed_def layer_ok_pos_def)

lemma place_layer: "place z r f w h = (Some (x, y, rot, l), z') \<Longrightarrow> l = ''F.Cu''"
  by (auto simp: place_def Let_def split: if_splits)

lemma grows_place_comp [simp]: "grows pl c (fst (place_comp back c (pl, z)))"
  by (auto simp: place_comp_def Let_def layer_ok_pos_def dest: place_layer split: prod.splits option.splits)

lemma grows_place_comp_eq: "place_comp back c (pl, z) = (pl', z') \<Longrightarrow> grows pl c pl'"
  using grows_place_comp [of pl c "back" z] by simp

lemma grows_numbered [simp]: "grows pl c (numbered c x0 pitch y pl)"
  by (simp add: numbered_def split: option.splits)

lemma grows_step_res:
  "zynq_step c (pl, z) = Inr (pl', z') \<Longrightarrow> grows pl c pl'"
  "ddr_step c (pl, z) = Inr (pl', z') \<Longrightarrow> grows pl c pl'"
  by (auto simp: zynq_step_def ddr_step_def rbind_Inr_iff Let_def dest: grows_place_comp_eq sym split: if_splits)

lemma place_pos: "place z r f w h = (Some pos, z') \<Longrightarrow> layer_ok_pos pos"
  using place_layer [of z r f w h "fst pos" "fst (snd pos)" "fst (snd (snd pos))" "snd (snd (snd pos))" z']
  by (simp add: layer_ok_pos_def)

lemma grows_step:
  "grows pl c (fst (ad_step c (pl, z)))" "grows pl c (fst (rf_step c (pl, z)))"
  "grows pl c (fst (power_step c (pl, z)))" "grows pl c (fst (conn_step c (pl, z)))"
  "grows pl c (fst (periph_step c (pl, z, zc)))" "grows pl c (fst (overflow_step c (pl, z)))"
  by (auto simp: ad_step_def rf_step_def power_step_def conn_step_def overflow_step_def periph_step_def Let_def
      dest: grows_place_comp_eq place_pos split: prod.splits option.splits)


text \<open>A pass over the components of a zone, by a step that may raise.\<close>

locale pass =
  fixes step :: "component \<Rightarrow> placements \<times> 'z \<Rightarrow> (placements \<times> 'z) res"
  assumes step_grows: "step c (pl, z) = Inr (pl', z') \<Longrightarrow> grows pl c pl'"
begin

lemma pass_keys:
  "rfold step cs (pl, z) = Inr (pl', z') \<Longrightarrow>
     set (map fst pl) \<subseteq> set (map fst pl') \<and> set (map fst pl') \<subseteq> set (map fst pl) \<union> reference ` set cs \<and>
     (distinct (map fst pl) \<longrightarrow> distinct (map fst pl')) \<and>
     (layers_ok pl \<longrightarrow> layers_ok pl')"
proof (induction cs arbitrary: pl z)
  case (Cons c cs)
  then obtain pl1 z1 where st: "step c (pl, z) = Inr (pl1, z1)" "rfold step cs (pl1, z1) = Inr (pl', z')"
    by (auto simp: rbind_Inr_iff)
  have g: "grows pl c pl1" using step_grows [OF st(1)] .
  show ?case using Cons.IH [OF st(2)] g unfolding grows_def list.simps set_simps by blast
qed auto

text \<open>When the step always puts its own component somewhere, the pass leaves none out.\<close>

lemma pass_all:
  assumes "\<And>c pl z pl' z'. step c (pl, z) = Inr (pl', z') \<Longrightarrow> reference c \<in> set (map fst pl')"
  shows "rfold step cs (pl, z) = Inr (pl', z') \<Longrightarrow> reference ` set cs \<subseteq> set (map fst pl')"
proof (induction cs arbitrary: pl z)
  case (Cons c cs)
  then obtain pl1 z1 where st: "step c (pl, z) = Inr (pl1, z1)" "rfold step cs (pl1, z1) = Inr (pl', z')"
    by (auto simp: rbind_Inr_iff)
  show ?case using Cons.IH [OF st(2)] assms [OF st(1)] pass_keys [OF st(2)] by (auto simp del: set_map)
qed simp

end

lemma rfold_pure: "fold f cs st = st' \<Longrightarrow> rfold (\<lambda>c st. Inr (f c st)) cs st = Inr st'"
  by (induction cs arbitrary: st) simp_all

interpretation zynq_pass: pass zynq_step
  by unfold_locales (rule grows_step_res)

interpretation ddr_pass: pass ddr_step
  by unfold_locales (rule grows_step_res)

lemma pass_pure: "(\<And>c pl z. grows pl c (fst (f c (pl, z)))) \<Longrightarrow> pass (\<lambda>c st. Inr (f c st))"
  by unfold_locales (metis fst_conv sum.inject(2))

interpretation ad_pass: pass "\<lambda>c st. Inr (ad_step c st)"
  by (rule pass_pure) (rule grows_step)

interpretation rf_pass: pass "\<lambda>c st. Inr (rf_step c st)"
  by (rule pass_pure) (rule grows_step)

interpretation power_pass: pass "\<lambda>c st. Inr (power_step c st)"
  by (rule pass_pure) (rule grows_step)

interpretation periph_pass: pass "\<lambda>c st. Inr (periph_step c st)"
  by (rule pass_pure) (metis grows_step(5) surj_pair)

interpretation conn_pass: pass "\<lambda>c st. Inr (conn_step c st)"
  by (rule pass_pure) (rule grows_step)

interpretation overflow_pass: pass "\<lambda>c st. Inr (overflow_step c st)"
  by (rule pass_pure) (rule grows_step)

lemma overflow_all:
  "overflow_step c (pl, z) = (pl', z') \<Longrightarrow> reference c \<in> set (map fst pl')"
  by (auto simp: overflow_step_def Let_def fixed_def update_keys [simplified] map_of_eq_None_iff
      split: if_splits prod.splits option.splits)

lemma passive_Inr: "reference c \<noteq> [] \<Longrightarrow> \<exists>b. is_passive c = Inr b"
  by (cases "reference c") (auto simp: is_passive_def)

lemma passive_Inl: "reference c = [] \<Longrightarrow> is_passive c = Inl IndexError"
  by (simp add: is_passive_def)

lemma zynq_ddr_res:
  "reference c \<noteq> [] \<Longrightarrow> \<exists>st'. zynq_step c st = Inr st'" "reference c \<noteq> [] \<Longrightarrow> \<exists>st'. ddr_step c st = Inr st'"
  "reference c = [] \<Longrightarrow> zynq_step c st = Inl IndexError" "reference c = [] \<Longrightarrow> ddr_step c st = Inl IndexError"
  using passive_Inr [of c] passive_Inl [of c]
  by (auto simp: zynq_step_def ddr_step_def Let_def split: prod.splits)

lemma rfold_total:
  assumes "\<And>c st. P c \<Longrightarrow> \<exists>st'. f c st = Inr st'" "\<And>c st. \<not> P c \<Longrightarrow> f c st = Inl e"
  shows "if \<forall>c \<in> set cs. P c then \<exists>st'. rfold f cs st = Inr st' else rfold f cs st = Inl e"
proof (induction cs arbitrary: st)
  case (Cons c cs)
  show ?case
  proof (cases "P c")
    case True
    then obtain st1 where "f c st = Inr st1" using assms(1) by blast
    then show ?thesis using Cons [of st1] True by auto
  qed (use assms(2) in auto)
qed simp

text \<open>The components read: references are distinct, and every zone holds some of them.\<close>

definition comps_inv :: "component list \<times> (string \<Rightarrow> component list) \<Rightarrow> bool" where
  "comps_inv st \<longleftrightarrow> distinct (map reference (fst st)) \<and> (\<forall>z. set (snd st z) \<subseteq> set (fst st))"

lemma read_components_inv: "comps_inv (read_components files)"
proof -
  have "comps_inv st \<Longrightarrow> comps_inv (add_component z c st)" for c z st
    by (cases st) (fastforce simp: add_component_def comps_inv_def Let_def)
  then have a: "comps_inv st \<Longrightarrow> comps_inv (fold (add_component z) cs st)" for cs z st
    by (induction cs arbitrary: st) auto
  show ?thesis unfolding read_components_def
    by (rule fold_invariant [where Q = "\<lambda>_. True"])
       (auto simp: comps_inv_def [of "([], _)"] a split: option.splits)
qed

text \<open>The passes one after the other.\<close>

lemma all_placements_total:
  assumes "read_components files = (all, by_zone)"
  shows "case all_placements all by_zone of
      Inl e \<Rightarrow> e = IndexError \<and> (\<exists>c \<in> set (by_zone ''zynq'') \<union> set (by_zone ''ddr3l''). reference c = [])
    | Inr pl \<Rightarrow> (\<forall>c \<in> set (by_zone ''zynq'') \<union> set (by_zone ''ddr3l''). reference c \<noteq> []) \<and>
        distinct (map fst pl) \<and> set (map fst pl) = reference ` set all \<and> layers_ok pl"
proof -
  let ?P = "\<lambda>c. reference c \<noteq> []" and ?R = "reference ` set all"
  let ?z0 = "new_zone ''Zynq Passives'' 42 34 98 78" and ?d0 = "new_zone ''DDR3L Passives'' 102 27 138 53"
  have inv: "reference ` set (by_zone z) \<subseteq> ?R" for z
    using read_components_inv [of files] assms unfolding comps_inv_def by auto
  define good where "good = (\<lambda>pl :: placements. set (map fst pl) \<subseteq> ?R \<and> distinct (map fst pl) \<and> layers_ok pl)"
  have g0: "good []" by (simp add: good_def layers_ok_def)
  have step: "good pl'" if "pass f" "rfold f (by_zone z) (pl, zz) = Inr (pl', zz')" "good pl"
    for f :: "component \<Rightarrow> placements \<times> 'z \<Rightarrow> (placements \<times> 'z) res" and z pl zz pl' zz'
    using pass.pass_keys [OF that(1,2)] that(3) inv [of z] unfolding good_def by blast
  consider "\<exists>c \<in> set (by_zone ''zynq''). \<not> ?P c" | "\<forall>c \<in> set (by_zone ''zynq''). ?P c" "\<exists>c \<in> set (by_zone ''ddr3l''). \<not> ?P c"
    | "\<forall>c \<in> set (by_zone ''zynq''). ?P c" "\<forall>c \<in> set (by_zone ''ddr3l''). ?P c" by blast
  then show ?thesis
  proof cases
    case 1
    then have "rfold zynq_step (by_zone ''zynq'') ([], ?z0) = Inl IndexError"
      using rfold_total [of ?P zynq_step IndexError "by_zone ''zynq''" "([], ?z0)", OF zynq_ddr_res(1,3)] by auto
    then show ?thesis using 1 by (auto simp: all_placements_def build_placement_plan_def Let_def)
  next
    case 2
    then obtain p1 z1 where "rfold zynq_step (by_zone ''zynq'') ([], ?z0) = Inr (p1, z1)"
      using rfold_total [of ?P zynq_step IndexError "by_zone ''zynq''" "([], ?z0)", OF zynq_ddr_res(1,3)] by auto
    moreover have "rfold ddr_step (by_zone ''ddr3l'') (p1, ?d0) = Inl IndexError"
      using 2 rfold_total [of ?P ddr_step IndexError "by_zone ''ddr3l''" "(p1, ?d0)", OF zynq_ddr_res(2,4)] by auto
    ultimately show ?thesis using 2 by (auto simp: all_placements_def build_placement_plan_def Let_def)
  next
    case 3
    obtain p1 z1 where p1: "rfold zynq_step (by_zone ''zynq'') ([], ?z0) = Inr (p1, z1)"
      using 3 rfold_total [of ?P zynq_step IndexError "by_zone ''zynq''" "([], ?z0)", OF zynq_ddr_res(1,3)] by auto
    obtain p2 z2 where p2: "rfold ddr_step (by_zone ''ddr3l'') (p1, ?d0) = Inr (p2, z2)"
      using 3 rfold_total [of ?P ddr_step IndexError "by_zone ''ddr3l''" "(p1, ?d0)", OF zynq_ddr_res(2,4)] by auto
    obtain p3 z3 where p3: "fold ad_step (by_zone ''ad9361'') (p2, new_zone ''AD9361 Passives'' 62 2 98 30) = (p3, z3)" by fastforce
    obtain p4 z4 where p4: "fold rf_step (by_zone ''rf'') (p3, new_zone ''RF Passives'' 2 2 58 38) = (p4, z4)" by fastforce
    obtain p5 z5 where p5: "fold power_step (by_zone ''power'') (p4, new_zone ''Power Passives'' 2 62 58 98) = (p5, z5)" by fastforce
    obtain p6 z6 z6' where p6: "fold periph_step (by_zone ''peripherals'') (p5, new_zone ''Periph Passives'' 102 62 158 68,
        new_zone ''Conn Passives'' 102 62 158 98) = (p6, z6, z6')" by (metis surj_pair)
    obtain p7 z7 where p7: "fold conn_step (by_zone ''connectors'') (p6, z6') = (p7, z7)" by fastforce
    obtain pl z8 where pl: "fold overflow_step all (p7, new_zone ''Overflow'' 2 42 40 60) = (pl, z8)" by fastforce
    have r: "all_placements all by_zone = Inr pl"
      by (simp add: all_placements_def build_placement_plan_def Let_def p1 p2 p3 p4 p5 p6 p7 pl)
    have "good p1" by (rule step [OF zynq_pass.pass_axioms p1 g0])
    then have "good p2" by (rule step [OF ddr_pass.pass_axioms p2])
    then have "good p3" by (rule step [OF ad_pass.pass_axioms rfold_pure [OF p3]])
    then have "good p4" by (rule step [OF rf_pass.pass_axioms rfold_pure [OF p4]])
    then have "good p5" by (rule step [OF power_pass.pass_axioms rfold_pure [OF p5]])
    then have "good p6" by (rule step [OF periph_pass.pass_axioms rfold_pure [OF p6]])
    then have g7: "good p7" by (rule step [OF conn_pass.pass_axioms rfold_pure [OF p7]])
    have o: "rfold (\<lambda>c st. Inr (overflow_step c st)) all (p7, new_zone ''Overflow'' 2 42 40 60) = Inr (pl, z8)"
      by (rule rfold_pure [OF pl])
    have "?R \<subseteq> set (map fst pl)"
      by (rule overflow_pass.pass_all [OF _ o]) (use overflow_all in blast)
    with overflow_pass.pass_keys [OF o] g7
    have "distinct (map fst pl)" "set (map fst pl) = ?R" "layers_ok pl" unfolding good_def by blast+
    then show ?thesis using 3 by (auto simp: r)
  qed
qed


definition tiny_files :: "string \<rightharpoonup> string" where
  "tiny_files = [''zynq.kicad_sch'' \<mapsto> tiny_schematic]"

definition tiny_comp :: component where
  "tiny_comp = \<lparr>reference = ''R1'', comp_value = ''10k'', footprint = [], lib_id = ''Device:R''\<rparr>"

lemma tiny_components:
  "read_components tiny_files = ([tiny_comp], (\<lambda>_. [])(''zynq'' := [tiny_comp]))"
  by (simp add: read_components_def schematic_zones_def tiny_files_def place_schematic_fst tiny_schematic_parsed
      add_component_def tiny_comp_def)


section \<open>Packing\<close>

text \<open>The parts that found room, with their positions, when they are put into a region in order.\<close>

fun put_all :: "('z \<Rightarrow> 's \<Rightarrow> 'p option \<times> 'z) \<Rightarrow> 'z \<Rightarrow> 's list \<Rightarrow> ('s \<times> 'p) list" where
  "put_all put z [] = []"
| "put_all put z (s # ss) = (case put z s of (None, z') \<Rightarrow> put_all put z' ss
     | (Some p, z') \<Rightarrow> (s, p) # put_all put z' ss)"

text \<open>
  What a placer promises: a part takes its area out of what was free, and nothing becomes free
  again. Then the parts of any sequence are disjoint.
\<close>

locale packer =
  fixes put :: "'z \<Rightarrow> 's \<Rightarrow> 'p option \<times> 'z"
    and free :: "'z \<Rightarrow> 'a set" and area :: "'s \<Rightarrow> 'p \<Rightarrow> 'a set"
    and inv :: "'z \<Rightarrow> bool" and fits :: "'s \<Rightarrow> bool"
  assumes put_inv: "inv z \<Longrightarrow> fits s \<Longrightarrow> put z s = (r, z') \<Longrightarrow> inv z'"
    and put_free: "inv z \<Longrightarrow> fits s \<Longrightarrow> put z s = (r, z') \<Longrightarrow> free z' \<subseteq> free z"
    and put_area: "inv z \<Longrightarrow> fits s \<Longrightarrow> put z s = (Some p, z') \<Longrightarrow> area s p \<subseteq> free z - free z'"
begin

lemma put_all_inside:
  "inv z \<Longrightarrow> list_all fits ss \<Longrightarrow> (s, p) \<in> set (put_all put z ss) \<Longrightarrow> area s p \<subseteq> free z"
proof (induction ss arbitrary: z)
  case (Cons t ss)
  obtain r z' where r: "put z t = (r, z')" by fastforce
  have i: "inv z'" "free z' \<subseteq> free z" using put_inv [OF _ _ r] put_free [OF _ _ r] Cons.prems by auto
  consider "(s, p) \<in> set (put_all put z' ss)" | "r = Some p" "s = t"
    using Cons.prems(3) r by (auto split: option.splits)
  then show ?case
  proof cases
    case 1
    then show ?thesis using Cons.IH [OF i(1)] Cons.prems(2) i(2) by auto
  next
    case 2
    then show ?thesis using put_area [of z t p z'] Cons.prems r by auto
  qed
qed simp

lemma put_all_disjoint:
  "inv z \<Longrightarrow> list_all fits ss \<Longrightarrow>
     sorted_wrt (\<lambda>(s, p) (t, q). area s p \<inter> area t q = {}) (put_all put z ss)"
proof (induction ss arbitrary: z)
  case (Cons t ss)
  obtain r z' where r: "put z t = (r, z')" by fastforce
  have i: "inv z'" "list_all fits ss" using put_inv [OF _ _ r] Cons.prems by auto
  show ?case
  proof (cases r)
    case None
    then show ?thesis using Cons.IH [OF i] r by simp
  next
    case (Some q)
    have "area t q \<inter> area s p = {}" if "(s, p) \<in> set (put_all put z' ss)" for s p
      using put_all_inside [OF i that] put_area [of z t q z'] Cons.prems r Some by auto
    then show ?thesis using Cons.IH [OF i] r Some by auto
  qed
qed simp

end

section \<open>The zones of the board\<close>

definition put_part :: "zone \<Rightarrow> rat \<times> rat \<Rightarrow> position option \<times> zone" where
  "put_part z = (\<lambda>(w, h). place z [] [] w h)"

definition part_area :: "rat \<times> rat \<Rightarrow> position \<Rightarrow> (rat \<times> rat) set" where
  "part_area = (\<lambda>(w, h) (x, y, rot, layer). {x - w / 2 .. x + w / 2} \<times> {y - h / 2 .. y + h / 2})"

definition zone_free :: "zone \<Rightarrow> (rat \<times> rat) set" where
  "zone_free z = {(px, py). x_min z \<le> px \<and> px \<le> x_max z \<and> y_min z \<le> py \<and> py \<le> y_max z \<and>
     (cursor_y z + row_height z - 1 / 4 \<le> py \<or> cursor_y z - 1 / 4 \<le> py \<and> cursor_x z - 1 / 4 \<le> px)}"

definition zone_inv :: "zone \<Rightarrow> bool" where
  "zone_inv z \<longleftrightarrow> 0 \<le> x_min z \<and> x_min z + 36 \<le> x_max z \<and> x_max z \<le> 160 \<and> 0 \<le> y_min z \<and> y_min z \<le> y_max z \<and>
     y_max z \<le> 100 \<and> fadd (x_min z) 1 = x_min z + 1 \<and> x_min z + 1 \<le> cursor_x z \<and> cursor_x z \<le> 161 \<and>
     y_min z + 1 \<le> cursor_y z \<and> cursor_y z \<le> y_max z + 2 \<and> 0 \<le> row_height z \<and>
     (row_height z = 0 \<and> cursor_x z = x_min z + 1 \<or> cursor_y z + row_height z \<le> y_max z + 1)"

definition part_fits :: "rat \<times> rat \<Rightarrow> bool" where
  "part_fits = (\<lambda>(w, h). 0 < w \<and> w \<le> 31 \<and> 0 < h \<and> h \<le> 51)"

lemma margin_eq: "margin = 1 / 2"
  unfolding margin_def by code_simp

lemma fadd_err: "\<bar>a + b\<bar> \<le> 1024 \<Longrightarrow> \<bar>fadd a b - (a + b)\<bar> \<le> 1 / 2 ^ 43"
  using fl_abs_err [of "a + b" 1024] by (simp add: fadd_def)

lemma fdiv_err: "\<bar>a / b\<bar> \<le> 1024 \<Longrightarrow> \<bar>fdiv a b - a / b\<bar> \<le> 1 / 2 ^ 43"
  using fl_abs_err [of "a / b" 1024] by (simp add: fdiv_def)

text \<open>A wrap ends the row: below it everything is still free.\<close>

lemma wrap_facts:
  assumes inv: "zone_inv z" and fit: "0 < w" "w \<le> 31" and z': "z' = wrap_row z (fadd w margin)"
  shows "zone_inv z'" "zone_free z' \<subseteq> zone_free z" "fadd (cursor_x z') (fadd w margin) \<le> x_max z'"
    "x_min z' = x_min z" "x_max z' = x_max z" "y_min z' = y_min z" "y_max z' = y_max z"
proof -
  define e :: rat where "e = 1 / 2 ^ 43"
  have e: "0 \<le> e" "e \<le> 1 / 1000" by (simp_all add: e_def)
  have nw: "\<bar>fadd w margin - (w + 1 / 2)\<bar> \<le> e"
    using fadd_err [of w margin] fit by (simp add: margin_eq e_def)
  have cx: "\<bar>fadd x (fadd w margin) - (x + fadd w margin)\<bar> \<le> e" if "0 \<le> x" "x \<le> 161" for x
  proof -
    have "\<bar>x + fadd w margin\<bar> \<le> 1024" using fit nw e that by linarith
    then show ?thesis using fadd_err unfolding e_def by blast
  qed
  have fresh: "fadd (x_min z + 1) (fadd w margin) \<le> x_max z"
    using cx [of "x_min z + 1"] nw e fit inv unfolding zone_inv_def by linarith
  have "zone_inv z' \<and> zone_free z' \<subseteq> zone_free z \<and> fadd (cursor_x z') (fadd w margin) \<le> x_max z'"
  proof (cases "x_max z < fadd (cursor_x z) (fadd w margin)")
    case True
    then have "\<not> (row_height z = 0 \<and> cursor_x z = x_min z + 1)" using fresh by auto
    then have rh: "cursor_y z + row_height z \<le> y_max z + 1" using inv unfolding zone_inv_def by blast
    have r1: "\<bar>fadd (row_height z) margin - (row_height z + 1 / 2)\<bar> \<le> e"
      using fadd_err [of "row_height z" margin] rh inv by (simp add: margin_eq e_def zone_inv_def)
    have r2: "\<bar>fadd (cursor_y z) (fadd (row_height z) margin) - (cursor_y z + fadd (row_height z) margin)\<bar> \<le> e"
    proof -
      have "\<bar>cursor_y z + fadd (row_height z) margin\<bar> \<le> 1024"
        using r1 e rh inv unfolding zone_inv_def by linarith
      then show ?thesis using fadd_err unfolding e_def by blast
    qed
    let ?cy = "fadd (cursor_y z) (fadd (row_height z) margin)"
    have cy: "cursor_y z + row_height z + 1 / 4 \<le> ?cy" "?cy \<le> y_max z + 2" using r1 r2 e rh by linarith+
    have z'': "z' = z\<lparr>cursor_x := x_min z + 1, cursor_y := ?cy, row_height := 0\<rparr>"
      using True inv by (simp add: z' wrap_row_def zone_inv_def)
    have "zone_inv z'" using inv cy unfolding z'' zone_inv_def by simp
    moreover have "zone_free z' \<subseteq> zone_free z" using cy unfolding z'' zone_free_def by auto
    ultimately show ?thesis using fresh by (simp add: z'')
  next
    case False
    then have "z' = z" by (simp add: z' wrap_row_def)
    then show ?thesis using False inv by simp
  qed
  then show "zone_inv z'" "zone_free z' \<subseteq> zone_free z" "fadd (cursor_x z') (fadd w margin) \<le> x_max z'" by blast+
  show "x_min z' = x_min z" "x_max z' = x_max z" "y_min z' = y_min z" "y_max z' = y_max z"
    by (simp_all add: z' wrap_row_def)
qed

text \<open>Placing a part in a row that has room for it.\<close>

lemma place_facts:
  assumes inv: "zone_inv z" and fit: "0 < w" "w \<le> 31" "0 < h" "h \<le> 51"
    and room: "fadd (cursor_x z) (fadd w margin) \<le> x_max z" "fadd (cursor_y z) (fadd h margin) \<le> y_max z"
    and z': "z' = z\<lparr>cursor_x := fadd (cursor_x z) (fadd w margin), row_height := max (row_height z) (fadd h margin)\<rparr>"
  shows "zone_inv z'" "zone_free z' \<subseteq> zone_free z"
    "part_area (w, h) (fadd (cursor_x z) (fdiv w 2), fadd (cursor_y z) (fdiv h 2), r, l) \<subseteq> zone_free z - zone_free z'"
proof -
  define e :: rat where "e = 1 / 2 ^ 43"
  have e: "0 \<le> e" "e \<le> 1 / 1000" by (simp_all add: e_def)
  define cx cy where "cx = cursor_x z" and "cy = cursor_y z"
  have b: "0 \<le> cx" "cx \<le> 161" "0 \<le> cy" "cy \<le> 102" "x_min z + 1 \<le> cx" "y_min z + 1 \<le> cy" "0 \<le> row_height z"
    using inv by (simp_all add: zone_inv_def cx_def cy_def)
  have nw: "\<bar>fadd w margin - (w + 1 / 2)\<bar> \<le> e" "\<bar>fadd h margin - (h + 1 / 2)\<bar> \<le> e"
    using fadd_err [of w margin] fadd_err [of h margin] fit by (simp_all add: margin_eq e_def)
  have hw: "\<bar>fdiv w 2 - w / 2\<bar> \<le> e" "\<bar>fdiv h 2 - h / 2\<bar> \<le> e"
    using fdiv_err [of w 2] fdiv_err [of h 2] fit by (simp_all add: e_def)
  have nx: "\<bar>fadd cx (fadd w margin) - (cx + fadd w margin)\<bar> \<le> e"
  proof -
    have "\<bar>cx + fadd w margin\<bar> \<le> 1024" using nw e fit b by linarith
    then show ?thesis using fadd_err unfolding e_def by blast
  qed
  have ny: "\<bar>fadd cy (fadd h margin) - (cy + fadd h margin)\<bar> \<le> e"
  proof -
    have "\<bar>cy + fadd h margin\<bar> \<le> 1024" using nw e fit b by linarith
    then show ?thesis using fadd_err unfolding e_def by blast
  qed
  have px: "\<bar>fadd cx (fdiv w 2) - (cx + fdiv w 2)\<bar> \<le> e"
  proof -
    have "\<bar>cx + fdiv w 2\<bar> \<le> 1024" using hw e fit b by linarith
    then show ?thesis using fadd_err unfolding e_def by blast
  qed
  have py: "\<bar>fadd cy (fdiv h 2) - (cy + fdiv h 2)\<bar> \<le> e"
  proof -
    have "\<bar>cy + fdiv h 2\<bar> \<le> 1024" using hw e fit b by linarith
    then show ?thesis using fadd_err unfolding e_def by blast
  qed
  have x: "cx - 2 * e \<le> fadd cx (fdiv w 2) - w / 2" "fadd cx (fdiv w 2) + w / 2 \<le> cx + w + 2 * e"
    using px hw by linarith+
  have y: "cy - 2 * e \<le> fadd cy (fdiv h 2) - h / 2" "fadd cy (fdiv h 2) + h / 2 \<le> cy + h + 2 * e"
    using py hw by linarith+
  have r1: "cx + w + 1 / 2 - 2 * e \<le> fadd cx (fadd w margin)" "cx + w + 1 / 2 - 2 * e \<le> x_max z"
    using nw nx room(1) unfolding cx_def by linarith+
  have r2: "cy + h + 1 / 2 - 2 * e \<le> y_max z" "fadd h margin \<le> h + 1 / 2 + e" "h + 1 / 2 - e \<le> fadd h margin"
    using nw ny room(2) unfolding cy_def by linarith+
  have z'': "cursor_x z' = fadd cx (fadd w margin)" "cursor_y z' = cy" "row_height z' = max (row_height z) (fadd h margin)"
    "x_min z' = x_min z" "x_max z' = x_max z" "y_min z' = y_min z" "y_max z' = y_max z"
    by (simp_all add: z' cx_def cy_def)
  have old: "row_height z = 0 \<or> cy + row_height z \<le> y_max z + 1" using inv by (auto simp: zone_inv_def cy_def)
  have "cy + max (row_height z) (fadd h margin) \<le> y_max z + 1"
    using old r2 e fit b by (auto simp: max_def)
  moreover have "fadd cx (fadd w margin) \<le> 161" "x_min z + 1 \<le> fadd cx (fadd w margin)"
    using room(1) r1 e fit b inv unfolding cx_def zone_inv_def by linarith+
  ultimately show "zone_inv z'" using inv r2 fit unfolding zone_inv_def z'' cx_def cy_def by auto
  show "zone_free z' \<subseteq> zone_free z"
  proof
    fix q assume "q \<in> zone_free z'"
    moreover have "cx \<le> fadd cx (fadd w margin)" "row_height z \<le> max (row_height z) (fadd h margin)" using r1 e fit by linarith+
    ultimately show "q \<in> zone_free z" unfolding zone_free_def z'' cx_def cy_def by (cases q) auto
  qed
  show "part_area (w, h) (fadd (cursor_x z) (fdiv w 2), fadd (cursor_y z) (fdiv h 2), r, l) \<subseteq> zone_free z - zone_free z'"
  proof
    fix q assume "q \<in> part_area (w, h) (fadd (cursor_x z) (fdiv w 2), fadd (cursor_y z) (fdiv h 2), r, l)"
    then obtain a c where q: "q = (a, c)" "fadd cx (fdiv w 2) - w / 2 \<le> a" "a \<le> fadd cx (fdiv w 2) + w / 2"
      "fadd cy (fdiv h 2) - h / 2 \<le> c" "c \<le> fadd cy (fdiv h 2) + h / 2"
      by (cases q) (auto simp: part_area_def cx_def cy_def)
    have "x_min z \<le> a" "a \<le> x_max z" "y_min z \<le> c" "c \<le> y_max z" "cy - 1 / 4 \<le> c" "cx - 1 / 4 \<le> a"
      using q x y r1 r2 b e by linarith+
    moreover have "\<not> cy + max (row_height z) (fadd h margin) - 1 / 4 \<le> c" "\<not> fadd cx (fadd w margin) - 1 / 4 \<le> a"
      using q x y r1 r2 b e by linarith+
    ultimately show "q \<in> zone_free z - zone_free z'" unfolding zone_free_def z'' q(1) cx_def cy_def by simp
  qed
qed

text \<open>Both outcomes of \<open>place\<close>: no room below, or a place in the row.\<close>

lemma put_part_cases:
  assumes "zone_inv z" "part_fits (w, h)" and put: "put_part z (w, h) = (r, z')"
  shows "zone_inv z' \<and> zone_free z' \<subseteq> zone_free z \<and>
    (\<forall>p. r = Some p \<longrightarrow> part_area (w, h) p \<subseteq> zone_free z - zone_free z')"
proof -
  have fit: "0 < w" "w \<le> 31" "0 < h" "h \<le> 51" using assms(2) by (auto simp: part_fits_def)
  define z1 where "z1 = wrap_row z (fadd w margin)"
  note w = wrap_facts [OF assms(1) fit(1,2) z1_def]
  show ?thesis
  proof (cases "y_max z1 < fadd (cursor_y z1) (fadd h margin)")
    case True
    then have "r = None" "z' = z1" using put by (simp_all add: put_part_def place_def z1_def Let_def)
    then show ?thesis using w(1,2) by simp
  next
    case False
    then have room: "fadd (cursor_y z1) (fadd h margin) \<le> y_max z1" by simp
    note p = place_facts [OF w(1) fit w(3) room]
    have z': "z' = z1\<lparr>cursor_x := fadd (cursor_x z1) (fadd w margin), row_height := max (row_height z1) (fadd h margin)\<rparr>"
      and r: "r = Some (fadd (cursor_x z1) (fdiv w 2), fadd (cursor_y z1) (fdiv h 2), 0, ''F.Cu'')"
      using False put by (auto simp: put_part_def place_def z1_def Let_def)
    show ?thesis using p [OF z'] w(2) r by blast
  qed
qed

text \<open>The same for components, with the size the script estimates.\<close>

definition put_comp :: "zone \<Rightarrow> component \<Rightarrow> position option \<times> zone" where
  "put_comp z c = put_part z (estimate_footprint_size (footprint c))"

definition comp_area :: "component \<Rightarrow> position \<Rightarrow> (rat \<times> rat) set" where
  "comp_area c = part_area (estimate_footprint_size (footprint c))"

lemma lit_sizes: "lit 5 1 = 1/2" "lit 125 2 = 5/4" "lit 25 1 = 5/2" "lit 15 1 = 3/2"
  by code_simp+

lemma lit_sizes_le:
  "0 < lit 16 1 \<and> lit 16 1 \<le> 31" "0 < lit 8 1 \<and> lit 8 1 \<le> 31" "0 < lit 32 1 \<and> lit 32 1 \<le> 31"
  "0 < lit 51 1 \<and> lit 51 1 \<le> 31" "0 < lit 508 1 \<and> lit 508 1 \<le> 51" "0 < lit 89 1 \<and> lit 89 1 \<le> 31"
  by code_simp+

lemma estimate_fits: "part_fits (estimate_footprint_size fp)"
  using lit_sizes_le [unfolded One_nat_def] unfolding estimate_footprint_size_def if_distrib [of part_fits]
  by (simp add: part_fits_def lit_sizes [unfolded One_nat_def] split del: if_split cong: if_cong)

interpretation zone: packer put_comp zone_free comp_area zone_inv "\<lambda>_. True"
proof
  fix z c r z' assume z: "zone_inv z" "put_comp z c = (r, z')"
  obtain w h where s: "estimate_footprint_size (footprint c) = (w, h)" by fastforce
  have "part_fits (w, h)" "put_part z (w, h) = (r, z')"
    using z(2) estimate_fits [of "footprint c"] by (simp_all add: put_comp_def s)
  note put_part_cases [OF z(1) this]
  then show "zone_inv z'" "zone_free z' \<subseteq> zone_free z" by blast+
next
  fix z c p z' assume z: "zone_inv z" "put_comp z c = (Some p, z')"
  obtain w h where s: "estimate_footprint_size (footprint c) = (w, h)" by fastforce
  have "part_fits (w, h)" "put_part z (w, h) = (Some p, z')"
    using z(2) estimate_fits [of "footprint c"] by (simp_all add: put_comp_def s)
  note put_part_cases [OF z(1) this]
  then show "comp_area c p \<subseteq> zone_free z - zone_free z'" by (simp add: comp_area_def s)
qed

text \<open>The loop of the script records what the placer found.\<close>

definition on_side :: "bool \<Rightarrow> position \<Rightarrow> position" where
  "on_side b = (\<lambda>(x, y, rot, layer). (x, y, rot, if b then ''B.Cu'' else layer))"

lemma comp_area_side [simp]: "comp_area c (on_side b p) = comp_area c p"
  by (cases p) (auto simp: comp_area_def part_area_def on_side_def split: prod.splits)

definition record_placed :: "bool \<Rightarrow> component \<times> position \<Rightarrow> placements \<Rightarrow> placements" where
  "record_placed b = (\<lambda>(c, p). AList.update (reference c) (on_side b p))"

lemma place_comp_put: "place_comp b c (pl, z) =
    (case put_comp z c of (None, z') \<Rightarrow> (pl, z') | (Some p, z') \<Rightarrow> (record_placed b (c, p) pl, z'))"
  by (auto simp: place_comp_def put_comp_def put_part_def place_def record_placed_def on_side_def Let_def
      split: prod.splits if_splits)

lemma fold_place_comp:
  "fst (fold (place_comp b) cs (pl, z)) = fold (record_placed b) (put_all put_comp z cs) pl"
  by (induction cs arbitrary: pl z) (auto simp: place_comp_put split: prod.split option.split)

lemma put_all_from: "(s, p) \<in> set (put_all put z ss) \<Longrightarrow> s \<in> set ss"
proof (induction ss arbitrary: z)
  case (Cons t ss)
  obtain r z' where "put z t = (r, z')" by fastforce
  then show ?case using Cons by (cases r) auto
qed simp

lemma map_of_recorded: "map_of (fold (record_placed b) cps pl) r = Some p \<Longrightarrow>
    (\<exists>c q. (c, q) \<in> set cps \<and> r = reference c \<and> p = on_side b q) \<or> map_of pl r = Some p"
proof (induction cps arbitrary: pl)
  case (Cons cp cps)
  obtain c q where cp: "cp = (c, q)" by (cases cp)
  from Cons.prems have "map_of (fold (record_placed b) cps (record_placed b cp pl)) r = Some p" by simp
  from Cons.IH [OF this] consider c' q' where "(c', q') \<in> set cps" "r = reference c'" "p = on_side b q'"
    | "map_of (record_placed b cp pl) r = Some p" by blast
  then show ?case
  proof cases
    case 2
    then show ?thesis by (cases "r = reference c") (auto simp: cp record_placed_def update_conv simp del: split_paired_Ex intro!: exI [of _ c] exI [of _ q])
  qed (metis list.set_intros(2))
qed simp

lemma new_zone_inv:
  assumes "0 \<le> x1" "x1 + 36 \<le> x2" "x2 \<le> 160" "0 \<le> y1" "y1 \<le> y2" "y2 \<le> 100"
  shows "zone_inv (new_zone n x1 y1 x2 y2)"
proof -
  have "fadd (of_int k) 1 = of_int k + (1 :: rat)" if "0 \<le> k" "k \<le> 160" for k
    using fl_of_int [of "k + 1"] that by (simp add: fadd_def)
  moreover have "(of_int x1 :: rat) + 36 \<le> of_int x2" using assms(2) by (simp flip: of_int_le_iff)
  ultimately show ?thesis using assms by (simp add: zone_inv_def new_zone_def)
qed

text \<open>
  What a packed zone is: every part it placed lies within the rectangle, and parts do not overlap.
\<close>

definition zone_packed :: "zone \<Rightarrow> component list \<Rightarrow> placements \<Rightarrow> bool" where
  "zone_packed z cs pl \<longleftrightarrow>
     (\<forall>c \<in> set cs. \<forall>p. map_of pl (reference c) = Some p \<longrightarrow> comp_area c p \<subseteq> {x_min z .. x_max z} \<times> {y_min z .. y_max z}) \<and>
     (\<forall>c \<in> set cs. \<forall>d \<in> set cs. \<forall>p q. c \<noteq> d \<longrightarrow> map_of pl (reference c) = Some p \<longrightarrow> map_of pl (reference d) = Some q \<longrightarrow>
        comp_area c p \<inter> comp_area d q = {})"

lemma sorted_wrt_pairs:
  "sorted_wrt R xs \<Longrightarrow> x \<in> set xs \<Longrightarrow> y \<in> set xs \<Longrightarrow> x \<noteq> y \<Longrightarrow> R x y \<or> R y x"
  by (induction xs) auto

lemma packed_zone:
  assumes inv: "zone_inv z" and d: "inj_on reference (set cs)"
    and run: "fold (place_comp b) cs ([], z) = (pl, z')"
  shows "zone_packed z cs pl"
proof -
  let ?ps = "put_all put_comp z cs"
  have fits: "list_all (\<lambda>_. True) cs" by (simp add: list_all_iff)
  have pl: "pl = fold (record_placed b) ?ps []" using fold_place_comp [of b cs "[]" z] run by simp
  have get: "\<exists>q. (c, q) \<in> set ?ps \<and> p = on_side b q" if c: "c \<in> set cs" "map_of pl (reference c) = Some p" for c p
  proof -
    obtain c' q where q: "(c', q) \<in> set ?ps" "reference c = reference c'" "p = on_side b q"
      using map_of_recorded [of b ?ps "[]" "reference c" p] c(2) by (auto simp: pl)
    then have "c' = c" using d c(1) put_all_from [OF q(1)] by (auto dest: inj_onD)
    then show ?thesis using q by blast
  qed
  have "comp_area c p \<subseteq> {x_min z .. x_max z} \<times> {y_min z .. y_max z}"
    if c: "c \<in> set cs" "map_of pl (reference c) = Some p" for c p
  proof -
    obtain q where q: "(c, q) \<in> set ?ps" "p = on_side b q" using get [of c p] c by blast
    have "comp_area c p \<subseteq> zone_free z" using zone.put_all_inside [OF inv fits q(1)] q(2) by simp
    then show ?thesis by (auto simp: zone_free_def)
  qed
  moreover have "comp_area c p \<inter> comp_area e q = {}"
    if c: "c \<in> set cs" "map_of pl (reference c) = Some p" and e: "e \<in> set cs" "map_of pl (reference e) = Some q"
      and ne: "c \<noteq> e" for c p e q
  proof -
    obtain p' q' where pq: "(c, p') \<in> set ?ps" "p = on_side b p'" "(e, q') \<in> set ?ps" "q = on_side b q'"
      using get [of c p] get [of e q] c e by blast
    then show ?thesis
      using sorted_wrt_pairs [OF zone.put_all_disjoint [OF inv fits] pq(1,3)] ne by auto
  qed
  ultimately show ?thesis unfolding zone_packed_def by blast
qed

text \<open>
  C19: the packing of a zone is sound. Whatever components a section of the plan puts into one of
  its zones, every one that finds room lies inside the zone's rectangle, and no two of them overlap.
  The arithmetic is that of the script's floats, rounding included.
\<close>

theorem zone_packing:
  assumes "0 \<le> x1" "x1 + 36 \<le> x2" "x2 \<le> 160" "0 \<le> y1" "y1 \<le> y2" "y2 \<le> 100"
    and "inj_on reference (set cs)"
    and "fold (place_comp b) cs ([], new_zone n x1 y1 x2 y2) = (pl, z')"
  shows "zone_packed (new_zone n x1 y1 x2 y2) cs pl"
  by (rule packed_zone [OF new_zone_inv assms(7,8)]) (use assms in simp_all)

definition two_parts :: "component list" where
  "two_parts = [\<lparr>reference = ''C1'', comp_value = ''1u'', footprint = ''C_0402'', lib_id = ''Device:C''\<rparr>,
     \<lparr>reference = ''R1'', comp_value = ''1k'', footprint = ''C_0402'', lib_id = ''Device:R''\<rparr>]"

lemma size_0402: "estimate_footprint_size ''C_0402'' = (1, 1/2)"
  by code_simp

lemma two_parts_put:
  "put_part (new_zone ''Z'' 2 2 58 38) (1, 1/2) =
     (Some (7/2, 13/4, 0, ''F.Cu''), new_zone ''Z'' 2 2 58 38\<lparr>cursor_x := 9/2, row_height := 1\<rparr>)"
  "put_part (new_zone ''Z'' 2 2 58 38\<lparr>cursor_x := 9/2, row_height := 1\<rparr>) (1, 1/2) =
     (Some (5, 13/4, 0, ''F.Cu''), new_zone ''Z'' 2 2 58 38\<lparr>cursor_x := 6, row_height := 1\<rparr>)"
  by code_simp+

lemma two_parts_placed:
  "fold (place_comp True) two_parts ([], new_zone ''Z'' 2 2 58 38) =
     ([(''C1'', 7/2, 13/4, 0, ''B.Cu''), (''R1'', 5, 13/4, 0, ''B.Cu'')],
      new_zone ''Z'' 2 2 58 38\<lparr>cursor_x := 6, row_height := 1\<rparr>)"
  by (simp add: two_parts_def place_comp_put put_comp_def size_0402 two_parts_put record_placed_def on_side_def)

theorem zone_packing_witness:
  "zone_packed (new_zone ''Z'' 2 2 58 38) two_parts [(''C1'', 7/2, 13/4, 0, ''B.Cu''), (''R1'', 5, 13/4, 0, ''B.Cu'')]"
  by (rule zone_packing [OF _ _ _ _ _ _ _ two_parts_placed]) (auto simp: two_parts_def inj_on_def)

end
