(* ===== verification/PlacementBoard.thy ===== *)
theory PlacementBoard
  imports RoutingCheck PlacementCheck
begin

text \<open>
  The placement script on board files: a footprint is a section of a board, the emitting loops
  write every placed component once, and the loop that strips the netlist file keeps its
  declarations and its mounting holes.
\<close>

section \<open>Footprints as sections of a board\<close>

definition pad_ok :: "pad \<Rightarrow> bool" where
  "pad_ok p \<longleftrightarrow> name_ok (pad_num p) \<and> name_ok (pad_type p) \<and> name_ok (pad_shape p) \<and> name_ok (pad_layers p)"

lemma name_ok_append: "name_ok (u @ v) \<longleftrightarrow> name_ok u \<and> name_ok v"
  unfolding name_ok_def set_append by blast

lemma name_ok_int [simp]: "name_ok (int_str i)"
proof -
  have "num_chars \<inter> {CHR ''('', CHR '')'', CHR 0x22, nl} = {}" by (simp add: num_chars_def nl_def)
  then show ?thesis using int_str_chars [of i] unfolding name_ok_def by blast
qed

lemma name_ok_Cons: "name_ok (c # s) \<longleftrightarrow> c \<noteq> CHR ''('' \<and> c \<noteq> CHR '')'' \<and> c \<noteq> CHR 0x22 \<and> c \<noteq> nl \<and> name_ok s"
  unfolding name_ok_def list.set by blast

lemma smd_ok: "pad_ok (smd num shape px py sx sy) \<longleftrightarrow> name_ok num \<and> name_ok shape"
  by (simp add: pad_ok_def smd_def name_ok_Cons nl_def)

lemma thru_ok: "pad_ok (thru_hole num shape px py sx sy drill) \<longleftrightarrow> name_ok num \<and> name_ok shape"
  by (simp add: pad_ok_def thru_hole_def name_ok_Cons nl_def)

lemmas pad_lists = pads_chip_0402_def pads_chip_0603_def pads_chip_0805_def pads_chip_1206_def pads_diode_sma_def
  pads_test_point_def pads_barrel_jack_def pads_sma_jack_def pads_cap_radial_def pads_soic8_def pads_wson8_def
  pads_sot23_5_def pads_sot23_def pads_qfn16_def pads_qfn24_def pads_qfn32_def pads_qfn48_def pads_wson8_6x5_def
  pads_vdfn4_def pads_crystal_def pads_usb_a_def pads_usb_micro_def pads_rj45_def pads_ufl_def pads_micro_sd_def
  pads_lcc16_def pads_tga2594_def pads_push_button_def pads_filter_def pads_generic_def

lemma list_all_map_ok: "(\<And>x. pad_ok (f x)) \<Longrightarrow> list_all pad_ok (map f xs)"
  by (simp add: list_all_iff)

lemma list_all_grid_ok: "(\<And>x. list_all pad_ok (f x)) \<Longrightarrow> list_all pad_ok (concat (map f xs))"
  by (auto simp: list_all_iff)

lemma pad_lists_ok:
  "list_all pad_ok pads_chip_0402" "list_all pad_ok pads_chip_0603" "list_all pad_ok pads_chip_0805" "list_all pad_ok pads_chip_1206"
  "list_all pad_ok pads_diode_sma" "list_all pad_ok pads_test_point" "list_all pad_ok pads_barrel_jack" "list_all pad_ok pads_sma_jack"
  "list_all pad_ok pads_cap_radial" "list_all pad_ok pads_soic8" "list_all pad_ok pads_wson8" "list_all pad_ok pads_sot23_5"
  "list_all pad_ok pads_sot23" "list_all pad_ok pads_qfn16" "list_all pad_ok pads_qfn24" "list_all pad_ok pads_qfn32"
  "list_all pad_ok pads_qfn48" "list_all pad_ok pads_wson8_6x5" "list_all pad_ok pads_vdfn4" "list_all pad_ok pads_crystal"
  "list_all pad_ok pads_usb_a" "list_all pad_ok pads_usb_micro" "list_all pad_ok pads_rj45" "list_all pad_ok pads_ufl"
  "list_all pad_ok pads_micro_sd" "list_all pad_ok pads_lcc16" "list_all pad_ok pads_tga2594" "list_all pad_ok pads_push_button"
  "list_all pad_ok pads_filter" "list_all pad_ok pads_generic"
  unfolding pad_lists
  by (simp_all add: list.pred_map o_def list.pred_True smd_ok thru_ok name_ok_Cons nl_def del: upto.simps upto_rec_numeral)

lemma pad_grids_ok:
  "list_all pad_ok pads_dip14" "list_all pad_ok pads_header_2x07" "list_all pad_ok pads_header_2x20" 
  "list_all pad_ok pads_dip_switch" "list_all pad_ok pads_bga900"
  unfolding pads_dip14_def pads_header_2x07_def pads_header_2x20_def pads_dip_switch_def pads_bga900_def
  by (intro list_all_grid_ok; simp add: smd_ok thru_ok name_ok_Cons nl_def Let_def list.pred_map o_def list.pred_True
      del: upto.simps upto_rec_numeral)+

lemma ball_row_ok:
  "list_all (\<lambda>c. name_ok [c]) cols \<Longrightarrow> name_ok s \<Longrightarrow>
     list_all pad_ok (map (\<lambda>(ci, col). smd ([col] @ s) ''circle'' (px ci) py sx sy) (zip xs cols))"
  by (induction xs cols rule: list_induct2') (simp_all add: smd_ok name_ok_Cons nl_def)

lemma pad_balls_ok: "list_all pad_ok pads_bga96" "list_all pad_ok pads_bga144" "list_all pad_ok pads_bga153"
  unfolding pads_bga96_def pads_bga144_def pads_bga153_def Let_def
  by (intro list_all_grid_ok ball_row_ok name_ok_int; simp add: name_ok_Cons nl_def)+

lemma get_pad_info_ok: "list_all pad_ok (get_pad_info fp ref)"
  unfolding get_pad_info_def by (simp only: if_distrib [of "list_all pad_ok"] pad_lists_ok pad_grids_ok pad_balls_ok if_cancel)

lemma layer_replace:
  "py_replace ''Cu'' ''Paste'' ''F.Cu'' = ''F.Paste''" "py_replace ''Cu'' ''Mask'' ''F.Cu'' = ''F.Mask''"
  "py_replace ''Cu'' ''Paste'' ''B.Cu'' = ''B.Paste''" "py_replace ''Cu'' ''Mask'' ''B.Cu'' = ''B.Mask''"
  by code_simp+

lemma pad_entry_plain:
  assumes "pad_ok p" "layer \<in> {''F.Cu'', ''B.Cu''}"
  shows "opens_lines plain (pad_entry (uid rnd k) layer p)"
proof -
  have ok: "open_free (pad_num p)" "open_free (pad_type p)" "open_free (pad_shape p)" "open_free (pad_layers p)"
    using assms(1) by (simp_all add: pad_ok_def)
  from assms(2) show ?thesis
    by (elim insertE emptyE) (simp_all add: pad_entry_def plain_def is_space_def layer_replace ok split: option.split)
qed

lemma pad_entry_neutral:
  assumes "pad_ok p" "layer \<in> {''F.Cu'', ''B.Cu''}"
  shows "neutral_lines (pad_entry (uid rnd k) layer p)"
proof -
  have ok: "neutral (pad_num p)" "neutral (pad_type p)" "neutral (pad_shape p)" "neutral (pad_layers p)"
    using assms(1) by (simp_all add: pad_ok_def neutral_parens_free)
  from assms(2) show ?thesis
    by (elim insertE emptyE)
      (simp_all add: pad_entry_def neutral_lines_def layer_replace scan neutral_scan ok split: option.split)
qed

lemma pad_entries_ok:
  assumes "layer \<in> {''F.Cu'', ''B.Cu''}"
  shows "list_all pad_ok ps \<Longrightarrow> opens_lines plain (pad_entries rnd k layer ps) \<and> neutral_lines (pad_entries rnd k layer ps)"
proof (induction ps arbitrary: k)
  case (Cons p ps)
  then have "pad_ok p" "opens_lines plain (pad_entries rnd (k + 1) layer ps)" "neutral_lines (pad_entries rnd (k + 1) layer ps)" by auto
  with pad_entry_plain [OF this(1) assms] pad_entry_neutral [OF this(1) assms] show ?case by auto
qed simp

lemma rect_ok:
  assumes "name_ok width" "name_ok layer"
  shows "opens_lines plain (fp_rect (uid rnd k) x y width layer) \<and> neutral_lines (fp_rect (uid rnd k) x y width layer)"
  using assms by (simp add: fp_rect_def plain_def is_space_def neutral_lines_def scan neutral_scan neutral_parens_free)

definition comp_clean :: "component \<Rightarrow> bool" where
  "comp_clean c \<longleftrightarrow> name_ok (reference c) \<and> name_ok (comp_value c) \<and> name_ok (footprint c)"

definition lib_name :: "component \<Rightarrow> string" where
  "lib_name c = (if footprint c \<noteq> [] then footprint c else ''cirradio:'' @ reference c)"

definition fp_head :: "random \<Rightarrow> nat \<Rightarrow> component \<Rightarrow> rat \<Rightarrow> rat \<Rightarrow> int \<Rightarrow> string \<Rightarrow> string list" where
  \<open>fp_head rnd k c x y rotation layer =
     [''    (layer "'' @ layer @ ''")'',
      ''    (uuid "'' @ uid rnd k @ ''")'',
      ''    (at '' @ fmt_fixed 2 x @ '' '' @ fmt_fixed 2 y @ (if rotation \<noteq> 0 then '' '' @ int_str rotation else []) @ '')'',
      ''    (property "Reference" "'' @ reference c @ ''" (at 0 -2 0) (layer "'' @
         (if layer = ''B.Cu'' then ''B.SilkS'' else ''F.SilkS'') @ ''") (uuid "'' @ uid rnd (k + 1) @ ''")'',
      ''      (effects (font (size 0.8 0.8) (thickness 0.12)))'',
      ''    )'',
      ''    (property "Value" "'' @ comp_value c @ ''" (at 0 2 0) (layer "'' @
         (if layer = ''B.Cu'' then ''B.Fab'' else ''F.Fab'') @ ''") (uuid "'' @ uid rnd (k + 2) @ ''")'',
      ''      (effects (font (size 0.8 0.8) (thickness 0.12)))'',
      ''    )'']\<close>

lemma fp_head_ok:
  assumes "comp_clean c" "layer \<in> {''F.Cu'', ''B.Cu''}"
  shows "opens_lines plain (fp_head rnd k c x y rotation layer) \<and> neutral_lines (fp_head rnd k c x y rotation layer)"
proof -
  have ok: "open_free (reference c)" "open_free (comp_value c)" "neutral (reference c)" "neutral (comp_value c)"
    using assms(1) by (simp_all add: comp_clean_def neutral_parens_free)
  from assms(2) show ?thesis
    by (elim insertE emptyE) (simp_all add: fp_head_def plain_def is_space_def neutral_lines_def scan neutral_scan ok)
qed

definition fp_body :: "random \<Rightarrow> nat \<Rightarrow> component \<Rightarrow> rat \<Rightarrow> rat \<Rightarrow> int \<Rightarrow> string \<Rightarrow> string list" where
  "fp_body rnd k c x y rotation layer = fp_head rnd k c x y rotation layer @
     (let (cw, ch) = estimate_footprint_size (footprint c)
      in fp_rect (uid rnd (k + 3)) (fadd (fdiv cw 2) (lit 25 2)) (fadd (fdiv ch 2) (lit 25 2)) ''0.05''
           (if layer = ''B.Cu'' then ''B.CrtYd'' else ''F.CrtYd'') @
         fp_rect (uid rnd (k + 4)) (fdiv cw 2) (fdiv ch 2) ''0.1'' (if layer = ''B.Cu'' then ''B.Fab'' else ''F.Fab'') @
         pad_entries rnd (k + 5) layer (get_pad_info (footprint c) (reference c)))"

lemma footprint_split:
  \<open>footprint_lines rnd k c x y rotation layer =
     (''  (footprint '' @ CHR 0x22 # (lib_name c @ [CHR 0x22])) # fp_body rnd k c x y rotation layer @ [''  )'']\<close>
  by (simp add: footprint_lines_def fp_body_def fp_head_def lib_name_def Let_def split: prod.split)

lemma fp_body_ok:
  assumes "comp_clean c" "layer \<in> {''F.Cu'', ''B.Cu''}"
  shows "opens_lines plain (fp_body rnd k c x y rotation layer) \<and> neutral_lines (fp_body rnd k c x y rotation layer)"
proof -
  have l: "name_ok ''B.CrtYd''" "name_ok ''F.CrtYd''" "name_ok ''B.Fab''" "name_ok ''F.Fab''" "name_ok ''0.05''" "name_ok ''0.1''"
    by (simp_all add: name_ok_Cons nl_def)
  note p = pad_entries_ok [OF assms(2) get_pad_info_ok] and h = fp_head_ok [OF assms]
  show ?thesis
    unfolding fp_body_def using p h rect_ok l by (auto simp: Let_def split: prod.split intro!: neutral_lines_append)
qed

lemma lib_name_ok: "comp_clean c \<Longrightarrow> name_ok (lib_name c)"
  by (simp add: comp_clean_def lib_name_def name_ok_Cons nl_def)

text \<open>A component's footprint is one footprint on complete lines.\<close>

lemma footprint_chunk:
  assumes "comp_clean c" "layer \<in> {''F.Cu'', ''B.Cu''}"
  shows "chunk (unl (footprint_lines rnd k c x y rotation layer)) (\<lambda>n. if n = ''footprint'' then 1 else 0)"
  unfolding footprint_split
proof (rule chunk_footprint)
  note b = fp_body_ok [OF assms, of rnd k x y rotation]
  show "opens_lines plain (fp_body rnd k c x y rotation layer @ [''  )''])" using b by simp
  show "\<exists>us u ca. fp_body rnd k c x y rotation layer @ [''  )''] = us @ [u @ [ca]] \<and> \<not> is_space ca"
    by (rule exI [of _ "fp_body rnd k c x y rotation layer"], rule exI [of _ "''  ''"]) (simp add: is_space_def)
  have l: "open_free (lib_name c)" "neutral (lib_name c)" using lib_name_ok [OF assms(1)] by (simp_all add: neutral_parens_free)
  then show "opens plain (lib_name c @ [CHR 0x22])" by simp
  show "neutral_lines ((''  (footprint '' @ CHR 0x22 # (lib_name c @ [CHR 0x22])) # fp_body rnd k c x y rotation layer @ [''  )''])"
    using b l by (simp add: neutral_lines_def scan)
qed

lemma footprint_zoneless:
  assumes "comp_clean c" "layer \<in> {''F.Cu'', ''B.Cu''}"
  shows "zoneless (unl (footprint_lines rnd k c x y rotation layer))"
proof (rule zoneless_lines)
  have "open_free (lib_name c)" using lib_name_ok [OF assms(1)] by simp
  moreover have "opens_lines (refutes ''zone'') (fp_body rnd k c x y rotation layer)"
    using opens_lines_mono [of plain "refutes ''zone''"] fp_body_ok [OF assms] by (simp add: plain_def)
  ultimately show "opens_lines (refutes ''zone'') (footprint_lines rnd k c x y rotation layer)"
    by (simp add: footprint_split)
qed

section \<open>Writing every footprint once\<close>

lemma find_reference:
  "c \<in> set all \<Longrightarrow> distinct (map reference all) \<Longrightarrow> find (\<lambda>d. reference d = reference c) all = Some c"
  by (induction all) auto

lemma generate_unl:
  "fst (generate_footprint rnd k c x y rotation layer) @ [nl] = unl (footprint_lines rnd k c x y rotation layer)"
  using join_nl [of "footprint_lines rnd k c x y rotation layer"] by (simp add: generate_footprint_def footprint_split)

text \<open>What the emitting loops need of their tables.\<close>

definition tables_ok :: "component list \<Rightarrow> placements \<Rightarrow> bool" where
  "tables_ok all pl \<longleftrightarrow> distinct (map reference all) \<and> set (map fst pl) = reference ` set all \<and>
     distinct (map fst pl) \<and> layers_ok pl \<and> list_all comp_clean all"

lemma emit_footprints_chunk:
  assumes t: "tables_ok all pl"
  shows "set refs \<subseteq> set (map fst pl) \<Longrightarrow> \<exists>fps k'. emit_footprints rnd k all pl refs = Inr (fps, k') \<and>
     length fps = length refs \<and> zoneless (unl fps) \<and> chunk (unl fps) (\<lambda>n. if n = ''footprint'' then length refs else 0)"
proof (induction refs arbitrary: k)
  case Nil
  then show ?case by (simp add: chunk_cong [OF chunk_Nil] zoneless_def)
next
  case (Cons ref refs)
  have r: "ref \<in> reference ` set all" "ref \<in> fst ` set pl" using Cons.prems t by (auto simp: tables_ok_def)
  then obtain c where c: "c \<in> set all" "ref = reference c" by blast
  obtain x y rot layer where pos: "map_of pl ref = Some (x, y, rot, layer)"
    using r(2) by (metis map_of_eq_None_iff option.exhaust prod_cases4)
  have "layer_ok_pos (x, y, rot, layer)"
    using map_of_SomeD [OF pos] t by (fastforce simp: tables_ok_def layers_ok_def list_all_iff)
  then have l: "layer \<in> {''F.Cu'', ''B.Cu''}" unfolding layer_ok_pos_def by simp
  have cc: "comp_clean c" using t c(1) by (auto simp: tables_ok_def list_all_iff)
  obtain fp_text k' where g: "generate_footprint rnd k c x y rot layer = (fp_text, k')" by fastforce
  have f: "find (\<lambda>c. reference c = ref) all = Some c"
    using find_reference [OF c(1)] t by (simp add: tables_ok_def c(2))
  obtain fps k'' where IH: "emit_footprints rnd k' all pl refs = Inr (fps, k'')" "length fps = length refs"
    "chunk (unl fps) (\<lambda>n. if n = ''footprint'' then length refs else 0)" "zoneless (unl fps)"
    using Cons.IH [of k'] Cons.prems by auto
  have "zoneless (fp_text @ [nl])"
    using footprint_zoneless [OF cc l, of rnd k x y rot] generate_unl [of rnd k c x y rot layer] by (simp add: g)
  from zoneless_append [OF this IH(4)] have z: "zoneless (unl (fp_text # fps))" by simp
  have "chunk (fp_text @ [nl]) (\<lambda>n. if n = ''footprint'' then 1 else 0)"
    using footprint_chunk [OF cc l, of rnd k x y rot] generate_unl [of rnd k c x y rot layer] by (simp add: g)
  from chunk_append [OF this IH(3)] have "chunk (unl (fp_text # fps)) (\<lambda>n. if n = ''footprint'' then length (ref # refs) else 0)"
    by (auto intro: chunk_cong)
  moreover have "emit_footprints rnd k all pl (ref # refs) = Inr (fp_text # fps, k'')"
    by (simp add: f pos g IH(1))
  ultimately show ?case using IH(2) z by auto
qed


lemma int_str_head: "\<exists>c s. int_str i = c # s \<and> c \<in> num_chars"
  using int_str_chars [of i] by (cases "int_str i") auto

lemma plain_int: "plain (int_str i @ s)"
proof -
  obtain c t where "int_str i = c # t" "c \<in> num_chars" using int_str_head by blast
  moreover have "num_chars \<inter> {CHR ''n'', CHR ''f'', CHR ''s'', CHR ''v'', CHR ''z''} = {}" by (simp add: num_chars_def)
  ultimately have "int_str i = c # t" "c \<noteq> CHR ''n''" "c \<noteq> CHR ''f''" "c \<noteq> CHR ''s''" "c \<noteq> CHR ''v''" "c \<noteq> CHR ''z''" by blast+
  then show ?thesis by (simp add: plain_def)
qed

lemma sum_labels:
  assumes "distinct zs" "\<forall>x \<in> set xs. f x \<in> set zs"
  shows "(\<Sum>z\<leftarrow>zs. length (filter (\<lambda>x. f x = z) xs)) = length xs"
  using assms(2)
proof (induction xs)
  case (Cons x xs)
  have "(\<Sum>z\<leftarrow>zs. length (filter (\<lambda>y. f y = z) (x # xs))) =
      (\<Sum>z\<leftarrow>zs. (if f x = z then 1 else 0) + length (filter (\<lambda>y. f y = z) xs))"
    by (intro arg_cong [where f = sum_list] map_cong) auto
  also have "\<dots> = (\<Sum>z\<leftarrow>zs. if f x = z then 1 else 0) + (\<Sum>z\<leftarrow>zs. length (filter (\<lambda>y. f y = z) xs))"
    by (rule sum_list_addf)
  also have "(\<Sum>z\<leftarrow>zs. if f x = z then 1 else (0 :: nat)) = 1"
    using assms(1) Cons.prems by (simp add: sum_list_distinct_conv_sum_set)
  finally show ?case using Cons by simp
qed simp

definition label_of :: "placements \<Rightarrow> string \<Rightarrow> string" where
  "label_of pl ref = (case map_of pl ref of None \<Rightarrow> [] | Some (x, y, _) \<Rightarrow> zone_label x y)"

lemma zone_label_in: "zone_label x y \<in> set zone_order"
  by (simp add: zone_label_def zone_order_def)

lemma zone_refs_label: "zone_refs pl z = filter (\<lambda>ref. label_of pl ref = z) (sort (map fst pl))" if "z \<noteq> []"
  unfolding zone_refs_def using that
  by (intro filter_cong) (auto simp: label_of_def split: option.split)

lemma zone_refs_all: "distinct (map fst pl) \<Longrightarrow> (\<Sum>z\<leftarrow>zone_order. length (zone_refs pl z)) = length pl"
proof -
  assume d: "distinct (map fst pl)"
  have "label_of pl ref \<in> set zone_order" if "ref \<in> set (sort (map fst pl))" for ref
  proof -
    have "map_of pl ref \<noteq> None" using that by (simp add: map_of_eq_None_iff)
    then show ?thesis using zone_label_in by (auto simp: label_of_def)
  qed
  moreover have "distinct zone_order" by (simp add: zone_order_def)
  ultimately have "(\<Sum>z\<leftarrow>zone_order. length (filter (\<lambda>ref. label_of pl ref = z) (sort (map fst pl)))) = length (sort (map fst pl))"
    by (intro sum_labels) auto
  moreover have "[] \<notin> set zone_order" by (simp add: zone_order_def)
  then have "map (\<lambda>z. length (zone_refs pl z)) zone_order =
      map (\<lambda>z. length (filter (\<lambda>ref. label_of pl ref = z) (sort (map fst pl)))) zone_order"
    by (intro map_cong refl) (metis zone_refs_label)
  ultimately show ?thesis by (simp only: length_sort length_map)
qed

definition zone_heading :: "string \<Rightarrow> nat \<Rightarrow> string" where
  "zone_heading z n = ''  ;; --- '' @ z @ '' ('' @ int_str (int n) @ '' components) ---''"

lemma zone_heading_plain: "parens_free z \<Longrightarrow> opens_lines plain [[], zone_heading z n]"
proof -
  assume "parens_free z"
  then have "open_free z" by (simp add: parens_free_def open_free_def)
  then show ?thesis by (simp add: zone_heading_def plain_int)
qed

lemma zone_heading_chunk:
  assumes "parens_free z"
  shows "chunk (unl [[], zone_heading z n]) (\<lambda>_. 0)"
proof (rule chunk_plain)
  show "opens_lines plain [[], zone_heading z n]" by (rule zone_heading_plain [OF assms])
  show "neutral_lines [[], zone_heading z n]"
    using assms by (simp add: zone_heading_def neutral_lines_def scan neutral_scan neutral_parens_free)
  show "[[], zone_heading z n] = [] \<or> (\<exists>us u c. [[], zone_heading z n] = us @ [u @ [c]] \<and> \<not> is_space c)"
    by (intro disjI2 exI [of _ "[[]]"] exI [of _ "''  ;; --- '' @ z @ '' ('' @ int_str (int n) @ '' components) --''"] exI [of _ "CHR ''-''"])
      (simp add: zone_heading_def is_space_def)
qed

text \<open>The blank line after a zone is the one before the next.\<close>

lemma emit_zones_chunk:
  assumes t: "tables_ok all pl"
  shows "list_all parens_free zs \<Longrightarrow> \<exists>ls k' w. emit_zones rnd k all pl zs = Inr (ls, k') \<and> nl # unl ls = w @ [nl] \<and>
     zoneless w \<and> chunk w (\<lambda>n. if n = ''footprint'' then \<Sum>z\<leftarrow>zs. length (zone_refs pl z) else 0)"
proof (induction zs arbitrary: k)
  case Nil
  then show ?case by (simp add: chunk_cong [OF chunk_Nil] zoneless_def)
next
  case (Cons z zs)
  let ?refs = "zone_refs pl z"
  show ?case
  proof (cases "?refs = []")
    case True
    then show ?thesis using Cons by (simp cong: if_cong)
  next
    case False
    have "set (sort ?refs) \<subseteq> set (map fst pl)" by (auto simp: zone_refs_def)
    from emit_footprints_chunk [OF t this, of rnd k] obtain fps k' where
      fps: "emit_footprints rnd k all pl (sort ?refs) = Inr (fps, k')"
        "chunk (unl fps) (\<lambda>n. if n = ''footprint'' then length ?refs else 0)" "zoneless (unl fps)" by (auto cong: if_cong)
    obtain ls k'' w where ls: "emit_zones rnd k' all pl zs = Inr (ls, k'')" "nl # unl ls = w @ [nl]" "zoneless w"
      "chunk w (\<lambda>n. if n = ''footprint'' then \<Sum>z\<leftarrow>zs. length (zone_refs pl z) else 0)"
      using Cons.IH [of k'] Cons.prems by auto
    have h: "chunk (unl [[], zone_heading z (length ?refs)]) (\<lambda>_. 0)" using zone_heading_chunk Cons.prems by simp
    let ?ls = "[zone_heading z (length ?refs)] @ fps @ [[]] @ ls"
    have "emit_zones rnd k all pl (z # zs) = Inr (?ls, k'')"
      using False fps(1) ls(1) by (simp add: zone_heading_def)
    moreover have "nl # unl ?ls = (unl [[], zone_heading z (length ?refs)] @ unl fps @ w) @ [nl]"
      using ls(2) by simp
    moreover from chunk_append [OF h chunk_append [OF fps(2) ls(4)]]
    have "chunk (unl [[], zone_heading z (length ?refs)] @ unl fps @ w)
        (\<lambda>n. if n = ''footprint'' then \<Sum>z\<leftarrow>z # zs. length (zone_refs pl z) else 0)"
      by (auto intro: chunk_cong)
    moreover have "zoneless (unl [[], zone_heading z (length ?refs)])"
      by (rule zoneless_plain) (rule zone_heading_plain, use Cons.prems in simp)
    from zoneless_append [OF this zoneless_append [OF fps(3) ls(3)]]
    have "zoneless (unl [[], zone_heading z (length ?refs)] @ unl fps @ w)" .
    ultimately show ?thesis by blast
  qed
qed

section \<open>Stripping the netlist file\<close>

lemma py_split_unl: "list_all (\<lambda>l. nl \<notin> set l) ls \<Longrightarrow> py_split nl (unl ls @ t) = ls @ py_split nl t"
  by (induction ls) (simp_all add: py_split_append py_split_absent)

lemma whole_lines_unl:
  assumes "whole_lines w"
  obtains ls where "w = unl ls" "list_all (\<lambda>l. nl \<notin> set l) ls"
proof (cases "w = []")
  case True
  then show ?thesis using that [of "[]"] by simp
next
  case False
  then obtain v where v: "w = v @ [nl]" using assms by (cases w rule: rev_cases) (auto simp: whole_lines_def)
  have "unl (py_split nl v) = w"
    using join_nl [of "py_split nl v"] by (simp add: py_join_split v)
  moreover have "list_all (\<lambda>l. nl \<notin> set l) (py_split nl v)"
    using py_split_parts by (auto simp: list_all_iff)
  ultimately show ?thesis using that by metis
qed

lemma contains_strip: "contains sub (py_strip l) \<Longrightarrow> contains sub l"
proof -
  have "\<exists>u v. l = u @ py_strip l @ v"
  proof -
    have "l = takeWhile is_space l @ dropWhile is_space l" by simp
    moreover have "dropWhile is_space l = py_strip l @ rev (takeWhile is_space (rev (dropWhile is_space l)))"
      unfolding py_strip_def by (metis rev_append rev_rev_ident takeWhile_dropWhile_id)
    ultimately show ?thesis by metis
  qed
  then show "contains sub (py_strip l) \<Longrightarrow> contains sub l" by (metis contains_appendI)
qed

lemma strip_outside:
  "list_all (\<lambda>l. \<not> contains ''(footprint '' l) ls \<Longrightarrow> \<not> in_footprint st \<Longrightarrow>
     fold strip_step ls st = st\<lparr>output_lines := output_lines st @ ls\<rparr>"
proof (induction ls arbitrary: st)
  case (Cons l ls)
  have "\<not> prefix ''(footprint '' (py_strip l)"
  proof
    assume "prefix ''(footprint '' (py_strip l)"
    then obtain v where "py_strip l = ''(footprint '' @ v" by (auto elim: prefixE)
    then have "contains ''(footprint '' (py_strip l)" using contains_appendI [of "''(footprint ''" "''(footprint ''" "[]" v] by simp
    then show False using contains_strip Cons.prems(1) by auto
  qed
  then have "strip_step l st = st\<lparr>output_lines := output_lines st @ [l]\<rparr>"
    using Cons.prems(2) by (simp add: strip_step_def)
  then show ?case using Cons by simp
qed simp

text \<open>The lines of a footprint after the first: the depth is positive until it returns to zero at the end.\<close>

fun block_ok :: "int \<Rightarrow> string list \<Rightarrow> bool" where
  "block_ok d [] = False"
| "block_ok d [l] = (d + paren_count l = 0)"
| "block_ok d (l # m # ls) = (0 < d + paren_count l \<and> block_ok (d + paren_count l) (m # ls))"

lemma strip_inside:
  "block_ok (fp_depth st) ls \<Longrightarrow> in_footprint st \<Longrightarrow>
     fold strip_step ls st = st\<lparr>in_footprint := False, fp_depth := 0, fp_buf := [],
       mounting_hole_fps := (if contains ''MountingHole'' (py_join [nl] (fp_buf st @ ls))
         then mounting_hole_fps st @ [py_join [nl] (fp_buf st @ ls)] else mounting_hole_fps st)\<rparr>"
proof (induction "fp_depth st" ls arbitrary: st rule: block_ok.induct)
  case (2 l)
  then show ?case by (simp add: strip_step_def Let_def)
next
  case (3 l m ls)
  let ?st = "st\<lparr>fp_buf := fp_buf st @ [l], fp_depth := fp_depth st + paren_count l\<rparr>"
  have "strip_step l st = ?st" using 3(2,3) by (simp add: strip_step_def Let_def)
  moreover have "fold strip_step (m # ls) ?st = ?st\<lparr>in_footprint := False, fp_depth := 0, fp_buf := [],
       mounting_hole_fps := (if contains ''MountingHole'' (py_join [nl] (fp_buf ?st @ m # ls))
         then mounting_hole_fps ?st @ [py_join [nl] (fp_buf ?st @ m # ls)] else mounting_hole_fps ?st)\<rparr>"
    by (rule 3(1)) (use 3(2,3) in simp_all)
  ultimately show ?case by simp
qed simp

lemma strip_block:
  assumes "prefix ''(footprint '' (py_strip l)" "block_ok (paren_count l) ls" "\<not> in_footprint st"
  shows "fold strip_step (l # ls) st = st\<lparr>fp_depth := 0, fp_buf := [],
    mounting_hole_fps := (if contains ''MountingHole'' (py_join [nl] (l # ls))
      then mounting_hole_fps st @ [py_join [nl] (l # ls)] else mounting_hole_fps st)\<rparr>"
proof -
  let ?st = "st\<lparr>in_footprint := True, fp_buf := [l], fp_depth := paren_count l\<rparr>"
  have "strip_step l st = ?st" using assms(1,3) by (simp add: strip_step_def)
  then show ?thesis using strip_inside [of ?st ls] assms(2,3) by simp
qed

lemma paren_count_simps [simp]:
  "paren_count [] = 0" "paren_count (c # s) = (if c = CHR ''('' then 1 else if c = CHR '')'' then -1 else 0) + paren_count s"
  "paren_count (u @ v) = paren_count u + paren_count v"
  by (simp_all add: paren_count_def)

lemma paren_count_free: "parens_free u \<Longrightarrow> paren_count u = 0"
  by (auto simp: paren_count_def parens_free_def)

lemma paren_count_fmt [simp]:
  "paren_count (int_str i) = 0" "paren_count (fmt_fixed k x) = 0" "paren_count (float_str x) = 0" "paren_count (uid rnd n) = 0"
  using uid_chars [of rnd n] parens_free_num_chars [OF int_str_chars] parens_free_num_chars [OF fmt_fixed_chars]
    parens_free_num_chars [OF num_str_chars [of "PFloat x", simplified]]
  by (auto intro!: paren_count_free simp: parens_free_def uuid_chars_def)

definition hole_first :: string where
  \<open>hole_first = ''  (footprint "MountingHole:MountingHole_3.2mm_M3_Pad"''\<close>

lemma hole_head: "hole_lines rnd k ref x y = hole_first # tl (hole_lines rnd k ref x y)"
  by (simp add: hole_lines_def hole_first_def)

lemma hole_first_facts: "prefix ''(footprint '' (py_strip hole_first)" "paren_count hole_first = 1"
  by code_simp+

lemma hole_first_contains: "contains ''MountingHole'' (hole_first @ v)"
proof -
  have \<open>hole_first @ v = (''  (footprint '' @ [CHR 0x22]) @ ''MountingHole'' @ '':MountingHole_3.2mm_M3_Pad"'' @ v\<close>
    by (simp add: hole_first_def)
  then show ?thesis using contains_appendI [OF contains_refl] by (simp only:)
qed

lemma hole_block: "parens_free ref \<Longrightarrow> block_ok 1 (tl (hole_lines rnd k ref x y))"
  by (simp add: hole_lines_def paren_count_free)

lemma hole_strip:
  assumes "parens_free ref" "\<not> in_footprint st"
  shows "fold strip_step (hole_lines rnd k ref x y) st = st\<lparr>fp_depth := 0, fp_buf := [],
    mounting_hole_fps := mounting_hole_fps st @ [py_join [nl] (hole_lines rnd k ref x y)]\<rparr>"
proof -
  obtain ls where ls: "hole_lines rnd k ref x y = hole_first # ls" "ls \<noteq> []" "block_ok (paren_count hole_first) ls"
    using hole_head [of rnd k ref x y] hole_block [OF assms(1), of rnd k x y] hole_first_facts(2)
    by (cases "tl (hole_lines rnd k ref x y)") simp_all
  have "contains ''MountingHole'' (py_join [nl] (hole_first # ls))"
    unfolding py_join_Cons [OF ls(2)] by (rule hole_first_contains)
  then show ?thesis unfolding ls(1) using strip_block [OF hole_first_facts(1) ls(3) assms(2)] by (simp only: if_True)
qed


lemma hole_lines_nl: "nl \<notin> set ref \<Longrightarrow> list_all (\<lambda>l. nl \<notin> set l) (hole_lines rnd k ref x y)"
  by (simp add: hole_lines_def nl_uid nl_num) (simp add: nl_def)

lemma flat_holes_nl: "\<forall>(ref, x, y) \<in> set hs. nl \<notin> set ref \<Longrightarrow> list_all (\<lambda>l. nl \<notin> set l) (flat_holes rnd k hs)"
proof (induction hs arbitrary: k)
  case (Cons h hs)
  then show ?case using hole_lines_nl by (cases h) auto
qed simp

lemma holes_strip:
  "\<forall>(ref, x, y) \<in> set hs. parens_free ref \<Longrightarrow> \<not> in_footprint st \<Longrightarrow>
     \<exists>d b. fold strip_step (flat_holes rnd k hs) st = st\<lparr>fp_depth := d, fp_buf := b,
       mounting_hole_fps := mounting_hole_fps st @ fst (mounting_holes rnd k hs)\<rparr>"
proof (induction hs arbitrary: k st)
  case Nil
  then show ?case by (intro exI [of _ "fp_depth st"] exI [of _ "fp_buf st"]) simp
next
  case (Cons h hs)
  obtain ref x y where h: "h = (ref, x, y)" by (cases h)
  have f: "parens_free ref" using Cons.prems(1) by (simp add: h)
  let ?st = "st\<lparr>fp_depth := 0, fp_buf := [], mounting_hole_fps := mounting_hole_fps st @ [py_join [nl] (hole_lines rnd k ref x y)]\<rparr>"
  have s: "fold strip_step (hole_lines rnd k ref x y) st = ?st" by (rule hole_strip [OF f Cons.prems(2)])
  have p: "\<forall>(ref, x, y) \<in> set hs. parens_free ref" "\<not> in_footprint ?st" using Cons.prems by auto
  obtain d b where "fold strip_step (flat_holes rnd (k + 7) hs) ?st = ?st\<lparr>fp_depth := d, fp_buf := b,
       mounting_hole_fps := mounting_hole_fps ?st @ fst (mounting_holes rnd (k + 7) hs)\<rparr>"
    using Cons.IH [OF p, of "k + 7"] by blast
  then have "fold strip_step (flat_holes rnd k (h # hs)) st = st\<lparr>fp_depth := d, fp_buf := b,
       mounting_hole_fps := mounting_hole_fps st @ fst (mounting_holes rnd k (h # hs))\<rparr>"
    using s by (simp add: h generate_mounting_hole_def split: prod.split)
  then show ?case by blast
qed

definition hole_title :: string where
  "hole_title = ''  ;; ===== MOUNTING HOLES =====''"

definition part_titles :: "nat \<Rightarrow> string list" where
  "part_titles n = [''  ;; ===== COMPONENT PLACEMENT ====='', ''  ;; Generated by gen_pcb_placement.py'',
     ''  ;; '' @ int_str (int n) @ '' components placed'']"

lemma drop_tail_doc: "drop_tail (rev (ls @ [[], c] @ [[], '')'', []])) = rev (ls @ [[], c] @ [[]])"
  by (simp add: py_strip_def is_space_def)

text \<open>
  The script on the netlist file: the declarations stay, the mounting holes are written again
  behind a title, and the components follow.
\<close>

lemma placement_main_doc:
  assumes ok: "\<forall>n \<in> set names. name_ok n"
    and pl: "read_components files = (all, by_zone)" "all_placements all by_zone = Inr pl"
    and z: "emit_zones rnd' k' all pl zone_order = Inr (ls, k'')"
    and content: "content = doc_prefix rnd k comps names @ unl ([[], holes_comment] @ flat_holes rnd (k + 1) hole_positions) @ nl # closing"
  shows "placement_main rnd' k' files content = Inr (doc_prefix rnd k comps names @
     unl ([[], holes_comment, [], [], hole_title] @ flat_holes rnd (k + 1) hole_positions @
       [[]] @ part_titles (length pl) @ [[]] @ ls) @ closing)"
proof -
  let ?h = "flat_holes rnd (k + 1) hole_positions" and ?p = "doc_prefix rnd k comps names"
  have "whole_lines ?p" using prefix_last [of rnd k comps names] by (auto simp: whole_lines_def)
  then obtain pls where pls: "?p = unl pls" "list_all (\<lambda>l. nl \<notin> set l) pls" by (rule whole_lines_unl)
  have "\<not> contains ''(footprint '' ?p"
    using no_start_contains_pat [OF prefix_no_start [OF ok, of "''footprint''"], of "[]"] by simp
  then have np: "list_all (\<lambda>l. \<not> contains ''(footprint '' l) pls"
    using contains_unl pls(1) by (auto simp: list_all_iff)
  have hp: "\<forall>(ref, x, y) \<in> set hole_positions. nl \<notin> set ref" "\<forall>(ref, x, y) \<in> set hole_positions. parens_free ref"
    by (simp_all add: hole_positions_def parens_free_def nl_def)
  have nlc: "nl \<notin> set holes_comment" by (simp add: holes_comment_def nl_def)
  have cl: "py_split nl closing = ['')'', []]" by (simp add: closing_def nl_def)
  have split: "py_split nl content = (pls @ [[], holes_comment]) @ ?h @ [[], '')'', []]"
  proof -
    have "list_all (\<lambda>l. nl \<notin> set l) (pls @ [[], holes_comment] @ ?h)"
      using pls(2) flat_holes_nl [OF hp(1)] nlc by simp
    from py_split_unl [OF this, of "nl # closing"] show ?thesis
      by (simp add: content pls(1) cl)
  qed
  have o: "list_all (\<lambda>l. \<not> contains ''(footprint '' l) (pls @ [[], holes_comment])"
    using np by (simp add: holes_comment_def)
  have t: "list_all (\<lambda>l. \<not> contains ''(footprint '' l) [[], '')'', []]" by simp
  let ?s1 = "strip_start\<lparr>output_lines := pls @ [[], holes_comment]\<rparr>"
  have s1: "fold strip_step (pls @ [[], holes_comment]) strip_start = ?s1"
    using strip_outside [OF o, of strip_start] by (simp add: strip_start_def)
  have "\<not> in_footprint ?s1" by (simp add: strip_start_def)
  from holes_strip [OF hp(2) this, of rnd "k + 1"] obtain d b where
    s2: "fold strip_step ?h ?s1 = ?s1\<lparr>fp_depth := d, fp_buf := b, mounting_hole_fps := fst (mounting_holes rnd (k + 1) hole_positions)\<rparr>"
    by (auto simp: strip_start_def)
  define st where "st = fold strip_step (py_split nl content) strip_start"
  have "st = fold strip_step [[], '')'', []] (?s1\<lparr>fp_depth := d, fp_buf := b, mounting_hole_fps := fst (mounting_holes rnd (k + 1) hole_positions)\<rparr>)"
  proof -
    have "fold strip_step (a @ b @ c) st0 = fold strip_step c (fold strip_step b (fold strip_step a st0))" for a b c st0
      by simp
    then show ?thesis unfolding st_def split s1 [symmetric] s2 [unfolded s1 [symmetric], symmetric] by blast
  qed
  also have "\<dots> = ?s1\<lparr>fp_depth := d, fp_buf := b, mounting_hole_fps := fst (mounting_holes rnd (k + 1) hole_positions),
      output_lines := (pls @ [[], holes_comment]) @ [[], '')'', []]\<rparr>"
    by (subst strip_outside [OF t]) (simp_all add: strip_start_def)
  finally have st: "output_lines st = pls @ [[], holes_comment] @ [[], '')'', []]"
    "mounting_hole_fps st = fst (mounting_holes rnd (k + 1) hole_positions)" by simp_all
  have "rev (drop_tail (rev (output_lines st))) = pls @ [[], holes_comment] @ [[]]"
    unfolding st(1) drop_tail_doc by simp
  then have "placement_main rnd' k' files content = Inr (py_join [nl] ((pls @ [[], holes_comment] @ [[]]) @ [[], hole_title] @
      fst (mounting_holes rnd (k + 1) hole_positions) @ [[]] @ part_titles (length pl) @ [[]] @ ls @ ['')'', []]))"
    using pl z st(2) by (simp add: placement_main_def Let_def st_def [symmetric] hole_title_def part_titles_def)
  also have "py_join [nl] ((pls @ [[], holes_comment] @ [[]]) @ [[], hole_title] @
      fst (mounting_holes rnd (k + 1) hole_positions) @ [[]] @ part_titles (length pl) @ [[]] @ ls @ ['')'', []]) =
      unl ((pls @ [[], holes_comment] @ [[]]) @ [[], hole_title] @
      fst (mounting_holes rnd (k + 1) hole_positions) @ [[]] @ part_titles (length pl) @ [[]] @ ls @ ['')''])"
    using py_join_unl [of "(pls @ [[], holes_comment] @ [[]]) @ [[], hole_title] @
      fst (mounting_holes rnd (k + 1) hole_positions) @ [[]] @ part_titles (length pl) @ [[]] @ ls @ ['')'']" "[]"] by simp
  also have "\<dots> = ?p @ unl ([[], holes_comment, [], [], hole_title] @ ?h @ [[]] @ part_titles (length pl) @ [[]] @ ls) @ closing"
    by (simp add: pls(1) unl_mounting_holes closing_def)
  finally show ?thesis .
qed

end
