(* ===== verification/Chain.thy ===== *)
theory Chain
  imports PlanesCheck PlacementBoard
begin

text \<open>
  The chain of the README on one set of schematics: netlist, placement, planes, routing and the
  design rule check, each script working on the text the script before it wrote.
\<close>

section \<open>The placed board\<close>

lemma prefix_zoneless:
  assumes "\<forall>n \<in> set names. name_ok n"
  shows "zoneless (doc_prefix rnd k comps names)"
proof -
  have "zoneless (doc_head comps names)" unfolding doc_head_def by (rule zoneless_plain [OF head_opens])
  moreover have "zoneless (unl (map decl_line (decls names)))"
    by (rule zoneless_lines [OF decls_opens [OF assms]]) (simp add: decl_ok_def)
  moreover have "zoneless (doc_tail rnd k comps names)"
    unfolding doc_tail_def
    by (intro zoneless_append zoneless_plain mid_plain [OF assms] note_plain zoneless_opens [OF rect_plain]) (simp add: plain_def)
  ultimately show ?thesis unfolding doc_prefix_def by (intro zoneless_append)
qed

definition mark_rest :: string where
  "mark_rest = '' - M3, 3.2mm drill, 6mm pad''"

lemma holes_comment_split: "holes_comment = ''  ;'' @ holes_mark @ mark_rest"
  by (simp add: holes_comment_def holes_mark_def mark_rest_def)

definition gap :: "string list" where
  "gap = [[], [], hole_title]"

lemma gap_facts:
  "\<not> contains (CHR '';'' # holes_mark) (holes_mark @ mark_rest @ nl # unl gap)"
  "opens_lines plain ([[], holes_mark @ mark_rest] @ gap)" "neutral_lines ([[], holes_mark @ mark_rest] @ gap)"
  "opens_lines plain ([[], holes_comment] @ gap)" "neutral_lines ([[], holes_comment] @ gap)"
  unfolding holes_comment_split gap_def holes_mark_def mark_rest_def hole_title_def neutral_lines_def by code_simp+

lemma title_end: "gap = [[], []] @ [''  ;; ===== MOUNTING HOLES ===='' @ ''='']"
  by (simp add: gap_def hole_title_def)

lemma ends_solid: "\<exists>us u c. ls @ gap = us @ [u @ [c]] \<and> \<not> is_space c"
  unfolding title_end
  by (intro exI [of _ "ls @ [[], []]"] exI [of _ "''  ;; ===== MOUNTING HOLES ====''"] exI [of _ "CHR ''=''"])
    (simp add: is_space_def)

lemma comment_chunk: "chunk (unl ([[], holes_comment] @ gap)) (\<lambda>_. 0)"
  by (rule chunk_plain [OF gap_facts(4,5) disjI2 [OF ends_solid]])

lemma split_comment_chunk: "chunk (unl ([[], holes_mark @ mark_rest] @ gap)) (\<lambda>_. 0)"
  by (rule chunk_plain [OF gap_facts(2,3) disjI2 [OF ends_solid]])

lemma titles_chunk: "chunk (unl ([] # part_titles n)) (\<lambda>_. 0)" "zoneless (unl ([] # part_titles n))"
proof -
  have o: "opens_lines plain ([] # part_titles n)" by (simp add: part_titles_def)
  show "zoneless (unl ([] # part_titles n))" by (rule zoneless_plain [OF o])
  show "chunk (unl ([] # part_titles n)) (\<lambda>_. 0)"
  proof (rule chunk_plain [OF o])
    show "neutral_lines ([] # part_titles n)" by (simp add: part_titles_def neutral_lines_def scan neutral_scan)
    show "[] # part_titles n = [] \<or> (\<exists>us u c. [] # part_titles n = us @ [u @ [c]] \<and> \<not> is_space c)"
      by (intro disjI2 exI [of _ "[] # butlast (part_titles n)"] exI [of _ "''  ;; '' @ int_str (int n) @ '' components place''"] exI [of _ "CHR ''d''"])
        (simp add: part_titles_def is_space_def)
  qed
qed

lemma half_comment_chunk: "chunk (unl [[], ''  ;'']) (\<lambda>_. 0)"
proof (rule chunk_plain)
  show "opens_lines plain [[], ''  ;'']" "neutral_lines [[], ''  ;'']" by (simp_all add: neutral_lines_def)
  show "[[], ''  ;''] = [] \<or> (\<exists>us u c. [[], ''  ;''] = us @ [u @ [c]] \<and> \<not> is_space c)"
    by (simp add: is_space_def)
qed

lemma holes_facts:
  "chunk (unl (flat_holes rnd k hole_positions)) (\<lambda>n. if n = ''footprint'' then 4 else 0)"
  "zoneless (unl (flat_holes rnd k hole_positions))"
  "\<exists>w. unl (flat_holes rnd k hole_positions) = ''  (footprint '' @ w"
proof -
  have "\<forall>(ref, x, y) \<in> set hole_positions. parens_free ref \<and> nl \<notin> set ref" "length hole_positions = 4"
    by (simp_all add: hole_positions_def parens_free_def nl_def)
  from flat_holes_chunk [OF this(1), of rnd k] this(2)
  show "chunk (unl (flat_holes rnd k hole_positions)) (\<lambda>n. if n = ''footprint'' then 4 else 0)" by (elim chunk_cong) simp
  show "zoneless (unl (flat_holes rnd k hole_positions))"
    by (rule zoneless_lines [OF flat_holes_opens]) (simp add: post_ok_def)
  have "flat_holes rnd k ((ref, x, y) # hs) = hole_first # tl (hole_lines rnd k ref x y) @ flat_holes rnd (k + 7) hs" for ref x y hs
    using hole_head [of rnd k ref x y] by simp
  from this [of "''MH1''" 5 5 "tl hole_positions"]
  have "\<exists>ls. flat_holes rnd k ((''MH1'', 5, 5) # tl hole_positions) = hole_first # ls" by (rule exI)
  moreover have "(''MH1'', 5, 5) # tl hole_positions = hole_positions" by (simp add: hole_positions_def)
  ultimately obtain ls where ls: "flat_holes rnd k hole_positions = hole_first # ls" by (elim exE) (simp only:)
  have h: \<open>hole_first = ''  (footprint '' @ ''"MountingHole:MountingHole_3.2mm_M3_Pad"''\<close> by (simp add: hole_first_def)
  show "\<exists>w. unl (flat_holes rnd k hole_positions) = ''  (footprint '' @ w"
    unfolding ls unl_simps h append_assoc by (rule exI, rule refl)
qed

section \<open>Placement and planes on a netlist file\<close>

text \<open>
  \<open>parts\<close> of the chain: the file of the netlist script, the sections the placement script puts
  behind the declarations, and those the plane script leaves.
\<close>

lemma placed_and_poured:
  assumes ok: "\<forall>n \<in> set names. name_ok n" "distinct names" "[] \<notin> set names"
    and comps: "read_components files = (all, by_zone)" "all_placements all by_zone = Inr pl"
    and t: "tables_ok all pl"
    and content: "content = doc_prefix rnd k comps names @ unl ([[], holes_comment] @ flat_holes rnd (k + 1) hole_positions) @ nl # closing"
  shows "\<exists>placed poured x y. placement_main rnd2 k2 files content = Inr placed \<and>
    planes_main rnd3 k3 (Some placed) = Some (poured, 13) \<and>
    placed = x @ nl # closing \<and> board x (net_table names) (\<lambda>n. if n = ''footprint'' then 4 + length all else 0) \<and>
    poured = y @ nl # closing \<and> board y (net_table names) (\<lambda>n. if n = ''footprint'' then 4 + length all else if n = ''zone'' then 13 else 0)"
proof -
  let ?p = "doc_prefix rnd k comps names" 
  define F where "F = flat_holes rnd (k + 1) hole_positions"
  let ?h = "unl F"
  note hf = holes_facts [of rnd "k + 1", folded F_def]
  let ?n = "length pl" and ?zs = "generate_all_zones rnd3 k3"
  have zo: "list_all parens_free zone_order" by (simp add: zone_order_def parens_free_def)
  obtain ls k' w where e: "emit_zones rnd2 k2 all pl zone_order = Inr (ls, k')" "nl # unl ls = w @ [nl]" "zoneless w"
    "chunk w (\<lambda>n. if n = ''footprint'' then \<Sum>z\<leftarrow>zone_order. length (zone_refs pl z) else 0)"
    using emit_zones_chunk [OF t zo, of rnd2 k2] by blast
  have len: "length pl = length all"
  proof -
    have "length (map fst pl) = length (map reference all)"
      using t unfolding tables_ok_def by (metis distinct_card set_map)
    then show ?thesis by simp
  qed
  have w: "chunk w (\<lambda>n. if n = ''footprint'' then length all else 0)"
    using e(4) t unfolding tables_ok_def by (simp add: zone_refs_all len cong: if_cong)
  obtain r where r: "?h = ''  (footprint '' @ r" using hf(3) by blast
  let ?t = "unl ([] # part_titles ?n) @ w"
  have tail: "chunk (?h @ ?t) (\<lambda>n. if n = ''footprint'' then 4 + length all else 0)"
    using chunk_append [OF hf(1) chunk_append [OF titles_chunk(1) w], of ?n]
    by (elim chunk_cong) simp
  have eq: "nl # unl ls @ closing = w @ nl # closing" using e(2) by (metis append_Cons append_assoc append_Nil)
  have "placement_main rnd2 k2 files content = Inr (?p @
     unl ([[], holes_comment, [], [], hole_title] @ F @
       [[]] @ part_titles ?n @ [[]] @ ls) @ closing)"
    by (rule placement_main_doc [OF ok(1) comps e(1) content, folded F_def])
  also have "?p @ unl ([[], holes_comment, [], [], hole_title] @ F @
       [[]] @ part_titles ?n @ [[]] @ ls) @ closing = (?p @ unl ([[], holes_comment] @ gap) @ ?h @ ?t) @ nl # closing"
    using eq by (simp add: gap_def)
  finally have pm: "placement_main rnd2 k2 files content = Inr ((?p @ unl ([[], holes_comment] @ gap) @ ?h @ ?t) @ nl # closing)" .
  have split: "(?p @ unl ([[], holes_comment] @ gap) @ ?h @ ?t) @ nl # closing =
      (?p @ [nl]) @ ''  ;'' @ holes_mark @ (mark_rest @ nl # unl gap) @ ''  (footprint '' @ (r @ ?t @ nl # closing)"
    by (simp add: holes_comment_split r)
  have joined: "?p @ unl [[], ''  ;''] @ ?zs @ unl ([[], holes_mark @ mark_rest] @ gap) @ ?h @ ?t @ nl # closing =
      (?p @ [nl]) @ ''  ;'' @ nl # ?zs @ nl # holes_mark @ (mark_rest @ nl # unl gap) @ ''  (footprint '' @ (r @ ?t @ nl # closing)"
    by (simp add: r)
  have "planes_main rnd3 k3 (Some ((?p @ unl ([[], holes_comment] @ gap) @ ?h @ ?t) @ nl # closing)) =
      Some (?p @ unl [[], ''  ;''] @ ?zs @ unl ([[], holes_mark @ mark_rest] @ gap) @ ?h @ ?t @ nl # closing, 13)"
    unfolding split joined
  proof (rule planes_main_holes)
    have "no_start (pat ''footprint'') (unl ([[], holes_comment] @ gap))"
      by (rule opens_lines_no_start [OF gap_facts(4)]) (simp add: plain_def)
    from no_start_append [OF prefix_no_start [OF ok(1), of "''footprint''"] this]
    show "no_start (pat ''footprint'') ((?p @ [nl]) @ ''  ;'' @ holes_mark @ mark_rest @ nl # unl gap)"
      by (simp add: holes_comment_split)
    show "mark_rest @ nl # unl gap = (mark_rest @ nl # butlast (unl gap)) @ [nl]" by (simp add: gap_def)
    show "\<not> contains (CHR '';'' # holes_mark) (holes_mark @ mark_rest @ nl # unl gap)" by (rule gap_facts(1))
    have "zoneless (nl # ''  ;'')" by (simp add: zoneless_def zpat_def nl_def)
    from zoneless_append [OF prefix_zoneless [OF ok(1)] this]
    show "zoneless ((?p @ [nl]) @ ''  ;'')" by simp
    have zm: "zoneless (holes_mark @ mark_rest @ nl # unl gap)"
      using zoneless_plain [of "(holes_mark @ mark_rest) # gap"] gap_facts(2) by simp
    have zc: "zoneless (nl # closing)" by (simp add: zoneless_def zpat_def closing_def nl_def)
    have "zoneless (?t @ nl # closing)"
      using zoneless_append [OF titles_chunk(2) zoneless_append [OF e(3) zc]] by simp
    from zoneless_append [OF zm zoneless_append [OF hf(2) this]]
    have "zoneless ((holes_mark @ mark_rest @ nl # unl gap) @ ?h @ ?t @ nl # closing)" .
    then show "zoneless (holes_mark @ (mark_rest @ nl # unl gap) @ ''  (footprint '' @ r @ ?t @ nl # closing)"
      by (simp add: r)
  qed
  then have pr: "planes_main rnd3 k3 (Some ((?p @ unl ([[], holes_comment] @ gap) @ ?h @ ?t) @ nl # closing)) =
      Some ((?p @ unl [[], ''  ;''] @ ?zs @ unl ([[], holes_mark @ mark_rest] @ gap) @ ?h @ ?t) @ nl # closing, 13)"
    by (simp only: append_assoc)
  have bx: "board (?p @ unl ([[], holes_comment] @ gap) @ ?h @ ?t) (net_table names) (\<lambda>n. if n = ''footprint'' then 4 + length all else 0)"
    using board_chunk [OF doc_board [OF ok] chunk_append [OF comment_chunk tail]] by simp
  have bt: "board (?p @ unl [[], ''  ;''] @ ?zs @ unl ([[], holes_mark @ mark_rest] @ gap) @ ?h @ ?t) (net_table names)
      (\<lambda>n. if n = ''footprint'' then 4 + length all else if n = ''zone'' then 13 else 0)"
  proof -
    from chunk_append [OF half_comment_chunk chunk_append [OF zones_chunk [of rnd3 k3] chunk_append [OF split_comment_chunk tail]]]
    have "chunk (unl [[], ''  ;''] @ ?zs @ unl ([[], holes_mark @ mark_rest] @ gap) @ ?h @ ?t)
      (\<lambda>n. if n = ''footprint'' then 4 + length all else if n = ''zone'' then 13 else 0)"
      by (elim chunk_cong) simp
    from board_chunk [OF doc_board [OF ok] this] show ?thesis by simp
  qed
  show ?thesis
    by (intro exI conjI, rule pm, rule pr, rule refl, rule bx, rule refl, rule bt)
qed

section \<open>The whole chain\<close>

text \<open>Schematics the chain can be run on: names and component fields that need no quoting.\<close>

definition clean_schematics :: "(string \<rightharpoonup> string) \<Rightarrow> bool" where
  "clean_schematics files \<longleftrightarrow>
     (\<forall>n \<in> snd (read_schematics files). name_ok n \<and> n \<noteq> []) \<and>
     (\<forall>c \<in> set (fst (read_components files)). comp_clean c \<and> reference c \<noteq> [])"

lemma parse_schematic_finite: "finite (snd (parse_schematic content))"
proof -
  have "finite (snd st) \<Longrightarrow> finite (snd (fold (parse_symbol body) ms st))" for body ms st
  proof (induction ms arbitrary: st)
    case (Cons m ms)
    have "finite (snd (parse_symbol body m st))" using Cons.prems
      by (cases st) (simp add: parse_symbol_def Let_def)
    from Cons.IH [OF this] show ?case by simp
  qed simp
  from this [of "([], {})"] show ?thesis
    by (simp add: parse_schematic_def Let_def split_beta)
qed

lemma read_schematics_finite: "finite (snd (read_schematics files))"
proof -
  have "finite (snd st) \<Longrightarrow> finite (snd (fold (\<lambda>f (comps, nets). case files f of None \<Rightarrow> (comps, nets)
           | Some content \<Rightarrow> (let (cs, ns) = parse_schematic content in (comps @ cs, nets \<union> ns))) fs st))" for fs st
  proof (induction fs arbitrary: st)
    case (Cons f fs)
    let ?g = "\<lambda>f (comps, nets). case files f of None \<Rightarrow> (comps, nets)
           | Some content \<Rightarrow> (let (cs, ns) = parse_schematic content in (comps @ cs, nets \<union> ns))"
    have "finite (snd (?g f st))"
      using Cons.prems parse_schematic_finite by (cases st) (auto simp: Let_def split_beta split: option.split)
    from Cons.IH [OF this] show ?case by simp
  qed simp
  then show ?thesis by (simp add: read_schematics_def)
qed

lemma placements_of_clean:
  assumes "clean_schematics files" "read_components files = (all, by_zone)"
  shows "\<exists>pl. all_placements all by_zone = Inr pl \<and> tables_ok all pl"
proof -
  have all: "\<forall>c \<in> set all. comp_clean c \<and> reference c \<noteq> []" using assms by (simp add: clean_schematics_def)
  have inv: "distinct (map reference all)" "\<And>z. set (by_zone z) \<subseteq> set all"
    using read_components_inv [of files] assms(2) by (auto simp: comps_inv_def)
  from all_placements_total [OF assms(2)] show ?thesis
  proof (cases "all_placements all by_zone")
    case (Inl e)
    then show ?thesis using all_placements_total [OF assms(2)] all inv(2) by fastforce
  next
    case (Inr pl)
    then show ?thesis using all_placements_total [OF assms(2)] all inv(1) by (auto simp: tables_ok_def list_all_iff)
  qed
qed

text \<open>What the check reports of a finished board.\<close>

definition finished_report :: "string set \<Rightarrow> component list \<Rightarrow> item list \<Rightarrow> drc_report" where
  "finished_report S all entries = \<lparr>declared = {0 .. int (card (insert ''GND'' S))}, n_footprints = 4 + length all,
     n_segments = length (filter is_segment entries), n_vias = length (filter is_via entries),
     n_zones = 13, dims = Some (160, 100), issues = [], exit_code = 0\<rparr>"

lemma chain_runs:
  assumes clean: "clean_schematics files"
  shows "\<exists>netlist placed poured routed. netlist_main rnd1 files = Inr netlist \<and>
     placement_main rnd2 k2 files netlist = Inr placed \<and>
     planes_main rnd3 k3 (Some placed) = Some (poured, 13) \<and>
     routing_main rnd4 k4 poured = Some routed \<and>
     drc_main routed = Inr (finished_report (snd (read_schematics files)) (fst (read_components files))
       (routing_items (net_table (net_names (snd (read_schematics files))))))"
proof -
  obtain cs S where cs: "read_schematics files = (cs, S)" by fastforce
  obtain all by_zone where rc: "read_components files = (all, by_zone)" by fastforce
  have S: "finite S" "\<forall>n \<in> S. name_ok n" "[] \<notin> S"
    using read_schematics_finite [of files] clean by (auto simp: cs clean_schematics_def)
  note ok = net_names_ok [OF S]
  let ?names = "net_names S" and ?comps = "unique_components cs"
  let ?nets = "net_table ?names"
  obtain pl where pl: "all_placements all by_zone = Inr pl" "tables_ok all pl"
    using placements_of_clean [OF clean rc] by blast
  define netlist where "netlist = py_join [nl] (doc_lines rnd1 0 ?comps ?names) @ [nl]"
  have nm: "netlist_main rnd1 files = Inr netlist"
    using generate_pcb_eq [OF ok(1), of rnd1 0 ?comps] by (simp add: netlist_main_def cs netlist_def)
  have content: "netlist = doc_prefix rnd1 0 ?comps ?names @ unl ([[], holes_comment] @ flat_holes rnd1 (0 + 1) hole_positions) @ nl # closing"
    by (simp only: netlist_def doc_split)
  from placed_and_poured [OF ok(1) distinct_net_names ok(2) rc pl content, of rnd2 k2 rnd3 k3]
  obtain placed poured x where p: "placement_main rnd2 k2 files netlist = Inr placed"
    "planes_main rnd3 k3 (Some placed) = Some (poured, 13)" "poured = x @ nl # closing"
    "board x ?nets (\<lambda>n. if n = ''footprint'' then 4 + length all else if n = ''zone'' then 13 else 0)" by blast
  have r: "routing_main rnd4 k4 poured = Some ((x @ routing_section rnd4 k4 3 ?nets) @ nl # closing)"
    unfolding p(3) append_assoc by (rule routing_main_board(2) [OF p(4)])
  from board_report [OF board_chunk [OF p(4) routing_section_chunk] closes_simps(2), of rnd4 k4 3]
  have "drc_main ((x @ routing_section rnd4 k4 3 ?nets) @ nl # closing) = Inr (finished_report S all (routing_items ?nets))"
    by (simp add: finished_report_def item_count_kind [unfolded One_nat_def] ran_net_table [OF distinct_net_names ok(2)] length_net_names [OF S(1)])
  then show ?thesis using nm p(1,2) r by (simp only: cs rc fst_conv snd_conv) blast
qed


lemma tiny_read: "read_schematics tiny_files = ([tiny_comp], {''GND'', ''SDA''})"
  by (simp add: read_schematics_def schematic_files_def tiny_files_def tiny_schematic_parsed tiny_comp_def insert_commute)

lemma tiny_clean: "clean_schematics tiny_files"
proof -
  have "name_ok ''GND''" "name_ok ''SDA''" by (simp_all add: name_ok_def nl_def)
  moreover have "comp_clean tiny_comp" "reference tiny_comp \<noteq> []"
    by (simp_all add: comp_clean_def tiny_comp_def name_ok_def nl_def)
  ultimately show ?thesis by (simp add: clean_schematics_def tiny_read tiny_components)
qed


end
