(* ===== verification/PyFloat.thy ===== *)
theory PyFloat imports PyStr begin

text \<open>
  Binary64 values as the board tests see them: finite numbers with the rounding of \<open>PyNum\<close>,
  extended by gradual underflow and overflow, the two infinities and not-a-number. The sign of a
  zero is not kept. Reading (\<open>float(s)\<close>) and writing (\<open>repr\<close>) follow CPython for text with code
  points below 256.
\<close>

section \<open>Values and arithmetic\<close>

datatype flt = Fin rat | PosInf | NegInf | NaN

definition rnd :: "rat \<Rightarrow> flt" where
  "rnd x =
     (let r = (if \<bar>x\<bar> < 1 / 2 ^ 1022 then of_int (rhe (x * 2 ^ 1074)) / 2 ^ 1074 else fl x)
      in if 2 ^ 1024 \<le> r then PosInf else if r \<le> - (2 ^ 1024) then NegInf else Fin r)"

fun flt_neg :: "flt \<Rightarrow> flt" where
  "flt_neg (Fin x) = Fin (- x)"
| "flt_neg PosInf = NegInf"
| "flt_neg NegInf = PosInf"
| "flt_neg NaN = NaN"

fun flt_abs :: "flt \<Rightarrow> flt" where
  "flt_abs (Fin x) = Fin \<bar>x\<bar>"
| "flt_abs PosInf = PosInf"
| "flt_abs NegInf = PosInf"
| "flt_abs NaN = NaN"

fun flt_add :: "flt \<Rightarrow> flt \<Rightarrow> flt" where
  "flt_add (Fin x) (Fin y) = rnd (x + y)"
| "flt_add NaN y = NaN"
| "flt_add x NaN = NaN"
| "flt_add (Fin x) y = y"
| "flt_add x (Fin y) = x"
| "flt_add x y = (if x = y then x else NaN)"

definition flt_sub :: "flt \<Rightarrow> flt \<Rightarrow> flt" where
  "flt_sub x y = flt_add x (flt_neg y)"

text \<open>The product with a positive number, the only one the scripts form.\<close>

fun flt_scale :: "flt \<Rightarrow> rat \<Rightarrow> flt" where
  "flt_scale (Fin x) c = rnd (x * c)"
| "flt_scale x c = x"

fun flt_less :: "flt \<Rightarrow> flt \<Rightarrow> bool" where
  "flt_less (Fin x) (Fin y) = (x < y)"
| "flt_less NaN y = False"
| "flt_less x NaN = False"
| "flt_less x y = (x \<noteq> y \<and> (x = NegInf \<or> y = PosInf))"

fun flt_eq :: "flt \<Rightarrow> flt \<Rightarrow> bool" where
  "flt_eq NaN y = False"
| "flt_eq x y = (x = y)"

text \<open>\<open>max(xs)\<close>: a later value replaces the result when it is greater.\<close>

definition flt_max :: "flt list \<Rightarrow> flt res" where
  "flt_max xs = (case xs of [] \<Rightarrow> Inl ValueError
     | y # ys \<Rightarrow> Inr (foldl (\<lambda>m v. if flt_less m v then v else m) y ys))"

text \<open>\<open>round(x, k)\<close>: the decimal with \<open>k\<close> places nearest to the exact value.\<close>

fun flt_round :: "nat \<Rightarrow> flt \<Rightarrow> flt" where
  "flt_round k (Fin x) = rnd (of_int (rhe (x * 10 ^ k)) / 10 ^ k)"
| "flt_round k x = x"

section \<open>Reading\<close>

text \<open>A run of digits in which single underscores may stand between digits.\<close>

fun digit_part :: "string \<Rightarrow> string option" where
  "digit_part [] = Some []"
| "digit_part [c] = (if is_dig c then Some [c] else None)"
| "digit_part (c # d # s) =
     (if \<not> is_dig c then None
      else if d = CHR ''_''
           then (if s = [] then None else map_option ((#) c) (digit_part s))
           else map_option ((#) c) (digit_part (d # s)))"

definition dig_or_us :: "char \<Rightarrow> bool" where
  "dig_or_us c = (is_dig c \<or> c = CHR ''_'')"

definition split_sign :: "string \<Rightarrow> bool \<times> string" where
  "split_sign s = (case s of [] \<Rightarrow> (False, [])
     | c # t \<Rightarrow> if c = CHR ''-'' then (True, t) else if c = CHR ''+'' then (False, t) else (False, s))"

text \<open>\<open>int(s)\<close> of decimal text\<close>

definition py_int_of :: "string \<Rightarrow> int option" where
  "py_int_of s =
     (let (neg, t) = split_sign (py_strip s)
      in if t = [] then None
         else map_option (\<lambda>d. if neg then - dec_val d else dec_val d) (digit_part t))"

definition lower :: "char \<Rightarrow> char" where
  "lower c = (let n = of_char c :: nat in if 65 \<le> n \<and> n \<le> 90 then char_of (n + 32) else c)"

text \<open>The exponent: nothing, or \<open>e\<close> with an optional sign and digits.\<close>

definition exponent :: "string \<Rightarrow> int option" where
  "exponent s = (case s of [] \<Rightarrow> Some 0
     | c # t \<Rightarrow> if lower c \<noteq> CHR ''e'' then None
        else (let (neg, d) = split_sign t
              in if d = [] then None
                 else map_option (\<lambda>d. if neg then - dec_val d else dec_val d) (digit_part d)))"

definition py_float :: "string \<Rightarrow> flt res" where
  "py_float s =
     (let (neg, t) = split_sign (py_strip s);
          sg = (\<lambda>x. Inr (if neg then flt_neg x else x));
          whole = takeWhile dig_or_us t; rest = dropWhile dig_or_us t;
          dot = (rest \<noteq> [] \<and> hd rest = CHR ''.'');
          frac = (if dot then takeWhile dig_or_us (tl rest) else []);
          expo = (if dot then dropWhile dig_or_us (tl rest) else rest)
      in if map lower t \<in> set [''inf'', ''infinity''] then sg PosInf
         else if map lower t = ''nan'' then Inr NaN
         else if whole = [] \<and> frac = [] then Inl ValueError
         else case (digit_part whole, digit_part frac, exponent expo) of
             (Some w, Some f, Some e) \<Rightarrow>
               sg (rnd (of_int (dec_val (w @ f)) * 10 powi (e - int (length f))))
           | _ \<Rightarrow> Inl ValueError)"

section \<open>Writing\<close>

text \<open>The decimal exponent: \<open>10\<^sup>k \<le> x < 10\<^sup>k\<^sup>+\<^sup>1\<close>; the fuel covers the range of binary64.\<close>

fun dexp :: "nat \<Rightarrow> rat \<Rightarrow> int" where
  "dexp 0 x = 0"
| "dexp (Suc fuel) x = (if x < 1 then dexp fuel (x * 10) - 1 else if 10 \<le> x then dexp fuel (x / 10) + 1 else 0)"

text \<open>The fewest significant digits, at most 17, whose nearest decimal reads back as the number.\<close>

fun sig_digits :: "nat \<Rightarrow> nat \<Rightarrow> int \<Rightarrow> rat \<Rightarrow> int \<times> nat" where
  "sig_digits 0 n k x = (rhe (x / 10 powi (k - int n + 1)), n)"
| "sig_digits (Suc fuel) n k x =
     (let m = rhe (x / 10 powi (k - int n + 1))
      in if rnd (of_int m * 10 powi (k - int n + 1)) = Fin x then (m, n) else sig_digits fuel (Suc n) k x)"

fun drop_zeros :: "string \<Rightarrow> string" where
  "drop_zeros s = rev (dropWhile (\<lambda>c. c = CHR ''0'') (rev s))"

definition pos_repr :: "rat \<Rightarrow> string" where
  "pos_repr x =
     (let k = dexp 400 x; (m, n) = sig_digits 16 1 k x;
          all = digits m; e = k + (int (length all) - int n);
          ds = drop_zeros all
      in if - 4 \<le> e \<and> e < 16
         then (if e < 0 then ''0.'' @ replicate (nat (- e - 1)) (CHR ''0'') @ ds
               else let p = nat (e + 1); w = take p ds @ replicate (p - length ds) (CHR ''0'')
                    in w @ ''.'' @ (if drop p ds = [] then ''0'' else drop p ds))
         else [hd ds] @ (if tl ds = [] then [] else CHR ''.'' # tl ds) @ ''e'' @
              (if e < 0 then ''-'' else ''+'') @ pad_left 2 (digits \<bar>e\<bar>))"

fun flt_repr :: "flt \<Rightarrow> string" where
  "flt_repr (Fin x) = (if x = 0 then ''0.0'' else if x < 0 then CHR ''-'' # pos_repr (- x) else pos_repr x)"
| "flt_repr PosInf = ''inf''"
| "flt_repr NegInf = ''-inf''"
| "flt_repr NaN = ''nan''"

end
