(* ===== verification/Json.thy ===== *)
theory Json imports PyFloat begin

text \<open>
  The part of Python's \<open>json\<close> module the scripts use: \<open>loads\<close> as a descent over the text,
  \<open>dumps(v, indent=2)\<close>, and the operations of the values (comparison, truth, length, iteration,
  \<open>get\<close>). Text has code points below 256; a \<open>\u\<close> escape of a larger one makes the text unreadable
  here. An object is the list of its members in insertion order.
\<close>

section \<open>Values\<close>

datatype json = JNull | JBool bool | JInt int | JFloat flt | JStr string | JList "json list"
  | JObj "(string \<times> json) list"

text \<open>Assignment to a key keeps the position of the first.\<close>

fun obj_put :: "string \<Rightarrow> 'v \<Rightarrow> (string \<times> 'v) list \<Rightarrow> (string \<times> 'v) list" where
  "obj_put k v [] = [(k, v)]"
| "obj_put k v ((k', v') # ps) = (if k' = k then (k, v) # ps else (k', v') # obj_put k v ps)"

text \<open>\<open>v.get(k, default)\<close>\<close>

fun json_get :: "json \<Rightarrow> string \<Rightarrow> json \<Rightarrow> json res" where
  "json_get (JObj ps) k d = Inr (case map_of ps k of None \<Rightarrow> d | Some v \<Rightarrow> v)"
| "json_get v k d = Inl AttributeError"

fun json_num :: "json \<Rightarrow> flt option" where
  "json_num (JBool b) = Some (Fin (if b then 1 else 0))"
| "json_num (JInt i) = Some (Fin (of_int i))"
| "json_num (JFloat x) = Some x"
| "json_num v = None"

text \<open>\<open>v >= n\<close> for an integer \<open>n\<close>\<close>

definition json_ge :: "json \<Rightarrow> int \<Rightarrow> bool res" where
  "json_ge v n = (case json_num v of None \<Rightarrow> Inl TypeError
     | Some x \<Rightarrow> Inr (flt_less (Fin (of_int n)) x \<or> flt_eq x (Fin (of_int n))))"

text \<open>\<open>v == w\<close>: numbers by value, objects without regard to the order of their members\<close>

fun json_eq :: "json \<Rightarrow> json \<Rightarrow> bool" and list_eq :: "json list \<Rightarrow> json list \<Rightarrow> bool"
  and members_eq :: "(string \<times> json) list \<Rightarrow> (string \<times> json) list \<Rightarrow> bool" where
  "json_eq (JStr s) w = (w = JStr s)"
| "json_eq JNull w = (w = JNull)"
| "json_eq (JList vs) w = (case w of JList ws \<Rightarrow> list_eq vs ws | _ \<Rightarrow> False)"
| "json_eq (JObj ps) w = (case w of JObj qs \<Rightarrow> length ps = length qs \<and> members_eq ps qs | _ \<Rightarrow> False)"
| "json_eq (JBool b) w = (case json_num w of None \<Rightarrow> False | Some y \<Rightarrow> flt_eq (Fin (if b then 1 else 0)) y)"
| "json_eq (JInt i) w = (case json_num w of None \<Rightarrow> False | Some y \<Rightarrow> flt_eq (Fin (of_int i)) y)"
| "json_eq (JFloat x) w = (case json_num w of None \<Rightarrow> False | Some y \<Rightarrow> flt_eq x y)"
| "list_eq [] ws = (ws = [])"
| "list_eq (v # vs) ws = (case ws of [] \<Rightarrow> False | w # ws' \<Rightarrow> json_eq v w \<and> list_eq vs ws')"
| "members_eq [] qs = True"
| "members_eq ((k, v) # ps) qs =
     (case map_of qs k of None \<Rightarrow> False | Some w \<Rightarrow> json_eq v w \<and> members_eq ps qs)"

text \<open>\<open>bool(v)\<close>, \<open>len(v)\<close> and the values an iteration over \<open>v\<close> yields\<close>

fun json_true :: "json \<Rightarrow> bool" where
  "json_true JNull = False"
| "json_true (JBool b) = b"
| "json_true (JInt i) = (i \<noteq> 0)"
| "json_true (JFloat x) = (x \<noteq> Fin 0)"
| "json_true (JStr s) = (s \<noteq> [])"
| "json_true (JList vs) = (vs \<noteq> [])"
| "json_true (JObj ps) = (ps \<noteq> [])"

fun json_iter :: "json \<Rightarrow> json list res" where
  "json_iter (JStr s) = Inr (map (\<lambda>c. JStr [c]) s)"
| "json_iter (JList vs) = Inr vs"
| "json_iter (JObj ps) = Inr (map (\<lambda>p. JStr (fst p)) ps)"
| "json_iter v = Inl TypeError"

definition json_len :: "json \<Rightarrow> nat res" where
  "json_len v = rbind (json_iter v) (\<lambda>vs. Inr (length vs))"

section \<open>Reading\<close>

definition json_ws :: "char \<Rightarrow> bool" where
  "json_ws c = (c \<in> set [CHR 0x20, CHR 0x09, CHR 0x0A, CHR 0x0D])"

abbreviation skip_ws :: "string \<Rightarrow> string" where
  "skip_ws \<equiv> dropWhile json_ws"

definition hex_val :: "char \<Rightarrow> nat option" where
  "hex_val c = (let n = of_char c :: nat in
     if 48 \<le> n \<and> n \<le> 57 then Some (n - 48) else if 65 \<le> n \<and> n \<le> 70 then Some (n - 55)
     else if 97 \<le> n \<and> n \<le> 102 then Some (n - 87) else None)"

definition hex4 :: "string \<Rightarrow> nat option" where
  "hex4 ds = (if length ds \<noteq> 4 then None else
     foldl (\<lambda>a c. case (a, hex_val c) of (Some n, Some d) \<Rightarrow> Some (16 * n + d) | _ \<Rightarrow> None) (Some 0) ds)"

definition escapes :: "(char \<times> char) list" where
  "escapes = [(CHR 0x22, CHR 0x22), (CHR 0x5C, CHR 0x5C), (CHR ''/'', CHR ''/''), (CHR ''b'', CHR 0x08),
     (CHR ''f'', CHR 0x0C), (CHR ''n'', CHR 0x0A), (CHR ''r'', CHR 0x0D), (CHR ''t'', CHR 0x09)]"

text \<open>The characters of a string after the opening quote, and the text after the closing one.\<close>

function json_chars :: "string \<Rightarrow> (string \<times> string) option" where
  "json_chars s = (case s of [] \<Rightarrow> None
     | c # t \<Rightarrow>
        if c = CHR 0x22 then Some ([], t)
        else if of_char c < (32 :: nat) then None
        else if c \<noteq> CHR 0x5C then map_option (apfst ((#) c)) (json_chars t)
        else (case t of [] \<Rightarrow> None
          | e # u \<Rightarrow>
             if e = CHR ''u''
             then (case hex4 (take 4 u) of None \<Rightarrow> None
                | Some n \<Rightarrow> if n < 256 then map_option (apfst ((#) (char_of n))) (json_chars (drop 4 u)) else None)
             else (case map_of escapes e of None \<Rightarrow> None
                | Some x \<Rightarrow> map_option (apfst ((#) x)) (json_chars u))))"
  by pat_completeness auto
termination
  by (relation "measure length") auto

declare json_chars.simps [simp del]

text \<open>
  A number: integer part without leading zeros, optional fraction, optional exponent. Each part is
  returned with the text behind it.
\<close>

definition int_part :: "string \<Rightarrow> bool \<times> string \<times> string" where
  "int_part s =
     (let neg = (s \<noteq> [] \<and> hd s = CHR ''-''); t = (if neg then tl s else s);
          whole = (if t \<noteq> [] \<and> hd t = CHR ''0'' then ''0'' else takeWhile is_dig t)
      in (neg, whole, drop (length whole) t))"

definition frac_part :: "string \<Rightarrow> string \<times> string" where
  "frac_part s =
     (let frac = (if s \<noteq> [] \<and> hd s = CHR ''.'' then takeWhile is_dig (tl s) else [])
      in (frac, if frac = [] then s else drop (Suc (length frac)) s))"

definition exp_part :: "string \<Rightarrow> string \<times> bool \<times> string" where
  "exp_part s =
     (let isexp = (s \<noteq> [] \<and> hd s \<in> set ''eE'');
          sg = (if isexp \<and> tl s \<noteq> [] \<and> hd (tl s) \<in> set ''+-'' then [hd (tl s)] else []);
          ex = (if isexp then takeWhile is_dig (drop (Suc (length sg)) s) else [])
      in (ex, sg = ''-'', if ex = [] then s else drop (Suc (length sg + length ex)) s))"

definition json_number :: "string \<Rightarrow> (json \<times> string) option" where
  "json_number s =
     (let (neg, whole, r1) = int_part s; (frac, r2) = frac_part r1; (ex, eneg, r3) = exp_part r2;
          sign = (if neg then - 1 else 1)
      in if whole = [] then None
         else if frac = [] \<and> ex = [] then Some (JInt (sign * dec_val whole), r3)
         else Some (JFloat (rnd (of_int (sign * dec_val (whole @ frac)) *
                10 powi ((if eneg then - dec_val ex else dec_val ex) - int (length frac)))), r3))"

text \<open>The literal words and their values.\<close>

definition json_words :: "(string \<times> json) list" where
  "json_words = [(''null'', JNull), (''true'', JBool True), (''false'', JBool False), (''NaN'', JFloat NaN),
     (''Infinity'', JFloat PosInf), (''-Infinity'', JFloat NegInf)]"

definition json_scalar :: "string \<Rightarrow> (json \<times> string) option" where
  "json_scalar s = (case filter (\<lambda>w. prefix (fst w) s) json_words of
     (w, v) # _ \<Rightarrow> Some (v, drop (length w) s) | [] \<Rightarrow> json_number s)"

text \<open>Every call below takes at least one character, so fuel above the length of the text is enough.\<close>

fun json_value :: "nat \<Rightarrow> string \<Rightarrow> (json \<times> string) option"
  and json_items :: "nat \<Rightarrow> string \<Rightarrow> (json list \<times> string) option"
  and json_members :: "nat \<Rightarrow> string \<Rightarrow> (string \<times> json) list \<Rightarrow> ((string \<times> json) list \<times> string) option" where
  "json_value 0 s = None"
| "json_value (Suc n) s =
     (case s of [] \<Rightarrow> None
      | c # t \<Rightarrow>
         if c = CHR 0x22 then map_option (apfst JStr) (json_chars t)
         else if c = CHR ''['' then
           (case skip_ws t of [] \<Rightarrow> None
            | d # u \<Rightarrow> if d = CHR '']'' then Some (JList [], u)
                      else map_option (apfst JList) (json_items n (d # u)))
         else if c = CHR ''{'' then
           (case skip_ws t of [] \<Rightarrow> None
            | d # u \<Rightarrow> if d = CHR ''}'' then Some (JObj [], u)
                      else map_option (apfst JObj) (json_members n (d # u) []))
         else json_scalar s)"
| "json_items 0 s = None"
| "json_items (Suc n) s =
     (case json_value n s of None \<Rightarrow> None
      | Some (v, t) \<Rightarrow>
         (case skip_ws t of [] \<Rightarrow> None
          | c # u \<Rightarrow> if c = CHR '']'' then Some ([v], u)
                    else if c = CHR '','' then map_option (apfst ((#) v)) (json_items n (skip_ws u))
                    else None))"
| "json_members 0 s ps = None"
| "json_members (Suc n) s ps =
     (case s of [] \<Rightarrow> None
      | q # t \<Rightarrow> if q \<noteq> CHR 0x22 then None else
         (case json_chars t of None \<Rightarrow> None
          | Some (k, u) \<Rightarrow>
             (case skip_ws u of [] \<Rightarrow> None
              | c # w \<Rightarrow> if c \<noteq> CHR '':'' then None else
                 (case json_value n (skip_ws w) of None \<Rightarrow> None
                  | Some (v, x) \<Rightarrow>
                     (case skip_ws x of [] \<Rightarrow> None
                      | d # y \<Rightarrow> if d = CHR ''}'' then Some (obj_put k v ps, y)
                                else if d = CHR '','' then json_members n (skip_ws y) (obj_put k v ps)
                                else None)))))"

text \<open>\<open>json.loads(s)\<close>; \<open>None\<close> is \<open>JSONDecodeError\<close>.\<close>

definition json_loads :: "string \<Rightarrow> json option" where
  "json_loads s = (case json_value (2 * length s + 2) (skip_ws s) of None \<Rightarrow> None
     | Some (v, t) \<Rightarrow> if skip_ws t = [] then Some v else None)"

declare dropWhile_eq_Nil_conv [simp del]


section \<open>The fuel is enough\<close>

lemma skip_ws_length: "length (skip_ws s) \<le> length s"
  by (rule length_dropWhile_le)

lemma json_chars_shorter: "json_chars s = Some (u, t) \<Longrightarrow> length t < length s"
proof (induction "length s" arbitrary: s u t rule: less_induct)
  case less
  have IH: "length t' < length x" if "json_chars x = Some (u', t')" "length x < length s" for x u' t'
    using less.hyps [OF that(2) that(1)] .
  obtain c s' where s: "s = c # s'" using less.prems by (cases s) (simp_all add: json_chars.simps [of "[]"])
  consider "t = s'" | u' where "json_chars s' = Some (u', t)" | e y u' where "s' = e # y" "json_chars (drop 4 y) = Some (u', t)"
    | e y u' where "s' = e # y" "json_chars y = Some (u', t)"
    using less.prems unfolding s json_chars.simps [of "c # s'"]
    by (auto split: list.splits if_splits option.splits)
  then show ?case
  proof cases
    case 1
    then show ?thesis by (simp add: s)
  next
    case 2
    then show ?thesis using IH [of s'] by (simp add: s)
  next
    case 3
    then show ?thesis using IH [of "drop 4 y"] by (fastforce simp: s)
  next
    case 4
    then show ?thesis using IH [of y] by (fastforce simp: s)
  qed
qed

lemma int_part_shorter: "int_part s = (neg, whole, r) \<Longrightarrow> whole \<noteq> [] \<Longrightarrow> length r < length s"
  by (cases s) (auto simp: int_part_def Let_def split: if_splits)

lemma frac_part_shorter: "frac_part s = (f, r) \<Longrightarrow> length r \<le> length s"
  by (auto simp: frac_part_def Let_def split: if_splits)

lemma exp_part_shorter: "exp_part s = (e, b, r) \<Longrightarrow> length r \<le> length s"
  unfolding exp_part_def Let_def prod.inject by (elim conjE) (drule sym, auto split: if_splits)

lemma json_number_shorter: "json_number s = Some (v, t) \<Longrightarrow> length t < length s"
proof -
  assume n: "json_number s = Some (v, t)"
  obtain neg whole r1 where i: "int_part s = (neg, whole, r1)" by (metis prod_cases3)
  obtain frac r2 where f: "frac_part r1 = (frac, r2)" by fastforce
  obtain ex eneg r3 where e: "exp_part r2 = (ex, eneg, r3)" by (metis prod_cases3)
  have "whole \<noteq> []" "t = r3" using n by (auto simp: json_number_def i f e Let_def split: if_splits)
  then show ?thesis using int_part_shorter [OF i] frac_part_shorter [OF f] exp_part_shorter [OF e] by simp
qed

lemma json_words_nonempty: "\<forall>w \<in> set json_words. fst w \<noteq> []"
  by (simp add: json_words_def)

lemma json_scalar_shorter: "json_scalar s = Some (v, t) \<Longrightarrow> length t < length s"
proof -
  assume a: "json_scalar s = Some (v, t)"
  show ?thesis
  proof (cases "filter (\<lambda>w. prefix (fst w) s) json_words")
    case Nil
    then show ?thesis using a json_number_shorter by (simp add: json_scalar_def)
  next
    case (Cons w ws)
    then have "w \<in> set (filter (\<lambda>w. prefix (fst w) s) json_words)" by simp
    then have "w \<in> set json_words" "prefix (fst w) s" by simp_all
    then have "fst w \<noteq> []" "s \<noteq> []" using json_words_nonempty by auto
    moreover have "t = drop (length (fst w)) s" using a Cons by (cases w) (simp add: json_scalar_def)
    ultimately show ?thesis by (cases "fst w") (cases s; simp)+
  qed
qed

lemma json_shorter:
  "(\<forall>s v t. json_value n s = Some (v, t) \<longrightarrow> length t < length s) \<and>
   (\<forall>s vs t. json_items n s = Some (vs, t) \<longrightarrow> length t < length s) \<and>
   (\<forall>s ps qs t. json_members n s ps = Some (qs, t) \<longrightarrow> length t < length s)"
proof (induction n)
  case (Suc n)
  have v: "length t < length s" if a: "json_value (Suc n) s = Some (v, t)" for s v t
  proof -
    obtain c s' where s: "s = c # s'" using a by (cases s) simp_all
    consider u where "json_chars s' = Some (u, t)" | d u where "skip_ws s' = d # u" "t = u"
      | d u vs where "skip_ws s' = d # u" "json_items n (d # u) = Some (vs, t)"
      | d u ps where "skip_ws s' = d # u" "json_members n (d # u) [] = Some (ps, t)"
      | "json_scalar s = Some (v, t)"
      using a unfolding s by (auto split: list.splits if_splits)
    then show ?thesis
    proof cases
      case 1
      then show ?thesis using json_chars_shorter by (fastforce simp: s)
    next
      case 2
      then show ?thesis using skip_ws_length [of s'] by (simp add: s)
    next
      case 3
      then have "length t < length (d # u)" using Suc.IH by blast
      then show ?thesis using 3(1) skip_ws_length [of s'] by (simp add: s)
    next
      case 4
      then have "length t < length (d # u)" using Suc.IH by blast
      then show ?thesis using 4(1) skip_ws_length [of s'] by (simp add: s)
    next
      case 5
      then show ?thesis by (rule json_scalar_shorter)
    qed
  qed
  moreover have "length t < length s" if a: "json_items (Suc n) s = Some (vs, t)" for s vs t
  proof -
    from a obtain v x where x: "json_value n s = Some (v, x)" by (auto split: option.splits)
    obtain c u where u: "skip_ws x = c # u" using a x by (auto split: list.splits)
    have l: "length x < length s" using Suc.IH x by blast
    have k: "length u < length x" using skip_ws_length [of x] u by simp
    consider "t = u" | ws where "json_items n (skip_ws u) = Some (ws, t)" using a x u by (auto split: if_splits)
    then show ?thesis
    proof cases
      case 1
      then show ?thesis using l k by simp
    next
      case 2
      then have "length t < length (skip_ws u)" using Suc.IH by blast
      then show ?thesis using l k skip_ws_length [of u] by simp
    qed
  qed
  moreover have "length t < length s" if a: "json_members (Suc n) s ps = Some (qs, t)" for s ps qs t
  proof -
    obtain q s' where s: "s = q # s'" using a by (cases s) simp_all
    from a obtain k u where k: "json_chars s' = Some (k, u)" unfolding s by (auto split: if_splits option.splits)
    from a k obtain c w where c: "skip_ws u = c # w" unfolding s by (auto split: if_splits list.splits)
    from a k c obtain v x where x: "json_value n (skip_ws w) = Some (v, x)" unfolding s by (auto split: if_splits option.splits)
    from a k c x obtain d y where y: "skip_ws x = d # y" unfolding s by (auto split: if_splits list.splits)
    have l: "length x < length (skip_ws w)" using Suc.IH x by blast
    have m: "length y < length s"
      using json_chars_shorter [OF k] skip_ws_length [of u] skip_ws_length [of w] skip_ws_length [of x] c y l s by simp
    consider "t = y" | rs qs' where "json_members n (skip_ws y) rs = Some (qs', t)"
      using a k c x y unfolding s by (auto split: if_splits)
    then show ?thesis
    proof cases
      case 1
      then show ?thesis using m by simp
    next
      case 2
      then have "length t < length (skip_ws y)" using Suc.IH by blast
      then show ?thesis using m skip_ws_length [of y] by simp
    qed
  qed
  ultimately show ?case by blast
qed simp

text \<open>Beyond twice the length of the text, more fuel does not change the result.\<close>

lemma json_fuel:
  "(\<forall>s m. 2 * length s < n \<longrightarrow> 2 * length s < m \<longrightarrow> json_value n s = json_value m s) \<and>
   (\<forall>s m. 2 * length s + 1 < n \<longrightarrow> 2 * length s + 1 < m \<longrightarrow> json_items n s = json_items m s) \<and>
   (\<forall>s m ps. 2 * length s + 1 < n \<longrightarrow> 2 * length s + 1 < m \<longrightarrow> json_members n s ps = json_members m s ps)"
proof (induction n)
  case (Suc n)
  note iv = Suc.IH [THEN conjunct1, rule_format]
    and ii = Suc.IH [THEN conjunct2, THEN conjunct1, rule_format]
    and im = Suc.IH [THEN conjunct2, THEN conjunct2, rule_format]
  have v: "json_value (Suc n) s = json_value m s" if l: "2 * length s < Suc n" "2 * length s < m" for s m
  proof -
    obtain k where k: "m = Suc k" using l by (cases m) auto
    show ?thesis
    proof (cases s)
      case (Cons c t)
      have "json_items n (d # u) = json_items k (d # u) \<and> json_members n (d # u) ps = json_members k (d # u) ps"
        if "skip_ws t = d # u" for d u ps
      proof -
        have "length (d # u) \<le> length t" using skip_ws_length [of t] that by simp
        then have "2 * length (d # u) + 1 < n" "2 * length (d # u) + 1 < k" using l unfolding k Cons by simp_all
        then show ?thesis by (intro conjI ii im)
      qed
      then have "(case skip_ws t of [] \<Rightarrow> None | d # u \<Rightarrow> if d = CHR '']'' then Some (JList [], u)
                      else map_option (apfst JList) (json_items n (d # u))) =
          (case skip_ws t of [] \<Rightarrow> None | d # u \<Rightarrow> if d = CHR '']'' then Some (JList [], u)
                      else map_option (apfst JList) (json_items k (d # u)))"
        "(case skip_ws t of [] \<Rightarrow> None | d # u \<Rightarrow> if d = CHR ''}'' then Some (JObj [], u)
                      else map_option (apfst JObj) (json_members n (d # u) [])) =
          (case skip_ws t of [] \<Rightarrow> None | d # u \<Rightarrow> if d = CHR ''}'' then Some (JObj [], u)
                      else map_option (apfst JObj) (json_members k (d # u) []))"
        by (cases "skip_ws t"; simp)+
      then show ?thesis unfolding k Cons json_value.simps list.case by (simp only:)
    qed (simp add: k)
  qed
  moreover have "json_items (Suc n) s = json_items m s" if l: "2 * length s + 1 < Suc n" "2 * length s + 1 < m" for s m
  proof -
    obtain k where k: "m = Suc k" using l by (cases m) auto
    have e: "json_value n s = json_value k s" using l unfolding k by (intro iv) simp_all
    have "json_items n (skip_ws u) = json_items k (skip_ws u)" if "json_value k s = Some (v, t)" "skip_ws t = c # u" for v t c u
    proof -
      have "length t < length s" using json_shorter [of k, THEN conjunct1] that(1) by blast
      then have "length (skip_ws u) < length s" using skip_ws_length [of t] skip_ws_length [of u] that(2) by simp
      then have "2 * length (skip_ws u) + 1 < n" "2 * length (skip_ws u) + 1 < k" using l unfolding k by simp_all
      then show ?thesis by (rule ii)
    qed
    then show ?thesis unfolding k by (auto simp: e split: option.split list.split)
  qed
  moreover have "json_members (Suc n) s ps = json_members m s ps" if l: "2 * length s + 1 < Suc n" "2 * length s + 1 < m" for s m ps
  proof -
    obtain k where k: "m = Suc k" using l by (cases m) auto
    show ?thesis
    proof (cases s)
      case (Cons q t)
      have a: "json_value n (skip_ws w) = json_value k (skip_ws w)"
        if "json_chars t = Some (x, u)" "skip_ws u = c # w" for x u c w
      proof -
        have "length (skip_ws w) < length s"
          using json_chars_shorter [OF that(1)] skip_ws_length [of u] skip_ws_length [of w] that(2) by (simp add: Cons)
        then have "2 * length (skip_ws w) < n" "2 * length (skip_ws w) < k" using l unfolding k by simp_all
        then show ?thesis by (rule iv)
      qed
      have b: "json_members n (skip_ws y) rs = json_members k (skip_ws y) rs"
        if "json_chars t = Some (x, u)" "skip_ws u = c # w" "json_value k (skip_ws w) = Some (v, z)" "skip_ws z = d # y" for x u c w v z d y rs
      proof -
        have "length z < length (skip_ws w)" using json_shorter [of k, THEN conjunct1] that(3) by blast
        then have "length (skip_ws y) < length s"
          using json_chars_shorter [OF that(1)] skip_ws_length [of u] skip_ws_length [of w] skip_ws_length [of z] skip_ws_length [of y] that(2,4)
          by (simp add: Cons)
        then have "2 * length (skip_ws y) + 1 < n" "2 * length (skip_ws y) + 1 < k" using l unfolding k by simp_all
        then show ?thesis by (rule im)
      qed
      show ?thesis unfolding k Cons by (auto simp: a b split: option.split list.split)
    qed (simp add: k)
  qed
  ultimately show ?case by (intro conjI allI impI) (assumption | rule v)+
qed simp

lemma json_loads_fuel:
  "2 * length s + 2 \<le> n \<Longrightarrow> json_loads s = (case json_value n (skip_ws s) of None \<Rightarrow> None
     | Some (v, t) \<Rightarrow> if skip_ws t = [] then Some v else None)"
proof -
  assume n: "2 * length s + 2 \<le> n"
  have "2 * length (skip_ws s) < 2 * length s + 2" "2 * length (skip_ws s) < n" using skip_ws_length [of s] n by simp_all
  then have "json_value (2 * length s + 2) (skip_ws s) = json_value n (skip_ws s)" using json_fuel by blast
  then show ?thesis unfolding json_loads_def by simp
qed

declare dropWhile_eq_Nil_conv [simp]

section \<open>Writing\<close>

definition hex_digit :: "nat \<Rightarrow> char" where
  "hex_digit n = ''0123456789abcdef'' ! (n mod 16)"

definition json_esc :: "char \<Rightarrow> string" where
  "json_esc c =
     (if c = CHR 0x22 then [CHR 0x5C, CHR 0x22] else if c = CHR 0x5C then [CHR 0x5C, CHR 0x5C]
      else if c = CHR 0x0A then [CHR 0x5C, CHR ''n''] else if c = CHR 0x0D then [CHR 0x5C, CHR ''r'']
      else if c = CHR 0x09 then [CHR 0x5C, CHR ''t''] else if c = CHR 0x08 then [CHR 0x5C, CHR ''b'']
      else if c = CHR 0x0C then [CHR 0x5C, CHR ''f'']
      else (let n = of_char c :: nat
            in if 32 \<le> n \<and> n \<le> 126 then [c]
               else CHR 0x5C # ''u00'' @ [hex_digit (n div 16), hex_digit n]))"

definition json_str :: "string \<Rightarrow> string" where
  "json_str s = CHR 0x22 # concat (map json_esc s) @ [CHR 0x22]"

fun json_flt :: "flt \<Rightarrow> string" where
  "json_flt PosInf = ''Infinity''"
| "json_flt NegInf = ''-Infinity''"
| "json_flt NaN = ''NaN''"
| "json_flt x = flt_repr x"

text \<open>A bracketed list of parts at an indentation.\<close>

definition json_block :: "char \<Rightarrow> char \<Rightarrow> nat \<Rightarrow> string list \<Rightarrow> string" where
  "json_block l r ind parts =
     (if parts = [] then [l, r]
      else [l] @ [nl] @ replicate (ind + 2) (CHR '' '') @
           py_join ('','' @ [nl] @ replicate (ind + 2) (CHR '' '')) parts @
           [nl] @ replicate ind (CHR '' '') @ [r])"

fun json_dumps :: "nat \<Rightarrow> json \<Rightarrow> string" and dump_items :: "nat \<Rightarrow> json list \<Rightarrow> string list"
  and dump_members :: "nat \<Rightarrow> (string \<times> json) list \<Rightarrow> string list" where
  "json_dumps ind JNull = ''null''"
| "json_dumps ind (JBool b) = (if b then ''true'' else ''false'')"
| "json_dumps ind (JInt i) = int_str i"
| "json_dumps ind (JFloat x) = json_flt x"
| "json_dumps ind (JStr s) = json_str s"
| "json_dumps ind (JList vs) = json_block (CHR ''['') (CHR '']'') ind (dump_items (ind + 2) vs)"
| "json_dumps ind (JObj ps) = json_block (CHR ''{'') (CHR ''}'') ind (dump_members (ind + 2) ps)"
| "dump_items ind [] = []"
| "dump_items ind (v # vs) = json_dumps ind v # dump_items ind vs"
| "dump_members ind [] = []"
| "dump_members ind ((k, v) # ps) = (json_str k @ '': '' @ json_dumps ind v) # dump_members ind ps"

end
