(* ===== verification/BoardTest.thy ===== *)
theory BoardTest imports Json begin

text \<open>
  The bring-up tests of the board (\<open>tools/board-test\<close>): a state of what a run prints and which
  result files it leaves, the helpers of \<open>board_ssh.py\<close>, and the five scripts \<open>serial_console.py\<close>,
  \<open>flash_fpga.py\<close>, \<open>rf_loopback.py\<close>, \<open>gps_lock.py\<close> and \<open>fhss_onair.py\<close>. The board, the serial line,
  the programming tools and the clock are a record of functions on an unknown world.
\<close>

section \<open>Runs\<close>

text \<open>
  A computation takes a state to a result and the next state; \<open>None\<close> means that a loop has used up
  the fuel it was given and is still running.
\<close>

type_synonym ('s, 'a) act = "'s \<Rightarrow> ('a res \<times> 's) option"

definition aret :: "'a \<Rightarrow> ('s, 'a) act" where
  "aret x = (\<lambda>s. Some (Inr x, s))"

definition abind :: "('s, 'a) act \<Rightarrow> ('a \<Rightarrow> ('s, 'b) act) \<Rightarrow> ('s, 'b) act" where
  "abind m f = (\<lambda>s. case m s of None \<Rightarrow> None
     | Some (Inl e, t) \<Rightarrow> Some (Inl e, t) | Some (Inr x, t) \<Rightarrow> f x t)"

definition of_res :: "'a res \<Rightarrow> ('s, 'a) act" where
  "of_res r = (\<lambda>s. Some (r, s))"

text \<open>The lines printed so far, the files of the directory \<open>results\<close>, and the world outside.\<close>

record 'w run =
  world :: 'w
  printed :: "string list"
  result_files :: "string \<Rightarrow> string option"

text \<open>
  What is outside of the scripts: \<open>time.time\<close>, \<open>time.monotonic\<close>, \<open>time.sleep\<close>, \<open>subprocess.run\<close>
  (command and time limit to status, output and error output), the paramiko client (connection to a
  host with a key, a command on a connected host with its time limit) and the serial port (opening,
  and reading at most so many bytes, as text).
\<close>

record 'w board =
  clock :: "'w \<Rightarrow> flt \<times> 'w"
  monotonic :: "'w \<Rightarrow> flt \<times> 'w"
  nap :: "int \<Rightarrow> 'w \<Rightarrow> 'w"
  spawn :: "string list \<Rightarrow> int option \<Rightarrow> 'w \<Rightarrow> (int \<times> string \<times> string) res \<times> 'w"
  ssh_connect :: "string \<Rightarrow> string option \<Rightarrow> 'w \<Rightarrow> unit res \<times> 'w"
  ssh_exec :: "string \<Rightarrow> string \<Rightarrow> int \<Rightarrow> 'w \<Rightarrow> (int \<times> string \<times> string) res \<times> 'w"
  serial_open :: "string \<Rightarrow> int \<Rightarrow> 'w \<Rightarrow> unit res \<times> 'w"
  serial_read :: "nat \<Rightarrow> 'w \<Rightarrow> string res \<times> 'w"

definition call :: "('w \<Rightarrow> 'a res \<times> 'w) \<Rightarrow> ('w run, 'a) act" where
  "call f = (\<lambda>s. let (r, w) = f (world s) in Some (r, s\<lparr>world := w\<rparr>))"

definition ask :: "('w \<Rightarrow> 'a \<times> 'w) \<Rightarrow> ('w run, 'a) act" where
  "ask f = call (\<lambda>w. let (x, w') = f w in (Inr x, w'))"

section \<open>Helpers of board_ssh.py\<close>

record ssh =
  host :: string
  key_path :: "string option"
  dry_run :: bool

definition BoardSSH :: "'w board \<Rightarrow> string \<Rightarrow> string option \<Rightarrow> bool \<Rightarrow> ('w run, ssh) act" where
  "BoardSSH os h key dry =
     (let this = \<lparr>host = h, key_path = key, dry_run = dry\<rparr>
      in if dry then aret this
         else abind (call (ssh_connect os h (case key of Some k \<Rightarrow> if k = [] then None else Some k | None \<Rightarrow> None)))
                (\<lambda>_. aret this))"

definition mocks :: "(string \<times> (int \<times> string \<times> string)) list" where
  "mocks =
    [(''ls /dev/uio0'', 0, ''/dev/uio0'' @ [nl], ''''),
     (''gpspipe -w -n'', 0, ''{'' @ [CHR 0x22] @ ''class'' @ [CHR 0x22] @ '':'' @ [CHR 0x22] @ ''TPV'' @ [CHR 0x22] @
        '','' @ [CHR 0x22] @ ''mode'' @ [CHR 0x22] @ '':3,'' @ [CHR 0x22] @ ''lat'' @ [CHR 0x22] @ '':60.1,'' @
        [CHR 0x22] @ ''lon'' @ [CHR 0x22] @ '':24.9}'' @ [nl], ''''),
     (''cat /sys/class/pps/pps0/assert'', 0,
        ''1710000000.000000001#1'' @ [nl] @ ''1710000001.000000002#2'' @ [nl], '''')]"

definition dry_run_cmd :: "string \<Rightarrow> int \<times> string \<times> string" where
  "dry_run_cmd cmd = (case filter (\<lambda>m. contains (fst m) cmd) mocks of
     m # _ \<Rightarrow> snd m | [] \<Rightarrow> (0, ''[dry-run] '' @ cmd @ [nl], ''''))"

definition run_cmd :: "'w board \<Rightarrow> ssh \<Rightarrow> string \<Rightarrow> int \<Rightarrow> ('w run, int \<times> string \<times> string) act" where
  "run_cmd os ssh cmd timeout =
     (if dry_run ssh then aret (dry_run_cmd cmd) else call (ssh_exec os (host ssh) cmd timeout))"

definition print_line :: "string \<Rightarrow> ('w run, unit) act" where
  "print_line l = (\<lambda>s. Some (Inr (), s\<lparr>printed := printed s @ [l]\<rparr>))"

definition tap_line :: "bool \<Rightarrow> string \<Rightarrow> string" where
  "tap_line passed script_name = (if passed then ''ok'' else ''not ok'') @ '' - '' @ script_name"

text \<open>The dictionary that is written; the details may not use its first three keys.\<close>

definition result_json :: "string \<Rightarrow> bool \<Rightarrow> flt \<Rightarrow> (string \<times> json) list \<Rightarrow> json" where
  "result_json script_name passed stamp details =
     JObj (fold (\<lambda>(k, v). obj_put k v) details
       [(''script'', JStr script_name), (''passed'', JBool passed), (''timestamp'', JFloat stamp)])"

definition write_result ::
    "'w board \<Rightarrow> string \<Rightarrow> bool \<Rightarrow> (string \<times> json) list \<Rightarrow> ('w run, unit) act" where
  "write_result os script_name passed details =
     abind (ask (clock os)) (\<lambda>stamp.
     abind (\<lambda>s. Some (Inr (), s\<lparr>result_files := (result_files s)(script_name \<mapsto>
              json_dumps 0 (result_json script_name passed stamp details))\<rparr>)) (\<lambda>_.
     print_line (tap_line passed script_name)))"

text \<open>The status a finished test script exits with.\<close>

definition exit_of :: "bool \<Rightarrow> int" where
  "exit_of passed = (if passed then 0 else 1)"

section \<open>serial_console.py\<close>

definition uboot_prompt :: string where "uboot_prompt = ''ZynqMP>''"
definition linux_prompt :: string where "linux_prompt = ''login:''"
definition boot_timeout :: int where "boot_timeout = 120"

record console =
  uboot_seen :: bool
  linux_seen :: bool
  buf :: string

text \<open>
  The reading loop, from the time of its deadline. An exception of the port ends it; the flags that
  were set stay set.
\<close>

fun console_loop :: "'w board \<Rightarrow> flt \<Rightarrow> nat \<Rightarrow> console \<Rightarrow> 'w \<Rightarrow> (string option \<times> console \<times> 'w) option" where
  "console_loop os deadline 0 c w = None"
| "console_loop os deadline (Suc fuel) c w =
     (let (t, w1) = monotonic os w
      in if \<not> flt_less t deadline then Some (None, c, w1)
         else (case serial_read os 256 w1 of
             (Inl e, w2) \<Rightarrow> Some (Some (case e of Raised m \<Rightarrow> m | _ \<Rightarrow> []), c, w2)
           | (Inr chunk, w2) \<Rightarrow>
              (let b = buf c @ chunk;
                   c1 = c\<lparr>buf := b, uboot_seen := (uboot_seen c \<or> contains uboot_prompt b)\<rparr>
               in if contains linux_prompt b then Some (None, c1\<lparr>linux_seen := True\<rparr>, w2)
                  else console_loop os deadline fuel c1 w2)))"

text \<open>\<open>buf[-500:]\<close>\<close>

definition last500 :: "string \<Rightarrow> string" where
  "last500 s = drop (length s - 500) s"

definition console_details :: "console \<Rightarrow> string \<Rightarrow> (string \<times> json) list" where
  "console_details c msg = [(''uboot_seen'', JBool (uboot_seen c)), (''linux_seen'', JBool (linux_seen c)), (''log'', JStr msg)]"

definition console_read ::
    "'w board \<Rightarrow> nat \<Rightarrow> string \<Rightarrow> int \<Rightarrow> 'w \<Rightarrow> (string option \<times> console \<times> 'w) option" where
  "console_read os fuel port baud w =
     (let c0 = \<lparr>uboot_seen = False, linux_seen = False, buf = []\<rparr>
      in case serial_open os port baud w of
           (Inl e, w1) \<Rightarrow> Some (Some (case e of Raised m \<Rightarrow> m | _ \<Rightarrow> []), c0, w1)
         | (Inr _, w1) \<Rightarrow>
            (let (t, w2) = monotonic os w1
             in console_loop os (flt_add t (Fin (of_int boot_timeout))) fuel c0 w2))"

definition run_live :: "'w board \<Rightarrow> nat \<Rightarrow> string \<Rightarrow> int \<Rightarrow> ('w run, bool) act" where
  "run_live os fuel port baud =
     abind (\<lambda>s. case console_read os fuel port baud (world s) of None \<Rightarrow> None
              | Some (err, c, w) \<Rightarrow> Some (Inr (err, c), s\<lparr>world := w\<rparr>)) (\<lambda>(err, c).
     let passed = (err = None \<and> uboot_seen c \<and> linux_seen c);
         msg = (case err of None \<Rightarrow> last500 (buf c) | Some m \<Rightarrow> m)
     in abind (write_result os ''serial_console'' passed (console_details c msg)) (\<lambda>_. aret passed))"

definition run_dry :: "'w board \<Rightarrow> ('w run, unit) act" where
  "run_dry os = write_result os ''serial_console'' True
     [(''log'', JStr ''dry-run: U-Boot and Linux boot simulated''), (''uboot_seen'', JBool True), (''linux_seen'', JBool True)]"

definition serial_console :: "'w board \<Rightarrow> nat \<Rightarrow> string \<Rightarrow> int \<Rightarrow> bool \<Rightarrow> ('w run, int) act" where
  "serial_console os fuel port baud dry =
     (if dry then abind (run_dry os) (\<lambda>_. aret 0)
      else abind (run_live os fuel port baud) (\<lambda>ok. aret (exit_of ok)))"

section \<open>flash_fpga.py\<close>

definition tool_output :: "(int \<times> string \<times> string) \<Rightarrow> bool \<times> string" where
  "tool_output r = (let (rc, out, err) = r in (rc = 0, out @ err))"

definition flash_with_xsct :: "'w board \<Rightarrow> string \<Rightarrow> bool \<Rightarrow> ('w run, bool \<times> string) act" where
  "flash_with_xsct os bitstream_path dry =
     (if dry then aret (True, ''[dry-run] xsct flash simulated'')
      else let tcl = ''connect; targets -set -filter {name =~ '' @ [CHR 0x22] @ ''arm*'' @ [CHR 0x22] @ ''}; '' @
                     ''fpga '' @ bitstream_path @ ''; disconnect; exit''
           in abind (call (spawn os [''xsct'', ''-eval'', tcl] (Some 120))) (\<lambda>r. aret (tool_output r)))"

definition flash_with_xc3sprog :: "'w board \<Rightarrow> string \<Rightarrow> bool \<Rightarrow> ('w run, bool \<times> string) act" where
  "flash_with_xc3sprog os bitstream_path dry =
     (if dry then aret (True, ''[dry-run] xc3sprog flash simulated'')
      else abind (call (spawn os [''xc3sprog'', ''-c'', ''jtaghs1_fast'', bitstream_path] (Some 120)))
             (\<lambda>r. aret (tool_output r)))"

definition verify_uio0 :: "'w board \<Rightarrow> ssh \<Rightarrow> ('w run, bool) act" where
  "verify_uio0 os ssh = abind (run_cmd os ssh ''ls /dev/uio0'' 60)
     (\<lambda>(rc, out, _). aret (rc = 0 \<and> contains ''/dev/uio0'' out))"

definition flash_fpga ::
    "'w board \<Rightarrow> string \<Rightarrow> string option \<Rightarrow> bool \<Rightarrow> string \<Rightarrow> string \<Rightarrow> ('w run, int) act" where
  "flash_fpga os h key dry bitstream tool =
     abind (if tool = ''xsct'' then flash_with_xsct os bitstream dry else flash_with_xc3sprog os bitstream dry)
     (\<lambda>(ok, msg).
       if \<not> ok then abind (write_result os ''flash_fpga'' False [(''error'', JStr msg)]) (\<lambda>_. aret 1)
       else abind (BoardSSH os h key dry) (\<lambda>ssh.
            abind (verify_uio0 os ssh) (\<lambda>uio_ok.
            let passed = (ok \<and> uio_ok)
            in abind (write_result os ''flash_fpga'' passed
                 [(''tool'', JStr tool), (''uio0_present'', JBool uio_ok), (''log'', JStr (take 500 msg))])
               (\<lambda>_. aret (exit_of passed)))))"

section \<open>rf_loopback.py\<close>

definition evm_threshold :: flt where "evm_threshold = Fin 5"
definition num_symbols :: nat where "num_symbols = 4096"

text \<open>
  Complex numbers are pairs of binary64 values; their modulus is the correctly rounded hypotenuse,
  \<open>x ** 2\<close> the correctly rounded square, and \<open>sum\<close> adds from the left. The sizes these values have
  stay far from overflow and underflow, so the rounding of \<open>PyNum\<close> is the whole of the arithmetic.
\<close>

type_synonym cplx = "rat \<times> rat"

definition cabs :: "cplx \<Rightarrow> rat" where
  "cabs z = py_hypot (fst z) (snd z)"

definition cadd :: "cplx \<Rightarrow> cplx \<Rightarrow> cplx" where
  "cadd a b = (fadd (fst a) (fst b), fadd (snd a) (snd b))"

definition csub :: "cplx \<Rightarrow> cplx \<Rightarrow> cplx" where
  "csub a b = (fsub (fst a) (fst b), fsub (snd a) (snd b))"

definition fsum :: "rat list \<Rightarrow> rat" where
  "fsum xs = foldl fadd 0 xs"

definition sqr :: "rat \<Rightarrow> rat" where
  "sqr x = fmul x x"

definition qpsk_points :: "cplx list" where
  "qpsk_points = [(1, 1), (-1, 1), (-1, -1), (1, -1)]"

definition generate_qpsk_symbols :: "nat \<Rightarrow> cplx list" where
  "generate_qpsk_symbols n =
     map (\<lambda>i. let z = qpsk_points ! (i mod 4) in (fdiv (fst z) (fl_sqrt 2), fdiv (snd z) (fl_sqrt 2))) [0..<n]"

definition mean_sq :: "rat list \<Rightarrow> nat \<Rightarrow> rat res" where
  "mean_sq xs n = (if n = 0 then Inl ZeroDivisionError else Inr (fdiv (fsum (map sqr xs)) (of_nat n)))"

definition compute_evm :: "cplx list \<Rightarrow> cplx list \<Rightarrow> rat res" where
  "compute_evm tx rx =
     (if length tx \<noteq> length rx then Inr 100
      else rbind (mean_sq (map cabs tx) (length tx)) (\<lambda>ref.
           rbind (mean_sq (map2 (\<lambda>t r. cabs (csub t r)) tx rx) (length tx)) (\<lambda>err.
           let rms_ref = fl_sqrt ref; rms_err = fl_sqrt err
           in if rms_ref = 0 then Inl ZeroDivisionError else Inr (fmul (fdiv rms_err rms_ref) 100))))"

definition loopback_script :: string where
  "loopback_script = unl
    [''python3 -c '' @ [CHR 0x22],
     ''import iio, math, struct'',
     ''ctx = iio.Context()'',
     ''phy = ctx.find_device('' @ [CHR 0x27] @ ''ad9361-phy'' @ [CHR 0x27] @ '')'',
     ''rx  = ctx.find_device('' @ [CHR 0x27] @ ''cf-ad9361-lpc'' @ [CHR 0x27] @ '')'',
     ''phy.find_channel('' @ [CHR 0x27] @ ''altvoltage0'' @ [CHR 0x27] @ '').attrs['' @ [CHR 0x27] @ ''frequency'' @ [CHR 0x27] @ ''].value = '' @ [CHR 0x27] @ ''300000000'' @ [CHR 0x27],
     ''phy.find_channel('' @ [CHR 0x27] @ ''altvoltage1'' @ [CHR 0x27] @ '').attrs['' @ [CHR 0x27] @ ''frequency'' @ [CHR 0x27] @ ''].value = '' @ [CHR 0x27] @ ''300000000'' @ [CHR 0x27],
     ''phy.attrs['' @ [CHR 0x27] @ ''loopback'' @ [CHR 0x27] @ ''].value = '' @ [CHR 0x27] @ ''1'' @ [CHR 0x27],
     ''buf = iio.Buffer(rx, 4096)'',
     ''buf.refill()'',
     ''data = buf.read()'',
     ''samples = [struct.unpack_from('' @ [CHR 0x27] @ ''<hh'' @ [CHR 0x27] @ '', data, i*4) for i in range(min(4096, len(data)//4))]'',
     ''evm_vals = [abs(complex(s[0], s[1])/32768 - complex(0.7071, 0)) for s in samples]'',
     ''print(f'' @ [CHR 0x27] @ ''EVM:{sum(evm_vals)/len(evm_vals)*100:.2f}'' @ [CHR 0x27] @ '')'',
     ''phy.attrs['' @ [CHR 0x27] @ ''loopback'' @ [CHR 0x27] @ ''].value = '' @ [CHR 0x27] @ ''0'' @ [CHR 0x27],
     [CHR 0x22]]"

text \<open>\<open>str.splitlines\<close>: a carriage return and a newline together end one line.\<close>

definition line_end :: "char \<Rightarrow> bool" where
  "line_end c = (c \<in> set [CHR 0x0A, CHR 0x0B, CHR 0x0C, CHR 0x0D, CHR 0x1C, CHR 0x1D, CHR 0x1E, CHR 0x85])"

fun split_lines :: "string \<Rightarrow> string \<Rightarrow> string list" where
  "split_lines acc [] = (if acc = [] then [] else [rev acc])"
| "split_lines acc (c # s) =
     (if c = CHR 0x0D \<and> s \<noteq> [] \<and> hd s = nl then rev acc # split_lines [] (tl s)
      else if line_end c then rev acc # split_lines [] s
      else split_lines (c # acc) s)"

definition py_splitlines :: "string \<Rightarrow> string list" where
  "py_splitlines s = split_lines [] s"

text \<open>The first line that starts with \<open>EVM:\<close>, read up to a second colon.\<close>

definition evm_of_output :: "string \<Rightarrow> flt res" where
  "evm_of_output out = (case filter (\<lambda>l. prefix ''EVM:'' l) (py_splitlines out) of
     [] \<Rightarrow> Inr (Fin 100) | l # _ \<Rightarrow> py_float (py_split (CHR '':'') l ! 1))"

definition run_loopback_on_board :: "'w board \<Rightarrow> ssh \<Rightarrow> bool \<Rightarrow> ('w run, flt \<times> string) act" where
  "run_loopback_on_board os ssh dry =
     (if dry then (let tx = generate_qpsk_symbols num_symbols;
                       rx = map (\<lambda>s. cadd s (lit 1 2, lit 1 2)) tx
                   in abind (of_res (compute_evm tx rx)) (\<lambda>evm. aret (Fin evm, ''dry-run simulated'')))
      else abind (run_cmd os ssh loopback_script 30) (\<lambda>(rc, out, err).
           if rc \<noteq> 0 then aret (Fin 100, err)
           else abind (of_res (evm_of_output out)) (\<lambda>evm. aret (evm, out))))"

definition rf_loopback :: "'w board \<Rightarrow> string \<Rightarrow> string option \<Rightarrow> bool \<Rightarrow> ('w run, int) act" where
  "rf_loopback os h key dry =
     abind (BoardSSH os h key dry) (\<lambda>ssh.
     abind (run_loopback_on_board os ssh dry) (\<lambda>(evm, msg).
     let passed = flt_less evm evm_threshold
     in abind (write_result os ''rf_loopback'' passed
          [(''evm_percent'', JFloat (flt_round 3 evm)), (''threshold_percent'', JFloat evm_threshold),
           (''log'', JStr (take 500 msg))])
        (\<lambda>_. aret (exit_of passed))))"

section \<open>gps_lock.py\<close>

definition fix_timeout_seconds :: int where "fix_timeout_seconds = 300"
definition pps_jitter_threshold_ns :: int where "pps_jitter_threshold_ns = 1000"

text \<open>One poll: the report when it shows a 3D fix.\<close>

definition tpv_of :: "int \<times> string \<times> string \<Rightarrow> json option res" where
  "tpv_of r = (let (rc, out, _) = r
     in if rc = 0 \<and> py_strip out \<noteq> []
        then (case json_loads (py_strip out) of None \<Rightarrow> Inr None
           | Some tpv \<Rightarrow> rbind (json_get tpv ''mode'' (JInt 0)) (\<lambda>m.
               rbind (json_ge m 3) (\<lambda>ok. Inr (if ok then Some tpv else None))))
        else Inr None)"

fun fix_loop :: "'w board \<Rightarrow> ssh \<Rightarrow> flt \<Rightarrow> nat \<Rightarrow> ('w run, bool \<times> json) act" where
  "fix_loop os ssh deadline 0 = (\<lambda>s. None)"
| "fix_loop os ssh deadline (Suc fuel) =
     abind (ask (clock os)) (\<lambda>t.
       if \<not> flt_less t deadline then aret (False, JObj [])
       else abind (run_cmd os ssh ''gpspipe -w -n 10 2>/dev/null | grep TPV | head -1'' 15) (\<lambda>r.
            abind (of_res (tpv_of r)) (\<lambda>fix.
            case fix of Some tpv \<Rightarrow> aret (True, tpv)
            | None \<Rightarrow> abind (ask (\<lambda>w. ((), nap os 5 w))) (\<lambda>_. fix_loop os ssh deadline fuel))))"

definition wait_for_fix :: "'w board \<Rightarrow> nat \<Rightarrow> ssh \<Rightarrow> int \<Rightarrow> bool \<Rightarrow> ('w run, bool \<times> json) act" where
  "wait_for_fix os fuel ssh timeout dry =
     (if dry then aret (True, JObj [(''mode'', JInt 3), (''lat'', JFloat (Fin (lit 601 1))),
                                    (''lon'', JFloat (Fin (lit 249 1))), (''fix_time_s'', JInt 2)])
      else abind (ask (clock os)) (\<lambda>t. fix_loop os ssh (flt_add t (Fin (of_int timeout))) fuel))"

text \<open>The time stamps of the lines that have one; \<open>split\<close> never returns an empty list.\<close>

definition pps_timestamps :: "string \<Rightarrow> flt list" where
  "pps_timestamps out = concat (map (\<lambda>l. case py_float (hd (py_split (CHR ''#'') l)) of Inr t \<Rightarrow> [t] | Inl _ \<Rightarrow> [])
     (py_splitlines (py_strip out)))"

definition pps_intervals :: "flt list \<Rightarrow> flt list" where
  "pps_intervals ts = map2 (\<lambda>a b. flt_scale (flt_abs (flt_sub (flt_sub b a) (Fin 1))) (10 ^ 9)) (butlast ts) (tl ts)"

definition pps_verdict :: "int \<times> string \<times> string \<Rightarrow> (bool \<times> flt) res" where
  "pps_verdict r = (let (rc, out, _) = r
     in if rc \<noteq> 0 \<or> py_strip out = [] then Inr (False, Fin (- 1))
        else let ts = pps_timestamps out
             in if length ts < 2 then Inr (False, Fin (- 1))
                else rbind (flt_max (pps_intervals ts)) (\<lambda>j.
                     Inr (flt_less j (Fin (of_int pps_jitter_threshold_ns)), j)))"

definition check_pps_jitter :: "'w board \<Rightarrow> ssh \<Rightarrow> bool \<Rightarrow> ('w run, bool \<times> flt) act" where
  "check_pps_jitter os ssh dry =
     (if dry then aret (True, Fin 100)
      else abind (run_cmd os ssh ''cat /sys/class/pps/pps0/assert 2>/dev/null | tail -5'' 60)
             (\<lambda>r. of_res (pps_verdict r)))"

definition gps_lock :: "'w board \<Rightarrow> nat \<Rightarrow> string \<Rightarrow> string option \<Rightarrow> bool \<Rightarrow> int \<Rightarrow> ('w run, int) act" where
  "gps_lock os fuel h key dry timeout =
     abind (BoardSSH os h key dry) (\<lambda>ssh.
     abind (wait_for_fix os fuel ssh timeout dry) (\<lambda>(fix_ok, tpv).
     abind (check_pps_jitter os ssh dry) (\<lambda>(pps_ok, jitter_ns).
     let passed = (fix_ok \<and> pps_ok)
     in abind (write_result os ''gps_lock'' passed
          [(''fix_achieved'', JBool fix_ok), (''tpv'', tpv), (''pps_jitter_ns'', JFloat jitter_ns),
           (''pps_threshold_ns'', JInt pps_jitter_threshold_ns)])
        (\<lambda>_. aret (exit_of passed)))))"

section \<open>fhss_onair.py\<close>

definition num_hops :: nat where "num_hops = 100"
definition required_correlation :: rat where "required_correlation = 1"

definition hop_log :: "int \<times> string \<times> string \<Rightarrow> json res" where
  "hop_log r = (let (rc, out, _) = r
     in if rc \<noteq> 0 then Inr (JList [])
        else case json_loads out of None \<Rightarrow> Inr (JList []) | Some v \<Rightarrow> json_get v ''hops'' (JList []))"

definition dry_hops :: "nat \<Rightarrow> json" where
  "dry_hops n = JList (map (\<lambda>i. JInt (225000 + (int i * 1000 + 17000) mod 287000)) [0..<n])"

definition collect_hop_log :: "'w board \<Rightarrow> ssh \<Rightarrow> nat \<Rightarrow> bool \<Rightarrow> ('w run, json) act" where
  "collect_hop_log os ssh n dry =
     (if dry then aret (dry_hops n)
      else abind (run_cmd os ssh (''cirradio-cli fhss log --hops '' @ digits (int n) @ '' --json 2>/dev/null'') 30)
             (\<lambda>r. of_res (hop_log r)))"

definition count_matches :: "json list \<Rightarrow> json list \<Rightarrow> nat" where
  "count_matches hops1 hops2 = length (filter (\<lambda>(a, b). json_eq a b) (zip hops1 hops2))"

text \<open>The verdict: the counts when the test compares the logs, or the error it reports.\<close>

definition hop_verdict :: "json \<Rightarrow> json \<Rightarrow> ((nat \<times> nat) + (nat \<times> rat \<times> bool)) res" where
  "hop_verdict hops1 hops2 =
     (if \<not> json_true hops1 \<or> \<not> json_true hops2
      then rbind (json_len hops1) (\<lambda>a. rbind (json_len hops2) (\<lambda>b. Inr (Inl (a, b))))
      else rbind (json_len hops1) (\<lambda>a. rbind (json_len hops2) (\<lambda>b.
           if a \<noteq> b then Inr (Inl (a, b))
           else rbind (json_iter hops1) (\<lambda>xs. rbind (json_iter hops2) (\<lambda>ys.
                let matches = count_matches xs ys; corr = fdiv (of_nat matches) (of_nat num_hops)
                in Inr (Inr (matches, corr, required_correlation \<le> corr)))))))"

definition fhss_onair :: "'w board \<Rightarrow> string \<Rightarrow> string option \<Rightarrow> bool \<Rightarrow> string option \<Rightarrow> ('w run, int) act" where
  "fhss_onair os h key dry host2 =
     (let h2 = (case host2 of Some x \<Rightarrow> if x = [] then h else x | None \<Rightarrow> h)
      in abind (BoardSSH os h key dry) (\<lambda>ssh1.
         abind (BoardSSH os h2 key dry) (\<lambda>ssh2.
         abind (collect_hop_log os ssh1 num_hops dry) (\<lambda>hops1.
         abind (collect_hop_log os ssh2 num_hops dry) (\<lambda>hops2.
         abind (of_res (hop_verdict hops1 hops2)) (\<lambda>v. case v of
           Inl (a, b) \<Rightarrow> abind (write_result os ''fhss_onair'' False
               [(''error'', JStr (''hop counts: '' @ digits (int a) @ '' vs '' @ digits (int b)))]) (\<lambda>_. aret 1)
         | Inr (matches, corr, passed) \<Rightarrow> abind (write_result os ''fhss_onair'' passed
               [(''hops_checked'', JInt (int num_hops)), (''matches'', JInt (int matches)),
                (''correlation'', JFloat (Fin corr))]) (\<lambda>_. aret (exit_of passed))))))))"

end
