(* ===== verification/BoardTestCheck.thy ===== *)
theory BoardTestCheck
  imports BoardTest
begin

text \<open>
  The contract every test script keeps - one TAP line and one result file with the verdict of the
  exit status - as a locale interpreted on the five scripts, and the arithmetic of the loopback
  test: its specification, and that the simulated run stays below the limit.
\<close>

section \<open>Steps that report nothing\<close>

text \<open>A computation that neither prints nor writes a result file.\<close>

definition silent :: "('w run, 'a) act \<Rightarrow> bool" where
  "silent m \<longleftrightarrow> (\<forall>s r t. m s = Some (r, t) \<longrightarrow> printed t = printed s \<and> result_files t = result_files s)"

named_theorems silent_intros \<open>computations that report nothing\<close>

lemma abind_Some:
  "abind m f s = Some (r, t) \<longleftrightarrow>
     (\<exists>e. m s = Some (Inl e, t) \<and> r = Inl e) \<or> (\<exists>x u. m s = Some (Inr x, u) \<and> f x u = Some (r, t))"
  by (auto simp: abind_def split: option.split sum.split)

lemma silent_aret [silent_intros]: "silent (aret x)"
  by (simp add: silent_def aret_def)

lemma silent_of_res [silent_intros]: "silent (of_res r)"
  by (simp add: silent_def of_res_def)

lemma silent_abind [silent_intros]: "silent m \<Longrightarrow> (\<And>x. silent (f x)) \<Longrightarrow> silent (abind m f)"
  unfolding silent_def abind_Some by metis

lemma silent_call [silent_intros]: "silent (call f)"
  by (auto simp: silent_def call_def Let_def split: prod.split)

lemma silent_ask [silent_intros]: "silent (ask f)"
  by (simp add: ask_def silent_call)

lemma silent_if [silent_intros]: "silent a \<Longrightarrow> silent b \<Longrightarrow> silent (if c then a else b)"
  by simp

lemma silent_split [silent_intros]: "(\<And>a b. silent (f a b)) \<Longrightarrow> silent (case p of (a, b) \<Rightarrow> f a b)"
  by (cases p) simp

lemma silent_connect [silent_intros]: "silent (BoardSSH os h key dry)"
  unfolding BoardSSH_def Let_def by (intro silent_intros)

lemma silent_run_cmd [silent_intros]: "silent (run_cmd os ssh cmd timeout)"
  unfolding run_cmd_def by (intro silent_intros)

lemma silent_xsct [silent_intros]: "silent (flash_with_xsct os b dry)"
  unfolding flash_with_xsct_def Let_def by (intro silent_intros)

lemma silent_xc3sprog [silent_intros]: "silent (flash_with_xc3sprog os b dry)"
  unfolding flash_with_xc3sprog_def by (intro silent_intros)

lemma silent_uio0 [silent_intros]: "silent (verify_uio0 os ssh)"
  unfolding verify_uio0_def by (intro silent_intros)

lemma silent_loopback [silent_intros]: "silent (run_loopback_on_board os ssh dry)"
  unfolding run_loopback_on_board_def Let_def by (intro silent_intros)

lemma silent_fix_loop [silent_intros]: "silent (fix_loop os ssh deadline fuel)"
proof (induction fuel)
  case 0
  then show ?case by (simp add: silent_def)
next
  case (Suc fuel)
  then show ?case unfolding fix_loop.simps
    by (intro silent_intros) (auto split: option.split intro!: silent_intros)
qed

lemma silent_fix [silent_intros]: "silent (wait_for_fix os fuel ssh timeout dry)"
  unfolding wait_for_fix_def by (intro silent_intros)

lemma silent_pps [silent_intros]: "silent (check_pps_jitter os ssh dry)"
  unfolding check_pps_jitter_def by (intro silent_intros)

lemma silent_hop_log [silent_intros]: "silent (collect_hop_log os ssh n dry)"
  unfolding collect_hop_log_def by (intro silent_intros)

section \<open>The contract of a test script\<close>

text \<open>The file of a passed or failed run.\<close>

definition result_text :: "string \<Rightarrow> bool \<Rightarrow> string \<Rightarrow> bool" where
  "result_text name passed body \<longleftrightarrow> (\<exists>stamp details. body = json_dumps 0 (result_json name passed stamp details))"

text \<open>
  A script that reports under a name: a run that ends by itself has status 0 or 1, prints one TAP
  line and leaves its result file with the same verdict; a run that raises prints nothing and
  leaves no file. Files of other names are not touched.
\<close>

definition report_ok :: "string \<Rightarrow> 'w run \<Rightarrow> int res \<Rightarrow> 'w run \<Rightarrow> bool" where
  "report_ok name s r t \<longleftrightarrow>
     (\<forall>n. n \<noteq> name \<longrightarrow> result_files t n = result_files s n) \<and>
     (case r of Inl e \<Rightarrow> printed t = printed s \<and> result_files t = result_files s
      | Inr c \<Rightarrow> (c = 0 \<or> c = 1) \<and> printed t = printed s @ [tap_line (c = 0) name] \<and>
          (\<exists>body. result_files t name = Some body \<and> result_text name (c = 0) body))"

definition reports :: "string \<Rightarrow> ('w run, int) act \<Rightarrow> bool" where
  "reports name main \<longleftrightarrow> (\<forall>s r t. main s = Some (r, t) \<longrightarrow> report_ok name s r t)"

lemma write_result_eq:
  "write_result os name passed details s = (let (stamp, w) = clock os (world s) in
     Some (Inr (), s\<lparr>world := w,
       result_files := (result_files s)(name \<mapsto> json_dumps 0 (result_json name passed stamp details)),
       printed := printed s @ [tap_line passed name]\<rparr>))"
  by (simp add: write_result_def abind_def ask_def call_def print_line_def split: prod.split)

lemma reports_write: "reports name (abind (write_result os name passed details) (\<lambda>_. aret (exit_of passed)))"
  unfolding reports_def
proof (intro allI impI)
  fix s t :: "'a run" and r
  obtain stamp w where c: "clock os (world s) = (stamp, w)" by fastforce
  let ?body = "json_dumps 0 (result_json name passed stamp details)"
  assume "abind (write_result os name passed details) (\<lambda>_. aret (exit_of passed)) s = Some (r, t)"
  then have r: "r = Inr (exit_of passed)" and
    t: "t = s\<lparr>world := w, result_files := (result_files s)(name \<mapsto> ?body), printed := printed s @ [tap_line passed name]\<rparr>"
    by (simp_all add: abind_def write_result_eq c aret_def)
  have "result_text name passed ?body" unfolding result_text_def by blast
  moreover have "(exit_of passed = 0) = passed" "exit_of passed = 0 \<or> exit_of passed = 1" by (simp_all add: exit_of_def)
  ultimately show "report_ok name s r t" by (simp add: report_ok_def r t)
qed

lemma reports_write_fail: "reports name (abind (write_result os name False details) (\<lambda>_. aret 1))"
  using reports_write [of name os False details] by (simp add: exit_of_def)

lemma reports_abind:
  assumes "silent m" "\<And>x. reports name (f x)"
  shows "reports name (abind m f)"
  unfolding reports_def
proof (intro allI impI)
  fix s r t assume "abind m f s = Some (r, t)"
  then consider e where "m s = Some (Inl e, t)" "r = Inl e" | x u where "m s = Some (Inr x, u)" "f x u = Some (r, t)"
    unfolding abind_Some by blast
  then show "report_ok name s r t"
  proof cases
    case 1
    then have "printed t = printed s" "result_files t = result_files s" using assms(1) by (simp_all add: silent_def)
    then show ?thesis by (simp add: report_ok_def 1(2))
  next
    case 2
    then have u: "printed u = printed s" "result_files u = result_files s" using assms(1) by (auto simp: silent_def)
    have "report_ok name u r t" using assms(2) [of x] 2(2) unfolding reports_def by blast
    then show ?thesis unfolding report_ok_def u .
  qed
qed

lemma reports_if: "reports name a \<Longrightarrow> reports name b \<Longrightarrow> reports name (if c then a else b)"
  by simp

lemma reports_split: "(\<And>a b. reports name (f a b)) \<Longrightarrow> reports name (case p of (a, b) \<Rightarrow> f a b)"
  by (cases p) simp

lemma reports_sum:
  "(\<And>a. reports name (f a)) \<Longrightarrow> (\<And>b. reports name (g b)) \<Longrightarrow> reports name (case v of Inl a \<Rightarrow> f a | Inr b \<Rightarrow> g b)"
  by (cases v) simp_all

lemmas reports_intros = reports_write reports_write_fail reports_abind reports_if reports_split reports_sum

locale board_script =
  fixes main :: "('w run, int) act" and name :: string
  assumes reporting: "reports name main"
begin

lemma status: "main s = Some (Inr c, t) \<Longrightarrow> c = 0 \<or> c = 1"
  using reporting unfolding reports_def report_ok_def by fastforce

lemma frame: "main s = Some (r, t) \<Longrightarrow> n \<noteq> name \<Longrightarrow> result_files t n = result_files s n"
  using reporting unfolding reports_def report_ok_def by blast

lemma verdict:
  "main s = Some (Inr c, t) \<Longrightarrow> \<exists>body. result_files t name = Some body \<and> result_text name (c = 0) body"
  using reporting unfolding reports_def report_ok_def by fastforce

lemma tap: "main s = Some (Inr c, t) \<Longrightarrow> printed t = printed s @ [tap_line (c = 0) name]"
  using reporting unfolding reports_def report_ok_def by fastforce

lemma crash: "main s = Some (Inl e, t) \<Longrightarrow> printed t = printed s \<and> result_files t = result_files s"
  using reporting unfolding reports_def report_ok_def by fastforce

end

lemma run_live_abind:
  "abind (run_live os fuel dev baud) (\<lambda>ok. aret (exit_of ok)) =
   abind (\<lambda>s. case console_read os fuel dev baud (world s) of None \<Rightarrow> None
              | Some (err, c, w) \<Rightarrow> Some (Inr (err, c), s\<lparr>world := w\<rparr>)) (\<lambda>(err, c).
     let passed = (err = None \<and> uboot_seen c \<and> linux_seen c);
         msg = (case err of None \<Rightarrow> last500 (buf c) | Some m \<Rightarrow> m)
     in abind (write_result os ''serial_console'' passed (console_details c msg)) (\<lambda>_. aret (exit_of passed)))"
  by (rule ext) (simp add: run_live_def abind_def Let_def aret_def split: option.splits prod.splits sum.splits)

lemma silent_console: "silent (\<lambda>s. case console_read os fuel dev baud (world s) of None \<Rightarrow> None
              | Some (err, c, w) \<Rightarrow> Some (Inr (err, c), s\<lparr>world := w\<rparr>))"
  by (auto simp: silent_def split: option.splits)

lemma reports_serial: "reports ''serial_console'' (serial_console os fuel dev baud dry)"
proof (cases dry)
  case True
  then show ?thesis using reports_write [of "''serial_console''" os True] by (simp add: serial_console_def run_dry_def exit_of_def)
next
  case False
  then show ?thesis unfolding serial_console_def run_live_abind
    by (auto simp: Let_def intro!: reports_abind silent_console reports_write)
qed

lemma reports_flash: "reports ''flash_fpga'' (flash_fpga os h key dry bits tool)"
  unfolding flash_fpga_def Let_def by (intro reports_intros silent_intros)

lemma reports_rf: "reports ''rf_loopback'' (rf_loopback os h key dry)"
  unfolding rf_loopback_def Let_def by (intro reports_intros silent_intros)

lemma reports_gps: "reports ''gps_lock'' (gps_lock os fuel h key dry timeout)"
  unfolding gps_lock_def Let_def by (intro reports_intros silent_intros)

lemma reports_fhss: "reports ''fhss_onair'' (fhss_onair os h key dry host2)"
  unfolding fhss_onair_def Let_def by (intro reports_intros silent_intros)

interpretation serial: board_script "serial_console os fuel dev baud dry" "''serial_console''"
  for os :: "'w board" and fuel dev baud dry by unfold_locales (rule reports_serial)

interpretation flash: board_script "flash_fpga os h key dry bits tool" "''flash_fpga''"
  for os :: "'w board" and h key dry bits tool by unfold_locales (rule reports_flash)

interpretation rf: board_script "rf_loopback os h key dry" "''rf_loopback''"
  for os :: "'w board" and h key dry by unfold_locales (rule reports_rf)

interpretation gps: board_script "gps_lock os fuel h key dry timeout" "''gps_lock''"
  for os :: "'w board" and fuel h key dry timeout by unfold_locales (rule reports_gps)

interpretation fhss: board_script "fhss_onair os h key dry host2" "''fhss_onair''"
  for os :: "'w board" and h key dry host2 by unfold_locales (rule reports_fhss)

section \<open>The error vector magnitude\<close>

lemma fadd_nonneg: "0 \<le> a \<Longrightarrow> 0 \<le> b \<Longrightarrow> 0 \<le> fadd a b"
  by (simp add: fadd_def fl_nonneg)

lemma fsum_nonneg_aux: "0 \<le> a \<Longrightarrow> \<forall>x \<in> set xs. 0 \<le> x \<Longrightarrow> 0 \<le> foldl fadd a xs"
  by (induction xs arbitrary: a) (simp_all add: fadd_nonneg)

lemma fsum_nonneg: "\<forall>x \<in> set xs. 0 \<le> x \<Longrightarrow> 0 \<le> fsum xs"
  by (simp add: fsum_def fsum_nonneg_aux)

lemma foldl_eq_0: "0 \<le> a \<Longrightarrow> \<forall>x \<in> set xs. 0 \<le> x \<Longrightarrow> foldl fadd a xs = 0 \<longleftrightarrow> a = 0 \<and> (\<forall>x \<in> set xs. x = 0)"
proof (induction xs arbitrary: a)
  case (Cons x xs)
  have "fadd a x = 0 \<longleftrightarrow> a = 0 \<and> x = 0" using Cons.prems by (simp add: fadd_def fl_eq_0_iff add_nonneg_eq_0_iff)
  then show ?case using Cons.IH [of "fadd a x"] Cons.prems by (auto simp: fadd_nonneg)
qed simp

lemma fsum_eq_0: "\<forall>x \<in> set xs. 0 \<le> x \<Longrightarrow> fsum xs = 0 \<longleftrightarrow> (\<forall>x \<in> set xs. x = 0)"
  by (simp add: fsum_def foldl_eq_0)

lemma sqr_nonneg: "0 \<le> sqr x"
  by (simp add: sqr_def fmul_def fl_nonneg)

lemma sqr_eq_0: "sqr x = 0 \<longleftrightarrow> x = 0"
  by (simp add: sqr_def fmul_def fl_eq_0_iff)

lemma cabs_eq_0: "cabs z = 0 \<longleftrightarrow> z = (0, 0)"
proof -
  have "fst z * fst z + snd z * snd z \<le> 0 \<longleftrightarrow> fst z = 0 \<and> snd z = 0"
    by (metis add_nonneg_eq_0_iff antisym mult_eq_0_iff sum_squares_ge_zero zero_le_square)
  then show ?thesis by (cases z) (simp add: cabs_def py_hypot_def fl_sqrt_eq_0)
qed

lemma csub_eq_0: "csub a b = (0, 0) \<longleftrightarrow> a = b"
  by (cases a; cases b) (auto simp: csub_def fsub_def fl_eq_0_iff)

lemma mean_sq_nonneg: "mean_sq xs n = Inr v \<Longrightarrow> 0 \<le> v"
  by (auto simp: mean_sq_def fdiv_def sqr_nonneg intro!: fl_nonneg divide_nonneg_nonneg fsum_nonneg split: if_splits)

lemma mean_sq_eq_0: "mean_sq xs n = Inr v \<Longrightarrow> v = 0 \<longleftrightarrow> (\<forall>x \<in> set xs. x = 0)"
  by (auto simp: mean_sq_def fdiv_def fl_eq_0_iff fsum_eq_0 sqr_nonneg sqr_eq_0 split: if_splits)

lemma all_zero_map2: "length tx = length rx \<Longrightarrow> (\<forall>x \<in> set (map2 (\<lambda>t r. cabs (csub t r)) tx rx). x = 0) \<longleftrightarrow> tx = rx"
  by (induction rule: list_induct2) (simp_all add: cabs_eq_0 csub_eq_0)

lemma evm_spec:
  "case compute_evm tx rx of
     Inl e \<Rightarrow> e = ZeroDivisionError \<and> length tx = length rx \<and> set tx \<subseteq> {(0, 0)}
   | Inr v \<Rightarrow> (if length tx = length rx then \<not> set tx \<subseteq> {(0, 0)} \<and> 0 \<le> v \<and> (v = 0 \<longleftrightarrow> tx = rx) else v = 100)"
proof (cases "length tx = length rx \<and> tx \<noteq> []")
  case True
  then have l: "length tx = length rx" and n: "tx \<noteq> []" by blast+
  obtain a b where m: "mean_sq (map cabs tx) (length tx) = Inr a"
      "mean_sq (map2 (\<lambda>t r. cabs (csub t r)) tx rx) (length tx) = Inr b"
    using n by (simp add: mean_sq_def)
  note p = mean_sq_nonneg [OF m(1)] mean_sq_nonneg [OF m(2)]
  have z: "a = 0 \<longleftrightarrow> set tx \<subseteq> {(0, 0)}" using mean_sq_eq_0 [OF m(1)] by (auto simp: cabs_eq_0)
  have w: "b = 0 \<longleftrightarrow> tx = rx" using mean_sq_eq_0 [OF m(2)] all_zero_map2 [OF l] by simp
  have s: "fl_sqrt a = 0 \<longleftrightarrow> a = 0" "fl_sqrt b = 0 \<longleftrightarrow> b = 0" using p by (simp_all add: fl_sqrt_eq_0)
  let ?v = "fmul (fdiv (fl_sqrt b) (fl_sqrt a)) 100"
  have e: "compute_evm tx rx = (if a = 0 then Inl ZeroDivisionError else Inr ?v)"
    using l m s(1) by (simp add: compute_evm_def Let_def)
  have v: "0 \<le> ?v" by (simp add: fmul_def fdiv_def fl_nonneg fl_sqrt_nonneg)
  have "?v = 0 \<longleftrightarrow> b = 0 \<or> a = 0" by (simp add: fmul_def fdiv_def fl_eq_0_iff s)
  then show ?thesis using e v z w l by (cases "a = 0") simp_all
next
  case False
  then show ?thesis by (auto simp: compute_evm_def mean_sq_def)
qed

text \<open>Sums of small and of large terms stay small and large, whatever the roundings do.\<close>

lemma fsum_le:
  assumes "\<forall>x \<in> set xs. 0 \<le> x \<and> x \<le> 1 / 2 ^ k" "j + length xs \<le> 2 ^ 53" "0 \<le> a" "a \<le> of_nat j / 2 ^ k"
  shows "foldl fadd a xs \<le> of_nat (j + length xs) / 2 ^ k"
  using assms
proof (induction xs arbitrary: a j)
  case (Cons x xs)
  have f: "is_float (of_int (int (Suc j)) / 2 ^ k)" using Cons.prems(2) by (intro is_float_dyadic) simp
  have "a + x \<le> of_nat j / 2 ^ k + 1 / 2 ^ k" using Cons.prems(1,4) by (intro add_mono) auto
  also have "\<dots> = of_int (int (Suc j)) / 2 ^ k" by (simp add: field_simps)
  finally have "fadd a x \<le> of_nat (Suc j) / 2 ^ k" using fl_le [OF f] by (simp add: fadd_def)
  moreover have "0 \<le> fadd a x" using Cons.prems(1,3) by (simp add: fadd_nonneg)
  ultimately show ?case using Cons.IH [of "Suc j" "fadd a x"] Cons.prems(1,2) by simp
qed simp

lemma fsum_ge:
  assumes "\<forall>x \<in> set xs. 1 / 2 ^ k \<le> x" "j + length xs \<le> 2 ^ 53" "of_nat j / 2 ^ k \<le> a"
  shows "of_nat (j + length xs) / 2 ^ k \<le> foldl fadd a xs"
  using assms
proof (induction xs arbitrary: a j)
  case (Cons x xs)
  have f: "is_float (of_int (int (Suc j)) / 2 ^ k)" using Cons.prems(2) by (intro is_float_dyadic) simp
  have "of_int (int (Suc j)) / 2 ^ k = of_nat j / 2 ^ k + (1 / 2 ^ k :: rat)" by (simp add: field_simps)
  also have "\<dots> \<le> a + x" using Cons.prems(1,3) by (intro add_mono) auto
  finally have "of_nat (Suc j) / 2 ^ k \<le> fadd a x" using fl_ge [OF f] by (simp add: fadd_def)
  then show ?case using Cons.IH [of "Suc j" "fadd a x"] Cons.prems(1,2) by simp
qed simp

definition qpsk_symbol :: "nat \<Rightarrow> cplx" where
  "qpsk_symbol i = (let z = qpsk_points ! (i mod 4) in (fdiv (fst z) (fl_sqrt 2), fdiv (snd z) (fl_sqrt 2)))"

definition offset :: cplx where
  "offset = (lit 1 2, lit 1 2)"

lemma sqrt_2: "fl_sqrt 2 = 6369051672525773 / 4503599627370496"
  by code_simp

definition half_root :: rat where
  "half_root = 1592262918131443 / 2251799813685248"

lemma half_root: "fdiv 1 (fl_sqrt 2) = half_root" "fdiv (- 1) (fl_sqrt 2) = - half_root"
proof -
  show h: "fdiv 1 (fl_sqrt 2) = half_root" unfolding sqrt_2 by code_simp
  show "fdiv (- 1) (fl_sqrt 2) = - half_root"
    using h fl_minus [of "1 / fl_sqrt 2"] by (simp add: fdiv_def)
qed

text \<open>The four symbols, and how far adding the offset moves a coordinate.\<close>

lemma qpsk_symbol_cases:
  "fst (qpsk_symbol i) \<in> {half_root, - half_root} \<and> snd (qpsk_symbol i) \<in> {half_root, - half_root}"
proof -
  have "i mod 4 \<in> {0, 1, 2, 3}" by auto
  then show ?thesis by (auto simp: qpsk_symbol_def qpsk_points_def half_root Let_def)
qed

lemma moved_coordinate:
  assumes "\<bar>x\<bar> \<le> 3 / 4"
  shows "\<bar>fsub x (fadd x (lit 1 2))\<bar> \<le> 11 / 2 ^ 10"
proof -
  have "lit 1 2 = 5764607523034235 / 576460752303423488" by code_simp
  then have d: "\<bar>lit 1 2\<bar> \<le> 1 / 95" by simp
  have "\<bar>fadd x (lit 1 2) - (x + lit 1 2)\<bar> \<le> \<bar>x + lit 1 2\<bar> / 2 ^ 53" unfolding fadd_def by (rule fl_err)
  moreover have "\<bar>x + lit 1 2\<bar> \<le> 1" using assms d by linarith
  then have "\<bar>x + lit 1 2\<bar> / 2 ^ 53 \<le> 1 / 2 ^ 53" by (rule divide_right_mono) simp
  ultimately have "\<bar>fadd x (lit 1 2) - (x + lit 1 2)\<bar> \<le> 1 / 2 ^ 53" by (rule order_trans)
  then have "\<bar>x - fadd x (lit 1 2)\<bar> \<le> 1 / 2 ^ 53 + 1 / 95" using d by linarith
  also have "\<dots> \<le> 11 / 2 ^ 10" by simp
  finally have m: "\<bar>x - fadd x (lit 1 2)\<bar> \<le> 11 / 2 ^ 10" .
  have f: "is_float (11 / 2 ^ 10)" "is_float (- (11 / 2 ^ 10))"
    using is_float_dyadic [of 11 10] is_float_dyadic [of "- 11" 10] by simp_all
  have "fl (x - fadd x (lit 1 2)) \<le> 11 / 2 ^ 10" "- (11 / 2 ^ 10) \<le> fl (x - fadd x (lit 1 2))"
    using m by (intro fl_le fl_ge f; linarith)+
  then show ?thesis unfolding fsub_def by linarith
qed

lemma half_root_size: "\<bar>half_root\<bar> \<le> 3 / 4"
  by (simp add: half_root_def)

lemma error_small: "sqr (cabs (csub (qpsk_symbol i) (cadd (qpsk_symbol i) offset))) \<le> 1 / 2 ^ 12"
proof -
  let ?d = "csub (qpsk_symbol i) (cadd (qpsk_symbol i) offset)"
  have "\<bar>fst ?d\<bar> \<le> 11 / 1024" "\<bar>snd ?d\<bar> \<le> 11 / 1024"
    using qpsk_symbol_cases [of i] moved_coordinate [of half_root] moved_coordinate [of "- half_root"] half_root_size
    by (auto simp: csub_def cadd_def offset_def)
  then have "\<bar>fst ?d\<bar> * \<bar>fst ?d\<bar> \<le> 11 / 1024 * (11 / 1024)" "\<bar>snd ?d\<bar> * \<bar>snd ?d\<bar> \<le> 11 / 1024 * (11 / 1024)"
    by (intro mult_mono; simp)+
  then have "fst ?d * fst ?d + snd ?d * snd ?d \<le> 242 / 1048576" by simp
  then have "(fst ?d * fst ?d + snd ?d * snd ?d) * (1 + 1 / 2 ^ 50) \<le> 242 / 1048576 * (1 + 1 / 2 ^ 50)"
    by (intro mult_right_mono) simp_all
  also have "\<dots> \<le> 1 / 2 ^ 6 * (1 / 2 ^ 6)" by simp
  finally have c: "cabs ?d \<le> 1 / 2 ^ 6" unfolding cabs_def py_hypot_def
    using is_float_dyadic [of 1 6] by (intro fl_sqrt_le) simp_all
  have "0 \<le> cabs ?d" by (simp add: cabs_def py_hypot_nonneg)
  then have "cabs ?d * cabs ?d \<le> 1 / 2 ^ 6 * (1 / 2 ^ 6)" using c by (intro mult_mono) simp_all
  then show ?thesis using is_float_dyadic [of 1 12] unfolding sqr_def fmul_def by (intro fl_le) simp_all
qed

lemma symbol_large: "1 / 2 ^ 1 \<le> sqr (cabs (qpsk_symbol i))"
proof -
  let ?z = "qpsk_symbol i"
  have f: "fst ?z * fst ?z + snd ?z * snd ?z = 2 * (half_root * half_root)"
    using qpsk_symbol_cases [of i] by auto
  have "3 / 4 * (3 / 4) * (1 + 1 / 2 ^ 50) \<le> 2 * (half_root * half_root)" by (simp add: half_root_def)
  then have "3 / 2 ^ 2 \<le> cabs ?z" unfolding cabs_def py_hypot_def f
    using is_float_dyadic [of 3 2] by (intro fl_sqrt_ge) simp_all
  then have "3 / 2 ^ 2 * (3 / 2 ^ 2) \<le> cabs ?z * cabs ?z" by (intro mult_mono) simp_all
  then show ?thesis using is_float_dyadic [of 1 1] unfolding sqr_def fmul_def by (intro fl_ge) simp_all
qed

lemma map2_same: "map2 f xs (map g xs) = map (\<lambda>x. f x (g x)) xs"
  by (induction xs) simp_all

lemma dry_evm: "\<exists>v. compute_evm (generate_qpsk_symbols num_symbols)
     (map (\<lambda>s. cadd s offset) (generate_qpsk_symbols num_symbols)) = Inr v \<and> v < 5"
proof -
  define tx where "tx = generate_qpsk_symbols num_symbols"
  have tx: "tx = map qpsk_symbol [0..<4096]"
    by (simp add: tx_def generate_qpsk_symbols_def qpsk_symbol_def num_symbols_def)
  have l: "length tx = 4096" by (simp add: tx)
  let ?rx = "map (\<lambda>s. cadd s offset) tx"
  let ?errs = "map sqr (map2 (\<lambda>t r. cabs (csub t r)) tx ?rx)" and ?refs = "map sqr (map cabs tx)"
  have es: "\<forall>x \<in> set ?errs. 0 \<le> x \<and> x \<le> 1 / 2 ^ 12"
    unfolding map2_same tx using error_small by (auto simp: sqr_nonneg)
  have rs: "\<forall>x \<in> set ?refs. 1 / 2 ^ 1 \<le> x" unfolding tx using symbol_large by auto
  have e1: "fsum ?errs \<le> of_nat (0 + length ?errs) / 2 ^ 12" unfolding fsum_def by (rule fsum_le [OF es]) (simp_all add: l)
  have r1: "of_nat (0 + length ?refs) / 2 ^ 1 \<le> fsum ?refs" unfolding fsum_def by (rule fsum_ge [OF rs]) (simp_all add: l)
  define b where "b = fdiv (fsum ?errs) 4096"
  define a where "a = fdiv (fsum ?refs) 4096"
  have b: "b \<le> 1 / 2 ^ 12" using e1 is_float_dyadic [of 1 12] unfolding b_def fdiv_def by (intro fl_le) (simp_all add: l)
  have a: "1 / 2 ^ 1 \<le> a" using r1 is_float_dyadic [of 1 1] unfolding a_def fdiv_def by (intro fl_ge) (simp_all add: l)
  have sb: "fl_sqrt b \<le> 17 / 2 ^ 10"
  proof (rule fl_sqrt_le)
    show "is_float (17 / 2 ^ 10)" using is_float_dyadic [of 17 10] by simp
    have "b * (1 + 1 / 2 ^ 50) \<le> 1 / 2 ^ 12 * (1 + 1 / 2 ^ 50)" using b by (rule mult_right_mono) simp
    also have "\<dots> \<le> 17 / 2 ^ 10 * (17 / 2 ^ 10)" by simp
    finally show "b * (1 + 1 / 2 ^ 50) \<le> 17 / 2 ^ 10 * (17 / 2 ^ 10)" .
  qed simp
  have sa: "5 / 2 ^ 3 \<le> fl_sqrt a"
  proof (rule fl_sqrt_ge)
    show "is_float (5 / 2 ^ 3)" using is_float_dyadic [of 5 3] by simp
    show "5 / 2 ^ 3 * (5 / 2 ^ 3) * (1 + 1 / 2 ^ 50) \<le> a" using a by simp
  qed simp
  have "fl_sqrt b / fl_sqrt a \<le> 17 / 2 ^ 10 / (5 / 2 ^ 3)" using sb sa fl_sqrt_nonneg by (intro frac_le) auto
  also have "\<dots> \<le> 1 / 2 ^ 5" by simp
  finally have q: "fdiv (fl_sqrt b) (fl_sqrt a) \<le> 1 / 2 ^ 5"
    unfolding fdiv_def using is_float_dyadic [of 1 5] by (intro fl_le) simp_all
  then have "fmul (fdiv (fl_sqrt b) (fl_sqrt a)) 100 \<le> 25 / 2 ^ 3" using is_float_dyadic [of 25 3] unfolding fmul_def by (intro fl_le) simp_all
  moreover have "compute_evm tx ?rx = Inr (fmul (fdiv (fl_sqrt b) (fl_sqrt a)) 100)"
  proof -
    have "mean_sq (map cabs tx) (length tx) = Inr a"
      "mean_sq (map2 (\<lambda>t r. cabs (csub t r)) tx ?rx) (length tx) = Inr b"
      unfolding mean_sq_def a_def b_def by (simp_all add: l)
    moreover have "fl_sqrt a \<noteq> 0" using sa by (auto dest: order_trans)
    ultimately show ?thesis unfolding compute_evm_def by (simp add: Let_def)
  qed
  ultimately show ?thesis unfolding tx_def by (intro exI conjI) (assumption, simp)
qed

end
