(* ===== verification/RunAll.thy ===== *)
theory RunAll imports BoardTest begin

text \<open>
  \<open>run_all.py\<close>: the sequence of the five scripts with its TAP output, and the scripts as processes
  that parse the command line \<open>run_all.py\<close> builds for them. The runner of processes is an argument of
  the suite; \<open>python_runner\<close> is the one that runs the modelled scripts.
\<close>

section \<open>Command lines\<close>

text \<open>
  \<open>parse_args\<close> of a parser with the given options (name, and whether a value follows); \<open>None\<close> is
  exit status 2. An argument that starts with a hyphen is a value when it is a hyphen, a negative
  number, or contains a space. Abbreviated options, \<open>--option=value\<close>, \<open>--\<close> and \<open>-h\<close> are not modelled;
  they count as errors.
\<close>

definition negative_number :: "string \<Rightarrow> bool" where
  "negative_number s = (s \<noteq> [] \<and> hd s = CHR ''-'' \<and>
     (let w = takeWhile is_dig (tl s); r = dropWhile is_dig (tl s)
      in w \<noteq> [] \<and> r = [] \<or> r \<noteq> [] \<and> hd r = CHR ''.'' \<and> tl r \<noteq> [] \<and> list_all is_dig (tl r)))"

definition value_like :: "string \<Rightarrow> bool" where
  "value_like s = (s = [] \<or> hd s \<noteq> CHR ''-'' \<or> s = ''-'' \<or> negative_number s \<or>
     CHR '' '' \<in> set s \<and> CHR ''='' \<notin> set s)"

type_synonym opts = "(string \<times> string) list"

fun parse_args :: "(string \<times> bool) list \<Rightarrow> string list \<Rightarrow> opts \<Rightarrow> opts option" where
  "parse_args spec [] got = Some got"
| "parse_args spec (a # rest) got =
     (case map_of spec a of None \<Rightarrow> None
      | Some False \<Rightarrow> parse_args spec rest (obj_put a [] got)
      | Some True \<Rightarrow> (case rest of [] \<Rightarrow> None
          | v # rest' \<Rightarrow> if value_like v then parse_args spec rest' (obj_put a v got) else None))"

definition opt :: "opts \<Rightarrow> string \<Rightarrow> string \<Rightarrow> string" where
  "opt got name d = (case map_of got name of None \<Rightarrow> d | Some v \<Rightarrow> v)"

definition flag :: "opts \<Rightarrow> string \<Rightarrow> bool" where
  "flag got name = (map_of got name \<noteq> None)"

definition default_host :: string where "default_host = ''192.168.1.100''"

text \<open>\<open>add_args\<close> of \<open>board_ssh.py\<close>\<close>

definition add_args :: "(string \<times> bool) list" where
  "add_args = [(''--host'', True), (''--key'', True), (''--dry-run'', False)]"

section \<open>The scripts as processes\<close>

text \<open>An option with \<open>type=int\<close>: its value, or the error.\<close>

definition int_opt :: "opts \<Rightarrow> string \<Rightarrow> int \<Rightarrow> int option" where
  "int_opt got name d = (case map_of got name of None \<Rightarrow> Some d | Some v \<Rightarrow> py_int_of v)"

definition serial_argv :: "'w board \<Rightarrow> nat \<Rightarrow> string list \<Rightarrow> ('w run, int) act" where
  "serial_argv os fuel argv =
     (case parse_args [(''--port'', True), (''--baud'', True), (''--dry-run'', False), (''--host'', True), (''--key'', True)]
             argv [] of None \<Rightarrow> aret 2
      | Some got \<Rightarrow> (case int_opt got ''--baud'' 115200 of None \<Rightarrow> aret 2
          | Some baud \<Rightarrow> serial_console os fuel (opt got ''--port'' ''/dev/ttyUSB0'') baud (flag got ''--dry-run'')))"

definition flash_argv :: "'w board \<Rightarrow> string list \<Rightarrow> ('w run, int) act" where
  "flash_argv os argv =
     (case parse_args (add_args @ [(''--bitstream'', True), (''--tool'', True)]) argv [] of None \<Rightarrow> aret 2
      | Some got \<Rightarrow>
         (let tool = opt got ''--tool'' ''xsct''
          in case map_of got ''--bitstream'' of None \<Rightarrow> aret 2
             | Some bitstream \<Rightarrow> if tool \<notin> set [''xsct'', ''xc3sprog''] then aret 2
                 else flash_fpga os (opt got ''--host'' default_host) (map_of got ''--key'') (flag got ''--dry-run'') bitstream tool))"

definition rf_argv :: "'w board \<Rightarrow> string list \<Rightarrow> ('w run, int) act" where
  "rf_argv os argv = (case parse_args add_args argv [] of None \<Rightarrow> aret 2
     | Some got \<Rightarrow> rf_loopback os (opt got ''--host'' default_host) (map_of got ''--key'') (flag got ''--dry-run''))"

definition gps_argv :: "'w board \<Rightarrow> nat \<Rightarrow> string list \<Rightarrow> ('w run, int) act" where
  "gps_argv os fuel argv =
     (case parse_args (add_args @ [(''--timeout'', True)]) argv [] of None \<Rightarrow> aret 2
      | Some got \<Rightarrow> (case int_opt got ''--timeout'' fix_timeout_seconds of None \<Rightarrow> aret 2
          | Some timeout \<Rightarrow> gps_lock os fuel (opt got ''--host'' default_host) (map_of got ''--key'') (flag got ''--dry-run'') timeout))"

definition fhss_argv :: "'w board \<Rightarrow> string list \<Rightarrow> ('w run, int) act" where
  "fhss_argv os argv = (case parse_args (add_args @ [(''--host2'', True)]) argv [] of None \<Rightarrow> aret 2
     | Some got \<Rightarrow> fhss_onair os (opt got ''--host'' default_host) (map_of got ''--key'') (flag got ''--dry-run'') (map_of got ''--host2''))"

text \<open>
  A process of its own: its output is captured, an exception that is not caught is status 1, and a
  file that is not there is status 2 of the interpreter.
\<close>

definition as_process :: "('w run, int) act \<Rightarrow> ('w run, int) act" where
  "as_process main = (\<lambda>s. case main (s\<lparr>printed := []\<rparr>) of None \<Rightarrow> None
     | Some (r, t) \<Rightarrow> Some (Inr (case r of Inl e \<Rightarrow> 1 | Inr c \<Rightarrow> c), t\<lparr>printed := printed s\<rparr>))"

definition script_main :: "'w board \<Rightarrow> nat \<Rightarrow> string \<Rightarrow> string list \<Rightarrow> ('w run, int) act" where
  "script_main os fuel file argv =
     (if file = ''serial_console.py'' then serial_argv os fuel argv
      else if file = ''flash_fpga.py'' then flash_argv os argv
      else if file = ''rf_loopback.py'' then rf_argv os argv
      else if file = ''gps_lock.py'' then gps_argv os fuel argv
      else if file = ''fhss_onair.py'' then fhss_argv os argv
      else aret 2)"

definition python_runner :: "'w board \<Rightarrow> nat \<Rightarrow> string \<Rightarrow> string list \<Rightarrow> ('w run, int) act" where
  "python_runner os fuel here cmd =
     (case cmd of exe # path # argv \<Rightarrow>
        if prefix (here @ ''/'') path
        then as_process (script_main os fuel (drop (length here + 1) path) argv) else aret 2
      | _ \<Rightarrow> aret 2)"

section \<open>run_all.py\<close>

definition scripts :: "(string \<times> string list) list" where
  "scripts =
    [(''serial_console'', [''serial_console.py'']), (''flash_fpga'', [''flash_fpga.py'']),
     (''rf_loopback'', [''rf_loopback.py'']), (''gps_lock'', [''gps_lock.py'']), (''fhss_onair'', [''fhss_onair.py''])]"

record suite_args =
  suite_host :: string
  suite_key :: "string option"
  suite_dry :: bool
  bitstream :: string
  port :: string

definition suite_parse :: "string list \<Rightarrow> suite_args option" where
  "suite_parse argv = map_option (\<lambda>got. \<lparr>suite_host = opt got ''--host'' default_host, suite_key = map_of got ''--key'',
       suite_dry = flag got ''--dry-run'', bitstream = opt got ''--bitstream'' ''/tmp/cirradio.bit'',
       port = opt got ''--port'' ''/dev/ttyUSB0''\<rparr>)
     (parse_args (add_args @ [(''--bitstream'', True), (''--port'', True)]) argv [])"

definition run_script ::
    "(string list \<Rightarrow> ('w run, int) act) \<Rightarrow> string \<Rightarrow> string \<Rightarrow> string list \<Rightarrow> string list \<Rightarrow> ('w run, bool) act" where
  "run_script runner exe script_path extra_args common_args =
     abind (runner ([exe, script_path] @ common_args @ extra_args)) (\<lambda>rc. aret (rc = 0))"

definition common_args :: "suite_args \<Rightarrow> string list" where
  "common_args args = [''--host'', suite_host args] @
     (case suite_key args of Some k \<Rightarrow> if k = [] then [] else [''--key'', k] | None \<Rightarrow> []) @
     (if suite_dry args then [''--dry-run''] else [])"

definition extra_args :: "suite_args \<Rightarrow> string \<Rightarrow> string list" where
  "extra_args args name =
     (let extra = (if name = ''flash_fpga'' then [''--bitstream'', bitstream args] else [])
      in if name = ''serial_console'' then [''--port'', port args] else extra)"

definition status_line :: "bool \<Rightarrow> nat \<Rightarrow> string \<Rightarrow> string" where
  "status_line ok i name = (if ok then ''ok'' else ''not ok'') @ '' '' @ digits (int i) @ '' - '' @ name"

fun suite_loop :: "(string list \<Rightarrow> ('w run, int) act) \<Rightarrow> string \<Rightarrow> string \<Rightarrow> suite_args \<Rightarrow> nat \<Rightarrow>
    (string \<times> string list) list \<Rightarrow> bool \<Rightarrow> ('w run, bool) act" where
  "suite_loop runner exe here args i [] all_passed = aret all_passed"
| "suite_loop runner exe here args i ((name, script_args) # rest) all_passed =
     abind (run_script runner exe (here @ ''/'' @ hd script_args) (extra_args args name) (common_args args)) (\<lambda>ok.
     abind (print_line (status_line ok i name)) (\<lambda>_.
     suite_loop runner exe here args (i + 1) rest (all_passed \<and> ok)))"

definition run_all ::
    "(string list \<Rightarrow> ('w run, int) act) \<Rightarrow> string \<Rightarrow> string \<Rightarrow> string list \<Rightarrow> ('w run, int) act" where
  "run_all runner exe here argv =
     (case suite_parse argv of None \<Rightarrow> aret 2
      | Some args \<Rightarrow>
          abind (print_line ''TAP version 13'') (\<lambda>_.
          abind (print_line (''1..'' @ digits (int (length scripts)))) (\<lambda>_.
          abind (suite_loop runner exe here args 1 scripts True) (\<lambda>all_passed.
          aret (if all_passed then 0 else 1)))))"

end
