(* ===== verification/SuiteCheck.thy ===== *)
theory SuiteCheck
  imports BoardTestCheck RunAll
begin

text \<open>
  The suite: its report and exit status in terms of the result files, and the dry run of all five
  scripts through the command lines the suite builds.
\<close>

section \<open>The suite and its processes\<close>

text \<open>What the suite relies on of a script run as a process.\<close>

definition tested :: "string \<Rightarrow> ('w run, int) act \<Rightarrow> bool" where
  "tested name main \<longleftrightarrow> (\<forall>s r t. main s = Some (r, t) \<longrightarrow>
     (\<forall>n. n \<noteq> name \<longrightarrow> result_files t n = result_files s n) \<and>
     (r = Inr 0 \<longrightarrow> (\<exists>body. result_files t name = Some body \<and> result_text name True body)))"

context board_script begin

lemma passes: "tested name main"
  unfolding tested_def
proof (intro allI impI conjI)
  fix s r t n assume "main s = Some (r, t)" "n \<noteq> name"
  then show "result_files t n = result_files s n" by (rule frame)
next
  fix s r t assume "main s = Some (r, t)" "r = Inr 0"
  then show "\<exists>body. result_files t name = Some body \<and> result_text name True body"
    using verdict [of s 0 t] by simp
qed

end

lemma tested_usage: "tested name (aret 2)"
  by (simp add: tested_def aret_def)

lemma tested_if: "tested name a \<Longrightarrow> tested name b \<Longrightarrow> tested name (if c then a else b)"
  by simp

lemma tested_option: "tested name a \<Longrightarrow> (\<And>x. tested name (f x)) \<Longrightarrow> tested name (case v of None \<Rightarrow> a | Some x \<Rightarrow> f x)"
  by (cases v) simp_all

lemmas tested_intros = tested_usage tested_if tested_option

lemma serial_tested: "tested ''serial_console'' (serial_argv os fuel argv)"
  unfolding serial_argv_def by (intro tested_option tested_usage serial.passes)

lemma flash_tested: "tested ''flash_fpga'' (flash_argv os argv)"
  unfolding flash_argv_def Let_def by (intro tested_option tested_usage tested_if flash.passes)

lemma rf_tested: "tested ''rf_loopback'' (rf_argv os argv)"
  unfolding rf_argv_def by (intro tested_option tested_usage rf.passes)

lemma gps_tested: "tested ''gps_lock'' (gps_argv os fuel argv)"
  unfolding gps_argv_def by (intro tested_option tested_usage gps.passes)

lemma fhss_tested: "tested ''fhss_onair'' (fhss_argv os argv)"
  unfolding fhss_argv_def by (intro tested_option tested_usage fhss.passes)

lemmas script_tested = serial_tested flash_tested rf_tested gps_tested fhss_tested

lemma scripts_tested: "(name, [fn]) \<in> set scripts \<Longrightarrow> tested name (script_main os fuel fn argv)"
proof -
  assume "(name, [fn]) \<in> set scripts"
  then have "name = ''serial_console'' \<and> fn = ''serial_console.py'' \<or> name = ''flash_fpga'' \<and> fn = ''flash_fpga.py'' \<or>
      name = ''rf_loopback'' \<and> fn = ''rf_loopback.py'' \<or> name = ''gps_lock'' \<and> fn = ''gps_lock.py'' \<or>
      name = ''fhss_onair'' \<and> fn = ''fhss_onair.py''"
    unfolding scripts_def list.set insert_iff empty_iff prod.inject list.inject simp_thms by blast
  then show ?thesis
    by (elim disjE conjE; hypsubst; simp only: script_main_def; simp add: script_tested)
qed

lemma scripts_single: "p \<in> set scripts \<Longrightarrow> \<exists>name fn. p = (name, [fn])"
  by (auto simp: scripts_def)

lemma run_script_spec:
  assumes "(name, [fn]) \<in> set scripts"
    and run: "run_script (python_runner os fuel here) exe (here @ ''/'' @ fn) extra common s = Some (r, t)"
  shows "\<exists>ok. r = Inr ok \<and> printed t = printed s \<and> (\<forall>n. n \<noteq> name \<longrightarrow> result_files t n = result_files s n) \<and>
     (ok \<longrightarrow> (\<exists>body. result_files t name = Some body \<and> result_text name True body))"
proof -
  let ?main = "script_main os fuel fn (common @ extra)" and ?s = "s\<lparr>printed := []\<rparr>"
  have p: "python_runner os fuel here ([exe, here @ ''/'' @ fn] @ common @ extra) = as_process ?main"
    by (simp add: python_runner_def)
  from run obtain q u where q: "?main ?s = Some (q, u)"
    and r: "r = Inr ((case q of Inl e \<Rightarrow> 1 | Inr c \<Rightarrow> c) = 0)" and t: "t = u\<lparr>printed := printed s\<rparr>"
    unfolding run_script_def p by (auto simp: abind_def as_process_def aret_def split: option.splits)
  have "tested name ?main" by (rule scripts_tested [OF assms(1)])
  then have f: "\<And>n. n \<noteq> name \<Longrightarrow> result_files u n = result_files s n"
    and v: "q = Inr 0 \<Longrightarrow> \<exists>body. result_files u name = Some body \<and> result_text name True body"
    using q unfolding tested_def by fastforce+
  have "(case q of Inl e \<Rightarrow> 1 | Inr c \<Rightarrow> c) = 0 \<longleftrightarrow> q = Inr 0" by (cases q) auto
  then show ?thesis using r t f v by auto
qed

fun tap_lines :: "nat \<Rightarrow> bool list \<Rightarrow> (string \<times> string list) list \<Rightarrow> string list" where
  "tap_lines i [] ss = []"
| "tap_lines i (ok # oks) [] = []"
| "tap_lines i (ok # oks) (p # ss) = status_line ok i (fst p) # tap_lines (i + 1) oks ss"

definition passed_file :: "(string \<Rightarrow> string option) \<Rightarrow> string \<Rightarrow> bool" where
  "passed_file files name \<longleftrightarrow> (\<exists>body. files name = Some body \<and> result_text name True body)"

lemma suite_loop_spec:
  assumes "distinct (map fst ss)" "set ss \<subseteq> set scripts"
    and "suite_loop (python_runner os fuel here) exe here args i ss ap s = Some (r, t)"
  shows "\<exists>oks. length oks = length ss \<and> r = Inr (ap \<and> list_all (\<lambda>ok. ok) oks) \<and>
     printed t = printed s @ tap_lines i oks ss \<and>
     (\<forall>n. n \<notin> fst ` set ss \<longrightarrow> result_files t n = result_files s n) \<and>
     list_all2 (\<lambda>ok p. ok \<longrightarrow> passed_file (result_files t) (fst p)) oks ss"
  using assms
proof (induction ss arbitrary: i ap s)
  case Nil
  then show ?case by (auto simp: aret_def)
next
  case (Cons p ss)
  obtain name fn where p: "p = (name, [fn])" using scripts_single [of p] Cons.prems(2) by auto
  let ?run = "run_script (python_runner os fuel here) exe (here @ ''/'' @ fn) (extra_args args name) (common_args args)"
  have mem: "(name, [fn]) \<in> set scripts" using Cons.prems(2) p by simp
  from Cons.prems(3) obtain q u where u: "?run s = Some (q, u)"
    unfolding p by (auto simp: abind_def split: option.splits)
  from run_script_spec [OF mem u] obtain ok where ok: "q = Inr ok" "printed u = printed s"
    "\<forall>n. n \<noteq> name \<longrightarrow> result_files u n = result_files s n"
    "ok \<longrightarrow> (\<exists>body. result_files u name = Some body \<and> result_text name True body)" by blast
  let ?u = "u\<lparr>printed := printed s @ [status_line ok i name]\<rparr>"
  have rest: "suite_loop (python_runner os fuel here) exe here args (i + 1) ss (ap \<and> ok) ?u = Some (r, t)"
    using Cons.prems(3) u ok(1,2) unfolding p by (simp add: abind_def print_line_def)
  have "distinct (map fst ss)" "set ss \<subseteq> set scripts" using Cons.prems(1,2) by auto
  from Cons.IH [OF this rest] obtain oks where o: "length oks = length ss" "r = Inr ((ap \<and> ok) \<and> list_all (\<lambda>ok. ok) oks)"
    "printed t = printed ?u @ tap_lines (i + 1) oks ss"
    "\<forall>n. n \<notin> fst ` set ss \<longrightarrow> result_files t n = result_files ?u n"
    "list_all2 (\<lambda>ok p. ok \<longrightarrow> passed_file (result_files t) (fst p)) oks ss" by blast
  have n: "name \<notin> fst ` set ss" using Cons.prems(1) p by simp
  then have "result_files t name = result_files u name" using o(4) by simp
  then have "ok \<longrightarrow> passed_file (result_files t) name" using ok(4) by (simp add: passed_file_def)
  moreover have "\<forall>n. n \<notin> fst ` set (p # ss) \<longrightarrow> result_files t n = result_files s n"
    using o(4) ok(3) by (auto simp: p)
  ultimately show ?case using o(1,2,3,5) by (intro exI [of _ "ok # oks"]) (auto simp: p)
qed

lemma digits_5: "digits 5 = ''5''"
  by code_simp

lemma suite_run:
  assumes "suite_parse argv = Some args" "run_all (python_runner os fuel here) exe here argv s = Some (r, t)"
  shows "\<exists>oks. length oks = 5 \<and> r = Inr (if list_all (\<lambda>ok. ok) oks then 0 else 1) \<and>
     printed t = printed s @ [''TAP version 13'', ''1..5''] @ tap_lines 1 oks scripts \<and>
     list_all2 (\<lambda>ok p. ok \<longrightarrow> passed_file (result_files t) (fst p)) oks scripts"
proof -
  let ?s = "s\<lparr>printed := printed s @ [''TAP version 13'', ''1..5'']\<rparr>"
  have d: "digits (int (length scripts)) = ''5''" by (simp add: scripts_def digits_5)
  from assms obtain q u where q: "suite_loop (python_runner os fuel here) exe here args 1 scripts True ?s = Some (q, u)"
    by (auto simp: run_all_def abind_def print_line_def d split: option.splits)
  have "distinct (map fst scripts)" by (simp add: scripts_def)
  from suite_loop_spec [OF this subset_refl q] obtain oks where o: "length oks = length scripts"
    "q = Inr (True \<and> list_all (\<lambda>ok. ok) oks)" "printed u = printed ?s @ tap_lines 1 oks scripts"
    "list_all2 (\<lambda>ok p. ok \<longrightarrow> passed_file (result_files u) (fst p)) oks scripts" by blast
  have "r = Inr (if list_all (\<lambda>ok. ok) oks then 0 else 1)" "u = t"
    using assms q o(2) by (simp_all add: run_all_def abind_def print_line_def d aret_def)
  then show ?thesis using o by (intro exI [of _ oks]) (simp add: scripts_def)
qed

section \<open>Dry runs\<close>

text \<open>A computation that ends with status 0 in every state.\<close>

definition succeeds :: "('w run, int) act \<Rightarrow> bool" where
  "succeeds main \<longleftrightarrow> (\<forall>s. \<exists>t. main s = Some (Inr 0, t))"

lemma succeeds_write: "succeeds (abind (write_result os name True details) (\<lambda>_. aret (exit_of True)))"
  by (simp add: succeeds_def abind_def write_result_eq aret_def exit_of_def Let_def split: prod.split)

lemma abind_aret: "abind (aret x) f = f x"
  by (simp add: abind_def aret_def)

lemma abind_of_res: "abind (of_res (Inr x)) f = f x"
  by (simp add: abind_def of_res_def)

lemma connect_dry: "BoardSSH os h key True = aret \<lparr>host = h, key_path = key, dry_run = True\<rparr>"
  by (simp add: BoardSSH_def Let_def)

lemma serial_dry: "succeeds (serial_console os fuel p b True)"
  using succeeds_write [of os "''serial_console''"] by (simp add: serial_console_def run_dry_def exit_of_def)

lemma uio0_dry: "dry_run_cmd ''ls /dev/uio0'' = (0, ''/dev/uio0'' @ [nl], '''')"
  by code_simp

lemma uio0_present: "contains ''/dev/uio0'' (''/dev/uio0'' @ [nl])"
  by code_simp

lemma flash_dry: "succeeds (flash_fpga os h key True bits tool)"
proof -
  have v: "verify_uio0 os \<lparr>host = h, key_path = key, dry_run = True\<rparr> = aret True"
    using uio0_present by (simp add: verify_uio0_def run_cmd_def abind_aret uio0_dry del: append.simps append_Cons)
  have "flash_fpga os h key True bits tool = abind (write_result os ''flash_fpga'' True
      [(''tool'', JStr tool), (''uio0_present'', JBool True),
       (''log'', JStr (take 500 (if tool = ''xsct'' then ''[dry-run] xsct flash simulated'' else ''[dry-run] xc3sprog flash simulated'')))])
      (\<lambda>_. aret (exit_of True))"
    unfolding flash_fpga_def flash_with_xsct_def flash_with_xc3sprog_def connect_dry
    by (cases "tool = ''xsct''") (simp_all only: if_True if_False abind_aret v Let_def prod.case not_True_eq_False simp_thms)
  then show ?thesis by (simp only: succeeds_write)
qed

lemma rf_dry: "succeeds (rf_loopback os h key True)"
proof -
  obtain v where v: "compute_evm (generate_qpsk_symbols num_symbols)
     (map (\<lambda>s. cadd s (lit 1 2, lit 1 2)) (generate_qpsk_symbols num_symbols)) = Inr v" "v < 5"
    using dry_evm unfolding offset_def by blast
  have "rf_loopback os h key True = abind (write_result os ''rf_loopback'' True
          [(''evm_percent'', JFloat (flt_round 3 (Fin v))), (''threshold_percent'', JFloat evm_threshold),
           (''log'', JStr (take 500 ''dry-run simulated''))]) (\<lambda>_. aret (exit_of True))"
    using v(2) unfolding rf_loopback_def run_loopback_on_board_def connect_dry if_True Let_def v(1)
    by (simp only: abind_aret abind_of_res prod.case evm_threshold_def flt_less.simps)
  then show ?thesis by (simp only: succeeds_write)
qed

lemma gps_dry: "succeeds (gps_lock os fuel h key True timeout)"
  unfolding gps_lock_def wait_for_fix_def check_pps_jitter_def connect_dry if_True Let_def
  by (simp only: abind_aret prod.case simp_thms succeeds_write)

lemma json_eq_int: "json_eq (JInt i) (JInt i)"
  by simp

lemma count_same_ints: "count_matches (map JInt is) (map JInt is) = length is"
  by (induction "is") (simp_all add: count_matches_def)

lemma dry_verdict: "hop_verdict (dry_hops num_hops) (dry_hops num_hops) = Inr (Inr (100, 1, True))"
proof -
  have "dry_hops num_hops = JList (map JInt (map (\<lambda>i. 225000 + (int i * 1000 + 17000) mod 287000) [0..<num_hops]))"
    by (simp add: dry_hops_def)
  moreover have "length (map (\<lambda>i. 225000 + (int i * 1000 + 17000) mod 287000) [0..<num_hops]) = 100"
    by (simp add: num_hops_def)
  ultimately obtain xs where xs: "dry_hops num_hops = JList (map JInt xs)" "length xs = 100" by blast
  then have "xs \<noteq> []" by auto
  moreover have "fdiv (of_nat 100) (of_nat num_hops) = 1" by (simp add: fdiv_def num_hops_def)
  ultimately show ?thesis using xs(2)
    by (simp add: hop_verdict_def xs(1) json_len_def count_same_ints Let_def required_correlation_def)
qed

lemma fhss_dry: "succeeds (fhss_onair os h key True host2)"
  unfolding fhss_onair_def Let_def connect_dry collect_hop_log_def if_True
  by (simp only: abind_aret dry_verdict abind_of_res sum.case prod.case succeeds_write)

text \<open>The command lines the suite builds are understood.\<close>

definition good_args :: "suite_args \<Rightarrow> bool" where
  "good_args args \<longleftrightarrow> value_like (suite_host args) \<and> value_like (bitstream args) \<and> value_like (port args) \<and>
     (\<forall>k. suite_key args = Some k \<longrightarrow> value_like k)"

lemma obj_put_all: "\<forall>p \<in> set got. P (snd p) \<Longrightarrow> P v \<Longrightarrow> \<forall>p \<in> set (obj_put k v got). P (snd p)"
  by (induction k v got rule: obj_put.induct) auto

lemma parse_args_values:
  "parse_args spec argv got = Some got' \<Longrightarrow> \<forall>p \<in> set got. value_like (snd p) \<Longrightarrow> \<forall>p \<in> set got'. value_like (snd p)"
proof (induction spec argv got rule: parse_args.induct)
  case (2 spec a rest got)
  have n: "value_like []" by (simp add: value_like_def)
  from "2.prems"(1) consider
      (flag) "map_of spec a = Some False" "parse_args spec rest (obj_put a [] got) = Some got'"
    | (val) v rest' where "map_of spec a = Some True" "rest = v # rest'" "value_like v"
        "parse_args spec rest' (obj_put a v got) = Some got'"
    by (auto split: option.splits bool.splits list.splits if_splits)
  then show ?case
  proof cases
    case flag
    then show ?thesis using "2.IH"(2) [OF flag(1) refl flag(2) obj_put_all [OF "2.prems"(2) n]] by blast
  next
    case val
    show ?thesis by (rule "2.IH"(1) [OF val(1) refl val(2,3,4) obj_put_all [OF "2.prems"(2) val(3)]])
  qed
qed simp

lemma map_of_value: "\<forall>p \<in> set got. P (snd p) \<Longrightarrow> map_of got k = Some v \<Longrightarrow> P v"
  using map_of_SomeD by fastforce

lemma suite_parse_good: "suite_parse argv = Some args \<Longrightarrow> good_args args"
proof -
  assume "suite_parse argv = Some args"
  then obtain got where g: "parse_args (add_args @ [(''--bitstream'', True), (''--port'', True)]) argv [] = Some got"
    and a: "args = \<lparr>suite_host = opt got ''--host'' default_host, suite_key = map_of got ''--key'',
       suite_dry = flag got ''--dry-run'', bitstream = opt got ''--bitstream'' ''/tmp/cirradio.bit'',
       port = opt got ''--port'' ''/dev/ttyUSB0''\<rparr>" unfolding suite_parse_def by blast
  from parse_args_values [OF g] have v: "\<forall>p \<in> set got. value_like (snd p)" by simp
  have "value_like d \<Longrightarrow> value_like (opt got k d)" for k d
    using map_of_value [OF v, of k] by (cases "map_of got k") (simp_all add: opt_def)
  moreover have "value_like default_host" "value_like ''/tmp/cirradio.bit''" "value_like ''/dev/ttyUSB0''"
    by (simp_all add: value_like_def default_host_def)
  ultimately show ?thesis using map_of_value [OF v] by (simp add: good_args_def a)
qed

text \<open>What a child has parsed of the arguments that all children get.\<close>

definition common_opts :: "suite_args \<Rightarrow> opts" where
  "common_opts args = [(''--host'', suite_host args)] @
     (case suite_key args of Some k \<Rightarrow> if k = [] then [] else [(''--key'', k)] | None \<Rightarrow> []) @ [(''--dry-run'', [])]"

lemma child_common:
  assumes "good_args args" "suite_dry args"
    and spec: "map_of spec ''--host'' = Some True" "map_of spec ''--key'' = Some True" "map_of spec ''--dry-run'' = Some False"
  shows "parse_args spec (common_args args @ rest) [] = parse_args spec rest (common_opts args)"
  using assms by (auto simp: common_args_def common_opts_def good_args_def split: option.split)

lemma common_flags: "flag (common_opts args) ''--dry-run''"
  by (auto simp: flag_def common_opts_def split: option.split)

lemma common_no: "k \<notin> set [''--host'', ''--key'', ''--dry-run''] \<Longrightarrow> map_of (common_opts args) k = None"
  by (auto simp: common_opts_def split: option.split)

lemma map_of_obj_put: "map_of (obj_put k v got) = (map_of got)(k \<mapsto> v)"
  by (induction k v got rule: obj_put.induct) auto

lemma serial_argv_dry:
  "good_args args \<Longrightarrow> suite_dry args \<Longrightarrow>
     succeeds (serial_argv os fuel (common_args args @ extra_args args ''serial_console''))"
  unfolding serial_argv_def
  using common_flags [of args] common_no [of "''--baud''" args] serial_dry
  by (subst child_common) (simp_all add: extra_args_def good_args_def int_opt_def flag_def map_of_obj_put)

lemma flash_argv_dry:
  "good_args args \<Longrightarrow> suite_dry args \<Longrightarrow>
     succeeds (flash_argv os (common_args args @ extra_args args ''flash_fpga''))"
  unfolding flash_argv_def
  using common_flags [of args] common_no [of "''--tool''" args] flash_dry
  by (subst child_common) (simp_all add: add_args_def extra_args_def good_args_def opt_def flag_def map_of_obj_put Let_def)

lemma rf_argv_dry:
  "good_args args \<Longrightarrow> suite_dry args \<Longrightarrow> succeeds (rf_argv os (common_args args @ extra_args args ''rf_loopback''))"
  unfolding rf_argv_def using common_flags [of args] rf_dry
  by (subst child_common) (simp_all add: add_args_def extra_args_def)

lemma gps_argv_dry:
  "good_args args \<Longrightarrow> suite_dry args \<Longrightarrow> succeeds (gps_argv os fuel (common_args args @ extra_args args ''gps_lock''))"
  unfolding gps_argv_def using common_flags [of args] common_no [of "''--timeout''" args] gps_dry
  by (subst child_common) (simp_all add: add_args_def extra_args_def int_opt_def)

lemma fhss_argv_dry:
  "good_args args \<Longrightarrow> suite_dry args \<Longrightarrow> succeeds (fhss_argv os (common_args args @ extra_args args ''fhss_onair''))"
  unfolding fhss_argv_def using common_flags [of args] fhss_dry
  by (subst child_common) (simp_all add: add_args_def extra_args_def)

lemma script_dry:
  assumes "good_args args" "suite_dry args" "(name, [fn]) \<in> set scripts"
  shows "succeeds (script_main os fuel fn (common_args args @ extra_args args name))"
proof -
  have "name = ''serial_console'' \<and> fn = ''serial_console.py'' \<or> name = ''flash_fpga'' \<and> fn = ''flash_fpga.py'' \<or>
      name = ''rf_loopback'' \<and> fn = ''rf_loopback.py'' \<or> name = ''gps_lock'' \<and> fn = ''gps_lock.py'' \<or>
      name = ''fhss_onair'' \<and> fn = ''fhss_onair.py''"
    using assms(3) unfolding scripts_def list.set insert_iff empty_iff prod.inject list.inject simp_thms by blast
  then show ?thesis
    using serial_argv_dry [OF assms(1,2)] flash_argv_dry [OF assms(1,2)] rf_argv_dry [OF assms(1,2)]
      gps_argv_dry [OF assms(1,2)] fhss_argv_dry [OF assms(1,2)]
    by (elim disjE conjE; hypsubst; simp only: script_main_def; simp)
qed

lemma run_script_dry:
  assumes "good_args args" "suite_dry args" "(name, [fn]) \<in> set scripts"
  shows "\<exists>t. run_script (python_runner os fuel here) exe (here @ ''/'' @ fn) (extra_args args name) (common_args args) s
     = Some (Inr True, t)"
proof -
  let ?main = "script_main os fuel fn (common_args args @ extra_args args name)"
  obtain t where "?main (s\<lparr>printed := []\<rparr>) = Some (Inr 0, t)"
    using script_dry [OF assms] unfolding succeeds_def by blast
  then show ?thesis by (simp add: run_script_def python_runner_def abind_def as_process_def aret_def)
qed

lemma suite_loop_dry:
  assumes "good_args args" "suite_dry args" "set ss \<subseteq> set scripts"
  shows "\<exists>t. suite_loop (python_runner os fuel here) exe here args i ss ap s = Some (Inr ap, t)"
  using assms(3)
proof (induction ss arbitrary: i s)
  case (Cons p ss)
  obtain name fn where p: "p = (name, [fn])" using scripts_single [of p] Cons.prems by auto
  have m: "(name, [fn]) \<in> set scripts" "set ss \<subseteq> set scripts" using Cons.prems p by simp_all
  obtain u where u: "run_script (python_runner os fuel here) exe (here @ ''/'' @ fn) (extra_args args name) (common_args args) s
     = Some (Inr True, u)" using run_script_dry [OF assms(1,2) m(1)] by blast
  show ?case using Cons.IH [OF m(2), of "i + 1" "u\<lparr>printed := printed u @ [status_line True i name]\<rparr>"]
    by (simp add: p abind_def u [simplified] print_line_def)
qed (simp add: aret_def)

lemma suite_dry_ends:
  assumes "suite_parse argv = Some args" "suite_dry args"
  shows "\<exists>t. run_all (python_runner os fuel here) exe here argv s = Some (Inr 0, t)"
proof -
  let ?s = "s\<lparr>printed := printed s @ [''TAP version 13'', ''1..'' @ digits (int (length scripts))]\<rparr>"
  obtain t where "suite_loop (python_runner os fuel here) exe here args 1 scripts True ?s = Some (Inr True, t)"
    using suite_loop_dry [OF suite_parse_good [OF assms(1)] assms(2) subset_refl] by blast
  then show ?thesis by (simp add: run_all_def assms(1) abind_def print_line_def aret_def)
qed

text \<open>A board that answers nothing, for the examples: its clock stands still.\<close>

definition silent_board :: "unit board" where
  "silent_board = \<lparr>clock = (\<lambda>w. (Fin 0, w)), monotonic = (\<lambda>w. (Fin 0, w)), nap = (\<lambda>n w. w),
     spawn = (\<lambda>cmd limit w. (Inr (1, [], []), w)), ssh_connect = (\<lambda>h k w. (Inr (), w)),
     ssh_exec = (\<lambda>h cmd limit w. (Inr (1, [], []), w)), serial_open = (\<lambda>p b w. (Inr (), w)),
     serial_read = (\<lambda>n w. (Inr [], w))\<rparr>"

definition fresh_run :: "'w \<Rightarrow> 'w run" where
  "fresh_run w = \<lparr>world = w, printed = [], result_files = Map.empty\<rparr>"

lemma dry_argv: "\<exists>args. suite_parse [''--dry-run''] = Some args \<and> suite_dry args"
  by (simp add: suite_parse_def add_args_def flag_def)



lemma all_ok_lines: "tap_lines 1 (replicate 5 True) scripts = [''ok 1 - serial_console'', ''ok 2 - flash_fpga'',
     ''ok 3 - rf_loopback'', ''ok 4 - gps_lock'', ''ok 5 - fhss_onair'']"
  by code_simp

lemma all_true: "list_all (\<lambda>ok. ok) oks \<Longrightarrow> oks = replicate (length oks) True"
  by (induction oks) simp_all

lemma all_true_list_all2: "list_all2 (\<lambda>ok p. ok \<longrightarrow> Q p) (replicate n True) ss \<Longrightarrow> list_all Q ss"
proof (induction ss arbitrary: n)
  case (Cons p ss)
  then show ?case by (cases n) auto
qed simp

lemma dry_suite:
  assumes "suite_parse argv = Some args" "suite_dry args"
  shows "\<exists>t. run_all (python_runner os fuel here) exe here argv s = Some (Inr 0, t) \<and>
     printed t = printed s @ [''TAP version 13'', ''1..5'', ''ok 1 - serial_console'', ''ok 2 - flash_fpga'',
       ''ok 3 - rf_loopback'', ''ok 4 - gps_lock'', ''ok 5 - fhss_onair''] \<and>
     list_all (\<lambda>p. passed_file (result_files t) (fst p)) scripts"
proof -
  obtain t where t: "run_all (python_runner os fuel here) exe here argv s = Some (Inr 0, t)"
    using suite_dry_ends [OF assms] by blast
  from suite_run [OF assms(1) t] obtain oks where o: "length oks = 5" "(if list_all (\<lambda>ok. ok) oks then 0 else 1) = (0 :: int)"
    "printed t = printed s @ [''TAP version 13'', ''1..5''] @ tap_lines 1 oks scripts"
    "list_all2 (\<lambda>ok p. ok \<longrightarrow> passed_file (result_files t) (fst p)) oks scripts" unfolding sum.inject by (elim exE conjE) (rule that, assumption, rule sym, assumption+)
  have "oks = replicate 5 True" using o(1,2) all_true [of oks] by (simp split: if_splits)
  then have p: "printed t = printed s @ [''TAP version 13'', ''1..5''] @ tap_lines 1 (replicate 5 True) scripts"
    and l: "list_all2 (\<lambda>ok p. ok \<longrightarrow> passed_file (result_files t) (fst p)) (replicate 5 True) scripts" using o(3,4) by simp_all
  note q = all_true_list_all2 [OF l]
  show ?thesis by (rule exI [of _ t]) (intro conjI t p [unfolded all_ok_lines append.simps] q)
qed



end
