(* ===== verification/SignalCheck.thy ===== *)
theory SignalCheck
  imports SuiteCheck
begin

text \<open>
  What the tests measure: the resolution of the pulse jitter in binary64, the hop correlation, the
  console prompts, and that waiting for a fix ends.
\<close>

section \<open>Rounding in the range of the time stamps\<close>

lemma rnd_fl: "1 / 2 ^ 1022 \<le> \<bar>x\<bar> \<Longrightarrow> \<bar>x\<bar> < 2 ^ 1023 \<Longrightarrow> rnd x = Fin (fl x)"
proof -
  assume x: "1 / 2 ^ 1022 \<le> \<bar>x\<bar>" "\<bar>x\<bar> < 2 ^ 1023"
  have f: "is_float (2 ^ 1023)" "is_float (- (2 ^ 1023))"
    unfolding is_float_def by (rule exI [of _ 1], rule exI [of _ 1023], simp)
      (rule exI [of _ "-1"], rule exI [of _ 1023], simp)
  have "fl x \<le> 2 ^ 1023" "- (2 ^ 1023) \<le> fl x" using x(2) by (intro fl_le fl_ge f; linarith)+
  then show ?thesis using x(1) by (simp add: rnd_def Let_def)
qed

lemma rnd_float: "is_float x \<Longrightarrow> x = 0 \<or> 1 / 2 ^ 60 \<le> \<bar>x\<bar> \<Longrightarrow> \<bar>x\<bar> < 2 ^ 60 \<Longrightarrow> rnd x = Fin x"
proof (cases "x = 0")
  case True
  then show ?thesis using rhe_of_int [of 0] by (simp add: rnd_def)
next
  case False
  assume x: "is_float x" "x = 0 \<or> 1 / 2 ^ 60 \<le> \<bar>x\<bar>" "\<bar>x\<bar> < 2 ^ 60"
  have "(1 :: rat) / 2 ^ 1022 \<le> 1 / 2 ^ 60" "(2 :: rat) ^ 60 < 2 ^ 1023" by simp_all
  then have "1 / 2 ^ 1022 \<le> \<bar>x\<bar>" "\<bar>x\<bar> < 2 ^ 1023" using x False by linarith+
  then show ?thesis using rnd_fl fl_exact [OF x(1)] by simp
qed

lemma fl_stamp:
  assumes "2 ^ 30 \<le> x" "x < 2 ^ 31"
  shows "\<exists>m. fl x = of_int m / 2 ^ 22 \<and> 2 ^ 52 \<le> m \<and> m \<le> 2 ^ 53 \<and> \<bar>fl x - x\<bar> \<le> 1 / 2 ^ 23"
proof -
  have x0: "0 < x" using assms(1) by simp
  have e: "fexp x = 30"
  proof (rule fexp_unique)
    show "(2 :: rat) powi 30 \<le> x" "x < 2 powi (30 + 1)" using assms by (simp_all add: power_int_numeral)
    show "0 < x" by (rule x0)
  qed
  have u: "(2 :: rat) powi (30 - 52) = 1 / 2 ^ 22" "(2 :: rat) powi (30 - 53) = 1 / 2 ^ 23"
    by (simp_all add: power_int_def power_one_over)
  have ax: "\<bar>x\<bar> = x" using x0 by simp
  have m: "fl x = of_int (rhe (x * 2 ^ 22)) / 2 ^ 22"
    using x0 unfolding fl_def Let_def ax e u by simp
  have "\<bar>fl x - x\<bar> \<le> 1 / 2 ^ 23" using fl_err_powi [of x] x0 unfolding ax e u by simp
  moreover have "2 ^ 52 \<le> rhe (x * 2 ^ 22)"
  proof (rule rhe_ge_of_int)
    have "2 ^ 30 * 2 ^ 22 \<le> x * 2 ^ 22" using assms(1) by (rule mult_right_mono) simp
    then show "of_int (2 ^ 52) \<le> x * 2 ^ 22" by simp
  qed
  moreover have "rhe (x * 2 ^ 22) \<le> 2 ^ 53"
  proof (rule rhe_le_of_int)
    have "x * 2 ^ 22 \<le> 2 ^ 31 * 2 ^ 22" using assms(2) by (intro mult_right_mono) simp_all
    then show "x * 2 ^ 22 \<le> of_int (2 ^ 53)" by simp
  qed
  ultimately show ?thesis using m by blast
qed

lemma rnd_units: "\<bar>k\<bar> \<le> 2 ^ 53 \<Longrightarrow> rnd (of_int k / 2 ^ 22) = Fin (of_int k / 2 ^ 22)"
proof (rule rnd_float)
  assume k: "\<bar>k\<bar> \<le> 2 ^ 53"
  show "is_float (of_int k / 2 ^ 22)" by (rule is_float_dyadic [OF k])
  have kr: "\<bar>of_int k\<bar> \<le> (2 ^ 53 :: rat)"
    using k by (metis of_int_abs of_int_le_iff of_int_numeral of_int_power)
  have "\<bar>of_int k / 2 ^ 22\<bar> \<le> (2 ^ 53 / 2 ^ 22 :: rat)" unfolding abs_divide using kr by (simp add: divide_right_mono)
  then show "\<bar>of_int k / 2 ^ 22\<bar> < (2 ^ 60 :: rat)" by simp
  show "of_int k / 2 ^ 22 = (0 :: rat) \<or> 1 / 2 ^ 60 \<le> \<bar>of_int k / 2 ^ 22 :: rat\<bar>"
  proof (cases "k = 0")
    case False
    then have "1 \<le> \<bar>k\<bar>" by simp
    then have "(1 :: rat) \<le> \<bar>of_int k\<bar>" by (metis of_int_1_le_iff of_int_abs)
    then have "1 / 2 ^ 22 \<le> \<bar>of_int k / 2 ^ 22 :: rat\<bar>" unfolding abs_divide by simp
    then show ?thesis by simp
  qed simp
qed

text \<open>A measured interval, and how far it is from the true one.\<close>

definition jitter_of :: "rat \<Rightarrow> rat \<Rightarrow> rat" where
  "jitter_of x y = \<bar>fl y - fl x - 1\<bar>"

lemma stamp_interval:
  assumes "2 ^ 30 \<le> x" "x < 2 ^ 31" "2 ^ 30 \<le> y" "y < 2 ^ 31"
  shows "flt_abs (flt_sub (flt_sub (Fin (fl y)) (Fin (fl x))) (Fin 1)) = Fin (jitter_of x y)"
    and "\<bar>jitter_of x y - \<bar>y - x - 1\<bar>\<bar> \<le> 1 / 2 ^ 22"
    and "\<exists>k. jitter_of x y = of_int k / 2 ^ 22 \<and> 0 \<le> k \<and> k \<le> 2 ^ 53"
proof -
  obtain m where m: "fl x = of_int m / 2 ^ 22" "2 ^ 52 \<le> m" "m \<le> 2 ^ 53" "\<bar>fl x - x\<bar> \<le> 1 / 2 ^ 23"
    using fl_stamp [OF assms(1,2)] by blast
  obtain n where n: "fl y = of_int n / 2 ^ 22" "2 ^ 52 \<le> n" "n \<le> 2 ^ 53" "\<bar>fl y - y\<bar> \<le> 1 / 2 ^ 23"
    using fl_stamp [OF assms(3,4)] by blast
  have d: "fl y + - fl x = of_int (n - m) / 2 ^ 22" by (simp add: m(1) n(1) diff_divide_distrib)
  have d1: "of_int (n - m) / 2 ^ 22 + - 1 = (of_int (n - m - 2 ^ 22) / 2 ^ 22 :: rat)" by (simp add: field_simps)
  have k: "\<bar>n - m\<bar> \<le> 2 ^ 53" "\<bar>n - m - 2 ^ 22\<bar> \<le> 2 ^ 53" using m(2,3) n(2,3) by auto
  have j: "jitter_of x y = \<bar>of_int (n - m - 2 ^ 22) / 2 ^ 22\<bar>"
    unfolding jitter_of_def d1 [symmetric] d [symmetric] by simp
  show "flt_abs (flt_sub (flt_sub (Fin (fl y)) (Fin (fl x))) (Fin 1)) = Fin (jitter_of x y)"
    unfolding flt_sub_def flt_neg.simps flt_add.simps d rnd_units [OF k(1)] d1 rnd_units [OF k(2)] flt_abs.simps j ..
  show "\<bar>jitter_of x y - \<bar>y - x - 1\<bar>\<bar> \<le> 1 / 2 ^ 22"
  proof -
    have "\<bar>(fl y - fl x - 1) - (y - x - 1)\<bar> \<le> \<bar>fl y - y\<bar> + \<bar>fl x - x\<bar>" by linarith
    then have "\<bar>(fl y - fl x - 1) - (y - x - 1)\<bar> \<le> 1 / 2 ^ 22" using m(4) n(4) by simp
    then show ?thesis unfolding jitter_of_def by linarith
  qed
  have "jitter_of x y = of_int \<bar>n - m - 2 ^ 22\<bar> / 2 ^ 22" unfolding j by (simp add: abs_divide)
  then show "\<exists>k. jitter_of x y = of_int k / 2 ^ 22 \<and> 0 \<le> k \<and> k \<le> 2 ^ 53" using k(2) by (intro exI [of _ "\<bar>n - m - 2 ^ 22\<bar>"]) simp
qed

text \<open>The verdict of the jitter test on such an interval.\<close>

lemma interval_verdict:
  assumes "0 \<le> j" "j = of_int k / 2 ^ 22" "k \<le> 2 ^ 53"
  shows "\<exists>v. flt_scale (Fin j) (10 ^ 9) = Fin v \<and> (j < 999 / 10 ^ 9 \<longrightarrow> v < 1000) \<and> (v < 1000 \<longrightarrow> j < 1 / 10 ^ 6)"
proof -
  have r: "rnd (j * 10 ^ 9) = Fin (fl (j * 10 ^ 9))"
  proof (cases "k = 0")
    case True
    then show ?thesis using rnd_float [of 0] is_float_of_int [of 0] by (simp add: assms(2))
  next
    case False
    then have "1 \<le> k" using assms(1,2) by (simp add: zero_le_divide_iff)
    then have "(1 :: rat) \<le> of_int k" by simp
    then have "1 / 2 ^ 22 \<le> j" unfolding assms(2) by simp
    then have lo: "1 \<le> j * 10 ^ 9" by simp
    have "of_int k \<le> (of_int (2 ^ 53) :: rat)" using assms(3) by (simp only: of_int_le_iff)
    then have "j \<le> 2 ^ 53 / 2 ^ 22" unfolding assms(2) by (intro divide_right_mono) simp_all
    then have hi: "j * 10 ^ 9 \<le> 2 ^ 53 / 2 ^ 22 * 10 ^ 9" by (rule mult_right_mono) simp
    have "(2 :: rat) ^ 53 / 2 ^ 22 * 10 ^ 9 < 2 ^ 1023" "(1 :: rat) / 2 ^ 1022 \<le> 1" by simp_all
    then show ?thesis using lo hi assms(1) by (intro rnd_fl) linarith+
  qed
  have up: "j < 999 / 10 ^ 9 \<Longrightarrow> fl (j * 10 ^ 9) < 1000"
  proof -
    assume "j < 999 / 10 ^ 9"
    then have "j * 10 ^ 9 \<le> 999" by simp
    then have "fl (j * 10 ^ 9) \<le> 999" using is_float_of_int [of 999] by (intro fl_le) simp_all
    then show ?thesis by simp
  qed
  have down: "fl (j * 10 ^ 9) < 1000 \<Longrightarrow> j < 1 / 10 ^ 6"
  proof (rule ccontr)
    assume a: "fl (j * 10 ^ 9) < 1000" "\<not> j < 1 / 10 ^ 6"
    then have "1000 \<le> j * 10 ^ 9" by simp
    then have "1000 \<le> fl (j * 10 ^ 9)" using is_float_of_int [of 1000] by (intro fl_ge) simp_all
    then show False using a(1) by simp
  qed
  show ?thesis using r up down by (intro exI [of _ "fl (j * 10 ^ 9)"]) simp
qed

lemma foldl_max: "foldl (\<lambda>m v. if flt_less m v then v else m) (Fin a) (map Fin vs) = Fin (foldl max a vs)"
  by (induction vs arbitrary: a) (auto simp: max_def)

lemma foldl_max_less: "foldl max a vs < c \<longleftrightarrow> a < c \<and> (\<forall>v \<in> set vs. v < (c :: rat))"
  by (induction vs arbitrary: a) auto

lemma flt_max_less:
  assumes "vs \<noteq> []"
  shows "\<exists>j. flt_max (map Fin vs) = Inr (Fin j) \<and> (j < c \<longleftrightarrow> (\<forall>v \<in> set vs. v < c))"
proof (cases vs)
  case (Cons a ws)
  then show ?thesis by (simp add: flt_max_def foldl_max foldl_max_less)
qed (use assms in simp)

text \<open>Consecutive pairs.\<close>

fun pairs :: "'a list \<Rightarrow> ('a \<times> 'a) list" where
  "pairs (x # y # xs) = (x, y) # pairs (y # xs)"
| "pairs xs = []"

lemma zip_pairs: "zip (butlast xs) (tl xs) = pairs xs"
  by (induction xs rule: pairs.induct) auto

lemma pairs_map: "pairs (map f xs) = map (\<lambda>(x, y). (f x, f y)) (pairs xs)"
  by (induction xs rule: pairs.induct) auto

lemma pairs_set: "(x, y) \<in> set (pairs xs) \<Longrightarrow> x \<in> set xs \<and> y \<in> set xs"
  by (induction xs rule: pairs.induct) auto

lemma pairs_nonempty: "2 \<le> length xs \<Longrightarrow> pairs xs \<noteq> []"
  by (cases xs rule: pairs.cases) auto

lemma intervals_exist:
  assumes "\<forall>x \<in> set xs. 2 ^ 30 \<le> x \<and> x < 2 ^ 31"
  shows "\<exists>v. pps_intervals (map (\<lambda>x. Fin (fl x)) xs) = map (\<lambda>p. Fin (v p)) (pairs xs) \<and>
     (\<forall>(x, y) \<in> set (pairs xs). (jitter_of x y < 999 / 10 ^ 9 \<longrightarrow> v (x, y) < 1000) \<and>
        (v (x, y) < 1000 \<longrightarrow> jitter_of x y < 1 / 10 ^ 6))"
proof -
  let ?g = "\<lambda>(x, y). flt_scale (flt_abs (flt_sub (flt_sub (Fin (fl y)) (Fin (fl x))) (Fin 1))) (10 ^ 9)"
  have i: "pps_intervals (map (\<lambda>x. Fin (fl x)) xs) = map ?g (pairs xs)"
    unfolding pps_intervals_def zip_pairs pairs_map map_map by (rule map_cong) auto
  have "\<forall>p. \<exists>v. p \<in> set (pairs xs) \<longrightarrow> ?g p = Fin v \<and>
      (jitter_of (fst p) (snd p) < 999 / 10 ^ 9 \<longrightarrow> v < 1000) \<and> (v < 1000 \<longrightarrow> jitter_of (fst p) (snd p) < 1 / 10 ^ 6)"
  proof
    fix p :: "rat \<times> rat"
    obtain x y where p: "p = (x, y)" by fastforce
    show "\<exists>v. p \<in> set (pairs xs) \<longrightarrow> ?g p = Fin v \<and>
      (jitter_of (fst p) (snd p) < 999 / 10 ^ 9 \<longrightarrow> v < 1000) \<and> (v < 1000 \<longrightarrow> jitter_of (fst p) (snd p) < 1 / 10 ^ 6)"
    proof (cases "p \<in> set (pairs xs)")
      case True
      then have "2 ^ 30 \<le> x" "x < 2 ^ 31" "2 ^ 30 \<le> y" "y < 2 ^ 31" using pairs_set [of x y xs] assms p by auto
      note s = stamp_interval [OF this]
      from s(3) obtain k where k: "jitter_of x y = of_int k / 2 ^ 22" "k \<le> 2 ^ 53" by blast
      have "0 \<le> jitter_of x y" by (simp add: jitter_of_def)
      from interval_verdict [OF this k] show ?thesis unfolding p prod.case s(1) fst_conv snd_conv by blast
    qed simp
  qed
  then obtain v where v: "\<forall>p. p \<in> set (pairs xs) \<longrightarrow> ?g p = Fin (v p) \<and>
      (jitter_of (fst p) (snd p) < 999 / 10 ^ 9 \<longrightarrow> v p < 1000) \<and> (v p < 1000 \<longrightarrow> jitter_of (fst p) (snd p) < 1 / 10 ^ 6)"
    by (rule choice [THEN exE])
  have "map ?g (pairs xs) = map (\<lambda>p. Fin (v p)) (pairs xs)" using v by (intro map_cong) auto
  then show ?thesis using i v by (intro exI [of _ v]) auto
qed

lemma jitter_verdict:
  assumes stamps: "pps_timestamps out = map (\<lambda>x. Fin (fl x)) xs" "2 \<le> length xs"
    and range: "\<forall>x \<in> set xs. 2 ^ 30 \<le> x \<and> x < 2 ^ 31" and out: "py_strip out \<noteq> []"
  shows "\<exists>ok j. pps_verdict (0, out, err) = Inr (ok, j) \<and>
     (ok \<longrightarrow> (\<forall>(x, y) \<in> set (pairs xs). \<bar>y - x - 1\<bar> < 1239 / 10 ^ 9)) \<and>
     ((\<forall>(x, y) \<in> set (pairs xs). \<bar>y - x - 1\<bar> \<le> 760 / 10 ^ 9) \<longrightarrow> ok)"
proof -
  obtain v where v: "pps_intervals (map (\<lambda>x. Fin (fl x)) xs) = map (\<lambda>p. Fin (v p)) (pairs xs)"
    "\<And>x y. (x, y) \<in> set (pairs xs) \<Longrightarrow> (jitter_of x y < 999 / 10 ^ 9 \<longrightarrow> v (x, y) < 1000) \<and>
        (v (x, y) < 1000 \<longrightarrow> jitter_of x y < 1 / 10 ^ 6)"
    using intervals_exist [OF range] by blast
  have m: "map (\<lambda>p. Fin (v p)) (pairs xs) = map Fin (map v (pairs xs))" by simp
  have "map v (pairs xs) \<noteq> []" using pairs_nonempty [OF stamps(2)] by simp
  from flt_max_less [OF this, of 1000] obtain j where j: "flt_max (map Fin (map v (pairs xs))) = Inr (Fin j)"
    "j < 1000 \<longleftrightarrow> (\<forall>w \<in> set (map v (pairs xs)). w < 1000)" by blast
  have p: "pps_verdict (0, out, err) = Inr (j < 1000, Fin j)"
    using stamps out by (simp add: pps_verdict_def v(1) m j(1) pps_jitter_threshold_ns_def del: map_map)
  have err: "(x, y) \<in> set (pairs xs) \<Longrightarrow> \<bar>jitter_of x y - \<bar>y - x - 1\<bar>\<bar> \<le> 1 / 2 ^ 22" for x y
    using pairs_set [of x y xs] range by (intro stamp_interval(2)) auto
  have a: "\<bar>y - x - 1\<bar> < 1239 / 10 ^ 9" if "j < 1000" "(x, y) \<in> set (pairs xs)" for x y
  proof -
    have "v (x, y) < 1000" using that j(2) by force
    then have "jitter_of x y < 1 / 10 ^ 6" using v(2) [OF that(2)] by blast
    then have "\<bar>y - x - 1\<bar> < 1 / 10 ^ 6 + 1 / 2 ^ 22" using err [OF that(2)] by linarith
    also have "\<dots> \<le> 1239 / 10 ^ 9" by simp
    finally show ?thesis .
  qed
  have b: "v (x, y) < 1000" if "(x, y) \<in> set (pairs xs)" "\<bar>y - x - 1\<bar> \<le> 760 / 10 ^ 9" for x y
  proof -
    have "jitter_of x y \<le> 760 / 10 ^ 9 + 1 / 2 ^ 22" using err [OF that(1)] that(2) by linarith
    also have "\<dots> < 999 / 10 ^ 9" by simp
    finally show ?thesis using v(2) [OF that(1)] by blast
  qed
  have "(\<forall>(x, y) \<in> set (pairs xs). \<bar>y - x - 1\<bar> \<le> 760 / 10 ^ 9) \<longrightarrow> j < 1000" using b j(2) by fastforce
  then show ?thesis using p a by blast
qed

text \<open>
  C24: what the jitter test tells about the true time stamps. A stamp of an absolute time after 2004
  and before 2038 is a float with a resolution of 238 ns, and the threshold of 1000 ns is applied
  to differences of them: when the test passes, every true second is off by less than 1239 ns, and
  when every second is off by at most 760 ns the test passes.
\<close>

theorem pps_jitter_resolution:
  assumes "pps_timestamps out = map (\<lambda>x. Fin (fl x)) xs" "2 \<le> length xs"
    and "\<forall>x \<in> set xs. 2 ^ 30 \<le> x \<and> x < 2 ^ 31" and "py_strip out \<noteq> []"
  shows "\<exists>ok j. pps_verdict (0, out, err) = Inr (ok, j) \<and>
     (ok \<longrightarrow> (\<forall>(x, y) \<in> set (pairs xs). \<bar>y - x - 1\<bar> < 1239 / 10 ^ 9)) \<and>
     ((\<forall>(x, y) \<in> set (pairs xs). \<bar>y - x - 1\<bar> \<le> 760 / 10 ^ 9) \<longrightarrow> ok)"
  by (rule jitter_verdict [OF assms])

definition mock_stamps :: string where
  "mock_stamps = ''1710000000.000000001#1'' @ [nl] @ ''1710000001.000000002#2'' @ [nl]"

lemma mock_lines: "map (\<lambda>l. hd (py_split (CHR ''#'') l)) (py_splitlines (py_strip mock_stamps)) =
    [''1710000000.000000001'', ''1710000001.000000002'']" "py_strip mock_stamps \<noteq> []"
  by code_simp+

lemma mock1_part0: "split_sign (py_strip ''1710000000.000000001'') = (False, ''1710000000.000000001'')"
  by code_simp

lemma mock1_part1: "takeWhile dig_or_us ''1710000000.000000001'' = ''1710000000''"
  by code_simp

lemma mock1_part2: "dropWhile dig_or_us ''1710000000.000000001'' = ''.000000001''"
  by code_simp

lemma mock1_part3: "takeWhile dig_or_us ''000000001'' = ''000000001''"
  by code_simp

lemma mock1_part4: "dropWhile dig_or_us ''000000001'' = []"
  by code_simp

lemma mock1_part5: "map lower ''1710000000.000000001'' = ''1710000000.000000001''"
  by code_simp

lemma mock1_part6: "digit_part ''1710000000'' = Some ''1710000000''"
  by code_simp

lemma mock1_part7: "digit_part ''000000001'' = Some ''000000001''"
  by code_simp

lemma mock1_part8: "dec_val (''1710000000'' @ ''000000001'') = 1710000000000000001"
  by code_simp

lemmas mock1_parts = mock1_part0 mock1_part1 mock1_part2 mock1_part3 mock1_part4 mock1_part5 mock1_part6 mock1_part7 mock1_part8

lemma mock1_float: "py_float ''1710000000.000000001'' = Inr (Fin (fl (1710000000 + 1 / 10 ^ 9)))"
proof -
  have "py_float ''1710000000.000000001'' = Inr (rnd (of_int 1710000000000000001 * 10 powi (0 - int 9)))"
    unfolding py_float_def mock1_parts Let_def prod.case list.sel mock1_parts
    by (simp add: mock1_parts exponent_def is_dig_def del: append.simps append_Cons)
  also have "of_int 1710000000000000001 * 10 powi (0 - int 9) = (1710000000 + 1 / 10 ^ 9 :: rat)"
    by (simp add: power_int_def field_simps)
  also have "rnd (1710000000 + 1 / 10 ^ 9) = Fin (fl (1710000000 + 1 / 10 ^ 9))"
    by (rule rnd_fl) simp_all
  finally show ?thesis .
qed

lemma mock2_part0: "split_sign (py_strip ''1710000001.000000002'') = (False, ''1710000001.000000002'')"
  by code_simp

lemma mock2_part1: "takeWhile dig_or_us ''1710000001.000000002'' = ''1710000001''"
  by code_simp

lemma mock2_part2: "dropWhile dig_or_us ''1710000001.000000002'' = ''.000000002''"
  by code_simp

lemma mock2_part3: "takeWhile dig_or_us ''000000002'' = ''000000002''"
  by code_simp

lemma mock2_part4: "dropWhile dig_or_us ''000000002'' = []"
  by code_simp

lemma mock2_part5: "map lower ''1710000001.000000002'' = ''1710000001.000000002''"
  by code_simp

lemma mock2_part6: "digit_part ''1710000001'' = Some ''1710000001''"
  by code_simp

lemma mock2_part7: "digit_part ''000000002'' = Some ''000000002''"
  by code_simp

lemma mock2_part8: "dec_val (''1710000001'' @ ''000000002'') = 1710000001000000002"
  by code_simp

lemmas mock2_parts = mock2_part0 mock2_part1 mock2_part2 mock2_part3 mock2_part4 mock2_part5 mock2_part6 mock2_part7 mock2_part8

lemma mock2_float: "py_float ''1710000001.000000002'' = Inr (Fin (fl (1710000001 + 2 / 10 ^ 9)))"
proof -
  have "py_float ''1710000001.000000002'' = Inr (rnd (of_int 1710000001000000002 * 10 powi (0 - int 9)))"
    unfolding py_float_def mock2_parts Let_def prod.case list.sel mock2_parts
    by (simp add: mock2_parts exponent_def is_dig_def del: append.simps append_Cons)
  also have "of_int 1710000001000000002 * 10 powi (0 - int 9) = (1710000001 + 2 / 10 ^ 9 :: rat)"
    by (simp add: power_int_def field_simps)
  also have "rnd (1710000001 + 2 / 10 ^ 9) = Fin (fl (1710000001 + 2 / 10 ^ 9))"
    by (rule rnd_fl) simp_all
  finally show ?thesis .
qed

lemmas mock_floats = mock1_float mock2_float

lemma mock_timestamps: "pps_timestamps mock_stamps = map (\<lambda>x. Fin (fl x)) [1710000000 + 1 / 10 ^ 9, 1710000001 + 2 / 10 ^ 9]"
proof -
  have "pps_timestamps mock_stamps = concat (map (\<lambda>l. case py_float l of Inr t \<Rightarrow> [t] | Inl _ \<Rightarrow> [])
     (map (\<lambda>l. hd (py_split (CHR ''#'') l)) (py_splitlines (py_strip mock_stamps))))"
    by (simp add: pps_timestamps_def comp_def)
  then show ?thesis unfolding mock_lines by (simp only: list.map concat.simps mock_floats sum.case append.simps)
qed

theorem pps_jitter_resolution_witness: "\<exists>j. pps_verdict (0, mock_stamps, []) = Inr (True, j)"
proof -
  from pps_jitter_resolution [OF mock_timestamps _ _ mock_lines(2), of "[]"] show ?thesis by auto
qed

text \<open>
  C28: a file with a single line of text never passes the jitter test, whatever the line says; the
  file the script reads holds the last pulse only.
\<close>

theorem pps_single_line:
  assumes "list_all (\<lambda>c. \<not> line_end c) (py_strip out)"
  shows "pps_verdict (rc, out, err) = Inr (False, Fin (- 1))"
proof -
  have "list_all (\<lambda>c. \<not> line_end c) s \<Longrightarrow> length (split_lines acc s) \<le> 1" for acc s
    by (induction s arbitrary: acc) (auto simp: line_end_def)
  then have l: "length (py_splitlines (py_strip out)) \<le> 1" using assms by (simp add: py_splitlines_def)
  have "length (pps_timestamps out) \<le> 1"
  proof (cases "py_splitlines (py_strip out)")
    case (Cons a as)
    then show ?thesis using l by (auto simp: pps_timestamps_def split: sum.split)
  qed (simp add: pps_timestamps_def)
  then show ?thesis by (simp add: pps_verdict_def Let_def)
qed

theorem pps_single_line_witness: "pps_verdict (0, ''1710000000.000000001#1'' @ [nl], []) = Inr (False, Fin (- 1))"
  by (rule pps_single_line) code_simp

section \<open>Hop logs\<close>

lemma fdiv_100: "1 \<le> fdiv (of_nat m) 100 \<longleftrightarrow> 100 \<le> m"
proof
  assume "1 \<le> fdiv (of_nat m) 100"
  show "100 \<le> m"
  proof (rule ccontr)
    assume "\<not> 100 \<le> m"
    then have "(of_nat m :: rat) \<le> of_nat 99" by (simp only: of_nat_le_iff)
    then have "of_nat m / 100 \<le> (127 / 2 ^ 7 :: rat)" by simp
    then have "fdiv (of_nat m) 100 \<le> 127 / 2 ^ 7" unfolding fdiv_def using is_float_dyadic [of 127 7] by (intro fl_le) simp_all
    with \<open>1 \<le> fdiv (of_nat m) 100\<close> show False by simp
  qed
next
  assume "100 \<le> m"
  then have "(of_nat 100 :: rat) \<le> of_nat m" by (simp only: of_nat_le_iff)
  then have "1 \<le> (of_nat m / 100 :: rat)" by simp
  then show "1 \<le> fdiv (of_nat m) 100" unfolding fdiv_def using is_float_of_int [of 1] by (intro fl_ge) simp_all
qed

text \<open>
  C27: the verdict of the correlation test on two lists of hops: it compares lists of equal length
  only, and passes exactly when at least 100 positions agree. So two identical logs of fewer than
  100 hops fail, and logs of more than 100 hops pass with hops that differ.
\<close>

theorem hop_verdict_spec:
  "hop_verdict (JList xs) (JList ys) =
     (if xs \<noteq> [] \<and> ys \<noteq> [] \<and> length xs = length ys
      then Inr (Inr (count_matches xs ys, fdiv (of_nat (count_matches xs ys)) 100, 100 \<le> count_matches xs ys))
      else Inr (Inl (length xs, length ys)))"
  using fdiv_100 [of "count_matches xs ys"]
  by (simp add: hop_verdict_def json_len_def Let_def num_hops_def required_correlation_def)

section \<open>The error vector magnitude, as a property\<close>


section \<open>The console\<close>

text \<open>What the port delivers to a loop that reads the clock before every read.\<close>

fun port_chunks :: "'w board \<Rightarrow> nat \<Rightarrow> 'w \<Rightarrow> string list" where
  "port_chunks os 0 w = []"
| "port_chunks os (Suc n) w = (case serial_read os 256 (snd (monotonic os w)) of
     (Inl e, w2) \<Rightarrow> [] | (Inr chunk, w2) \<Rightarrow> chunk # port_chunks os n w2)"

definition console_ok :: "console \<Rightarrow> bool" where
  "console_ok c \<longleftrightarrow> (uboot_seen c \<longleftrightarrow> contains uboot_prompt (buf c)) \<and> (linux_seen c \<longleftrightarrow> contains linux_prompt (buf c))"

lemma contains_mono: "contains p u \<Longrightarrow> contains p (u @ v)"
  unfolding contains_iff by (metis append_assoc)

lemma console_loop_spec:
  "console_loop os deadline fuel c w = Some (err, c', w') \<Longrightarrow> console_ok c \<Longrightarrow> \<not> linux_seen c \<Longrightarrow>
     console_ok c' \<and> (\<exists>n. buf c' = buf c @ concat (port_chunks os n w))"
proof (induction fuel arbitrary: c w)
  case (Suc fuel)
  obtain t w1 where t: "monotonic os w = (t, w1)" by fastforce
  show ?case
  proof (cases "flt_less t deadline")
    case False
    then have "c' = c" using Suc.prems(1) t by simp
    then show ?thesis using Suc.prems(2) by (auto intro!: exI [of _ 0])
  next
    case True
    obtain r w2 where r: "serial_read os 256 w1 = (r, w2)" by fastforce
    show ?thesis
    proof (cases r)
      case (Inl e)
      then have "c' = c" using Suc.prems(1) t True r by (simp add: Let_def)
      then show ?thesis using Suc.prems(2) by (auto intro!: exI [of _ 0])
    next
      case (Inr chunk)
      let ?b = "buf c @ chunk"
      let ?c1 = "c\<lparr>buf := ?b, uboot_seen := (uboot_seen c \<or> contains uboot_prompt ?b)\<rparr>"
      have u: "(uboot_seen c \<or> contains uboot_prompt ?b) = contains uboot_prompt ?b"
        using Suc.prems(2) contains_mono [of uboot_prompt "buf c" chunk] by (auto simp: console_ok_def)
      show ?thesis
      proof (cases "contains linux_prompt ?b")
        case l: True
        then have "c' = ?c1\<lparr>linux_seen := True\<rparr>" using Suc.prems(1) t True r Inr by (simp add: Let_def)
        then show ?thesis using u l t r Inr by (auto simp: console_ok_def intro!: exI [of _ "Suc 0"])
      next
        case l: False
        have step: "console_loop os deadline fuel ?c1 w2 = Some (err, c', w')"
          using Suc.prems(1) t True r Inr l by (simp add: Let_def)
        have "console_ok ?c1" "\<not> linux_seen ?c1" using u l Suc.prems(3) by (simp_all add: console_ok_def)
        from Suc.IH [OF step this] obtain n where n: "console_ok c'" "buf c' = buf ?c1 @ concat (port_chunks os n w2)" by blast
        have "buf c' = buf c @ concat (port_chunks os (Suc n) w)" using n(2) t r Inr by simp
        then show ?thesis using n(1) by blast
      qed
    qed
  qed
qed simp


definition uart_board :: "string list board" where
  "uart_board = \<lparr>clock = (\<lambda>w. (Fin 0, w)), monotonic = (\<lambda>w. (Fin 0, w)), nap = (\<lambda>n w. w),
     spawn = (\<lambda>cmd limit w. (Inr (1, [], []), w)), ssh_connect = (\<lambda>h k w. (Inr (), w)),
     ssh_exec = (\<lambda>h cmd limit w. (Inr (1, [], []), w)), serial_open = (\<lambda>p b w. (Inr (), w)),
     serial_read = (\<lambda>n w. case w of [] \<Rightarrow> (Inr [], []) | c # cs \<Rightarrow> (Inr c, cs))\<rparr>"

lemma uart_deadline: "flt_add (Fin 0) (Fin (of_int boot_timeout)) = Fin 120"
  using rnd_float [of 120] is_float_of_int [of 120] by (simp add: boot_timeout_def)

lemma uart_read: "console_read uart_board 3 ''tty'' 115200 [''ZynqMP> boot'', ''pynq login:''] =
    Some (None, \<lparr>uboot_seen = True, linux_seen = True, buf = ''ZynqMP> boot'' @ ''pynq login:''\<rparr>, [])"
  by (simp add: console_read_def uart_board_def uart_deadline linux_prompt_def uboot_prompt_def numeral_3_eq_3 Let_def del: flt_add.simps)


section \<open>Waiting for a fix\<close>

text \<open>
  What the waiting loop relies on: the clock shows a time that does not run backwards, a command on
  the board takes no negative time, and a sleep of five seconds moves the clock by four at least.
\<close>

definition time_passes :: "'w board \<Rightarrow> ('w \<Rightarrow> rat) \<Rightarrow> bool" where
  "time_passes os time \<longleftrightarrow>
     (\<forall>w. \<exists>w'. clock os w = (Fin (time w), w') \<and> time w \<le> time w') \<and>
     (\<forall>h cmd l w. time w \<le> time (snd (ssh_exec os h cmd l w))) \<and>
     (\<forall>w. time w + 4 \<le> time (nap os 5 w))"

lemma fix_loop_ends:
  assumes "time_passes os time" "\<not> dry_run ssh"
  shows "d \<le> time (world s) + 4 * of_nat n \<Longrightarrow> \<exists>r t. fix_loop os ssh (Fin d) (Suc n) s = Some (r, t)"
proof (induction n arbitrary: s)
  case 0
  obtain w where c: "clock os (world s) = (Fin (time (world s)), w)" using assms(1) unfolding time_passes_def by blast
  have "\<not> time (world s) < d" using 0 by simp
  then show ?case by (simp add: abind_def ask_def call_def c aret_def)
next
  case (Suc n)
  obtain w where c: "clock os (world s) = (Fin (time (world s)), w)" "time (world s) \<le> time w"
    using assms(1) unfolding time_passes_def by blast
  let ?cmd = "''gpspipe -w -n 10 2>/dev/null | grep TPV | head -1''"
  obtain q w2 where q: "ssh_exec os (host ssh) ?cmd 15 w = (q, w2)" by fastforce
  have "time w \<le> time w2" using assms(1) q unfolding time_passes_def by (metis snd_conv)
  moreover have "time w2 + 4 \<le> time (nap os 5 w2)" using assms(1) unfolding time_passes_def by blast
  ultimately have "d \<le> time (nap os 5 w2) + 4 * of_nat n" using Suc.prems c(2) by (simp add: algebra_simps)
  then have "\<exists>r t. fix_loop os ssh (Fin d) (Suc n) (s\<lparr>world := nap os 5 w2\<rparr>) = Some (r, t)"
    using Suc.IH [of "s\<lparr>world := nap os 5 w2\<rparr>"] by simp
  then show ?case
    unfolding fix_loop.simps(2) [of os ssh "Fin d" "Suc n"]
    using assms(2)
    by (auto simp: abind_def ask_def call_def c(1) aret_def run_cmd_def q of_res_def simp del: fix_loop.simps
        split: sum.split option.split)
qed

lemma deadline_le:
  assumes "1 \<le> t" "0 \<le> k" "t + k \<le> 2 ^ 50"
  shows "\<exists>d. flt_add (Fin t) (Fin k) = Fin d \<and> d \<le> t + k + 1"
proof -
  have "(1 :: rat) / 2 ^ 1022 \<le> 1" "(2 :: rat) ^ 50 < 2 ^ 1023" by simp_all
  then have r: "rnd (t + k) = Fin (fl (t + k))" using assms by (intro rnd_fl) linarith+
  have "\<bar>fl (t + k) - (t + k)\<bar> \<le> \<bar>t + k\<bar> / 2 ^ 53" by (rule fl_err)
  also have "\<dots> \<le> 2 ^ 50 / 2 ^ 53" using assms by (intro divide_right_mono) simp_all
  also have "(2 :: rat) ^ 50 / 2 ^ 53 \<le> 1" by simp
  finally have "fl (t + k) \<le> t + k + 1" by linarith
  then show ?thesis using r by simp
qed

lemma abind_ends:
  "m s = Some (r, u) \<Longrightarrow> (\<And>x. r = Inr x \<Longrightarrow> \<exists>q t. f x u = Some (q, t)) \<Longrightarrow> \<exists>q t. abind m f s = Some (q, t)"
  by (cases r) (auto simp: abind_def)

text \<open>Computations without a loop always end.\<close>

definition ends :: "('w run, 'a) act \<Rightarrow> bool" where
  "ends m \<longleftrightarrow> (\<forall>s. \<exists>r t. m s = Some (r, t))"

lemma ends_Some: "ends m \<Longrightarrow> \<exists>r t. m s = Some (r, t)"
  by (simp add: ends_def)

lemma ends_aret: "ends (aret x)"
  by (simp add: ends_def aret_def)

lemma ends_of_res: "ends (of_res x)"
  by (simp add: ends_def of_res_def)

lemma ends_call: "ends (call f)"
  by (simp add: ends_def call_def Let_def split: prod.split)

lemma ends_abind: "ends m \<Longrightarrow> (\<And>x. ends (f x)) \<Longrightarrow> ends (abind m f)"
  unfolding ends_def by (meson abind_ends)

lemma ends_write: "ends (write_result os name passed details)"
  by (simp add: ends_def write_result_eq Let_def split: prod.split)

lemma ends_run_cmd: "ends (run_cmd os ssh cmd l)"
  by (simp add: run_cmd_def ends_aret ends_call)

lemma ends_pps: "ends (check_pps_jitter os ssh dry)"
  by (simp add: check_pps_jitter_def ends_aret ends_abind ends_run_cmd ends_of_res)

lemmas ends_intros = ends_aret ends_of_res ends_call ends_abind ends_write ends_run_cmd ends_pps

text \<open>
  C23: the GPS test ends: on a board whose clock runs, a test with a time limit polls at most once
  for every four seconds of it, and then reports; rounds are counted by the fuel.
\<close>

theorem gps_lock_ends:
  assumes "time_passes os time" "1 \<le> time (world s)" "0 \<le> timeout"
    and "\<And>k r w. ssh_connect os h k (world s) = (r, w) \<Longrightarrow> time (world s) \<le> time w \<and> time w + of_int timeout \<le> 2 ^ 50"
    and "timeout + 1 \<le> 4 * int n"
  shows "\<exists>r t. gps_lock os (Suc n) h key False timeout s = Some (r, t)"
proof -
  have connect: "\<exists>r u. BoardSSH os h key False s = Some (r, u)"
    unfolding BoardSSH_def Let_def if_False by (rule ends_Some, intro ends_intros)
  then obtain r u where b: "BoardSSH os h key False s = Some (r, u)" by blast
  have fix_ends: "\<exists>q t. abind (wait_for_fix os (Suc n) ssh timeout False) f u = Some (q, t)"
    if r: "r = Inr ssh" and f: "\<And>x. ends (f x)" for ssh f
  proof -
    from b r have k: "\<exists>k q. ssh_connect os h k (world s) = (q, world u)" "\<not> dry_run ssh"
      by (auto simp: BoardSSH_def abind_def call_def aret_def Let_def split: option.splits sum.splits prod.splits if_splits)
        blast+
    then have u: "time (world s) \<le> time (world u)" "time (world u) + of_int timeout \<le> 2 ^ 50" using assms(4) by blast+
    obtain w where c: "clock os (world u) = (Fin (time (world u)), w)" "time (world u) \<le> time w"
      using assms(1) unfolding time_passes_def by blast
    obtain d where d: "flt_add (Fin (time (world u))) (Fin (of_int timeout)) = Fin d"
      "d \<le> time (world u) + of_int timeout + 1"
      using deadline_le [of "time (world u)" "of_int timeout"] u assms(2,3) by auto
    have "of_int (timeout + 1) \<le> (of_int (4 * int n) :: rat)" using assms(5) by (simp only: of_int_le_iff)
    then have "d \<le> time (world (u\<lparr>world := w\<rparr>)) + 4 * of_nat n" using d(2) c(2) by simp
    from fix_loop_ends [OF assms(1) k(2) this] obtain q t where "fix_loop os ssh (Fin d) (Suc n) (u\<lparr>world := w\<rparr>) = Some (q, t)" by blast
    then have "wait_for_fix os (Suc n) ssh timeout False u = Some (q, t)"
      by (simp add: wait_for_fix_def abind_def ask_def call_def c(1) d(1) del: fix_loop.simps flt_add.simps)
    then show ?thesis by (rule abind_ends) (use f in \<open>simp add: ends_def\<close>)
  qed
  have rest: "ends (abind (check_pps_jitter os ssh False) (\<lambda>(pps_ok, jitter_ns). let passed = fix_ok \<and> pps_ok
     in abind (write_result os ''gps_lock'' passed
          [(''fix_achieved'', JBool fix_ok), (''tpv'', tpv), (''pps_jitter_ns'', JFloat jitter_ns),
           (''pps_threshold_ns'', JInt pps_jitter_threshold_ns)])
        (\<lambda>_. aret (exit_of passed))))" for ssh fix_ok tpv
    unfolding Let_def by (intro ends_abind ends_pps) (auto intro: ends_abind ends_write ends_aret)
  show ?thesis unfolding gps_lock_def
  proof (rule abind_ends [of "BoardSSH os h key False", OF b])
    fix ssh assume "r = Inr ssh"
    then show "\<exists>q t. abind (wait_for_fix os (Suc n) ssh timeout False) (\<lambda>(fix_ok, tpv).
       abind (check_pps_jitter os ssh False) (\<lambda>(pps_ok, jitter_ns). let passed = fix_ok \<and> pps_ok
     in abind (write_result os ''gps_lock'' passed
          [(''fix_achieved'', JBool fix_ok), (''tpv'', tpv), (''pps_jitter_ns'', JFloat jitter_ns),
           (''pps_threshold_ns'', JInt pps_jitter_threshold_ns)])
        (\<lambda>_. aret (exit_of passed)))) u = Some (q, t)"
      by (rule fix_ends) (use rest in \<open>auto split: prod.split\<close>)
  qed
qed

text \<open>A board without a fix whose world is its clock.\<close>

definition lost_board :: "rat board" where
  "lost_board = \<lparr>clock = (\<lambda>t. (Fin t, t)), monotonic = (\<lambda>t. (Fin t, t)), nap = (\<lambda>n t. t + of_int n),
     spawn = (\<lambda>cmd limit t. (Inr (1, [], []), t)), ssh_connect = (\<lambda>h k t. (Inr (), t + 1)),
     ssh_exec = (\<lambda>h cmd limit t. (Inr (1, [], []), t + 1)), serial_open = (\<lambda>p b t. (Inr (), t)),
     serial_read = (\<lambda>n t. (Inr [], t + 1))\<rparr>"

theorem gps_lock_ends_witness:
  "\<exists>r t. gps_lock lost_board 77 ''192.168.1.100'' None False fix_timeout_seconds (fresh_run 1710000000) = Some (r, t)"
proof -
  have p: "time_passes lost_board (\<lambda>t. t)" by (simp add: time_passes_def lost_board_def)
  have n: "77 = Suc 76" by simp
  show ?thesis unfolding n
    by (rule gps_lock_ends [OF p]) (auto simp: fresh_run_def fix_timeout_seconds_def lost_board_def)
qed

end
