(* ===== verification/Regmap.thy ===== *)
theory Regmap imports PyRegex Json begin

text \<open>
  \<open>check_regmap.py\<close>: the register names and values of \<open>regs.svh\<close> and \<open>axi_regs.hpp\<close>, read with two
  regular expressions into dictionaries, and their comparison. The two file texts are arguments;
  text has code points below 256.
\<close>

section \<open>Reading the two files\<close>

text \<open>The class \<open>\w\<close>: letters, digits and number characters, and the underscore.\<close>

definition is_word :: "char \<Rightarrow> bool" where
  "is_word c = (let n = of_char c :: nat in
     48 \<le> n \<and> n \<le> 57 \<or> 65 \<le> n \<and> n \<le> 90 \<or> 97 \<le> n \<and> n \<le> 122 \<or> n = 95 \<or>
     n \<in> set [0xAA, 0xB2, 0xB3, 0xB5, 0xB9, 0xBA, 0xBC, 0xBD, 0xBE] \<or> 0xC0 \<le> n \<and> n \<noteq> 0xD7 \<and> n \<noteq> 0xF7)"

definition is_hex :: "char \<Rightarrow> bool" where
  "is_hex c = (hex_val c \<noteq> None)"

definition svh_rx :: rx where
  "svh_rx = rx_seq (rx_lit ''localparam'' @ [rx_plus is_space, Grp 1 (rx_plus is_word), Rep is_space, ch (CHR ''=''),
     Rep is_space,
     rx_opt (Grp 2 (rx_alts [rx_seq (rx_lit (''12'' @ [CHR 0x27] @ ''h'')), rx_seq (rx_lit (''32'' @ [CHR 0x27] @ ''h'')),
       rx_seq (rx_lit (''5'' @ [CHR 0x27] @ ''d''))])),
     Grp 3 (rx_plus (\<lambda>c. is_hex c \<or> c = CHR ''_''))])"

definition hpp_rx :: rx where
  "hpp_rx = rx_seq (rx_lit ''constexpr'' @ [rx_plus is_space, rx_plus is_word, rx_plus is_space, Grp 1 (rx_plus is_word),
     Rep is_space, ch (CHR ''=''), Rep is_space,
     Grp 2 (Alt (rx_seq (rx_lit ''0x'' @ [rx_plus is_hex])) (rx_plus is_dig)), rx_opt (ch (CHR ''u''))])"

text \<open>\<open>int(s, 16)\<close> and \<open>int(s, 10)\<close> of the characters the patterns let through\<close>

definition int_of_hex :: "string \<Rightarrow> int res" where
  "int_of_hex s = (if s = [] \<or> \<not> list_all is_hex s then Inl ValueError
     else Inr (foldl (\<lambda>a c. 16 * a + (case hex_val c of Some d \<Rightarrow> int d | None \<Rightarrow> 0)) 0 s))"

definition int_of_dec :: "string \<Rightarrow> int res" where
  "int_of_dec s = (if s = [] \<or> \<not> list_all is_dig s then Inl ValueError else Inr (dec_val s))"

type_synonym regs = "(string \<times> int) list"

definition svh_entry :: "string \<times> string \<times> (nat \<times> string) list \<Rightarrow> regs \<Rightarrow> regs res" where
  "svh_entry m result =
     (let name = (case rx_group 1 m of Some x \<Rightarrow> x | None \<Rightarrow> []);
          val = filter (\<lambda>c. c \<noteq> CHR ''_'') (case rx_group 3 m of Some x \<Rightarrow> x | None \<Rightarrow> [])
      in case rx_group 2 m of None \<Rightarrow> Inr result
         | Some pfx \<Rightarrow>
             if last pfx = CHR ''h'' then rbind (int_of_hex val) (\<lambda>v. Inr (obj_put name v result))
             else rbind (int_of_dec val) (\<lambda>v. Inr (obj_put name v result)))"

definition parse_svh :: "string \<Rightarrow> regs res" where
  "parse_svh content = rfold svh_entry (rx_finditer svh_rx [] content) []"

definition hpp_entry :: "string \<times> string \<times> (nat \<times> string) list \<Rightarrow> regs \<Rightarrow> regs res" where
  "hpp_entry m result =
     (let name = (case rx_group 1 m of Some x \<Rightarrow> x | None \<Rightarrow> []);
          val = (case rx_group 2 m of Some x \<Rightarrow> x | None \<Rightarrow> [])
      in rbind (if prefix ''0x'' val then int_of_hex (drop 2 val) else int_of_dec val)
           (\<lambda>v. Inr (obj_put name v result)))"

definition parse_hpp :: "string \<Rightarrow> regs res" where
  "parse_hpp content = rfold hpp_entry (rx_finditer hpp_rx [] content) []"

section \<open>Comparing\<close>

definition upper_hex :: "nat \<Rightarrow> char" where
  "upper_hex n = ''0123456789ABCDEF'' ! (n mod 16)"

function hex_digits :: "nat \<Rightarrow> string" where
  "hex_digits n = (if n < 16 then [upper_hex n] else hex_digits (n div 16) @ [upper_hex n])"
  by pat_completeness auto
termination
  by (relation "measure id") auto

declare hex_digits.simps [simp del]

text \<open>\<open>{v:08X}\<close>; the values read are not negative.\<close>

definition hex8 :: "int \<Rightarrow> string" where
  "hex8 v = pad_left 8 (hex_digits (nat v))"

text \<open>The loop over the names of \<open>regs.svh\<close> and the one over those of \<open>axi_regs.hpp\<close>\<close>

definition svh_errors :: "regs \<Rightarrow> regs \<Rightarrow> string list" where
  "svh_errors svh hpp = concat (map (\<lambda>(name, v).
     if prefix ''STATUS_'' name \<and> suffix ''_BIT'' name then []
     else case map_of hpp name of
         Some w \<Rightarrow> if v \<noteq> w then [''MISMATCH '' @ name @ '': svh=0x'' @ hex8 v @ '' hpp=0x'' @ hex8 w] else []
       | None \<Rightarrow> [''MISSING in hpp: '' @ name]) svh)"

definition hpp_only_allowed :: "string list" where
  "hpp_only_allowed = [''PAGE_SIZE'']"

definition hpp_errors :: "regs \<Rightarrow> regs \<Rightarrow> string list" where
  "hpp_errors svh hpp = concat (map (\<lambda>(name, _).
     if map_of svh name = None \<and> \<not> prefix ''STATUS_HOP'' name \<and> \<not> prefix ''STATUS_GPS'' name \<and>
        name \<notin> set hpp_only_allowed
     then [''EXTRA in hpp (not in svh): '' @ name] else []) hpp)"

text \<open>The lines printed and the exit status.\<close>

definition check_regmap :: "string \<Rightarrow> string \<Rightarrow> (string list \<times> int) res" where
  "check_regmap svh_text hpp_text =
     rbind (parse_svh svh_text) (\<lambda>svh. rbind (parse_hpp hpp_text) (\<lambda>hpp.
     let errors = svh_errors svh hpp @ hpp_errors svh hpp
     in if errors \<noteq> [] then Inr (''REGMAP CHECK FAILED:'' # map (\<lambda>e. ''  '' @ e) errors, 1)
        else Inr ([''REGMAP CHECK PASSED: '' @ digits (int (length svh)) @ '' registers match between svh and hpp''], 0)))"

end
