(* ===== verification/TestVectors.thy ===== *)
theory TestVectors imports Json "HOL-Library.Word" begin

text \<open>
  \<open>gen_test_vectors.py\<close>: the plaintext block of the hop sequencer, the channel a cipher text selects,
  the list of vectors and the text that is printed. The cipher of the \<open>cryptography\<close> package is an
  argument: a key and a block of bytes to a block of bytes.
\<close>

type_synonym bytes = "8 word list"
type_synonym cipher = "bytes \<Rightarrow> bytes \<Rightarrow> bytes"

text \<open>\<open>bytes([...])\<close> of one value, \<open>struct.pack('<I', n)\<close> and \<open>struct.unpack('<Q', b)\<close>\<close>

definition byte :: "int \<Rightarrow> 8 word res" where
  "byte n = (if 0 \<le> n \<and> n < 256 then Inr (word_of_int n) else Inl ValueError)"

definition pack_le32 :: "int \<Rightarrow> bytes res" where
  "pack_le32 n = (if 0 \<le> n \<and> n < 2 ^ 32
     then Inr (map (\<lambda>i. word_of_int (n div 256 ^ i)) [0..<4]) else Inl (Raised ''struct.error''))"

definition le_value :: "bytes \<Rightarrow> int" where
  "le_value bs = foldr (\<lambda>b a. uint b + 256 * a) bs 0"

definition unpack_le64 :: "bytes \<Rightarrow> int res" where
  "unpack_le64 bs = (if length bs = 8 then Inr (le_value bs) else Inl (Raised ''struct.error''))"

definition plaintext :: "int \<Rightarrow> int \<Rightarrow> int \<Rightarrow> bytes res" where
  "plaintext slot frame attempt =
     rbind (byte slot) (\<lambda>s. rbind (pack_le32 frame) (\<lambda>f. rbind (byte attempt) (\<lambda>a.
     Inr ([s, 0, 0, 0] @ f @ replicate 7 0 @ [a]))))"

definition compute_channel_index :: "cipher \<Rightarrow> bytes \<Rightarrow> int \<Rightarrow> int \<Rightarrow> int \<Rightarrow> int \<Rightarrow> int res" where
  "compute_channel_index aes fhek slot frame attempt num_channels =
     rbind (plaintext slot frame attempt) (\<lambda>p.
     rbind (unpack_le64 (take 8 (aes fhek p))) (\<lambda>raw.
     if num_channels = 0 then Inl ZeroDivisionError else Inr (raw mod num_channels)))"

definition num_channels :: int where
  "num_channels = 287"

section \<open>The vectors\<close>

record test_vector =
  fhek_text :: string
  tv_slot :: int
  tv_frame :: int
  tv_attempt :: int
  channel :: int
  freq_khz :: int

definition fhek_of :: "int \<Rightarrow> bytes" where
  "fhek_of b = replicate 32 (word_of_int b)"

definition vector :: "cipher \<Rightarrow> int \<Rightarrow> string \<Rightarrow> int \<times> int \<times> int \<Rightarrow> test_vector res" where
  "vector aes key name v = (let (slot, frame, attempt) = v in
     rbind (compute_channel_index aes (fhek_of key) slot frame attempt num_channels) (\<lambda>ch.
     Inr \<lparr>fhek_text = concat (replicate 32 name), tv_slot = slot, tv_frame = frame, tv_attempt = attempt,
          channel = ch, freq_khz = 225000 + ch * 1000\<rparr>))"

definition set_aa :: "(int \<times> int \<times> int) list" where
  "set_aa = map (\<lambda>(slot, frame). (slot, frame, 0)) [(0, 0), (0, 1), (0, 100), (1, 0), (5, 50), (19, 999)]"

definition set_cc :: "(int \<times> int \<times> int) list" where
  "set_cc = [(0, 0, 0), (0, 0, 1)]"

definition test_vectors :: "cipher \<Rightarrow> test_vector list res" where
  "test_vectors aes = rbind (rmap (vector aes 0xAA ''AA'') set_aa) (\<lambda>a.
     rbind (rmap (vector aes 0xCC ''CC'') set_cc) (\<lambda>c. Inr (a @ c)))"

section \<open>Output\<close>

definition vector_json :: "test_vector \<Rightarrow> json" where
  "vector_json v = JObj [(''fhek'', JStr (fhek_text v)), (''slot'', JInt (tv_slot v)), (''frame'', JInt (tv_frame v)),
     (''attempt'', JInt (tv_attempt v)), (''channel_index'', JInt (channel v)), (''freq_khz'', JInt (freq_khz v))]"

definition vector_line :: "test_vector \<Rightarrow> string" where
  "vector_line v = ''// slot='' @ int_str (tv_slot v) @ '' frame='' @ int_str (tv_frame v) @ '' attempt='' @ int_str (tv_attempt v) @
     '' -> ch='' @ int_str (channel v) @ '' freq='' @ int_str (freq_khz v) @ '' kHz''"

definition vectors_output :: "cipher \<Rightarrow> string res" where
  "vectors_output aes = rbind (test_vectors aes) (\<lambda>vs.
     Inr (unl ([json_dumps 0 (JList (map vector_json vs)), nl # ''// Paste into fhss_engine_tb.sv:''] @ map vector_line vs)))"

end
