(* ===== verification/FpgaCheck.thy ===== *)
theory FpgaCheck
  imports Regmap TestVectors
begin

text \<open>
  The FPGA scripts: the layout of the plaintext block, the channels of the test vectors, and the
  exit status of the register map check.
\<close>

section \<open>The plaintext block\<close>

lemma uint_byte: "uint (word_of_int n :: 8 word) = n mod 256"
  by (simp add: uint_word_of_int)

lemma le_value_4: "0 \<le> n \<Longrightarrow> n < 2 ^ 32 \<Longrightarrow> le_value (map (\<lambda>i. word_of_int (n div 256 ^ i)) [0..<4]) = n"
proof -
  assume n: "0 \<le> n" "n < 2 ^ 32"
  have u: "[0..<4] = [0, 1, 2, 3 :: nat]" by (simp add: upt_rec)
  have "le_value (map (\<lambda>i. word_of_int (n div 256 ^ i)) [0..<4]) =
      n mod 256 + 256 * (n div 256 mod 256 + 256 * (n div 256 ^ 2 mod 256 + 256 * (n div 256 ^ 3 mod 256)))"
    unfolding u by (simp add: le_value_def uint_byte)
  also have "\<dots> = n"
  proof -
    have d: "n div 256 ^ 2 = n div 256 div 256" "n div 256 ^ 3 = n div 256 div 256 div 256"
      by (simp_all add: div_mult2_eq [symmetric])
    have "n div 256 ^ 3 < 256" "0 \<le> n div 256 ^ 3" using n zdiv_mono1 [of n "2 ^ 32 - 1" "256 ^ 3"] by (simp_all add: pos_imp_zdiv_nonneg_iff)
    then have l: "n div 256 ^ 3 mod 256 = n div 256 ^ 3" by (rule mod_pos_pos_trivial [rotated])
    have "n div 256 ^ 2 mod 256 + 256 * (n div 256 ^ 3) = n div 256 ^ 2" unfolding d by (rule mod_mult_div_eq)
    moreover have "n div 256 mod 256 + 256 * (n div 256 ^ 2) = n div 256" unfolding d by (rule mod_mult_div_eq)
    ultimately show ?thesis unfolding l by (simp only: mod_mult_div_eq)
  qed
  finally show ?thesis .
qed

lemma byte_Inr: "byte n = Inr b \<longleftrightarrow> 0 \<le> n \<and> n < 256 \<and> b = word_of_int n"
  by (auto simp: byte_def)

lemma plaintext_cases:
  "case plaintext slot frame attempt of
     Inl e \<Rightarrow> \<not> (0 \<le> slot \<and> slot < 256 \<and> 0 \<le> frame \<and> frame < 2 ^ 32 \<and> 0 \<le> attempt \<and> attempt < 256)
   | Inr p \<Rightarrow> length p = 16 \<and> uint (p ! 0) = slot \<and> le_value (take 4 (drop 4 p)) = frame \<and> uint (p ! 15) = attempt \<and>
       take 3 (tl p) = [0, 0, 0] \<and> take 7 (drop 8 p) = replicate 7 0"
proof (cases "0 \<le> slot \<and> slot < 256 \<and> 0 \<le> frame \<and> frame < 2 ^ 32 \<and> 0 \<le> attempt \<and> attempt < 256")
  case True
  let ?f = "map (\<lambda>i. word_of_int (frame div 256 ^ i)) [0..<4] :: bytes"
  define a b c d :: "8 word" where "a = word_of_int (frame div 256 ^ 0)" and "b = word_of_int (frame div 256 ^ 1)"
    and "c = word_of_int (frame div 256 ^ 2)" and "d = word_of_int (frame div 256 ^ 3)"
  have "[0..<4] = [0, 1, 2, 3 :: nat]" by (simp add: upt_rec)
  then have abcd: "?f = [a, b, c, d]" by (simp only: a_def b_def c_def d_def list.map)
  have r: "replicate 7 (0 :: 8 word) = [0, 0, 0, 0, 0, 0, 0]" by (simp add: eval_nat_numeral)
  have p: "plaintext slot frame attempt = Inr [word_of_int slot, 0, 0, 0, a, b, c, d, 0, 0, 0, 0, 0, 0, 0, word_of_int attempt]"
    using True unfolding plaintext_def byte_def pack_le32_def abcd r by simp
  have l: "le_value [a, b, c, d] = frame" unfolding abcd [symmetric] by (rule le_value_4) (use True in simp_all)
  have u: "uint (word_of_int slot :: 8 word) = slot" "uint (word_of_int attempt :: 8 word) = attempt"
    using True by (simp_all add: uint_byte)
  show ?thesis unfolding p r by (simp add: u l)
next
  case False
  then have "\<exists>e. plaintext slot frame attempt = Inl e"
    by (auto simp: plaintext_def byte_def pack_le32_def)
  then show ?thesis using False by auto
qed


section \<open>The vectors\<close>

definition block_cipher :: "cipher \<Rightarrow> bool" where
  "block_cipher aes \<longleftrightarrow> (\<forall>k p. length k = 32 \<longrightarrow> length p = 16 \<longrightarrow> length (aes k p) = 16)"

lemma channel_in_range:
  assumes "block_cipher aes" "length key = 32"
    and "0 \<le> slot" "slot < 256" "0 \<le> frame" "frame < 2 ^ 32" "0 \<le> attempt" "attempt < 256" "0 < n"
  shows "\<exists>ch. compute_channel_index aes key slot frame attempt n = Inr ch \<and> 0 \<le> ch \<and> ch < n"
proof -
  obtain p where p: "plaintext slot frame attempt = Inr p" "length p = 16"
    using plaintext_cases [of slot frame attempt] assms by (cases "plaintext slot frame attempt") auto
  then have "length (take 8 (aes key p)) = 8" using assms(1,2) by (simp add: block_cipher_def)
  then show ?thesis using p assms(9) by (simp add: compute_channel_index_def unpack_le64_def)
qed

definition in_band :: "test_vector \<Rightarrow> bool" where
  "in_band v \<longleftrightarrow> 0 \<le> channel v \<and> channel v < 287 \<and> freq_khz v = 225000 + channel v * 1000"

lemma vector_ok:
  assumes "block_cipher aes" "0 \<le> slot" "slot < 256" "0 \<le> frame" "frame < 2 ^ 32" "0 \<le> attempt" "attempt < 256"
  shows "\<exists>v. vector aes key name (slot, frame, attempt) = Inr v \<and> in_band v \<and>
     (tv_slot v, tv_frame v, tv_attempt v) = (slot, frame, attempt)"
proof -
  have "length (fhek_of key) = 32" by (simp add: fhek_of_def)
  from channel_in_range [OF assms(1) this assms(2-7), of num_channels] obtain ch where
    "compute_channel_index aes (fhek_of key) slot frame attempt num_channels = Inr ch" "0 \<le> ch" "ch < 287"
    by (auto simp: num_channels_def)
  then show ?thesis by (simp add: vector_def in_band_def)
qed

lemma rmap_vectors:
  assumes "block_cipher aes"
    and "\<forall>(slot, frame, attempt) \<in> set ts. 0 \<le> slot \<and> slot < 256 \<and> 0 \<le> frame \<and> frame < 2 ^ 32 \<and> 0 \<le> attempt \<and> attempt < 256"
  shows "\<exists>vs. rmap (vector aes key name) ts = Inr vs \<and> list_all in_band vs \<and>
     map (\<lambda>v. (tv_slot v, tv_frame v, tv_attempt v)) vs = ts"
  using assms(2)
proof (induction ts)
  case (Cons t ts)
  obtain slot frame attempt where t: "t = (slot, frame, attempt)" by (metis prod_cases3)
  obtain v where "vector aes key name (slot, frame, attempt) = Inr v" "in_band v"
     "(tv_slot v, tv_frame v, tv_attempt v) = (slot, frame, attempt)"
    using vector_ok [OF assms(1), of slot frame attempt key name] Cons.prems t by auto
  then show ?case using Cons t by auto
qed simp

text \<open>
  C31: with any cipher that maps 16-byte blocks to 16-byte blocks under 32-byte keys, the script
  ends without an exception: it makes the eight vectors of its two lists in order, each on a channel
  below 287 and at the frequency of that channel, from 225 to 511 MHz in steps of 1 MHz.
\<close>

theorem test_vectors_in_band:
  assumes "block_cipher aes"
  shows "\<exists>vs. test_vectors aes = Inr vs \<and> list_all in_band vs \<and>
     map (\<lambda>v. (tv_slot v, tv_frame v, tv_attempt v)) vs = set_aa @ set_cc"
proof -
  have ranges: "\<forall>(slot, frame, attempt) \<in> set set_aa. 0 \<le> slot \<and> slot < 256 \<and> 0 \<le> frame \<and> frame < 2 ^ 32 \<and> 0 \<le> attempt \<and> attempt < 256"
    "\<forall>(slot, frame, attempt) \<in> set set_cc. 0 \<le> slot \<and> slot < 256 \<and> 0 \<le> frame \<and> frame < 2 ^ 32 \<and> 0 \<le> attempt \<and> attempt < 256"
    by (simp_all add: set_aa_def set_cc_def)
  obtain as where a: "rmap (vector aes 0xAA ''AA'') set_aa = Inr as" "list_all in_band as"
     "map (\<lambda>v. (tv_slot v, tv_frame v, tv_attempt v)) as = set_aa"
    using rmap_vectors [OF assms ranges(1)] by blast
  obtain cs where c: "rmap (vector aes 0xCC ''CC'') set_cc = Inr cs" "list_all in_band cs"
     "map (\<lambda>v. (tv_slot v, tv_frame v, tv_attempt v)) cs = set_cc"
    using rmap_vectors [OF assms ranges(2)] by blast
  show ?thesis using a c by (simp add: test_vectors_def)
qed

theorem test_vectors_in_band_witness:
  "\<exists>vs. test_vectors (\<lambda>k p. map2 (+) (take 16 k) p) = Inr vs \<and> list_all in_band vs \<and> length vs = 8"
proof -
  have "block_cipher (\<lambda>k p. map2 (+) (take 16 k) p)" by (simp add: block_cipher_def)
  from test_vectors_in_band [OF this] obtain vs where v: "test_vectors (\<lambda>k p. map2 (+) (take 16 k) p) = Inr vs"
    "list_all in_band vs" "map (\<lambda>v. (tv_slot v, tv_frame v, tv_attempt v)) vs = set_aa @ set_cc" by blast
  from arg_cong [OF v(3), of length] have "length vs = 8" by (simp add: set_aa_def set_cc_def)
  then show ?thesis using v by blast
qed

section \<open>The register maps\<close>

lemma obj_put_keys: "set (map fst (obj_put k v ps)) = insert k (set (map fst ps))"
  by (induction k v ps rule: obj_put.induct) auto

lemma obj_put_distinct: "distinct (map fst ps) \<Longrightarrow> distinct (map fst (obj_put k v ps))"
proof (induction k v ps rule: obj_put.induct)
  case (2 k v k' v' ps)
  then show ?case using obj_put_keys [of k v ps] by (auto split: if_splits)
qed simp

lemma svh_distinct: "parse_svh s = Inr svh \<Longrightarrow> distinct (map fst svh)"
  unfolding parse_svh_def
  by (erule rfold_invariant [where P = "\<lambda>r. distinct (map fst r)"])
     (auto simp: svh_entry_def Let_def rbind_Inr_iff obj_put_distinct split: option.splits if_splits)

lemma hpp_distinct: "parse_hpp s = Inr hpp \<Longrightarrow> distinct (map fst hpp)"
  unfolding parse_hpp_def
  by (erule rfold_invariant [where P = "\<lambda>r. distinct (map fst r)"])
     (auto simp: hpp_entry_def Let_def rbind_Inr_iff obj_put_distinct split: option.splits if_splits)

text \<open>When the two dictionaries agree, in terms of the values they give to names.\<close>

definition bit_param :: "string \<Rightarrow> bool" where
  "bit_param name \<longleftrightarrow> prefix ''STATUS_'' name \<and> suffix ''_BIT'' name"

definition hpp_only :: "string \<Rightarrow> bool" where
  "hpp_only name \<longleftrightarrow> prefix ''STATUS_HOP'' name \<or> prefix ''STATUS_GPS'' name \<or> name = ''PAGE_SIZE''"

definition maps_agree :: "(string \<rightharpoonup> int) \<Rightarrow> (string \<rightharpoonup> int) \<Rightarrow> bool" where
  "maps_agree svh hpp \<longleftrightarrow>
     (\<forall>name v. svh name = Some v \<longrightarrow> bit_param name \<or> hpp name = Some v) \<and>
     (\<forall>name. hpp name \<noteq> None \<longrightarrow> svh name \<noteq> None \<or> hpp_only name)"

lemma svh_errors_none: "svh_errors svh hpp = [] \<longleftrightarrow> (\<forall>(name, v) \<in> set svh. bit_param name \<or> map_of hpp name = Some v)"
  unfolding svh_errors_def concat_eq_Nil_conv bit_param_def by (auto split: option.splits if_splits)

lemma hpp_errors_none: "hpp_errors svh hpp = [] \<longleftrightarrow> (\<forall>(name, v) \<in> set hpp. map_of svh name \<noteq> None \<or> hpp_only name)"
  unfolding hpp_errors_def concat_eq_Nil_conv hpp_only_def hpp_only_allowed_def by (auto split: if_splits)

text \<open>
  C29: the exit status of the register map check is 0 exactly when the dictionaries of the two files
  agree: every name of \<open>regs.svh\<close> apart from the bit indices has the same value in \<open>axi_regs.hpp\<close>,
  and \<open>axi_regs.hpp\<close> has no further name apart from the allowed ones; otherwise it is 1 and the
  errors are printed below a headline.
\<close>

theorem check_regmap_spec:
  assumes "parse_svh svh_text = Inr svh" "parse_hpp hpp_text = Inr hpp"
  shows "\<exists>ls code. check_regmap svh_text hpp_text = Inr (ls, code) \<and>
     code = (if maps_agree (map_of svh) (map_of hpp) then 0 else 1) \<and>
     (code = 1 \<longrightarrow> hd ls = ''REGMAP CHECK FAILED:'' \<and> tl ls \<noteq> [])"
proof -
  let ?errors = "svh_errors svh hpp @ hpp_errors svh hpp"
  have "set svh = {(n, v). map_of svh n = Some v}" "set hpp = {(n, v). map_of hpp n = Some v}"
    using svh_distinct [OF assms(1)] hpp_distinct [OF assms(2)] by auto
  then have "?errors = [] \<longleftrightarrow> maps_agree (map_of svh) (map_of hpp)"
    unfolding append_is_Nil_conv svh_errors_none hpp_errors_none maps_agree_def by auto
  then show ?thesis using assms by (auto simp: check_regmap_def)
qed

definition tiny_svh :: string where
  "tiny_svh = ''localparam REG_A = 12'' @ [CHR 0x27] @ ''h01C; localparam STATUS_X_BIT = 5'' @ [CHR 0x27] @ ''d3;''"

definition tiny_hpp :: string where
  "tiny_hpp = ''constexpr uint32_t REG_A = 0x01Cu; constexpr size_t PAGE_SIZE = 64;''"

lemma tiny_regs: "parse_svh tiny_svh = Inr [(''REG_A'', 28), (''STATUS_X_BIT'', 3)]"
  "parse_hpp tiny_hpp = Inr [(''REG_A'', 28), (''PAGE_SIZE'', 64)]"
  by code_simp+

lemma tiny_errors: "svh_errors [(''REG_A'', 28), (''STATUS_X_BIT'', 3)] [(''REG_A'', 28), (''PAGE_SIZE'', 64)] @
    hpp_errors [(''REG_A'', 28), (''STATUS_X_BIT'', 3)] [(''REG_A'', 28), (''PAGE_SIZE'', 64)] = []"
  by code_simp

theorem check_regmap_spec_witness:
  "maps_agree (map_of [(''REG_A'', 28), (''STATUS_X_BIT'', 3)]) (map_of [(''REG_A'', 28), (''PAGE_SIZE'', 64)])"
proof -
  have "\<exists>ls. check_regmap tiny_svh tiny_hpp = Inr (ls, 0)"
    unfolding check_regmap_def tiny_regs rbind_simps Let_def tiny_errors by simp
  then obtain ls where l: "check_regmap tiny_svh tiny_hpp = Inr (ls, 0)" by (elim exE)
  from check_regmap_spec [OF tiny_regs] obtain ls' code where c: "check_regmap tiny_svh tiny_hpp = Inr (ls', code)"
    "code = (if maps_agree (map_of [(''REG_A'', 28), (''STATUS_X_BIT'', 3)]) (map_of [(''REG_A'', 28), (''PAGE_SIZE'', 64)]) then 0 else 1)"
    by (elim exE conjE)
  have "code = 0" using c(1) unfolding l by (simp only: sum.inject prod.inject)
  then show ?thesis unfolding c(2) by (rule contrapos_pp) (simp only: if_False one_neq_zero not_False_eq_True)
qed

end
