(* ===== verification/Schematic.thy ===== *)
theory Schematic
  imports Netlist Uuid
begin

text \<open>
  The vocabulary of the seven schematic generators \<open>hardware/cirradio-devboard/gen_*.py\<close>: the
  module-level state of a run, the helper functions that append S-expressions to \<open>lines\<close>, and
  the last part of every \<open>main\<close>, which counts the parentheses, writes the file and prints the
  summary. The helpers are repeated word for word in the generators; where a generator has its
  own version (a capacitor that can be turned, a resistor with a footprint), the parameter that
  is missing in the others is passed with its default.
\<close>

section \<open>Numbers of the drawings\<close>

text \<open>
  Coordinates are ints or floats, and Python prints them differently. An operation of two ints
  is exact; with a float operand the other one is converted and the result is rounded.
\<close>

abbreviation dec :: "int \<Rightarrow> nat \<Rightarrow> pynum" where
  "dec n k \<equiv> PFloat (lit n k)"

instantiation pynum :: "{plus, minus, times}"
begin

fun plus_pynum :: "pynum \<Rightarrow> pynum \<Rightarrow> pynum" where
  "plus_pynum (PInt i) (PInt j) = PInt (i + j)"
| "plus_pynum a b = PFloat (fadd (num_val a) (num_val b))"

fun minus_pynum :: "pynum \<Rightarrow> pynum \<Rightarrow> pynum" where
  "minus_pynum (PInt i) (PInt j) = PInt (i - j)"
| "minus_pynum a b = PFloat (fsub (num_val a) (num_val b))"

fun times_pynum :: "pynum \<Rightarrow> pynum \<Rightarrow> pynum" where
  "times_pynum (PInt i) (PInt j) = PInt (i * j)"
| "times_pynum a b = PFloat (fmul (num_val a) (num_val b))"

instance ..

end

section \<open>The state of a run\<close>

text \<open>
  The lists and dictionaries at module level: \<open>lines\<close>, the one-element lists that hold the next
  index of each kind of designator, and \<open>counts\<close>. A generator has only some of the indices;
  the others stay unused. The random bytes of \<open>uuid4\<close> and the number of calls made so far
  complete the state.
\<close>

record sheet =
  sheet_lines :: "string list"
  cap_idx :: int
  res_idx :: int
  pwr_idx :: int
  ind_idx :: int
  u_idx :: int
  led_idx :: int
  btn_idx :: int
  tp_idx :: int
  conn_idx :: int
  ic_idx :: int
  crystal_idx :: int
  counts :: "string \<Rightarrow> int"
  sheet_rnd :: random
  sheet_uids :: nat

definition empty_sheet :: "random \<Rightarrow> sheet" where
  "empty_sheet rnd = \<lparr>sheet_lines = [], cap_idx = 0, res_idx = 0, pwr_idx = 0, ind_idx = 0,
     u_idx = 0, led_idx = 0, btn_idx = 0, tp_idx = 0, conn_idx = 0, ic_idx = 0, crystal_idx = 0,
     counts = (\<lambda>_. 0), sheet_rnd = rnd, sheet_uids = 0\<rparr>"

text \<open>A statement is a function on the state, a block runs its statements in order.\<close>

type_synonym stmt = "sheet \<Rightarrow> sheet"

definition draw :: "stmt list \<Rightarrow> stmt" where
  "draw cs s = fold (\<lambda>c. c) cs s"

definition emit :: "string \<Rightarrow> stmt" where
  "emit l s = s\<lparr>sheet_lines := sheet_lines s @ [l]\<rparr>"

definition bump :: "string \<Rightarrow> stmt" where
  "bump key s = s\<lparr>counts := (counts s)(key := counts s key + 1)\<rparr>"

text \<open>A value that is computed from the state: a fresh identifier, the next designator.\<close>

definition with_value :: "(sheet \<Rightarrow> 'a \<times> sheet) \<Rightarrow> ('a \<Rightarrow> stmt) \<Rightarrow> stmt" where
  "with_value g f s = (let (v, t) = g s in f v t)"

definition new_uid :: "sheet \<Rightarrow> string \<times> sheet" where
  "new_uid s = (uid (sheet_rnd s) (sheet_uids s), s\<lparr>sheet_uids := sheet_uids s + 1\<rparr>)"

definition next_cap :: "sheet \<Rightarrow> string \<times> sheet" where
  "next_cap s = (''C'' @ int_str (cap_idx s), s\<lparr>cap_idx := cap_idx s + 1\<rparr>)"

definition next_res :: "sheet \<Rightarrow> string \<times> sheet" where
  "next_res s = (''R'' @ int_str (res_idx s), s\<lparr>res_idx := res_idx s + 1\<rparr>)"

text \<open>\<open>:04d\<close> of the index, which is never negative\<close>

definition next_pwr :: "sheet \<Rightarrow> string \<times> sheet" where
  "next_pwr s = (''#PWR'' @ pad_left 4 (int_str (pwr_idx s)), s\<lparr>pwr_idx := pwr_idx s + 1\<rparr>)"

definition next_ind :: "sheet \<Rightarrow> string \<times> sheet" where
  "next_ind s = (''L'' @ int_str (ind_idx s), s\<lparr>ind_idx := ind_idx s + 1\<rparr>)"

definition next_u :: "sheet \<Rightarrow> string \<times> sheet" where
  "next_u s = (''U'' @ int_str (u_idx s), s\<lparr>u_idx := u_idx s + 1\<rparr>)"

definition next_led :: "sheet \<Rightarrow> string \<times> sheet" where
  "next_led s = (''D'' @ int_str (led_idx s), s\<lparr>led_idx := led_idx s + 1\<rparr>)"

definition next_btn :: "sheet \<Rightarrow> string \<times> sheet" where
  "next_btn s = (''SW'' @ int_str (btn_idx s), s\<lparr>btn_idx := btn_idx s + 1\<rparr>)"

definition next_tp :: "sheet \<Rightarrow> string \<times> sheet" where
  "next_tp s = (''TP'' @ int_str (tp_idx s), s\<lparr>tp_idx := tp_idx s + 1\<rparr>)"

definition next_conn :: "sheet \<Rightarrow> string \<times> sheet" where
  "next_conn s = (''J'' @ int_str (conn_idx s), s\<lparr>conn_idx := conn_idx s + 1\<rparr>)"

definition next_ic :: "sheet \<Rightarrow> string \<times> sheet" where
  "next_ic s = (''U'' @ int_str (ic_idx s), s\<lparr>ic_idx := ic_idx s + 1\<rparr>)"

definition next_crystal :: "sheet \<Rightarrow> string \<times> sheet" where
  "next_crystal s = (''Y'' @ int_str (crystal_idx s), s\<lparr>crystal_idx := crystal_idx s + 1\<rparr>)"

section \<open>Placing symbols\<close>

definition symbol_instance ::
    "string \<Rightarrow> string \<Rightarrow> string \<Rightarrow> pynum \<Rightarrow> pynum \<Rightarrow> int \<Rightarrow> int \<Rightarrow> string \<Rightarrow> string \<Rightarrow> stmt" where
  \<open>symbol_instance lib ref val at_x at_y unit angle fp mirror = draw [
     bump ''symbols'',
     with_value new_uid (\<lambda>u.
       let x = num_str at_x; y = num_str at_y;
           at_str = ''(at '' @ x @ '' '' @ y @ '' '' @ int_str angle @ '')'' @
             (if mirror \<noteq> [] then '' (mirror '' @ mirror @ '')'' else [])
       in draw [
       emit (''    (symbol (lib_id "'' @ lib @ ''") '' @ at_str),
       emit (''      (unit '' @ int_str unit @ '') (exclude_from_sim no) (in_bom yes) (on_board yes) (dnp no)''),
       emit (''      (uuid "'' @ u @ ''")''),
       emit (''      (property "Reference" "'' @ ref @ ''" (at '' @ x @ '' '' @ num_str (at_y - PInt 2) @
         '' 0) (effects (font (size 1.27 1.27))))''),
       emit (''      (property "Value" "'' @ val @ ''" (at '' @ x @ '' '' @ num_str (at_y + PInt 2) @
         '' 0) (effects (font (size 1.27 1.27))))''),
       emit (''      (property "Footprint" "'' @ fp @ ''" (at '' @ x @ '' '' @ y @
         '' 0) (effects (font (size 1.27 1.27)) hide))''),
       emit (''      (property "Datasheet" "" (at '' @ x @ '' '' @ y @
         '' 0) (effects (font (size 1.27 1.27)) hide))'')])]\<close>

definition pin_line :: "string \<Rightarrow> stmt" where
  \<open>pin_line p = with_value new_uid (\<lambda>u. emit (''      (pin "'' @ p @ ''" (uuid "'' @ u @ ''"))''))\<close>

definition symbol_pins :: "string list \<Rightarrow> stmt" where
  "symbol_pins pin_list = draw [draw (map pin_line pin_list), emit ''    )'']"

text \<open>The same symbol, spelled out line by line in a few places, without the \<open>mirror\<close> option.\<close>

definition wire :: "pynum \<Rightarrow> pynum \<Rightarrow> pynum \<Rightarrow> pynum \<Rightarrow> stmt" where
  \<open>wire x1 y1 x2 y2 = draw [
     bump ''wires'',
     with_value new_uid (\<lambda>u. emit (''    (wire (pts (xy '' @ num_str x1 @ '' '' @ num_str y1 @ '') (xy '' @
       num_str x2 @ '' '' @ num_str y2 @ '')) (stroke (width 0) (type default)) (uuid "'' @ u @ ''"))''))]\<close>

definition global_label :: "string \<Rightarrow> pynum \<Rightarrow> pynum \<Rightarrow> string \<Rightarrow> int \<Rightarrow> stmt" where
  \<open>global_label name x y shape angle = draw [
     bump ''gl_labels'',
     with_value new_uid (\<lambda>u. emit (''    (global_label "'' @ name @ ''" (shape '' @ shape @ '') (at '' @
       num_str x @ '' '' @ num_str y @ '' '' @ int_str angle @
       '') (effects (font (size 1.27 1.27))) (uuid "'' @ u @ ''")'')),
     emit (''      (property "Intersheetrefs" "${INTERSHEET_REFS}" (at '' @ num_str x @ '' '' @ num_str y @
       '' 0) (effects (font (size 0.5 0.5)) hide))''),
     emit ''    )'']\<close>

definition hier_label :: "string \<Rightarrow> pynum \<Rightarrow> pynum \<Rightarrow> string \<Rightarrow> int \<Rightarrow> stmt" where
  \<open>hier_label name x y shape angle = draw [
     bump ''hier_labels'',
     with_value new_uid (\<lambda>u. emit (''    (hierarchical_label "'' @ name @ ''" (shape '' @ shape @ '') (at '' @
       num_str x @ '' '' @ num_str y @ '' '' @ int_str angle @
       '') (effects (font (size 1.27 1.27))) (uuid "'' @ u @ ''"))''))]\<close>

definition net_label :: "string \<Rightarrow> pynum \<Rightarrow> pynum \<Rightarrow> int \<Rightarrow> stmt" where
  \<open>net_label name x y angle = draw [
     bump ''labels'',
     with_value new_uid (\<lambda>u. emit (''    (label "'' @ name @ ''" (at '' @
       num_str x @ '' '' @ num_str y @ '' '' @ int_str angle @
       '') (effects (font (size 1.27 1.27))) (uuid "'' @ u @ ''"))''))]\<close>

definition text_note :: "string \<Rightarrow> pynum \<Rightarrow> pynum \<Rightarrow> pynum \<Rightarrow> stmt" where
  \<open>text_note note x y sz = emit (''    (text "'' @ note @ ''" (at '' @ num_str x @ '' '' @ num_str y @
     '' 0) (effects (font (size '' @ num_str sz @ '' '' @ num_str sz @ ''))))'')\<close>

definition no_connect :: "pynum \<Rightarrow> pynum \<Rightarrow> stmt" where
  \<open>no_connect x y = with_value new_uid (\<lambda>u.
     emit (''    (no_connect (at '' @ num_str x @ '' '' @ num_str y @ '') (uuid "'' @ u @ ''"))''))\<close>

definition power_symbol :: "string \<Rightarrow> pynum \<Rightarrow> pynum \<Rightarrow> int \<Rightarrow> stmt" where
  "power_symbol net x y angle = with_value next_pwr (\<lambda>ref. draw [
     symbol_instance (''power:'' @ net) ref net x y 1 angle [] [],
     symbol_pins [''1'']])"

definition cap :: "string \<Rightarrow> pynum \<Rightarrow> pynum \<Rightarrow> int \<Rightarrow> string \<Rightarrow> stmt" where
  "cap val x y angle fp = draw [
     bump ''capacitors'',
     with_value next_cap (\<lambda>ref. draw [
       symbol_instance ''Device:C'' ref val x y 1 angle fp [],
       symbol_pins [''1'', ''2'']])]"

definition resistor :: "string \<Rightarrow> pynum \<Rightarrow> pynum \<Rightarrow> int \<Rightarrow> string \<Rightarrow> stmt" where
  "resistor val x y angle fp = draw [
     bump ''resistors'',
     with_value next_res (\<lambda>ref. draw [
       symbol_instance ''Device:R'' ref val x y 1 angle fp [],
       symbol_pins [''1'', ''2'']])]"

definition inductor :: "string \<Rightarrow> pynum \<Rightarrow> pynum \<Rightarrow> int \<Rightarrow> string \<Rightarrow> stmt" where
  "inductor val x y angle fp = draw [
     bump ''inductors'',
     with_value next_ind (\<lambda>ref. draw [
       symbol_instance ''Device:L'' ref val x y 1 angle fp [],
       symbol_pins [''1'', ''2'']])]"

text \<open>\<open>test_point\<close> of \<open>gen_connectors.py\<close>\<close>

definition test_point :: "string \<Rightarrow> pynum \<Rightarrow> pynum \<Rightarrow> string \<Rightarrow> stmt" where
  "test_point name x y fp = draw [
     bump ''test_points'',
     with_value next_tp (\<lambda>ref. draw [
       symbol_instance ''Connector:TestPoint'' ref name x y 1 0 fp [],
       symbol_pins [''1'']])]"

text \<open>Python's \<open>enumerate\<close>, and \<open>str\<close> of a string that may be \<open>None\<close>.\<close>

definition enum_list :: "'a list \<Rightarrow> (int \<times> 'a) list" where
  "enum_list xs = zip (map int [0..<length xs]) xs"

fun opt_str :: "string option \<Rightarrow> string" where
  "opt_str None = ''None''"
| "opt_str (Some s) = s"

text \<open>The default footprints.\<close>

definition fp_c0402 :: string where "fp_c0402 = ''Capacitor_SMD:C_0402_1005Metric''"
definition fp_r0402 :: string where "fp_r0402 = ''Resistor_SMD:R_0402_1005Metric''"

text \<open>One capacitor of \<open>decoupling_group\<close>; \<open>cx\<close> moves five to the right after each.\<close>

definition decoupling_cap :: "string \<Rightarrow> string \<Rightarrow> pynum \<Rightarrow> pynum \<Rightarrow> stmt" where
  "decoupling_cap val fp cx y = draw [
     wire cx y cx (y + dec 127 2),
     cap val cx (y + dec 508 2) 0 fp,
     wire cx (y + dec 889 2) cx (y + PInt 10),
     power_symbol ''GND'' cx (y + PInt 10) 0]"

fun decoupling_caps :: "nat \<Rightarrow> string \<Rightarrow> string \<Rightarrow> pynum \<Rightarrow> pynum \<Rightarrow> stmt" where
  "decoupling_caps 0 val fp cx y = draw []"
| "decoupling_caps (Suc n) val fp cx y =
     draw [decoupling_cap val fp cx y, decoupling_caps n val fp (cx + PInt 5) y]"

text \<open>\<open>cx\<close> after \<open>n\<close> steps\<close>

fun step_right :: "nat \<Rightarrow> pynum \<Rightarrow> pynum" where
  "step_right 0 cx = cx"
| "step_right (Suc n) cx = step_right n (cx + PInt 5)"

definition decoupling_group :: "string \<Rightarrow> pynum \<Rightarrow> pynum \<Rightarrow> nat \<Rightarrow> nat \<Rightarrow> string \<Rightarrow> stmt" where
  "decoupling_group rail_net x y n_100nf n_10uf label_text = draw [
     text_note (label_text @ '' decoupling'') x (y - PInt 5) (dec 127 2),
     global_label rail_net x (y - PInt 2) ''passive'' 0,
     wire x (y - PInt 2) x y,
     decoupling_caps n_100nf ''100n'' fp_c0402 x y,
     decoupling_caps n_10uf ''10u'' ''Capacitor_SMD:C_0805_2012Metric'' (step_right n_100nf x) y,
     if 1 < n_100nf + n_10uf
     then wire x y (x + PInt ((int n_100nf + int n_10uf - 1) * 5)) y else draw []]"

section \<open>Library symbols that several sheets use\<close>

definition lib_device_r :: "string" where
  \<open>lib_device_r = py_join [nl]
       [''    (symbol "Device:R"'',
        ''      (pin_names (offset 0) hide) (exclude_from_sim no) (in_bom yes) (on_board yes)'',
        ''      (property "Reference" "R" (at 2.032 0 90) (effects (font (size 1.27 1.27))))'',
        ''      (property "Value" "R" (at -2.032 0 90) (effects (font (size 1.27 1.27))))'',
        ''      (property "Footprint" "" (at -1.778 0 90) (effects (font (size 1.27 1.27)) hide))'',
        ''      (property "Datasheet" "" (at 0 0 0) (effects (font (size 1.27 1.27)) hide))'',
        ''      (symbol "R_0_1"'',
        ''        (rectangle (start -1.016 -2.54) (end 1.016 2.54) (stroke (width 0.254) (type default)) (fill (type none)))'',
        ''      )'',
        ''      (symbol "R_1_1"'',
        ''        (pin passive line (at 0 3.81 270) (length 1.27) (name "~" (effects (font (size 1.27 1.27)))) (number "1" (effects (font (size 1.27 1.27)))))'',
        ''        (pin passive line (at 0 -3.81 90) (length 1.27) (name "~" (effects (font (size 1.27 1.27)))) (number "2" (effects (font (size 1.27 1.27)))))'',
        ''      )'',
        ''    )'']\<close>

definition lib_device_c :: "string" where
  \<open>lib_device_c = py_join [nl]
       [''    (symbol "Device:C"'',
        ''      (pin_names (offset 0.254) hide) (exclude_from_sim no) (in_bom yes) (on_board yes)'',
        ''      (property "Reference" "C" (at 1.524 1.651 0) (effects (font (size 1.27 1.27)) (justify left)))'',
        ''      (property "Value" "C" (at 1.524 -1.651 0) (effects (font (size 1.27 1.27)) (justify left)))'',
        ''      (property "Footprint" "" (at 0.9652 -3.81 0) (effects (font (size 1.27 1.27)) hide))'',
        ''      (property "Datasheet" "" (at 0 0 0) (effects (font (size 1.27 1.27)) hide))'',
        ''      (symbol "C_0_1"'',
        ''        (polyline (pts (xy -2.032 -0.762) (xy 2.032 -0.762)) (stroke (width 0.508) (type default)) (fill (type none)))'',
        ''        (polyline (pts (xy -2.032 0.762) (xy 2.032 0.762)) (stroke (width 0.508) (type default)) (fill (type none)))'',
        ''      )'',
        ''      (symbol "C_1_1"'',
        ''        (pin passive line (at 0 3.81 270) (length 3.048) (name "~" (effects (font (size 1.27 1.27)))) (number "1" (effects (font (size 1.27 1.27)))))'',
        ''        (pin passive line (at 0 -3.81 90) (length 3.048) (name "~" (effects (font (size 1.27 1.27)))) (number "2" (effects (font (size 1.27 1.27)))))'',
        ''      )'',
        ''    )'']\<close>

definition lib_gnd :: "string" where
  \<open>lib_gnd = py_join [nl]
       [''    (symbol "power:GND"'',
        ''      (power) (pin_names (offset 0)) (exclude_from_sim no) (in_bom yes) (on_board yes)'',
        ''      (property "Reference" "#PWR" (at 0 -6.35 0) (effects (font (size 1.27 1.27)) hide))'',
        ''      (property "Value" "GND" (at 0 -3.81 0) (effects (font (size 1.27 1.27))))'',
        ''      (property "Footprint" "" (at 0 0 0) (effects (font (size 1.27 1.27)) hide))'',
        ''      (property "Datasheet" "" (at 0 0 0) (effects (font (size 1.27 1.27)) hide))'',
        ''      (symbol "GND_0_1"'',
        ''        (polyline (pts (xy 0 0) (xy 0 -1.27) (xy 1.27 -1.27) (xy 0 -2.54) (xy -1.27 -1.27) (xy 0 -1.27)) (stroke (width 0) (type default)) (fill (type none)))'',
        ''      )'',
        ''      (symbol "GND_1_1"'',
        ''        (pin power_in line (at 0 0 270) (length 0) (name "GND" (effects (font (size 1.27 1.27)))) (number "1" (effects (font (size 1.27 1.27)))))'',
        ''      )'',
        ''    )'']\<close>

definition lib_power :: "string \<Rightarrow> string" where
  \<open>lib_power net = py_join [nl]
       [''    (symbol "power:'' @ net @ ''"'',
        ''      (power) (pin_names (offset 0)) (exclude_from_sim no) (in_bom yes) (on_board yes)'',
        ''      (property "Reference" "#PWR" (at 0 -3.81 0) (effects (font (size 1.27 1.27)) hide))'',
        ''      (property "Value" "'' @ net @ ''" (at 0 3.556 0) (effects (font (size 1.27 1.27))))'',
        ''      (property "Footprint" "" (at 0 0 0) (effects (font (size 1.27 1.27)) hide))'',
        ''      (property "Datasheet" "" (at 0 0 0) (effects (font (size 1.27 1.27)) hide))'',
        ''      (symbol "'' @ net @ ''_0_1"'',
        ''        (polyline (pts (xy -0.762 1.27) (xy 0 2.54)) (stroke (width 0) (type default)) (fill (type none)))'',
        ''        (polyline (pts (xy 0 0) (xy 0 2.54)) (stroke (width 0) (type default)) (fill (type none)))'',
        ''        (polyline (pts (xy 0 2.54) (xy 0.762 1.27)) (stroke (width 0) (type default)) (fill (type none)))'',
        ''      )'',
        ''      (symbol "'' @ net @ ''_1_1"'',
        ''        (pin power_in line (at 0 0 90) (length 0) (name "'' @ net @
            ''" (effects (font (size 1.27 1.27)))) (number "1" (effects (font (size 1.27 1.27)))))'',
        ''      )'',
        ''    )'']\<close>

definition lib_device_led :: "string" where
  \<open>lib_device_led = py_join [nl]
       [''    (symbol "Device:LED"'',
        ''      (pin_names (offset 1.016) hide) (exclude_from_sim no) (in_bom yes) (on_board yes)'',
        ''      (property "Reference" "D" (at 0 2.54 0) (effects (font (size 1.27 1.27))))'',
        ''      (property "Value" "LED" (at 0 -2.54 0) (effects (font (size 1.27 1.27))))'',
        ''      (property "Footprint" "" (at 0 0 0) (effects (font (size 1.27 1.27)) hide))'',
        ''      (property "Datasheet" "" (at 0 0 0) (effects (font (size 1.27 1.27)) hide))'',
        ''      (symbol "LED_0_1"'',
        ''        (polyline (pts (xy -1.27 1.27) (xy -1.27 -1.27)) (stroke (width 0.254) (type default)) (fill (type none)))'',
        ''        (polyline (pts (xy -1.27 0) (xy 1.27 0)) (stroke (width 0) (type default)) (fill (type none)))'',
        ''        (polyline (pts (xy 1.27 1.27) (xy 1.27 -1.27) (xy -1.27 0) (xy 1.27 1.27)) (stroke (width 0.254) (type default)) (fill (type none)))'',
        ''      )'',
        ''      (symbol "LED_1_1"'',
        ''        (pin passive line (at -3.81 0 0) (length 2.54) (name "K" (effects (font (size 1.27 1.27)))) (number "1" (effects (font (size 1.27 1.27)))))'',
        ''        (pin passive line (at 3.81 0 180) (length 2.54) (name "A" (effects (font (size 1.27 1.27)))) (number "2" (effects (font (size 1.27 1.27)))))'',
        ''      )'',
        ''    )'']\<close>

definition lib_sw_push :: "string" where
  \<open>lib_sw_push = py_join [nl]
       [''    (symbol "Switch:SW_Push"'',
        ''      (pin_names (offset 1.016) hide) (exclude_from_sim no) (in_bom yes) (on_board yes)'',
        ''      (property "Reference" "SW" (at 0 3.81 0) (effects (font (size 1.27 1.27))))'',
        ''      (property "Value" "SW_Push" (at 0 -2.54 0) (effects (font (size 1.27 1.27))))'',
        ''      (property "Footprint" "" (at 0 0 0) (effects (font (size 1.27 1.27)) hide))'',
        ''      (property "Datasheet" "" (at 0 0 0) (effects (font (size 1.27 1.27)) hide))'',
        ''      (symbol "SW_Push_0_1"'',
        ''        (circle (center -2.032 0) (radius 0.508) (stroke (width 0) (type default)) (fill (type none)))'',
        ''        (circle (center 2.032 0) (radius 0.508) (stroke (width 0) (type default)) (fill (type none)))'',
        ''        (polyline (pts (xy 0 1.524) (xy 0 3.048)) (stroke (width 0) (type default)) (fill (type none)))'',
        ''        (polyline (pts (xy -2.54 1.524) (xy 2.54 1.524)) (stroke (width 0) (type default)) (fill (type none)))'',
        ''      )'',
        ''      (symbol "SW_Push_1_1"'',
        ''        (pin passive line (at -5.08 0 0) (length 2.54) (name "1" (effects (font (size 1.27 1.27)))) (number "1" (effects (font (size 1.27 1.27)))))'',
        ''        (pin passive line (at 5.08 0 180) (length 2.54) (name "2" (effects (font (size 1.27 1.27)))) (number "2" (effects (font (size 1.27 1.27)))))'',
        ''      )'',
        ''    )'']\<close>

section \<open>The end of a run\<close>

record gen_out =
  gen_exit :: int
  gen_file :: "(string \<times> string) option"
  gen_stdout :: "string list"
  gen_stderr :: "string list"

text \<open>
  The loop that looks for the place of an imbalance: the index of the first parenthesis that
  closes nothing, and the depth where the loop stops.
\<close>

fun find_imbalance :: "int \<Rightarrow> nat \<Rightarrow> string \<Rightarrow> nat option \<times> int" where
  "find_imbalance depth i [] = (None, depth)"
| "find_imbalance depth i (c # s) =
     (let depth' = (if c = CHR ''('' then depth + 1 else if c = CHR '')'' then depth - 1 else depth)
      in if depth' < 0 then (Some i, depth') else find_imbalance depth' (Suc i) s)"

definition imbalance_lines :: "string \<Rightarrow> string list" where
  "imbalance_lines output =
     (let (place, depth) = find_imbalance 0 0 output
      in (case place of None \<Rightarrow> []
          | Some i \<Rightarrow> [''  Extra '' @ [CHR 0x27] @ '')'' @ [CHR 0x27] @ '' at character '' @ int_str (int i) @
              '', line '' @ int_str (int (count_list (take i output) nl + 1))]) @
         (if 0 < depth then [''  Missing '' @ int_str depth @ '' closing parentheses at end''] else []))"

text \<open>
  The last part of \<open>main\<close>; \<open>level\<close> is the word the message starts with and \<open>report\<close> gives the
  printed summary from the number of parentheses.
\<close>

definition finish :: "string \<Rightarrow> string \<Rightarrow> (nat \<Rightarrow> nat \<Rightarrow> string list) \<Rightarrow> sheet \<Rightarrow> gen_out" where
  "finish level path report s =
     (let output = py_join [nl] (sheet_lines s);
          n_open = count_list output (CHR ''('');
          n_close = count_list output (CHR '')'')
      in if n_open \<noteq> n_close
         then \<lparr>gen_exit = 1, gen_file = None, gen_stdout = [],
               gen_stderr = (level @ '': Parenthesis imbalance! Opens: '' @ int_str (int n_open) @
                 '', Closes: '' @ int_str (int n_close)) # imbalance_lines output\<rparr>
         else \<lparr>gen_exit = 0, gen_file = Some (path, output), gen_stdout = report n_open n_close,
               gen_stderr = []\<rparr>)"

definition count_line :: "string \<Rightarrow> int \<Rightarrow> string" where
  "count_line what n = ''  '' @ what @ '': '' @ int_str n"

definition balance_line :: "nat \<Rightarrow> nat \<Rightarrow> string" where
  "balance_line n_open n_close = ''  Parentheses balanced: '' @ int_str (int n_open) @ '' opens, '' @
     int_str (int n_close) @ '' closes''"

text \<open>The directory of the absolute paths in the generators.\<close>

definition board_dir :: string where
  "board_dir = ''/Users/pekka/Documents/cirradio/hardware/cirradio-devboard/''"

text \<open>The lines before the library symbols: the header and the title block.\<close>

definition emit_header :: "string \<Rightarrow> string \<Rightarrow> string \<Rightarrow> string \<Rightarrow> stmt" where
  \<open>emit_header generator title comment1 comment2 = draw [
     emit ''(kicad_sch'',
     emit ''  (version 20231120)'',
     emit (''  (generator "'' @ generator @ ''")''),
     emit ''  (generator_version "9.0")'',
     with_value new_uid (\<lambda>u. emit (''  (uuid "'' @ u @ ''")'')),
     emit ''  (paper "A3")'',
     emit ''  (title_block'',
     emit (''    (title "'' @ title @ ''")''),
     emit ''    (date "2026-03-03")'',
     emit ''    (rev "1.0")'',
     emit ''    (company "")'',
     emit (''    (comment 1 "'' @ comment1 @ ''")''),
     emit (''    (comment 2 "'' @ comment2 @ ''")''),
     emit ''  )'',
     emit []]\<close>

end
