(* ===== verification/Toplevel.thy ===== *)
theory Toplevel
  imports Schematic
begin

text \<open>
  The top-level schematic, \<open>hardware/cirradio-devboard/gen_toplevel.py\<close>: the seven sheet
  references and the annotations of the block diagram. There are no components and no labels.
\<close>

section \<open>Annotations and sheet references\<close>

definition rect_note :: "pynum \<Rightarrow> pynum \<Rightarrow> pynum \<Rightarrow> pynum \<Rightarrow> pynum \<Rightarrow> pynum \<Rightarrow> pynum \<Rightarrow> pynum \<Rightarrow> pynum \<Rightarrow> stmt" where
  \<open>rect_note x1 y1 x2 y2 width color_r color_g color_b color_a = draw [
    emit ''    (polyline'',
    emit ''      (pts'',
    emit (''        (xy '' @ num_str x1 @ '' '' @ num_str y1 @ '')''),
    emit (''        (xy '' @ num_str x2 @ '' '' @ num_str y1 @ '')''),
    emit (''        (xy '' @ num_str x2 @ '' '' @ num_str y2 @ '')''),
    emit (''        (xy '' @ num_str x1 @ '' '' @ num_str y2 @ '')''),
    emit (''        (xy '' @ num_str x1 @ '' '' @ num_str y1 @ '')''),
    emit ''      )'',
    emit (''      (stroke (width '' @ num_str width @ '') (type dash) (color '' @ num_str color_r @ '' '' @ num_str color_g @ '' '' @
        num_str color_b @ '' '' @ num_str color_a @ ''))''),
    with_value new_uid (\<lambda>u. emit (''      (uuid "'' @ u @ ''")'')),
    emit ''    )'']\<close>

definition arrow_line :: "pynum \<Rightarrow> pynum \<Rightarrow> pynum \<Rightarrow> pynum \<Rightarrow> pynum \<Rightarrow> stmt" where
  \<open>arrow_line x1 y1 x2 y2 width = draw [
    emit ''    (polyline'',
    emit (''      (pts (xy '' @ num_str x1 @ '' '' @ num_str y1 @ '') (xy '' @ num_str x2 @ '' '' @ num_str y2 @ ''))''),
    emit (''      (stroke (width '' @ num_str width @ '') (type default) (color 0 100 0 1.0))''),
    with_value new_uid (\<lambda>u. emit (''      (uuid "'' @ u @ ''")'')),
    emit ''    )'']\<close>

definition sheet_ref :: "string \<Rightarrow> string \<Rightarrow> pynum \<Rightarrow> pynum \<Rightarrow> pynum \<Rightarrow> pynum \<Rightarrow> stmt" where
  \<open>sheet_ref name filename x y w h = draw [
    emit (''    (sheet (at '' @ num_str x @ '' '' @ num_str y @ '') (size '' @ num_str w @ '' '' @ num_str h @ '')''),
    emit ''      (stroke (width 0.001) (type solid))'',
    emit ''      (fill (color 255 255 255 1.0))'',
    with_value new_uid (\<lambda>u. emit (''      (uuid "'' @ u @ ''")'')),
    emit (''      (property "Sheetname" "'' @ name @ ''" (at '' @ num_str x @ '' '' @ num_str (y - PInt 1) @ '' 0)''),
    emit ''        (effects (font (size 1.27 1.27))))'',
    emit (''      (property "Sheetfile" "'' @ filename @ ''" (at '' @ num_str x @ '' '' @ num_str (y + h + PInt 1) @ '' 0)''),
    emit ''        (effects (font (size 1.27 1.27))))'',
    emit ''    )'']\<close>

section \<open>The drawing\<close>

definition toplevel_sheets :: "stmt" where
  \<open>toplevel_sheets = (let sheets = [(''Power Supply'', ''power.kicad_sch'', PInt 30, PInt 195, PInt 60, PInt 30),
          (''Zynq-7045'', ''zynq.kicad_sch'', PInt 145, PInt 105, PInt 70, PInt 45),
          (''DDR3L Memory'', ''ddr3l.kicad_sch'', PInt 270, PInt 105, PInt 55, PInt 35),
          (''AD9361 + LVDS'', ''ad9361.kicad_sch'', PInt 165, PInt 30, PInt 65, PInt 40),
          (''RF Front-End'', ''rf-frontend.kicad_sch'', PInt 30, PInt 30, PInt 65, PInt 40),
          (''Peripherals'', ''peripherals.kicad_sch'', PInt 145, PInt 195, PInt 65, PInt 30),
          (''Connectors & Debug'', ''connectors.kicad_sch'', PInt 270, PInt 195, PInt 65, PInt 30)]
    in draw [
      draw (map (\<lambda>(name, filename, x, y, w, h). sheet_ref name filename x y w h) sheets),
      emit []])\<close>

definition toplevel_labels :: "stmt" where
  \<open>toplevel_labels = draw [
    text_note ''CIRRADIO Tactical SDR - Top-Level Block Diagram'' (PInt 130) (PInt 12) (dec 30 1),
    text_note ''225-512 MHz'' (PInt 40) (PInt 53) (dec 15 1),
    text_note ''SMA, BPF, T/R Switch'' (PInt 40) (PInt 57) (dec 127 2),
    text_note ''LNA, SAW, TX Driver, PA'' (PInt 40) (PInt 61) (dec 127 2),
    text_note ''AD9361 RF Transceiver'' (PInt 175) (PInt 43) (dec 15 1),
    text_note ''LVDS Data Interface'' (PInt 175) (PInt 47) (dec 127 2),
    text_note ''SPI Control'' (PInt 175) (PInt 51) (dec 127 2),
    text_note ''Xilinx Zynq-7045 SoC'' (PInt 155) (PInt 118) (dec 15 1),
    text_note ''ARM Cortex-A9 + FPGA'' (PInt 155) (PInt 122) (dec 127 2),
    text_note ''PS MIO + PL GPIO'' (PInt 155) (PInt 126) (dec 127 2),
    text_note ''DDR3L x32 Memory'' (PInt 280) (PInt 118) (dec 15 1),
    text_note ''2x MT41K256M16'' (PInt 280) (PInt 122) (dec 127 2),
    text_note ''533 MHz / 1066 MT/s'' (PInt 280) (PInt 126) (dec 127 2),
    text_note ''Power Management'' (PInt 40) (PInt 208) (dec 15 1),
    text_note ''+12V -> 5V/3.3V/1.8V/1.5V/1.35V/1.0V'' (PInt 40) (PInt 212) (dec 127 2),
    text_note ''Sequenced rails, POR'' (PInt 40) (PInt 216) (dec 127 2),
    text_note ''GbE, USB, I2C EEPROM'' (PInt 155) (PInt 208) (dec 15 1),
    text_note ''GPS, uSD, QSPI Flash'' (PInt 155) (PInt 212) (dec 127 2),
    text_note ''JTAG, UART, FMC-LPC'' (PInt 280) (PInt 208) (dec 15 1),
    text_note ''PL GPIO Header'' (PInt 280) (PInt 212) (dec 127 2),
    emit []]\<close>

definition toplevel_arrows :: "stmt" where
  \<open>toplevel_arrows = draw [
    arrow_line (PInt 95) (PInt 50) (PInt 165) (PInt 50) (dec 3 1),
    text_note ''RF Ports (RX/TX)'' (PInt 110) (PInt 46) (dec 127 2),
    arrow_line (PInt 195) (PInt 70) (PInt 180) (PInt 105) (dec 3 1),
    text_note ''LVDS Data + SPI Control'' (PInt 183) (PInt 88) (dec 127 2),
    arrow_line (PInt 215) (PInt 127) (PInt 270) (PInt 122) (dec 3 1),
    text_note ''DDR3 Bus (Addr/Data/Ctrl)'' (PInt 225) (PInt 115) (dec 127 2),
    arrow_line (PInt 180) (PInt 150) (PInt 180) (PInt 195) (dec 3 1),
    text_note ''PS MIO Groups'' (PInt 183) (PInt 175) (dec 127 2),
    arrow_line (PInt 210) (PInt 150) (PInt 300) (PInt 195) (dec 3 1),
    text_note ''PL GPIO + JTAG/UART'' (PInt 240) (PInt 170) (dec 127 2),
    arrow_line (PInt 60) (PInt 195) (PInt 60) (PInt 155) (dec 3 1),
    arrow_line (PInt 60) (PInt 155) (PInt 145) (PInt 135) (dec 3 1),
    text_note ''Power Rails + POR'' (PInt 70) (PInt 160) (dec 127 2),
    arrow_line (PInt 50) (PInt 195) (PInt 50) (PInt 70) (dec 3 1),
    text_note ''+3V3, +3V3A, +5V_PA'' (PInt 32) (PInt 140) (dec 10 1),
    arrow_line (PInt 70) (PInt 195) (PInt 180) (PInt 70) (dec 3 1),
    text_note ''+1V8, +3V3A'' (PInt 110) (PInt 130) (dec 10 1),
    arrow_line (PInt 80) (PInt 195) (PInt 290) (PInt 140) (dec 3 1),
    text_note ''+1V35, VTT'' (PInt 170) (PInt 165) (dec 10 1),
    arrow_line (PInt 90) (PInt 215) (PInt 145) (PInt 210) (dec 3 1),
    text_note ''+3V3, +1V8'' (PInt 110) (PInt 220) (dec 10 1),
    arrow_line (PInt 90) (PInt 220) (PInt 270) (PInt 210) (dec 3 1),
    text_note ''+3V3'' (PInt 175) (PInt 222) (dec 10 1),
    emit []]\<close>

definition toplevel_notes :: "stmt" where
  \<open>toplevel_notes = draw [
    text_note ''INTER-SHEET CONNECTIVITY (via Global Labels)'' (PInt 30) (PInt 250) (dec 20 1),
    text_note ''Power rails: +1V0, +1V35, +1V5, +1V8, +3V3, +3V3A, +5V, +5V_PA, VTT, VTTREF'' (PInt 30) (PInt 255) (dec 10 1),
    text_note ''Power control: +1V0_EN/PG, +1V35_EN/PG, +1V5_EN/PG, +1V8_EN/PG, +3V3_EN/PG, +5V_EN/PG, PS_POR_B'' (PInt 30) (PInt 259) (dec 10 1),
    text_note ''Peripherals: ETH_MDC, ETH_MDIO, GPS_1PPS'' (PInt 30) (PInt 263) (dec 10 1),
    text_note ''Connectors: PS_CLK, PS_UART0_TX/RX, PS_SPI_*, PS_I2C_*'' (PInt 30) (PInt 267) (dec 10 1),
    emit [],
    text_note ''DESIGN NOTES'' (PInt 30) (PInt 275) (dec 15 1),
    text_note ''1. All inter-sheet signals use global labels - no explicit wires on top-level'' (PInt 30) (PInt 279) (dec 10 1),
    text_note ''2. Power sequencing: +5V -> +3V3/+3V3A -> +1V8 -> +1V5 -> +1V35 -> +1V0 -> PS_POR_B'' (PInt 30) (PInt 283) (dec 10 1),
    text_note ''3. DDR3L requires VTT termination and VTTREF midpoint from power sheet'' (PInt 30) (PInt 287) (dec 10 1),
    text_note ''4. AD9361 LVDS pairs: matched-length differential routing required'' (PInt 30) (PInt 291) (dec 10 1),
    emit ''  (symbol_instances)'',
    emit ''  (sheet_instances'',
    emit ''    (path "/"'',
    emit ''      (page "1")'',
    emit ''    )'',
    emit ''  )'',
    emit '')'']\<close>

text \<open>\<open>main\<close>; this script writes the word ERROR where the others write WARNING.\<close>

definition toplevel_lines :: "random \<Rightarrow> sheet" where
  "toplevel_lines rnd = draw [
     emit_header ''custom'' ''CIRRADIO Dev Board'' ''Tactical SDR Development Board'' ''Zynq-7045 + AD9361'',
     emit ''  (lib_symbols)'', emit [],
     toplevel_sheets, toplevel_labels, toplevel_arrows, toplevel_notes] (empty_sheet rnd)"

definition gen_toplevel :: "random \<Rightarrow> gen_out" where
  "gen_toplevel rnd = finish ''ERROR'' (board_dir @ ''cirradio-devboard.kicad_sch'')
     (\<lambda>n_open n_close. [''Generated: '' @ board_dir @ ''cirradio-devboard.kicad_sch'',
        ''  Sheet references: 7'', balance_line n_open n_close])
     (toplevel_lines rnd)"

end
