(* ===== verification/SheetText.thy ===== *)
theory SheetText
  imports NetlistCheck
begin

text \<open>
  What \<open>parse_schematic\<close> of the netlist script returns on a text that is put together from pieces:
  \<open>reads t cs N\<close> says that \<open>t\<close> holds the parts \<open>cs\<close> and the net names \<open>N\<close>. Quiet text holds
  nothing; labels, symbols and power symbols are the pieces that count.
\<close>

section \<open>The pattern of a symbol instance\<close>

lemma not_dig: "\<not> is_dig (CHR '' '')" "\<not> is_dig (CHR '')'')" "\<not> at_char (CHR '')'')"
  by (simp_all add: is_dig_def at_char_def)

lemma dig_at: "is_dig c \<Longrightarrow> c \<noteq> CHR '' '' \<and> c \<noteq> CHR '')'' \<and> at_char c"
  using not_dig by (auto simp: at_char_def)

text \<open>The end of the pattern: a space, the angle, the parenthesis.\<close>

definition angle_rx :: "rx \<Rightarrow> rx" where
  "angle_rx k = Seq (ch (CHR '' '')) (Seq (rx_plus is_dig) (Seq (ch (CHR '')'')) k))"

lemma rep_blocked:
  assumes "\<not> p d" "\<not> q d" "list_all (\<lambda>c. \<not> q c) v"
  shows "concat (map (rx_match (Seq (Chr q) k)) (rx_rep p b (v @ d # w) g)) = []"
  using assms(3) by (induction v arbitrary: b) (simp_all add: assms(1,2) del: concat_eq_Nil_conv)

lemma plus_blocked:
  assumes "\<not> p d" "\<not> q d" "list_all (\<lambda>c. \<not> q c) v"
  shows "rx_match (Seq (rx_plus p) (Seq (Chr q) k)) (b, v @ d # w, g) = []"
proof (cases v)
  case Nil
  then show ?thesis by (simp add: rx_plus_def assms(1))
next
  case (Cons c u)
  have "rx_match (Seq (Rep p) (Seq (Chr q) k)) (c # b, u @ d # w, g) = []"
    unfolding rx_match_seq_rep(1) using assms Cons by (intro rep_blocked) auto
  then show ?thesis by (simp add: rx_plus_def Cons)
qed

lemma angle_none:
  assumes "list_all (\<lambda>c. c \<noteq> CHR '')'') (c # u)"
  shows "rx_match (angle_rx k) (b, (c # u) @ CHR '' '' # w, g) = []"
proof (cases "c = CHR '' ''")
  case True
  have "rx_match (Seq (rx_plus is_dig) (Seq (Chr (\<lambda>x. x = CHR '')'')) k)) (c # b, u @ CHR '' '' # w, g) = []"
    using not_dig assms by (intro plus_blocked) auto
  then show ?thesis by (simp add: angle_rx_def ch_def True)
qed (simp add: angle_rx_def ch_def)

lemma angle_some:
  assumes "ang \<noteq> []" "list_all is_dig ang"
  shows "rx_match (angle_rx k) (b, CHR '' '' # ang @ CHR '')'' # t, g) =
     rx_match k (CHR '')'' # rev ang @ CHR '' '' # b, t, g)"
proof -
  have "refuses (Seq (Chr (\<lambda>x. x = CHR '')'')) k) is_dig" using not_dig by (intro refuses_chr) auto
  then show ?thesis
    using rx_match_plus [of "Seq (Chr (\<lambda>x. x = CHR '')'')) k" is_dig ang "CHR '')'' # t" "CHR '' '' # b" g] assms
    by (simp add: angle_rx_def ch_def not_dig)
qed

text \<open>Inside the angle and behind it the end of the pattern does not match.\<close>

lemma angle_tail:
  assumes "list_all is_dig u"
  shows "concat (map (rx_match (angle_rx k)) (rx_rep at_char b (u @ CHR '')'' # t) g)) = []"
  using assms
proof (induction u arbitrary: b)
  case (Cons c u)
  then have "c \<noteq> CHR '' ''" "at_char c" using dig_at by auto
  then show ?case using Cons by (simp add: angle_rx_def ch_def del: concat_eq_Nil_conv)
qed (simp add: not_dig angle_rx_def ch_def)

text \<open>The run of the coordinates takes the angle as well and gives it back.\<close>

lemma at_run:
  assumes "list_all at_char xy" "ang \<noteq> []" "list_all is_dig ang"
  shows "concat (map (rx_match (angle_rx k)) (rx_rep at_char b (xy @ CHR '' '' # ang @ CHR '')'' # t) g)) =
     rx_match k (CHR '')'' # rev ang @ CHR '' '' # rev xy @ b, t, g)"
  using assms(1)
proof (induction xy arbitrary: b)
  case Nil
  have s: "at_char (CHR '' '')" by (simp add: at_char_def)
  show ?case using angle_tail [OF assms(3), of k "CHR '' '' # b" t g] angle_some [OF assms(2,3), of k b t g] s
    by (simp del: concat_eq_Nil_conv)
next
  case (Cons c xy)
  have "list_all (\<lambda>c. c \<noteq> CHR '')'') (c # xy)" using Cons.prems not_dig(3) by (auto simp: list_all_iff)
  from angle_none [OF this, of k b "ang @ CHR '')'' # t" g] Cons show ?case by simp
qed

lemma at_match:
  assumes "list_all at_char xy" "xy \<noteq> []" "ang \<noteq> []" "list_all is_dig ang"
  shows "rx_match (Seq (rx_plus at_char) (angle_rx k)) (b, xy @ CHR '' '' # ang @ CHR '')'' # t, g) =
     rx_match k (CHR '')'' # rev ang @ CHR '' '' # rev xy @ b, t, g)"
proof -
  obtain c u where xy: "xy = c # u" using assms(2) by (cases xy) auto
  show ?thesis
    using at_run [of u ang k "c # b" t g] assms by (simp add: xy rx_plus_def rx_match_seq_rep(1))
qed

definition sym_head :: "string \<Rightarrow> string \<Rightarrow> string \<Rightarrow> string" where
  \<open>sym_head lib xy ang = ''(symbol (lib_id "'' @ lib @ ''") (at '' @ xy @ '' '' @ ang @ '')''\<close>

lemma space_stops: "is_space (CHR '' '')" "\<not> is_space (CHR ''('')" "\<not> is_space (CHR 0x22)" "\<not> is_space (CHR '')'')"
  by (simp_all add: is_space_def)

lemma rx_match_blank:
  "stops is_space s \<Longrightarrow>
     rx_match (Seq (rx_plus is_space) k) (b, CHR '' '' # s, g) = rx_match k (CHR '' '' # b, s, g)"
  by (simp add: rx_plus_def rx_match_seq_rep(1) rx_rep_stop space_stops)

lemma rx_match_lit:
  "rx_match (rx_seq (rx_lit w @ rs)) (b, w @ s, g) = rx_match (rx_seq rs) (rev w @ b, s, g)"
  by (induction w arbitrary: b) (simp_all add: rx_lit_def ch_def)

lemma quote_stop: "\<not> quote_free (CHR 0x22)"
  by (simp add: quote_free_def)

lemma rx_match_quoted:
  assumes "list_all quote_free v" "v \<noteq> []"
  shows "rx_match (Seq (ch (CHR 0x22)) (Seq (Grp n (rx_plus quote_free)) (Seq (ch (CHR 0x22)) k))) (b, CHR 0x22 # v @ CHR 0x22 # s, g) =
     rx_match k (CHR 0x22 # rev v @ CHR 0x22 # b, s, (n, v) # g)"
  using rx_match_grp_plus [of "Seq (Chr (\<lambda>x. x = CHR 0x22)) k" quote_free v "CHR 0x22 # s" n "CHR 0x22 # b" g] assms
  by (simp add: ch_def quote_stop refuses_def quote_free_def)

lemma rx_match_quoted_rep:
  assumes "list_all quote_free v"
  shows "rx_match (Seq (ch (CHR 0x22)) (Seq (Grp n (Rep quote_free)) (Seq (ch (CHR 0x22)) k))) (b, CHR 0x22 # v @ CHR 0x22 # s, g) =
     rx_match k (CHR 0x22 # rev v @ CHR 0x22 # b, s, (n, v) # g)"
  using rx_match_grp_rep [of "Seq (Chr (\<lambda>x. x = CHR 0x22)) k" quote_free v "CHR 0x22 # s" n "CHR 0x22 # b" g] assms
  by (simp add: ch_def quote_stop refuses_def quote_free_def)

lemma sym_first:
  assumes "list_all quote_free lib" "lib \<noteq> []" "list_all at_char xy" "xy \<noteq> []" "\<not> is_space (hd xy)"
    "ang \<noteq> []" "list_all is_dig ang"
  shows "rx_first sym_rx b (sym_head lib xy ang @ t) = Some (rev (sym_head lib xy ang) @ b, t, [(1, lib)])"
proof -
  define k3 where "k3 = [rx_plus is_space, rx_plus at_char, ch (CHR '' ''), rx_plus is_dig, ch (CHR '')'')]"
  define k2 where "k2 = [ch (CHR '')''), rx_plus is_space] @ rx_lit ''(at'' @ k3"
  have st: "stops is_space (xy @ w)" for w using assms(4,5) by (cases xy) auto
  have m3: "rx_match (rx_seq k3) (b', CHR '' '' # xy @ CHR '' '' # ang @ CHR '')'' # t, g) =
      [(CHR '')'' # rev ang @ CHR '' '' # rev xy @ CHR '' '' # b', t, g)]" for b' g
    using at_match [of xy ang Eps "CHR '' '' # b'" t g] assms st
    by (simp add: k3_def rx_match_blank angle_rx_def)
  have m2: "rx_match (rx_seq k2) (b', '') (at '' @ xy @ CHR '' '' # ang @ CHR '')'' # t, g) =
      [(CHR '')'' # rev ang @ CHR '' '' # rev xy @ rev '') (at '' @ b', t, g)]" for b' g
    using m3 rx_match_lit [of "''(at''" k3 _ "CHR '' '' # xy @ CHR '' '' # ang @ CHR '')'' # t" g]
    by (simp add: k2_def ch_def rx_match_blank space_stops)
  have rx: "sym_rx = rx_seq (rx_lit ''(symbol'' @ [rx_plus is_space] @ rx_lit ''(lib_id'' @
      [rx_plus is_space, ch (CHR 0x22), Grp 1 (rx_plus quote_free), ch (CHR 0x22)] @ k2)"
    by (simp add: sym_rx_def k2_def k3_def)
  have "rx_match sym_rx (b, sym_head lib xy ang @ t, []) = [(rev (sym_head lib xy ang) @ b, t, [(1, lib)])]"
    using rx_match_lit [of "''(symbol''" _ b _ "[]"] rx_match_lit [of "''(lib_id''" _ _ _ "[]"] m2 assms(1,2)
      rx_match_quoted [of lib 1 "rx_seq k2"]
    by (simp add: rx sym_head_def rx_match_blank space_stops)
  then show ?thesis by (simp add: rx_first_def)
qed

section \<open>Passing over text\<close>

text \<open>A search for \<open>r\<close> finds nothing in \<open>w\<close> and goes on behind it.\<close>

definition skips :: "rx \<Rightarrow> string \<Rightarrow> bool" where
  "skips r w \<longleftrightarrow> (\<forall>b t. rx_finditer r b (w @ t) = rx_finditer r (rev w @ b) t)"

lemma skips_append: "skips r u \<Longrightarrow> skips r v \<Longrightarrow> skips r (u @ v)"
  by (simp add: skips_def)

lemma skips_no_start: "needs r ps \<Longrightarrow> no_start ps w \<Longrightarrow> skips r w"
  by (simp add: skips_def finditer_no_start)

lemma needs_lit_space: "needs (rx_seq (rx_lit (CHR ''('' # name) @ rx_plus is_space # rs)) (pat name)"
  using needs_lit [of "rx_plus is_space # rs" "[is_space]" "CHR ''('' # name"] needs_plus
  by (simp add: pat_def)

lemma needs_sym: "needs sym_rx (pat ''symbol'')"
  using needs_lit_space [of "''symbol''"] by (simp add: sym_rx_def)

lemma needs_property: "needs (property_rx name val) (pat ''property'')"
  using needs_lit_space [of "''property''"] by (simp add: property_rx_def)

lemma needs_label: "needs (label_rx name) (pat name)"
  using needs_lit_space [of name] by (simp add: label_rx_def)

text \<open>No symbol, property or label starts in the text.\<close>

definition plain_start :: "string \<Rightarrow> bool" where
  "plain_start s \<longleftrightarrow> fails ''symbol'' s \<and> fails ''global_label'' s \<and> fails ''hierarchical_label'' s \<and> fails ''label'' s"

abbreviation quiet_text :: "string \<Rightarrow> bool" where
  "quiet_text \<equiv> opens plain_start"

lemma fails_append: "fails n s \<Longrightarrow> fails n (s @ t)"
  by (induction n s rule: fails.induct) (auto split: if_splits)

lemma plain_start_append: "plain_start s \<Longrightarrow> plain_start (s @ t)"
  by (simp add: plain_start_def fails_append)

lemma opens_append:
  "(\<And>s t. P s \<Longrightarrow> P (s @ t)) \<Longrightarrow> opens P u \<Longrightarrow> opens P v \<Longrightarrow> opens P (u @ v)"
  by (induction u) (auto split: if_splits)

lemma quiet_text_append: "quiet_text u \<Longrightarrow> quiet_text v \<Longrightarrow> quiet_text (u @ v)"
  by (rule opens_append) (rule plain_start_append)

lemma skips_opens:
  assumes "needs r (pat n)" "opens P w" "\<And>s. P s \<Longrightarrow> fails n s"
  shows "skips r w"
  using opens_no_start [OF assms(3,2)] by (intro skips_no_start [OF assms(1)]) simp_all

definition label_names :: "string list" where
  "label_names = [''global_label'', ''hierarchical_label'', ''label'']"

lemma quiet_skips:
  assumes "quiet_text w"
  shows "skips sym_rx w" "n \<in> set label_names \<Longrightarrow> skips (label_rx n) w"
proof -
  show "skips sym_rx w" by (rule skips_opens [OF needs_sym assms]) (simp add: plain_start_def)
  show "n \<in> set label_names \<Longrightarrow> skips (label_rx n) w"
    by (rule skips_opens [OF needs_label assms]) (auto simp: plain_start_def label_names_def)
qed

section \<open>What the parser reads from a piece of text\<close>

text \<open>
  The parts of \<open>parse_schematic\<close> as scans that start anywhere in the text. \<open>reads t cs N\<close> says
  that the parser finds the components \<open>cs\<close> and the nets \<open>N\<close> in \<open>t\<close>, whatever stands around it.
\<close>

definition sym_scan :: "string \<Rightarrow> string \<Rightarrow> component list \<times> string set \<Rightarrow> component list \<times> string set" where
  "sym_scan b s st = fold (parse_symbol (rev b @ s)) (rx_finditer sym_rx b s) st"

definition label_scan :: "string \<Rightarrow> string \<Rightarrow> string \<Rightarrow> string set" where
  "label_scan n b s = set (map (\<lambda>m. case rx_group 1 m of None \<Rightarrow> [] | Some x \<Rightarrow> x) (rx_finditer (label_rx n) b s))"

definition reads_as :: "string \<Rightarrow> component list \<Rightarrow> string set \<Rightarrow> (string \<Rightarrow> string set) \<Rightarrow> bool" where
  "reads_as t cs P L \<longleftrightarrow> neutral t \<and>
     (\<forall>b u cs0 N0. sym_scan b (t @ u) (cs0, N0) = sym_scan (rev t @ b) u (cs0 @ cs, N0 \<union> P)) \<and>
     (\<forall>n \<in> set label_names. \<forall>b u. label_scan n b (t @ u) = L n \<union> label_scan n (rev t @ b) u)"

definition reads :: "string \<Rightarrow> component list \<Rightarrow> string set \<Rightarrow> bool" where
  "reads t cs N \<longleftrightarrow> (\<exists>P L. reads_as t cs P L \<and> N = P \<union> (\<Union>n \<in> set label_names. L n))"

lemma parse_schematic_scan:
  "parse_schematic content =
     (let body = schematic_body content; (cs, N) = sym_scan [] body ([], {})
      in (cs, N \<union> (\<Union>n \<in> set label_names. label_scan n [] body)))"
  by (auto simp: parse_schematic_def sym_scan_def label_scan_def rx_findall1_def label_names_def Let_def
      split: prod.splits)

lemma reads_as_append:
  assumes "reads_as t cs P L" "reads_as u ds Q K"
  shows "reads_as (t @ u) (cs @ ds) (P \<union> Q) (\<lambda>n. L n \<union> K n)"
  unfolding reads_as_def
proof (intro conjI allI ballI)
  show "neutral (t @ u)" using assms by (simp add: reads_as_def neutral_append)
next
  fix b w cs0 N0
  show "sym_scan b ((t @ u) @ w) (cs0, N0) = sym_scan (rev (t @ u) @ b) w (cs0 @ cs @ ds, N0 \<union> (P \<union> Q))"
    using assms by (simp add: reads_as_def Un_assoc)
next
  fix n b w assume "n \<in> set label_names"
  then show "label_scan n b ((t @ u) @ w) = (L n \<union> K n) \<union> label_scan n (rev (t @ u) @ b) w"
    using assms by (simp add: reads_as_def Un_assoc)
qed

lemma reads_append:
  assumes "reads t cs N" "reads u ds M"
  shows "reads (t @ u) (cs @ ds) (N \<union> M)"
proof -
  obtain P L where t: "reads_as t cs P L" "N = P \<union> (\<Union>n \<in> set label_names. L n)"
    using assms(1) reads_def by auto
  obtain Q K where u: "reads_as u ds Q K" "M = Q \<union> (\<Union>n \<in> set label_names. K n)"
    using assms(2) reads_def by auto
  have "N \<union> M = (P \<union> Q) \<union> (\<Union>n \<in> set label_names. L n \<union> K n)" using t(2) u(2) by blast
  then show ?thesis using reads_as_append [OF t(1) u(1)] unfolding reads_def by (intro exI conjI)
qed

lemma reads_asI:
  "reads_as t cs P L \<Longrightarrow> N = P \<union> (\<Union>n \<in> set label_names. L n) \<Longrightarrow> reads t cs N"
  unfolding reads_def by (intro exI conjI)

lemma reads_quiet:
  assumes "neutral t" "quiet_text t"
  shows "reads t [] {}"
proof (rule reads_asI)
  show "reads_as t [] {} (\<lambda>_. {})" unfolding reads_as_def
  proof (intro conjI allI ballI)
    fix b u cs0 and N0 :: "string set"
    show "sym_scan b (t @ u) (cs0, N0) = sym_scan (rev t @ b) u (cs0 @ [], N0 \<union> {})"
      using quiet_skips(1) [OF assms(2)] by (simp add: sym_scan_def skips_def)
  next
    fix n b u assume "n \<in> set label_names"
    then show "label_scan n b (t @ u) = {} \<union> label_scan n (rev t @ b) u"
      using quiet_skips(2) [OF assms(2)] by (simp add: label_scan_def skips_def)
  qed (rule assms(1))
qed simp

text \<open>A label.\<close>

lemma label_first:
  assumes "list_all quote_free v" "v \<noteq> []"
  shows \<open>rx_first (label_rx n) b (CHR ''('' # n @ '' "'' @ v @ CHR 0x22 # t) =
     Some (rev (CHR ''('' # n @ '' "'' @ v @ [CHR 0x22]) @ b, t, [(1, v)])\<close>
proof -
  have "rx_match (label_rx n) (b, CHR ''('' # n @ CHR '' '' # CHR 0x22 # v @ CHR 0x22 # t, []) =
      [(CHR 0x22 # rev v @ CHR 0x22 # CHR '' '' # rev n @ CHR ''('' # b, t, [(1, v)])]"
    using rx_match_lit [of "CHR ''('' # n" _ b _ "[]"] rx_match_quoted [OF assms, of 1 Eps]
    by (simp add: label_rx_def rx_match_blank space_stops)
  then show ?thesis by (simp add: rx_first_def)
qed

text \<open>The parser sees one label of its own kind; the patterns of the others fail at it.\<close>

definition label_text :: "string \<Rightarrow> string \<Rightarrow> string" where
  \<open>label_text n v = CHR ''('' # n @ '' "'' @ v @ [CHR 0x22]\<close>

lemma label_misses:
  assumes "n \<in> set label_names" "m \<in> set (''symbol'' # label_names)" "m \<noteq> n" "open_free v"
  shows "opens (fails m) (label_text n v)"
proof -
  have "opens (fails m) (CHR ''('' # n @ CHR '' '' # CHR 0x22 # v @ [CHR 0x22])"
    using assms by (auto simp: label_names_def)
  then show ?thesis by (simp add: label_text_def)
qed

lemma skips_label:
  assumes "n \<in> set label_names" "m \<in> set label_names" "m \<noteq> n" "open_free v"
  shows "skips (label_rx m) (label_text n v)"
proof (rule skips_opens [OF needs_label])
  show "opens (fails m) (label_text n v)" using assms by (intro label_misses) simp_all
qed assumption

lemma skips_sym_label:
  assumes "n \<in> set label_names" "open_free v"
  shows "skips sym_rx (label_text n v)"
proof (rule skips_opens [OF needs_sym])
  have "''symbol'' \<noteq> n" using assms(1) by (auto simp: label_names_def)
  then show "opens (fails ''symbol'') (label_text n v)" using assms by (intro label_misses) simp_all
qed assumption

lemma label_scan_hit:
  assumes "list_all quote_free v" "v \<noteq> []"
  shows "label_scan n b (label_text n v @ u) = insert v (label_scan n (rev (label_text n v) @ b) u)"
  using finditer_match [OF label_first [OF assms, of n b u]]
  by (simp add: label_scan_def label_text_def rx_group_def)

lemma label_scan_skip: "skips (label_rx n) w \<Longrightarrow> label_scan n b (w @ u) = label_scan n (rev w @ b) u"
  by (simp add: label_scan_def skips_def)

lemma sym_scan_skip: "skips sym_rx w \<Longrightarrow> sym_scan b (w @ u) st = sym_scan (rev w @ b) u st"
  by (simp add: sym_scan_def skips_def)

lemma name_ok_quote_free: "name_ok v \<Longrightarrow> list_all quote_free v"
  using name_ok_simps(5) [of v] unfolding list_all_iff quote_free_def by blast

lemma label_scan_one:
  assumes n: "n \<in> set label_names" and v: "name_ok v" "v \<noteq> []"
    and "quiet_text p" "quiet_text q" and m: "m \<in> set label_names"
  shows "label_scan m b (p @ label_text n v @ q @ u) =
    (if m = n then {v} else {}) \<union> label_scan m (rev q @ rev (label_text n v) @ rev p @ b) u"
proof (cases "m = n")
  case True
  show ?thesis unfolding True append_assoc
      label_scan_skip [OF quiet_skips(2) [OF assms(4) n]] label_scan_hit [OF name_ok_quote_free [OF v(1)] v(2)]
      label_scan_skip [OF quiet_skips(2) [OF assms(5) n]]
    by (simp only: if_True simp_thms Un_insert_left Un_empty_left)
next
  case False
  have "skips (label_rx m) (label_text n v)" using v(1) by (intro skips_label n m False) simp
  from label_scan_skip [OF this] show ?thesis
    unfolding label_scan_skip [OF quiet_skips(2) [OF assms(4) m]]
    using False label_scan_skip [OF quiet_skips(2) [OF assms(5) m]]
    by (simp only: if_False simp_thms Un_empty_left)
qed

lemma reads_label:
  assumes n: "n \<in> set label_names" and v: "name_ok v" "v \<noteq> []"
    and "quiet_text p" "quiet_text q" "neutral (p @ label_text n v @ q)"
  shows "reads (p @ label_text n v @ q) [] {v}"
proof (rule reads_asI)
  have sym: "skips sym_rx (label_text n v)" using n v(1) by (intro skips_sym_label) simp_all
  show "reads_as (p @ label_text n v @ q) [] {} (\<lambda>m. if m = n then {v} else {})" unfolding reads_as_def
  proof (intro conjI allI ballI)
    fix b u cs0 and N0 :: "string set"
    show "sym_scan b ((p @ label_text n v @ q) @ u) (cs0, N0) =
        sym_scan (rev (p @ label_text n v @ q) @ b) u (cs0 @ [], N0 \<union> {})"
      unfolding append_assoc rev_append sym_scan_skip [OF quiet_skips(1) [OF assms(4)]] sym_scan_skip [OF sym]
        sym_scan_skip [OF quiet_skips(1) [OF assms(5)]] by simp
  next
    fix m b u assume m: "m \<in> set label_names"
    show "label_scan m b ((p @ label_text n v @ q) @ u) =
        (if m = n then {v} else {}) \<union> label_scan m (rev (p @ label_text n v @ q) @ b) u"
      using label_scan_one [OF n v assms(4,5) m] by (simp only: append_assoc rev_append)
  qed (rule assms(6))
  show "{v} = {} \<union> (\<Union>m \<in> set label_names. if m = n then {v} else {})" using n by auto
qed

text \<open>A property of a symbol.\<close>

definition prop_text :: "string \<Rightarrow> string \<Rightarrow> string" where
  \<open>prop_text n v = ''(property "'' @ n @ ''" "'' @ v @ [CHR 0x22]\<close>

lemma property_first:
  assumes "list_all quote_free v" "v \<noteq> [] \<and> val = rx_plus quote_free \<or> val = Rep quote_free"
  shows "rx_first (property_rx n val) b (prop_text n v @ t) = Some (rev (prop_text n v) @ b, t, [(1, v)])"
proof -
  define k where "k = [rx_plus is_space, ch (CHR 0x22), Grp 1 val, ch (CHR 0x22)]"
  have k: "rx_match (rx_seq k) (b', CHR '' '' # CHR 0x22 # v @ CHR 0x22 # t, []) =
      [(CHR 0x22 # rev v @ CHR 0x22 # CHR '' '' # b', t, [(1, v)])]" for b'
    using assms(2)
  proof
    assume "v \<noteq> [] \<and> val = rx_plus quote_free"
    then show ?thesis using rx_match_quoted [OF assms(1), of 1 Eps] by (simp add: k_def rx_match_blank space_stops)
  next
    assume "val = Rep quote_free"
    then show ?thesis using rx_match_quoted_rep [OF assms(1), of 1 Eps] by (simp add: k_def rx_match_blank space_stops)
  qed
  have rx: "property_rx n val = rx_seq (rx_lit ''(property'' @ [rx_plus is_space] @ rx_lit (CHR 0x22 # n @ [CHR 0x22]) @ k)"
    by (simp add: property_rx_def k_def)
  have "rx_match (property_rx n val) (b, prop_text n v @ t, []) = [(rev (prop_text n v) @ b, t, [(1, v)])]"
    using rx_match_lit [of "''(property''" _ b _ "[]"] rx_match_lit [of "CHR 0x22 # n @ [CHR 0x22]" k _ "CHR '' '' # CHR 0x22 # v @ CHR 0x22 # t" "[]"] k
    by (simp add: rx prop_text_def rx_match_blank space_stops)
  then show ?thesis by (simp add: rx_first_def)
qed

lemma property_other:
  assumes "n \<noteq> []" "m \<noteq> []" "hd n \<noteq> hd m" "open_free m" "open_free v"
  shows "skips (property_rx n val) (prop_text m v)"
  unfolding skips_def
proof (intro allI)
  fix b t
  obtain c n' where n: "n = c # n'" using assms(1) by (cases n) auto
  obtain d m' where m: "m = d # m'" using assms(2) by (cases m) auto
  have "rx_match (property_rx n val) (b, prop_text m v @ t, []) = []"
    using rx_match_lit [of "''(property''" _ b _ "[]"] assms(3)
    by (simp add: property_rx_def prop_text_def rx_match_blank space_stops n m rx_lit_def ch_def)
  then have "rx_first (property_rx n val) b (prop_text m v @ t) = None" by (simp add: rx_first_def)
  then have "rx_finditer (property_rx n val) b (prop_text m v @ t) =
      rx_finditer (property_rx n val) (CHR ''('' # b) (tl (prop_text m v) @ t)"
    by (simp add: rx_finditer.simps [of _ b] prop_text_def)
  also have "skips (property_rx n val) (tl (prop_text m v))"
    using assms(4,5) by (intro skips_opens [OF needs_property opens_free]) (simp_all add: prop_text_def)
  then have "rx_finditer (property_rx n val) (CHR ''('' # b) (tl (prop_text m v) @ t) =
      rx_finditer (property_rx n val) (rev (prop_text m v) @ b) t"
    by (simp add: skips_def prop_text_def)
  finally show "rx_finditer (property_rx n val) b (prop_text m v @ t) =
      rx_finditer (property_rx n val) (rev (prop_text m v) @ b) t" .
qed

lemma property_found:
  assumes "skips (property_rx n val) w" "list_all quote_free v" "v \<noteq> [] \<and> val = rx_plus quote_free \<or> val = Rep quote_free"
  shows "property_of n val (w @ prop_text n v @ t) = v"
proof -
  have "prop_text n v \<noteq> []" by (simp add: prop_text_def)
  then show ?thesis
    using assms(1) finditer_match [OF property_first [OF assms(2,3), of n "rev w" t]]
    by (simp add: property_of_def rx_search1_def skips_def rx_group_def)
qed

lemma take_block_scan:
  "scan d w = Some e \<Longrightarrow> 0 \<le> d \<Longrightarrow> take_block (d + 1) (w @ u) = map_option ((@) w) (take_block (e + 1) u)"
proof (induction w arbitrary: d)
  case Nil
  then show ?case by (simp add: option.map_ident)
next
  case (Cons c w)
  have m: "map_option (Cons c) (map_option ((@) w) x) = map_option ((@) (c # w)) x" for x :: "string option"
    by (cases x) simp_all
  consider "c = CHR ''(''" | "c = CHR '')''" | "c \<noteq> CHR ''(''" "c \<noteq> CHR '')''" by blast
  then show ?case
  proof cases
    case 1
    with Cons show ?thesis unfolding m [symmetric] using Cons.IH [of "d + 1"] by simp
  next
    case 2
    with Cons show ?thesis unfolding m [symmetric] using Cons.IH [of "d - 1"] by (simp split: if_splits)
  next
    case 3
    with Cons show ?thesis unfolding m [symmetric] by simp
  qed
qed

lemma take_block_whole: "neutral w \<Longrightarrow> take_block 0 (CHR ''('' # w @ CHR '')'' # u) = Some (CHR ''('' # w @ '')'')"
  using take_block_scan [of 0 w 0 "CHR '')'' # u"] by (simp add: neutral_def)

text \<open>
  A symbol instance after its opening parenthesis: the head with the library symbol, the three
  properties the parser looks for, and anything quiet between them. The four fields of a part and
  the four gaps between the texts are arguments of their own.
\<close>

type_synonym 'a of_part = "string \<Rightarrow> string \<Rightarrow> string \<Rightarrow> string \<Rightarrow> 'a"
type_synonym 'a of_gaps = "string \<Rightarrow> string \<Rightarrow> string \<Rightarrow> string \<Rightarrow> 'a"

definition opened_as :: "(string \<Rightarrow> string \<Rightarrow> string \<Rightarrow> bool of_gaps) of_part" where
  "opened_as lib ref val fp w xy ang A B C D \<longleftrightarrow>
     CHR ''('' # w = sym_head lib xy ang @ A @ prop_text ''Reference'' ref @ B @ prop_text ''Value'' val @ C @
       prop_text ''Footprint'' fp @ D \<and>
     list_all at_char xy \<and> xy \<noteq> [] \<and> \<not> is_space (hd xy) \<and> ang \<noteq> [] \<and> list_all is_dig ang \<and>
     quiet_text A \<and> quiet_text B \<and> quiet_text C \<and> quiet_text D \<and>
     opens (fails ''property'') A \<and> opens (fails ''property'') B \<and> opens (fails ''property'') C"

definition opened :: "(string \<Rightarrow> bool) of_part" where
  "opened lib ref val fp w \<longleftrightarrow> neutral w \<and> (\<exists>xy ang A B C D. opened_as lib ref val fp w xy ang A B C D)"

definition part_comps :: "component list of_part" where
  "part_comps lib ref val fp = (if prefix ''power:'' lib \<or> prefix ''#'' ref then []
     else [\<lparr>reference = ref, comp_value = val, footprint = fp, lib_id = lib\<rparr>])"

definition part_nets :: "string \<Rightarrow> string \<Rightarrow> string list" where
  "part_nets lib val = (if prefix ''power:'' lib \<and> val \<noteq> ''PWR_FLAG'' then [val] else [])"

definition part_ok :: "string \<Rightarrow> string \<Rightarrow> string \<Rightarrow> string \<Rightarrow> bool" where
  "part_ok lib ref val fp \<longleftrightarrow> name_ok lib \<and> name_ok ref \<and> name_ok val \<and> name_ok fp \<and> lib \<noteq> [] \<and> ref \<noteq> [] \<and> val \<noteq> []"

lemma class_open_free: "list_all p u \<Longrightarrow> \<not> p (CHR ''('') \<Longrightarrow> open_free u"
  unfolding open_free_def list_all_iff by blast

lemma not_open_class: "\<not> is_dig (CHR ''('')" "\<not> at_char (CHR ''('')"
  by (simp_all add: is_dig_def at_char_def)

lemma part_open_free:
  assumes "part_ok lib ref val fp"
  shows "open_free lib" "open_free ref" "open_free val" "open_free fp"
  using assms by (simp_all add: part_ok_def)

lemma sym_head_opens:
  assumes "open_free lib" "open_free xy" "open_free ang" "n \<in> set (''property'' # label_names)"
  shows "opens (fails n) (sym_head lib xy ang)"
proof -
  have n: "n = ''property'' \<or> n = ''global_label'' \<or> n = ''hierarchical_label'' \<or> n = ''label''"
    using assms(4) by (simp add: label_names_def)
  show ?thesis using n assms(1-3) by (elim disjE) (simp_all add: sym_head_def)
qed

lemma quiet_prop: "open_free n \<Longrightarrow> open_free v \<Longrightarrow> quiet_text (prop_text n v)"
  by (simp add: prop_text_def plain_start_def)

lemma opened_as_skips:
  assumes o: "opened_as lib ref val fp w xy ang A B C D" and ok: "part_ok lib ref val fp"
  shows "skips (property_rx n v) (sym_head lib xy ang)" "skips (property_rx n v) A" "skips (property_rx n v) B"
    "skips (property_rx n v) C"
proof -
  have q: "opens (fails ''property'') A" "opens (fails ''property'') B" "opens (fails ''property'') C"
    and of: "open_free xy" "open_free ang"
    using o class_open_free [where p = is_dig] class_open_free [where p = at_char] not_open_class
    by (simp_all add: opened_as_def)
  have h: "opens (fails ''property'') (sym_head lib xy ang)"
    using part_open_free(1) [OF ok] of by (intro sym_head_opens) simp_all
  show "skips (property_rx n v) (sym_head lib xy ang)" by (rule skips_opens [OF needs_property h])
  show "skips (property_rx n v) A" by (rule skips_opens [OF needs_property q(1)])
  show "skips (property_rx n v) B" by (rule skips_opens [OF needs_property q(2)])
  show "skips (property_rx n v) C" by (rule skips_opens [OF needs_property q(3)])
qed

lemma opened_props:
  assumes o: "opened_as lib ref val fp w xy ang A B C D" and ok: "part_ok lib ref val fp"
  shows "property_of ''Reference'' (rx_plus quote_free) (CHR ''('' # w @ '')'') = ref"
    "property_of ''Value'' (rx_plus quote_free) (CHR ''('' # w @ '')'') = val"
    "property_of ''Footprint'' (Rep quote_free) (CHR ''('' # w @ '')'') = fp"
proof -
  note s = opened_as_skips [OF o ok]
  have w: "CHR ''('' # w @ '')'' = (CHR ''('' # w) @ '')''" by simp
  have w': "CHR ''('' # w @ '')'' = sym_head lib xy ang @ A @ prop_text ''Reference'' ref @ B @
      prop_text ''Value'' val @ C @ prop_text ''Footprint'' fp @ D @ '')''"
    unfolding w using o unfolding opened_as_def by (simp only: append_assoc)
  have r: "skips (property_rx n v) (prop_text ''Reference'' ref)" if "n = ''Value'' \<or> n = ''Footprint''" for n v
    using that part_open_free(2) [OF ok] by (intro property_other) auto
  have v: "skips (property_rx ''Footprint'' v) (prop_text ''Value'' val)" for v
    using part_open_free(3) [OF ok] by (intro property_other) simp_all
  have sA: "skips (property_rx n v) (sym_head lib xy ang @ A)" for n v by (intro skips_append s)
  have sB: "skips (property_rx n v) ((sym_head lib xy ang @ A) @ prop_text ''Reference'' ref @ B)"
      if "n = ''Value'' \<or> n = ''Footprint''" for n v
    by (intro skips_append sA s r that)
  have sC: "skips (property_rx ''Footprint'' v) (((sym_head lib xy ang @ A) @ prop_text ''Reference'' ref @ B) @
      prop_text ''Value'' val @ C)" for v
    by (intro skips_append sB s v disjI2 refl)
  have qf: "list_all quote_free ref" "list_all quote_free val" "list_all quote_free fp" "ref \<noteq> []" "val \<noteq> []"
    using ok name_ok_quote_free by (simp_all add: part_ok_def)
  show "property_of ''Reference'' (rx_plus quote_free) (CHR ''('' # w @ '')'') = ref"
    using property_found [OF sA qf(1)] qf(4) unfolding w' append_assoc by blast
  show "property_of ''Value'' (rx_plus quote_free) (CHR ''('' # w @ '')'') = val"
    using property_found [OF sB qf(2)] qf(5) unfolding w' append_assoc by blast
  show "property_of ''Footprint'' (Rep quote_free) (CHR ''('' # w @ '')'') = fp"
    using property_found [OF sC qf(3)] unfolding w' append_assoc by blast
qed

lemma opened_as_quiet:
  assumes o: "opened_as lib ref val fp w xy ang A B C D" and ok: "part_ok lib ref val fp"
  shows "CHR ''('' # w @ '')'' = sym_head lib xy ang @ A @ prop_text ''Reference'' ref @ B @
      prop_text ''Value'' val @ C @ prop_text ''Footprint'' fp @ D @ '')''"
    "quiet_text (A @ prop_text ''Reference'' ref @ B @ prop_text ''Value'' val @ C @ prop_text ''Footprint'' fp @ D @ '')'')"
proof -
  have w: "CHR ''('' # w @ '')'' = (CHR ''('' # w) @ '')''" by simp
  show "CHR ''('' # w @ '')'' = sym_head lib xy ang @ A @ prop_text ''Reference'' ref @ B @
      prop_text ''Value'' val @ C @ prop_text ''Footprint'' fp @ D @ '')''"
    unfolding w using o unfolding opened_as_def by (simp only: append_assoc)
  have "quiet_text A" "quiet_text B" "quiet_text C" "quiet_text D" using o unfolding opened_as_def by simp_all
  then show "quiet_text (A @ prop_text ''Reference'' ref @ B @ prop_text ''Value'' val @ C @ prop_text ''Footprint'' fp @ D @ '')'')"
    using part_open_free [OF ok] by (intro quiet_text_append quiet_prop) simp_all
qed

lemma parse_symbol_part:
  assumes o: "opened_as lib ref val fp w xy ang A B C D" "neutral w" and ok: "part_ok lib ref val fp"
  shows "parse_symbol (rev b @ (CHR ''('' # w @ '')'') @ u) (rev b, sym_head lib xy ang, [(1, lib)]) (cs0, N0) =
    (cs0 @ part_comps lib ref val fp, N0 \<union> set (part_nets lib val))"
  using take_block_whole [OF o(2), of u] opened_props [OF o(1) ok] ok
  by (simp add: parse_symbol_def rx_group_def part_comps_def part_nets_def part_ok_def Let_def)

lemma sym_scan_part:
  assumes o: "opened_as lib ref val fp w xy ang A B C D" "neutral w" and ok: "part_ok lib ref val fp"
  shows "sym_scan b ((CHR ''('' # w @ '')'') @ u) (cs0, N0) =
    sym_scan (rev (CHR ''('' # w @ '')'') @ b) u (cs0 @ part_comps lib ref val fp, N0 \<union> set (part_nets lib val))"
proof -
  define T where "T = A @ prop_text ''Reference'' ref @ B @ prop_text ''Value'' val @ C @ prop_text ''Footprint'' fp @ D @ '')''"
  have blk: "CHR ''('' # w @ '')'' = sym_head lib xy ang @ T" unfolding T_def by (rule opened_as_quiet(1) [OF o(1) ok])
  have q: "quiet_text T" unfolding T_def by (rule opened_as_quiet(2) [OF o(1) ok])
  have f: "rx_first sym_rx b (sym_head lib xy ang @ T @ u) = Some (rev (sym_head lib xy ang) @ b, T @ u, [(1, lib)])"
    using o(1) ok name_ok_quote_free by (intro sym_first) (simp_all add: opened_as_def part_ok_def)
  have "sym_head lib xy ang \<noteq> []" by (simp add: sym_head_def)
  then have "rx_finditer sym_rx b (sym_head lib xy ang @ T @ u) =
      (rev b, sym_head lib xy ang, [(1, lib)]) # rx_finditer sym_rx (rev (sym_head lib xy ang) @ b) (T @ u)"
    using finditer_match [OF f] by simp
  moreover have "rx_finditer sym_rx (rev (sym_head lib xy ang) @ b) (T @ u) =
      rx_finditer sym_rx (rev T @ rev (sym_head lib xy ang) @ b) u"
    using quiet_skips(1) [OF q] by (simp add: skips_def)
  ultimately have "rx_finditer sym_rx b ((CHR ''('' # w @ '')'') @ u) =
      (rev b, sym_head lib xy ang, [(1, lib)]) # rx_finditer sym_rx (rev (CHR ''('' # w @ '')'') @ b) u"
    unfolding blk by simp
  then show ?thesis using parse_symbol_part [OF o ok, of b u cs0 N0] by (simp add: sym_scan_def)
qed

lemma reads_part:
  assumes "opened lib ref val fp w" and ok: "part_ok lib ref val fp"
  shows "reads (CHR ''('' # w @ '')'') (part_comps lib ref val fp) (set (part_nets lib val))"
proof -
  obtain xy ang A B C D where o: "opened_as lib ref val fp w xy ang A B C D" and w: "neutral w"
    using assms(1) opened_def by blast
  define T where "T = A @ prop_text ''Reference'' ref @ B @ prop_text ''Value'' val @ C @ prop_text ''Footprint'' fp @ D @ '')''"
  have blk: "CHR ''('' # w @ '')'' = sym_head lib xy ang @ T" unfolding T_def by (rule opened_as_quiet(1) [OF o ok])
  have q: "quiet_text T" unfolding T_def by (rule opened_as_quiet(2) [OF o ok])
  have of: "open_free xy" "open_free ang" "open_free lib"
    using o class_open_free [where p = is_dig] class_open_free [where p = at_char] not_open_class part_open_free [OF ok]
    by (simp_all add: opened_as_def)
  show ?thesis
  proof (rule reads_asI)
    show "reads_as (CHR ''('' # w @ '')'') (part_comps lib ref val fp) (set (part_nets lib val)) (\<lambda>_. {})"
      unfolding reads_as_def
    proof (intro conjI allI ballI)
      show "neutral (CHR ''('' # w @ '')'')" using neutral_wrap [OF w] by simp
    next
      fix b u cs0 N0
      show "sym_scan b ((CHR ''('' # w @ '')'') @ u) (cs0, N0) =
          sym_scan (rev (CHR ''('' # w @ '')'') @ b) u (cs0 @ part_comps lib ref val fp, N0 \<union> set (part_nets lib val))"
        by (rule sym_scan_part [OF o w ok])
    next
      fix n b u assume n: "n \<in> set label_names"
      have "skips (label_rx n) (sym_head lib xy ang)"
        using n of by (intro skips_opens [OF needs_label sym_head_opens]) simp_all
      then have "skips (label_rx n) (CHR ''('' # w @ '')'')"
        unfolding blk by (rule skips_append) (rule quiet_skips(2) [OF q n])
      from label_scan_skip [OF this]
      show "label_scan n b ((CHR ''('' # w @ '')'') @ u) = {} \<union> label_scan n (rev (CHR ''('' # w @ '')'') @ b) u"
        by (simp only: Un_empty_left)
    qed
  qed simp
qed

end
