(* ===== verification/SheetRead.thy ===== *)
theory SheetRead
  imports SheetText Schematic
begin

text \<open>
  An abstract run of a schematic generator. A \<open>reading\<close> holds the designator counters and what the
  parser of the netlist script would return on the lines so far: the parts, latest first, and the
  names of the nets. \<open>sim c f\<close> says that the statement \<open>c\<close> does to the sheet what \<open>f\<close> does to the
  reading; there is one rule for each helper of the generators and one for each control structure.
\<close>

section \<open>The abstract state\<close>

record reading =
  r_cap :: int
  r_res :: int
  r_ind :: int
  r_u :: int
  r_led :: int
  r_btn :: int
  r_tp :: int
  r_conn :: int
  r_ic :: int
  r_crystal :: int
  r_open :: "(string \<times> string \<times> string \<times> string) option"
  r_parts :: "component list"
  r_rails :: "string list"
  r_hiers :: "string list"

type_synonym step = "reading \<Rightarrow> reading option"

definition r_seq :: "step \<Rightarrow> step \<Rightarrow> step" where
  "r_seq f g r = Option.bind (f r) g"

definition ok_name :: "string \<Rightarrow> bool" where
  "ok_name s = (s \<noteq> [] \<and> list_all (\<lambda>c. c \<noteq> CHR ''('' \<and> c \<noteq> CHR '')'' \<and> c \<noteq> CHR 0x22 \<and> c \<noteq> nl) s)"

definition note_ok :: "string \<Rightarrow> bool" where
  "note_ok s = (scan 0 s = Some 0 \<and> quiet_text (s @ [CHR 0x22]))"

definition r_note :: "string \<Rightarrow> step" where
  "r_note note r = (if note_ok note then Some r else None)"

definition nets_read :: "reading \<Rightarrow> string set" where
  "nets_read r = set (r_rails r) \<union> set (r_hiers r)"

definition add_rails :: "string list \<Rightarrow> reading \<Rightarrow> reading" where
  "add_rails ns r = r\<lparr>r_rails := fold List.insert ns (r_rails r)\<rparr>"

definition r_rail :: "string \<Rightarrow> step" where
  "r_rail n r = (if ok_name n \<and> r_open r = None then Some (add_rails [n] r) else None)"

definition r_hier :: "string \<Rightarrow> step" where
  "r_hier n r = (if ok_name n \<and> r_open r = None then Some (r\<lparr>r_hiers := n # r_hiers r\<rparr>) else None)"

definition r_part :: "string \<Rightarrow> string \<Rightarrow> string \<Rightarrow> string \<Rightarrow> int \<Rightarrow> step" where
  "r_part lib ref val fp angle r =
     (if ok_name lib \<and> ok_name ref \<and> ok_name val \<and> (fp = [] \<or> ok_name fp) \<and> 0 \<le> angle \<and> r_open r = None
      then Some (r\<lparr>r_open := Some (lib, ref, val, fp)\<rparr>) else None)"

definition r_close :: step where
  "r_close r = (case r_open r of None \<Rightarrow> None
     | Some (lib, ref, val, fp) \<Rightarrow> Some (add_rails (part_nets lib val)
         (r\<lparr>r_open := None, r_parts := part_comps lib ref val fp @ r_parts r\<rparr>)))"

definition r_pins :: "string list \<Rightarrow> step" where
  "r_pins ps r = (if list_all ok_name ps then r_close r else None)"

definition r_power :: "string \<Rightarrow> int \<Rightarrow> step" where
  "r_power net angle r = (if ok_name net \<and> 0 \<le> angle \<and> r_open r = None
     then Some (add_rails (part_nets (''power:'' @ net) net) r) else None)"

definition r_next_cap :: "(string \<Rightarrow> step) \<Rightarrow> step" where
  "r_next_cap F r = F (''C'' @ int_str (r_cap r)) (r\<lparr>r_cap := r_cap r + 1\<rparr>)"
definition r_next_res :: "(string \<Rightarrow> step) \<Rightarrow> step" where
  "r_next_res F r = F (''R'' @ int_str (r_res r)) (r\<lparr>r_res := r_res r + 1\<rparr>)"
definition r_next_ind :: "(string \<Rightarrow> step) \<Rightarrow> step" where
  "r_next_ind F r = F (''L'' @ int_str (r_ind r)) (r\<lparr>r_ind := r_ind r + 1\<rparr>)"
definition r_next_u :: "(string \<Rightarrow> step) \<Rightarrow> step" where
  "r_next_u F r = F (''U'' @ int_str (r_u r)) (r\<lparr>r_u := r_u r + 1\<rparr>)"
definition r_next_led :: "(string \<Rightarrow> step) \<Rightarrow> step" where
  "r_next_led F r = F (''D'' @ int_str (r_led r)) (r\<lparr>r_led := r_led r + 1\<rparr>)"
definition r_next_btn :: "(string \<Rightarrow> step) \<Rightarrow> step" where
  "r_next_btn F r = F (''SW'' @ int_str (r_btn r)) (r\<lparr>r_btn := r_btn r + 1\<rparr>)"
definition r_next_tp :: "(string \<Rightarrow> step) \<Rightarrow> step" where
  "r_next_tp F r = F (''TP'' @ int_str (r_tp r)) (r\<lparr>r_tp := r_tp r + 1\<rparr>)"
definition r_next_conn :: "(string \<Rightarrow> step) \<Rightarrow> step" where
  "r_next_conn F r = F (''J'' @ int_str (r_conn r)) (r\<lparr>r_conn := r_conn r + 1\<rparr>)"
definition r_next_ic :: "(string \<Rightarrow> step) \<Rightarrow> step" where
  "r_next_ic F r = F (''U'' @ int_str (r_ic r)) (r\<lparr>r_ic := r_ic r + 1\<rparr>)"
definition r_next_crystal :: "(string \<Rightarrow> step) \<Rightarrow> step" where
  "r_next_crystal F r = F (''Y'' @ int_str (r_crystal r)) (r\<lparr>r_crystal := r_crystal r + 1\<rparr>)"

definition r_two_pins :: "string \<Rightarrow> string \<Rightarrow> string \<Rightarrow> int \<Rightarrow> string \<Rightarrow> step" where
  "r_two_pins lib val fp angle ref = r_seq (r_part lib ref val fp angle) r_close"

section \<open>The abstraction\<close>

text \<open>The lines since the last complete statement: none, or a symbol that is still open.\<close>

fun pending :: "(string \<times> string \<times> string \<times> string) option \<Rightarrow> string list \<Rightarrow> bool" where
  "pending None ls = (ls = [])"
| "pending (Some (lib, ref, val, fp)) ls =
     (part_ok lib ref val fp \<and> (\<exists>w. unl ls = ''    ('' @ w \<and> opened lib ref val fp w))"

definition same_indices :: "sheet \<Rightarrow> reading \<Rightarrow> bool" where
  "same_indices s r \<longleftrightarrow> cap_idx s = r_cap r \<and> res_idx s = r_res r \<and> ind_idx s = r_ind r \<and> u_idx s = r_u r \<and>
     led_idx s = r_led r \<and> btn_idx s = r_btn r \<and> tp_idx s = r_tp r \<and> conn_idx s = r_conn r \<and>
     ic_idx s = r_ic r \<and> crystal_idx s = r_crystal r"

definition drawn :: "string list \<Rightarrow> sheet \<Rightarrow> reading \<Rightarrow> bool" where
  "drawn pre s r \<longleftrightarrow> same_indices s r \<and> (\<exists>ls os. sheet_lines s = pre @ ls @ os \<and>
     reads (unl ls) (rev (r_parts r)) (nets_read r) \<and> pending (r_open r) os)"

definition sim :: "stmt \<Rightarrow> step \<Rightarrow> bool" where
  "sim c f \<longleftrightarrow> (\<forall>pre s r r'. drawn pre s r \<longrightarrow> f r = Some r' \<longrightarrow> drawn pre (c s) r')"

lemma simI: "(\<And>pre s r r'. drawn pre s r \<Longrightarrow> f r = Some r' \<Longrightarrow> drawn pre (c s) r') \<Longrightarrow> sim c f"
  by (simp add: sim_def)

lemma simD: "sim c f \<Longrightarrow> drawn pre s r \<Longrightarrow> f r = Some r' \<Longrightarrow> drawn pre (c s) r'"
  by (simp add: sim_def)

text \<open>What a statement adds to the lines without touching the indices.\<close>

definition adds_lines :: "stmt \<Rightarrow> sheet \<Rightarrow> string list \<Rightarrow> bool" where
  "adds_lines c s ls \<longleftrightarrow> sheet_lines (c s) = sheet_lines s @ ls \<and>
     (\<forall>r. same_indices (c s) r \<longleftrightarrow> same_indices s r)"

lemma adds_emit: "adds_lines (emit l) s [l]"
  by (simp add: adds_lines_def emit_def same_indices_def)

lemma adds_bump: "adds_lines (bump k) s []"
  by (simp add: adds_lines_def bump_def same_indices_def)

lemma adds_draw: "adds_lines (draw []) s []"
  "adds_lines c s ls \<Longrightarrow> adds_lines (draw cs) (c s) ms \<Longrightarrow> adds_lines (draw (c # cs)) s (ls @ ms)"
  by (simp_all add: adds_lines_def draw_def)

lemma adds_uid: "(\<And>u t. u = uid (sheet_rnd s) (sheet_uids s) \<Longrightarrow> t = s\<lparr>sheet_uids := sheet_uids s + 1\<rparr> \<Longrightarrow>
    adds_lines (f u) t ls) \<Longrightarrow> adds_lines (with_value new_uid f) s ls"
  by (simp add: adds_lines_def with_value_def new_uid_def same_indices_def)

lemma set_fold_insert: "set (fold List.insert ns xs) = set ns \<union> set xs"
  by (induction ns arbitrary: xs) auto

lemma add_rails_facts:
  "nets_read (add_rails ns r) = set ns \<union> nets_read r" "r_parts (add_rails ns r) = r_parts r"
  "r_open (add_rails ns r) = r_open r" "same_indices s (add_rails ns r) = same_indices s r"
  by (auto simp: nets_read_def add_rails_def set_fold_insert same_indices_def)

lemma reading_updates:
  "same_indices s (r\<lparr>r_open := p\<rparr>) = same_indices s r" "same_indices s (r\<lparr>r_parts := cs\<rparr>) = same_indices s r"
  "same_indices s (r\<lparr>r_hiers := ns\<rparr>) = same_indices s r"
  "nets_read (r\<lparr>r_open := p\<rparr>) = nets_read r" "nets_read (r\<lparr>r_parts := cs\<rparr>) = nets_read r"
  "nets_read (r\<lparr>r_hiers := n # r_hiers r\<rparr>) = {n} \<union> nets_read r"
  by (auto simp: same_indices_def nets_read_def)

lemma drawn_lines:
  assumes "drawn pre s r" "adds_lines c s ls" "r_open r = None" "reads (unl ls) cs N"
    and "r_parts q = rev cs @ r_parts r" "nets_read q = N \<union> nets_read r" "r_open q = None"
    and "same_indices s r \<Longrightarrow> same_indices s q"
  shows "drawn pre (c s) q"
proof -
  obtain ks where ks: "sheet_lines s = pre @ ks" "reads (unl ks) (rev (r_parts r)) (nets_read r)"
      "same_indices s r"
    using assms(1,3) by (auto simp: drawn_def)
  have "reads (unl (ks @ ls)) (rev (r_parts r) @ cs) (nets_read r \<union> N)"
    using reads_append [OF ks(2) assms(4)] by simp
  then show ?thesis using assms(2,5-8) ks unfolding drawn_def
    by (intro conjI exI [of _ "ks @ ls"] exI [of _ "[]"]) (simp_all add: adds_lines_def Un_commute)
qed

lemma opened_append:
  assumes "opened lib ref val fp w" "neutral u" "quiet_text u"
  shows "opened lib ref val fp (w @ u)"
proof -
  obtain xy ang A B C D where o: "opened_as lib ref val fp w xy ang A B C D" and w: "neutral w"
    using assms(1) opened_def by blast
  have "CHR ''('' # (w @ u) = (CHR ''('' # w) @ u" by simp
  then have "opened_as lib ref val fp (w @ u) xy ang A B C (D @ u)"
    using o quiet_text_append [of D u] assms(3) unfolding opened_as_def by (simp only: append_assoc simp_thms)
  then show ?thesis using neutral_append [OF w assms(2)] opened_def by blast
qed

text \<open>Quiet lines may stand anywhere.\<close>

lemma drawn_quiet:
  assumes s: "drawn pre s r" and a: "adds_lines c s ls" and q: "neutral (unl ls)" "quiet_text (unl ls)"
  shows "drawn pre (c s) r"
proof (cases "r_open r")
  case None
  then show ?thesis using drawn_lines [OF s a None reads_quiet [OF q], of r] by simp
next
  case (Some p)
  obtain lib ref val fp where p: "p = (lib, ref, val, fp)" by (cases p)
  obtain ks os w where ks: "sheet_lines s = pre @ ks @ os" "reads (unl ks) (rev (r_parts r)) (nets_read r)"
      "same_indices s r" "part_ok lib ref val fp" "unl os = ''    ('' @ w" "opened lib ref val fp w"
    using s Some p by (auto simp: drawn_def)
  show ?thesis unfolding drawn_def
  proof (intro conjI exI)
    show "sheet_lines (c s) = pre @ ks @ (os @ ls)" using a ks(1) by (simp add: adds_lines_def)
    show "same_indices (c s) r" using a ks(3) by (simp add: adds_lines_def)
    show "pending (r_open r) (os @ ls)"
      using ks(4,5) opened_append [OF ks(6) q] by (simp add: Some p)
  qed (rule ks(2))
qed

lemma drawn_open:
  assumes s: "drawn pre s r" and a: "adds_lines c s ls" and o: "r_open r = None"
    and p: "part_ok lib ref val fp" "unl ls = ''    ('' @ w" "opened lib ref val fp w"
  shows "drawn pre (c s) (r\<lparr>r_open := Some (lib, ref, val, fp)\<rparr>)"
proof -
  obtain ks where ks: "sheet_lines s = pre @ ks" "reads (unl ks) (rev (r_parts r)) (nets_read r)"
      "same_indices s r"
    using s o by (auto simp: drawn_def)
  show ?thesis unfolding drawn_def
  proof (intro conjI exI)
    show "sheet_lines (c s) = pre @ ks @ ls" using a ks(1) by (simp add: adds_lines_def)
    show "same_indices (c s) (r\<lparr>r_open := Some (lib, ref, val, fp)\<rparr>)"
      using a ks(3) by (simp add: adds_lines_def same_indices_def)
    show "reads (unl ks) (rev (r_parts (r\<lparr>r_open := Some (lib, ref, val, fp)\<rparr>)))
        (nets_read (r\<lparr>r_open := Some (lib, ref, val, fp)\<rparr>))" using ks(2) by (simp add: nets_read_def)
    show "pending (r_open (r\<lparr>r_open := Some (lib, ref, val, fp)\<rparr>)) ls" using p by auto
  qed
qed

lemma rev_part_comps: "rev (part_comps lib ref val fp) = part_comps lib ref val fp"
  by (simp add: part_comps_def)

lemma drawn_close:
  assumes s: "drawn pre s r" and a: "adds_lines c s [''    )'']" and r: "r_close r = Some r'"
  shows "drawn pre (c s) r'"
proof -
  obtain lib ref val fp where o: "r_open r = Some (lib, ref, val, fp)"
    using r by (auto simp: r_close_def split: option.splits)
  have r': "r_open r' = None" "r_parts r' = part_comps lib ref val fp @ r_parts r"
      "nets_read r' = set (part_nets lib val) \<union> nets_read r" "same_indices t r' = same_indices t r" for t
    using r by (auto simp: r_close_def o add_rails_facts reading_updates)
  obtain ks os w where ks: "sheet_lines s = pre @ ks @ os" "reads (unl ks) (rev (r_parts r)) (nets_read r)"
      "same_indices s r" "part_ok lib ref val fp" "unl os = ''    ('' @ w" "opened lib ref val fp w"
    using s o by (auto simp: drawn_def)
  have w: "opened lib ref val fp (w @ ''    '')"
    using ks(6) by (intro opened_append) (simp_all add: neutral_def plain_start_def)
  have blank: "reads ''    '' [] {}" "reads [nl] [] {}"
    by (rule reads_quiet; simp add: neutral_def plain_start_def)+
  have "reads (''    '' @ (CHR ''('' # (w @ ''    '') @ '')'') @ [nl]) (part_comps lib ref val fp) (set (part_nets lib val))"
    using reads_append [OF blank(1) reads_append [OF reads_part [OF w ks(4)] blank(2)]] by simp
  then have "reads (unl (os @ [''    )''])) (part_comps lib ref val fp) (set (part_nets lib val))"
    using ks(5) by simp
  from reads_append [OF ks(2) this]
  have "reads (unl (ks @ os @ [''    )''])) (rev (r_parts r')) (nets_read r')"
    by (simp add: r' rev_part_comps Un_commute)
  moreover have "same_indices (c s) r'" using a ks(3) by (simp add: adds_lines_def r')
  moreover have "sheet_lines (c s) = pre @ (ks @ os @ [''    )'']) @ []" using a ks(1) by (simp add: adds_lines_def)
  moreover have "pending (r_open r') []" by (simp add: r')
  ultimately show ?thesis unfolding drawn_def by (intro conjI exI)
qed

section \<open>One rule for each statement\<close>

named_theorems sim_rules

lemma draw_simps: "draw [] s = s" "draw (c # cs) s = draw cs (c s)"
  by (simp_all add: draw_def)

lemma sim_draw [sim_rules]:
  "sim (draw []) Some"
  "sim c f \<Longrightarrow> sim (draw cs) g \<Longrightarrow> sim (draw (c # cs)) (r_seq f g)"
proof -
  show "sim (draw []) Some" by (simp add: sim_def draw_simps)
  assume c: "sim c f" and cs: "sim (draw cs) g"
  show "sim (draw (c # cs)) (r_seq f g)"
  proof (rule simI)
    fix pre s r r' assume s: "drawn pre s r" and "r_seq f g r = Some r'"
    then obtain q where "f r = Some q" "g q = Some r'" by (auto simp: r_seq_def bind_eq_Some_conv)
    then show "drawn pre (draw (c # cs) s) r'"
      using simD [OF cs simD [OF c s]] by (simp add: draw_simps)
  qed
qed

lemma sim_draw_lines: "(\<And>s. \<exists>ls. adds_lines c s ls \<and> neutral (unl ls) \<and> quiet_text (unl ls)) \<Longrightarrow> sim c Some"
  using drawn_quiet by (fastforce simp: sim_def)

lemma sim_mono: "sim c f \<Longrightarrow> (\<And>r r'. g r = Some r' \<Longrightarrow> f r = Some r') \<Longrightarrow> sim c g"
  by (auto simp: sim_def)

lemma sim_bump [sim_rules]: "sim (bump k) Some"
  by (rule sim_draw_lines) (rule exI [of _ "[]"], simp add: adds_bump)

lemma sim_emit: "neutral l \<Longrightarrow> quiet_text (l @ [nl]) \<Longrightarrow> sim (emit l) Some"
  by (rule sim_draw_lines) (rule exI [of _ "[l]"], simp add: adds_emit neutral_append)

lemma sim_emit_nil [sim_rules]: "sim (emit []) Some"
  by (rule sim_emit) simp_all

lemma sim_uid_emit:
  assumes "\<And>u. neutral u \<Longrightarrow> open_free u \<Longrightarrow> neutral (l u) \<and> quiet_text (l u @ [nl])"
  shows "sim (with_value new_uid (\<lambda>u. emit (l u))) Some"
proof (rule sim_draw_lines)
  fix s :: sheet
  let ?l = "l (uid (sheet_rnd s) (sheet_uids s))"
  have "adds_lines (with_value new_uid (\<lambda>u. emit (l u))) s [?l]"
    by (rule adds_uid) (simp add: adds_emit)
  moreover have "neutral (unl [?l])" "quiet_text (unl [?l])"
    using assms [of "uid (sheet_rnd s) (sheet_uids s)"] by (auto intro: neutral_append)
  ultimately show "\<exists>ls. adds_lines (with_value new_uid (\<lambda>u. emit (l u))) s ls \<and> neutral (unl ls) \<and> quiet_text (unl ls)"
    by blast
qed

text \<open>Text with numbers: the parts between are literals.\<close>

lemma sim_line:
  assumes "\<And>u. neutral u \<Longrightarrow> open_free u \<Longrightarrow> neutral (l u) \<and> quiet_text (l u @ [nl])"
  shows "sim (draw [bump k, with_value new_uid (\<lambda>u. emit (l u))]) Some"
  by (rule sim_mono, rule sim_draw(2) [OF sim_bump], rule sim_draw(2) [OF sim_uid_emit sim_draw(1)], rule assms)
    (simp_all add: r_seq_def)

lemma sim_wire [sim_rules]: "sim (wire a b c d) Some"
  unfolding wire_def
  by (rule sim_line, intro conjI neutralI) (simp_all add: scan neutral_scan plain_start_def)

lemma sim_no_connect [sim_rules]: "sim (no_connect x y) Some"
  unfolding no_connect_def by (rule sim_uid_emit, intro conjI neutralI) (simp_all add: scan neutral_scan plain_start_def)

lemma note_scan: "note_ok n \<Longrightarrow> 0 \<le> d \<Longrightarrow> scan d (n @ u) = scan d u"
  using neutral_scan_append [of n d u] by (simp add: note_ok_def neutral_def)

lemma note_quiet: "note_ok n \<Longrightarrow> quiet_text u \<Longrightarrow> quiet_text (n @ CHR 0x22 # u)"
  using quiet_text_append [of "n @ [CHR 0x22]" u] by (simp add: note_ok_def)

lemma sim_text_note [sim_rules]: "sim (text_note note x y sz) (r_note note)"
proof (cases "note_ok note")
  case True
  have "sim (text_note note x y sz) Some"
    unfolding text_note_def using note_quiet [OF True]
    by (intro sim_emit neutralI) (simp_all add: scan neutral_scan note_scan [OF True] plain_start_def)
  then show ?thesis using True by (elim sim_mono) (simp add: r_note_def)
qed (simp add: sim_def r_note_def)

lemma ok_nameD: "ok_name s \<Longrightarrow> name_ok s" "ok_name s \<Longrightarrow> s \<noteq> []"
  unfolding ok_name_def name_ok_def list_all_iff by blast+

text \<open>Labels.\<close>

definition adds_net :: "string \<Rightarrow> step \<Rightarrow> bool" where
  "adds_net n f \<longleftrightarrow> (\<forall>r q. f r = Some q \<longrightarrow> ok_name n \<and> r_open r = None \<and> r_open q = None \<and> r_parts q = r_parts r \<and>
     nets_read q = {n} \<union> nets_read r \<and> (\<forall>s. same_indices s r \<longrightarrow> same_indices s q))"

lemma adds_net_steps: "adds_net n (r_rail n)" "adds_net n (r_hier n)"
  by (simp_all add: adds_net_def r_rail_def r_hier_def add_rails_facts reading_updates)

lemma sim_label:
  assumes f: "adds_net n f" and c: "\<And>s. ok_name n \<Longrightarrow> \<exists>ls. adds_lines c s ls \<and> reads (unl ls) [] {n}"
  shows "sim c f"
proof (rule simI)
  fix pre s r q assume s: "drawn pre s r" and "f r = Some q"
  then have n: "ok_name n" "r_open r = None" "r_open q = None" "r_parts q = rev [] @ r_parts r"
      "nets_read q = {n} \<union> nets_read r" "same_indices s r \<Longrightarrow> same_indices s q"
    using f by (simp_all add: adds_net_def)
  obtain ls where "adds_lines c s ls" "reads (unl ls) [] {n}" using c [OF n(1), of s] by blast
  then show "drawn pre (c s) q" by (intro drawn_lines [OF s _ n(2) _ n(4,5,3,6)])
qed

lemma reads_labelI:
  assumes "ok_name v" "t = p @ label_text n v @ q" "n \<in> set label_names" "quiet_text p" "quiet_text q" "neutral t"
  shows "reads t [] {v}"
  using assms(6) unfolding assms(2) by (intro reads_label ok_nameD assms)

lemma ok_name_text [scan]:
  assumes "ok_name n"
  shows "neutral n" "open_free n"
  using ok_nameD(1) [OF assms] by (simp_all add: neutral_parens_free)

lemma adds_uid_emit:
  fixes s :: sheet
  shows "adds_lines (with_value new_uid (\<lambda>u. emit (l u))) s [l (uid (sheet_rnd s) (sheet_uids s))]"
  by (rule adds_uid) (simp add: adds_emit)

text \<open>A label with the lines that follow it.\<close>

lemma sim_label_lines:
  assumes f: "adds_net n f"
    and "\<And>u. neutral u \<Longrightarrow> open_free u \<Longrightarrow> ok_name n \<Longrightarrow> reads (unl (l u # ls)) [] {n}"
  shows "sim (draw (bump k # with_value new_uid (\<lambda>u. emit (l u)) # map emit ls)) f"
proof (rule sim_label [OF f])
  fix s :: sheet
  assume n: "ok_name n"
  let ?u = "uid (sheet_rnd (bump k s)) (sheet_uids (bump k s))"
  have e: "adds_lines (draw (map emit ls)) t ls" for t
  proof (induction ls arbitrary: t)
    case (Cons m ls)
    show ?case using adds_draw(2) [OF adds_emit Cons.IH, of m t] by simp
  qed (simp add: adds_draw)
  from adds_draw(2) [OF adds_bump [of k s] adds_draw(2) [OF adds_uid_emit [of l "bump k s"] e]]
  have "adds_lines (draw (bump k # with_value new_uid (\<lambda>u. emit (l u)) # map emit ls)) s (l ?u # ls)" by simp
  moreover have "reads (unl (l ?u # ls)) [] {n}" by (rule assms(2)) (simp_all add: n)
  ultimately show "\<exists>ks. adds_lines (draw (bump k # with_value new_uid (\<lambda>u. emit (l u)) # map emit ls)) s ks \<and>
      reads (unl ks) [] {n}" by (intro exI conjI)
qed

definition r_shape :: "string \<Rightarrow> step \<Rightarrow> step" where
  "r_shape shape f = (if ok_name shape then f else (\<lambda>_. None))"

lemma sim_shape: "(ok_name shape \<Longrightarrow> sim c f) \<Longrightarrow> sim c (r_shape shape f)"
  by (simp add: r_shape_def sim_def)

lemma sim_hier_label [sim_rules]: "sim (hier_label name x y shape angle) (r_shape shape (r_hier name))"
proof (rule sim_shape)
  assume sh: "ok_name shape"
  let ?q = "\<lambda>u. '') (at '' @ num_str x @ '' '' @ num_str y @ '' '' @ int_str angle @
       '') (effects (font (size 1.27 1.27))) (uuid '' @ [CHR 0x22] @ u @ [CHR 0x22] @ ''))''"
  show "sim (hier_label name x y shape angle) (r_hier name)"
    unfolding hier_label_def
  proof (rule sim_label_lines [OF adds_net_steps(2), where ls = "[]", unfolded list.map])
    fix u assume u: "neutral u" "open_free u" "ok_name name"
    let ?l = \<open>''    (hierarchical_label "'' @ name @ ''" (shape '' @ shape @ '') (at '' @
       num_str x @ '' '' @ num_str y @ '' '' @ int_str angle @
       '') (effects (font (size 1.27 1.27))) (uuid "'' @ u @ ''"))''\<close>
    show "reads (unl [?l]) [] {name}"
    proof (rule reads_labelI [where p = "''    ''" and n = "''hierarchical_label''" and
          q = "'' (shape '' @ shape @ ?q u @ [nl]", OF u(3)])
      show "neutral (unl [?l])" using sh u by (intro neutralI) (simp add: scan neutral_scan)
    qed (use sh u in \<open>simp_all add: label_text_def label_names_def plain_start_def ok_name_text\<close>)
  qed
qed

lemma sim_global_label [sim_rules]: "sim (global_label name x y shape angle) (r_shape shape (r_rail name))"
proof (rule sim_shape)
  assume sh: "ok_name shape"
  let ?p = \<open>''      (property "Intersheetrefs" "${INTERSHEET_REFS}" (at '' @ num_str x @ '' '' @ num_str y @
       '' 0) (effects (font (size 0.5 0.5)) hide))''\<close>
  let ?q = "\<lambda>u. '') (at '' @ num_str x @ '' '' @ num_str y @ '' '' @ int_str angle @
       '') (effects (font (size 1.27 1.27))) (uuid '' @ [CHR 0x22] @ u @ [CHR 0x22] @ '')'' @ [nl] @ ?p @ [nl] @ ''    )''"
  show "sim (global_label name x y shape angle) (r_rail name)"
    unfolding global_label_def
  proof (rule sim_label_lines [OF adds_net_steps(1), where ls = "[?p, ''    )'']", unfolded list.map])
    fix u assume u: "neutral u" "open_free u" "ok_name name"
    let ?l = \<open>''    (global_label "'' @ name @ ''" (shape '' @ shape @ '') (at '' @
       num_str x @ '' '' @ num_str y @ '' '' @ int_str angle @
       '') (effects (font (size 1.27 1.27))) (uuid "'' @ u @ ''")''\<close>
    show "reads (unl [?l, ?p, ''    )'']) [] {name}"
    proof (rule reads_labelI [where p = "''    ''" and n = "''global_label''" and
          q = "'' (shape '' @ shape @ ?q u @ [nl]", OF u(3)])
      show "neutral (unl [?l, ?p, ''    )''])" using sh u by (intro neutralI) (simp add: scan neutral_scan)
    qed (use sh u in \<open>simp_all add: label_text_def label_names_def plain_start_def ok_name_text\<close>)
  qed
qed

lemma sim_net_label [sim_rules]: "sim (net_label name x y angle) (r_rail name)"
  unfolding net_label_def
proof (rule sim_label_lines [OF adds_net_steps(1), where ls = "[]", unfolded list.map])
  fix u assume u: "neutral u" "open_free u" "ok_name name"
  let ?l = \<open>''    (label "'' @ name @ ''" (at '' @
     num_str x @ '' '' @ num_str y @ '' '' @ int_str angle @
     '') (effects (font (size 1.27 1.27))) (uuid "'' @ u @ ''"))''\<close>
  let ?q = "'' (at '' @ num_str x @ '' '' @ num_str y @ '' '' @ int_str angle @
     '') (effects (font (size 1.27 1.27))) (uuid '' @ [CHR 0x22] @ u @ [CHR 0x22] @ ''))''"
  show "reads (unl [?l]) [] {name}"
  proof (rule reads_labelI [where p = "''    ''" and n = "''label''" and q = "?q @ [nl]", OF u(3)])
    show "neutral (unl [?l])" using u by (intro neutralI) (simp add: scan neutral_scan)
  qed (use u in \<open>simp_all add: label_text_def label_names_def plain_start_def ok_name_text\<close>)
qed

text \<open>Symbols.\<close>

lemma num_class: "\<forall>c \<in> num_chars. at_char c \<and> \<not> is_space c"
  by (simp add: num_chars_def at_char_def is_dig_def is_space_def)

lemma at_num: "list_all at_char (num_str x)"
  using num_str_chars [of x] num_class unfolding list_all_iff by blast

lemma num_str_Cons: "\<exists>c t. num_str x = c # t"
proof -
  have "num_str x \<noteq> []"
    by (cases x) (auto simp: int_str_def float_str_def fmt_fixed_def Let_def)
  then show ?thesis by (cases "num_str x") auto
qed

lemma num_hd: "num_str x \<noteq> []" "\<not> is_space (hd (num_str x))"
proof -
  obtain c t where n: "num_str x = c # t" using num_str_Cons by blast
  then have "c \<in> num_chars" using num_str_chars [of x] by auto
  then show "num_str x \<noteq> []" "\<not> is_space (hd (num_str x))" using num_class by (simp_all add: n)
qed

lemma angle_digits: "0 \<le> a \<Longrightarrow> int_str a \<noteq> [] \<and> list_all is_dig (int_str a)"
  by (simp add: int_str_def list_all_iff digits_dig)

text \<open>The seven lines that open a symbol; what stands behind the fields is arbitrary quiet text.\<close>

definition open_lines :: "string \<Rightarrow> string \<Rightarrow> string \<Rightarrow> string \<Rightarrow> pynum \<Rightarrow> pynum \<Rightarrow> int \<Rightarrow> string \<Rightarrow> string \<Rightarrow>
    string \<Rightarrow> string \<Rightarrow> string \<Rightarrow> string \<Rightarrow> string list" where
  "open_lines lib ref val fp x y a b c d e f g =
     [''    '' @ sym_head lib (num_str x @ '' '' @ num_str y) (int_str a), b, c,
      ''      '' @ prop_text ''Reference'' ref @ d, ''      '' @ prop_text ''Value'' val @ e,
      ''      '' @ prop_text ''Footprint'' fp @ f, g]"

definition between :: "string \<Rightarrow> bool" where
  "between s \<longleftrightarrow> quiet_text s \<and> opens (fails ''property'') s"

lemma neutral_prop: "name_ok n \<Longrightarrow> name_ok v \<Longrightarrow> neutral d \<Longrightarrow> neutral (prop_text n v @ d @ '')'')"
  using neutral_wrap [of "''property '' @ [CHR 0x22] @ n @ [CHR 0x22, CHR '' '', CHR 0x22] @ v @ [CHR 0x22] @ d"]
    name_ok_simps(2) [of n] name_ok_simps(2) [of v]
  by (simp add: prop_text_def neutral_append neutral_Cons neutral_parens_free)

lemma field_names: "name_ok ''Reference''" "name_ok ''Value''" "name_ok ''Footprint''"
  by (simp_all add: name_ok_def nl_def)

lemma neutral_block:
  assumes "neutral h" "neutral b" "neutral c" "neutral r" "neutral v" "neutral f" "neutral g"
  shows "neutral (h @ nl # b @ nl # c @ nl # ''      '' @ r @ nl # ''      '' @ v @ nl # ''      '' @ f @ nl # g @ [nl])"
  using assms by (intro neutralI) (simp add: scan)

lemma open_lines_opened:
  assumes p: "part_ok lib ref val fp" "0 \<le> a"
    and b: "between (nl # b @ nl # c @ nl # ''      '')" "neutral b" "neutral c"
    and d: "between (d @ '')'' @ nl # ''      '')" "neutral d" and e: "between (e @ '')'' @ nl # ''      '')" "neutral e"
    and f: "quiet_text (f @ '')'' @ nl # g @ [nl])" "neutral f" "neutral g"
  shows "\<exists>w. unl (open_lines lib ref val fp x y a b c (d @ '')'') (e @ '')'') (f @ '')'') g) = ''    ('' @ w \<and>
    opened lib ref val fp w"
proof -
  define xy where "xy = num_str x @ '' '' @ num_str y"
  define w where "w = tl (sym_head lib xy (int_str a)) @ nl # b @ nl # c @ nl # ''      '' @
    (prop_text ''Reference'' ref @ d @ '')'') @ nl # ''      '' @ (prop_text ''Value'' val @ e @ '')'') @ nl # ''      '' @
    (prop_text ''Footprint'' fp @ f @ '')'') @ nl # g @ [nl]"
  have "neutral (tl (sym_head lib xy (int_str a)))"
    using p(1) by (intro neutralI) (simp add: sym_head_def xy_def scan neutral_scan part_ok_def neutral_parens_free)
  moreover have "neutral (prop_text ''Reference'' ref @ d @ '')'')" "neutral (prop_text ''Value'' val @ e @ '')'')"
      "neutral (prop_text ''Footprint'' fp @ f @ '')'')"
    using p(1) d(2) e(2) f(2) by (intro neutral_prop field_names; simp add: part_ok_def)+
  ultimately have n: "neutral w" unfolding w_def using b(2,3) f(3) by (intro neutral_block)
  have "opened_as lib ref val fp w xy (int_str a) (nl # b @ nl # c @ nl # ''      '') (d @ '')'' @ nl # ''      '')
      (e @ '')'' @ nl # ''      '') (f @ '')'' @ nl # g @ [nl])"
    unfolding opened_as_def
  proof (intro conjI)
    show "list_all at_char xy" using at_num by (simp add: xy_def at_char_def)
    show "xy \<noteq> []" "\<not> is_space (hd xy)" using num_hd by (simp_all add: xy_def)
    show "int_str a \<noteq> []" "list_all is_dig (int_str a)" using angle_digits [OF p(2)] by simp_all
    show "CHR ''('' # w = sym_head lib xy (int_str a) @ (nl # b @ nl # c @ nl # ''      '') @ prop_text ''Reference'' ref @
      (d @ '')'' @ nl # ''      '') @ prop_text ''Value'' val @ (e @ '')'' @ nl # ''      '') @ prop_text ''Footprint'' fp @
      f @ '')'' @ nl # g @ [nl]" by (simp add: w_def sym_head_def)
  qed (use b d e f in \<open>simp_all add: between_def\<close>)
  then have "opened lib ref val fp w" using n opened_def by blast
  moreover have "unl (open_lines lib ref val fp x y a b c (d @ '')'') (e @ '')'') (f @ '')'') g) = ''    ('' @ w"
    by (simp add: open_lines_def w_def xy_def sym_head_def)
  ultimately show ?thesis by blast
qed

definition sym_tails :: "(string \<Rightarrow> string \<Rightarrow> bool) of_gaps" where
  "sym_tails b c d e f g \<longleftrightarrow> between (nl # b @ nl # c @ nl # ''      '') \<and> neutral b \<and> neutral c \<and>
     between (d @ '')'' @ nl # ''      '') \<and> neutral d \<and> between (e @ '')'' @ nl # ''      '') \<and> neutral e \<and>
     quiet_text (f @ '')'' @ nl # g @ [nl]) \<and> neutral f \<and> neutral g"

lemma r_partD:
  assumes "r_part lib ref val fp a r = Some r'"
  shows "part_ok lib ref val fp" "0 \<le> a" "r_open r = None" "r' = r\<lparr>r_open := Some (lib, ref, val, fp)\<rparr>"
    "neutral ref" "open_free ref" "neutral lib" "open_free lib"
  using assms ok_nameD [of lib] ok_nameD [of ref] ok_nameD [of val] ok_nameD [of fp]
  by (auto simp: r_part_def part_ok_def neutral_parens_free split: if_splits)

lemma drawn_part:
  assumes s: "drawn pre s r" and r: "r_part lib ref val fp a r = Some r'"
    and c: "adds_lines c s (open_lines lib ref val fp x y a b u (d @ '')'') (e @ '')'') (f @ '')'') g)"
    and o: "sym_tails b u d e f g"
  shows "drawn pre (c s) r'"
proof -
  obtain w where w: "unl (open_lines lib ref val fp x y a b u (d @ '')'') (e @ '')'') (f @ '')'') g) = ''    ('' @ w"
      "opened lib ref val fp w"
    using open_lines_opened [OF r_partD(1,2) [OF r], of b u d e f g x y] o unfolding sym_tails_def by blast
  show ?thesis unfolding r_partD(4) [OF r]
    by (rule drawn_open [OF s c r_partD(3) [OF r] r_partD(1) [OF r] w])
qed

text \<open>A field line of \<open>symbol_instance\<close> behind the value.\<close>

definition field_tail :: "pynum \<Rightarrow> pynum \<Rightarrow> string \<Rightarrow> string" where
  "field_tail x y hid = '' (at '' @ num_str x @ '' '' @ num_str y @ '' 0) (effects (font (size 1.27 1.27))'' @ hid @ '')''"

lemma field_tail_facts:
  "between (field_tail x y [] @ '')'' @ nl # ''      '')" "neutral (field_tail x y [])"
  "neutral (field_tail x y '' hide'')"
  by (auto simp: field_tail_def between_def plain_start_def scan neutral_scan intro!: neutralI)

definition data_line :: "pynum \<Rightarrow> pynum \<Rightarrow> string" where
  \<open>data_line x y = ''      (property "Datasheet" ""'' @ field_tail x y '' hide'' @ '')''\<close>

lemma data_line_facts: "neutral (data_line x y)" "quiet_text (data_line x y @ [nl])"
    "quiet_text (field_tail x' y' '' hide'' @ '')'' @ nl # data_line x y @ [nl])"
  by (auto simp: data_line_def field_tail_def plain_start_def scan neutral_scan intro!: neutralI)

definition unit_line :: "int \<Rightarrow> string" where
  "unit_line n = ''      (unit '' @ int_str n @ '') (exclude_from_sim no) (in_bom yes) (on_board yes) (dnp no)''"

definition uuid_line :: "string \<Rightarrow> string" where
  \<open>uuid_line u = ''      (uuid "'' @ u @ ''")''\<close>

lemma unit_uuid_facts:
  assumes "neutral u" "open_free u"
  shows "between (nl # unit_line n @ nl # uuid_line u @ nl # ''      '')" "neutral (unit_line n)" "neutral (uuid_line u)"
  using assms by (auto simp: unit_line_def uuid_line_def between_def plain_start_def scan neutral_scan intro!: neutralI)

lemma symbol_tails:
  "neutral u \<Longrightarrow> open_free u \<Longrightarrow> sym_tails (unit_line n) (uuid_line u) (field_tail x1 y1 []) (field_tail x2 y2 [])
     (field_tail x3 y3 '' hide'') (data_line x4 y4)"
  unfolding sym_tails_def by (intro conjI unit_uuid_facts field_tail_facts data_line_facts) assumption+

text \<open>The seven statements; the identifier is drawn before them or at its line.\<close>

definition symbol_lines :: "string \<Rightarrow> string \<Rightarrow> string \<Rightarrow> string \<Rightarrow> pynum \<Rightarrow> pynum \<Rightarrow> pynum \<Rightarrow> pynum \<Rightarrow> int \<Rightarrow> int \<Rightarrow> string \<Rightarrow> string list" where
  "symbol_lines lib ref val fp x y y1 y2 a n u = open_lines lib ref val fp x y a (unit_line n) (uuid_line u)
     (field_tail x y1 [] @ '')'') (field_tail x y2 [] @ '')'') (field_tail x y '' hide'' @ '')'') (data_line x y)"

lemma drawn_symbol:
  assumes "drawn pre s r" "r_part lib ref val fp a r = Some r'"
    "adds_lines c s (symbol_lines lib ref val fp x y y1 y2 a n u)" "neutral u" "open_free u"
  shows "drawn pre (c s) r'"
  by (rule drawn_part [OF assms(1,2) assms(3) [unfolded symbol_lines_def] symbol_tails]) (rule assms(4,5))+

lemma symbol_lines_eq:
  \<open>symbol_lines lib ref val fp x y y1 y2 a n u = [
     ''    (symbol (lib_id "'' @ lib @ ''") '' @ ''(at '' @ num_str x @ '' '' @ num_str y @ '' '' @ int_str a @ '')'' @ [],
     ''      (unit '' @ int_str n @ '') (exclude_from_sim no) (in_bom yes) (on_board yes) (dnp no)'',
     ''      (uuid "'' @ u @ ''")'',
     ''      (property "Reference" "'' @ ref @ ''" (at '' @ num_str x @ '' '' @ num_str y1 @
         '' 0) (effects (font (size 1.27 1.27))))'',
     ''      (property "Value" "'' @ val @ ''" (at '' @ num_str x @ '' '' @ num_str y2 @
         '' 0) (effects (font (size 1.27 1.27))))'',
     ''      (property "Footprint" "'' @ fp @ ''" (at '' @ num_str x @ '' '' @ num_str y @
         '' 0) (effects (font (size 1.27 1.27)) hide))'',
     ''      (property "Datasheet" "" (at '' @ num_str x @ '' '' @ num_str y @
         '' 0) (effects (font (size 1.27 1.27)) hide))'']\<close>
  by (simp add: symbol_lines_def open_lines_def unit_line_def uuid_line_def field_tail_def data_line_def
      sym_head_def prop_text_def)

lemma adds_emits: "adds_lines (draw (map emit ls)) s ls"
proof (induction ls arbitrary: s)
  case (Cons m ls)
  show ?case using adds_draw(2) [OF adds_emit Cons.IH, of m s] by simp
qed (simp add: adds_draw)

lemma sim_symbol_instance [sim_rules]:
  "sim (symbol_instance lib ref val x y n a fp []) (r_part lib ref val fp a)"
proof (rule simI)
  fix pre s r r' assume s: "drawn pre s r" "r_part lib ref val fp a r = Some r'"
  let ?u = "uid (sheet_rnd (bump ''symbols'' s)) (sheet_uids (bump ''symbols'' s))"
  have "adds_lines (draw (map emit (symbol_lines lib ref val fp x y (y - PInt 2) (y + PInt 2) a n ?u))) t
      (symbol_lines lib ref val fp x y (y - PInt 2) (y + PInt 2) a n ?u)" for t by (rule adds_emits)
  then have "adds_lines (symbol_instance lib ref val x y n a fp []) s
      ([] @ (symbol_lines lib ref val fp x y (y - PInt 2) (y + PInt 2) a n ?u) @ [])"
    unfolding symbol_instance_def symbol_lines_eq
    by (intro adds_draw adds_bump adds_uid) (simp add: Let_def)
  then show "drawn pre (symbol_instance lib ref val x y n a fp [] s) r'"
    by (intro drawn_symbol [OF s _ neutral_uid open_free_uid]) simp
qed

lemma sim_close [sim_rules]: "sim (emit ''    )'') r_close"
  by (rule simI) (rule drawn_close [OF _ adds_emit])

lemma sim_pin_line: "ok_name p \<Longrightarrow> sim (pin_line p) Some"
  unfolding pin_line_def using ok_name_text [of p]
  by (intro sim_uid_emit conjI neutralI) (simp_all add: scan neutral_scan plain_start_def)

lemma sim_pins [sim_rules]: "sim (symbol_pins ps) (r_pins ps)"
proof (cases "list_all ok_name ps")
  case True
  then have "sim (draw (map pin_line ps)) Some"
  proof (induction ps)
    case (Cons p ps)
    then show ?case
      using sim_draw(2) [OF sim_pin_line, of p "map pin_line ps" Some] by (simp add: r_seq_def [abs_def])
  qed (simp add: sim_draw)
  then have "sim (symbol_pins ps) (r_seq Some (r_seq r_close Some))"
    unfolding symbol_pins_def by (intro sim_draw sim_close)
  then show ?thesis using True by (elim sim_mono) (simp add: r_pins_def r_seq_def)
qed (simp add: sim_def r_pins_def)

text \<open>Designators.\<close>

lemma drawn_index:
  assumes "drawn pre s r" "sheet_lines t = sheet_lines s" "same_indices s r \<Longrightarrow> same_indices t q"
    "r_open q = r_open r" "r_parts q = r_parts r" "nets_read q = nets_read r"
  shows "drawn pre t q"
  using assms unfolding drawn_def by simp

lemma drawn_same: "drawn pre s r \<Longrightarrow> same_indices s r"
  by (simp add: drawn_def)

lemma sim_next:
  assumes "\<And>s. g s = (nm s, up s)" "\<And>F r. G F r = F (nm' r) (up' r)"
    and "\<And>s r. same_indices s r \<Longrightarrow> nm s = nm' r \<and> same_indices (up s) (up' r)"
    and "\<And>s. sheet_lines (up s) = sheet_lines s"
    and "\<And>r. r_open (up' r) = r_open r \<and> r_parts (up' r) = r_parts r \<and> nets_read (up' r) = nets_read r"
    and c: "\<And>ref. sim (c ref) (F ref)"
  shows "sim (with_value g c) (G F)"
proof (rule simI)
  fix pre s r r' assume s: "drawn pre s r" and r: "G F r = Some r'"
  have i: "nm s = nm' r" "same_indices (up s) (up' r)" using assms(3) drawn_same [OF s] by simp_all
  have "drawn pre (up s) (up' r)" using s i(2) assms(4,5) by (intro drawn_index [OF s]) simp_all
  moreover have "F (nm s) (up' r) = Some r'" using r i(1) by (simp add: assms(2))
  ultimately show "drawn pre (with_value g c s) r'" using simD [OF c] by (simp add: with_value_def assms(1))
qed

lemma sim_next_cap [sim_rules]:
  "(\<And>ref. sim (c ref) (F ref)) \<Longrightarrow> sim (with_value next_cap c) (r_next_cap F)"
  by (rule sim_next [OF next_cap_def r_next_cap_def]) (simp_all add: same_indices_def nets_read_def)

lemma sim_next_res [sim_rules]:
  "(\<And>ref. sim (c ref) (F ref)) \<Longrightarrow> sim (with_value next_res c) (r_next_res F)"
  by (rule sim_next [OF next_res_def r_next_res_def]) (simp_all add: same_indices_def nets_read_def)

lemma sim_next_ind [sim_rules]:
  "(\<And>ref. sim (c ref) (F ref)) \<Longrightarrow> sim (with_value next_ind c) (r_next_ind F)"
  by (rule sim_next [OF next_ind_def r_next_ind_def]) (simp_all add: same_indices_def nets_read_def)

lemma sim_next_u [sim_rules]:
  "(\<And>ref. sim (c ref) (F ref)) \<Longrightarrow> sim (with_value next_u c) (r_next_u F)"
  by (rule sim_next [OF next_u_def r_next_u_def]) (simp_all add: same_indices_def nets_read_def)

lemma sim_next_led [sim_rules]:
  "(\<And>ref. sim (c ref) (F ref)) \<Longrightarrow> sim (with_value next_led c) (r_next_led F)"
  by (rule sim_next [OF next_led_def r_next_led_def]) (simp_all add: same_indices_def nets_read_def)

lemma sim_next_btn [sim_rules]:
  "(\<And>ref. sim (c ref) (F ref)) \<Longrightarrow> sim (with_value next_btn c) (r_next_btn F)"
  by (rule sim_next [OF next_btn_def r_next_btn_def]) (simp_all add: same_indices_def nets_read_def)

lemma sim_next_tp [sim_rules]:
  "(\<And>ref. sim (c ref) (F ref)) \<Longrightarrow> sim (with_value next_tp c) (r_next_tp F)"
  by (rule sim_next [OF next_tp_def r_next_tp_def]) (simp_all add: same_indices_def nets_read_def)

lemma sim_next_conn [sim_rules]:
  "(\<And>ref. sim (c ref) (F ref)) \<Longrightarrow> sim (with_value next_conn c) (r_next_conn F)"
  by (rule sim_next [OF next_conn_def r_next_conn_def]) (simp_all add: same_indices_def nets_read_def)

lemma sim_next_ic [sim_rules]:
  "(\<And>ref. sim (c ref) (F ref)) \<Longrightarrow> sim (with_value next_ic c) (r_next_ic F)"
  by (rule sim_next [OF next_ic_def r_next_ic_def]) (simp_all add: same_indices_def nets_read_def)

lemma sim_next_crystal [sim_rules]:
  "(\<And>ref. sim (c ref) (F ref)) \<Longrightarrow> sim (with_value next_crystal c) (r_next_crystal F)"
  by (rule sim_next [OF next_crystal_def r_next_crystal_def]) (simp_all add: same_indices_def nets_read_def)

text \<open>The parts with two pins, power symbols, test points.\<close>

definition r_passive :: "string \<Rightarrow> string \<Rightarrow> string \<Rightarrow> int \<Rightarrow> string \<Rightarrow> step" where
  "r_passive lib val fp angle ref = r_seq (r_part lib ref val fp angle) r_close"

lemma two_pins: "r_pins [''1'', ''2''] = r_close" "r_pins [''1''] = r_close"
  by (simp_all add: r_pins_def ok_name_def nl_def fun_eq_iff)

lemma sim_passive:
  assumes "ps = [''1'', ''2''] \<or> ps = [''1'']"
  shows "sim (draw [symbol_instance lib ref val x y n angle fp [], symbol_pins ps]) (r_passive lib val fp angle ref)"
proof -
  have p: "r_pins ps = r_close" using assms two_pins by blast
  have "sim (draw [symbol_instance lib ref val x y n angle fp [], symbol_pins ps])
      (r_seq (r_part lib ref val fp angle) (r_seq (r_pins ps) Some))"
    by (intro sim_draw sim_symbol_instance sim_pins)
  then show ?thesis by (simp add: r_passive_def p r_seq_def [abs_def])
qed

lemma sim_bump_first:
  assumes "sim c f"
  shows "sim (draw [bump k, c]) f"
  by (rule sim_mono [OF sim_draw(2) [OF sim_bump sim_draw(2) [OF assms sim_draw(1)]]]) (simp add: r_seq_def)

lemma sim_cap [sim_rules]: "sim (cap val x y angle fp) (r_next_cap (r_passive ''Device:C'' val fp angle))"
  unfolding cap_def by (intro sim_bump_first sim_next_cap sim_passive disjI1 refl)

lemma sim_resistor [sim_rules]: "sim (resistor val x y angle fp) (r_next_res (r_passive ''Device:R'' val fp angle))"
  unfolding resistor_def by (intro sim_bump_first sim_next_res sim_passive disjI1 refl)

lemma sim_inductor [sim_rules]: "sim (inductor val x y angle fp) (r_next_ind (r_passive ''Device:L'' val fp angle))"
  unfolding inductor_def by (intro sim_bump_first sim_next_ind sim_passive disjI1 refl)

lemma sim_test_point [sim_rules]:
  "sim (test_point name x y fp) (r_next_tp (r_passive ''Connector:TestPoint'' name fp 0))"
  unfolding test_point_def by (intro sim_bump_first sim_next_tp sim_passive disjI2 refl)

lemma num_plain: "\<forall>c \<in> num_chars. c \<noteq> CHR ''('' \<and> c \<noteq> CHR '')'' \<and> c \<noteq> CHR 0x22 \<and> c \<noteq> nl"
  by (simp add: num_chars_def nl_def)

lemma ok_name_Cons:
  "ok_name (c # s) \<longleftrightarrow> c \<noteq> CHR ''('' \<and> c \<noteq> CHR '')'' \<and> c \<noteq> CHR 0x22 \<and> c \<noteq> nl \<and> (s = [] \<or> ok_name s)"
  by (auto simp: ok_name_def)

lemma ok_name_num: "set s \<subseteq> num_chars \<Longrightarrow> s = [] \<or> ok_name s"
  using num_plain unfolding ok_name_def list_all_iff by blast

lemma pad_chars: "set s \<subseteq> num_chars \<Longrightarrow> set (pad_left k s) \<subseteq> num_chars"
  by (auto simp: pad_left_def num_chars_def)

lemma pad_plain: "ok_name (''#PWR'' @ pad_left k (int_str i))"
  using ok_name_num [OF pad_chars [OF int_str_chars, of k i]] by (simp add: ok_name_Cons nl_def)

lemma next_pwr_facts: "\<exists>ref t. next_pwr s = (ref, t) \<and> ok_name ref \<and> sheet_lines t = sheet_lines s \<and>
    (\<forall>r. same_indices s r \<longrightarrow> same_indices t r)"
  using pad_plain [of 4 "pwr_idx s"] by (simp add: next_pwr_def same_indices_def)

lemma ok_name_append: "ok_name n \<Longrightarrow> ok_name (''power:'' @ n)"
  by (simp add: ok_name_def nl_def)

lemma sim_power_symbol [sim_rules]: "sim (power_symbol net x y angle) (r_power net angle)"
proof (rule simI)
  fix pre s r r' assume s: "drawn pre s r" and r: "r_power net angle r = Some r'"
  obtain ref t where n: "next_pwr s = (ref, t)" "ok_name ref" "sheet_lines t = sheet_lines s" "same_indices s r \<Longrightarrow> same_indices t r"
    using next_pwr_facts [of s] by blast
  have d: "drawn pre t r" by (rule drawn_index [OF s n(3,4)]) simp_all
  have o: "r_open r = None" "ok_name net" "0 \<le> angle" "r' = add_rails (part_nets (''power:'' @ net) net) r"
    using r by (auto simp: r_power_def split: if_splits)
  have e: "r\<lparr>r_open := None, r_parts := r_parts r\<rparr> = r" using o(1) by (cases r) simp
  have pt: "part_comps (''power:'' @ net) ref net [] = []" by (simp add: part_comps_def)
  have "r_part (''power:'' @ net) ref net [] angle r = Some (r\<lparr>r_open := Some (''power:'' @ net, ref, net, [])\<rparr>)"
    unfolding r_part_def using o(1-3) n(2) ok_name_append [OF o(2)] by simp
  moreover have "r_close (r\<lparr>r_open := Some (''power:'' @ net, ref, net, [])\<rparr>) = Some r'"
    unfolding r_close_def o(4) using e pt by simp
  ultimately have p: "r_passive (''power:'' @ net) net [] angle ref r = Some r'" by (simp add: r_passive_def r_seq_def)
  show "drawn pre (power_symbol net x y angle s) r'"
    using simD [OF sim_passive [of "[''1'']"] d p] by (simp add: power_symbol_def with_value_def n(1))
qed

section \<open>Control structure\<close>

text \<open>Coordinates do not matter for what is read; other values are put in.\<close>

lemma sim_let_num: "(\<And>v. sim (c v) f) \<Longrightarrow> sim (Let (e :: pynum) c) f"
  by simp

lemma sim_let: "sim (c e) f \<Longrightarrow> sim (Let e c) f"
  by simp

lemma sim_case_prod: "sim (c a b) f \<Longrightarrow> sim (case_prod c (a, b)) f"
  by simp

lemma sim_if: "sim c f \<Longrightarrow> sim d f \<Longrightarrow> sim (if b then c else d) f"
  by simp

lemma sim_map:
  "sim (draw (map c [])) Some"
  "sim (c x) f \<Longrightarrow> sim (draw (map c xs)) g \<Longrightarrow> sim (draw (map c (x # xs))) (r_seq f g)"
  by (simp_all add: sim_draw)

lemma sim_uid:
  assumes "\<And>u. neutral u \<Longrightarrow> open_free u \<Longrightarrow> sim (c u) f"
  shows "sim (with_value new_uid c) f"
proof (rule simI)
  fix pre s r r' assume s: "drawn pre s r" and r: "f r = Some r'"
  have "drawn pre (s\<lparr>sheet_uids := sheet_uids s + 1\<rparr>) r" by (rule drawn_index [OF s]) (simp_all add: same_indices_def)
  then show "drawn pre (with_value new_uid c s) r'"
    using simD [OF assms [OF neutral_uid open_free_uid]] r by (simp add: with_value_def new_uid_def)
qed

section \<open>Decoupling groups\<close>

definition r_cap_gnd :: "string \<Rightarrow> string \<Rightarrow> step" where
  "r_cap_gnd val fp = r_seq (r_next_cap (r_passive ''Device:C'' val fp 0)) (r_power ''GND'' 0)"

primrec r_times :: "nat \<Rightarrow> step \<Rightarrow> step" where
  "r_times 0 f = Some"
| "r_times (Suc n) f = r_seq f (r_times n f)"

lemma r_seq_Some: "r_seq Some f = f" "r_seq f Some = f"
  by (simp_all add: r_seq_def [abs_def])

lemma sim_decoupling_cap: "sim (decoupling_cap val fp cx y) (r_cap_gnd val fp)"
proof -
  have "sim (decoupling_cap val fp cx y) (r_seq Some (r_seq (r_next_cap (r_passive ''Device:C'' val fp 0))
      (r_seq Some (r_seq (r_power ''GND'' 0) Some))))"
    unfolding decoupling_cap_def by (intro sim_draw sim_wire sim_cap sim_power_symbol)
  then show ?thesis by (simp only: r_seq_Some r_cap_gnd_def)
qed

lemma sim_decoupling_caps: "sim (decoupling_caps n val fp cx y) (r_times n (r_cap_gnd val fp))"
proof (induction n arbitrary: cx)
  case (Suc n)
  have "sim (decoupling_caps (Suc n) val fp cx y)
      (r_seq (r_cap_gnd val fp) (r_seq (r_times n (r_cap_gnd val fp)) Some))"
    unfolding decoupling_caps.simps by (intro sim_draw sim_decoupling_cap Suc.IH)
  then show ?case by (simp only: r_seq_Some r_times.simps)
qed (simp add: sim_draw)

definition r_decoupling :: "string \<Rightarrow> nat \<Rightarrow> nat \<Rightarrow> string \<Rightarrow> step" where
  "r_decoupling rail n m note = r_seq (r_note (note @ '' decoupling'')) (r_seq (r_shape ''passive'' (r_rail rail))
     (r_seq (r_times n (r_cap_gnd ''100n'' fp_c0402))
       (r_times m (r_cap_gnd ''10u'' ''Capacitor_SMD:C_0805_2012Metric''))))"

lemma sim_decoupling_group [sim_rules]: "sim (decoupling_group rail x y n m note) (r_decoupling rail n m note)"
proof -
  have w: "sim (if b then wire x1 y1 x2 y2 else draw []) Some" for b x1 y1 x2 y2
    by (rule sim_if sim_wire sim_draw)+
  have "sim (decoupling_group rail x y n m note)
      (r_seq (r_note (note @ '' decoupling'')) (r_seq (r_shape ''passive'' (r_rail rail)) (r_seq Some
      (r_seq (r_times n (r_cap_gnd ''100n'' fp_c0402))
        (r_seq (r_times m (r_cap_gnd ''10u'' ''Capacitor_SMD:C_0805_2012Metric'')) (r_seq Some Some))))))"
    unfolding decoupling_group_def
    by (intro sim_draw sim_text_note sim_global_label sim_wire sim_decoupling_caps w)
  then show ?thesis by (simp only: r_seq_Some r_decoupling_def)
qed

section \<open>Running the drawing\<close>

fun enum_from :: "int \<Rightarrow> 'a list \<Rightarrow> (int \<times> 'a) list" where
  "enum_from i [] = []"
| "enum_from i (x # xs) = (i, x) # enum_from (i + 1) xs"

lemma enum_from_zip: "enum_from (int k) xs = zip (map int [k..<k + length xs]) xs"
proof (induction xs arbitrary: k)
  case (Cons x xs)
  have "[k..<k + length (x # xs)] = k # [Suc k..<Suc k + length xs]" by (simp add: upt_conv_Cons del: upt_Suc)
  then show ?case using Cons.IH [of "Suc k"] by (simp add: add.commute del: upt_Suc)
qed simp

lemma enum_list_from: "enum_list xs = enum_from 0 xs"
  using enum_from_zip [of 0 xs] by (simp add: enum_list_def)

lemma sim_if2: "sim c f \<Longrightarrow> sim d g \<Longrightarrow> sim (if b then c else d) (if b then f else g)"
  by simp

lemma ranges:
  "[0..14] = [0, 1, 2, 3, 4, 5, 6, 7, 8, 9, 10, 11, 12, 13, 14 :: int]"
  "[0..19] = [0, 1, 2, 3, 4, 5, 6, 7, 8, 9, 10, 11, 12, 13, 14, 15, 16, 17, 18, 19 :: int]"
  "[0..2] = [0, 1, 2 :: int]"
  "[0..31] = [0, 1, 2, 3, 4, 5, 6, 7, 8, 9, 10, 11, 12, 13, 14, 15, 16, 17, 18, 19, 20, 21, 22, 23, 24, 25, 26, 27, 28, 29, 30, 31 :: int]"
  "[0..3] = [0, 1, 2, 3 :: int]"
  "[0..47] = [0, 1, 2, 3, 4, 5, 6, 7, 8, 9, 10, 11, 12, 13, 14, 15, 16, 17, 18, 19, 20, 21, 22, 23, 24, 25, 26, 27, 28, 29, 30, 31, 32, 33, 34, 35, 36, 37, 38, 39, 40, 41, 42, 43, 44, 45, 46, 47 :: int]"
  "[0..49] = [0, 1, 2, 3, 4, 5, 6, 7, 8, 9, 10, 11, 12, 13, 14, 15, 16, 17, 18, 19, 20, 21, 22, 23, 24, 25, 26, 27, 28, 29, 30, 31, 32, 33, 34, 35, 36, 37, 38, 39, 40, 41, 42, 43, 44, 45, 46, 47, 48, 49 :: int]"
  "[0..53] = [0, 1, 2, 3, 4, 5, 6, 7, 8, 9, 10, 11, 12, 13, 14, 15, 16, 17, 18, 19, 20, 21, 22, 23, 24, 25, 26, 27, 28, 29, 30, 31, 32, 33, 34, 35, 36, 37, 38, 39, 40, 41, 42, 43, 44, 45, 46, 47, 48, 49, 50, 51, 52, 53 :: int]"
  "[0..7] = [0, 1, 2, 3, 4, 5, 6, 7 :: int]"
  "[1..10] = [1, 2, 3, 4, 5, 6, 7, 8, 9, 10 :: int]"
  "[1..17] = [1, 2, 3, 4, 5, 6, 7, 8, 9, 10, 11, 12, 13, 14, 15, 16, 17 :: int]"
  "[1..25] = [1, 2, 3, 4, 5, 6, 7, 8, 9, 10, 11, 12, 13, 14, 15, 16, 17, 18, 19, 20, 21, 22, 23, 24, 25 :: int]"
  "[1..40] = [1, 2, 3, 4, 5, 6, 7, 8, 9, 10, 11, 12, 13, 14, 15, 16, 17, 18, 19, 20, 21, 22, 23, 24, 25, 26, 27, 28, 29, 30, 31, 32, 33, 34, 35, 36, 37, 38, 39, 40 :: int]"
  "[1..6] = [1, 2, 3, 4, 5, 6 :: int]"
  "[16..27] = [16, 17, 18, 19, 20, 21, 22, 23, 24, 25, 26, 27 :: int]"
  "[28..39] = [28, 29, 30, 31, 32, 33, 34, 35, 36, 37, 38, 39 :: int]"
  "[40..45] = [40, 41, 42, 43, 44, 45 :: int]"
  "[46..47] = [46, 47 :: int]"
  "[48..49] = [48, 49 :: int]"
  "[50..51] = [50, 51 :: int]"
  "[7..15] = [7, 8, 9, 10, 11, 12, 13, 14, 15 :: int]"
  "[52..53] = [52, 53 :: int]"
  by code_simp+

text \<open>Appending lists of numbers and of names, but not the names themselves.\<close>

lemma append_lists:
  "([] :: int list) @ ks = ks" "((i :: int) # ks) @ js = i # ks @ js"
  "([] :: string list) @ ns = ns" "((n :: string) # ns) @ ms = n # ns @ ms"
  by simp_all

lemmas loop_simps = enum_list_from enum_from.simps ranges list.map append_lists zip_Cons_Cons zip_Nil
  arith_simps rel_simps if_True if_False one_add_one add_0 add_0_right numeral_One

lemma sim_symbol_emits:
  assumes "ls = symbol_lines lib ref val fp x y y1 y2 a n u" "neutral u" "open_free u"
  shows "sim (draw (map emit ls)) (r_part lib ref val fp a)"
proof (rule simI)
  fix pre s r q assume "drawn pre s r" "r_part lib ref val fp a r = Some q"
  then show "drawn pre (draw (map emit ls) s) q"
    using adds_emits [of ls s] unfolding assms(1) by (rule drawn_symbol) (rule assms(2,3))+
qed

lemma draw_append: "draw (us @ vs) s = draw vs (draw us s)"
  by (simp add: draw_def)

lemma sim_draw_append: "sim (draw us) f \<Longrightarrow> sim (draw vs) g \<Longrightarrow> sim (draw (us @ vs)) (r_seq f g)"
  using sim_draw(2) [of "draw us" f vs g] by (simp add: sim_def draw_append draw_simps)

text \<open>A symbol spelled out line by line.\<close>

lemma sim_spelled:
  assumes "[l1, l2, l3, l4, l5, l6, l7] = symbol_lines lib ref val fp x y y1 y2 a n u" "neutral u" "open_free u"
    and "sim (draw cs) f"
  shows "sim (draw (emit l1 # emit l2 # emit l3 # emit l4 # emit l5 # emit l6 # emit l7 # cs)) (r_seq (r_part lib ref val fp a) f)"
  using sim_draw_append [OF sim_symbol_emits [OF assms(1-3)] assms(4)] by simp

lemma sim_spelled_uid:
  assumes "\<And>u. [l1, l2, l3 u, l4, l5, l6, l7] = symbol_lines lib ref val fp x y y1 y2 a n u"
    and cs: "sim (draw cs) f"
  shows "sim (draw (emit l1 # emit l2 # with_value new_uid (\<lambda>u. emit (l3 u)) # emit l4 # emit l5 # emit l6 # emit l7 # cs))
    (r_seq (r_part lib ref val fp a) f)"
proof -
  have "sim (with_value new_uid (\<lambda>u. draw (emit l1 # emit l2 # emit (l3 u) # emit l4 # emit l5 # emit l6 # emit l7 # cs)))
      (r_seq (r_part lib ref val fp a) f)"
    by (rule sim_uid, rule sim_spelled [OF assms(1) _ _ cs])
  moreover have "with_value new_uid (\<lambda>u. draw (emit l1 # emit l2 # emit (l3 u) # emit l4 # emit l5 # emit l6 # emit l7 # cs)) s =
      draw (emit l1 # emit l2 # with_value new_uid (\<lambda>u. emit (l3 u)) # emit l4 # emit l5 # emit l6 # emit l7 # cs) s" for s
    by (simp add: draw_simps with_value_def new_uid_def emit_def)
  ultimately show ?thesis by (simp add: sim_def)
qed

lemma int_str_small: "int_str 0 = ''0''" "int_str 1 = ''1''"
  by code_simp+

lemma sim_pin_12:
  \<open>sim (with_value new_uid (\<lambda>u. emit (''      (pin "1" (uuid "'' @ u @ ''"))''))) Some\<close>
  \<open>sim (with_value new_uid (\<lambda>u. emit (''      (pin "2" (uuid "'' @ u @ ''"))''))) Some\<close>
proof -
  have "ok_name ''1''" "ok_name ''2''" by (simp_all add: ok_name_def nl_def)
  then show \<open>sim (with_value new_uid (\<lambda>u. emit (''      (pin "1" (uuid "'' @ u @ ''"))''))) Some\<close>
    \<open>sim (with_value new_uid (\<lambda>u. emit (''      (pin "2" (uuid "'' @ u @ ''"))''))) Some\<close>
    using sim_pin_line [of "''1''"] sim_pin_line [of "''2''"] by (simp_all add: pin_line_def)
qed

text \<open>The rules with which a section of a sheet is run.\<close>

lemmas section_rules = sim_pin_12 sim_rules sim_let_num sim_let sim_case_prod sim_map sim_if2 sim_uid

end
