(* ===== verification/SheetFile.thy ===== *)
theory SheetFile
  imports SheetRead
begin

text \<open>
  The file of a generator as a whole: header, library section, the sections of the drawing and the
  end of the run.
\<close>

section \<open>The library section\<close>

text \<open>
  The nesting of a text as a pair: the depth at its end and the least depth on the way, relative to
  its start. The pairs of the pieces are joined by \<open>paren_seq\<close>.
\<close>

definition paren_step :: "char \<Rightarrow> int \<times> int \<Rightarrow> int \<times> int" where
  "paren_step c p = (if c = CHR ''('' then (fst p + 1, min 0 (snd p + 1))
     else if c = CHR '')'' then (fst p - 1, min 0 (snd p - 1)) else p)"

primrec paren_sum :: "string \<Rightarrow> int \<times> int" where
  "paren_sum [] = (0, 0)"
| "paren_sum (c # s) = paren_step c (paren_sum s)"

definition paren_seq :: "int \<times> int \<Rightarrow> int \<times> int \<Rightarrow> int \<times> int" where
  "paren_seq p q = (fst p + fst q, min (snd p) (fst p + snd q))"

lemma paren_sum_bound: "snd (paren_sum s) \<le> 0" "snd (paren_sum s) \<le> fst (paren_sum s)"
  by (induction s) (auto simp: paren_step_def)

lemma paren_sum_append: "paren_sum (u @ v) = paren_seq (paren_sum u) (paren_sum v)"
  using paren_sum_bound(1) [of v]
  by (induction u) (auto simp: paren_step_def paren_seq_def prod_eq_iff)

lemma scan_paren_sum:
  "0 \<le> d \<Longrightarrow> scan d s = (if d + snd (paren_sum s) < 0 then None else Some (d + fst (paren_sum s)))"
proof (induction s arbitrary: d)
  case (Cons c s)
  then show ?case using Cons.IH [of d] Cons.IH [of "d + 1"] Cons.IH [of "d - 1"] Cons.prems paren_sum_bound [of s]
    by (auto simp: paren_step_def)
qed simp

lemma paren_sum_neutral: "paren_sum s = (0, 0) \<longleftrightarrow> neutral s"
  using scan_paren_sum [of 0 s] paren_sum_bound [of s] by (auto simp: neutral_def prod_eq_iff)

definition line_sum :: "string list \<Rightarrow> int \<times> int" where
  "line_sum ls = paren_sum (unl ls)"

lemma line_sum_simps: "line_sum [] = (0, 0)" "line_sum [l] = paren_sum l" 
  "line_sum (us @ vs) = paren_seq (line_sum us) (line_sum vs)"
  by (simp_all add: line_sum_def paren_sum_append paren_step_def paren_seq_def paren_sum_bound prod_eq_iff)

named_theorems walk_rules

definition walks :: "string \<Rightarrow> int \<times> int \<Rightarrow> bool" where
  "walks l p \<longleftrightarrow> paren_sum l = p"

definition walks_lines :: "string list \<Rightarrow> int \<times> int \<Rightarrow> bool" where
  "walks_lines ls p \<longleftrightarrow> line_sum ls = p"

lemma walks_neutral: "neutral u \<Longrightarrow> walks u (0, 0)"
  by (simp add: walks_def paren_sum_neutral)

lemma walks_append [walk_rules]: "walks u p \<Longrightarrow> walks v q \<Longrightarrow> walks (u @ v) (paren_seq p q)"
  by (simp add: walks_def paren_sum_append)

lemma walks_literal: "walks l (paren_sum l)"
  by (simp add: walks_def)

lemma paren_sum_join: "paren_sum (py_join [nl] ls) = line_sum ls"
proof (cases ls rule: rev_cases)
  case (snoc us u)
  then show ?thesis by (simp add: py_join_unl paren_sum_append line_sum_def paren_step_def
    paren_seq_def paren_sum_bound min_absorb1)
qed (simp add: line_sum_def)

lemma walks_join [walk_rules]:
  "walks_lines [] (0, 0)"
  "walks l p \<Longrightarrow> walks_lines ls q \<Longrightarrow> walks_lines (l # ls) (paren_seq p q)"
  "walks_lines ls p \<Longrightarrow> walks (py_join [nl] ls) p"
  using line_sum_simps(3) [of "[l]" ls] 
  by (simp_all add: walks_def walks_lines_def paren_sum_join line_sum_simps)

lemma walks_num [walk_rules]: "walks (num_str x) (0, 0)" "walks (int_str i) (0, 0)"
  by (rule walks_neutral, simp)+

text \<open>\<open>lib_run c p\<close>: \<open>c\<close> emits lines of nesting \<open>p\<close> and changes no index.\<close>

definition lib_run :: "stmt \<Rightarrow> int \<times> int \<Rightarrow> bool" where
  "lib_run c p \<longleftrightarrow> (\<forall>s. \<exists>ls. adds_lines c s ls \<and> line_sum ls = p)"

text \<open>The first and the last statement of the section, without the line that opens or closes it.\<close>

definition lib_begin :: "stmt \<Rightarrow> int \<times> int \<Rightarrow> bool" where
  "lib_begin c p \<longleftrightarrow> (\<forall>s. \<exists>ls. adds_lines c s (''  (lib_symbols'' # ls) \<and> line_sum ls = p)"

definition lib_end :: "stmt \<Rightarrow> int \<times> int \<Rightarrow> bool" where
  "lib_end c p \<longleftrightarrow> (\<forall>s. \<exists>ls. adds_lines c s (ls @ [''  )'']) \<and> line_sum ls = p)"

lemma lib_run_emit [walk_rules]: "walks l p \<Longrightarrow> lib_run (emit l) p"
  unfolding lib_run_def walks_def using adds_emit line_sum_simps(2) by metis

lemma lib_run_draw [walk_rules]:
  "lib_run (draw []) (0, 0)"
  "lib_run c p \<Longrightarrow> lib_run (draw cs) q \<Longrightarrow> lib_run (draw (c # cs)) (paren_seq p q)"
proof -
  show "lib_run (draw []) (0, 0)" unfolding lib_run_def using adds_draw(1) line_sum_simps(1) by blast
  assume c: "lib_run c p" and cs: "lib_run (draw cs) q"
  show "lib_run (draw (c # cs)) (paren_seq p q)" unfolding lib_run_def
  proof
    fix s
    obtain ls where ls: "adds_lines c s ls" "line_sum ls = p" using c lib_run_def by blast
    obtain ms where ms: "adds_lines (draw cs) (c s) ms" "line_sum ms = q" using cs lib_run_def by blast
    show "\<exists>ls. adds_lines (draw (c # cs)) s ls \<and> line_sum ls = paren_seq p q"
      using adds_draw(2) [OF ls(1) ms(1)] ls(2) ms(2) line_sum_simps(3) by blast
  qed
qed

lemma lib_run_map [walk_rules]:
  "lib_run (draw (map c [])) (0, 0)"
  "lib_run (c x) p \<Longrightarrow> lib_run (draw (map c xs)) q \<Longrightarrow> lib_run (draw (map c (x # xs))) (paren_seq p q)"
  by (simp_all add: lib_run_draw)

lemma lib_run_control [walk_rules]:
  "lib_run (c e) p \<Longrightarrow> lib_run (Let e c) p"
  "lib_run (k a b) p \<Longrightarrow> lib_run (case_prod k (a, b)) p"
  "lib_run c1 p \<Longrightarrow> lib_run c2 q \<Longrightarrow> lib_run (if b1 then c1 else c2) (if b1 then p else q)"
  by simp_all

text \<open>A loop over an index that looks names up in tables.\<close>

lemma lib_run_index:
  assumes "\<And>i. 0 \<le> i \<Longrightarrow> i < int n \<Longrightarrow> lib_run (c i) p" "p = (0, 0)" "k + 1 = int n"
  shows "lib_run (draw (map c [0..k])) (0, 0)"
proof -
  have "lib_run (draw (map c is)) (0, 0)" if "\<forall>i \<in> set is. lib_run (c i) (0, 0)" for "is"
    using that
  proof (induction "is")
    case (Cons i "is")
    have "lib_run (draw (map c (i # is))) (paren_seq (0, 0) (0, 0))"
      using Cons by (intro lib_run_map) simp_all
    then show ?case by (simp add: paren_seq_def)
  qed (simp add: lib_run_draw)
  then show ?thesis using assms by auto
qed

lemma walks_nth:
  assumes "0 \<le> i" "i < int n" "length xs = n \<and> list_all (\<lambda>s. paren_sum s = (0, 0)) xs"
  shows "walks (xs ! nat i) (0, 0)"
  using assms by (simp add: walks_def list_all_length)


lemma lib_begin_rule: "lib_run (draw cs) p \<Longrightarrow> lib_begin (draw (emit ''  (lib_symbols'' # cs)) p"
  unfolding lib_begin_def lib_run_def using adds_draw(2) [OF adds_emit] by fastforce

lemma lib_end_rules:
  "lib_end (emit ''  )'') (0, 0)"
  "lib_end c1 p \<Longrightarrow> lib_end (draw [c1]) p"
  "lib_end (c e) p \<Longrightarrow> lib_end (Let e c) p"
  "lib_run c1 p \<Longrightarrow> lib_end (draw cs) q \<Longrightarrow> lib_end (draw (c1 # cs)) (paren_seq p q)"
proof -
  show "lib_end (emit ''  )'') (0, 0)"
    unfolding lib_end_def using adds_emit by (intro allI exI [of _ "[]"]) (simp add: line_sum_simps)
  show "lib_end c1 p \<Longrightarrow> lib_end (draw [c1]) p"
    unfolding lib_end_def using adds_draw(2) [OF _ adds_draw(1)] by fastforce
  show "lib_end (c e) p \<Longrightarrow> lib_end (Let e c) p" by simp
  assume c: "lib_run c1 p" and cs: "lib_end (draw cs) q"
  show "lib_end (draw (c1 # cs)) (paren_seq p q)" unfolding lib_end_def
  proof
    fix s
    obtain ls where ls: "adds_lines c1 s ls" "line_sum ls = p" using c lib_run_def by blast
    obtain ms where ms: "adds_lines (draw cs) (c1 s) (ms @ [''  )''])" "line_sum ms = q" using cs lib_end_def by blast
    have "adds_lines (draw (c1 # cs)) s ((ls @ ms) @ [''  )''])" using adds_draw(2) [OF ls(1) ms(1)] by simp
    then show "\<exists>ls. adds_lines (draw (c1 # cs)) s (ls @ [''  )'']) \<and> line_sum ls = paren_seq p q"
      using ls(2) ms(2) line_sum_simps(3) by blast
  qed
qed

text \<open>
  \<open>lib_block c\<close>: \<open>c\<close> emits one closed S-expression \<open>(lib_symbols ...)\<close> and changes no index.
\<close>

definition lib_block :: "stmt \<Rightarrow> bool" where
  "lib_block c \<longleftrightarrow> (\<forall>s. \<exists>ls. adds_lines c s (''  (lib_symbols'' # ls @ [''  )'']) \<and> neutral_lines ls)"

lemma lib_block_run:
  assumes "lib_begin c p" "lib_end (draw cs) q" "paren_seq p q = (0, 0)"
  shows "lib_block (draw (c # cs))"
  unfolding lib_block_def
proof
  fix s
  obtain ls where ls: "adds_lines c s (''  (lib_symbols'' # ls)" "line_sum ls = p" using assms(1) lib_begin_def by blast
  obtain ms where ms: "adds_lines (draw cs) (c s) (ms @ [''  )''])" "line_sum ms = q" using assms(2) lib_end_def by blast
  have "neutral (unl (ls @ ms))" using assms(3) ls(2) ms(2)
    by (simp add: line_sum_def paren_sum_append flip: paren_sum_neutral)
  moreover have "adds_lines (draw (c # cs)) s (''  (lib_symbols'' # (ls @ ms) @ [''  )''])"
    using adds_draw(2) [OF ls(1) ms(1)] by simp
  ultimately show "\<exists>ls. adds_lines (draw (c # cs)) s (''  (lib_symbols'' # ls @ [''  )'']) \<and> neutral_lines ls"
    by (intro exI [of _ "ls @ ms"]) (simp only: neutral_unl simp_thms)
qed


section \<open>The whole file\<close>

text \<open>What the parser makes of the file behind the library section.\<close>

definition preamble :: "string list \<Rightarrow> bool" where
  "preamble pre \<longleftrightarrow> (\<exists>h w. unl pre = h @ CHR ''('' # (''lib_symbols'' @ w) @ '')'' @ [nl] \<and>
     no_start (map (\<lambda>c x. x = c) ''(lib_symbols'') h \<and> scan 0 h = Some 1 \<and> neutral w)"

lemma py_find_start: "py_find sub (sub @ t) = 0"
proof (cases "sub @ t")
  case (Cons c s)
  have "prefix sub (c # s)" using prefixI [OF Cons [symmetric]] .
  then show ?thesis by (simp add: Cons)
qed simp

lemma py_find_at: "no_start (map (\<lambda>c x. x = c) sub) h \<Longrightarrow> py_find sub (h @ sub @ t) = int (length h)"
proof (induction h)
  case Nil
  then show ?case by (simp add: py_find_start)
next
  case (Cons c h)
  have "\<not> prefix sub ((c # h) @ sub @ t)"
    using Cons.prems by (intro dead_not_prefix dead_append) simp
  then show ?case using Cons by simp
qed

lemma scan_one: "scan 1 (u @ v) = Option.bind (scan 1 u) (\<lambda>d. scan d v)"
  by (rule scan_append)

theorem sheet_file_read:
  assumes d: "drawn pre s r" and o: "r_open r = None" and p: "preamble pre"
  shows "scan 0 (py_join [nl] (sheet_lines s @ ['')''])) = Some 0"
    and "parse_schematic (py_join [nl] (sheet_lines s @ ['')''])) = (rev (r_parts r), nets_read r)"
proof -
  obtain h w where h: "unl pre = h @ CHR ''('' # (''lib_symbols'' @ w) @ '')'' @ [nl]"
      "no_start (map (\<lambda>c x. x = c) ''(lib_symbols'') h" "scan 0 h = Some 1" "neutral w"
    using p unfolding preamble_def by blast
  obtain ls where ls: "sheet_lines s = pre @ ls" "reads (unl ls) (rev (r_parts r)) (nets_read r)"
    using d o by (auto simp: drawn_def)
  define blk where "blk = CHR ''('' # (''lib_symbols'' @ w) @ '')''"
  define rest where "rest = nl # unl ls @ '')''"
  have out: "py_join [nl] (sheet_lines s @ ['')'']) = h @ blk @ rest"
    using py_join_unl [of "pre @ ls" "'')''"] by (simp add: ls(1) h(1) blk_def rest_def)
  have nw: "neutral (''lib_symbols'' @ w)" using h(4) by (simp add: neutral_Cons)
  have nls: "neutral (unl ls)" using ls(2) by (auto simp: reads_def reads_as_def)
  have nb: "neutral blk" unfolding blk_def by (rule neutral_wrap [OF nw])
  have "scan 1 (blk @ rest) = Some 0"
    using neutral_scan_append [OF nb, of 1] neutral_scan_append [OF nls, of 1] by (simp add: rest_def)
  then show "scan 0 (py_join [nl] (sheet_lines s @ ['')''])) = Some 0"
    unfolding out using h(3) by (simp add: scan_append)
  have f: "py_find ''(lib_symbols'' (h @ blk @ rest) = int (length h)"
    using py_find_at [OF h(2), of "w @ '')'' @ rest"] by (simp add: blk_def)
  have t: "take_block 0 (blk @ rest) = Some blk" using take_block_whole [OF nw, of rest] by (simp add: blk_def)
  have body: "schematic_body (h @ blk @ rest) = rest" using f t by (simp add: schematic_body_def Let_def)
  have "reads ([nl] @ unl ls) ([] @ rev (r_parts r)) ({} \<union> nets_read r)"
    by (rule reads_append [OF reads_quiet ls(2)]) (simp_all add: plain_start_def)
  then obtain P L where R: "reads_as (nl # unl ls) (rev (r_parts r)) P L"
      "nets_read r = P \<union> (\<Union>n \<in> set label_names. L n)" by (auto simp: reads_def)
  have e: "sym_scan b '')'' st = st" "n \<in> set label_names \<Longrightarrow> label_scan n b '')'' = {}" for b st n
    using sym_scan_skip [OF quiet_skips(1), of "'')''" b "[]" st] label_scan_skip [OF quiet_skips(2), of "'')''" n b "[]"]
    by (simp_all add: sym_scan_def label_scan_def plain_start_def)
  have "sym_scan [] rest ([], {}) = (rev (r_parts r), P)"
    using R(1) e(1) by (simp add: reads_as_def rest_def)
  moreover have "label_scan n [] rest = L n" if "n \<in> set label_names" for n
    using R(1) e(2) that by (simp add: reads_as_def rest_def)
  ultimately show "parse_schematic (py_join [nl] (sheet_lines s @ ['')''])) = (rev (r_parts r), nets_read r)"
    unfolding out parse_schematic_scan body by (simp add: R(2) Let_def)
qed

text \<open>The header.\<close>

definition title_ok :: "string \<Rightarrow> bool" where
  "title_ok t = (scan 0 t = Some 0 \<and> opens (refutes ''lib_symbols'') (t @ [CHR 0x22]))"

lemma refutes_append: "refutes n s \<Longrightarrow> refutes n (s @ t)"
  by (induction n s rule: refutes.induct) (auto split: if_splits)

lemma title_facts:
  assumes "title_ok t"
  shows "0 \<le> d \<Longrightarrow> scan d (t @ u) = scan d u"
    "opens (refutes ''lib_symbols'') u \<Longrightarrow> opens (refutes ''lib_symbols'') (t @ CHR 0x22 # u)"
  using assms neutral_scan_append [of t d u]
    opens_append [of "refutes ''lib_symbols''" "t @ [CHR 0x22]" u, OF refutes_append]
  by (simp_all add: title_ok_def neutral_def)

definition header_lines :: "string \<Rightarrow> string \<Rightarrow> string \<Rightarrow> string \<Rightarrow> string \<Rightarrow> string list" where
  \<open>header_lines generator title comment1 comment2 u = [
     ''(kicad_sch'', ''  (version 20231120)'', ''  (generator "'' @ generator @ ''")'', ''  (generator_version "9.0")'',
     ''  (uuid "'' @ u @ ''")'', ''  (paper "A3")'', ''  (title_block'', ''    (title "'' @ title @ ''")'',
     ''    (date "2026-03-03")'', ''    (rev "1.0")'', ''    (company "")'', ''    (comment 1 "'' @ comment1 @ ''")'',
     ''    (comment 2 "'' @ comment2 @ ''")'', ''  )'', []]\<close>

lemma header_facts:
  assumes "title_ok g" "title_ok t" "title_ok c1" "title_ok c2" "neutral u" "open_free u"
  shows "scan 0 (unl (header_lines g t c1 c2 u) @ ''  '') = Some 1"
    "no_start (map (\<lambda>c x. x = c) ''(lib_symbols'') (unl (header_lines g t c1 c2 u) @ ''  '')"
proof -
  show "scan 0 (unl (header_lines g t c1 c2 u) @ ''  '') = Some 1"
    using assms(5,6) by (simp add: header_lines_def title_facts(1) assms(1-4) scan)
  have "opens (refutes ''lib_symbols'') (unl (header_lines g t c1 c2 u) @ ''  '')"
    using assms(6) by (simp add: header_lines_def title_facts(2) assms(1-4))
  from opens_absent [OF _ this, of "''lib_symbols''"]
  show "no_start (map (\<lambda>c x. x = c) ''(lib_symbols'') (unl (header_lines g t c1 c2 u) @ ''  '')" by simp
qed

lemma adds_header:
  fixes s :: sheet
  shows "\<exists>u. neutral u \<and> open_free u \<and> adds_lines (emit_header g t c1 c2) s (header_lines g t c1 c2 u)"
proof -
  let ?u = "uid (sheet_rnd s) (sheet_uids s)"
  have "sheet_lines (emit_header g t c1 c2 s) = sheet_lines s @ header_lines g t c1 c2 ?u"
    by (simp add: emit_header_def draw_simps emit_def with_value_def new_uid_def header_lines_def)
  moreover have "same_indices (emit_header g t c1 c2 s) r = same_indices s r" for r
    by (simp add: emit_header_def draw_simps emit_def with_value_def new_uid_def same_indices_def)
  ultimately show ?thesis unfolding adds_lines_def
    by (intro exI [of _ ?u] conjI allI) simp_all
qed

lemma drawn_start:
  assumes "lib_block lib" "title_ok g" "title_ok t" "title_ok c1" "title_ok c2"
    and s: "sheet_lines s = []" "same_indices s r" "r_open r = None" "r_parts r = []" "nets_read r = {}"
  shows "\<exists>pre. preamble pre \<and> drawn pre (lib (emit_header g t c1 c2 s)) r"
proof -
  obtain u where u: "neutral u" "open_free u" "adds_lines (emit_header g t c1 c2) s (header_lines g t c1 c2 u)"
    using adds_header by blast
  obtain ls where ls: "adds_lines lib (emit_header g t c1 c2 s) (''  (lib_symbols'' # ls @ [''  )''])" "neutral_lines ls"
    using assms(1) unfolding lib_block_def by blast
  define pre where "pre = header_lines g t c1 c2 u @ (''  (lib_symbols'' # ls @ [''  )''])"
  have "unl pre = (unl (header_lines g t c1 c2 u) @ ''  '') @ CHR ''('' # (''lib_symbols'' @ nl # unl ls @ ''  '') @ '')'' @ [nl]"
    by (simp add: pre_def)
  moreover have "neutral (nl # unl ls @ ''  '')"
    using ls(2) by (intro neutralI) (simp add: neutral_unl scan)
  ultimately have "preamble pre"
    unfolding preamble_def using header_facts [OF assms(2-5) u(1,2)] by blast
  moreover have "sheet_lines (lib (emit_header g t c1 c2 s)) = pre @ [] @ []"
    using ls(1) u(3) s(1) by (simp add: adds_lines_def pre_def)
  moreover have "same_indices (lib (emit_header g t c1 c2 s)) r"
    using ls(1) u(3) s(2) by (simp add: adds_lines_def)
  moreover have "reads (unl []) [] {}" using reads_quiet [of "[]"] by simp
  ultimately show ?thesis unfolding drawn_def using s(3-5) by (intro exI [of _ pre]) auto
qed

section \<open>The exit status\<close>

lemma scan_counts: "scan d s = Some e \<Longrightarrow> int (count_list s (CHR ''('')) - int (count_list s (CHR '')'')) = e - d"
  by (induction d s rule: scan.induct) (auto split: if_splits)

theorem finish_balanced:
  assumes "scan 0 (py_join [nl] (sheet_lines s)) = Some 0"
  shows "finish level path report s = \<lparr>gen_exit = 0, gen_file = Some (path, py_join [nl] (sheet_lines s)),
    gen_stdout = report (count_list (py_join [nl] (sheet_lines s)) (CHR ''(''))
      (count_list (py_join [nl] (sheet_lines s)) (CHR ''('')), gen_stderr = []\<rparr>"
  using scan_counts [OF assms] by (simp add: finish_def Let_def)

text \<open>A generator whose drawing is read as \<open>r\<close>.\<close>

theorem generator_read:
  assumes "preamble pre" "drawn pre s r" "r_open r = None" "s' = draw [emit '')''] s"
  shows "\<exists>content. gen_exit (finish level path report s') = 0 \<and> gen_file (finish level path report s') = Some (path, content) \<and>
    check_parens content = (True, 0) \<and> parse_schematic content = (rev (r_parts r), nets_read r)"
proof -
  have s': "sheet_lines s' = sheet_lines s @ ['')'']" by (simp add: assms(4) draw_simps emit_def)
  note r = sheet_file_read [OF assms(2,3,1)]
  show ?thesis using r finish_balanced [of s'] check_parens_eq [of "py_join [nl] (sheet_lines s @ ['')''])"]
    by (simp add: s')
qed

section \<open>A section of a sheet\<close>

text \<open>
  \<open>yields_section c i q\<close>: in a state with the indices and the open symbol of \<open>i\<close>, \<open>c\<close> draws what \<open>q\<close> lists
  and leaves the indices of \<open>q\<close>. What was drawn before does not matter.
\<close>

definition part :: "string \<Rightarrow> string \<Rightarrow> string \<Rightarrow> string \<Rightarrow> component" where
  "part ref val fp lib = \<lparr>reference = ref, comp_value = val, footprint = fp, lib_id = lib\<rparr>"

text \<open>A run of parts with consecutive designators.\<close>

definition parts_run :: "string \<Rightarrow> int \<Rightarrow> int \<Rightarrow> string \<Rightarrow> string \<Rightarrow> string \<Rightarrow> component list" where
  "parts_run letter i j val fp lib = map (\<lambda>k. part (letter @ int_str k) val fp lib) [i..j]"

definition names_run :: "string \<Rightarrow> int \<Rightarrow> int \<Rightarrow> string list" where
  "names_run stem i j = map (\<lambda>k. stem @ int_str k) [i..j]"

definition outputs_empty :: "reading \<Rightarrow> reading" where
  "outputs_empty r = r\<lparr>r_parts := [], r_rails := [], r_hiers := []\<rparr>"

definition outputs_join :: "reading \<Rightarrow> reading \<Rightarrow> reading" where
  "outputs_join r q = q\<lparr>r_parts := r_parts q @ r_parts r, r_rails := r_rails q @ r_rails r,
     r_hiers := r_hiers q @ r_hiers r\<rparr>"

definition yields_section :: "stmt \<Rightarrow> reading \<Rightarrow> reading \<Rightarrow> bool" where
  "yields_section c i q \<longleftrightarrow> (\<forall>pre s r. drawn pre s r \<longrightarrow> outputs_empty r = i \<longrightarrow> drawn pre (c s) (outputs_join r q))"

lemma outputs_empty_simps [simp]:
  "r_open (outputs_empty r) = r_open r" "r_parts (outputs_empty r) = []" "nets_read (outputs_empty r) = {}"
  "same_indices s (outputs_empty r) = same_indices s r"
  by (simp_all add: outputs_empty_def nets_read_def same_indices_def)

lemma outputs_join_simps [simp]:
  "r_open (outputs_join r q) = r_open q" "r_parts (outputs_join r q) = r_parts q @ r_parts r"
  "nets_read (outputs_join r q) = nets_read q \<union> nets_read r" "same_indices s (outputs_join r q) = same_indices s q"
  "outputs_empty (outputs_join r q) = outputs_empty q"
  by (auto simp: outputs_join_def outputs_empty_def nets_read_def same_indices_def)

lemma sectionI:
  assumes "sim c f" "f i = Some q"
  shows "yields_section c i q"
  unfolding yields_section_def
proof (intro allI impI)
  fix pre s r assume d: "drawn pre s r" and i: "outputs_empty r = i"
  obtain ls os where ls: "sheet_lines s = pre @ ls @ os" "reads (unl ls) (rev (r_parts r)) (nets_read r)"
      "pending (r_open r) os" "same_indices s r"
    using d by (auto simp: drawn_def)
  have "reads (unl []) [] {}" using reads_quiet [of "[]"] by simp
  then have "drawn (pre @ ls) s i"
    unfolding drawn_def i [symmetric] using ls by (intro conjI exI [of _ "[]"] exI [of _ os]) simp_all
  from simD [OF assms(1) this assms(2)]
  obtain ks ps where ks: "sheet_lines (c s) = (pre @ ls) @ ks @ ps" "reads (unl ks) (rev (r_parts q)) (nets_read q)"
      "pending (r_open q) ps" "same_indices (c s) q"
    by (auto simp: drawn_def)
  show "drawn pre (c s) (outputs_join r q)" unfolding drawn_def
    using ks reads_append [OF ls(2) ks(2)]
    by (intro conjI exI [of _ "ls @ ks"] exI [of _ ps]) (simp_all add: Un_commute)
qed

lemma sectionD: "yields_section c i q \<Longrightarrow> drawn pre s r \<Longrightarrow> outputs_empty r = i \<Longrightarrow> drawn pre (c s) (outputs_join r q)"
  by (simp add: yields_section_def)

lemma outputs_join_assoc: "outputs_join r (outputs_join q p) = outputs_join (outputs_join r q) p"
  by (simp add: outputs_join_def)

lemma section_draw:
  "yields_section c i q \<Longrightarrow> yields_section (draw cs) (outputs_empty q) p \<Longrightarrow> yields_section (draw (c # cs)) i (outputs_join q p)"
  by (simp add: yields_section_def draw_simps outputs_join_assoc)

lemma section_one: "yields_section c i q \<Longrightarrow> yields_section (draw [c]) i q"
  by (simp add: yields_section_def draw_simps)

lemma section_next_u:
  assumes "yields_section (c (''U'' @ int_str (r_u i))) (i\<lparr>r_u := r_u i + 1\<rparr>) q"
  shows "yields_section (with_value next_u c) i q"
  unfolding yields_section_def
proof (intro allI impI)
  fix pre s r assume d: "drawn pre s r" and i: "outputs_empty r = i"
  have n: "u_idx s = r_u r" "r_u i = r_u r" using drawn_same [OF d] i by (auto simp: same_indices_def outputs_empty_def)
  have "drawn pre (s\<lparr>u_idx := u_idx s + 1\<rparr>) (r\<lparr>r_u := r_u r + 1\<rparr>)"
    by (rule drawn_index [OF d]) (simp_all add: same_indices_def nets_read_def)
  from sectionD [OF assms this]
  have "drawn pre (c (''U'' @ int_str (r_u i)) (s\<lparr>u_idx := u_idx s + 1\<rparr>)) (outputs_join (r\<lparr>r_u := r_u r + 1\<rparr>) q)"
    using i n(2) by (auto simp: outputs_empty_def)
  then show "drawn pre (with_value next_u c s) (outputs_join r q)"
    by (simp add: with_value_def next_u_def n outputs_join_def)
qed

lemma section_next_conn:
  assumes "yields_section (c (''J'' @ int_str (r_conn i))) (i\<lparr>r_conn := r_conn i + 1\<rparr>) q"
  shows "yields_section (with_value next_conn c) i q"
  unfolding yields_section_def
proof (intro allI impI)
  fix pre s r assume d: "drawn pre s r" and i: "outputs_empty r = i"
  have n: "conn_idx s = r_conn r" "r_conn i = r_conn r" using drawn_same [OF d] i by (auto simp: same_indices_def outputs_empty_def)
  have "drawn pre (s\<lparr>conn_idx := conn_idx s + 1\<rparr>) (r\<lparr>r_conn := r_conn r + 1\<rparr>)"
    by (rule drawn_index [OF d]) (simp_all add: same_indices_def nets_read_def)
  from sectionD [OF assms this]
  have "drawn pre (c (''J'' @ int_str (r_conn i)) (s\<lparr>conn_idx := conn_idx s + 1\<rparr>)) (outputs_join (r\<lparr>r_conn := r_conn r + 1\<rparr>) q)"
    using i n(2) by (auto simp: outputs_empty_def)
  then show "drawn pre (with_value next_conn c s) (outputs_join r q)"
    by (simp add: with_value_def next_conn_def n outputs_join_def)
qed

text \<open>Sequences of sections, and sections that use a new designator.\<close>

lemma section_chain:
  assumes "yields_section c i q" "yields_section (draw cs) j p" "outputs_empty q = j"
  shows "yields_section (draw (c # cs)) i (outputs_join q p)"
  using assms section_draw by blast

lemma section_u:
  assumes "yields_section c i q" "yields_section (k ref) j p" "''U'' @ int_str (r_u q) = ref" "(outputs_empty q)\<lparr>r_u := r_u q + 1\<rparr> = j"
  shows "yields_section (draw [c, with_value next_u k]) i (outputs_join q p)"
proof -
  have u: "r_u (outputs_empty q) = r_u q" by (simp add: outputs_empty_def)
  have "yields_section (with_value next_u k) (outputs_empty q) p"
    by (rule section_next_u) (use assms(2-4) in \<open>simp add: u\<close>)
  then show ?thesis by (rule section_chain [OF assms(1) section_one refl])
qed

lemma section_j:
  assumes "yields_section c i q" "yields_section (k ref) j p" "''J'' @ int_str (r_conn q) = ref" "(outputs_empty q)\<lparr>r_conn := r_conn q + 1\<rparr> = j"
  shows "yields_section (draw [c, with_value next_conn k]) i (outputs_join q p)"
proof -
  have u: "r_conn (outputs_empty q) = r_conn q" by (simp add: outputs_empty_def)
  have "yields_section (with_value next_conn k) (outputs_empty q) p"
    by (rule section_next_conn) (use assms(2-4) in \<open>simp add: u\<close>)
  then show ?thesis by (rule section_chain [OF assms(1) section_one refl])
qed

lemma section_blank: "outputs_empty i = i \<Longrightarrow> yields_section (emit []) i i"
  by (rule sectionI [OF sim_emit_nil]) simp

text \<open>Drawing in the scope of a designator.\<close>

lemma case_snd: "snd (case p of (a, b) \<Rightarrow> f a b) = (case p of (a, b) \<Rightarrow> snd (f a b))"
  by (rule prod.case_distrib)

lemma case_emit: "emit l (case p of (a, b) \<Rightarrow> f a b) = (case p of (a, b) \<Rightarrow> emit l (f a b))"
  by (rule prod.case_distrib)

text \<open>The reading before the first statement.\<close>

definition no_reading :: reading where
  "no_reading = \<lparr>r_cap = 0, r_res = 0, r_ind = 0, r_u = 0, r_led = 0, r_btn = 0, r_tp = 0, r_conn = 0,
     r_ic = 0, r_crystal = 0, r_open = None, r_parts = [], r_rails = [], r_hiers = []\<rparr>"

text \<open>
  A sheet whose sections draw the parts \<open>ps\<close> and the nets \<open>ns\<close>.
\<close>

definition holds :: "stmt \<Rightarrow> reading \<Rightarrow> component list \<Rightarrow> string list \<Rightarrow> bool" where
  "holds c i ps ns \<longleftrightarrow> (\<exists>q. yields_section c i q \<and> r_open q = None \<and> rev (r_parts q) = ps \<and> nets_read q = set ns)"

lemma holdsI:
  "yields_section c i q \<Longrightarrow> r_open q = None \<Longrightarrow> rev (r_parts q) = ps \<Longrightarrow> nets_read q = set ns \<Longrightarrow> holds c i ps ns"
  unfolding holds_def by blast

theorem sheet_holds:
  assumes lib: "lib_block lib" "title_ok g" "title_ok t" "title_ok c1" "title_ok c2"
    and s: "sheet_lines s = []" "same_indices s i" "outputs_empty i = i" "r_open i = None"
    and body: "holds body i ps ns"
    and s': "s' = draw [emit '')''] (body (lib (emit_header g t c1 c2 s)))"
  shows "\<exists>content. gen_exit (finish level path report s') = 0 \<and> gen_file (finish level path report s') = Some (path, content) \<and>
    check_parens content = (True, 0) \<and> parse_schematic content = (ps, set ns)"
proof -
  have e: "r_parts i = []" "nets_read i = {}" using arg_cong [OF s(3), of r_parts] arg_cong [OF s(3), of nets_read] by simp_all
  obtain pre where pre: "preamble pre" "drawn pre (lib (emit_header g t c1 c2 s)) i"
    using drawn_start [OF lib s(1,2,4) e] by blast
  obtain q where q: "yields_section body i q" "r_open q = None" "rev (r_parts q) = ps" "nets_read q = set ns"
    using body unfolding holds_def by blast
  have "drawn pre (body (lib (emit_header g t c1 c2 s))) (outputs_join i q)" by (rule sectionD [OF q(1) pre(2) s(3)])
  from generator_read [OF pre(1) this _ s'] show ?thesis using q(2-4) by (simp add: e)
qed

end
