(* ===== verification/Ddr3l.thy ===== *)
theory Ddr3l
  imports Schematic
begin

text \<open>
  The memory sheet, \<open>hardware/cirradio-devboard/gen_ddr3l.py\<close>: two DDR3L chips, their
  decoupling and the termination of the address bus.
\<close>

section \<open>Library symbols\<close>

text \<open>The two pin columns whose \<open>y\<close> runs down from pin to pin.\<close>

fun ddr3l_dq_pins :: "(string \<times> string) list \<Rightarrow> pynum \<Rightarrow> stmt" where
  "ddr3l_dq_pins [] y = draw []"
| \<open>ddr3l_dq_pins ((name, ball) # pins) y = draw [
    emit (''        (pin bidirectional line (at 15.24 '' @ num_str y @ '' 180) (length 2.54) (name "'' @ name @
        ''" (effects (font (size 1.27 1.27)))) (number "'' @ ball @ ''" (effects (font (size 1.27 1.27)))))''),
    ddr3l_dq_pins pins (if name = ''DQ7'' then dec 3048 2 else y - dec 254 2)]\<close>

fun ddr3l_addr_pins :: "(int \<times> string) list \<Rightarrow> pynum \<Rightarrow> stmt" where
  "ddr3l_addr_pins [] y = draw []"
| \<open>ddr3l_addr_pins ((i, ball) # pins) y = draw [
    emit (''        (pin input line (at -15.24 '' @ num_str y @ '' 0) (length 2.54) (name "A'' @ int_str i @
        ''" (effects (font (size 1.27 1.27)))) (number "'' @ ball @ ''" (effects (font (size 1.27 1.27)))))''),
    ddr3l_addr_pins pins (y - dec 254 2)]\<close>

definition ddr3l_dq_map :: "(string \<times> string) list" where
  "ddr3l_dq_map = [(''DQ0'', ''B7''), (''DQ1'', ''C7''), (''DQ2'', ''D6''), (''DQ3'', ''E6''),
     (''DQ4'', ''F7''), (''DQ5'', ''F8''), (''DQ6'', ''G7''), (''DQ7'', ''G8''),
     (''DQ8'', ''B2''), (''DQ9'', ''C2''), (''DQ10'', ''D1''), (''DQ11'', ''D2''),
     (''DQ12'', ''E1''), (''DQ13'', ''E2''), (''DQ14'', ''F1''), (''DQ15'', ''F2'')]"

definition ddr3l_addr_balls :: "string list" where
  "ddr3l_addr_balls = [''H2'', ''G4'', ''H3'', ''G6'', ''H4'', ''H5'', ''J2'', ''J3'', ''K2'', ''K3'',
     ''G5'', ''J1'', ''H1'', ''K1'', ''L3'']"

text \<open>\<open>DDR_ALL_PINS\<close>\<close>

definition DDR_ALL_PINS :: "string list" where
  "DDR_ALL_PINS = [''B7'', ''C7'', ''D6'', ''E6'', ''F7'', ''F8'', ''G7'', ''G8'', ''B2'', ''C2'', ''D1'', ''D2'',
        ''E1'', ''E2'', ''F1'', ''F2'', ''C8'', ''D8'', ''C1'', ''D3'', ''E7'', ''G1'', ''H2'', ''G4'',
        ''H3'', ''G6'', ''H4'', ''H5'', ''J2'', ''J3'', ''K2'', ''K3'', ''G5'', ''J1'', ''H1'', ''K1'',
        ''L3'', ''H7'', ''H8'', ''J8'', ''H6'', ''J6'', ''K6'', ''J4'', ''K4'', ''L4'', ''L6'', ''K7'',
        ''L1'', ''A8'', ''K8'', ''A4'', ''G3'', ''L8'', ''A2'', ''A5'', ''A7'', ''A1'', ''A3'', ''A6'',
        ''B4'', ''B5'', ''B1'', ''B3'', ''B6'', ''B8'']"

definition ddr3l_lib_head :: "stmt" where
  \<open>ddr3l_lib_head = draw [
    emit ''  (lib_symbols'',
    emit lib_device_r,
    emit lib_device_c,
    emit (py_join [nl]
       [''    (symbol "cirradio:MT41K256M16HA"'',
        ''      (pin_names (offset 0.254))'',
        ''      (exclude_from_sim no) (in_bom yes) (on_board yes)'',
        ''      (property "Reference" "U" (at 0 1.27 0) (effects (font (size 1.27 1.27))))'',
        ''      (property "Value" "MT41K256M16HA" (at 0 -1.27 0) (effects (font (size 1.27 1.27))))'',
        ''      (property "Footprint" "" (at 0 0 0) (effects (font (size 1.27 1.27)) hide))'',
        ''      (property "Datasheet" "" (at 0 0 0) (effects (font (size 1.27 1.27)) hide))'',
        ''      (symbol "MT41K256M16HA_0_1"'',
        ''        (rectangle (start -12.7 55.88) (end 12.7 -55.88)'',
        ''          (stroke (width 0.254) (type default))'',
        ''          (fill (type background))'',
        ''        )'',
        ''      )'',
        ''      (symbol "MT41K256M16HA_1_1"''])]\<close>

definition ddr3l_lib_right :: "stmt" where
  \<open>ddr3l_lib_right = draw [
    draw (map (\<lambda>(name, ball, yp). emit (''        (pin bidirectional line (at 15.24 '' @ num_str yp @
        '' 180) (length 2.54) (name "'' @ name @ ''" (effects (font (size 1.27 1.27)))) (number "'' @ ball @
        ''" (effects (font (size 1.27 1.27)))))'')) [(''LDQS'', ''C8'', dec 762 2),
          (''~{LDQS}'', ''D8'', dec 508 2),
          (''UDQS'', ''C1'', dec 254 2),
          (''~{UDQS}'', ''D3'', PInt 0)]),
    draw (map (\<lambda>(name, ball, yp). emit (''        (pin input line (at 15.24 '' @ num_str yp @ '' 180) (length 2.54) (name "'' @
        name @ ''" (effects (font (size 1.27 1.27)))) (number "'' @ ball @ ''" (effects (font (size 1.27 1.27)))))'')) [(''LDM'', ''E7'',
        dec (- 254) 2),
          (''UDM'', ''G1'', dec (- 508) 2)])]\<close>

definition ddr3l_lib_tail :: "stmt" where
  \<open>ddr3l_lib_tail = (let ba_balls = [(''BA0'', ''H7'', dec 127 1),
          (''BA1'', ''H8'', dec 1016 2),
          (''BA2'', ''J8'', dec 762 2)]
    in draw [
      draw (map (\<lambda>(name, ball, yp). emit (''        (pin input line (at -15.24 '' @ num_str yp @ '' 0) (length 2.54) (name "'' @
          name @ ''" (effects (font (size 1.27 1.27)))) (number "'' @ ball @ ''" (effects (font (size 1.27 1.27)))))'')) ba_balls),
      (let ctrl_pins = [(''~{RAS}'', ''H6'', dec 254 2),
          (''~{CAS}'', ''J6'', PInt 0),
          (''~{WE}'', ''K6'', dec (- 254) 2),
          (''CK'', ''J4'', dec (- 762) 2),
          (''~{CK}'', ''K4'', dec (- 1016) 2),
          (''CKE'', ''L4'', dec (- 127) 1),
          (''~{CS}'', ''L6'', dec (- 1524) 2),
          (''ODT'', ''K7'', dec (- 1778) 2),
          (''~{RESET}'', ''L1'', dec (- 2032) 2)]
      in draw [
        draw (map (\<lambda>(name, ball, yp). emit (''        (pin input line (at -15.24 '' @ num_str yp @ '' 0) (length 2.54) (name "'' @
            name @ ''" (effects (font (size 1.27 1.27)))) (number "'' @ ball @ ''" (effects (font (size 1.27 1.27)))))'')) ctrl_pins),
        emit ''        (pin passive line (at -15.24 -25.4 0) (length 2.54) (name "ZQ" (effects (font (size 1.27 1.27)))) (number "A8" (effects (font (size 1.27 1.27)))))'',
        emit ''        (pin input line (at -15.24 -27.94 0) (length 2.54) (name "VREFDQ" (effects (font (size 1.27 1.27)))) (number "K8" (effects (font (size 1.27 1.27)))))'',
        draw (map (\<lambda>ball. emit (''        (pin power_in line (at -15.24 -33.02 0) (length 2.54) (name "VDD" (effects (font (size 1.27 1.27)))) (number "'' @
            ball @ ''" (effects (font (size 1.27 1.27)))))'')) [''A4'', ''G3'', ''L8'']),
        draw (map (\<lambda>ball. emit (''        (pin power_in line (at -15.24 -40.64 0) (length 2.54) (name "VDDQ" (effects (font (size 1.27 1.27)))) (number "'' @
            ball @ ''" (effects (font (size 1.27 1.27)))))'')) [''A2'', ''A5'', ''A7'']),
        draw (map (\<lambda>ball. emit (''        (pin power_in line (at 0 -58.42 90) (length 2.54) (name "VSS" (effects (font (size 1.27 1.27)))) (number "'' @
            ball @ ''" (effects (font (size 1.27 1.27)))))'')) [''A1'', ''A3'', ''A6'', ''B4'', ''B5'']),
        draw (map (\<lambda>ball. emit (''        (pin power_in line (at 0 -58.42 90) (length 2.54) (name "VSSQ" (effects (font (size 1.27 1.27)))) (number "'' @
            ball @ ''" (effects (font (size 1.27 1.27)))))'')) [''B1'', ''B3'', ''B6'', ''B8'']),
        emit ''      )'',
        emit ''    )'',
        draw (map (\<lambda>net. (if net = ''GND'' then emit lib_gnd
          else emit (lib_power net))) [''+1V35'', ''GND'']),
        emit ''  )''])])\<close>

definition ddr3l_lib_symbols :: "stmt" where
  "ddr3l_lib_symbols = draw [ddr3l_lib_head, ddr3l_dq_pins ddr3l_dq_map (dec 5334 2), ddr3l_lib_right, ddr3l_addr_pins (enum_list ddr3l_addr_balls) (dec 5334 2), ddr3l_lib_tail]"

section \<open>The drawing\<close>

definition place_ddr_chip :: "string \<Rightarrow> string \<Rightarrow> pynum \<Rightarrow> pynum \<Rightarrow> string \<Rightarrow> int \<Rightarrow> string list \<Rightarrow> string list \<Rightarrow> string \<Rightarrow> stmt" where
  \<open>place_ddr_chip ref value cx cy dq_label_prefix dq_start_index dqs_labels dm_labels fprint = draw [
    symbol_instance ''cirradio:MT41K256M16HA'' ref value cx cy 1 0 fprint [],
    symbol_pins DDR_ALL_PINS,
    (let hl_right = cx + PInt 22;
        hl_left = cx - PInt 22
    in draw [
      draw (map (\<lambda>i. (let y = cy + dec 5334 2 - PInt i * dec 254 2
        in draw [
          wire (cx + dec 1524 2) y hl_right y,
          hier_label (dq_label_prefix @ int_str (dq_start_index + i)) hl_right y ''bidirectional'' 0])) [0..7]),
      draw (map (\<lambda>i. (let y = cy + dec 3048 2 - PInt i * dec 254 2
        in draw [
          wire (cx + dec 1524 2) y hl_right y,
          hier_label (dq_label_prefix @ int_str (dq_start_index + 8 + i)) hl_right y ''bidirectional'' 0])) [0..7]),
      (let dqs_y_offsets = [dec 762 2, dec 508 2, dec 254 2, PInt 0]
      in draw [
        draw (map (\<lambda>(idx, y_off). (let y = cy + y_off
          in draw [
            wire (cx + dec 1524 2) y hl_right y,
            hier_label (dqs_labels ! nat idx) hl_right y ''bidirectional'' 0])) (enum_list dqs_y_offsets)),
        (let dm_y_offsets = [dec (- 254) 2, dec (- 508) 2]
        in draw [
          draw (map (\<lambda>(idx, y_off). (let y = cy + y_off
            in draw [
              wire (cx + dec 1524 2) y hl_right y,
              hier_label (dm_labels ! nat idx) hl_right y ''input'' 0])) (enum_list dm_y_offsets)),
          draw (map (\<lambda>i. (let y = cy + dec 5334 2 - PInt i * dec 254 2
            in draw [
              wire (cx - dec 1524 2) y hl_left y,
              hier_label (''DDR_A'' @ int_str i) hl_left y ''input'' 180])) [0..14]),
          (let ba_y = [dec 127 1, dec 1016 2, dec 762 2]
          in draw [
            draw (map (\<lambda>i. (let y = cy + ba_y ! nat i
              in draw [
                wire (cx - dec 1524 2) y hl_left y,
                hier_label (''DDR_BA'' @ int_str i) hl_left y ''input'' 180])) [0..2]),
            (let ctrl_signals = [(''DDR_RAS_B'', dec 254 2),
          (''DDR_CAS_B'', PInt 0),
          (''DDR_WE_B'', dec (- 254) 2),
          (''DDR_CK_P'', dec (- 762) 2),
          (''DDR_CK_N'', dec (- 1016) 2),
          (''DDR_CKE'', dec (- 127) 1),
          (''DDR_CS_B'', dec (- 1524) 2),
          (''DDR_ODT'', dec (- 1778) 2),
          (''DDR_RESET_B'', dec (- 2032) 2)]
            in draw [
              draw (map (\<lambda>(name, y_off). (let y = cy + y_off
                in draw [
                  wire (cx - dec 1524 2) y hl_left y,
                  hier_label name hl_left y ''input'' 180])) ctrl_signals),
              (let zq_y = cy - dec 254 1
              in draw [
                wire (cx - dec 1524 2) zq_y (cx - PInt 25) zq_y,
                resistor ''240R 1%'' (cx - PInt 32) zq_y 90 ''Resistor_SMD:R_0402_1005Metric'',
                wire (cx - PInt 25) zq_y (cx - PInt 32 + dec 381 2) zq_y,
                wire (cx - PInt 32 - dec 381 2) zq_y (cx - PInt 40) zq_y,
                power_symbol ''GND'' (cx - PInt 40) zq_y 0,
                (let vref_y = cy - dec 2794 2
                in draw [
                  wire (cx - dec 1524 2) vref_y (cx - PInt 25) vref_y,
                  resistor ''240R'' (cx - PInt 32) (vref_y - PInt 8) 0 fp_r0402,
                  wire (cx - PInt 32) (vref_y - PInt 8 - dec 381 2) (cx - PInt 32) (vref_y - PInt 14),
                  global_label ''+1V35'' (cx - PInt 32) (vref_y - PInt 14) ''passive'' 0,
                  wire (cx - PInt 32) (vref_y - PInt 8 + dec 381 2) (cx - PInt 32) vref_y,
                  wire (cx - PInt 32) vref_y (cx - PInt 25) vref_y,
                  resistor ''240R'' (cx - PInt 32) (vref_y + PInt 8) 0 fp_r0402,
                  wire (cx - PInt 32) (vref_y + PInt 8 - dec 381 2) (cx - PInt 32) vref_y,
                  wire (cx - PInt 32) (vref_y + PInt 8 + dec 381 2) (cx - PInt 32) (vref_y + PInt 14),
                  power_symbol ''GND'' (cx - PInt 32) (vref_y + PInt 14) 0,
                  cap ''100n'' (cx - PInt 25) (vref_y + PInt 6) 0 ''Capacitor_SMD:C_0402_1005Metric'',
                  wire (cx - PInt 25) vref_y (cx - PInt 25) (vref_y + dec 219 2),
                  wire (cx - PInt 25) (vref_y + dec 981 2) (cx - PInt 25) (vref_y + PInt 12),
                  power_symbol ''GND'' (cx - PInt 25) (vref_y + PInt 12) 0,
                  (let vdd_y = cy - dec 3302 2
                  in draw [
                    global_label ''+1V35'' (cx - PInt 22) vdd_y ''passive'' 0,
                    wire (cx - dec 1524 2) vdd_y (cx - PInt 22) vdd_y,
                    (let vddq_y = cy - dec 4064 2
                    in draw [
                      global_label ''+1V35'' (cx - PInt 22) vddq_y ''passive'' 0,
                      wire (cx - dec 1524 2) vddq_y (cx - PInt 22) vddq_y,
                      (let vss_y = cy - dec 5842 2
                      in draw [
                        power_symbol ''GND'' cx (vss_y + PInt 2) 0,
                        wire cx vss_y cx (vss_y + PInt 2)])])])])])])])])])])]\<close>

definition place_vtt_termination :: "pynum \<Rightarrow> pynum \<Rightarrow> stmt" where
  \<open>place_vtt_termination x y = draw [
    text_note ''VTT TERMINATION (47R at fly-by end)'' x (y - PInt 5) (dec 127 2),
    text_note ''Connect VTT to +1V35/2 = 0.675V from power sheet'' x (y - PInt 8) (dec 10 1),
    (let term_signals = map (\<lambda>i. ''DDR_A'' @ int_str i) [0..14] @ [''DDR_BA0'', ''DDR_BA1'', ''DDR_BA2''] @ [''DDR_RAS_B'',
        ''DDR_CAS_B'', ''DDR_WE_B'', ''DDR_CKE'', ''DDR_CS_B'', ''DDR_ODT''];
        cx = x
    in draw (map (\<lambda>(i, sig). (let row = i div 12;
            col = i mod 12;
            rx = cx + PInt (col * 8);
            ry = y + PInt (row * 18)
        in draw [
          hier_label sig (rx - PInt 3) ry ''input'' 0,
          wire (rx - PInt 3) ry rx ry,
          resistor ''47R'' (rx + PInt 4) ry 90 fp_r0402,
          wire rx ry (rx + PInt 4 - dec 381 2) ry,
          wire (rx + PInt 4 + dec 381 2) ry (rx + PInt 10) ry,
          global_label ''VTT'' (rx + PInt 10) ry ''passive'' 0])) (enum_list term_signals)))]\<close>

definition ddr3l_chips :: "stmt" where
  \<open>ddr3l_chips = draw [
    text_note ''DDR3L U_DDR0 - Byte Lanes 0,1 (DDR_DQ[0:15])'' (PInt 30) (PInt 20) (dec 20 1),
    text_note ''MT41K256M16HA-125:E  256Mx16  DDR3L-1600  1.35V'' (PInt 30) (PInt 25) (dec 127 2),
    (let ddr0_x = PInt 100;
        ddr0_y = PInt 100
    in draw [
      place_ddr_chip ''U_DDR0'' ''MT41K256M16HA-125'' ddr0_x ddr0_y ''DDR_DQ'' 0 [''DDR_DQS_P0'', ''DDR_DQS_N0'', ''DDR_DQS_P1'',
          ''DDR_DQS_N1''] [''DDR_DM0'', ''DDR_DM1''] ''cirradio:BGA-96_9x14_0.8mm'',
      text_note ''DDR3L U_DDR1 - Byte Lanes 2,3 (DDR_DQ[16:31])'' (PInt 230) (PInt 20) (dec 20 1),
      text_note ''MT41K256M16HA-125:E  256Mx16  DDR3L-1600  1.35V'' (PInt 230) (PInt 25) (dec 127 2),
      (let ddr1_x = PInt 300;
          ddr1_y = PInt 100
      in draw [
        place_ddr_chip ''U_DDR1'' ''MT41K256M16HA-125'' ddr1_x ddr1_y ''DDR_DQ'' 16 [''DDR_DQS_P2'', ''DDR_DQS_N2'', ''DDR_DQS_P3'',
            ''DDR_DQS_N3''] [''DDR_DM2'', ''DDR_DM3''] ''cirradio:BGA-96_9x14_0.8mm'',
        text_note ''U_DDR0 DECOUPLING'' (PInt 30) (PInt 230) (dec 20 1)])])]\<close>

definition ddr3l_decoupling :: "stmt" where
  \<open>ddr3l_decoupling = draw [
    decoupling_group ''+1V35'' (PInt 30) (PInt 250) 4 1 ''U_DDR0 VDD'',
    decoupling_group ''+1V35'' (PInt 30) (PInt 280) 4 1 ''U_DDR0 VDDQ'',
    text_note ''U_DDR1 DECOUPLING'' (PInt 230) (PInt 230) (dec 20 1),
    decoupling_group ''+1V35'' (PInt 230) (PInt 250) 4 1 ''U_DDR1 VDD'',
    decoupling_group ''+1V35'' (PInt 230) (PInt 280) 4 1 ''U_DDR1 VDDQ'']\<close>

definition ddr3l_notes :: "stmt" where
  \<open>ddr3l_notes = draw [
    place_vtt_termination (PInt 30) (PInt 320),
    text_note ''ROUTING NOTES:'' (PInt 30) (PInt 380) (dec 20 1),
    text_note ''1. Fly-by topology: Zynq -> U_DDR0 -> U_DDR1 for address/command/clock'' (PInt 30) (PInt 386) (dec 127 2),
    text_note ''2. Match DQ/DQS trace lengths within each byte lane (+/- 5 mil)'' (PInt 30) (PInt 390) (dec 127 2),
    text_note ''3. Match DQS-to-CK skew within each chip (+/- 10 mil)'' (PInt 30) (PInt 394) (dec 127 2),
    text_note ''4. CK/CK# and DQS/DQS# are 100-ohm differential pairs'' (PInt 30) (PInt 398) (dec 127 2),
    text_note ''5. Single-ended impedance target: 40 ohm (DDR3L)'' (PInt 30) (PInt 402) (dec 127 2),
    text_note ''6. Differential impedance target: 80 ohm'' (PInt 30) (PInt 406) (dec 127 2),
    text_note ''7. Place decoupling caps within 2mm of BGA balls'' (PInt 30) (PInt 410) (dec 127 2),
    text_note ''8. ZQ resistor: 240R 1% tolerance, place within 5mm of ZQ ball'' (PInt 30) (PInt 414) (dec 127 2),
    text_note ''9. VREFDQ divider: place within 10mm of VREFDQ ball'' (PInt 30) (PInt 418) (dec 127 2),
    text_note ''10. VTT termination resistors at far end of fly-by (after U_DDR1)'' (PInt 30) (PInt 422) (dec 127 2)]\<close>

definition ddr3l_sheet :: "random \<Rightarrow> sheet" where
  \<open>ddr3l_sheet rnd =
    draw [emit_header ''cirradio_gen_ddr3l'' ''CIRRADIO Dev Board - DDR3L Memory (2x MT41K256M16HA-125)'' ''1GB DDR3L: 2x 256Mx16 = 32-bit bus, fly-by address/command'' ''VDD=VDDQ=+1V35, ZQ=240R 1%, VREFDQ=VDD/2 divider'',
            ddr3l_lib_symbols,
            emit [],
            ddr3l_chips,
            ddr3l_decoupling,
            ddr3l_notes,
            emit '')''] ((empty_sheet rnd)\<lparr>cap_idx := 200, res_idx := 200, pwr_idx := 200\<rparr>)\<close>

definition ddr3l_report :: "string \<Rightarrow> sheet \<Rightarrow> nat \<Rightarrow> nat \<Rightarrow> string list" where
  \<open>ddr3l_report path s n_open n_close =
    [''Generated: '' @ path,
     ''Component counts:'',
     ''  DDR3L chips: 2 (U_DDR0, U_DDR1)'',
     ''  Capacitors: '' @ int_str (counts s ''capacitors''),
     ''  Resistors: '' @ int_str (counts s ''resistors''),
     ''  Power symbols: '' @ int_str (pwr_idx s - 200),
     ''  Wires: '' @ int_str (counts s ''wires''),
     ''  Global labels: '' @ int_str (counts s ''gl_labels''),
     ''  Hierarchical labels: '' @ int_str (counts s ''hier_labels''),
     ''  Parentheses balanced: '' @ int_str (int n_open) @ '' opens, '' @ int_str (int n_close) @ '' closes'']\<close>

definition gen_ddr3l :: "random \<Rightarrow> gen_out" where
  "gen_ddr3l rnd =
     (let s = ddr3l_sheet rnd; path = board_dir @ ''ddr3l.kicad_sch''
      in finish ''WARNING'' path (ddr3l_report path s) s)"

end
