(* ===== verification/Ddr3lRead.thy ===== *)
theory Ddr3lRead
  imports SheetFile Ddr3l
begin

text \<open>
  What \<open>gen_ddr3l.py\<close> draws, read back by the parser of the netlist script: the parts and the nets of
  the memory sheet, section by section, and the whole file.
\<close>

section \<open>Parts and nets\<close>

definition ddr3l_chips_parts :: "component list" where
  "ddr3l_chips_parts =
    [part ''U_DDR0'' ''MT41K256M16HA-125'' ''cirradio:BGA-96_9x14_0.8mm'' ''cirradio:MT41K256M16HA'',
      part ''R200'' ''240R 1%'' fp_r0402 ''Device:R'',
      part ''R201'' ''240R'' fp_r0402 ''Device:R'',
      part ''R202'' ''240R'' fp_r0402 ''Device:R'',
      part ''C200'' ''100n'' fp_c0402 ''Device:C'',
      part ''U_DDR1'' ''MT41K256M16HA-125'' ''cirradio:BGA-96_9x14_0.8mm'' ''cirradio:MT41K256M16HA'',
      part ''R203'' ''240R 1%'' fp_r0402 ''Device:R'',
      part ''R204'' ''240R'' fp_r0402 ''Device:R'',
      part ''R205'' ''240R'' fp_r0402 ''Device:R'',
      part ''C201'' ''100n'' fp_c0402 ''Device:C'']"

definition ddr3l_chips_labels :: "string list" where
  "ddr3l_chips_labels =
    names_run ''DDR_DQ'' 0 15 @
    [''DDR_DQS_P0'', ''DDR_DQS_N0'', ''DDR_DQS_P1'', ''DDR_DQS_N1'', ''DDR_DM0'', ''DDR_DM1''] @
    names_run ''DDR_A'' 0 14 @
    [''DDR_BA0'', ''DDR_BA1'', ''DDR_BA2'', ''DDR_RAS_B'', ''DDR_CAS_B'', ''DDR_WE_B'', ''DDR_CK_P'', ''DDR_CK_N'',
      ''DDR_CKE'', ''DDR_CS_B'', ''DDR_ODT'', ''DDR_RESET_B''] @
    names_run ''DDR_DQ'' 16 31 @
    [''DDR_DQS_P2'', ''DDR_DQS_N2'', ''DDR_DQS_P3'', ''DDR_DQS_N3'', ''DDR_DM2'', ''DDR_DM3''] @
    names_run ''DDR_A'' 0 14 @
    [''DDR_BA0'', ''DDR_BA1'', ''DDR_BA2'', ''DDR_RAS_B'', ''DDR_CAS_B'', ''DDR_WE_B'', ''DDR_CK_P'', ''DDR_CK_N'',
      ''DDR_CKE'', ''DDR_CS_B'', ''DDR_ODT'', ''DDR_RESET_B'']"

definition ddr3l_decoupling_parts :: "component list" where
  "ddr3l_decoupling_parts =
    parts_run ''C'' 202 205 ''100n'' fp_c0402 ''Device:C'' @
    [part ''C206'' ''10u'' ''Capacitor_SMD:C_0805_2012Metric'' ''Device:C''] @
    parts_run ''C'' 207 210 ''100n'' fp_c0402 ''Device:C'' @
    [part ''C211'' ''10u'' ''Capacitor_SMD:C_0805_2012Metric'' ''Device:C''] @
    parts_run ''C'' 212 215 ''100n'' fp_c0402 ''Device:C'' @
    [part ''C216'' ''10u'' ''Capacitor_SMD:C_0805_2012Metric'' ''Device:C''] @
    parts_run ''C'' 217 220 ''100n'' fp_c0402 ''Device:C'' @
    [part ''C221'' ''10u'' ''Capacitor_SMD:C_0805_2012Metric'' ''Device:C'']"

definition ddr3l_notes_parts :: "component list" where
  "ddr3l_notes_parts =
    parts_run ''R'' 206 229 ''47R'' fp_r0402 ''Device:R''"

definition ddr3l_notes_labels :: "string list" where
  "ddr3l_notes_labels =
    names_run ''DDR_A'' 0 14 @
    [''DDR_BA0'', ''DDR_BA1'', ''DDR_BA2'', ''DDR_RAS_B'', ''DDR_CAS_B'', ''DDR_WE_B'', ''DDR_CKE'', ''DDR_CS_B'', ''DDR_ODT'']"

definition ddr3l_sheet_parts :: "component list" where
  "ddr3l_sheet_parts = ddr3l_chips_parts @ ddr3l_decoupling_parts @ ddr3l_notes_parts"

text \<open>The global labels and the power symbols, then the hierarchical labels.\<close>

definition ddr3l_sheet_nets :: "string list" where
  "ddr3l_sheet_nets = [''GND'', ''+1V35'', ''VTT''] @ ddr3l_chips_labels @ ddr3l_notes_labels"

section \<open>The sections\<close>

definition ddr3l_start :: reading where
  "ddr3l_start = no_reading\<lparr>r_cap := 200, r_res := 200\<rparr>"

lemma ddr3l_chips_read:
  "yields_section ddr3l_chips ddr3l_start
    (ddr3l_start\<lparr>r_cap := 202, r_res := 206, r_parts := rev ddr3l_chips_parts, r_rails := [''+1V35'', ''GND''],
      r_hiers := rev ddr3l_chips_labels\<rparr>)"
  unfolding ddr3l_chips_def place_ddr_chip_def
  by (rule sectionI, (simp only: loop_simps)?, (rule section_rules | simp only: loop_simps)+,
      code_simp)

lemma ddr3l_decoupling_read:
  "yields_section ddr3l_decoupling (ddr3l_start\<lparr>r_cap := 202, r_res := 206\<rparr>)
    (ddr3l_start\<lparr>r_cap := 222, r_res := 206, r_parts := rev ddr3l_decoupling_parts, r_rails := [''GND'',
      ''+1V35'']\<rparr>)"
  unfolding ddr3l_decoupling_def
  by (rule sectionI, (simp only: loop_simps)?, (rule section_rules | simp only: loop_simps)+,
      code_simp)

lemma ddr3l_notes_read:
  "yields_section ddr3l_notes (ddr3l_start\<lparr>r_cap := 222, r_res := 206\<rparr>)
    (ddr3l_start\<lparr>r_cap := 222, r_res := 230, r_parts := rev ddr3l_notes_parts, r_rails := [''VTT''],
      r_hiers := rev ddr3l_notes_labels\<rparr>)"
  unfolding ddr3l_notes_def place_vtt_termination_def
  by (rule sectionI, (simp only: loop_simps)?, (rule section_rules | simp only: loop_simps)+,
      code_simp)

section \<open>The file\<close>

lemma ddr3l_lib: "lib_block ddr3l_lib_symbols"
  unfolding ddr3l_lib_head_def ddr3l_lib_right_def ddr3l_lib_tail_def ddr3l_lib_symbols_def lib_device_c_def lib_device_r_def
    lib_gnd_def lib_power_def ddr3l_dq_map_def ddr3l_addr_balls_def
  by (rule lib_block_run, rule lib_begin_rule, (rule lib_end_rules walk_rules walks_literal | simp only: loop_simps ddr3l_dq_pins.simps ddr3l_addr_pins.simps)+, code_simp)

lemma ddr3l_body:
  "holds (draw [emit [], ddr3l_chips, ddr3l_decoupling, ddr3l_notes])
    ddr3l_start ddr3l_sheet_parts ddr3l_sheet_nets"
  by (rule holdsI,
      (rule section_one section_u section_j section_chain section_blank
          ddr3l_chips_read ddr3l_decoupling_read ddr3l_notes_read
        | (simp add: ddr3l_start_def no_reading_def outputs_empty_def; fail))+)
    (simp add: ddr3l_sheet_parts_def ddr3l_start_def no_reading_def,
     auto simp: ddr3l_sheet_nets_def ddr3l_start_def no_reading_def nets_read_def outputs_join_def)

lemma ddr3l_titles:
  "title_ok ''cirradio_gen_ddr3l''" "title_ok ''CIRRADIO Dev Board - DDR3L Memory (2x MT41K256M16HA-125)''" "title_ok ''1GB DDR3L: 2x 256Mx16 = 32-bit bus, fly-by address/command''" "title_ok ''VDD=VDDQ=+1V35, ZQ=240R 1%, VREFDQ=VDD/2 divider''"
  by code_simp+

lemma ddr3l_sheet_eq:
  "ddr3l_sheet rnd = draw [emit '')'']
    (draw [emit [], ddr3l_chips, ddr3l_decoupling, ddr3l_notes]
      (ddr3l_lib_symbols (emit_header ''cirradio_gen_ddr3l'' ''CIRRADIO Dev Board - DDR3L Memory (2x MT41K256M16HA-125)'' ''1GB DDR3L: 2x 256Mx16 = 32-bit bus, fly-by address/command'' ''VDD=VDDQ=+1V35, ZQ=240R 1%, VREFDQ=VDD/2 divider''
        ((empty_sheet rnd)\<lparr>cap_idx := 200, res_idx := 200, pwr_idx := 200\<rparr>))))"
  by (simp only: ddr3l_sheet_def draw_simps Let_def)

lemma ddr3l_file:
  "\<exists>content. gen_exit (gen_ddr3l rnd) = 0 \<and> gen_file (gen_ddr3l rnd) = Some (board_dir @ ''ddr3l.kicad_sch'', content) \<and>
    check_parens content = (True, 0) \<and> parse_schematic content = (ddr3l_sheet_parts, set ddr3l_sheet_nets)"
proof -
  note h = sheet_holds [OF ddr3l_lib ddr3l_titles, OF _ _ _ _ ddr3l_body, OF _ _ _ _ ddr3l_sheet_eq]
  show ?thesis unfolding gen_ddr3l_def Let_def case_prod_beta
    by (rule h) (simp_all add: empty_sheet_def ddr3l_start_def no_reading_def outputs_empty_def same_indices_def)
qed

text \<open>
  C35: Run with any random bytes, \<open>gen_ddr3l.py\<close> ends with status 0 and writes a balanced file; the parser
  of the netlist script reads in it exactly the listed parts, in the order they are drawn, and the
  listed nets.
\<close>

theorem ddr3l_read_back:
  "\<exists>content. gen_exit (gen_ddr3l rnd) = 0 \<and> gen_file (gen_ddr3l rnd) = Some (board_dir @ ''ddr3l.kicad_sch'', content) \<and>
    check_parens content = (True, 0) \<and> parse_schematic content = (ddr3l_sheet_parts, set ddr3l_sheet_nets)"
  by (rule ddr3l_file)
end
