(* ===== verification/Ad9361.thy ===== *)
theory Ad9361
  imports Schematic
begin

text \<open>
  The transceiver sheet, \<open>hardware/cirradio-devboard/gen_ad9361.py\<close>: the four units of the
  AD9361, its reference clock, the 1.3 V regulator and the decoupling.
\<close>

section \<open>Library symbols\<close>

definition ad9361_lib_passives :: "stmt" where
  \<open>ad9361_lib_passives = draw [
    emit ''  (lib_symbols'',
    emit lib_device_r,
    emit lib_device_c]\<close>

definition ad9361_lib_unit1 :: "stmt" where
  \<open>ad9361_lib_unit1 = draw [
    emit (py_join [nl]
       [''    (symbol "cirradio:AD9361BBCZ"'',
        ''      (pin_names (offset 0.254))'',
        ''      (exclude_from_sim no) (in_bom yes) (on_board yes)'',
        ''      (property "Reference" "U" (at 0 1.27 0) (effects (font (size 1.27 1.27))))'',
        ''      (property "Value" "AD9361BBCZ" (at 0 -1.27 0) (effects (font (size 1.27 1.27))))'',
        ''      (property "Footprint" "" (at 0 0 0) (effects (font (size 1.27 1.27)) hide))'',
        ''      (property "Datasheet" "" (at 0 0 0) (effects (font (size 1.27 1.27)) hide))'',
        ''      (symbol "AD9361BBCZ_0_1"'',
        ''        (rectangle (start -15.24 43.18) (end 15.24 -43.18) (stroke (width 0.254) (type default)) (fill (type background)))'',
        ''      )'',
        ''      (symbol "AD9361BBCZ_1_1"'']),
    (let lvds_data_pins = [(''P0_D0+'', ''L3'', dec 4064 2),
          (''P0_D0-'', ''L2'', dec 381 1),
          (''P0_D1+'', ''L5'', dec 3556 2),
          (''P0_D1-'', ''L4'', dec 3302 2),
          (''P0_D2+'', ''K3'', dec 3048 2),
          (''P0_D2-'', ''K2'', dec 2794 2),
          (''P0_D3+'', ''K5'', dec 254 1),
          (''P0_D3-'', ''K4'', dec 2286 2),
          (''P0_D4+'', ''J3'', dec 2032 2),
          (''P0_D4-'', ''J2'', dec 1778 2),
          (''P0_D5+'', ''J5'', dec 1524 2),
          (''P0_D5-'', ''J4'', dec 127 1),
          (''P0_D6+'', ''H3'', dec 1016 2),
          (''P0_D6-'', ''H2'', dec 762 2),
          (''P0_D7+'', ''H5'', dec 508 2),
          (''P0_D7-'', ''H4'', dec 254 2),
          (''P0_D8+'', ''G3'', PInt 0),
          (''P0_D8-'', ''G2'', dec (- 254) 2),
          (''P0_D9+'', ''G5'', dec (- 508) 2),
          (''P0_D9-'', ''G4'', dec (- 762) 2),
          (''P0_D10+'', ''F3'', dec (- 1016) 2),
          (''P0_D10-'', ''F2'', dec (- 127) 1),
          (''P0_D11+'', ''F5'', dec (- 1524) 2),
          (''P0_D11-'', ''F4'', dec (- 1778) 2)]
    in draw [
      draw (map (\<lambda>(name, num, y). emit (''        (pin bidirectional line (at 17.78 '' @ num_str y @
          '' 180) (length 2.54) (name "'' @ name @ ''" (effects (font (size 1.27 1.27)))) (number "'' @ num @
          ''" (effects (font (size 1.27 1.27)))))'')) lvds_data_pins),
      (let lvds_clk_pins = [(''DATA_CLK+'', ''M5'', dec 4064 2, ''output''),
          (''DATA_CLK-'', ''M4'', dec 381 1, ''output''),
          (''FB_CLK+'', ''M3'', dec 3556 2, ''input''),
          (''FB_CLK-'', ''M2'', dec 3302 2, ''input''),
          (''RX_FRAME+'', ''E3'', dec 2794 2, ''output''),
          (''RX_FRAME-'', ''E2'', dec 254 1, ''output''),
          (''TX_FRAME+'', ''E5'', dec 2286 2, ''input''),
          (''TX_FRAME-'', ''E4'', dec 2032 2, ''input'')]
      in draw [
        draw (map (\<lambda>(name, num, y, ptype). emit (''        (pin '' @ ptype @ '' line (at -17.78 '' @ num_str y @
            '' 0) (length 2.54) (name "'' @ name @ ''" (effects (font (size 1.27 1.27)))) (number "'' @ num @
            ''" (effects (font (size 1.27 1.27)))))'')) lvds_clk_pins),
        emit ''      )''])])]\<close>

definition ad9361_lib_units :: "stmt" where
  \<open>ad9361_lib_units = draw [
    emit (py_join [nl]
       [''      (symbol "AD9361BBCZ_2_1"'',
        ''        (rectangle (start -12.7 20.32) (end 12.7 -20.32) (stroke (width 0.254) (type default)) (fill (type background)))'',
        ''        (pin input line (at -15.24 17.78 0) (length 2.54) (name "SPI_CLK" (effects (font (size 1.27 1.27)))) (number "A6" (effects (font (size 1.27 1.27)))))'',
        ''        (pin input line (at -15.24 15.24 0) (length 2.54) (name "SPI_DI" (effects (font (size 1.27 1.27)))) (number "A5" (effects (font (size 1.27 1.27)))))'',
        ''        (pin output line (at -15.24 12.7 0) (length 2.54) (name "SPI_DO" (effects (font (size 1.27 1.27)))) (number "A4" (effects (font (size 1.27 1.27)))))'',
        ''        (pin input line (at -15.24 10.16 0) (length 2.54) (name "SPI_ENB" (effects (font (size 1.27 1.27)))) (number "A7" (effects (font (size 1.27 1.27)))))'',
        ''        (pin input line (at 15.24 17.78 180) (length 2.54) (name "CTRL_IN0" (effects (font (size 1.27 1.27)))) (number "D1" (effects (font (size 1.27 1.27)))))'',
        ''        (pin input line (at 15.24 15.24 180) (length 2.54) (name "CTRL_IN1" (effects (font (size 1.27 1.27)))) (number "C1" (effects (font (size 1.27 1.27)))))'',
        ''        (pin input line (at 15.24 12.7 180) (length 2.54) (name "CTRL_IN2" (effects (font (size 1.27 1.27)))) (number "B1" (effects (font (size 1.27 1.27)))))'',
        ''        (pin input line (at 15.24 10.16 180) (length 2.54) (name "CTRL_IN3" (effects (font (size 1.27 1.27)))) (number "A1" (effects (font (size 1.27 1.27)))))'',
        ''        (pin output line (at 15.24 5.08 180) (length 2.54) (name "CTRL_OUT0" (effects (font (size 1.27 1.27)))) (number "D3" (effects (font (size 1.27 1.27)))))'',
        ''        (pin output line (at 15.24 2.54 180) (length 2.54) (name "CTRL_OUT1" (effects (font (size 1.27 1.27)))) (number "D4" (effects (font (size 1.27 1.27)))))'',
        ''        (pin output line (at 15.24 0 180) (length 2.54) (name "CTRL_OUT2" (effects (font (size 1.27 1.27)))) (number "D5" (effects (font (size 1.27 1.27)))))'',
        ''        (pin output line (at 15.24 -2.54 180) (length 2.54) (name "CTRL_OUT3" (effects (font (size 1.27 1.27)))) (number "C2" (effects (font (size 1.27 1.27)))))'',
        ''        (pin output line (at 15.24 -5.08 180) (length 2.54) (name "CTRL_OUT4" (effects (font (size 1.27 1.27)))) (number "C3" (effects (font (size 1.27 1.27)))))'',
        ''        (pin output line (at 15.24 -7.62 180) (length 2.54) (name "CTRL_OUT5" (effects (font (size 1.27 1.27)))) (number "C4" (effects (font (size 1.27 1.27)))))'',
        ''        (pin output line (at 15.24 -10.16 180) (length 2.54) (name "CTRL_OUT6" (effects (font (size 1.27 1.27)))) (number "C5" (effects (font (size 1.27 1.27)))))'',
        ''        (pin output line (at 15.24 -12.7 180) (length 2.54) (name "CTRL_OUT7" (effects (font (size 1.27 1.27)))) (number "B2" (effects (font (size 1.27 1.27)))))'',
        ''        (pin input line (at -15.24 5.08 0) (length 2.54) (name "EN_AGC" (effects (font (size 1.27 1.27)))) (number "B3" (effects (font (size 1.27 1.27)))))'',
        ''        (pin input line (at -15.24 2.54 0) (length 2.54) (name "ENABLE" (effects (font (size 1.27 1.27)))) (number "B4" (effects (font (size 1.27 1.27)))))'',
        ''        (pin input line (at -15.24 0 0) (length 2.54) (name "TXNRX" (effects (font (size 1.27 1.27)))) (number "B5" (effects (font (size 1.27 1.27)))))'',
        ''        (pin input line (at -15.24 -5.08 0) (length 2.54) (name "RESETB" (effects (font (size 1.27 1.27)))) (number "A3" (effects (font (size 1.27 1.27)))))'',
        ''      )'']),
    emit (py_join [nl]
       [''      (symbol "AD9361BBCZ_3_1"'',
        ''        (rectangle (start -12.7 22.86) (end 12.7 -22.86) (stroke (width 0.254) (type default)) (fill (type background)))'',
        ''        (pin passive line (at -15.24 20.32 0) (length 2.54) (name "RX1A_P" (effects (font (size 1.27 1.27)))) (number "K12" (effects (font (size 1.27 1.27)))))'',
        ''        (pin passive line (at -15.24 17.78 0) (length 2.54) (name "RX1A_N" (effects (font (size 1.27 1.27)))) (number "L12" (effects (font (size 1.27 1.27)))))'',
        ''        (pin passive line (at -15.24 15.24 0) (length 2.54) (name "RX1B_P" (effects (font (size 1.27 1.27)))) (number "J11" (effects (font (size 1.27 1.27)))))'',
        ''        (pin passive line (at -15.24 12.7 0) (length 2.54) (name "RX1B_N" (effects (font (size 1.27 1.27)))) (number "J12" (effects (font (size 1.27 1.27)))))'',
        ''        (pin passive line (at -15.24 10.16 0) (length 2.54) (name "RX1C_P" (effects (font (size 1.27 1.27)))) (number "H11" (effects (font (size 1.27 1.27)))))'',
        ''        (pin passive line (at -15.24 7.62 0) (length 2.54) (name "RX1C_N" (effects (font (size 1.27 1.27)))) (number "H12" (effects (font (size 1.27 1.27)))))'',
        ''        (pin passive line (at -15.24 2.54 0) (length 2.54) (name "RX2A_P" (effects (font (size 1.27 1.27)))) (number "G11" (effects (font (size 1.27 1.27)))))'',
        ''        (pin passive line (at -15.24 0 0) (length 2.54) (name "RX2A_N" (effects (font (size 1.27 1.27)))) (number "G12" (effects (font (size 1.27 1.27)))))'',
        ''        (pin passive line (at 15.24 20.32 180) (length 2.54) (name "TX1A" (effects (font (size 1.27 1.27)))) (number "E12" (effects (font (size 1.27 1.27)))))'',
        ''        (pin passive line (at 15.24 17.78 180) (length 2.54) (name "TX1B" (effects (font (size 1.27 1.27)))) (number "D12" (effects (font (size 1.27 1.27)))))'',
        ''        (pin passive line (at 15.24 12.7 180) (length 2.54) (name "TX2A" (effects (font (size 1.27 1.27)))) (number "C12" (effects (font (size 1.27 1.27)))))'',
        ''        (pin passive line (at -15.24 -5.08 0) (length 2.54) (name "XTALP" (effects (font (size 1.27 1.27)))) (number "A12" (effects (font (size 1.27 1.27)))))'',
        ''        (pin passive line (at -15.24 -7.62 0) (length 2.54) (name "XTALN" (effects (font (size 1.27 1.27)))) (number "A11" (effects (font (size 1.27 1.27)))))'',
        ''      )'']),
    emit (py_join [nl]
       [''      (symbol "AD9361BBCZ_4_1"'',
        ''        (rectangle (start -12.7 27.94) (end 12.7 -27.94) (stroke (width 0.254) (type default)) (fill (type background)))'',
        ''        (pin power_in line (at -15.24 25.4 0) (length 2.54) (name "VDDA1P3_BB" (effects (font (size 1.27 1.27)))) (number "M12" (effects (font (size 1.27 1.27)))))'',
        ''        (pin power_in line (at -15.24 22.86 0) (length 2.54) (name "VDDA1P3_BB" (effects (font (size 1.27 1.27)))) (number "M11" (effects (font (size 1.27 1.27)))))'',
        ''        (pin power_in line (at -15.24 20.32 0) (length 2.54) (name "VDDA1P3_RX" (effects (font (size 1.27 1.27)))) (number "F12" (effects (font (size 1.27 1.27)))))'',
        ''        (pin power_in line (at -15.24 17.78 0) (length 2.54) (name "VDDA1P3_RX" (effects (font (size 1.27 1.27)))) (number "F11" (effects (font (size 1.27 1.27)))))'',
        ''        (pin power_in line (at -15.24 15.24 0) (length 2.54) (name "VDDA1P3_TX" (effects (font (size 1.27 1.27)))) (number "B12" (effects (font (size 1.27 1.27)))))'',
        ''        (pin power_in line (at -15.24 12.7 0) (length 2.54) (name "VDDA1P3_TX" (effects (font (size 1.27 1.27)))) (number "B11" (effects (font (size 1.27 1.27)))))'',
        ''        (pin power_in line (at -15.24 7.62 0) (length 2.54) (name "VDDD1P3_DIG" (effects (font (size 1.27 1.27)))) (number "M1" (effects (font (size 1.27 1.27)))))'',
        ''        (pin power_in line (at -15.24 5.08 0) (length 2.54) (name "VDDD1P3_DIG" (effects (font (size 1.27 1.27)))) (number "L1" (effects (font (size 1.27 1.27)))))'',
        ''        (pin power_in line (at -15.24 0 0) (length 2.54) (name "VDDD_IF" (effects (font (size 1.27 1.27)))) (number "D2" (effects (font (size 1.27 1.27)))))'',
        ''        (pin power_in line (at -15.24 -2.54 0) (length 2.54) (name "VDDD_IF" (effects (font (size 1.27 1.27)))) (number "E1" (effects (font (size 1.27 1.27)))))'',
        ''        (pin power_in line (at -15.24 -7.62 0) (length 2.54) (name "VDDA3P3" (effects (font (size 1.27 1.27)))) (number "A10" (effects (font (size 1.27 1.27)))))'',
        ''        (pin power_in line (at -15.24 -10.16 0) (length 2.54) (name "VDDA3P3" (effects (font (size 1.27 1.27)))) (number "A9" (effects (font (size 1.27 1.27)))))'',
        ''        (pin power_in line (at 15.24 25.4 180) (length 2.54) (name "GNDA" (effects (font (size 1.27 1.27)))) (number "K11" (effects (font (size 1.27 1.27)))))'',
        ''        (pin power_in line (at 15.24 22.86 180) (length 2.54) (name "GNDA" (effects (font (size 1.27 1.27)))) (number "L11" (effects (font (size 1.27 1.27)))))'',
        ''        (pin power_in line (at 15.24 20.32 180) (length 2.54) (name "GNDA" (effects (font (size 1.27 1.27)))) (number "M10" (effects (font (size 1.27 1.27)))))'',
        ''        (pin power_in line (at 15.24 17.78 180) (length 2.54) (name "GNDA" (effects (font (size 1.27 1.27)))) (number "M9" (effects (font (size 1.27 1.27)))))'',
        ''        (pin power_in line (at 15.24 15.24 180) (length 2.54) (name "GNDA" (effects (font (size 1.27 1.27)))) (number "M8" (effects (font (size 1.27 1.27)))))'',
        ''        (pin power_in line (at 15.24 12.7 180) (length 2.54) (name "GNDA" (effects (font (size 1.27 1.27)))) (number "M7" (effects (font (size 1.27 1.27)))))'',
        ''        (pin power_in line (at 15.24 7.62 180) (length 2.54) (name "GNDD" (effects (font (size 1.27 1.27)))) (number "M6" (effects (font (size 1.27 1.27)))))'',
        ''        (pin power_in line (at 15.24 5.08 180) (length 2.54) (name "GNDD" (effects (font (size 1.27 1.27)))) (number "L6" (effects (font (size 1.27 1.27)))))'',
        ''        (pin power_in line (at 15.24 2.54 180) (length 2.54) (name "GNDD" (effects (font (size 1.27 1.27)))) (number "K6" (effects (font (size 1.27 1.27)))))'',
        ''        (pin power_in line (at 15.24 0 180) (length 2.54) (name "GNDD" (effects (font (size 1.27 1.27)))) (number "J6" (effects (font (size 1.27 1.27)))))'',
        ''        (pin power_in line (at 15.24 -2.54 180) (length 2.54) (name "GNDD" (effects (font (size 1.27 1.27)))) (number "H6" (effects (font (size 1.27 1.27)))))'',
        ''        (pin power_in line (at 15.24 -5.08 180) (length 2.54) (name "GNDD" (effects (font (size 1.27 1.27)))) (number "G6" (effects (font (size 1.27 1.27)))))'',
        ''        (pin power_in line (at 15.24 -7.62 180) (length 2.54) (name "GNDD" (effects (font (size 1.27 1.27)))) (number "F6" (effects (font (size 1.27 1.27)))))'',
        ''        (pin power_in line (at 15.24 -10.16 180) (length 2.54) (name "GNDD" (effects (font (size 1.27 1.27)))) (number "E6" (effects (font (size 1.27 1.27)))))'',
        ''        (pin power_in line (at 15.24 -15.24 180) (length 2.54) (name "DGND_FILT" (effects (font (size 1.27 1.27)))) (number "F1" (effects (font (size 1.27 1.27)))))'',
        ''        (pin power_in line (at -15.24 -15.24 0) (length 2.54) (name "VDDD_FILT" (effects (font (size 1.27 1.27)))) (number "G1" (effects (font (size 1.27 1.27)))))'',
        ''        (pin passive line (at -15.24 -20.32 0) (length 2.54) (name "RBIAS" (effects (font (size 1.27 1.27)))) (number "A8" (effects (font (size 1.27 1.27)))))'',
        ''        (pin passive line (at 15.24 -20.32 180) (length 2.54) (name "TEMP_SENSE" (effects (font (size 1.27 1.27)))) (number "A2" (effects (font (size 1.27 1.27)))))'',
        ''      )'',
        ''    )''])]\<close>

definition ad9361_lib_rest :: "stmt" where
  \<open>ad9361_lib_rest = draw [
    emit (py_join [nl]
       [''    (symbol "cirradio:OX200-SC-040.0M"'',
        ''      (pin_names (offset 0.254))'',
        ''      (exclude_from_sim no) (in_bom yes) (on_board yes)'',
        ''      (property "Reference" "Y" (at 0 8.89 0) (effects (font (size 1.27 1.27))))'',
        ''      (property "Value" "OX200-SC-040.0M" (at 0 -8.89 0) (effects (font (size 1.27 1.27))))'',
        ''      (property "Footprint" "" (at 0 0 0) (effects (font (size 1.27 1.27)) hide))'',
        ''      (property "Datasheet" "" (at 0 0 0) (effects (font (size 1.27 1.27)) hide))'',
        ''      (symbol "OX200-SC-040.0M_0_1"'',
        ''        (rectangle (start -7.62 7.62) (end 7.62 -7.62) (stroke (width 0.254) (type default)) (fill (type background)))'',
        ''      )'',
        ''      (symbol "OX200-SC-040.0M_1_1"'',
        ''        (pin no_connect line (at -10.16 5.08 0) (length 2.54) (name "NC" (effects (font (size 1.27 1.27)))) (number "1" (effects (font (size 1.27 1.27)))))'',
        ''        (pin no_connect line (at -10.16 2.54 0) (length 2.54) (name "NC" (effects (font (size 1.27 1.27)))) (number "2" (effects (font (size 1.27 1.27)))))'',
        ''        (pin no_connect line (at -10.16 0 0) (length 2.54) (name "NC" (effects (font (size 1.27 1.27)))) (number "3" (effects (font (size 1.27 1.27)))))'',
        ''        (pin no_connect line (at -10.16 -2.54 0) (length 2.54) (name "NC" (effects (font (size 1.27 1.27)))) (number "4" (effects (font (size 1.27 1.27)))))'',
        ''        (pin no_connect line (at -10.16 -5.08 0) (length 2.54) (name "NC" (effects (font (size 1.27 1.27)))) (number "5" (effects (font (size 1.27 1.27)))))'',
        ''        (pin no_connect line (at 10.16 -5.08 180) (length 2.54) (name "NC" (effects (font (size 1.27 1.27)))) (number "6" (effects (font (size 1.27 1.27)))))'',
        ''        (pin power_in line (at 0 -10.16 90) (length 2.54) (name "GND" (effects (font (size 1.27 1.27)))) (number "7" (effects (font (size 1.27 1.27)))))'',
        ''        (pin output line (at 10.16 2.54 180) (length 2.54) (name "OUTPUT" (effects (font (size 1.27 1.27)))) (number "8" (effects (font (size 1.27 1.27)))))'',
        ''        (pin no_connect line (at 10.16 -2.54 180) (length 2.54) (name "NC" (effects (font (size 1.27 1.27)))) (number "9" (effects (font (size 1.27 1.27)))))'',
        ''        (pin no_connect line (at 10.16 0 180) (length 2.54) (name "NC" (effects (font (size 1.27 1.27)))) (number "10" (effects (font (size 1.27 1.27)))))'',
        ''        (pin no_connect line (at 10.16 -5.08 180) (length 2.54) (name "NC" (effects (font (size 1.27 1.27)))) (number "11" (effects (font (size 1.27 1.27)))))'',
        ''        (pin no_connect line (at 10.16 -5.08 180) (length 2.54) (name "NC" (effects (font (size 1.27 1.27)))) (number "12" (effects (font (size 1.27 1.27)))))'',
        ''        (pin no_connect line (at 10.16 -5.08 180) (length 2.54) (name "NC" (effects (font (size 1.27 1.27)))) (number "13" (effects (font (size 1.27 1.27)))))'',
        ''        (pin power_in line (at 0 10.16 270) (length 2.54) (name "VCC" (effects (font (size 1.27 1.27)))) (number "14" (effects (font (size 1.27 1.27)))))'',
        ''      )'',
        ''    )'']),
    emit (py_join [nl]
       [''    (symbol "cirradio:LDO_Generic"'',
        ''      (pin_names (offset 0.254))'',
        ''      (exclude_from_sim no) (in_bom yes) (on_board yes)'',
        ''      (property "Reference" "U" (at 0 6.35 0) (effects (font (size 1.27 1.27))))'',
        ''      (property "Value" "LDO_Generic" (at 0 -6.35 0) (effects (font (size 1.27 1.27))))'',
        ''      (property "Footprint" "" (at 0 0 0) (effects (font (size 1.27 1.27)) hide))'',
        ''      (property "Datasheet" "" (at 0 0 0) (effects (font (size 1.27 1.27)) hide))'',
        ''      (symbol "LDO_Generic_0_1"'',
        ''        (rectangle (start -7.62 5.08) (end 7.62 -5.08) (stroke (width 0.254) (type default)) (fill (type background)))'',
        ''      )'',
        ''      (symbol "LDO_Generic_1_1"'',
        ''        (pin power_in line (at -10.16 2.54 0) (length 2.54) (name "VIN" (effects (font (size 1.27 1.27)))) (number "1" (effects (font (size 1.27 1.27)))))'',
        ''        (pin power_in line (at 0 -7.62 90) (length 2.54) (name "GND" (effects (font (size 1.27 1.27)))) (number "2" (effects (font (size 1.27 1.27)))))'',
        ''        (pin input line (at -10.16 -2.54 0) (length 2.54) (name "EN" (effects (font (size 1.27 1.27)))) (number "3" (effects (font (size 1.27 1.27)))))'',
        ''        (pin passive line (at 10.16 -2.54 180) (length 2.54) (name "NC" (effects (font (size 1.27 1.27)))) (number "4" (effects (font (size 1.27 1.27)))))'',
        ''        (pin power_out line (at 10.16 2.54 180) (length 2.54) (name "VOUT" (effects (font (size 1.27 1.27)))) (number "5" (effects (font (size 1.27 1.27)))))'',
        ''      )'',
        ''    )'']),
    draw (map (\<lambda>net. (if net = ''GND'' then emit lib_gnd
      else emit (lib_power net))) [''+1V3_AD'', ''+1V8'', ''+3V3A'', ''GND'']),
    emit ''  )'']\<close>

definition ad9361_lib_symbols :: "stmt" where
  "ad9361_lib_symbols = draw [ad9361_lib_passives, ad9361_lib_unit1, ad9361_lib_units, ad9361_lib_rest]"

section \<open>The drawing\<close>

definition ad9361_lvds :: "stmt" where
  \<open>ad9361_lvds = draw [
    text_note ''AD9361 LVDS DATA INTERFACE (Unit 1)'' (PInt 30) (PInt 20) (dec 20 1),
    text_note ''16 LVDS pairs: P0_D[11:0], DATA_CLK, FB_CLK, RX_FRAME, TX_FRAME'' (PInt 30) (PInt 25) (dec 127 2),
    (let u1_x = PInt 100;
        u1_y = PInt 80
    in draw [
      symbol_instance ''cirradio:AD9361BBCZ'' ''U10'' ''AD9361BBCZ'' u1_x u1_y 1 0 ''cirradio:BGA-144_12x12_0.8mm'' [],
      (let unit1_pins = [''L3'', ''L2'', ''L5'', ''L4'', ''K3'', ''K2'', ''K5'', ''K4'', ''J3'', ''J2'', ''J5'', ''J4'', ''H3'', ''H2'',
          ''H5'', ''H4'', ''G3'', ''G2'', ''G5'', ''G4'', ''F3'', ''F2'', ''F5'', ''F4'', ''M5'', ''M4'', ''M3'', ''M2'', ''E3'', ''E2'',
          ''E5'', ''E4'']
      in draw [
        symbol_pins unit1_pins,
        (let hl_right = u1_x + PInt 25;
            data_pairs = [(''P0_D0_P'', dec 4064 2),
          (''P0_D0_N'', dec 381 1),
          (''P0_D1_P'', dec 3556 2),
          (''P0_D1_N'', dec 3302 2),
          (''P0_D2_P'', dec 3048 2),
          (''P0_D2_N'', dec 2794 2),
          (''P0_D3_P'', dec 254 1),
          (''P0_D3_N'', dec 2286 2),
          (''P0_D4_P'', dec 2032 2),
          (''P0_D4_N'', dec 1778 2),
          (''P0_D5_P'', dec 1524 2),
          (''P0_D5_N'', dec 127 1),
          (''P0_D6_P'', dec 1016 2),
          (''P0_D6_N'', dec 762 2),
          (''P0_D7_P'', dec 508 2),
          (''P0_D7_N'', dec 254 2),
          (''P0_D8_P'', PInt 0),
          (''P0_D8_N'', dec (- 254) 2),
          (''P0_D9_P'', dec (- 508) 2),
          (''P0_D9_N'', dec (- 762) 2),
          (''P0_D10_P'', dec (- 1016) 2),
          (''P0_D10_N'', dec (- 127) 1),
          (''P0_D11_P'', dec (- 1524) 2),
          (''P0_D11_N'', dec (- 1778) 2)]
        in draw [
          draw (map (\<lambda>(name, y_off). (let y = u1_y + y_off
            in draw [
              wire (u1_x + dec 1778 2) y hl_right y,
              hier_label name hl_right y ''bidirectional'' 0])) data_pairs),
          (let hl_left = u1_x - PInt 25;
              clk_frame_pairs = [(''DATA_CLK_P'', dec 4064 2),
          (''DATA_CLK_N'', dec 381 1),
          (''FB_CLK_P'', dec 3556 2),
          (''FB_CLK_N'', dec 3302 2),
          (''RX_FRAME_P'', dec 2794 2),
          (''RX_FRAME_N'', dec 254 1),
          (''TX_FRAME_P'', dec 2286 2),
          (''TX_FRAME_N'', dec 2032 2)]
          in draw (map (\<lambda>(name, y_off). (let y = u1_y + y_off
              in draw [
                wire (u1_x - dec 1778 2) y hl_left y,
                hier_label name hl_left y ''bidirectional'' 180])) clk_frame_pairs))])])])]\<close>

definition ad9361_spi :: "stmt" where
  \<open>ad9361_spi = draw [
    text_note ''AD9361 SPI + CONTROL (Unit 2)'' (PInt 200) (PInt 20) (dec 20 1),
    text_note ''SPI with 33R series, CTRL_IN/OUT, EN_AGC, ENABLE, TXNRX, RESETB'' (PInt 200) (PInt 25) (dec 127 2),
    (let u2_x = PInt 270;
        u2_y = PInt 65
    in draw [
      symbol_instance ''cirradio:AD9361BBCZ'' ''U10'' ''AD9361BBCZ'' u2_x u2_y 2 0 ''cirradio:BGA-144_12x12_0.8mm'' [],
      (let unit2_pins = [''A6'', ''A5'', ''A4'', ''A7'', ''D1'', ''C1'', ''B1'', ''A1'', ''D3'', ''D4'', ''D5'', ''C2'', ''C3'', ''C4'',
          ''C5'', ''B2'', ''B3'', ''B4'', ''B5'', ''A3'']
      in draw [
        symbol_pins unit2_pins,
        (let spi_hl_x = u2_x - PInt 35;
            spi_signals = [(''AD_SCLK'', ''SPI_CLK'', dec 1778 2),
          (''AD_MOSI'', ''SPI_DI'', dec 1524 2),
          (''AD_MISO'', ''SPI_DO'', dec 127 1),
          (''AD_CS_N'', ''SPI_ENB'', dec 1016 2)]
        in draw [
          draw (map (\<lambda>(label_name, pin_name, y_off). (let y = u2_y + y_off;
                res_x = u2_x - PInt 25
            in draw [
              resistor ''33R'' res_x y 90 [],
              wire (u2_x - dec 1524 2) y (res_x + dec 381 2) y,
              wire (res_x - dec 381 2) y spi_hl_x y,
              hier_label label_name spi_hl_x y ''bidirectional'' 180])) spi_signals),
          (let ctrl_in_hl_x = u2_x - PInt 30
          in draw [
            draw (map (\<lambda>(label_name, y_off). (let y = u2_y + y_off
              in draw [
                wire (u2_x - dec 1524 2) y ctrl_in_hl_x y,
                hier_label label_name ctrl_in_hl_x y ''input'' 180])) [(''EN_AGC'', dec 508 2),
          (''ENABLE'', dec 254 2),
          (''TXNRX'', PInt 0)]),
            (let resetb_y = u2_y - dec 508 2
            in draw [
              wire (u2_x - dec 1524 2) resetb_y ctrl_in_hl_x resetb_y,
              hier_label ''RESETB'' ctrl_in_hl_x resetb_y ''input'' 180,
              (let pu_x = u2_x - PInt 22
              in draw [
                resistor ''10K'' pu_x (resetb_y - PInt 7) 0 [],
                wire pu_x (resetb_y - dec 319 2) pu_x resetb_y,
                wire pu_x (resetb_y - dec 1081 2) pu_x (resetb_y - PInt 13),
                power_symbol ''+1V3_AD'' pu_x (resetb_y - PInt 13) 0,
                (let ctrl_right_hl = u2_x + PInt 22
                in draw [
                  draw (map (\<lambda>i. (let y = u2_y + dec 1778 2 - PInt i * dec 254 2
                    in draw [
                      wire (u2_x + dec 1524 2) y ctrl_right_hl y,
                      hier_label (''CTRL_IN'' @ int_str i) ctrl_right_hl y ''input'' 0])) [0..3]),
                  draw (map (\<lambda>i. (let y = u2_y + dec 508 2 - PInt i * dec 254 2
                    in draw [
                      wire (u2_x + dec 1524 2) y ctrl_right_hl y,
                      hier_label (''CTRL_OUT'' @ int_str i) ctrl_right_hl y ''output'' 0])) [0..7])])])])])])])])]\<close>

definition ad9361_rf :: "stmt" where
  \<open>ad9361_rf = draw [
    text_note ''AD9361 RF PORTS + REFERENCE CLOCK (Unit 3)'' (PInt 30) (PInt 175) (dec 20 1),
    text_note ''RX1A, TX1A to RF sheet; 40 MHz OCXO reference clock'' (PInt 30) (PInt 180) (dec 127 2),
    (let u3_x = PInt 100;
        u3_y = PInt 225
    in draw [
      symbol_instance ''cirradio:AD9361BBCZ'' ''U10'' ''AD9361BBCZ'' u3_x u3_y 3 0 ''cirradio:BGA-144_12x12_0.8mm'' [],
      (let unit3_pins = [''K12'', ''L12'', ''J11'', ''J12'', ''H11'', ''H12'', ''G11'', ''G12'', ''E12'', ''D12'', ''C12'', ''A12'',
          ''A11'']
      in draw [
        symbol_pins unit3_pins,
        (let rf_hl_x = u3_x - PInt 25
        in draw [
          hier_label ''AD_RX1A_P'' rf_hl_x (u3_y + dec 2032 2) ''input'' 180,
          wire (u3_x - dec 1524 2) (u3_y + dec 2032 2) rf_hl_x (u3_y + dec 2032 2),
          hier_label ''AD_RX1A_N'' rf_hl_x (u3_y + dec 1778 2) ''input'' 180,
          wire (u3_x - dec 1524 2) (u3_y + dec 1778 2) rf_hl_x (u3_y + dec 1778 2),
          (let rf_tx_hl_x = u3_x + PInt 25
          in draw [
            hier_label ''AD_TX1A'' rf_tx_hl_x (u3_y + dec 2032 2) ''output'' 0,
            wire (u3_x + dec 1524 2) (u3_y + dec 2032 2) rf_tx_hl_x (u3_y + dec 2032 2),
            text_note ''RX1B/C, RX2A, TX1B, TX2A: unused (NC)'' (u3_x - PInt 25) (u3_y + PInt 10) (dec 10 1),
            text_note ''40 MHz OCXO (OX200-SC)'' (PInt 200) (PInt 195) (dec 127 2),
            (let ocxo_x = PInt 240;
                ocxo_y = PInt 220
            in draw [
              symbol_instance ''cirradio:OX200-SC-040.0M'' ''Y2'' ''40.000MHz OCXO'' ocxo_x ocxo_y 1 0 ''cirradio:DIP-14_W7.62mm'' [],
              (let ocxo_pins = [''1'', ''2'', ''3'', ''4'', ''5'', ''6'', ''7'', ''8'', ''9'', ''10'', ''11'', ''12'', ''13'', ''14'']
              in draw [
                symbol_pins ocxo_pins,
                power_symbol ''+3V3A'' ocxo_x (ocxo_y - PInt 14) 0,
                wire ocxo_x (ocxo_y - dec 1016 2) ocxo_x (ocxo_y - PInt 14),
                power_symbol ''GND'' ocxo_x (ocxo_y + PInt 14) 0,
                wire ocxo_x (ocxo_y + dec 1016 2) ocxo_x (ocxo_y + PInt 14),
                cap ''100n'' (ocxo_x + PInt 14) (ocxo_y - PInt 8) 0 ''Capacitor_SMD:C_0402_1005Metric'',
                wire (ocxo_x + PInt 14) (ocxo_y - dec 1181 2) (ocxo_x + PInt 14) (ocxo_y - PInt 14),
                power_symbol ''+3V3A'' (ocxo_x + PInt 14) (ocxo_y - PInt 14) 0,
                wire (ocxo_x + PInt 14) (ocxo_y - dec 419 2) (ocxo_x + PInt 14) (ocxo_y - PInt 2),
                power_symbol ''GND'' (ocxo_x + PInt 14) (ocxo_y - PInt 2) 0,
                cap ''10u'' (ocxo_x + PInt 20) (ocxo_y - PInt 8) 0 ''Capacitor_SMD:C_0805_2012Metric'',
                wire (ocxo_x + PInt 20) (ocxo_y - dec 1181 2) (ocxo_x + PInt 20) (ocxo_y - PInt 14),
                power_symbol ''+3V3A'' (ocxo_x + PInt 20) (ocxo_y - PInt 14) 0,
                wire (ocxo_x + PInt 20) (ocxo_y - dec 419 2) (ocxo_x + PInt 20) (ocxo_y - PInt 2),
                power_symbol ''GND'' (ocxo_x + PInt 20) (ocxo_y - PInt 2) 0,
                (let out_y = ocxo_y + dec 254 2;
                    ac_cap_x = ocxo_x + PInt 18
                in draw [
                  cap ''100p'' ac_cap_x out_y 0 ''Capacitor_SMD:C_0402_1005Metric'',
                  wire (ocxo_x + dec 1016 2) out_y (ac_cap_x - dec 381 2) out_y,
                  (let ser_r_x = ocxo_x + PInt 28
                  in draw [
                    resistor ''22R'' ser_r_x out_y 90 [],
                    wire (ac_cap_x + dec 381 2) out_y (ser_r_x - dec 381 2) out_y,
                    (let xtalp_y = u3_y - dec 508 2
                    in draw [
                      wire (ser_r_x + dec 381 2) out_y (ser_r_x + PInt 10) out_y,
                      wire (ser_r_x + PInt 10) out_y (ser_r_x + PInt 10) xtalp_y,
                      wire (ser_r_x + PInt 10) xtalp_y (u3_x - dec 1524 2) xtalp_y,
                      (let xtaln_y = u3_y - dec 762 2;
                          xtaln_cap_x = u3_x - PInt 25
                      in draw [
                        cap ''100p'' xtaln_cap_x (xtaln_y + PInt 6) 0 ''Capacitor_SMD:C_0402_1005Metric'',
                        wire (u3_x - dec 1524 2) xtaln_y xtaln_cap_x xtaln_y,
                        wire xtaln_cap_x xtaln_y xtaln_cap_x (xtaln_y + dec 219 2),
                        wire xtaln_cap_x (xtaln_y + dec 981 2) xtaln_cap_x (xtaln_y + PInt 12),
                        power_symbol ''GND'' xtaln_cap_x (xtaln_y + PInt 12) 0])])])])])])])])])])]\<close>

definition ad9361_power_unit :: "stmt" where
  \<open>ad9361_power_unit = draw [
    text_note ''AD9361 POWER (Unit 4)'' (PInt 30) (PInt 290) (dec 20 1),
    text_note ''1.3V LDO from +1V8, per-group decoupling per ADI reference design'' (PInt 30) (PInt 295) (dec 127 2),
    (let u4_x = PInt 100;
        u4_y = PInt 360
    in draw [
      symbol_instance ''cirradio:AD9361BBCZ'' ''U10'' ''AD9361BBCZ'' u4_x u4_y 4 0 ''cirradio:BGA-144_12x12_0.8mm'' [],
      (let unit4_pins = [''M12'', ''M11'', ''F12'', ''F11'', ''B12'', ''B11'', ''M1'', ''L1'', ''D2'', ''E1'', ''A10'', ''A9'', ''K11'',
          ''L11'', ''M10'', ''M9'', ''M8'', ''M7'', ''M6'', ''L6'', ''K6'', ''J6'', ''H6'', ''G6'', ''F6'', ''E6'', ''F1'', ''G1'', ''A8'',
          ''A2'']
      in draw [
        symbol_pins unit4_pins,
        text_note ''1.3V LDO (ADP151-style)'' (PInt 200) (PInt 305) (dec 127 2)])])]\<close>

definition ad9361_ldo :: "string \<Rightarrow> pynum \<Rightarrow> pynum \<Rightarrow> pynum \<Rightarrow> pynum \<Rightarrow> stmt" where
  \<open>ad9361_ldo ldo_ref ldo_x ldo_y u4_x u4_y = draw [
    symbol_instance ''cirradio:LDO_Generic'' ldo_ref ''ADP151-1.3'' ldo_x ldo_y 1 0 ''cirradio:SOT-23-5'' [],
    symbol_pins [''1'', ''2'', ''3'', ''4'', ''5''],
    power_symbol ''+1V8'' (ldo_x - PInt 18) (ldo_y + dec 254 2) 0,
    wire (ldo_x - dec 1016 2) (ldo_y + dec 254 2) (ldo_x - PInt 18) (ldo_y + dec 254 2),
    wire (ldo_x - dec 1016 2) (ldo_y - dec 254 2) (ldo_x - PInt 14) (ldo_y - dec 254 2),
    wire (ldo_x - PInt 14) (ldo_y - dec 254 2) (ldo_x - PInt 14) (ldo_y + dec 254 2),
    power_symbol ''GND'' ldo_x (ldo_y + PInt 12) 0,
    wire ldo_x (ldo_y + dec 762 2) ldo_x (ldo_y + PInt 12),
    global_label ''+1V3_AD'' (ldo_x + PInt 18) (ldo_y + dec 254 2) ''passive'' 0,
    wire (ldo_x + dec 1016 2) (ldo_y + dec 254 2) (ldo_x + PInt 18) (ldo_y + dec 254 2),
    cap ''10u'' (ldo_x - PInt 16) (ldo_y + PInt 9) 0 ''Capacitor_SMD:C_0805_2012Metric'',
    wire (ldo_x - PInt 16) (ldo_y + dec 519 2) (ldo_x - PInt 16) (ldo_y + dec 254 2),
    wire (ldo_x - PInt 16) (ldo_y + dec 1281 2) (ldo_x - PInt 16) (ldo_y + PInt 15),
    power_symbol ''GND'' (ldo_x - PInt 16) (ldo_y + PInt 15) 0,
    cap ''100n'' (ldo_x - PInt 10) (ldo_y + PInt 9) 0 ''Capacitor_SMD:C_0402_1005Metric'',
    wire (ldo_x - PInt 10) (ldo_y + dec 519 2) (ldo_x - PInt 10) (ldo_y + dec 254 2),
    wire (ldo_x - PInt 10) (ldo_y + dec 1281 2) (ldo_x - PInt 10) (ldo_y + PInt 15),
    power_symbol ''GND'' (ldo_x - PInt 10) (ldo_y + PInt 15) 0,
    cap ''10u'' (ldo_x + PInt 14) (ldo_y + PInt 9) 0 ''Capacitor_SMD:C_0805_2012Metric'',
    wire (ldo_x + PInt 14) (ldo_y + dec 519 2) (ldo_x + PInt 14) (ldo_y + dec 254 2),
    wire (ldo_x + PInt 14) (ldo_y + dec 1281 2) (ldo_x + PInt 14) (ldo_y + PInt 15),
    power_symbol ''GND'' (ldo_x + PInt 14) (ldo_y + PInt 15) 0,
    cap ''100n'' (ldo_x + PInt 20) (ldo_y + PInt 9) 0 ''Capacitor_SMD:C_0402_1005Metric'',
    wire (ldo_x + PInt 20) (ldo_y + dec 519 2) (ldo_x + PInt 20) (ldo_y + dec 254 2),
    wire (ldo_x + PInt 20) (ldo_y + dec 1281 2) (ldo_x + PInt 20) (ldo_y + PInt 15),
    power_symbol ''GND'' (ldo_x + PInt 20) (ldo_y + PInt 15) 0,
    (let pwr_left_x = u4_x - PInt 22
    in draw [
      global_label ''+1V3_AD'' pwr_left_x (u4_y + dec 254 1) ''passive'' 180,
      wire (u4_x - dec 1524 2) (u4_y + dec 254 1) pwr_left_x (u4_y + dec 254 1),
      wire (u4_x - dec 1524 2) (u4_y + dec 2286 2) (pwr_left_x + PInt 5) (u4_y + dec 2286 2),
      wire (pwr_left_x + PInt 5) (u4_y + dec 2286 2) (pwr_left_x + PInt 5) (u4_y + dec 254 1)])]\<close>

definition ad9361_rails :: "pynum \<Rightarrow> pynum \<Rightarrow> pynum \<Rightarrow> stmt" where
  \<open>ad9361_rails pwr_left_x u4_y u4_x = draw [
    global_label ''+1V3_AD'' pwr_left_x (u4_y + dec 2032 2) ''passive'' 180,
    wire (u4_x - dec 1524 2) (u4_y + dec 2032 2) pwr_left_x (u4_y + dec 2032 2),
    wire (u4_x - dec 1524 2) (u4_y + dec 1778 2) (pwr_left_x + PInt 5) (u4_y + dec 1778 2),
    wire (pwr_left_x + PInt 5) (u4_y + dec 1778 2) (pwr_left_x + PInt 5) (u4_y + dec 2032 2),
    global_label ''+1V3_AD'' pwr_left_x (u4_y + dec 1524 2) ''passive'' 180,
    wire (u4_x - dec 1524 2) (u4_y + dec 1524 2) pwr_left_x (u4_y + dec 1524 2),
    wire (u4_x - dec 1524 2) (u4_y + dec 127 1) (pwr_left_x + PInt 5) (u4_y + dec 127 1),
    wire (pwr_left_x + PInt 5) (u4_y + dec 127 1) (pwr_left_x + PInt 5) (u4_y + dec 1524 2),
    global_label ''+1V3_AD'' pwr_left_x (u4_y + dec 762 2) ''passive'' 180,
    wire (u4_x - dec 1524 2) (u4_y + dec 762 2) pwr_left_x (u4_y + dec 762 2),
    wire (u4_x - dec 1524 2) (u4_y + dec 508 2) (pwr_left_x + PInt 5) (u4_y + dec 508 2),
    wire (pwr_left_x + PInt 5) (u4_y + dec 508 2) (pwr_left_x + PInt 5) (u4_y + dec 762 2),
    global_label ''+1V8'' pwr_left_x u4_y ''passive'' 180,
    wire (u4_x - dec 1524 2) u4_y pwr_left_x u4_y,
    wire (u4_x - dec 1524 2) (u4_y - dec 254 2) (pwr_left_x + PInt 5) (u4_y - dec 254 2),
    wire (pwr_left_x + PInt 5) (u4_y - dec 254 2) (pwr_left_x + PInt 5) u4_y,
    global_label ''+3V3A'' pwr_left_x (u4_y - dec 762 2) ''passive'' 180,
    wire (u4_x - dec 1524 2) (u4_y - dec 762 2) pwr_left_x (u4_y - dec 762 2),
    wire (u4_x - dec 1524 2) (u4_y - dec 1016 2) (pwr_left_x + PInt 5) (u4_y - dec 1016 2),
    wire (pwr_left_x + PInt 5) (u4_y - dec 1016 2) (pwr_left_x + PInt 5) (u4_y - dec 762 2),
    (let vfilt_y = u4_y - dec 1524 2
    in draw [
      cap ''100n'' (u4_x - PInt 25) (vfilt_y + PInt 6) 0 ''Capacitor_SMD:C_0402_1005Metric'',
      wire (u4_x - dec 1524 2) vfilt_y (u4_x - PInt 25) vfilt_y,
      wire (u4_x - PInt 25) vfilt_y (u4_x - PInt 25) (vfilt_y + dec 219 2),
      wire (u4_x - PInt 25) (vfilt_y + dec 981 2) (u4_x - PInt 25) (vfilt_y + PInt 12),
      power_symbol ''GND'' (u4_x - PInt 25) (vfilt_y + PInt 12) 0,
      (let rbias_y = u4_y - dec 2032 2
      in draw [
        resistor ''10K'' (u4_x - PInt 25) (rbias_y + PInt 5) 0 [],
        wire (u4_x - dec 1524 2) rbias_y (u4_x - PInt 25) rbias_y,
        wire (u4_x - PInt 25) rbias_y (u4_x - PInt 25) (rbias_y + dec 119 2),
        wire (u4_x - PInt 25) (rbias_y + dec 881 2) (u4_x - PInt 25) (rbias_y + PInt 11),
        power_symbol ''GND'' (u4_x - PInt 25) (rbias_y + PInt 11) 0,
        text_note ''TEMP_SENSE: NC'' (u4_x + PInt 20) (u4_y - dec 2032 2) (dec 10 1),
        (let pwr_right_x = u4_x + PInt 22
        in draw [
          power_symbol ''GND'' pwr_right_x (u4_y + dec 254 1) 0,
          wire (u4_x + dec 1524 2) (u4_y + dec 254 1) pwr_right_x (u4_y + dec 254 1),
          power_symbol ''GND'' pwr_right_x (u4_y + dec 762 2) 0,
          wire (u4_x + dec 1524 2) (u4_y + dec 762 2) pwr_right_x (u4_y + dec 762 2),
          power_symbol ''GND'' pwr_right_x (u4_y - dec 1524 2) 0,
          wire (u4_x + dec 1524 2) (u4_y - dec 1524 2) pwr_right_x (u4_y - dec 1524 2)])])])]\<close>

definition ad9361_decoupling :: "stmt" where
  \<open>ad9361_decoupling = draw [
    text_note ''AD9361 DECOUPLING (per ADI UG-570 Reference Design)'' (PInt 30) (PInt 430) (dec 20 1),
    decoupling_group ''+1V3_AD'' (PInt 30) (PInt 450) 4 1 ''VDDA1P3 (BB+RX+TX)'',
    decoupling_group ''+1V3_AD'' (PInt 30) (PInt 490) 4 1 ''VDDD1P3_DIG'',
    decoupling_group ''+1V8'' (PInt 30) (PInt 530) 4 1 ''VDDD_IF'',
    decoupling_group ''+3V3A'' (PInt 30) (PInt 570) 4 1 ''VDDA3P3'',
    decoupling_group ''+1V3_AD'' (PInt 170) (PInt 450) 2 0 ''VDDA1P3 extra bypass'',
    decoupling_group ''+3V3A'' (PInt 170) (PInt 490) 2 1 ''OCXO +3V3A bypass'']\<close>

definition ad9361_sheet :: "random \<Rightarrow> string \<times> sheet" where
  \<open>ad9361_sheet rnd =
    (let u4_x = PInt 100;
        u4_y = PInt 360;
        ldo_x = PInt 240;
        ldo_y = PInt 325;
        pwr_left_x = u4_x - PInt 22;
        s0 = draw [emit_header ''cirradio_gen_ad9361'' ''CIRRADIO Dev Board - AD9361 RF Transceiver + LVDS Interface'' ''AD9361BBCZ with OCXO, LVDS, SPI, control, RF ports, power'' ''4 units: LVDS, SPI+Control, RF+Clock, Power'',
            ad9361_lib_symbols,
            emit [],
            ad9361_lvds,
            ad9361_spi,
            ad9361_rf,
            ad9361_power_unit] ((empty_sheet rnd)\<lparr>cap_idx := 200, res_idx := 200, pwr_idx := 200, u_idx := 11\<rparr>);
        (ldo_ref, s1) = next_u s0
     in (ldo_ref,
       draw [ad9361_ldo ldo_ref ldo_x ldo_y u4_x u4_y,
            ad9361_rails pwr_left_x u4_y u4_x,
            ad9361_decoupling,
            emit '')''] s1))\<close>

definition ad9361_report :: "string \<Rightarrow> string \<Rightarrow> sheet \<Rightarrow> nat \<Rightarrow> nat \<Rightarrow> string list" where
  \<open>ad9361_report ldo_ref path s n_open n_close =
    [''Generated: '' @ path,
     ''Component counts:'',
     ''  AD9361 units placed: 4 (all as U10)'',
     ''  OCXO: 1 (Y2, OX200-SC-040.0M)'',
     ''  LDO: 1 ('' @ ldo_ref @ '', ADP151-1.3)'',
     ''  Capacitors: '' @ int_str (counts s ''capacitors''),
     ''  Resistors: '' @ int_str (counts s ''resistors''),
     ''  Power symbols: '' @ int_str (pwr_idx s - 200),
     ''  Wires: '' @ int_str (counts s ''wires''),
     ''  Global labels: '' @ int_str (counts s ''gl_labels''),
     ''  Hierarchical labels: '' @ int_str (counts s ''hier_labels''),
     ''  Total symbols: '' @ int_str (counts s ''symbols''),
     ''  Parentheses balanced: '' @ int_str (int n_open) @ '' opens, '' @ int_str (int n_close) @ '' closes'']\<close>

definition gen_ad9361 :: "random \<Rightarrow> gen_out" where
  "gen_ad9361 rnd =
     (let (ldo_ref, s) = ad9361_sheet rnd; path = board_dir @ ''ad9361.kicad_sch''
      in finish ''WARNING'' path (ad9361_report ldo_ref path s) s)"

end
