(* ===== verification/Ad9361Read.thy ===== *)
theory Ad9361Read
  imports SheetFile Ad9361
begin

text \<open>
  What \<open>gen_ad9361.py\<close> draws, read back by the parser of the netlist script: the parts and the nets of
  the transceiver sheet, section by section, and the whole file.
\<close>

section \<open>Parts and nets\<close>

definition ad9361_lvds_parts :: "component list" where
  "ad9361_lvds_parts =
    [part ''U10'' ''AD9361BBCZ'' ''cirradio:BGA-144_12x12_0.8mm'' ''cirradio:AD9361BBCZ'']"

definition ad9361_lvds_labels :: "string list" where
  "ad9361_lvds_labels =
    concat (map (\<lambda>i. [''P0_D'' @ int_str i @ ''_P'', ''P0_D'' @ int_str i @ ''_N'']) [0..11]) @
    [''DATA_CLK_P'', ''DATA_CLK_N'', ''FB_CLK_P'', ''FB_CLK_N'', ''RX_FRAME_P'', ''RX_FRAME_N'', ''TX_FRAME_P'',
      ''TX_FRAME_N'']"

definition ad9361_spi_parts :: "component list" where
  "ad9361_spi_parts =
    [part ''U10'' ''AD9361BBCZ'' ''cirradio:BGA-144_12x12_0.8mm'' ''cirradio:AD9361BBCZ''] @
    parts_run ''R'' 200 203 ''33R'' [] ''Device:R'' @
    [part ''R204'' ''10K'' [] ''Device:R'']"

definition ad9361_spi_labels :: "string list" where
  "ad9361_spi_labels =
    [''AD_SCLK'', ''AD_MOSI'', ''AD_MISO'', ''AD_CS_N'', ''EN_AGC'', ''ENABLE'', ''TXNRX'', ''RESETB''] @
    names_run ''CTRL_IN'' 0 3 @
    names_run ''CTRL_OUT'' 0 7"

definition ad9361_rf_parts :: "component list" where
  "ad9361_rf_parts =
    [part ''U10'' ''AD9361BBCZ'' ''cirradio:BGA-144_12x12_0.8mm'' ''cirradio:AD9361BBCZ'',
      part ''Y2'' ''40.000MHz OCXO'' ''cirradio:DIP-14_W7.62mm'' ''cirradio:OX200-SC-040.0M'',
      part ''C200'' ''100n'' fp_c0402 ''Device:C'',
      part ''C201'' ''10u'' ''Capacitor_SMD:C_0805_2012Metric'' ''Device:C'',
      part ''C202'' ''100p'' fp_c0402 ''Device:C'',
      part ''R205'' ''22R'' [] ''Device:R'',
      part ''C203'' ''100p'' fp_c0402 ''Device:C'']"

definition ad9361_rf_labels :: "string list" where
  "ad9361_rf_labels =
    [''AD_RX1A_P'', ''AD_RX1A_N'', ''AD_TX1A'']"

definition ad9361_power_unit_parts :: "component list" where
  "ad9361_power_unit_parts =
    [part ''U10'' ''AD9361BBCZ'' ''cirradio:BGA-144_12x12_0.8mm'' ''cirradio:AD9361BBCZ'']"

definition ad9361_ldo_parts :: "component list" where
  "ad9361_ldo_parts =
    [part ''U11'' ''ADP151-1.3'' ''cirradio:SOT-23-5'' ''cirradio:LDO_Generic'',
      part ''C204'' ''10u'' ''Capacitor_SMD:C_0805_2012Metric'' ''Device:C'',
      part ''C205'' ''100n'' fp_c0402 ''Device:C'',
      part ''C206'' ''10u'' ''Capacitor_SMD:C_0805_2012Metric'' ''Device:C'',
      part ''C207'' ''100n'' fp_c0402 ''Device:C'']"

definition ad9361_rails_parts :: "component list" where
  "ad9361_rails_parts =
    [part ''C208'' ''100n'' fp_c0402 ''Device:C'',
      part ''R206'' ''10K'' [] ''Device:R'']"

definition ad9361_decoupling_parts :: "component list" where
  "ad9361_decoupling_parts =
    parts_run ''C'' 209 212 ''100n'' fp_c0402 ''Device:C'' @
    [part ''C213'' ''10u'' ''Capacitor_SMD:C_0805_2012Metric'' ''Device:C''] @
    parts_run ''C'' 214 217 ''100n'' fp_c0402 ''Device:C'' @
    [part ''C218'' ''10u'' ''Capacitor_SMD:C_0805_2012Metric'' ''Device:C''] @
    parts_run ''C'' 219 222 ''100n'' fp_c0402 ''Device:C'' @
    [part ''C223'' ''10u'' ''Capacitor_SMD:C_0805_2012Metric'' ''Device:C''] @
    parts_run ''C'' 224 227 ''100n'' fp_c0402 ''Device:C'' @
    [part ''C228'' ''10u'' ''Capacitor_SMD:C_0805_2012Metric'' ''Device:C''] @
    parts_run ''C'' 229 232 ''100n'' fp_c0402 ''Device:C'' @
    [part ''C233'' ''10u'' ''Capacitor_SMD:C_0805_2012Metric'' ''Device:C'']"

definition ad9361_sheet_parts :: "component list" where
  "ad9361_sheet_parts = ad9361_lvds_parts @ ad9361_spi_parts @ ad9361_rf_parts @ ad9361_power_unit_parts @ ad9361_ldo_parts @
      ad9361_rails_parts @ ad9361_decoupling_parts"

text \<open>The global labels and the power symbols, then the hierarchical labels.\<close>

definition ad9361_sheet_nets :: "string list" where
  "ad9361_sheet_nets = [''+1V3_AD'', ''+3V3A'', ''GND'', ''+1V8''] @ ad9361_lvds_labels @ ad9361_spi_labels @ ad9361_rf_labels"

section \<open>The sections\<close>

definition ad9361_start :: reading where
  "ad9361_start = no_reading\<lparr>r_cap := 200, r_res := 200, r_u := 11\<rparr>"

lemma ad9361_lvds_read:
  "yields_section ad9361_lvds ad9361_start
    (ad9361_start\<lparr>r_parts := rev ad9361_lvds_parts, r_hiers := rev ad9361_lvds_labels\<rparr>)"
  unfolding ad9361_lvds_def
  by (rule sectionI, (simp only: loop_simps)?, (rule section_rules | simp only: loop_simps)+,
      code_simp)

lemma ad9361_spi_read:
  "yields_section ad9361_spi ad9361_start
    (ad9361_start\<lparr>r_res := 205, r_parts := rev ad9361_spi_parts, r_rails := [''+1V3_AD''],
      r_hiers := rev ad9361_spi_labels\<rparr>)"
  unfolding ad9361_spi_def
  by (rule sectionI, (simp only: loop_simps)?, (rule section_rules | simp only: loop_simps)+,
      code_simp)

lemma ad9361_rf_read:
  "yields_section ad9361_rf (ad9361_start\<lparr>r_res := 205\<rparr>)
    (ad9361_start\<lparr>r_cap := 204, r_res := 206, r_parts := rev ad9361_rf_parts, r_rails := [''GND'', ''+3V3A''],
      r_hiers := rev ad9361_rf_labels\<rparr>)"
  unfolding ad9361_rf_def
  by (rule sectionI, (simp only: loop_simps)?, (rule section_rules | simp only: loop_simps)+,
      code_simp)

lemma ad9361_power_unit_read:
  "yields_section ad9361_power_unit (ad9361_start\<lparr>r_cap := 204, r_res := 206\<rparr>)
    (ad9361_start\<lparr>r_cap := 204, r_res := 206, r_parts := rev ad9361_power_unit_parts\<rparr>)"
  unfolding ad9361_power_unit_def
  by (rule sectionI, (simp only: loop_simps)?, (rule section_rules | simp only: loop_simps)+,
      code_simp)

lemma ad9361_ldo_read:
  "yields_section (ad9361_ldo ''U11'' a b c d) (ad9361_start\<lparr>r_cap := 204, r_res := 206, r_u := 12\<rparr>)
    (ad9361_start\<lparr>r_cap := 208, r_res := 206, r_u := 12, r_parts := rev ad9361_ldo_parts, r_rails := [''+1V3_AD'',
      ''GND'', ''+1V8'']\<rparr>)"
  unfolding ad9361_ldo_def
  by (rule sectionI, (simp only: loop_simps)?, (rule section_rules | simp only: loop_simps)+,
      code_simp)

lemma ad9361_rails_read:
  "yields_section (ad9361_rails a b c) (ad9361_start\<lparr>r_cap := 208, r_res := 206, r_u := 12\<rparr>)
    (ad9361_start\<lparr>r_cap := 209, r_res := 207, r_u := 12, r_parts := rev ad9361_rails_parts, r_rails := [''GND'',
      ''+3V3A'', ''+1V8'', ''+1V3_AD'']\<rparr>)"
  unfolding ad9361_rails_def
  by (rule sectionI, (simp only: loop_simps)?, (rule section_rules | simp only: loop_simps)+,
      code_simp)

lemma ad9361_decoupling_read:
  "yields_section ad9361_decoupling (ad9361_start\<lparr>r_cap := 209, r_res := 207, r_u := 12\<rparr>)
    (ad9361_start\<lparr>r_cap := 234, r_res := 207, r_u := 12, r_parts := rev ad9361_decoupling_parts, r_rails := [''+3V3A'',
      ''+1V8'', ''GND'', ''+1V3_AD'']\<rparr>)"
  unfolding ad9361_decoupling_def
  by (rule sectionI, (simp only: loop_simps)?, (rule section_rules | simp only: loop_simps)+,
      code_simp)

section \<open>The file\<close>

lemma ad9361_lib: "lib_block ad9361_lib_symbols"
  unfolding ad9361_lib_passives_def ad9361_lib_unit1_def ad9361_lib_units_def ad9361_lib_rest_def ad9361_lib_symbols_def
    lib_device_c_def lib_device_r_def lib_gnd_def lib_power_def
  by (rule lib_block_run, rule lib_begin_rule, (rule lib_end_rules walk_rules walks_literal | simp only: loop_simps)+, code_simp)

lemma ad9361_refs:
  "int_str 11 = ''11''"
  by code_simp+

lemma ad9361_body:
  "holds (draw [emit [], ad9361_lvds, ad9361_spi, ad9361_rf, ad9361_power_unit,
      with_value next_u (\<lambda>ldo_ref. draw [ad9361_ldo ldo_ref (PInt 240) (PInt 325) (PInt 100) (PInt 360),
      ad9361_rails ((PInt 100) - PInt 22) (PInt 360) (PInt 100), ad9361_decoupling])])
    ad9361_start ad9361_sheet_parts ad9361_sheet_nets"
  by (rule holdsI,
      (rule section_one section_u section_j section_chain section_blank
          ad9361_lvds_read ad9361_spi_read ad9361_rf_read ad9361_power_unit_read ad9361_ldo_read
          ad9361_rails_read ad9361_decoupling_read
        | (simp add: ad9361_start_def no_reading_def outputs_empty_def ad9361_refs; fail))+)
    (simp add: ad9361_sheet_parts_def ad9361_start_def no_reading_def,
     auto simp: ad9361_sheet_nets_def ad9361_start_def no_reading_def nets_read_def outputs_join_def)

lemma ad9361_titles:
  "title_ok ''cirradio_gen_ad9361''" "title_ok ''CIRRADIO Dev Board - AD9361 RF Transceiver + LVDS Interface''" "title_ok ''AD9361BBCZ with OCXO, LVDS, SPI, control, RF ports, power''" "title_ok ''4 units: LVDS, SPI+Control, RF+Clock, Power''"
  by code_simp+

lemma ad9361_sheet_eq:
  "snd (ad9361_sheet rnd) = draw [emit '')'']
    (draw [emit [], ad9361_lvds, ad9361_spi, ad9361_rf, ad9361_power_unit,
      with_value next_u (\<lambda>ldo_ref. draw [ad9361_ldo ldo_ref (PInt 240) (PInt 325) (PInt 100) (PInt 360),
      ad9361_rails ((PInt 100) - PInt 22) (PInt 360) (PInt 100), ad9361_decoupling])]
      (ad9361_lib_symbols (emit_header ''cirradio_gen_ad9361'' ''CIRRADIO Dev Board - AD9361 RF Transceiver + LVDS Interface'' ''AD9361BBCZ with OCXO, LVDS, SPI, control, RF ports, power'' ''4 units: LVDS, SPI+Control, RF+Clock, Power''
        ((empty_sheet rnd)\<lparr>cap_idx := 200, res_idx := 200, pwr_idx := 200, u_idx := 11\<rparr>))))"
  by (simp only: ad9361_sheet_def draw_simps Let_def with_value_def snd_conv case_snd case_emit cong: prod.case_cong)

lemma ad9361_file:
  "\<exists>content. gen_exit (gen_ad9361 rnd) = 0 \<and> gen_file (gen_ad9361 rnd) = Some (board_dir @ ''ad9361.kicad_sch'', content) \<and>
    check_parens content = (True, 0) \<and> parse_schematic content = (ad9361_sheet_parts, set ad9361_sheet_nets)"
proof -
  note h = sheet_holds [OF ad9361_lib ad9361_titles, OF _ _ _ _ ad9361_body, OF _ _ _ _ ad9361_sheet_eq]
  show ?thesis unfolding gen_ad9361_def Let_def case_prod_beta
    by (rule h) (simp_all add: empty_sheet_def ad9361_start_def no_reading_def outputs_empty_def same_indices_def)
qed

text \<open>
  C33: Run with any random bytes, \<open>gen_ad9361.py\<close> ends with status 0 and writes a balanced file; the parser
  of the netlist script reads in it exactly the listed parts, in the order they are drawn, and the
  listed nets.
\<close>

theorem ad9361_read_back:
  "\<exists>content. gen_exit (gen_ad9361 rnd) = 0 \<and> gen_file (gen_ad9361 rnd) = Some (board_dir @ ''ad9361.kicad_sch'', content) \<and>
    check_parens content = (True, 0) \<and> parse_schematic content = (ad9361_sheet_parts, set ad9361_sheet_nets)"
  by (rule ad9361_file)
end
