(* ===== verification/Connectors.thy ===== *)
theory Connectors
  imports Schematic
begin

text \<open>
  The connector sheet, \<open>hardware/cirradio-devboard/gen_connectors.py\<close>: the GPIO header, the
  status LEDs, the buttons and the test points.
\<close>

section \<open>Library symbols\<close>

definition connectors_lib_parts :: "stmt" where
  \<open>connectors_lib_parts = draw [
    emit ''  (lib_symbols'',
    emit lib_device_r,
    emit lib_device_c,
    emit lib_device_led,
    emit lib_sw_push]\<close>

definition connectors_lib_header :: "stmt" where
  \<open>connectors_lib_header = draw [
    emit (py_join [nl]
       [''    (symbol "Connector_Generic:Conn_02x20_Odd_Even"'',
        ''      (pin_names (offset 1.016) hide) (exclude_from_sim no) (in_bom yes) (on_board yes)'',
        ''      (property "Reference" "J" (at 1.27 26.67 0) (effects (font (size 1.27 1.27))))'',
        ''      (property "Value" "Conn_02x20_Odd_Even" (at 1.27 -26.67 0) (effects (font (size 1.27 1.27))))'',
        ''      (property "Footprint" "" (at 0 0 0) (effects (font (size 1.27 1.27)) hide))'',
        ''      (property "Datasheet" "" (at 0 0 0) (effects (font (size 1.27 1.27)) hide))'',
        ''      (symbol "Conn_02x20_Odd_Even_1_1"'',
        ''        (rectangle (start -1.27 25.4) (end 3.81 -25.4) (stroke (width 0.254) (type default)) (fill (type background)))'']),
    draw (map (\<lambda>i. (let odd = i * 2 + 1;
          even = i * 2 + 2;
          y = dec 2413 2 - PInt i * dec 254 2
      in draw [
        emit (''        (pin passive line (at -3.81 '' @ num_str y @ '' 0) (length 2.54) (name "Pin_'' @ int_str odd @
            ''" (effects (font (size 1.27 1.27)))) (number "'' @ int_str odd @ ''" (effects (font (size 1.27 1.27)))))''),
        emit (''        (pin passive line (at 6.35 '' @ num_str y @ '' 180) (length 2.54) (name "Pin_'' @ int_str even @
            ''" (effects (font (size 1.27 1.27)))) (number "'' @ int_str even @ ''" (effects (font (size 1.27 1.27)))))'')])) [0..19]),
    emit (py_join [nl]
       [''      )'',
        ''    )''])]\<close>

definition connectors_lib_rest :: "stmt" where
  \<open>connectors_lib_rest = draw [
    emit (py_join [nl]
       [''    (symbol "Connector:TestPoint"'',
        ''      (pin_names (offset 0.762) hide) (exclude_from_sim no) (in_bom no) (on_board yes)'',
        ''      (property "Reference" "TP" (at 0 5.842 0) (effects (font (size 1.27 1.27))))'',
        ''      (property "Value" "TestPoint" (at 0 3.81 0) (effects (font (size 1.27 1.27))))'',
        ''      (property "Footprint" "" (at 5.08 0 0) (effects (font (size 1.27 1.27)) hide))'',
        ''      (property "Datasheet" "" (at 5.08 0 0) (effects (font (size 1.27 1.27)) hide))'',
        ''      (symbol "TestPoint_0_1"'',
        ''        (circle (center 0 1.778) (radius 0.762) (stroke (width 0) (type default)) (fill (type none)))'',
        ''      )'',
        ''      (symbol "TestPoint_1_1"'',
        ''        (pin passive line (at 0 0 90) (length 1.016) (name "1" (effects (font (size 1.27 1.27)))) (number "1" (effects (font (size 1.27 1.27)))))'',
        ''      )'',
        ''    )'']),
    draw (map (\<lambda>net. (if net = ''GND'' then emit lib_gnd
      else (if net = ''VTT'' then emit (py_join [nl]
       [''    (symbol "power:VTT"'',
        ''      (power) (pin_names (offset 0)) (exclude_from_sim no) (in_bom yes) (on_board yes)'',
        ''      (property "Reference" "#PWR" (at 0 -3.81 0) (effects (font (size 1.27 1.27)) hide))'',
        ''      (property "Value" "VTT" (at 0 3.556 0) (effects (font (size 1.27 1.27))))'',
        ''      (property "Footprint" "" (at 0 0 0) (effects (font (size 1.27 1.27)) hide))'',
        ''      (property "Datasheet" "" (at 0 0 0) (effects (font (size 1.27 1.27)) hide))'',
        ''      (symbol "VTT_0_1"'',
        ''        (polyline (pts (xy -0.762 1.27) (xy 0 2.54)) (stroke (width 0) (type default)) (fill (type none)))'',
        ''        (polyline (pts (xy 0 0) (xy 0 2.54)) (stroke (width 0) (type default)) (fill (type none)))'',
        ''        (polyline (pts (xy 0 2.54) (xy 0.762 1.27)) (stroke (width 0) (type default)) (fill (type none)))'',
        ''      )'',
        ''      (symbol "VTT_1_1"'',
        ''        (pin power_in line (at 0 0 90) (length 0) (name "VTT" (effects (font (size 1.27 1.27)))) (number "1" (effects (font (size 1.27 1.27)))))'',
        ''      )'',
        ''    )''])
          else emit (lib_power net)))) [''+12V'', ''+5V'', ''+3V3'', ''+1V8'', ''+1V35'', ''+1V0'', ''+1V5'', ''VTT'', ''GND'']),
    emit ''  )'']\<close>

definition connectors_lib_symbols :: "stmt" where
  "connectors_lib_symbols = draw [connectors_lib_parts, connectors_lib_header, connectors_lib_rest]"

section \<open>The drawing\<close>

definition connectors_title :: "stmt" where
  \<open>connectors_title = draw [
    text_note ''GPIO HEADER (2x20, 0.1 inch pitch)'' (PInt 30) (PInt 20) (dec 20 1),
    text_note ''PL Bank 12 I/O with 33R series protection'' (PInt 30) (PInt 25) (dec 127 2)]\<close>

definition connectors_header :: "string \<Rightarrow> stmt" where
  \<open>connectors_header hdr_ref = (let hdr_x = PInt 180;
        hdr_y = PInt 90
    in draw [
      symbol_instance ''Connector_Generic:Conn_02x20_Odd_Even'' hdr_ref ''GPIO_2x20'' hdr_x hdr_y 1 0 ''Connector_PinHeader_2.54mm:PinHeader_2x20_P2.54mm_Vertical'' [],
      (let pin_nums = map (\<lambda>i. int_str i) [1..40]
      in draw [
        symbol_pins pin_nums,
        (let pin_assignments = [((1 :: int), ''+3V3'', ''power''),
          (2, ''+5V'', ''power''),
          (3, ''PL_IO0'', ''pl_io''),
          (4, ''+5V'', ''power''),
          (5, ''PL_IO1'', ''pl_io''),
          (6, ''GND'', ''gnd''),
          (7, ''PL_IO2'', ''pl_io''),
          (8, ''PS_UART0_TX'', ''ps_sig''),
          (9, ''GND'', ''gnd''),
          (10, ''PS_UART0_RX'', ''ps_sig''),
          (11, ''PL_IO3'', ''pl_io''),
          (12, ''PL_IO4'', ''pl_io''),
          (13, ''PL_IO5'', ''pl_io''),
          (14, ''GND'', ''gnd''),
          (15, ''PL_IO6'', ''pl_io''),
          (16, ''PL_IO7'', ''pl_io''),
          (17, ''+3V3'', ''power''),
          (18, ''PL_IO8'', ''pl_io''),
          (19, ''PL_IO9'', ''pl_io''),
          (20, ''GND'', ''gnd''),
          (21, ''PL_IO10'', ''pl_io''),
          (22, ''PL_IO11'', ''pl_io''),
          (23, ''PL_IO12'', ''pl_io''),
          (24, ''PL_IO13'', ''pl_io''),
          (25, ''GND'', ''gnd''),
          (26, ''PL_IO14'', ''pl_io''),
          (27, ''PS_I2C_SDA'', ''ps_sig''),
          (28, ''PS_I2C_SCL'', ''ps_sig''),
          (29, ''PL_IO15'', ''pl_io''),
          (30, ''GND'', ''gnd''),
          (31, ''PL_IO16'', ''pl_io''),
          (32, ''PL_IO17'', ''pl_io''),
          (33, ''PL_IO18'', ''pl_io''),
          (34, ''GND'', ''gnd''),
          (35, ''PL_IO19'', ''pl_io''),
          (36, ''PS_SPI_CE0'', ''ps_sig''),
          (37, ''PS_SPI_MISO'', ''ps_sig''),
          (38, ''PS_SPI_MOSI'', ''ps_sig''),
          (39, ''GND'', ''gnd''),
          (40, ''PS_SPI_SCLK'', ''ps_sig'')];
            pl_io_resistor_x = PInt 120;
            pl_io_label_x = PInt 100
        in draw (map (\<lambda>(pin_num, net_name, pin_type). (let row = (pin_num - 1) div 2;
                y = hdr_y - dec 254 1 + dec 2413 2 - PInt row * dec 254 2;
                is_odd = pin_num mod 2 = 1;
                pin_x = (if is_odd then hdr_x - dec 381 2 else hdr_x + dec 635 2)
            in (if pin_type = ''power'' then (if is_odd then draw [
                      power_symbol net_name (pin_x - PInt 8) y 90,
                      wire (pin_x - PInt 8) y pin_x y]
                  else draw [
                      power_symbol net_name (pin_x + PInt 8) y 270,
                      wire pin_x y (pin_x + PInt 8) y])
              else (if pin_type = ''gnd'' then (if is_odd then draw [
                          power_symbol ''GND'' (pin_x - PInt 8) y 90,
                          wire (pin_x - PInt 8) y pin_x y]
                      else draw [
                          power_symbol ''GND'' (pin_x + PInt 8) y 270,
                          wire pin_x y (pin_x + PInt 8) y])
                  else (if pin_type = ''pl_io'' then (let io_idx = dec_val (py_replace ''PL_IO'' [] net_name);
                              bank12_net = ''GPIO_B12_IO'' @ int_str io_idx
                          in (if is_odd then draw [
                                wire pin_x y (pl_io_resistor_x + dec 381 2) y,
                                resistor ''33R'' pl_io_resistor_x y 90 fp_r0402,
                                wire (pl_io_resistor_x - dec 381 2) y pl_io_label_x y,
                                hier_label bank12_net pl_io_label_x y ''bidirectional'' 180]
                            else (let right_res_x = hdr_x + dec 635 2 + PInt 18;
                                    right_label_x = right_res_x + PInt 18
                                in draw [
                                  wire pin_x y (right_res_x - dec 381 2) y,
                                  resistor ''33R'' right_res_x y 90 fp_r0402,
                                  wire (right_res_x + dec 381 2) y right_label_x y,
                                  hier_label bank12_net right_label_x y ''bidirectional'' 0])))
                      else (if pin_type = ''ps_sig'' then (if is_odd then draw [
                                  global_label net_name (pin_x - PInt 10) y ''bidirectional'' 0,
                                  wire (pin_x - PInt 10) y pin_x y]
                              else draw [
                                  global_label net_name (pin_x + PInt 10) y ''bidirectional'' 180,
                                  wire pin_x y (pin_x + PInt 10) y])
                          else draw [])))))) pin_assignments))])])\<close>

definition connectors_leds :: "stmt" where
  \<open>connectors_leds = draw [
    text_note ''STATUS LEDs'' (PInt 30) (PInt 160) (dec 20 1),
    text_note ''Active-high, 0603 package'' (PInt 30) (PInt 165) (dec 127 2),
    (let led_configs = [(''PWR'', ''Green'', ''+3V3'', ''4.7K'', None, ''Power (always on)''),
          (''HB'', ''Green'', ''PL_LED_HB'', ''330R'', Some ''GPIO_B12_IO40'', ''Heartbeat''),
          (''TX'', ''Red'', ''PL_LED_TX'', ''330R'', Some ''GPIO_B12_IO41'', ''TX activity''),
          (''RX'', ''Green'', ''PL_LED_RX'', ''330R'', Some ''GPIO_B12_IO42'', ''RX activity'')];
        led_base_x = PInt 60;
        led_base_y = PInt 185;
        led_spacing = PInt 20
    in draw (map (\<lambda>(idx, (name, color, source, res_val, bank12_net, desc)). (let x = led_base_x + PInt idx * led_spacing;
            y = led_base_y
        in draw [
          text_note (name @ '' ('' @ color @ '')'') (x - PInt 2) (y - PInt 10) (dec 10 1),
          bump ''leds'',
          with_value next_led (\<lambda>led_ref. draw [
            (if source = ''+3V3'' then draw [
                power_symbol ''+3V3'' x (y - PInt 8) 0,
                wire x (y - PInt 8) x (y - PInt 5)]
            else draw [
                hier_label (opt_str bank12_net) (x - PInt 12) (y - PInt 5) ''bidirectional'' 0,
                wire (x - PInt 12) (y - PInt 5) x (y - PInt 5)]),
            resistor res_val x y 0 fp_r0402,
            wire x (y - PInt 5) x (y - dec 381 2),
            symbol_instance ''Device:LED'' led_ref color x (y + PInt 8) 1 90 ''LED_SMD:LED_0603_1608Metric'' [],
            symbol_pins [''1'', ''2''],
            wire x (y + dec 381 2) x (y + dec 419 2),
            power_symbol ''GND'' x (y + PInt 16) 0,
            wire x (y + dec 1181 2) x (y + PInt 16)])])) (enum_list led_configs)))]\<close>

definition connectors_buttons :: "stmt" where
  \<open>connectors_buttons = draw [
    text_note ''USER BUTTONS (active-low, 10K pull-up, 100nF debounce)'' (PInt 30) (PInt 225) (dec 20 1),
    (let btn_configs = [(''BTN0'', ''GPIO_B12_IO44''),
          (''BTN1'', ''GPIO_B12_IO45'')];
        btn_base_x = PInt 70;
        btn_base_y = PInt 255;
        btn_spacing = PInt 50
    in draw (map (\<lambda>(idx, (name, bank12_net)). (let bx = btn_base_x + PInt idx * btn_spacing;
            by = btn_base_y
        in draw [
          text_note name (bx - PInt 3) (by - PInt 15) (dec 127 2),
          bump ''buttons'',
          with_value next_btn (\<lambda>btn_ref. draw [
            power_symbol ''+3V3'' bx (by - PInt 18) 0,
            wire bx (by - PInt 18) bx (by - PInt 15),
            resistor ''10K'' bx (by - PInt 11) 0 fp_r0402,
            wire bx (by - PInt 15) bx (by - dec 1481 2),
            (let node_y = by - PInt 5
            in draw [
              wire bx (by - dec 719 2) bx node_y,
              symbol_instance ''Switch:SW_Push'' btn_ref name bx by 1 0 ''Button_Switch_SMD:SW_Push_1P1T_NO_6x6mm_H9.5mm'' [],
              symbol_pins [''1'', ''2''],
              wire bx node_y (bx - dec 508 2) by,
              wire (bx + dec 508 2) by (bx + PInt 10) by,
              power_symbol ''GND'' (bx + PInt 10) by 0,
              (let cap_x = bx + PInt 8
              in draw [
                wire bx node_y cap_x node_y,
                cap ''100n'' cap_x (node_y + PInt 5) 0 ''Capacitor_SMD:C_0402_1005Metric'',
                power_symbol ''GND'' cap_x (node_y + PInt 12) 0,
                wire cap_x (node_y + dec 881 2) cap_x (node_y + PInt 12),
                wire cap_x node_y cap_x (node_y + dec 119 2),
                hier_label bank12_net (bx - PInt 15) node_y ''bidirectional'' 180,
                wire (bx - PInt 15) node_y bx node_y])])])])) (enum_list btn_configs)))]\<close>

definition connectors_test_points :: "stmt" where
  \<open>connectors_test_points = draw [
    text_note ''TEST POINTS (SMD pads)'' (PInt 30) (PInt 300) (dec 20 1),
    text_note ''All power rails + key signals'' (PInt 30) (PInt 305) (dec 127 2),
    (let tp_rails = [(''+12V'', ''power''),
          (''+5V'', ''power''),
          (''+3V3'', ''power''),
          (''+1V8'', ''power''),
          (''+1V35'', ''power''),
          (''+1V0'', ''power''),
          (''+1V5'', ''power''),
          (''VTT'', ''power''),
          (''GND'', ''gnd'')];
        tp_signals = [(''GPS_1PPS'', ''signal''),
          (''PS_CLK'', ''signal'')];
        tp_base_x = PInt 40;
        tp_base_y = PInt 325;
        tp_spacing_x = PInt 25;
        tp_spacing_y = PInt 30
    in draw [
      draw (map (\<lambda>(idx, (net, tp_type)). (let tx = tp_base_x + PInt idx * tp_spacing_x;
            ty = tp_base_y
        in draw [
          test_point net tx ty ''TestPoint:TestPoint_Pad_1.5x1.5mm'',
          (if tp_type = ''gnd'' then draw [
              power_symbol ''GND'' tx (ty - PInt 5) 0,
              wire tx ty tx (ty - PInt 5)]
          else draw [
              power_symbol net tx (ty - PInt 5) 0,
              wire tx ty tx (ty - PInt 5)])])) (enum_list tp_rails)),
      draw (map (\<lambda>(idx, (net, tp_type)). (let tx = tp_base_x + PInt idx * tp_spacing_x;
            ty = tp_base_y + tp_spacing_y
        in draw [
          test_point net tx ty ''TestPoint:TestPoint_Pad_1.5x1.5mm'',
          global_label net tx (ty - PInt 5) ''passive'' 0,
          wire tx ty tx (ty - PInt 5)])) (enum_list tp_signals))])]\<close>

definition connectors_board_id :: "stmt" where
  \<open>connectors_board_id = text_note ''CIRRADIO DevBoard v1.0'' (PInt 30) (PInt 390) (dec 30 1)\<close>

definition connectors_sheet :: "random \<Rightarrow> string \<times> sheet" where
  \<open>connectors_sheet rnd =
    (let s0 = draw [emit_header ''cirradio_gen_connectors'' ''CIRRADIO Dev Board - Connectors & Debug'' ''GPIO header, status LEDs, user buttons, test points'' ''Matches Zynq PL Bank 12 hierarchical labels'',
            connectors_lib_symbols,
            emit [],
            connectors_title] ((empty_sheet rnd)\<lparr>cap_idx := 200, res_idx := 200, pwr_idx := 200, led_idx := 1, btn_idx := 1, tp_idx := 1, conn_idx := 10\<rparr>);
        (hdr_ref, s1) = next_conn s0
     in (hdr_ref,
       draw [connectors_header hdr_ref,
            connectors_leds,
            connectors_buttons,
            connectors_test_points,
            connectors_board_id,
            emit '')''] s1))\<close>

definition connectors_report :: "string \<Rightarrow> string \<Rightarrow> sheet \<Rightarrow> nat \<Rightarrow> nat \<Rightarrow> string list" where
  \<open>connectors_report hdr_ref path s n_open n_close =
    [''Generated: '' @ path,
     ''Component counts:'',
     ''  GPIO header: 1 ('' @ hdr_ref @ '')'',
     ''  LEDs: '' @ int_str (counts s ''leds''),
     ''  Buttons: '' @ int_str (counts s ''buttons''),
     ''  Test points: '' @ int_str (counts s ''test_points''),
     ''  Resistors: '' @ int_str (counts s ''resistors''),
     ''  Capacitors: '' @ int_str (counts s ''capacitors''),
     ''  Power symbols: '' @ int_str (pwr_idx s - 200),
     ''  Wires: '' @ int_str (counts s ''wires''),
     ''  Global labels: '' @ int_str (counts s ''gl_labels''),
     ''  Hierarchical labels: '' @ int_str (counts s ''hier_labels''),
     ''  Parentheses balanced: '' @ int_str (int n_open) @ '' opens, '' @ int_str (int n_close) @ '' closes'']\<close>

definition gen_connectors :: "random \<Rightarrow> gen_out" where
  "gen_connectors rnd =
     (let (hdr_ref, s) = connectors_sheet rnd; path = board_dir @ ''connectors.kicad_sch''
      in finish ''WARNING'' path (connectors_report hdr_ref path s) s)"

end
