(* ===== verification/ConnectorsRead.thy ===== *)
theory ConnectorsRead
  imports SheetFile Connectors
begin

text \<open>
  What \<open>gen_connectors.py\<close> draws, read back by the parser of the netlist script: the parts and the nets of
  the connector sheet, section by section, and the whole file.
\<close>

section \<open>Parts and nets\<close>

definition connectors_header_parts :: "component list" where
  "connectors_header_parts =
    [part ''J10'' ''GPIO_2x20'' ''Connector_PinHeader_2.54mm:PinHeader_2x20_P2.54mm_Vertical'' ''Connector_Generic:Conn_02x20_Odd_Even''] @
    parts_run ''R'' 200 219 ''33R'' fp_r0402 ''Device:R''"

definition connectors_header_labels :: "string list" where
  "connectors_header_labels =
    names_run ''GPIO_B12_IO'' 0 19"

definition connectors_leds_parts :: "component list" where
  "connectors_leds_parts =
    [part ''R220'' ''4.7K'' fp_r0402 ''Device:R'',
      part ''D1'' ''Green'' ''LED_SMD:LED_0603_1608Metric'' ''Device:LED'',
      part ''R221'' ''330R'' fp_r0402 ''Device:R'',
      part ''D2'' ''Green'' ''LED_SMD:LED_0603_1608Metric'' ''Device:LED'',
      part ''R222'' ''330R'' fp_r0402 ''Device:R'',
      part ''D3'' ''Red'' ''LED_SMD:LED_0603_1608Metric'' ''Device:LED'',
      part ''R223'' ''330R'' fp_r0402 ''Device:R'',
      part ''D4'' ''Green'' ''LED_SMD:LED_0603_1608Metric'' ''Device:LED'']"

definition connectors_leds_labels :: "string list" where
  "connectors_leds_labels =
    [''GPIO_B12_IO40'', ''GPIO_B12_IO41'', ''GPIO_B12_IO42'']"

definition connectors_buttons_parts :: "component list" where
  "connectors_buttons_parts =
    [part ''R224'' ''10K'' fp_r0402 ''Device:R'',
      part ''SW1'' ''BTN0'' ''Button_Switch_SMD:SW_Push_1P1T_NO_6x6mm_H9.5mm'' ''Switch:SW_Push'',
      part ''C200'' ''100n'' fp_c0402 ''Device:C'',
      part ''R225'' ''10K'' fp_r0402 ''Device:R'',
      part ''SW2'' ''BTN1'' ''Button_Switch_SMD:SW_Push_1P1T_NO_6x6mm_H9.5mm'' ''Switch:SW_Push'',
      part ''C201'' ''100n'' fp_c0402 ''Device:C'']"

definition connectors_buttons_labels :: "string list" where
  "connectors_buttons_labels =
    [''GPIO_B12_IO44'', ''GPIO_B12_IO45'']"

definition connectors_test_points_parts :: "component list" where
  "connectors_test_points_parts =
    [part ''TP1'' ''+12V'' ''TestPoint:TestPoint_Pad_1.5x1.5mm'' ''Connector:TestPoint'',
      part ''TP2'' ''+5V'' ''TestPoint:TestPoint_Pad_1.5x1.5mm'' ''Connector:TestPoint'',
      part ''TP3'' ''+3V3'' ''TestPoint:TestPoint_Pad_1.5x1.5mm'' ''Connector:TestPoint'',
      part ''TP4'' ''+1V8'' ''TestPoint:TestPoint_Pad_1.5x1.5mm'' ''Connector:TestPoint'',
      part ''TP5'' ''+1V35'' ''TestPoint:TestPoint_Pad_1.5x1.5mm'' ''Connector:TestPoint'',
      part ''TP6'' ''+1V0'' ''TestPoint:TestPoint_Pad_1.5x1.5mm'' ''Connector:TestPoint'',
      part ''TP7'' ''+1V5'' ''TestPoint:TestPoint_Pad_1.5x1.5mm'' ''Connector:TestPoint'',
      part ''TP8'' ''VTT'' ''TestPoint:TestPoint_Pad_1.5x1.5mm'' ''Connector:TestPoint'',
      part ''TP9'' ''GND'' ''TestPoint:TestPoint_Pad_1.5x1.5mm'' ''Connector:TestPoint'',
      part ''TP10'' ''GPS_1PPS'' ''TestPoint:TestPoint_Pad_1.5x1.5mm'' ''Connector:TestPoint'',
      part ''TP11'' ''PS_CLK'' ''TestPoint:TestPoint_Pad_1.5x1.5mm'' ''Connector:TestPoint'']"

definition connectors_sheet_parts :: "component list" where
  "connectors_sheet_parts = connectors_header_parts @ connectors_leds_parts @ connectors_buttons_parts @
      connectors_test_points_parts"

text \<open>The global labels and the power symbols, then the hierarchical labels.\<close>

definition connectors_sheet_nets :: "string list" where
  "connectors_sheet_nets = [''+3V3'', ''+5V'', ''GND'', ''PS_UART0_TX'', ''PS_UART0_RX'', ''PS_I2C_SDA'', ''PS_I2C_SCL'',
      ''PS_SPI_CE0'', ''PS_SPI_MISO'', ''PS_SPI_MOSI'', ''PS_SPI_SCLK'', ''+12V'', ''+1V8'', ''+1V35'', ''+1V0'', ''+1V5'',
      ''VTT'', ''GPS_1PPS'', ''PS_CLK''] @ connectors_header_labels @ connectors_leds_labels @ connectors_buttons_labels"

section \<open>The sections\<close>

definition connectors_start :: reading where
  "connectors_start = no_reading\<lparr>r_cap := 200, r_res := 200, r_led := 1, r_btn := 1, r_tp := 1, r_conn := 10\<rparr>"

lemma connectors_title_read:
  "yields_section connectors_title connectors_start
    connectors_start"
  unfolding connectors_title_def
  by (rule sectionI, (simp only: loop_simps)?, (rule section_rules | simp only: loop_simps)+,
      code_simp)

lemma connectors_header_read:
  "yields_section (connectors_header ''J10'') (connectors_start\<lparr>r_conn := 11\<rparr>)
    (connectors_start\<lparr>r_res := 220, r_conn := 11, r_parts := rev connectors_header_parts, r_rails := [''PS_SPI_SCLK'',
      ''PS_SPI_MOSI'', ''PS_SPI_MISO'', ''PS_SPI_CE0'', ''PS_I2C_SCL'', ''PS_I2C_SDA'', ''PS_UART0_RX'', ''PS_UART0_TX'',
      ''GND'', ''+5V'', ''+3V3''], r_hiers := rev connectors_header_labels\<rparr>)"
  unfolding connectors_header_def
  by (rule sectionI, (simp only: loop_simps)?, (rule section_rules | simp only: loop_simps)+,
      code_simp)

lemma connectors_leds_read:
  "yields_section connectors_leds (connectors_start\<lparr>r_res := 220, r_conn := 11\<rparr>)
    (connectors_start\<lparr>r_res := 224, r_led := 5, r_conn := 11, r_parts := rev connectors_leds_parts, r_rails := [''GND'',
      ''+3V3''], r_hiers := rev connectors_leds_labels\<rparr>)"
  unfolding connectors_leds_def
  by (rule sectionI, (simp only: loop_simps)?, (rule section_rules | simp only: loop_simps)+,
      code_simp)

lemma connectors_buttons_read:
  "yields_section connectors_buttons (connectors_start\<lparr>r_res := 224, r_led := 5, r_conn := 11\<rparr>)
    (connectors_start\<lparr>r_cap := 202, r_res := 226, r_led := 5, r_btn := 3, r_conn := 11,
      r_parts := rev connectors_buttons_parts, r_rails := [''GND'', ''+3V3''],
      r_hiers := rev connectors_buttons_labels\<rparr>)"
  unfolding connectors_buttons_def
  by (rule sectionI, (simp only: loop_simps)?, (rule section_rules | simp only: loop_simps)+,
      code_simp)

lemma connectors_test_points_read:
  "yields_section connectors_test_points (connectors_start\<lparr>r_cap := 202, r_res := 226, r_led := 5, r_btn := 3,
      r_conn := 11\<rparr>)
    (connectors_start\<lparr>r_cap := 202, r_res := 226, r_led := 5, r_btn := 3, r_tp := 12, r_conn := 11,
      r_parts := rev connectors_test_points_parts, r_rails := [''PS_CLK'', ''GPS_1PPS'', ''GND'', ''VTT'', ''+1V5'', ''+1V0'',
      ''+1V35'', ''+1V8'', ''+3V3'', ''+5V'', ''+12V'']\<rparr>)"
  unfolding connectors_test_points_def
  by (rule sectionI, (simp only: loop_simps)?, (rule section_rules | simp only: loop_simps)+,
      code_simp)

lemma connectors_board_id_read:
  "yields_section connectors_board_id (connectors_start\<lparr>r_cap := 202, r_res := 226, r_led := 5, r_btn := 3, r_tp := 12,
      r_conn := 11\<rparr>)
    (connectors_start\<lparr>r_cap := 202, r_res := 226, r_led := 5, r_btn := 3, r_tp := 12, r_conn := 11\<rparr>)"
  unfolding connectors_board_id_def
  by (rule sectionI, (simp only: loop_simps)?, (rule section_rules | simp only: loop_simps)+,
      code_simp)

section \<open>The file\<close>

lemma connectors_lib: "lib_block connectors_lib_symbols"
  unfolding connectors_lib_parts_def connectors_lib_header_def connectors_lib_rest_def connectors_lib_symbols_def
    lib_device_c_def lib_device_led_def lib_device_r_def lib_gnd_def lib_power_def lib_sw_push_def
  by (rule lib_block_run, rule lib_begin_rule, (rule lib_end_rules walk_rules walks_literal | simp only: loop_simps)+, code_simp)

lemma connectors_refs:
  "int_str 10 = ''10''"
  by code_simp+

lemma connectors_body:
  "holds (draw [emit [], connectors_title, with_value next_conn (\<lambda>hdr_ref. draw [connectors_header hdr_ref,
      connectors_leds, connectors_buttons, connectors_test_points, connectors_board_id])])
    connectors_start connectors_sheet_parts connectors_sheet_nets"
  by (rule holdsI,
      (rule section_one section_u section_j section_chain section_blank
          connectors_title_read connectors_header_read connectors_leds_read connectors_buttons_read
          connectors_test_points_read connectors_board_id_read
        | (simp add: connectors_start_def no_reading_def outputs_empty_def connectors_refs; fail))+)
    (simp add: connectors_sheet_parts_def connectors_start_def no_reading_def,
     auto simp: connectors_sheet_nets_def connectors_start_def no_reading_def nets_read_def outputs_join_def)

lemma connectors_titles:
  "title_ok ''cirradio_gen_connectors''" "title_ok ''CIRRADIO Dev Board - Connectors & Debug''" "title_ok ''GPIO header, status LEDs, user buttons, test points''" "title_ok ''Matches Zynq PL Bank 12 hierarchical labels''"
  by code_simp+

lemma connectors_sheet_eq:
  "snd (connectors_sheet rnd) = draw [emit '')'']
    (draw [emit [], connectors_title, with_value next_conn (\<lambda>hdr_ref. draw [connectors_header hdr_ref, connectors_leds,
      connectors_buttons, connectors_test_points, connectors_board_id])]
      (connectors_lib_symbols (emit_header ''cirradio_gen_connectors'' ''CIRRADIO Dev Board - Connectors & Debug'' ''GPIO header, status LEDs, user buttons, test points'' ''Matches Zynq PL Bank 12 hierarchical labels''
        ((empty_sheet rnd)\<lparr>cap_idx := 200, res_idx := 200, pwr_idx := 200, led_idx := 1, btn_idx := 1, tp_idx := 1,
      conn_idx := 10\<rparr>))))"
  by (simp only: connectors_sheet_def draw_simps Let_def with_value_def snd_conv case_snd case_emit cong: prod.case_cong)

lemma connectors_file:
  "\<exists>content. gen_exit (gen_connectors rnd) = 0 \<and> gen_file (gen_connectors rnd) = Some (board_dir @ ''connectors.kicad_sch'', content) \<and>
    check_parens content = (True, 0) \<and> parse_schematic content = (connectors_sheet_parts, set connectors_sheet_nets)"
proof -
  note h = sheet_holds [OF connectors_lib connectors_titles, OF _ _ _ _ connectors_body, OF _ _ _ _ connectors_sheet_eq]
  show ?thesis unfolding gen_connectors_def Let_def case_prod_beta
    by (rule h) (simp_all add: empty_sheet_def connectors_start_def no_reading_def outputs_empty_def same_indices_def)
qed

text \<open>
  C37: Run with any random bytes, \<open>gen_connectors.py\<close> ends with status 0 and writes a balanced file; the parser
  of the netlist script reads in it exactly the listed parts, in the order they are drawn, and the
  listed nets.
\<close>

theorem connectors_read_back:
  "\<exists>content. gen_exit (gen_connectors rnd) = 0 \<and> gen_file (gen_connectors rnd) = Some (board_dir @ ''connectors.kicad_sch'', content) \<and>
    check_parens content = (True, 0) \<and> parse_schematic content = (connectors_sheet_parts, set connectors_sheet_nets)"
  by (rule connectors_file)
end
