(* ===== verification/RfFrontend.thy ===== *)
theory RfFrontend
  imports Schematic
begin

text \<open>
  The RF front-end sheet, \<open>hardware/cirradio-devboard/gen_rf.py\<close>: the filters, the antenna
  switch, the receive and transmit amplifiers.
\<close>

section \<open>Library symbols\<close>

definition rf_lib_passives :: "stmt" where
  \<open>rf_lib_passives = draw [
    emit ''  (lib_symbols'',
    emit lib_device_r,
    emit lib_device_c,
    emit (py_join [nl]
       [''    (symbol "Device:L"'',
        ''      (pin_names (offset 0) hide) (exclude_from_sim no) (in_bom yes) (on_board yes)'',
        ''      (property "Reference" "L" (at 1.524 0 0) (effects (font (size 1.27 1.27)) (justify left)))'',
        ''      (property "Value" "L" (at -1.524 0 0) (effects (font (size 1.27 1.27)) (justify right)))'',
        ''      (property "Footprint" "" (at 0 0 0) (effects (font (size 1.27 1.27)) hide))'',
        ''      (property "Datasheet" "" (at 0 0 0) (effects (font (size 1.27 1.27)) hide))'',
        ''      (symbol "L_0_1"'',
        ''        (arc (start 0 -2.54) (mid 0.635 -1.905) (end 0 -1.27) (stroke (width 0.254) (type default)) (fill (type none)))'',
        ''        (arc (start 0 -1.27) (mid 0.635 -0.635) (end 0 0) (stroke (width 0.254) (type default)) (fill (type none)))'',
        ''        (arc (start 0 0) (mid 0.635 0.635) (end 0 1.27) (stroke (width 0.254) (type default)) (fill (type none)))'',
        ''        (arc (start 0 1.27) (mid 0.635 1.905) (end 0 2.54) (stroke (width 0.254) (type default)) (fill (type none)))'',
        ''      )'',
        ''      (symbol "L_1_1"'',
        ''        (pin passive line (at 0 3.81 270) (length 1.27) (name "~" (effects (font (size 1.27 1.27)))) (number "1" (effects (font (size 1.27 1.27)))))'',
        ''        (pin passive line (at 0 -3.81 90) (length 1.27) (name "~" (effects (font (size 1.27 1.27)))) (number "2" (effects (font (size 1.27 1.27)))))'',
        ''      )'',
        ''    )'']),
    emit (py_join [nl]
       [''    (symbol "Connector:Conn_Coaxial"'',
        ''      (pin_names (offset 1.016) hide) (exclude_from_sim no) (in_bom yes) (on_board yes)'',
        ''      (property "Reference" "J" (at 0.254 3.048 0) (effects (font (size 1.27 1.27))))'',
        ''      (property "Value" "Conn_Coaxial" (at 2.286 -2.286 0) (effects (font (size 1.27 1.27)) (justify left)))'',
        ''      (property "Footprint" "" (at 0 0 0) (effects (font (size 1.27 1.27)) hide))'',
        ''      (property "Datasheet" "" (at 0 0 0) (effects (font (size 1.27 1.27)) hide))'',
        ''      (symbol "Conn_Coaxial_0_1"'',
        ''        (arc (start -1.778 -0.508) (mid 0.7584 -2.044) (end 1.778 0) (stroke (width 0.254) (type default)) (fill (type none)))'',
        ''        (arc (start -1.778 0.508) (mid -0.7584 2.044) (end 1.778 0) (stroke (width 0.254) (type default)) (fill (type none)))'',
        ''      )'',
        ''      (symbol "Conn_Coaxial_1_1"'',
        ''        (pin passive line (at -3.81 0 0) (length 2.54) (name "In" (effects (font (size 1.27 1.27)))) (number "1" (effects (font (size 1.27 1.27)))))'',
        ''        (pin passive line (at 0 -3.81 90) (length 2.54) (name "Ext" (effects (font (size 1.27 1.27)))) (number "2" (effects (font (size 1.27 1.27)))))'',
        ''      )'',
        ''    )'']),
    emit (py_join [nl]
       [''    (symbol "Device:BPF"'',
        ''      (pin_names (offset 0.254)) (exclude_from_sim no) (in_bom yes) (on_board yes)'',
        ''      (property "Reference" "FL" (at 0 3.81 0) (effects (font (size 1.27 1.27))))'',
        ''      (property "Value" "BPF" (at 0 -3.81 0) (effects (font (size 1.27 1.27))))'',
        ''      (property "Footprint" "" (at 0 0 0) (effects (font (size 1.27 1.27)) hide))'',
        ''      (property "Datasheet" "" (at 0 0 0) (effects (font (size 1.27 1.27)) hide))'',
        ''      (symbol "BPF_0_1"'',
        ''        (rectangle (start -5.08 2.54) (end 5.08 -2.54) (stroke (width 0.254) (type default)) (fill (type background)))'',
        ''      )'',
        ''      (symbol "BPF_1_1"'',
        ''        (pin passive line (at -7.62 0 0) (length 2.54) (name "IN" (effects (font (size 1.27 1.27)))) (number "1" (effects (font (size 1.27 1.27)))))'',
        ''        (pin passive line (at 7.62 0 180) (length 2.54) (name "OUT" (effects (font (size 1.27 1.27)))) (number "2" (effects (font (size 1.27 1.27)))))'',
        ''        (pin power_in line (at 0 -5.08 90) (length 2.54) (name "GND" (effects (font (size 1.27 1.27)))) (number "3" (effects (font (size 1.27 1.27)))))'',
        ''      )'',
        ''    )''])]\<close>

definition rf_lib_switch :: "stmt" where
  \<open>rf_lib_switch = emit (py_join [nl]
       [''    (symbol "cirradio:PE42525"'',
        ''      (pin_names (offset 0.254))'',
        ''      (exclude_from_sim no) (in_bom yes) (on_board yes)'',
        ''      (property "Reference" "U" (at 0 10.16 0) (effects (font (size 1.27 1.27))))'',
        ''      (property "Value" "PE42525" (at 0 -10.16 0) (effects (font (size 1.27 1.27))))'',
        ''      (property "Footprint" "" (at 0 0 0) (effects (font (size 1.27 1.27)) hide))'',
        ''      (property "Datasheet" "" (at 0 0 0) (effects (font (size 1.27 1.27)) hide))'',
        ''      (symbol "PE42525_0_1"'',
        ''        (rectangle (start -7.62 8.89) (end 7.62 -8.89) (stroke (width 0.254) (type default)) (fill (type background)))'',
        ''      )'',
        ''      (symbol "PE42525_1_1"'',
        ''        (pin bidirectional line (at -10.16 5.08 0) (length 2.54) (name "RFC" (effects (font (size 1.27 1.27)))) (number "1" (effects (font (size 1.27 1.27)))))'',
        ''        (pin power_in line (at 0 -11.43 90) (length 2.54) (name "GND" (effects (font (size 1.27 1.27)))) (number "2" (effects (font (size 1.27 1.27)))))'',
        ''        (pin power_in line (at 0 -11.43 90) (length 2.54) (name "GND" (effects (font (size 1.27 1.27)))) (number "3" (effects (font (size 1.27 1.27)))))'',
        ''        (pin bidirectional line (at 10.16 2.54 180) (length 2.54) (name "RF2" (effects (font (size 1.27 1.27)))) (number "4" (effects (font (size 1.27 1.27)))))'',
        ''        (pin power_in line (at 0 -11.43 90) (length 2.54) (name "GND" (effects (font (size 1.27 1.27)))) (number "5" (effects (font (size 1.27 1.27)))))'',
        ''        (pin power_in line (at 0 -11.43 90) (length 2.54) (name "GND" (effects (font (size 1.27 1.27)))) (number "6" (effects (font (size 1.27 1.27)))))'',
        ''        (pin power_in line (at 0 -11.43 90) (length 2.54) (name "GND" (effects (font (size 1.27 1.27)))) (number "7" (effects (font (size 1.27 1.27)))))'',
        ''        (pin power_in line (at 0 -11.43 90) (length 2.54) (name "GND" (effects (font (size 1.27 1.27)))) (number "8" (effects (font (size 1.27 1.27)))))'',
        ''        (pin power_in line (at 0 -11.43 90) (length 2.54) (name "GND" (effects (font (size 1.27 1.27)))) (number "9" (effects (font (size 1.27 1.27)))))'',
        ''        (pin power_in line (at 0 -11.43 90) (length 2.54) (name "GND" (effects (font (size 1.27 1.27)))) (number "10" (effects (font (size 1.27 1.27)))))'',
        ''        (pin power_in line (at 0 -11.43 90) (length 2.54) (name "GND" (effects (font (size 1.27 1.27)))) (number "11" (effects (font (size 1.27 1.27)))))'',
        ''        (pin bidirectional line (at 10.16 5.08 180) (length 2.54) (name "RF1" (effects (font (size 1.27 1.27)))) (number "12" (effects (font (size 1.27 1.27)))))'',
        ''        (pin power_in line (at 0 -11.43 90) (length 2.54) (name "GND" (effects (font (size 1.27 1.27)))) (number "13" (effects (font (size 1.27 1.27)))))'',
        ''        (pin power_in line (at 0 -11.43 90) (length 2.54) (name "GND" (effects (font (size 1.27 1.27)))) (number "14" (effects (font (size 1.27 1.27)))))'',
        ''        (pin input line (at -10.16 0 0) (length 2.54) (name "V2" (effects (font (size 1.27 1.27)))) (number "15" (effects (font (size 1.27 1.27)))))'',
        ''        (pin input line (at -10.16 2.54 0) (length 2.54) (name "V1" (effects (font (size 1.27 1.27)))) (number "16" (effects (font (size 1.27 1.27)))))'',
        ''        (pin power_in line (at 0 -11.43 90) (length 2.54) (name "GND" (effects (font (size 1.27 1.27)))) (number "17" (effects (font (size 1.27 1.27)))))'',
        ''      )'',
        ''    )''])\<close>

definition rf_lib_lna :: "stmt" where
  \<open>rf_lib_lna = emit (py_join [nl]
       [''    (symbol "cirradio:ADL5523ACPZ"'',
        ''      (pin_names (offset 0.254))'',
        ''      (exclude_from_sim no) (in_bom yes) (on_board yes)'',
        ''      (property "Reference" "U" (at 0 11.43 0) (effects (font (size 1.27 1.27))))'',
        ''      (property "Value" "ADL5523ACPZ" (at 0 -11.43 0) (effects (font (size 1.27 1.27))))'',
        ''      (property "Footprint" "" (at 0 0 0) (effects (font (size 1.27 1.27)) hide))'',
        ''      (property "Datasheet" "" (at 0 0 0) (effects (font (size 1.27 1.27)) hide))'',
        ''      (symbol "ADL5523ACPZ_0_1"'',
        ''        (rectangle (start -7.62 10.16) (end 7.62 -10.16) (stroke (width 0.254) (type default)) (fill (type background)))'',
        ''      )'',
        ''      (symbol "ADL5523ACPZ_1_1"'',
        ''        (pin input line (at -10.16 7.62 0) (length 2.54) (name "RFIN" (effects (font (size 1.27 1.27)))) (number "1" (effects (font (size 1.27 1.27)))))'',
        ''        (pin power_in line (at 0 -12.7 90) (length 2.54) (name "GND" (effects (font (size 1.27 1.27)))) (number "2" (effects (font (size 1.27 1.27)))))'',
        ''        (pin power_in line (at 0 -12.7 90) (length 2.54) (name "GND" (effects (font (size 1.27 1.27)))) (number "3" (effects (font (size 1.27 1.27)))))'',
        ''        (pin no_connect line (at 10.16 -5.08 180) (length 2.54) (name "NC" (effects (font (size 1.27 1.27)))) (number "4" (effects (font (size 1.27 1.27)))))'',
        ''        (pin no_connect line (at 10.16 -5.08 180) (length 2.54) (name "NC" (effects (font (size 1.27 1.27)))) (number "5" (effects (font (size 1.27 1.27)))))'',
        ''        (pin no_connect line (at 10.16 -5.08 180) (length 2.54) (name "NC" (effects (font (size 1.27 1.27)))) (number "6" (effects (font (size 1.27 1.27)))))'',
        ''        (pin power_in line (at 0 -12.7 90) (length 2.54) (name "GND" (effects (font (size 1.27 1.27)))) (number "7" (effects (font (size 1.27 1.27)))))'',
        ''        (pin power_in line (at 0 -12.7 90) (length 2.54) (name "GND" (effects (font (size 1.27 1.27)))) (number "8" (effects (font (size 1.27 1.27)))))'',
        ''        (pin output line (at 10.16 7.62 180) (length 2.54) (name "RFOUT" (effects (font (size 1.27 1.27)))) (number "9" (effects (font (size 1.27 1.27)))))'',
        ''        (pin power_in line (at 0 12.7 270) (length 2.54) (name "VCC" (effects (font (size 1.27 1.27)))) (number "10" (effects (font (size 1.27 1.27)))))'',
        ''        (pin passive line (at 10.16 2.54 180) (length 2.54) (name "DECL" (effects (font (size 1.27 1.27)))) (number "11" (effects (font (size 1.27 1.27)))))'',
        ''        (pin no_connect line (at 10.16 -5.08 180) (length 2.54) (name "NC" (effects (font (size 1.27 1.27)))) (number "12" (effects (font (size 1.27 1.27)))))'',
        ''        (pin power_in line (at 0 12.7 270) (length 2.54) (name "VCC" (effects (font (size 1.27 1.27)))) (number "13" (effects (font (size 1.27 1.27)))))'',
        ''        (pin power_in line (at 0 -12.7 90) (length 2.54) (name "GND" (effects (font (size 1.27 1.27)))) (number "14" (effects (font (size 1.27 1.27)))))'',
        ''        (pin power_in line (at 0 -12.7 90) (length 2.54) (name "GND" (effects (font (size 1.27 1.27)))) (number "15" (effects (font (size 1.27 1.27)))))'',
        ''        (pin power_in line (at -10.16 2.54 0) (length 2.54) (name "VPDC" (effects (font (size 1.27 1.27)))) (number "16" (effects (font (size 1.27 1.27)))))'',
        ''        (pin power_in line (at 0 -12.7 90) (length 2.54) (name "GND" (effects (font (size 1.27 1.27)))) (number "17" (effects (font (size 1.27 1.27)))))'',
        ''      )'',
        ''    )''])\<close>

definition rf_lib_amps :: "stmt" where
  \<open>rf_lib_amps = draw [
    emit (py_join [nl]
       [''    (symbol "cirradio:ADL5606ACPZ"'',
        ''      (pin_names (offset 0.254))'',
        ''      (exclude_from_sim no) (in_bom yes) (on_board yes)'',
        ''      (property "Reference" "U" (at 0 15.24 0) (effects (font (size 1.27 1.27))))'',
        ''      (property "Value" "ADL5606ACPZ" (at 0 -15.24 0) (effects (font (size 1.27 1.27))))'',
        ''      (property "Footprint" "" (at 0 0 0) (effects (font (size 1.27 1.27)) hide))'',
        ''      (property "Datasheet" "" (at 0 0 0) (effects (font (size 1.27 1.27)) hide))'',
        ''      (symbol "ADL5606ACPZ_0_1"'',
        ''        (rectangle (start -7.62 13.97) (end 7.62 -13.97) (stroke (width 0.254) (type default)) (fill (type background)))'',
        ''      )'',
        ''      (symbol "ADL5606ACPZ_1_1"'',
        ''        (pin input line (at -10.16 10.16 0) (length 2.54) (name "INP" (effects (font (size 1.27 1.27)))) (number "1" (effects (font (size 1.27 1.27)))))'',
        ''        (pin power_in line (at 0 -16.51 90) (length 2.54) (name "GND" (effects (font (size 1.27 1.27)))) (number "2" (effects (font (size 1.27 1.27)))))'',
        ''        (pin input line (at -10.16 7.62 0) (length 2.54) (name "INM" (effects (font (size 1.27 1.27)))) (number "3" (effects (font (size 1.27 1.27)))))'',
        ''        (pin power_in line (at 0 -16.51 90) (length 2.54) (name "GND" (effects (font (size 1.27 1.27)))) (number "4" (effects (font (size 1.27 1.27)))))'',
        ''        (pin power_in line (at 0 -16.51 90) (length 2.54) (name "GND" (effects (font (size 1.27 1.27)))) (number "5" (effects (font (size 1.27 1.27)))))'',
        ''        (pin power_in line (at 0 -16.51 90) (length 2.54) (name "GND" (effects (font (size 1.27 1.27)))) (number "6" (effects (font (size 1.27 1.27)))))'',
        ''        (pin output line (at 10.16 10.16 180) (length 2.54) (name "OUTP" (effects (font (size 1.27 1.27)))) (number "7" (effects (font (size 1.27 1.27)))))'',
        ''        (pin power_in line (at 0 16.51 270) (length 2.54) (name "VCC2" (effects (font (size 1.27 1.27)))) (number "8" (effects (font (size 1.27 1.27)))))'',
        ''        (pin output line (at 10.16 7.62 180) (length 2.54) (name "OUTM" (effects (font (size 1.27 1.27)))) (number "9" (effects (font (size 1.27 1.27)))))'',
        ''        (pin power_in line (at 0 -16.51 90) (length 2.54) (name "GND" (effects (font (size 1.27 1.27)))) (number "10" (effects (font (size 1.27 1.27)))))'',
        ''        (pin power_in line (at 0 -16.51 90) (length 2.54) (name "GND" (effects (font (size 1.27 1.27)))) (number "11" (effects (font (size 1.27 1.27)))))'',
        ''        (pin power_in line (at 0 -16.51 90) (length 2.54) (name "GND" (effects (font (size 1.27 1.27)))) (number "12" (effects (font (size 1.27 1.27)))))'',
        ''        (pin power_in line (at 0 -16.51 90) (length 2.54) (name "GND" (effects (font (size 1.27 1.27)))) (number "13" (effects (font (size 1.27 1.27)))))'',
        ''        (pin power_in line (at 0 16.51 270) (length 2.54) (name "VCC3" (effects (font (size 1.27 1.27)))) (number "14" (effects (font (size 1.27 1.27)))))'',
        ''        (pin power_in line (at 0 -16.51 90) (length 2.54) (name "GND" (effects (font (size 1.27 1.27)))) (number "15" (effects (font (size 1.27 1.27)))))'',
        ''        (pin power_in line (at 0 -16.51 90) (length 2.54) (name "GND" (effects (font (size 1.27 1.27)))) (number "16" (effects (font (size 1.27 1.27)))))'',
        ''        (pin power_in line (at 0 -16.51 90) (length 2.54) (name "GND" (effects (font (size 1.27 1.27)))) (number "17" (effects (font (size 1.27 1.27)))))'',
        ''        (pin power_in line (at 0 -16.51 90) (length 2.54) (name "GND" (effects (font (size 1.27 1.27)))) (number "18" (effects (font (size 1.27 1.27)))))'',
        ''        (pin input line (at -10.16 2.54 0) (length 2.54) (name "PWDN" (effects (font (size 1.27 1.27)))) (number "19" (effects (font (size 1.27 1.27)))))'',
        ''        (pin power_in line (at 0 16.51 270) (length 2.54) (name "VCC1" (effects (font (size 1.27 1.27)))) (number "20" (effects (font (size 1.27 1.27)))))'',
        ''        (pin power_in line (at 0 -16.51 90) (length 2.54) (name "GND" (effects (font (size 1.27 1.27)))) (number "21" (effects (font (size 1.27 1.27)))))'',
        ''        (pin power_in line (at 0 -16.51 90) (length 2.54) (name "GND" (effects (font (size 1.27 1.27)))) (number "22" (effects (font (size 1.27 1.27)))))'',
        ''        (pin power_in line (at 0 -16.51 90) (length 2.54) (name "GND" (effects (font (size 1.27 1.27)))) (number "23" (effects (font (size 1.27 1.27)))))'',
        ''        (pin power_in line (at 0 -16.51 90) (length 2.54) (name "GND" (effects (font (size 1.27 1.27)))) (number "24" (effects (font (size 1.27 1.27)))))'',
        ''        (pin power_in line (at 0 -16.51 90) (length 2.54) (name "GND" (effects (font (size 1.27 1.27)))) (number "25" (effects (font (size 1.27 1.27)))))'',
        ''      )'',
        ''    )'']),
    emit (py_join [nl]
       [''    (symbol "cirradio:TGA2594-SM"'',
        ''      (pin_names (offset 0.254))'',
        ''      (exclude_from_sim no) (in_bom yes) (on_board yes)'',
        ''      (property "Reference" "U" (at 0 10.16 0) (effects (font (size 1.27 1.27))))'',
        ''      (property "Value" "TGA2594-SM" (at 0 -10.16 0) (effects (font (size 1.27 1.27))))'',
        ''      (property "Footprint" "" (at 0 0 0) (effects (font (size 1.27 1.27)) hide))'',
        ''      (property "Datasheet" "" (at 0 0 0) (effects (font (size 1.27 1.27)) hide))'',
        ''      (symbol "TGA2594-SM_0_1"'',
        ''        (rectangle (start -7.62 8.89) (end 7.62 -8.89) (stroke (width 0.254) (type default)) (fill (type background)))'',
        ''      )'',
        ''      (symbol "TGA2594-SM_1_1"'',
        ''        (pin input line (at -10.16 5.08 0) (length 2.54) (name "RF_IN" (effects (font (size 1.27 1.27)))) (number "1" (effects (font (size 1.27 1.27)))))'',
        ''        (pin power_in line (at 0 -11.43 90) (length 2.54) (name "GND" (effects (font (size 1.27 1.27)))) (number "2" (effects (font (size 1.27 1.27)))))'',
        ''        (pin power_in line (at 0 11.43 270) (length 2.54) (name "VDD1" (effects (font (size 1.27 1.27)))) (number "3" (effects (font (size 1.27 1.27)))))'',
        ''        (pin power_in line (at 0 11.43 270) (length 2.54) (name "VDD2" (effects (font (size 1.27 1.27)))) (number "4" (effects (font (size 1.27 1.27)))))'',
        ''        (pin power_in line (at 0 -11.43 90) (length 2.54) (name "GND" (effects (font (size 1.27 1.27)))) (number "5" (effects (font (size 1.27 1.27)))))'',
        ''        (pin output line (at 10.16 5.08 180) (length 2.54) (name "RF_OUT" (effects (font (size 1.27 1.27)))) (number "6" (effects (font (size 1.27 1.27)))))'',
        ''        (pin power_in line (at 0 -11.43 90) (length 2.54) (name "GND" (effects (font (size 1.27 1.27)))) (number "7" (effects (font (size 1.27 1.27)))))'',
        ''        (pin power_in line (at 0 11.43 270) (length 2.54) (name "VDD3" (effects (font (size 1.27 1.27)))) (number "8" (effects (font (size 1.27 1.27)))))'',
        ''        (pin power_in line (at 0 -11.43 90) (length 2.54) (name "GND" (effects (font (size 1.27 1.27)))) (number "9" (effects (font (size 1.27 1.27)))))'',
        ''        (pin no_connect line (at 10.16 -5.08 180) (length 2.54) (name "NC" (effects (font (size 1.27 1.27)))) (number "10" (effects (font (size 1.27 1.27)))))'',
        ''      )'',
        ''    )''])]\<close>

definition rf_lib_power :: "stmt" where
  \<open>rf_lib_power = draw [
    draw (map (\<lambda>(net, arrow_up). (if net = ''GND'' then emit lib_gnd
      else emit (lib_power net))) [(''+3V3'', True),
          (''+3V3A'', True),
          (''+5V_PA'', True),
          (''GND'', False)]),
    emit ''  )'']\<close>

definition rf_lib_symbols :: "stmt" where
  "rf_lib_symbols = draw [rf_lib_passives, rf_lib_switch, rf_lib_lna, rf_lib_amps, rf_lib_power]"

section \<open>The drawing\<close>

definition rf_antenna :: "stmt" where
  \<open>rf_antenna = draw [
    text_note ''ANTENNA / SMA CONNECTOR'' (PInt 30) (PInt 20) (dec 20 1),
    text_note ''50 ohm SMA edge-launch connector'' (PInt 30) (PInt 24) (dec 127 2),
    (let sma_x = PInt 40;
        sma_y = PInt 45
    in draw [
      symbol_instance ''Connector:Conn_Coaxial'' ''J1'' ''SMA 50ohm'' sma_x sma_y 1 0 ''Connector_Coaxial:SMA_Amphenol_132289_EdgeMount'' [],
      symbol_pins [''1'', ''2''],
      wire sma_x (sma_y + dec 381 2) sma_x (sma_y + PInt 7),
      power_symbol ''GND'' sma_x (sma_y + PInt 7) 0,
      wire (sma_x + dec 381 2) sma_y (sma_x + PInt 10) sma_y])]\<close>

definition rf_bpf :: "pynum \<Rightarrow> stmt" where
  \<open>rf_bpf sma_x = draw [
    text_note ''INPUT BPF 225-512 MHz'' (PInt 60) (PInt 20) (dec 20 1),
    text_note ''3-section LC: 47nH series, 22pF shunt, 0402 RF-grade'' (PInt 60) (PInt 24) (dec 127 2),
    (let bpf_x = PInt 55;
        bpf_y = PInt 45
    in draw [
      wire (sma_x + PInt 10) bpf_y bpf_x bpf_y,
      inductor ''47n'' (bpf_x + PInt 5) bpf_y 90 ''Inductor_SMD:L_0402_1005Metric'',
      wire (bpf_x + PInt 5 + dec 381 2) bpf_y (bpf_x + PInt 15) bpf_y,
      wire (bpf_x + PInt 15) bpf_y (bpf_x + PInt 15) (bpf_y + PInt 3),
      cap ''22p'' (bpf_x + PInt 15) (bpf_y + PInt 7) 0 fp_c0402,
      wire (bpf_x + PInt 15) (bpf_y + dec 1081 2) (bpf_x + PInt 15) (bpf_y + PInt 13),
      power_symbol ''GND'' (bpf_x + PInt 15) (bpf_y + PInt 13) 0,
      wire (bpf_x + PInt 15) bpf_y (bpf_x + PInt 20) bpf_y,
      inductor ''47n'' (bpf_x + PInt 25) bpf_y 90 ''Inductor_SMD:L_0402_1005Metric'',
      wire (bpf_x + PInt 25 + dec 381 2) bpf_y (bpf_x + PInt 35) bpf_y,
      wire (bpf_x + PInt 35) bpf_y (bpf_x + PInt 35) (bpf_y + PInt 3),
      cap ''22p'' (bpf_x + PInt 35) (bpf_y + PInt 7) 0 fp_c0402,
      wire (bpf_x + PInt 35) (bpf_y + dec 1081 2) (bpf_x + PInt 35) (bpf_y + PInt 13),
      power_symbol ''GND'' (bpf_x + PInt 35) (bpf_y + PInt 13) 0,
      wire (bpf_x + PInt 35) bpf_y (bpf_x + PInt 40) bpf_y,
      inductor ''47n'' (bpf_x + PInt 45) bpf_y 90 ''Inductor_SMD:L_0402_1005Metric'',
      wire (bpf_x + PInt 45 + dec 381 2) bpf_y (bpf_x + PInt 55) bpf_y,
      wire (bpf_x + PInt 55) bpf_y (bpf_x + PInt 55) (bpf_y + PInt 3),
      cap ''22p'' (bpf_x + PInt 55) (bpf_y + PInt 7) 0 fp_c0402,
      wire (bpf_x + PInt 55) (bpf_y + dec 1081 2) (bpf_x + PInt 55) (bpf_y + PInt 13),
      power_symbol ''GND'' (bpf_x + PInt 55) (bpf_y + PInt 13) 0,
      wire (bpf_x + PInt 55) bpf_y (bpf_x + PInt 65) bpf_y])]\<close>

definition rf_switch_title :: "stmt" where
  \<open>rf_switch_title = draw [
    text_note ''T/R SWITCH PE42525'' (PInt 130) (PInt 20) (dec 20 1),
    text_note ''RFC=antenna, RF1=RX, RF2=TX'' (PInt 130) (PInt 24) (dec 127 2)]\<close>

definition rf_switch :: "string \<Rightarrow> pynum \<Rightarrow> pynum \<Rightarrow> pynum \<Rightarrow> pynum \<Rightarrow> stmt" where
  \<open>rf_switch sw_ref sw_x sw_y bpf_y bpf_x = draw [
    symbol_instance ''cirradio:PE42525'' sw_ref ''PE42525'' sw_x sw_y 1 0 ''Package_DFN_QFN:QFN-16-1EP_3x3mm_P0.5mm_EP1.75x1.75mm'' [],
    symbol_pins (map (\<lambda>i. int_str i) [1..17]),
    wire sw_x (sw_y + dec 1143 2) sw_x (sw_y + PInt 15),
    power_symbol ''GND'' sw_x (sw_y + PInt 15) 0,
    global_label ''+3V3'' (sw_x - PInt 15) (sw_y - PInt 10) ''passive'' 0,
    wire (sw_x - PInt 15) (sw_y - PInt 10) (sw_x - PInt 15) (sw_y - PInt 5),
    cap ''100n'' (sw_x - PInt 15) (sw_y - PInt 1) 0 fp_c0402,
    wire (sw_x - PInt 15) (sw_y + dec 281 2) (sw_x - PInt 15) (sw_y + PInt 5),
    power_symbol ''GND'' (sw_x - PInt 15) (sw_y + PInt 5) 0,
    wire (bpf_x + PInt 65) bpf_y (sw_x - dec 1016 2) (sw_y + dec 508 2),
    hier_label ''TR_V1'' (sw_x - PInt 18) (sw_y + dec 254 2) ''input'' 0,
    wire (sw_x - PInt 18) (sw_y + dec 254 2) (sw_x - dec 1016 2) (sw_y + dec 254 2),
    hier_label ''TR_V2'' (sw_x - PInt 18) sw_y ''input'' 0,
    wire (sw_x - PInt 18) sw_y (sw_x - dec 1016 2) sw_y,
    (let rx_path_x = sw_x + dec 1016 2
    in draw [
      wire rx_path_x (sw_y + dec 508 2) (rx_path_x + PInt 10) (sw_y + dec 508 2),
      (let tx_path_x = sw_x + dec 1016 2
      in draw [
        wire tx_path_x (sw_y + dec 254 2) (tx_path_x + PInt 5) (sw_y + dec 254 2),
        wire (tx_path_x + PInt 5) (sw_y + dec 254 2) (tx_path_x + PInt 5) (sw_y + PInt 60)])])]\<close>

definition rf_lna_title :: "stmt" where
  \<open>rf_lna_title = draw [
    text_note ''RX PATH - LNA ADL5523'' (PInt 170) (PInt 20) (dec 20 1),
    text_note ''Low-noise amplifier, Gain ~20 dB, NF ~1.2 dB'' (PInt 170) (PInt 24) (dec 127 2)]\<close>

definition rf_lna :: "string \<Rightarrow> pynum \<Rightarrow> pynum \<Rightarrow> pynum \<Rightarrow> pynum \<Rightarrow> stmt" where
  \<open>rf_lna lna_ref lna_x lna_y rx_path_x sw_y = draw [
    symbol_instance ''cirradio:ADL5523ACPZ'' lna_ref ''ADL5523ACPZ'' lna_x lna_y 1 0 ''Package_DFN_QFN:QFN-16-1EP_3x3mm_P0.65mm_EP1.75x1.75mm'' [],
    symbol_pins (map (\<lambda>i. int_str i) [1..17]),
    wire lna_x (lna_y + dec 127 1) lna_x (lna_y + PInt 16),
    power_symbol ''GND'' lna_x (lna_y + PInt 16) 0,
    (let vcc_lna_x = lna_x;
        vcc_lna_y = lna_y - dec 127 1
    in draw [
      wire vcc_lna_x vcc_lna_y vcc_lna_x (vcc_lna_y - PInt 5),
      inductor ''100n'' vcc_lna_x (vcc_lna_y - PInt 9) 0 ''Inductor_SMD:L_0402_1005Metric'',
      wire vcc_lna_x (vcc_lna_y - dec 1281 2) vcc_lna_x (vcc_lna_y - PInt 15),
      global_label ''+3V3A'' vcc_lna_x (vcc_lna_y - PInt 15) ''passive'' 0,
      wire (vcc_lna_x + PInt 5) (vcc_lna_y - PInt 5) (vcc_lna_x + PInt 5) (vcc_lna_y - PInt 2),
      cap ''100n'' (vcc_lna_x + PInt 5) (vcc_lna_y + PInt 2) 0 fp_c0402,
      wire (vcc_lna_x + PInt 5) (vcc_lna_y + dec 581 2) (vcc_lna_x + PInt 5) (vcc_lna_y + PInt 8),
      power_symbol ''GND'' (vcc_lna_x + PInt 5) (vcc_lna_y + PInt 8) 0,
      wire vcc_lna_x (vcc_lna_y - PInt 5) (vcc_lna_x + PInt 5) (vcc_lna_y - PInt 5),
      wire (vcc_lna_x + PInt 10) (vcc_lna_y - PInt 5) (vcc_lna_x + PInt 10) (vcc_lna_y - PInt 2),
      cap ''10n'' (vcc_lna_x + PInt 10) (vcc_lna_y + PInt 2) 0 fp_c0402,
      wire (vcc_lna_x + PInt 10) (vcc_lna_y + dec 581 2) (vcc_lna_x + PInt 10) (vcc_lna_y + PInt 8),
      power_symbol ''GND'' (vcc_lna_x + PInt 10) (vcc_lna_y + PInt 8) 0,
      wire (vcc_lna_x + PInt 5) (vcc_lna_y - PInt 5) (vcc_lna_x + PInt 10) (vcc_lna_y - PInt 5),
      wire (lna_x - dec 1016 2) (lna_y + dec 254 2) (lna_x - PInt 15) (lna_y + dec 254 2),
      cap ''100n'' (lna_x - PInt 19) (lna_y + dec 254 2) 90 fp_c0402,
      wire (lna_x - dec 2281 2) (lna_y + dec 254 2) (lna_x - PInt 25) (lna_y + dec 254 2),
      power_symbol ''GND'' (lna_x - PInt 25) (lna_y + dec 254 2) 0,
      wire (lna_x + dec 1016 2) (lna_y + dec 254 2) (lna_x + PInt 15) (lna_y + dec 254 2),
      cap ''100p'' (lna_x + PInt 19) (lna_y + dec 254 2) 90 fp_c0402,
      wire (lna_x + dec 2281 2) (lna_y + dec 254 2) (lna_x + PInt 25) (lna_y + dec 254 2),
      power_symbol ''GND'' (lna_x + PInt 25) (lna_y + dec 254 2) 0,
      wire (rx_path_x + PInt 10) (sw_y + dec 508 2) (lna_x - PInt 15) (lna_y + dec 762 2),
      wire (lna_x - PInt 15) (lna_y + dec 762 2) (lna_x - dec 1016 2) (lna_y + dec 762 2),
      wire (lna_x + dec 1016 2) (lna_y + dec 762 2) (lna_x + PInt 30) (lna_y + dec 762 2)])]\<close>

definition rf_saw :: "pynum \<Rightarrow> pynum \<Rightarrow> stmt" where
  \<open>rf_saw lna_x lna_y = draw [
    text_note ''RX SAW FILTER'' (PInt 230) (PInt 20) (dec 20 1),
    text_note ''225-512 MHz SAW bandpass filter'' (PInt 230) (PInt 24) (dec 127 2),
    (let saw_x = PInt 235;
        saw_y = PInt 45 + dec 762 2
    in draw [
      bump ''symbols'',
      with_value new_uid (\<lambda>u_saw. (let saw_ref = ''FL1''
        in draw [
          emit (''    (symbol (lib_id "Device:BPF") (at '' @ num_str saw_x @ '' '' @ num_str saw_y @ '' 0)''),
          emit ''      (unit 1) (exclude_from_sim no) (in_bom yes) (on_board yes) (dnp no)'',
          emit (''      (uuid "'' @ u_saw @ ''")''),
          emit (''      (property "Reference" "'' @ saw_ref @ ''" (at '' @ num_str saw_x @ '' '' @ num_str (saw_y - PInt 2) @
              '' 0) (effects (font (size 1.27 1.27))))''),
          emit (''      (property "Value" "SAW 225-512MHz" (at '' @ num_str saw_x @ '' '' @ num_str (saw_y + PInt 2) @
              '' 0) (effects (font (size 1.27 1.27))))''),
          emit (''      (property "Footprint" "" (at '' @ num_str saw_x @ '' '' @ num_str saw_y @
              '' 0) (effects (font (size 1.27 1.27)) hide))''),
          emit (''      (property "Datasheet" "" (at '' @ num_str saw_x @ '' '' @ num_str saw_y @
              '' 0) (effects (font (size 1.27 1.27)) hide))''),
          symbol_pins [''1'', ''2'', ''3''],
          wire saw_x (saw_y + dec 508 2) saw_x (saw_y + PInt 9),
          power_symbol ''GND'' saw_x (saw_y + PInt 9) 0,
          wire (lna_x + PInt 30) (lna_y + dec 762 2) (saw_x - dec 762 2) saw_y,
          wire (saw_x + dec 762 2) saw_y (saw_x + PInt 20) saw_y]))])]\<close>

definition rf_rx :: "pynum \<Rightarrow> pynum \<Rightarrow> stmt" where
  \<open>rf_rx saw_x saw_y = draw [
    text_note ''RX TO AD9361'' (PInt 265) (PInt 20) (dec 20 1),
    text_note ''AC coupled 100pF differential'' (PInt 265) (PInt 24) (dec 127 2),
    (let rx_ac_x = saw_x + PInt 20;
        rx_ac_y = saw_y
    in draw [
      cap ''100p'' (rx_ac_x + PInt 5) rx_ac_y 90 fp_c0402,
      wire (rx_ac_x + PInt 5 + dec 381 2) rx_ac_y (rx_ac_x + PInt 15) rx_ac_y,
      hier_label ''AD_RX1A_P'' (rx_ac_x + PInt 15) rx_ac_y ''output'' 0,
      (let rx_n_y = rx_ac_y + PInt 8
      in draw [
        wire rx_ac_x rx_ac_y rx_ac_x rx_n_y,
        wire rx_ac_x rx_n_y (rx_ac_x + dec 119 2) rx_n_y,
        cap ''100p'' (rx_ac_x + PInt 5) rx_n_y 90 fp_c0402,
        wire (rx_ac_x + PInt 5 + dec 381 2) rx_n_y (rx_ac_x + PInt 15) rx_n_y,
        hier_label ''AD_RX1A_N'' (rx_ac_x + PInt 15) rx_n_y ''output'' 0])])]\<close>

definition rf_tx :: "stmt" where
  \<open>rf_tx = draw [
    text_note ''TX FROM AD9361'' (PInt 130) (PInt 90) (dec 20 1),
    text_note ''AC coupled 100pF, single-ended drive to TX driver'' (PInt 130) (PInt 94) (dec 127 2),
    (let tx_ac_x = PInt 135;
        tx_ac_y = PInt 107
    in draw [
      hier_label ''AD_TX1A'' (tx_ac_x - PInt 15) tx_ac_y ''input'' 0,
      wire (tx_ac_x - PInt 15) tx_ac_y (tx_ac_x - PInt 5) tx_ac_y,
      cap ''100p'' tx_ac_x tx_ac_y 90 fp_c0402,
      wire (tx_ac_x + dec 381 2) tx_ac_y (tx_ac_x + PInt 15) tx_ac_y])]\<close>

definition rf_driver_title :: "stmt" where
  \<open>rf_driver_title = draw [
    text_note ''TX DRIVER ADL5606'' (PInt 175) (PInt 90) (dec 20 1),
    text_note ''Differential driver, Gain ~20 dB, single-ended input via INP'' (PInt 175) (PInt 94) (dec 127 2)]\<close>

definition rf_driver :: "string \<Rightarrow> pynum \<Rightarrow> pynum \<Rightarrow> pynum \<Rightarrow> pynum \<Rightarrow> stmt" where
  \<open>rf_driver drv_ref drv_x drv_y tx_ac_y tx_ac_x = draw [
    symbol_instance ''cirradio:ADL5606ACPZ'' drv_ref ''ADL5606ACPZ'' drv_x drv_y 1 0 ''Package_DFN_QFN:QFN-24-1EP_4x4mm_P0.5mm_EP2.65x2.65mm'' [],
    symbol_pins (map (\<lambda>i. int_str i) [1..25]),
    wire drv_x (drv_y + dec 1651 2) drv_x (drv_y + PInt 20),
    power_symbol ''GND'' drv_x (drv_y + PInt 20) 0,
    wire drv_x (drv_y - dec 1651 2) drv_x (drv_y - PInt 20),
    global_label ''+5V_PA'' drv_x (drv_y - PInt 20) ''passive'' 0,
    wire (drv_x + PInt 8) (drv_y - PInt 20) (drv_x + PInt 8) (drv_y - PInt 17),
    cap ''100n'' (drv_x + PInt 8) (drv_y - PInt 13) 0 fp_c0402,
    wire (drv_x + PInt 8) (drv_y - dec 919 2) (drv_x + PInt 8) (drv_y - PInt 7),
    power_symbol ''GND'' (drv_x + PInt 8) (drv_y - PInt 7) 0,
    wire drv_x (drv_y - PInt 20) (drv_x + PInt 8) (drv_y - PInt 20),
    wire (drv_x + PInt 14) (drv_y - PInt 20) (drv_x + PInt 14) (drv_y - PInt 17),
    cap ''10n'' (drv_x + PInt 14) (drv_y - PInt 13) 0 fp_c0402,
    wire (drv_x + PInt 14) (drv_y - dec 919 2) (drv_x + PInt 14) (drv_y - PInt 7),
    power_symbol ''GND'' (drv_x + PInt 14) (drv_y - PInt 7) 0,
    wire (drv_x + PInt 8) (drv_y - PInt 20) (drv_x + PInt 14) (drv_y - PInt 20),
    wire (tx_ac_x + PInt 15) tx_ac_y (drv_x - dec 1016 2) (drv_y + dec 1016 2),
    wire (drv_x - dec 1016 2) (drv_y + dec 762 2) (drv_x - PInt 15) (drv_y + dec 762 2),
    cap ''100n'' (drv_x - PInt 19) (drv_y + dec 762 2) 90 fp_c0402,
    wire (drv_x - dec 2281 2) (drv_y + dec 762 2) (drv_x - PInt 25) (drv_y + dec 762 2),
    power_symbol ''GND'' (drv_x - PInt 25) (drv_y + dec 762 2) 0,
    hier_label ''TX_DRV_PWDN'' (drv_x - PInt 18) (drv_y + dec 254 2) ''input'' 0,
    wire (drv_x - PInt 18) (drv_y + dec 254 2) (drv_x - dec 1016 2) (drv_y + dec 254 2),
    wire (drv_x + dec 1016 2) (drv_y + dec 1016 2) (drv_x + PInt 25) (drv_y + dec 1016 2),
    wire (drv_x + dec 1016 2) (drv_y + dec 762 2) (drv_x + PInt 15) (drv_y + dec 762 2),
    resistor ''49.9'' (drv_x + PInt 19) (drv_y + dec 762 2) 90 [],
    wire (drv_x + dec 2281 2) (drv_y + dec 762 2) (drv_x + PInt 25) (drv_y + dec 762 2),
    power_symbol ''GND'' (drv_x + PInt 25) (drv_y + dec 762 2) 0]\<close>

definition rf_pa_title :: "stmt" where
  \<open>rf_pa_title = draw [
    text_note ''TX PA TGA2594-SM (+37 dBm / 5W)'' (PInt 245) (PInt 90) (dec 20 1),
    text_note ''GaAs pHEMT power amplifier, VDD=+5V_PA'' (PInt 245) (PInt 94) (dec 127 2)]\<close>

definition rf_pa :: "string \<Rightarrow> pynum \<Rightarrow> pynum \<Rightarrow> pynum \<Rightarrow> pynum \<Rightarrow> stmt" where
  \<open>rf_pa pa_ref pa_x pa_y drv_x drv_y = draw [
    symbol_instance ''cirradio:TGA2594-SM'' pa_ref ''TGA2594-SM'' pa_x pa_y 1 0 ''cirradio:TGA2594-SM'' [],
    symbol_pins (map (\<lambda>i. int_str i) [1..10]),
    wire pa_x (pa_y + dec 1143 2) pa_x (pa_y + PInt 15),
    power_symbol ''GND'' pa_x (pa_y + PInt 15) 0,
    (let pa_vdd_y = pa_y - dec 1143 2
    in draw [
      wire pa_x pa_vdd_y pa_x (pa_vdd_y - PInt 3),
      global_label ''+5V_PA'' pa_x (pa_vdd_y - PInt 3) ''passive'' 0,
      wire (pa_x + PInt 8) (pa_vdd_y - PInt 3) (pa_x + PInt 8) pa_vdd_y,
      cap ''10u'' (pa_x + PInt 8) (pa_vdd_y + PInt 4) 0 ''Capacitor_SMD:C_0805_2012Metric'',
      wire (pa_x + PInt 8) (pa_vdd_y + dec 781 2) (pa_x + PInt 8) (pa_vdd_y + PInt 10),
      power_symbol ''GND'' (pa_x + PInt 8) (pa_vdd_y + PInt 10) 0,
      wire pa_x (pa_vdd_y - PInt 3) (pa_x + PInt 8) (pa_vdd_y - PInt 3),
      wire (pa_x + PInt 14) (pa_vdd_y - PInt 3) (pa_x + PInt 14) pa_vdd_y,
      cap ''100n'' (pa_x + PInt 14) (pa_vdd_y + PInt 4) 0 fp_c0402,
      wire (pa_x + PInt 14) (pa_vdd_y + dec 781 2) (pa_x + PInt 14) (pa_vdd_y + PInt 10),
      power_symbol ''GND'' (pa_x + PInt 14) (pa_vdd_y + PInt 10) 0,
      wire (pa_x + PInt 8) (pa_vdd_y - PInt 3) (pa_x + PInt 14) (pa_vdd_y - PInt 3),
      wire (pa_x + PInt 20) (pa_vdd_y - PInt 3) (pa_x + PInt 20) pa_vdd_y,
      cap ''10n'' (pa_x + PInt 20) (pa_vdd_y + PInt 4) 0 fp_c0402,
      wire (pa_x + PInt 20) (pa_vdd_y + dec 781 2) (pa_x + PInt 20) (pa_vdd_y + PInt 10),
      power_symbol ''GND'' (pa_x + PInt 20) (pa_vdd_y + PInt 10) 0,
      wire (pa_x + PInt 14) (pa_vdd_y - PInt 3) (pa_x + PInt 20) (pa_vdd_y - PInt 3),
      wire (drv_x + PInt 25) (drv_y + dec 1016 2) (pa_x - PInt 15) (pa_y + dec 508 2),
      wire (pa_x - PInt 15) (pa_y + dec 508 2) (pa_x - dec 1016 2) (pa_y + dec 508 2),
      wire (pa_x + dec 1016 2) (pa_y + dec 508 2) (pa_x + PInt 20) (pa_y + dec 508 2)])]\<close>

definition rf_lpf :: "pynum \<Rightarrow> pynum \<Rightarrow> pynum \<Rightarrow> pynum \<Rightarrow> stmt" where
  \<open>rf_lpf pa_x pa_y sw_y tx_path_x = draw [
    text_note ''HARMONIC LPF (Chebyshev)'' (PInt 300) (PInt 90) (dec 20 1),
    text_note ''3-element: 33pF shunt - 27nH series - 33pF shunt'' (PInt 300) (PInt 94) (dec 127 2),
    (let lpf_x = pa_x + PInt 20;
        lpf_y = pa_y + dec 508 2
    in draw [
      wire lpf_x lpf_y lpf_x (lpf_y + PInt 3),
      cap ''33p'' lpf_x (lpf_y + PInt 7) 0 fp_c0402,
      wire lpf_x (lpf_y + dec 1081 2) lpf_x (lpf_y + PInt 13),
      power_symbol ''GND'' lpf_x (lpf_y + PInt 13) 0,
      wire lpf_x lpf_y (lpf_x + PInt 5) lpf_y,
      inductor ''27n'' (lpf_x + PInt 10) lpf_y 90 ''Inductor_SMD:L_0402_1005Metric'',
      wire (lpf_x + PInt 10 + dec 381 2) lpf_y (lpf_x + PInt 20) lpf_y,
      wire (lpf_x + PInt 20) lpf_y (lpf_x + PInt 20) (lpf_y + PInt 3),
      cap ''33p'' (lpf_x + PInt 20) (lpf_y + PInt 7) 0 fp_c0402,
      wire (lpf_x + PInt 20) (lpf_y + dec 1081 2) (lpf_x + PInt 20) (lpf_y + PInt 13),
      power_symbol ''GND'' (lpf_x + PInt 20) (lpf_y + PInt 13) 0,
      wire (lpf_x + PInt 20) lpf_y (lpf_x + PInt 30) lpf_y,
      wire (lpf_x + PInt 30) lpf_y (lpf_x + PInt 30) (sw_y + PInt 60),
      wire (lpf_x + PInt 30) (sw_y + PInt 60) (tx_path_x + PInt 5) (sw_y + PInt 60)])]\<close>

definition rf_notes :: "stmt" where
  \<open>rf_notes = draw [
    text_note ''RF ROUTING NOTES'' (PInt 30) (PInt 150) (dec 20 1),
    text_note ''- All RF traces: 50 ohm controlled impedance (microstrip or CPWG)'' (PInt 30) (PInt 155) (dec 127 2),
    text_note ''- Keep RF traces short, minimize vias in signal path'' (PInt 30) (PInt 159) (dec 127 2),
    text_note ''- Ground plane continuous under all RF sections'' (PInt 30) (PInt 163) (dec 127 2),
    text_note ''- T/R switch PE42525: place close to antenna SMA'' (PInt 30) (PInt 167) (dec 127 2),
    text_note ''- LNA input: minimize trace length from T/R switch for NF'' (PInt 30) (PInt 171) (dec 127 2),
    text_note ''- PA output: wide traces, thermal relief on VDD'' (PInt 30) (PInt 175) (dec 127 2),
    text_note ''- BPF/LPF components: tight placement, minimize parasitic inductance'' (PInt 30) (PInt 179) (dec 127 2),
    text_note ''- RX/TX isolation: physical separation, guard traces with via fencing'' (PInt 30) (PInt 183) (dec 127 2),
    text_note ''- Decoupling caps: place as close to IC power pins as possible'' (PInt 30) (PInt 187) (dec 127 2),
    text_note ''- AD9361 interface: matched-length differential pairs'' (PInt 30) (PInt 191) (dec 127 2)]\<close>

definition rf_sheet :: "random \<Rightarrow> string \<times> string \<times> string \<times> string \<times> sheet" where
  \<open>rf_sheet rnd =
    (let sma_x = PInt 40;
        bpf_x = PInt 55;
        bpf_y = PInt 45;
        sw_x = PInt 135;
        sw_y = PInt 45;
        rx_path_x = sw_x + dec 1016 2;
        tx_path_x = sw_x + dec 1016 2;
        lna_x = PInt 185;
        lna_y = PInt 45;
        saw_x = PInt 235;
        saw_y = PInt 45 + dec 762 2;
        tx_ac_x = PInt 135;
        tx_ac_y = PInt 107;
        drv_x = PInt 195;
        drv_y = PInt 107;
        pa_x = PInt 260;
        pa_y = PInt 107;
        s0 = draw [emit_header ''cirradio_gen_rf'' ''CIRRADIO Dev Board - RF Front-End'' ''225-512 MHz UHF: SMA, BPF, T/R switch, LNA, SAW, TX driver, PA, harmonic LPF'' ''PE42525 + ADL5523 + ADL5606 + TGA2594-SM'',
            rf_lib_symbols,
            emit [],
            rf_antenna,
            rf_bpf sma_x,
            rf_switch_title] ((empty_sheet rnd)\<lparr>cap_idx := 300, ind_idx := 300, res_idx := 300, pwr_idx := 300, u_idx := 10\<rparr>);
        (sw_ref, s1) = next_u s0;
        s2 = draw [rf_switch sw_ref sw_x sw_y bpf_y bpf_x,
            rf_lna_title] s1;
        (lna_ref, s3) = next_u s2;
        s4 = draw [rf_lna lna_ref lna_x lna_y rx_path_x sw_y,
            rf_saw lna_x lna_y,
            rf_rx saw_x saw_y,
            rf_tx,
            rf_driver_title] s3;
        (drv_ref, s5) = next_u s4;
        s6 = draw [rf_driver drv_ref drv_x drv_y tx_ac_y tx_ac_x,
            rf_pa_title] s5;
        (pa_ref, s7) = next_u s6
     in (sw_ref, lna_ref, drv_ref, pa_ref,
       draw [rf_pa pa_ref pa_x pa_y drv_x drv_y,
            rf_lpf pa_x pa_y sw_y tx_path_x,
            rf_notes,
            emit '')''] s7))\<close>

definition rf_report :: "string \<Rightarrow> string \<Rightarrow> string \<Rightarrow> string \<Rightarrow> string \<Rightarrow> sheet \<Rightarrow> nat \<Rightarrow> nat \<Rightarrow> string list" where
  \<open>rf_report sw_ref lna_ref drv_ref pa_ref path s n_open n_close =
    [''Generated: '' @ path,
     ''Component counts:'',
     ''  SMA connector: 1 (J1)'',
     ''  T/R switch PE42525: 1 ('' @ sw_ref @ '')'',
     ''  LNA ADL5523: 1 ('' @ lna_ref @ '')'',
     ''  SAW filter: 1 ('' @ ''FL1'' @ '')'',
     ''  TX driver ADL5606: 1 ('' @ drv_ref @ '')'',
     ''  PA TGA2594-SM: 1 ('' @ pa_ref @ '')'',
     ''  Capacitors: '' @ int_str (counts s ''capacitors''),
     ''  Inductors: '' @ int_str (counts s ''inductors''),
     ''  Resistors: '' @ int_str (counts s ''resistors''),
     ''  Power symbols: '' @ int_str (pwr_idx s - 300),
     ''  Wires: '' @ int_str (counts s ''wires''),
     ''  Global labels: '' @ int_str (counts s ''gl_labels''),
     ''  Hierarchical labels: '' @ int_str (counts s ''hier_labels''),
     ''  Parentheses balanced: '' @ int_str (int n_open) @ '' opens, '' @ int_str (int n_close) @ '' closes'']\<close>

definition gen_rf :: "random \<Rightarrow> gen_out" where
  "gen_rf rnd =
     (let (sw_ref, lna_ref, drv_ref, pa_ref, s) = rf_sheet rnd; path = board_dir @ ''rf-frontend.kicad_sch''
      in finish ''WARNING'' path (rf_report sw_ref lna_ref drv_ref pa_ref path s) s)"

end
