(* ===== verification/RfFrontendRead.thy ===== *)
theory RfFrontendRead
  imports SheetFile RfFrontend
begin

text \<open>
  What \<open>gen_rf.py\<close> draws, read back by the parser of the netlist script: the parts and the nets of
  the RF front-end sheet, section by section, and the whole file.
\<close>

section \<open>Parts and nets\<close>

definition rf_antenna_parts :: "component list" where
  "rf_antenna_parts =
    [part ''J1'' ''SMA 50ohm'' ''Connector_Coaxial:SMA_Amphenol_132289_EdgeMount'' ''Connector:Conn_Coaxial'']"

definition rf_bpf_parts :: "component list" where
  "rf_bpf_parts =
    [part ''L300'' ''47n'' ''Inductor_SMD:L_0402_1005Metric'' ''Device:L'',
      part ''C300'' ''22p'' fp_c0402 ''Device:C'',
      part ''L301'' ''47n'' ''Inductor_SMD:L_0402_1005Metric'' ''Device:L'',
      part ''C301'' ''22p'' fp_c0402 ''Device:C'',
      part ''L302'' ''47n'' ''Inductor_SMD:L_0402_1005Metric'' ''Device:L'',
      part ''C302'' ''22p'' fp_c0402 ''Device:C'']"

definition rf_switch_parts :: "component list" where
  "rf_switch_parts =
    [part ''U10'' ''PE42525'' ''Package_DFN_QFN:QFN-16-1EP_3x3mm_P0.5mm_EP1.75x1.75mm'' ''cirradio:PE42525'',
      part ''C303'' ''100n'' fp_c0402 ''Device:C'']"

definition rf_switch_labels :: "string list" where
  "rf_switch_labels =
    [''TR_V1'', ''TR_V2'']"

definition rf_lna_parts :: "component list" where
  "rf_lna_parts =
    [part ''U11'' ''ADL5523ACPZ'' ''Package_DFN_QFN:QFN-16-1EP_3x3mm_P0.65mm_EP1.75x1.75mm'' ''cirradio:ADL5523ACPZ'',
      part ''L303'' ''100n'' ''Inductor_SMD:L_0402_1005Metric'' ''Device:L'',
      part ''C304'' ''100n'' fp_c0402 ''Device:C'',
      part ''C305'' ''10n'' fp_c0402 ''Device:C'',
      part ''C306'' ''100n'' fp_c0402 ''Device:C'',
      part ''C307'' ''100p'' fp_c0402 ''Device:C'']"

definition rf_saw_parts :: "component list" where
  "rf_saw_parts =
    [part ''FL1'' ''SAW 225-512MHz'' [] ''Device:BPF'']"

definition rf_rx_parts :: "component list" where
  "rf_rx_parts =
    [part ''C308'' ''100p'' fp_c0402 ''Device:C'',
      part ''C309'' ''100p'' fp_c0402 ''Device:C'']"

definition rf_rx_labels :: "string list" where
  "rf_rx_labels =
    [''AD_RX1A_P'', ''AD_RX1A_N'']"

definition rf_tx_parts :: "component list" where
  "rf_tx_parts =
    [part ''C310'' ''100p'' fp_c0402 ''Device:C'']"

definition rf_tx_labels :: "string list" where
  "rf_tx_labels =
    [''AD_TX1A'']"

definition rf_driver_parts :: "component list" where
  "rf_driver_parts =
    [part ''U12'' ''ADL5606ACPZ'' ''Package_DFN_QFN:QFN-24-1EP_4x4mm_P0.5mm_EP2.65x2.65mm'' ''cirradio:ADL5606ACPZ'',
      part ''C311'' ''100n'' fp_c0402 ''Device:C'',
      part ''C312'' ''10n'' fp_c0402 ''Device:C'',
      part ''C313'' ''100n'' fp_c0402 ''Device:C'',
      part ''R300'' ''49.9'' [] ''Device:R'']"

definition rf_driver_labels :: "string list" where
  "rf_driver_labels =
    [''TX_DRV_PWDN'']"

definition rf_pa_parts :: "component list" where
  "rf_pa_parts =
    [part ''U13'' ''TGA2594-SM'' ''cirradio:TGA2594-SM'' ''cirradio:TGA2594-SM'',
      part ''C314'' ''10u'' ''Capacitor_SMD:C_0805_2012Metric'' ''Device:C'',
      part ''C315'' ''100n'' fp_c0402 ''Device:C'',
      part ''C316'' ''10n'' fp_c0402 ''Device:C'']"

definition rf_lpf_parts :: "component list" where
  "rf_lpf_parts =
    [part ''C317'' ''33p'' fp_c0402 ''Device:C'',
      part ''L304'' ''27n'' ''Inductor_SMD:L_0402_1005Metric'' ''Device:L'',
      part ''C318'' ''33p'' fp_c0402 ''Device:C'']"

definition rf_sheet_parts :: "component list" where
  "rf_sheet_parts = rf_antenna_parts @ rf_bpf_parts @ rf_switch_parts @ rf_lna_parts @ rf_saw_parts @ rf_rx_parts @
      rf_tx_parts @ rf_driver_parts @ rf_pa_parts @ rf_lpf_parts"

text \<open>The global labels and the power symbols, then the hierarchical labels.\<close>

definition rf_sheet_nets :: "string list" where
  "rf_sheet_nets = [''GND'', ''+3V3'', ''+3V3A'', ''+5V_PA''] @ rf_switch_labels @ rf_rx_labels @ rf_tx_labels @
      rf_driver_labels"

section \<open>The sections\<close>

text \<open>The SAW filter is spelled out line by line.\<close>

lemma sim_saw:
  assumes "neutral u" "open_free u" "sim (draw cs) f"
  shows \<open>sim (draw (
    emit (''    (symbol (lib_id "Device:BPF") (at '' @ num_str x @ '' '' @ num_str y @ '' 0)'') #
    emit ''      (unit 1) (exclude_from_sim no) (in_bom yes) (on_board yes) (dnp no)'' #
    emit (''      (uuid "'' @ u @ ''")'') #
    emit (''      (property "Reference" "'' @ ref @ ''" (at '' @ num_str x @ '' '' @ num_str y1 @
        '' 0) (effects (font (size 1.27 1.27))))'') #
    emit (''      (property "Value" "SAW 225-512MHz" (at '' @ num_str x @ '' '' @ num_str y2 @
        '' 0) (effects (font (size 1.27 1.27))))'') #
    emit (''      (property "Footprint" "" (at '' @ num_str x @ '' '' @ num_str y @
        '' 0) (effects (font (size 1.27 1.27)) hide))'') #
    emit (''      (property "Datasheet" "" (at '' @ num_str x @ '' '' @ num_str y @
        '' 0) (effects (font (size 1.27 1.27)) hide))'') # cs))
    (r_seq (r_part ''Device:BPF'' ref ''SAW 225-512MHz'' [] 0) f)\<close>
  by (rule sim_spelled [where x = x and y = y and ?y1.0 = y1 and ?y2.0 = y2 and n = 1, OF _ assms])
    (simp add: symbol_lines_eq int_str_small)

definition rf_start :: reading where
  "rf_start = no_reading\<lparr>r_cap := 300, r_res := 300, r_ind := 300, r_u := 10\<rparr>"

lemma rf_antenna_read:
  "yields_section rf_antenna rf_start
    (rf_start\<lparr>r_parts := rev rf_antenna_parts, r_rails := [''GND'']\<rparr>)"
  unfolding rf_antenna_def
  by (rule sectionI, (simp only: loop_simps)?, (rule section_rules | simp only: loop_simps)+,
      code_simp)

lemma rf_bpf_read:
  "yields_section (rf_bpf a) rf_start
    (rf_start\<lparr>r_cap := 303, r_ind := 303, r_parts := rev rf_bpf_parts, r_rails := [''GND'']\<rparr>)"
  unfolding rf_bpf_def
  by (rule sectionI, (simp only: loop_simps)?, (rule section_rules | simp only: loop_simps)+,
      code_simp)

lemma rf_switch_title_read:
  "yields_section rf_switch_title (rf_start\<lparr>r_cap := 303, r_ind := 303\<rparr>)
    (rf_start\<lparr>r_cap := 303, r_ind := 303\<rparr>)"
  unfolding rf_switch_title_def
  by (rule sectionI, (simp only: loop_simps)?, (rule section_rules | simp only: loop_simps)+,
      code_simp)

lemma rf_switch_read:
  "yields_section (rf_switch ''U10'' a b c d) (rf_start\<lparr>r_cap := 303, r_ind := 303, r_u := 11\<rparr>)
    (rf_start\<lparr>r_cap := 304, r_ind := 303, r_u := 11, r_parts := rev rf_switch_parts, r_rails := [''+3V3'', ''GND''],
      r_hiers := rev rf_switch_labels\<rparr>)"
  unfolding rf_switch_def
  by (rule sectionI, (simp only: loop_simps)?, (rule section_rules | simp only: loop_simps)+,
      code_simp)

lemma rf_lna_title_read:
  "yields_section rf_lna_title (rf_start\<lparr>r_cap := 304, r_ind := 303, r_u := 11\<rparr>)
    (rf_start\<lparr>r_cap := 304, r_ind := 303, r_u := 11\<rparr>)"
  unfolding rf_lna_title_def
  by (rule sectionI, (simp only: loop_simps)?, (rule section_rules | simp only: loop_simps)+,
      code_simp)

lemma rf_lna_read:
  "yields_section (rf_lna ''U11'' a b c d) (rf_start\<lparr>r_cap := 304, r_ind := 303, r_u := 12\<rparr>)
    (rf_start\<lparr>r_cap := 308, r_ind := 304, r_u := 12, r_parts := rev rf_lna_parts, r_rails := [''+3V3A'',
      ''GND'']\<rparr>)"
  unfolding rf_lna_def
  by (rule sectionI, (simp only: loop_simps)?, (rule section_rules | simp only: loop_simps)+,
      code_simp)

lemma rf_saw_read:
  "yields_section (rf_saw a b) (rf_start\<lparr>r_cap := 308, r_ind := 304, r_u := 12\<rparr>)
    (rf_start\<lparr>r_cap := 308, r_ind := 304, r_u := 12, r_parts := rev rf_saw_parts, r_rails := [''GND'']\<rparr>)"
  unfolding rf_saw_def
  by (rule sectionI, (simp only: loop_simps)?, (rule sim_saw, assumption, assumption | rule section_rules | simp only: loop_simps)+,
      code_simp)

lemma rf_rx_read:
  "yields_section (rf_rx a b) (rf_start\<lparr>r_cap := 308, r_ind := 304, r_u := 12\<rparr>)
    (rf_start\<lparr>r_cap := 310, r_ind := 304, r_u := 12, r_parts := rev rf_rx_parts, r_hiers := rev rf_rx_labels\<rparr>)"
  unfolding rf_rx_def
  by (rule sectionI, (simp only: loop_simps)?, (rule section_rules | simp only: loop_simps)+,
      code_simp)

lemma rf_tx_read:
  "yields_section rf_tx (rf_start\<lparr>r_cap := 310, r_ind := 304, r_u := 12\<rparr>)
    (rf_start\<lparr>r_cap := 311, r_ind := 304, r_u := 12, r_parts := rev rf_tx_parts, r_hiers := rev rf_tx_labels\<rparr>)"
  unfolding rf_tx_def
  by (rule sectionI, (simp only: loop_simps)?, (rule section_rules | simp only: loop_simps)+,
      code_simp)

lemma rf_driver_title_read:
  "yields_section rf_driver_title (rf_start\<lparr>r_cap := 311, r_ind := 304, r_u := 12\<rparr>)
    (rf_start\<lparr>r_cap := 311, r_ind := 304, r_u := 12\<rparr>)"
  unfolding rf_driver_title_def
  by (rule sectionI, (simp only: loop_simps)?, (rule section_rules | simp only: loop_simps)+,
      code_simp)

lemma rf_driver_read:
  "yields_section (rf_driver ''U12'' a b c d) (rf_start\<lparr>r_cap := 311, r_ind := 304, r_u := 13\<rparr>)
    (rf_start\<lparr>r_cap := 314, r_res := 301, r_ind := 304, r_u := 13, r_parts := rev rf_driver_parts,
      r_rails := [''+5V_PA'', ''GND''], r_hiers := rev rf_driver_labels\<rparr>)"
  unfolding rf_driver_def
  by (rule sectionI, (simp only: loop_simps)?, (rule section_rules | simp only: loop_simps)+,
      code_simp)

lemma rf_pa_title_read:
  "yields_section rf_pa_title (rf_start\<lparr>r_cap := 314, r_res := 301, r_ind := 304, r_u := 13\<rparr>)
    (rf_start\<lparr>r_cap := 314, r_res := 301, r_ind := 304, r_u := 13\<rparr>)"
  unfolding rf_pa_title_def
  by (rule sectionI, (simp only: loop_simps)?, (rule section_rules | simp only: loop_simps)+,
      code_simp)

lemma rf_pa_read:
  "yields_section (rf_pa ''U13'' a b c d) (rf_start\<lparr>r_cap := 314, r_res := 301, r_ind := 304, r_u := 14\<rparr>)
    (rf_start\<lparr>r_cap := 317, r_res := 301, r_ind := 304, r_u := 14, r_parts := rev rf_pa_parts, r_rails := [''+5V_PA'',
      ''GND'']\<rparr>)"
  unfolding rf_pa_def
  by (rule sectionI, (simp only: loop_simps)?, (rule section_rules | simp only: loop_simps)+,
      code_simp)

lemma rf_lpf_read:
  "yields_section (rf_lpf a b c d) (rf_start\<lparr>r_cap := 317, r_res := 301, r_ind := 304, r_u := 14\<rparr>)
    (rf_start\<lparr>r_cap := 319, r_res := 301, r_ind := 305, r_u := 14, r_parts := rev rf_lpf_parts,
      r_rails := [''GND'']\<rparr>)"
  unfolding rf_lpf_def
  by (rule sectionI, (simp only: loop_simps)?, (rule section_rules | simp only: loop_simps)+,
      code_simp)

lemma rf_notes_read:
  "yields_section rf_notes (rf_start\<lparr>r_cap := 319, r_res := 301, r_ind := 305, r_u := 14\<rparr>)
    (rf_start\<lparr>r_cap := 319, r_res := 301, r_ind := 305, r_u := 14\<rparr>)"
  unfolding rf_notes_def
  by (rule sectionI, (simp only: loop_simps)?, (rule section_rules | simp only: loop_simps)+,
      code_simp)

section \<open>The file\<close>

lemma rf_lib: "lib_block rf_lib_symbols"
  unfolding rf_lib_passives_def rf_lib_switch_def rf_lib_lna_def rf_lib_amps_def rf_lib_power_def rf_lib_symbols_def
    lib_device_c_def lib_device_r_def lib_gnd_def lib_power_def
  by (rule lib_block_run, rule lib_begin_rule, (rule lib_end_rules walk_rules walks_literal | simp only: loop_simps)+, code_simp)

lemma rf_refs:
  "int_str 10 = ''10''" "int_str 11 = ''11''" "int_str 12 = ''12''" "int_str 13 = ''13''"
  by code_simp+

lemma rf_body:
  "holds (draw [emit [], rf_antenna, rf_bpf (PInt 40), rf_switch_title,
      with_value next_u (\<lambda>sw_ref. draw [rf_switch sw_ref (PInt 135) (PInt 45) (PInt 45) (PInt 55), rf_lna_title,
      with_value next_u (\<lambda>lna_ref. draw [rf_lna lna_ref (PInt 185) (PInt 45) ((PInt 135) + dec 1016 2) (PInt 45),
      rf_saw (PInt 185) (PInt 45), rf_rx (PInt 235) (PInt 45 + dec 762 2), rf_tx, rf_driver_title,
      with_value next_u (\<lambda>drv_ref. draw [rf_driver drv_ref (PInt 195) (PInt 107) (PInt 107) (PInt 135), rf_pa_title,
      with_value next_u (\<lambda>pa_ref. draw [rf_pa pa_ref (PInt 260) (PInt 107) (PInt 195) (PInt 107),
      rf_lpf (PInt 260) (PInt 107) (PInt 45) ((PInt 135) + dec 1016 2), rf_notes])])])])])
    rf_start rf_sheet_parts rf_sheet_nets"
  by (rule holdsI,
      (rule section_one section_u section_j section_chain section_blank
          rf_antenna_read rf_bpf_read rf_switch_title_read rf_switch_read rf_lna_title_read rf_lna_read
          rf_saw_read rf_rx_read rf_tx_read rf_driver_title_read rf_driver_read rf_pa_title_read rf_pa_read
          rf_lpf_read rf_notes_read
        | (simp add: rf_start_def no_reading_def outputs_empty_def rf_refs; fail))+)
    (simp add: rf_sheet_parts_def rf_start_def no_reading_def,
     auto simp: rf_sheet_nets_def rf_start_def no_reading_def nets_read_def outputs_join_def)

lemma rf_titles:
  "title_ok ''cirradio_gen_rf''" "title_ok ''CIRRADIO Dev Board - RF Front-End''" "title_ok ''225-512 MHz UHF: SMA, BPF, T/R switch, LNA, SAW, TX driver, PA, harmonic LPF''" "title_ok ''PE42525 + ADL5523 + ADL5606 + TGA2594-SM''"
  by code_simp+

lemma rf_sheet_eq:
  "snd (snd (snd (snd (rf_sheet rnd)))) = draw [emit '')'']
    (draw [emit [], rf_antenna, rf_bpf (PInt 40), rf_switch_title,
      with_value next_u (\<lambda>sw_ref. draw [rf_switch sw_ref (PInt 135) (PInt 45) (PInt 45) (PInt 55), rf_lna_title,
      with_value next_u (\<lambda>lna_ref. draw [rf_lna lna_ref (PInt 185) (PInt 45) ((PInt 135) + dec 1016 2) (PInt 45),
      rf_saw (PInt 185) (PInt 45), rf_rx (PInt 235) (PInt 45 + dec 762 2), rf_tx, rf_driver_title,
      with_value next_u (\<lambda>drv_ref. draw [rf_driver drv_ref (PInt 195) (PInt 107) (PInt 107) (PInt 135), rf_pa_title,
      with_value next_u (\<lambda>pa_ref. draw [rf_pa pa_ref (PInt 260) (PInt 107) (PInt 195) (PInt 107),
      rf_lpf (PInt 260) (PInt 107) (PInt 45) ((PInt 135) + dec 1016 2), rf_notes])])])])]
      (rf_lib_symbols (emit_header ''cirradio_gen_rf'' ''CIRRADIO Dev Board - RF Front-End'' ''225-512 MHz UHF: SMA, BPF, T/R switch, LNA, SAW, TX driver, PA, harmonic LPF'' ''PE42525 + ADL5523 + ADL5606 + TGA2594-SM''
        ((empty_sheet rnd)\<lparr>cap_idx := 300, ind_idx := 300, res_idx := 300, pwr_idx := 300, u_idx := 10\<rparr>))))"
  by (simp only: rf_sheet_def draw_simps Let_def with_value_def snd_conv case_snd case_emit cong: prod.case_cong)

lemma rf_file:
  "\<exists>content. gen_exit (gen_rf rnd) = 0 \<and> gen_file (gen_rf rnd) = Some (board_dir @ ''rf-frontend.kicad_sch'', content) \<and>
    check_parens content = (True, 0) \<and> parse_schematic content = (rf_sheet_parts, set rf_sheet_nets)"
proof -
  note h = sheet_holds [OF rf_lib rf_titles, OF _ _ _ _ rf_body, OF _ _ _ _ rf_sheet_eq]
  show ?thesis unfolding gen_rf_def Let_def case_prod_beta
    by (rule h) (simp_all add: empty_sheet_def rf_start_def no_reading_def outputs_empty_def same_indices_def)
qed

text \<open>
  C34: Run with any random bytes, \<open>gen_rf.py\<close> ends with status 0 and writes a balanced file; the parser
  of the netlist script reads in it exactly the listed parts, in the order they are drawn, and the
  listed nets.
\<close>

theorem rf_read_back:
  "\<exists>content. gen_exit (gen_rf rnd) = 0 \<and> gen_file (gen_rf rnd) = Some (board_dir @ ''rf-frontend.kicad_sch'', content) \<and>
    check_parens content = (True, 0) \<and> parse_schematic content = (rf_sheet_parts, set rf_sheet_nets)"
  by (rule rf_file)
end
