(* ===== verification/Peripherals.thy ===== *)
theory Peripherals
  imports Schematic
begin

text \<open>
  The peripheral sheet, \<open>hardware/cirradio-devboard/gen_peripherals.py\<close>: flash, eMMC, USB,
  Ethernet, the console bridge, GPS, the SD card and the tamper inputs.
\<close>

section \<open>Library symbols\<close>

definition peripherals_lib_passives :: "stmt" where
  \<open>peripherals_lib_passives = draw [
    emit ''  (lib_symbols'',
    emit lib_device_r,
    emit lib_device_c,
    emit (py_join [nl]
       [''    (symbol "Device:Crystal"'',
        ''      (pin_names (offset 1.016) hide) (exclude_from_sim no) (in_bom yes) (on_board yes)'',
        ''      (property "Reference" "Y" (at 0 3.81 0) (effects (font (size 1.27 1.27))))'',
        ''      (property "Value" "Crystal" (at 0 -3.81 0) (effects (font (size 1.27 1.27))))'',
        ''      (property "Footprint" "" (at 0 0 0) (effects (font (size 1.27 1.27)) hide))'',
        ''      (property "Datasheet" "" (at 0 0 0) (effects (font (size 1.27 1.27)) hide))'',
        ''      (symbol "Crystal_0_1"'',
        ''        (rectangle (start -0.762 1.524) (end 0.762 -1.524) (stroke (width 0.254) (type default)) (fill (type none)))'',
        ''        (polyline (pts (xy -1.524 -1.27) (xy -1.524 1.27)) (stroke (width 0.254) (type default)) (fill (type none)))'',
        ''        (polyline (pts (xy 1.524 -1.27) (xy 1.524 1.27)) (stroke (width 0.254) (type default)) (fill (type none)))'',
        ''      )'',
        ''      (symbol "Crystal_1_1"'',
        ''        (pin passive line (at -3.81 0 0) (length 2.286) (name "1" (effects (font (size 1.27 1.27)))) (number "1" (effects (font (size 1.27 1.27)))))'',
        ''        (pin passive line (at 3.81 0 180) (length 2.286) (name "2" (effects (font (size 1.27 1.27)))) (number "2" (effects (font (size 1.27 1.27)))))'',
        ''      )'',
        ''    )'']),
    emit (py_join [nl]
       [''    (symbol "Connector:Conn_Coaxial"'',
        ''      (pin_names (offset 1.016) hide) (exclude_from_sim no) (in_bom yes) (on_board yes)'',
        ''      (property "Reference" "J" (at 0.254 3.048 0) (effects (font (size 1.27 1.27))))'',
        ''      (property "Value" "Conn_Coaxial" (at 2.286 -2.794 0) (effects (font (size 1.27 1.27))))'',
        ''      (property "Footprint" "" (at 0 0 0) (effects (font (size 1.27 1.27)) hide))'',
        ''      (property "Datasheet" "" (at 0 0 0) (effects (font (size 1.27 1.27)) hide))'',
        ''      (symbol "Conn_Coaxial_0_1"'',
        ''        (circle (center 0 0) (radius 1.778) (stroke (width 0.254) (type default)) (fill (type none)))'',
        ''        (arc (start -1.778 0) (mid 0 -1.778) (end 1.778 0) (stroke (width 0.254) (type default)) (fill (type none)))'',
        ''      )'',
        ''      (symbol "Conn_Coaxial_1_1"'',
        ''        (pin passive line (at -3.81 0 0) (length 2.032) (name "In" (effects (font (size 1.27 1.27)))) (number "1" (effects (font (size 1.27 1.27)))))'',
        ''        (pin passive line (at 0 -3.81 90) (length 2.032) (name "Ext" (effects (font (size 1.27 1.27)))) (number "2" (effects (font (size 1.27 1.27)))))'',
        ''      )'',
        ''    )''])]\<close>

definition peripherals_lib_flash :: "stmt" where
  \<open>peripherals_lib_flash = draw [
    emit (py_join [nl]
       [''    (symbol "cirradio:S25FL256S"'',
        ''      (pin_names (offset 0.254))'',
        ''      (exclude_from_sim no) (in_bom yes) (on_board yes)'',
        ''      (property "Reference" "U" (at 0 8.89 0) (effects (font (size 1.27 1.27))))'',
        ''      (property "Value" "S25FL256S" (at 0 -8.89 0) (effects (font (size 1.27 1.27))))'',
        ''      (property "Footprint" "Package_SON:WSON-8-1EP_6x5mm_P1.27mm_EP3.4x4mm" (at 0 0 0) (effects (font (size 1.27 1.27)) hide))'',
        ''      (property "Datasheet" "" (at 0 0 0) (effects (font (size 1.27 1.27)) hide))'',
        ''      (symbol "S25FL256S_0_1"'',
        ''        (rectangle (start -7.62 7.62) (end 7.62 -7.62) (stroke (width 0.254) (type default)) (fill (type background)))'',
        ''      )'',
        ''      (symbol "S25FL256S_1_1"'',
        ''        (pin input line (at -10.16 5.08 0) (length 2.54) (name "CS#" (effects (font (size 1.27 1.27)))) (number "1" (effects (font (size 1.27 1.27)))))'',
        ''        (pin bidirectional line (at -10.16 2.54 0) (length 2.54) (name "IO1/SO" (effects (font (size 1.27 1.27)))) (number "2" (effects (font (size 1.27 1.27)))))'',
        ''        (pin bidirectional line (at -10.16 0 0) (length 2.54) (name "IO2/WP#" (effects (font (size 1.27 1.27)))) (number "3" (effects (font (size 1.27 1.27)))))'',
        ''        (pin power_in line (at 0 -10.16 90) (length 2.54) (name "GND" (effects (font (size 1.27 1.27)))) (number "4" (effects (font (size 1.27 1.27)))))'',
        ''        (pin bidirectional line (at 10.16 0 180) (length 2.54) (name "IO0/SI" (effects (font (size 1.27 1.27)))) (number "5" (effects (font (size 1.27 1.27)))))'',
        ''        (pin input line (at 10.16 2.54 180) (length 2.54) (name "SCK" (effects (font (size 1.27 1.27)))) (number "6" (effects (font (size 1.27 1.27)))))'',
        ''        (pin bidirectional line (at 10.16 5.08 180) (length 2.54) (name "IO3/HOLD#" (effects (font (size 1.27 1.27)))) (number "7" (effects (font (size 1.27 1.27)))))'',
        ''        (pin power_in line (at 0 10.16 270) (length 2.54) (name "VCC" (effects (font (size 1.27 1.27)))) (number "8" (effects (font (size 1.27 1.27)))))'',
        ''        (pin passive line (at 0 -10.16 90) (length 2.54) (name "EP" (effects (font (size 1.27 1.27)))) (number "9" (effects (font (size 1.27 1.27)))))'',
        ''      )'',
        ''    )'']),
    emit (py_join [nl]
       [''    (symbol "cirradio:MTFC8GAKAJCN"'',
        ''      (pin_names (offset 0.254))'',
        ''      (exclude_from_sim no) (in_bom yes) (on_board yes)'',
        ''      (property "Reference" "U" (at 0 17.78 0) (effects (font (size 1.27 1.27))))'',
        ''      (property "Value" "MTFC8GAKAJCN" (at 0 -17.78 0) (effects (font (size 1.27 1.27))))'',
        ''      (property "Footprint" "cirradio:BGA-153_11.5x13mm" (at 0 0 0) (effects (font (size 1.27 1.27)) hide))'',
        ''      (property "Datasheet" "" (at 0 0 0) (effects (font (size 1.27 1.27)) hide))'',
        ''      (symbol "MTFC8GAKAJCN_0_1"'',
        ''        (rectangle (start -10.16 16.51) (end 10.16 -16.51) (stroke (width 0.254) (type default)) (fill (type background)))'',
        ''      )'',
        ''      (symbol "MTFC8GAKAJCN_1_1"'',
        ''        (pin bidirectional line (at -12.7 12.7 0) (length 2.54) (name "DAT0" (effects (font (size 1.27 1.27)))) (number "H2" (effects (font (size 1.27 1.27)))))'',
        ''        (pin bidirectional line (at -12.7 10.16 0) (length 2.54) (name "DAT1" (effects (font (size 1.27 1.27)))) (number "J1" (effects (font (size 1.27 1.27)))))'',
        ''        (pin bidirectional line (at -12.7 7.62 0) (length 2.54) (name "DAT2" (effects (font (size 1.27 1.27)))) (number "J2" (effects (font (size 1.27 1.27)))))'',
        ''        (pin bidirectional line (at -12.7 5.08 0) (length 2.54) (name "DAT3" (effects (font (size 1.27 1.27)))) (number "H1" (effects (font (size 1.27 1.27)))))'',
        ''        (pin bidirectional line (at -12.7 2.54 0) (length 2.54) (name "DAT4" (effects (font (size 1.27 1.27)))) (number "J3" (effects (font (size 1.27 1.27)))))'',
        ''        (pin bidirectional line (at -12.7 0 0) (length 2.54) (name "DAT5" (effects (font (size 1.27 1.27)))) (number "K1" (effects (font (size 1.27 1.27)))))'',
        ''        (pin bidirectional line (at -12.7 -2.54 0) (length 2.54) (name "DAT6" (effects (font (size 1.27 1.27)))) (number "K2" (effects (font (size 1.27 1.27)))))'',
        ''        (pin bidirectional line (at -12.7 -5.08 0) (length 2.54) (name "DAT7" (effects (font (size 1.27 1.27)))) (number "K3" (effects (font (size 1.27 1.27)))))'',
        ''        (pin input line (at -12.7 -10.16 0) (length 2.54) (name "CLK" (effects (font (size 1.27 1.27)))) (number "D1" (effects (font (size 1.27 1.27)))))'',
        ''        (pin bidirectional line (at -12.7 -12.7 0) (length 2.54) (name "CMD" (effects (font (size 1.27 1.27)))) (number "D2" (effects (font (size 1.27 1.27)))))'',
        ''        (pin input line (at 12.7 12.7 180) (length 2.54) (name "RST#" (effects (font (size 1.27 1.27)))) (number "C1" (effects (font (size 1.27 1.27)))))'',
        ''        (pin power_in line (at 0 19.05 270) (length 2.54) (name "VCC" (effects (font (size 1.27 1.27)))) (number "A3" (effects (font (size 1.27 1.27)))))'',
        ''        (pin power_in line (at 5.08 19.05 270) (length 2.54) (name "VCCQ" (effects (font (size 1.27 1.27)))) (number "E1" (effects (font (size 1.27 1.27)))))'',
        ''        (pin power_in line (at 0 -19.05 90) (length 2.54) (name "GND" (effects (font (size 1.27 1.27)))) (number "B2" (effects (font (size 1.27 1.27)))))'',
        ''      )'',
        ''    )''])]\<close>

definition peripherals_lib_usb :: "stmt" where
  \<open>peripherals_lib_usb = emit (py_join [nl]
       [''    (symbol "cirradio:USB3320C"'',
        ''      (pin_names (offset 0.254))'',
        ''      (exclude_from_sim no) (in_bom yes) (on_board yes)'',
        ''      (property "Reference" "U" (at 0 22.86 0) (effects (font (size 1.27 1.27))))'',
        ''      (property "Value" "USB3320C" (at 0 -22.86 0) (effects (font (size 1.27 1.27))))'',
        ''      (property "Footprint" "Package_DFN_QFN:QFN-32-1EP_5x5mm_P0.5mm_EP3.1x3.1mm" (at 0 0 0) (effects (font (size 1.27 1.27)) hide))'',
        ''      (property "Datasheet" "" (at 0 0 0) (effects (font (size 1.27 1.27)) hide))'',
        ''      (symbol "USB3320C_0_1"'',
        ''        (rectangle (start -12.7 21.59) (end 12.7 -21.59) (stroke (width 0.254) (type default)) (fill (type background)))'',
        ''      )'',
        ''      (symbol "USB3320C_1_1"'',
        ''        (pin bidirectional line (at -15.24 17.78 0) (length 2.54) (name "DATA0" (effects (font (size 1.27 1.27)))) (number "17" (effects (font (size 1.27 1.27)))))'',
        ''        (pin bidirectional line (at -15.24 15.24 0) (length 2.54) (name "DATA1" (effects (font (size 1.27 1.27)))) (number "18" (effects (font (size 1.27 1.27)))))'',
        ''        (pin bidirectional line (at -15.24 12.7 0) (length 2.54) (name "DATA2" (effects (font (size 1.27 1.27)))) (number "19" (effects (font (size 1.27 1.27)))))'',
        ''        (pin bidirectional line (at -15.24 10.16 0) (length 2.54) (name "DATA3" (effects (font (size 1.27 1.27)))) (number "20" (effects (font (size 1.27 1.27)))))'',
        ''        (pin bidirectional line (at -15.24 7.62 0) (length 2.54) (name "DATA4" (effects (font (size 1.27 1.27)))) (number "21" (effects (font (size 1.27 1.27)))))'',
        ''        (pin bidirectional line (at -15.24 5.08 0) (length 2.54) (name "DATA5" (effects (font (size 1.27 1.27)))) (number "22" (effects (font (size 1.27 1.27)))))'',
        ''        (pin bidirectional line (at -15.24 2.54 0) (length 2.54) (name "DATA6" (effects (font (size 1.27 1.27)))) (number "23" (effects (font (size 1.27 1.27)))))'',
        ''        (pin bidirectional line (at -15.24 0 0) (length 2.54) (name "DATA7" (effects (font (size 1.27 1.27)))) (number "24" (effects (font (size 1.27 1.27)))))'',
        ''        (pin output line (at -15.24 -5.08 0) (length 2.54) (name "CLK" (effects (font (size 1.27 1.27)))) (number "15" (effects (font (size 1.27 1.27)))))'',
        ''        (pin output line (at -15.24 -7.62 0) (length 2.54) (name "DIR" (effects (font (size 1.27 1.27)))) (number "16" (effects (font (size 1.27 1.27)))))'',
        ''        (pin input line (at -15.24 -10.16 0) (length 2.54) (name "STP" (effects (font (size 1.27 1.27)))) (number "25" (effects (font (size 1.27 1.27)))))'',
        ''        (pin output line (at -15.24 -12.7 0) (length 2.54) (name "NXT" (effects (font (size 1.27 1.27)))) (number "26" (effects (font (size 1.27 1.27)))))'',
        ''        (pin input line (at -15.24 -17.78 0) (length 2.54) (name "RESETB" (effects (font (size 1.27 1.27)))) (number "4" (effects (font (size 1.27 1.27)))))'',
        ''        (pin bidirectional line (at 15.24 15.24 180) (length 2.54) (name "DP" (effects (font (size 1.27 1.27)))) (number "11" (effects (font (size 1.27 1.27)))))'',
        ''        (pin bidirectional line (at 15.24 12.7 180) (length 2.54) (name "DM" (effects (font (size 1.27 1.27)))) (number "12" (effects (font (size 1.27 1.27)))))'',
        ''        (pin passive line (at 15.24 5.08 180) (length 2.54) (name "RBIAS" (effects (font (size 1.27 1.27)))) (number "14" (effects (font (size 1.27 1.27)))))'',
        ''        (pin power_in line (at -2.54 24.13 270) (length 2.54) (name "VDD3V3" (effects (font (size 1.27 1.27)))) (number "1" (effects (font (size 1.27 1.27)))))'',
        ''        (pin power_in line (at 2.54 24.13 270) (length 2.54) (name "VDDA3V3" (effects (font (size 1.27 1.27)))) (number "9" (effects (font (size 1.27 1.27)))))'',
        ''        (pin power_in line (at 0 -24.13 90) (length 2.54) (name "GND" (effects (font (size 1.27 1.27)))) (number "33" (effects (font (size 1.27 1.27)))))'',
        ''        (pin output line (at 15.24 -5.08 180) (length 2.54) (name "REFCLK" (effects (font (size 1.27 1.27)))) (number "27" (effects (font (size 1.27 1.27)))))'',
        ''        (pin passive line (at 15.24 -12.7 180) (length 2.54) (name "XO" (effects (font (size 1.27 1.27)))) (number "28" (effects (font (size 1.27 1.27)))))'',
        ''        (pin passive line (at 15.24 -15.24 180) (length 2.54) (name "XI" (effects (font (size 1.27 1.27)))) (number "29" (effects (font (size 1.27 1.27)))))'',
        ''        (pin input line (at 15.24 -17.78 180) (length 2.54) (name "CLKIN" (effects (font (size 1.27 1.27)))) (number "30" (effects (font (size 1.27 1.27)))))'',
        ''      )'',
        ''    )''])\<close>

definition peripherals_lib_ethernet :: "stmt" where
  \<open>peripherals_lib_ethernet = emit (py_join [nl]
       [''    (symbol "cirradio:KSZ9031"'',
        ''      (pin_names (offset 0.254))'',
        ''      (exclude_from_sim no) (in_bom yes) (on_board yes)'',
        ''      (property "Reference" "U" (at 0 30.48 0) (effects (font (size 1.27 1.27))))'',
        ''      (property "Value" "KSZ9031RNXIA" (at 0 -30.48 0) (effects (font (size 1.27 1.27))))'',
        ''      (property "Footprint" "Package_DFN_QFN:QFN-48-1EP_7x7mm_P0.5mm_EP5.15x5.15mm" (at 0 0 0) (effects (font (size 1.27 1.27)) hide))'',
        ''      (property "Datasheet" "" (at 0 0 0) (effects (font (size 1.27 1.27)) hide))'',
        ''      (symbol "KSZ9031_0_1"'',
        ''        (rectangle (start -15.24 29.21) (end 15.24 -29.21) (stroke (width 0.254) (type default)) (fill (type background)))'',
        ''      )'',
        ''      (symbol "KSZ9031_1_1"'',
        ''        (pin bidirectional line (at -17.78 25.4 0) (length 2.54) (name "RXD0" (effects (font (size 1.27 1.27)))) (number "20" (effects (font (size 1.27 1.27)))))'',
        ''        (pin bidirectional line (at -17.78 22.86 0) (length 2.54) (name "RXD1" (effects (font (size 1.27 1.27)))) (number "21" (effects (font (size 1.27 1.27)))))'',
        ''        (pin bidirectional line (at -17.78 20.32 0) (length 2.54) (name "RXD2" (effects (font (size 1.27 1.27)))) (number "22" (effects (font (size 1.27 1.27)))))'',
        ''        (pin bidirectional line (at -17.78 17.78 0) (length 2.54) (name "RXD3" (effects (font (size 1.27 1.27)))) (number "23" (effects (font (size 1.27 1.27)))))'',
        ''        (pin output line (at -17.78 12.7 0) (length 2.54) (name "RX_CLK" (effects (font (size 1.27 1.27)))) (number "19" (effects (font (size 1.27 1.27)))))'',
        ''        (pin output line (at -17.78 10.16 0) (length 2.54) (name "RX_CTL" (effects (font (size 1.27 1.27)))) (number "18" (effects (font (size 1.27 1.27)))))'',
        ''        (pin input line (at -17.78 5.08 0) (length 2.54) (name "TXD0" (effects (font (size 1.27 1.27)))) (number "27" (effects (font (size 1.27 1.27)))))'',
        ''        (pin input line (at -17.78 2.54 0) (length 2.54) (name "TXD1" (effects (font (size 1.27 1.27)))) (number "28" (effects (font (size 1.27 1.27)))))'',
        ''        (pin input line (at -17.78 0 0) (length 2.54) (name "TXD2" (effects (font (size 1.27 1.27)))) (number "29" (effects (font (size 1.27 1.27)))))'',
        ''        (pin input line (at -17.78 -2.54 0) (length 2.54) (name "TXD3" (effects (font (size 1.27 1.27)))) (number "30" (effects (font (size 1.27 1.27)))))'',
        ''        (pin input line (at -17.78 -7.62 0) (length 2.54) (name "TX_CLK" (effects (font (size 1.27 1.27)))) (number "26" (effects (font (size 1.27 1.27)))))'',
        ''        (pin input line (at -17.78 -10.16 0) (length 2.54) (name "TX_CTL" (effects (font (size 1.27 1.27)))) (number "25" (effects (font (size 1.27 1.27)))))'',
        ''        (pin input line (at -17.78 -15.24 0) (length 2.54) (name "RESET#" (effects (font (size 1.27 1.27)))) (number "42" (effects (font (size 1.27 1.27)))))'',
        ''        (pin bidirectional line (at -17.78 -17.78 0) (length 2.54) (name "MDIO" (effects (font (size 1.27 1.27)))) (number "40" (effects (font (size 1.27 1.27)))))'',
        ''        (pin input line (at -17.78 -20.32 0) (length 2.54) (name "MDC" (effects (font (size 1.27 1.27)))) (number "41" (effects (font (size 1.27 1.27)))))'',
        ''        (pin output line (at 17.78 25.4 180) (length 2.54) (name "TXP_A" (effects (font (size 1.27 1.27)))) (number "1" (effects (font (size 1.27 1.27)))))'',
        ''        (pin output line (at 17.78 22.86 180) (length 2.54) (name "TXN_A" (effects (font (size 1.27 1.27)))) (number "2" (effects (font (size 1.27 1.27)))))'',
        ''        (pin input line (at 17.78 17.78 180) (length 2.54) (name "RXP_A" (effects (font (size 1.27 1.27)))) (number "4" (effects (font (size 1.27 1.27)))))'',
        ''        (pin input line (at 17.78 15.24 180) (length 2.54) (name "RXN_A" (effects (font (size 1.27 1.27)))) (number "5" (effects (font (size 1.27 1.27)))))'',
        ''        (pin output line (at 17.78 10.16 180) (length 2.54) (name "TXP_B" (effects (font (size 1.27 1.27)))) (number "7" (effects (font (size 1.27 1.27)))))'',
        ''        (pin output line (at 17.78 7.62 180) (length 2.54) (name "TXN_B" (effects (font (size 1.27 1.27)))) (number "8" (effects (font (size 1.27 1.27)))))'',
        ''        (pin input line (at 17.78 2.54 180) (length 2.54) (name "RXP_B" (effects (font (size 1.27 1.27)))) (number "10" (effects (font (size 1.27 1.27)))))'',
        ''        (pin input line (at 17.78 0 180) (length 2.54) (name "RXN_B" (effects (font (size 1.27 1.27)))) (number "11" (effects (font (size 1.27 1.27)))))'',
        ''        (pin output line (at 17.78 -5.08 180) (length 2.54) (name "TXP_C" (effects (font (size 1.27 1.27)))) (number "13" (effects (font (size 1.27 1.27)))))'',
        ''        (pin output line (at 17.78 -7.62 180) (length 2.54) (name "TXN_C" (effects (font (size 1.27 1.27)))) (number "14" (effects (font (size 1.27 1.27)))))'',
        ''        (pin input line (at 17.78 -12.7 180) (length 2.54) (name "RXP_C" (effects (font (size 1.27 1.27)))) (number "16" (effects (font (size 1.27 1.27)))))'',
        ''        (pin input line (at 17.78 -15.24 180) (length 2.54) (name "RXN_C" (effects (font (size 1.27 1.27)))) (number "17" (effects (font (size 1.27 1.27)))))'',
        ''        (pin output line (at 17.78 -20.32 180) (length 2.54) (name "TXP_D" (effects (font (size 1.27 1.27)))) (number "31" (effects (font (size 1.27 1.27)))))'',
        ''        (pin output line (at 17.78 -22.86 180) (length 2.54) (name "TXN_D" (effects (font (size 1.27 1.27)))) (number "32" (effects (font (size 1.27 1.27)))))'',
        ''        (pin input line (at 17.78 -25.4 180) (length 2.54) (name "RXP_D" (effects (font (size 1.27 1.27)))) (number "33" (effects (font (size 1.27 1.27)))))'',
        ''        (pin input line (at 17.78 -27.94 180) (length 2.54) (name "RXN_D" (effects (font (size 1.27 1.27)))) (number "34" (effects (font (size 1.27 1.27)))))'',
        ''        (pin input line (at -17.78 -25.4 0) (length 2.54) (name "XI" (effects (font (size 1.27 1.27)))) (number "37" (effects (font (size 1.27 1.27)))))'',
        ''        (pin output line (at -17.78 -27.94 0) (length 2.54) (name "XO" (effects (font (size 1.27 1.27)))) (number "38" (effects (font (size 1.27 1.27)))))'',
        ''        (pin power_in line (at -5.08 31.75 270) (length 2.54) (name "VDD" (effects (font (size 1.27 1.27)))) (number "3" (effects (font (size 1.27 1.27)))))'',
        ''        (pin power_in line (at 5.08 31.75 270) (length 2.54) (name "VDDIO" (effects (font (size 1.27 1.27)))) (number "24" (effects (font (size 1.27 1.27)))))'',
        ''        (pin power_in line (at 0 -31.75 90) (length 2.54) (name "GND" (effects (font (size 1.27 1.27)))) (number "49" (effects (font (size 1.27 1.27)))))'',
        ''        (pin input line (at 17.78 -5.08 180) (length 2.54) (name "LED0" (effects (font (size 1.27 1.27)))) (number "43" (effects (font (size 1.27 1.27)))))'',
        ''        (pin input line (at 17.78 -7.62 180) (length 2.54) (name "LED1" (effects (font (size 1.27 1.27)))) (number "44" (effects (font (size 1.27 1.27)))))'',
        ''        (pin input line (at -17.78 -22.86 0) (length 2.54) (name "PHYAD0" (effects (font (size 1.27 1.27)))) (number "39" (effects (font (size 1.27 1.27)))))'',
        ''      )'',
        ''    )''])\<close>

definition peripherals_lib_modules :: "stmt" where
  \<open>peripherals_lib_modules = draw [
    emit (py_join [nl]
       [''    (symbol "cirradio:FT232RQ"'',
        ''      (pin_names (offset 0.254))'',
        ''      (exclude_from_sim no) (in_bom yes) (on_board yes)'',
        ''      (property "Reference" "U" (at 0 17.78 0) (effects (font (size 1.27 1.27))))'',
        ''      (property "Value" "FT232RQ" (at 0 -17.78 0) (effects (font (size 1.27 1.27))))'',
        ''      (property "Footprint" "Package_DFN_QFN:QFN-32-1EP_5x5mm_P0.5mm_EP3.1x3.1mm" (at 0 0 0) (effects (font (size 1.27 1.27)) hide))'',
        ''      (property "Datasheet" "" (at 0 0 0) (effects (font (size 1.27 1.27)) hide))'',
        ''      (symbol "FT232RQ_0_1"'',
        ''        (rectangle (start -10.16 16.51) (end 10.16 -16.51) (stroke (width 0.254) (type default)) (fill (type background)))'',
        ''      )'',
        ''      (symbol "FT232RQ_1_1"'',
        ''        (pin output line (at -12.7 12.7 0) (length 2.54) (name "TXD" (effects (font (size 1.27 1.27)))) (number "1" (effects (font (size 1.27 1.27)))))'',
        ''        (pin input line (at -12.7 10.16 0) (length 2.54) (name "RXD" (effects (font (size 1.27 1.27)))) (number "5" (effects (font (size 1.27 1.27)))))'',
        ''        (pin bidirectional line (at 12.7 12.7 180) (length 2.54) (name "USBDP" (effects (font (size 1.27 1.27)))) (number "15" (effects (font (size 1.27 1.27)))))'',
        ''        (pin bidirectional line (at 12.7 10.16 180) (length 2.54) (name "USBDM" (effects (font (size 1.27 1.27)))) (number "16" (effects (font (size 1.27 1.27)))))'',
        ''        (pin power_in line (at 0 19.05 270) (length 2.54) (name "VCC" (effects (font (size 1.27 1.27)))) (number "12" (effects (font (size 1.27 1.27)))))'',
        ''        (pin power_in line (at 0 -19.05 90) (length 2.54) (name "GND" (effects (font (size 1.27 1.27)))) (number "9" (effects (font (size 1.27 1.27)))))'',
        ''        (pin input line (at -12.7 0 0) (length 2.54) (name "RESET#" (effects (font (size 1.27 1.27)))) (number "19" (effects (font (size 1.27 1.27)))))'',
        ''        (pin output line (at -12.7 -5.08 0) (length 2.54) (name "CBUS0" (effects (font (size 1.27 1.27)))) (number "23" (effects (font (size 1.27 1.27)))))'',
        ''        (pin output line (at -12.7 -7.62 0) (length 2.54) (name "CBUS1" (effects (font (size 1.27 1.27)))) (number "22" (effects (font (size 1.27 1.27)))))'',
        ''        (pin passive line (at 12.7 0 180) (length 2.54) (name "3V3OUT" (effects (font (size 1.27 1.27)))) (number "17" (effects (font (size 1.27 1.27)))))'',
        ''      )'',
        ''    )'']),
    emit (py_join [nl]
       [''    (symbol "cirradio:MAX-M10S"'',
        ''      (pin_names (offset 0.254))'',
        ''      (exclude_from_sim no) (in_bom yes) (on_board yes)'',
        ''      (property "Reference" "U" (at 0 15.24 0) (effects (font (size 1.27 1.27))))'',
        ''      (property "Value" "MAX-M10S" (at 0 -15.24 0) (effects (font (size 1.27 1.27))))'',
        ''      (property "Footprint" "cirradio:LCC-16_MAX-M10S" (at 0 0 0) (effects (font (size 1.27 1.27)) hide))'',
        ''      (property "Datasheet" "" (at 0 0 0) (effects (font (size 1.27 1.27)) hide))'',
        ''      (symbol "MAX-M10S_0_1"'',
        ''        (rectangle (start -10.16 13.97) (end 10.16 -13.97) (stroke (width 0.254) (type default)) (fill (type background)))'',
        ''      )'',
        ''      (symbol "MAX-M10S_1_1"'',
        ''        (pin power_in line (at 0 16.51 270) (length 2.54) (name "VCC" (effects (font (size 1.27 1.27)))) (number "9" (effects (font (size 1.27 1.27)))))'',
        ''        (pin power_in line (at 0 -16.51 90) (length 2.54) (name "GND" (effects (font (size 1.27 1.27)))) (number "1" (effects (font (size 1.27 1.27)))))'',
        ''        (pin input line (at -12.7 10.16 0) (length 2.54) (name "RF_IN" (effects (font (size 1.27 1.27)))) (number "3" (effects (font (size 1.27 1.27)))))'',
        ''        (pin output line (at 12.7 10.16 180) (length 2.54) (name "TXD" (effects (font (size 1.27 1.27)))) (number "6" (effects (font (size 1.27 1.27)))))'',
        ''        (pin input line (at 12.7 7.62 180) (length 2.54) (name "RXD" (effects (font (size 1.27 1.27)))) (number "5" (effects (font (size 1.27 1.27)))))'',
        ''        (pin output line (at 12.7 2.54 180) (length 2.54) (name "TIMEPULSE" (effects (font (size 1.27 1.27)))) (number "4" (effects (font (size 1.27 1.27)))))'',
        ''        (pin input line (at -12.7 -2.54 0) (length 2.54) (name "D_SEL" (effects (font (size 1.27 1.27)))) (number "10" (effects (font (size 1.27 1.27)))))'',
        ''        (pin input line (at -12.7 -5.08 0) (length 2.54) (name "RESET#" (effects (font (size 1.27 1.27)))) (number "8" (effects (font (size 1.27 1.27)))))'',
        ''        (pin passive line (at -12.7 -10.16 0) (length 2.54) (name "V_BCKP" (effects (font (size 1.27 1.27)))) (number "11" (effects (font (size 1.27 1.27)))))'',
        ''        (pin bidirectional line (at 12.7 -5.08 180) (length 2.54) (name "SDA" (effects (font (size 1.27 1.27)))) (number "14" (effects (font (size 1.27 1.27)))))'',
        ''        (pin input line (at 12.7 -7.62 180) (length 2.54) (name "SCL" (effects (font (size 1.27 1.27)))) (number "13" (effects (font (size 1.27 1.27)))))'',
        ''      )'',
        ''    )'']),
    emit (py_join [nl]
       [''    (symbol "Connector_Generic:Conn_01x09"'',
        ''      (pin_names (offset 1.016)) (exclude_from_sim no) (in_bom yes) (on_board yes)'',
        ''      (property "Reference" "J" (at 0 12.7 0) (effects (font (size 1.27 1.27))))'',
        ''      (property "Value" "Micro_SD" (at 0 -12.7 0) (effects (font (size 1.27 1.27))))'',
        ''      (property "Footprint" "" (at 0 0 0) (effects (font (size 1.27 1.27)) hide))'',
        ''      (property "Datasheet" "" (at 0 0 0) (effects (font (size 1.27 1.27)) hide))'',
        ''      (symbol "Conn_01x09_1_1"'',
        ''        (rectangle (start -1.27 11.43) (end 1.27 -11.43) (stroke (width 0.254) (type default)) (fill (type background)))'',
        ''        (pin passive line (at -3.81 10.16 0) (length 2.54) (name "DAT2" (effects (font (size 1.27 1.27)))) (number "1" (effects (font (size 1.27 1.27)))))'',
        ''        (pin passive line (at -3.81 7.62 0) (length 2.54) (name "CD/DAT3" (effects (font (size 1.27 1.27)))) (number "2" (effects (font (size 1.27 1.27)))))'',
        ''        (pin passive line (at -3.81 5.08 0) (length 2.54) (name "CMD" (effects (font (size 1.27 1.27)))) (number "3" (effects (font (size 1.27 1.27)))))'',
        ''        (pin passive line (at -3.81 2.54 0) (length 2.54) (name "VDD" (effects (font (size 1.27 1.27)))) (number "4" (effects (font (size 1.27 1.27)))))'',
        ''        (pin passive line (at -3.81 0 0) (length 2.54) (name "CLK" (effects (font (size 1.27 1.27)))) (number "5" (effects (font (size 1.27 1.27)))))'',
        ''        (pin passive line (at -3.81 -2.54 0) (length 2.54) (name "GND" (effects (font (size 1.27 1.27)))) (number "6" (effects (font (size 1.27 1.27)))))'',
        ''        (pin passive line (at -3.81 -5.08 0) (length 2.54) (name "DAT0" (effects (font (size 1.27 1.27)))) (number "7" (effects (font (size 1.27 1.27)))))'',
        ''        (pin passive line (at -3.81 -7.62 0) (length 2.54) (name "DAT1" (effects (font (size 1.27 1.27)))) (number "8" (effects (font (size 1.27 1.27)))))'',
        ''        (pin passive line (at -3.81 -10.16 0) (length 2.54) (name "CD#" (effects (font (size 1.27 1.27)))) (number "9" (effects (font (size 1.27 1.27)))))'',
        ''      )'',
        ''    )''])]\<close>

definition peripherals_lib_connectors :: "stmt" where
  \<open>peripherals_lib_connectors = draw [
    emit (py_join [nl]
       [''    (symbol "Connector:USB_A"'',
        ''      (pin_names (offset 1.016)) (exclude_from_sim no) (in_bom yes) (on_board yes)'',
        ''      (property "Reference" "J" (at 0 7.62 0) (effects (font (size 1.27 1.27))))'',
        ''      (property "Value" "USB_A" (at 0 -7.62 0) (effects (font (size 1.27 1.27))))'',
        ''      (property "Footprint" "" (at 0 0 0) (effects (font (size 1.27 1.27)) hide))'',
        ''      (property "Datasheet" "" (at 0 0 0) (effects (font (size 1.27 1.27)) hide))'',
        ''      (symbol "USB_A_1_1"'',
        ''        (rectangle (start -3.81 6.35) (end 3.81 -6.35) (stroke (width 0.254) (type default)) (fill (type background)))'',
        ''        (pin power_in line (at -6.35 5.08 0) (length 2.54) (name "VBUS" (effects (font (size 1.27 1.27)))) (number "1" (effects (font (size 1.27 1.27)))))'',
        ''        (pin bidirectional line (at -6.35 2.54 0) (length 2.54) (name "D-" (effects (font (size 1.27 1.27)))) (number "2" (effects (font (size 1.27 1.27)))))'',
        ''        (pin bidirectional line (at -6.35 0 0) (length 2.54) (name "D+" (effects (font (size 1.27 1.27)))) (number "3" (effects (font (size 1.27 1.27)))))'',
        ''        (pin power_in line (at -6.35 -2.54 0) (length 2.54) (name "GND" (effects (font (size 1.27 1.27)))) (number "4" (effects (font (size 1.27 1.27)))))'',
        ''        (pin passive line (at -6.35 -5.08 0) (length 2.54) (name "Shield" (effects (font (size 1.27 1.27)))) (number "5" (effects (font (size 1.27 1.27)))))'',
        ''      )'',
        ''    )'']),
    emit (py_join [nl]
       [''    (symbol "Connector:USB_B_Micro"'',
        ''      (pin_names (offset 1.016)) (exclude_from_sim no) (in_bom yes) (on_board yes)'',
        ''      (property "Reference" "J" (at 0 7.62 0) (effects (font (size 1.27 1.27))))'',
        ''      (property "Value" "USB_B_Micro" (at 0 -7.62 0) (effects (font (size 1.27 1.27))))'',
        ''      (property "Footprint" "" (at 0 0 0) (effects (font (size 1.27 1.27)) hide))'',
        ''      (property "Datasheet" "" (at 0 0 0) (effects (font (size 1.27 1.27)) hide))'',
        ''      (symbol "USB_B_Micro_1_1"'',
        ''        (rectangle (start -3.81 6.35) (end 3.81 -6.35) (stroke (width 0.254) (type default)) (fill (type background)))'',
        ''        (pin power_in line (at -6.35 5.08 0) (length 2.54) (name "VBUS" (effects (font (size 1.27 1.27)))) (number "1" (effects (font (size 1.27 1.27)))))'',
        ''        (pin bidirectional line (at -6.35 2.54 0) (length 2.54) (name "D-" (effects (font (size 1.27 1.27)))) (number "2" (effects (font (size 1.27 1.27)))))'',
        ''        (pin bidirectional line (at -6.35 0 0) (length 2.54) (name "D+" (effects (font (size 1.27 1.27)))) (number "3" (effects (font (size 1.27 1.27)))))'',
        ''        (pin passive line (at -6.35 -2.54 0) (length 2.54) (name "ID" (effects (font (size 1.27 1.27)))) (number "4" (effects (font (size 1.27 1.27)))))'',
        ''        (pin power_in line (at -6.35 -5.08 0) (length 2.54) (name "GND" (effects (font (size 1.27 1.27)))) (number "5" (effects (font (size 1.27 1.27)))))'',
        ''        (pin passive line (at -6.35 -7.62 0) (length 2.54) (name "Shield" (effects (font (size 1.27 1.27)))) (number "6" (effects (font (size 1.27 1.27)))))'',
        ''      )'',
        ''    )'']),
    emit (py_join [nl]
       [''    (symbol "Connector:RJ45_Shielded"'',
        ''      (pin_names (offset 1.016)) (exclude_from_sim no) (in_bom yes) (on_board yes)'',
        ''      (property "Reference" "J" (at 0 12.7 0) (effects (font (size 1.27 1.27))))'',
        ''      (property "Value" "RJ45_MagJack" (at 0 -12.7 0) (effects (font (size 1.27 1.27))))'',
        ''      (property "Footprint" "" (at 0 0 0) (effects (font (size 1.27 1.27)) hide))'',
        ''      (property "Datasheet" "" (at 0 0 0) (effects (font (size 1.27 1.27)) hide))'',
        ''      (symbol "RJ45_Shielded_1_1"'',
        ''        (rectangle (start -3.81 11.43) (end 3.81 -11.43) (stroke (width 0.254) (type default)) (fill (type background)))'',
        ''        (pin passive line (at -6.35 10.16 0) (length 2.54) (name "TD+" (effects (font (size 1.27 1.27)))) (number "1" (effects (font (size 1.27 1.27)))))'',
        ''        (pin passive line (at -6.35 7.62 0) (length 2.54) (name "TD-" (effects (font (size 1.27 1.27)))) (number "2" (effects (font (size 1.27 1.27)))))'',
        ''        (pin passive line (at -6.35 5.08 0) (length 2.54) (name "RD+" (effects (font (size 1.27 1.27)))) (number "3" (effects (font (size 1.27 1.27)))))'',
        ''        (pin passive line (at -6.35 2.54 0) (length 2.54) (name "RD-" (effects (font (size 1.27 1.27)))) (number "4" (effects (font (size 1.27 1.27)))))'',
        ''        (pin passive line (at -6.35 0 0) (length 2.54) (name "TCT+" (effects (font (size 1.27 1.27)))) (number "5" (effects (font (size 1.27 1.27)))))'',
        ''        (pin passive line (at -6.35 -2.54 0) (length 2.54) (name "TCT-" (effects (font (size 1.27 1.27)))) (number "6" (effects (font (size 1.27 1.27)))))'',
        ''        (pin passive line (at -6.35 -5.08 0) (length 2.54) (name "TDD+" (effects (font (size 1.27 1.27)))) (number "7" (effects (font (size 1.27 1.27)))))'',
        ''        (pin passive line (at -6.35 -7.62 0) (length 2.54) (name "TDD-" (effects (font (size 1.27 1.27)))) (number "8" (effects (font (size 1.27 1.27)))))'',
        ''        (pin passive line (at -6.35 -10.16 0) (length 2.54) (name "Shield" (effects (font (size 1.27 1.27)))) (number "9" (effects (font (size 1.27 1.27)))))'',
        ''      )'',
        ''    )'']),
    draw (map (\<lambda>net. (if net = ''GND'' then emit lib_gnd
      else emit (lib_power net))) [''+1V8'', ''+3V3'', ''+3V3A'', ''+5V'', ''GND'']),
    emit ''  )'']\<close>

definition peripherals_lib_symbols :: "stmt" where
  "peripherals_lib_symbols = draw [peripherals_lib_passives, peripherals_lib_flash, peripherals_lib_usb, peripherals_lib_ethernet, peripherals_lib_modules, peripherals_lib_connectors]"

section \<open>The drawing\<close>

definition build_qspi :: "pynum \<Rightarrow> pynum \<Rightarrow> stmt" where
  \<open>build_qspi base_x base_y = draw [
    text_note ''QSPI FLASH - S25FL256S (256Mbit)'' base_x (base_y - PInt 5) (dec 20 1),
    text_note ''CS#=MIO[1] SCK=MIO[6] IO[0:3]=MIO[2:5]'' base_x base_y (dec 127 2),
    (let ux = base_x + PInt 50;
        uy = base_y + PInt 30
    in with_value next_ic (\<lambda>ref. draw [
        bump ''ics'',
        symbol_instance ''cirradio:S25FL256S'' ref ''S25FL256S'' ux uy 1 0 ''Package_SON:WSON-8-1EP_6x5mm_P1.27mm_EP3.4x4mm'' [],
        symbol_pins [''1'', ''2'', ''3'', ''4'', ''5'', ''6'', ''7'', ''8'', ''9''],
        power_symbol ''+1V8'' ux (uy - PInt 15) 0,
        wire ux (uy - dec 1016 2) ux (uy - PInt 15),
        cap ''100n'' (ux + PInt 8) (uy - PInt 15) 0 fp_c0402,
        power_symbol ''+1V8'' (ux + PInt 8) (uy - PInt 20) 0,
        wire (ux + PInt 8) (uy - dec 1881 2) (ux + PInt 8) (uy - PInt 20),
        power_symbol ''GND'' (ux + PInt 8) (uy - PInt 10) 0,
        wire (ux + PInt 8) (uy - dec 1119 2) (ux + PInt 8) (uy - PInt 10),
        power_symbol ''GND'' ux (uy + PInt 15) 0,
        wire ux (uy + dec 1016 2) ux (uy + PInt 15),
        (let hl_x = ux - PInt 20
        in draw [
          wire (ux - dec 1016 2) (uy + dec 508 2) hl_x (uy + dec 508 2),
          hier_label ''QSPI_MIO1'' hl_x (uy + dec 508 2) ''bidirectional'' 180,
          wire (ux - dec 1016 2) (uy + dec 254 2) hl_x (uy + dec 254 2),
          hier_label ''QSPI_MIO3'' hl_x (uy + dec 254 2) ''bidirectional'' 180,
          wire (ux - dec 1016 2) uy hl_x uy,
          hier_label ''QSPI_MIO4'' hl_x uy ''bidirectional'' 180,
          resistor ''10K'' (ux - PInt 14) (uy - PInt 6) 0 [],
          wire (ux - PInt 14) (uy - dec 219 2) (ux - PInt 14) uy,
          power_symbol ''+1V8'' (ux - PInt 14) (uy - PInt 13) 0,
          wire (ux - PInt 14) (uy - dec 981 2) (ux - PInt 14) (uy - PInt 13),
          wire (ux + dec 1016 2) uy (hl_x + PInt 45) uy,
          hier_label ''QSPI_MIO2'' (hl_x + PInt 45) uy ''bidirectional'' 0,
          wire (ux + dec 1016 2) (uy + dec 254 2) (hl_x + PInt 45) (uy + dec 254 2),
          hier_label ''QSPI_MIO6'' (hl_x + PInt 45) (uy + dec 254 2) ''bidirectional'' 0,
          wire (ux + dec 1016 2) (uy + dec 508 2) (hl_x + PInt 45) (uy + dec 508 2),
          hier_label ''QSPI_MIO5'' (hl_x + PInt 45) (uy + dec 508 2) ''bidirectional'' 0,
          resistor ''10K'' (ux + PInt 18) (uy - PInt 2) 0 [],
          wire (ux + PInt 18) (uy + dec 181 2) (ux + PInt 18) (uy + dec 508 2),
          wire (ux + dec 1016 2) (uy + dec 508 2) (ux + PInt 18) (uy + dec 508 2),
          power_symbol ''+1V8'' (ux + PInt 18) (uy - PInt 9) 0,
          wire (ux + PInt 18) (uy - dec 581 2) (ux + PInt 18) (uy - PInt 9)])]))]\<close>

definition build_emmc :: "pynum \<Rightarrow> pynum \<Rightarrow> stmt" where
  \<open>build_emmc base_x base_y = draw [
    text_note ''eMMC STORAGE - MTFC8GAKAJCN (8GB)'' base_x (base_y - PInt 5) (dec 20 1),
    text_note ''8-bit data via EMIO/PL pins'' base_x base_y (dec 127 2),
    (let ux = base_x + PInt 50;
        uy = base_y + PInt 35
    in with_value next_ic (\<lambda>ref. draw [
        bump ''ics'',
        symbol_instance ''cirradio:MTFC8GAKAJCN'' ref ''MTFC8GAKAJCN-8GB'' ux uy 1 0 ''cirradio:BGA-153_11.5x13mm'' [],
        symbol_pins [''H2'', ''J1'', ''J2'', ''H1'', ''J3'', ''K1'', ''K2'', ''K3'', ''D1'', ''D2'', ''C1'', ''A3'', ''E1'', ''B2''],
        power_symbol ''+3V3'' ux (uy - PInt 25) 0,
        wire ux (uy - dec 1905 2) ux (uy - PInt 25),
        power_symbol ''+1V8'' (ux + dec 508 2) (uy - PInt 25) 0,
        wire (ux + dec 508 2) (uy - dec 1905 2) (ux + dec 508 2) (uy - PInt 25),
        cap ''100n'' (ux - PInt 8) (uy - PInt 25) 0 fp_c0402,
        power_symbol ''+3V3'' (ux - PInt 8) (uy - PInt 30) 0,
        wire (ux - PInt 8) (uy - dec 2881 2) (ux - PInt 8) (uy - PInt 30),
        power_symbol ''GND'' (ux - PInt 8) (uy - PInt 20) 0,
        wire (ux - PInt 8) (uy - dec 2119 2) (ux - PInt 8) (uy - PInt 20),
        cap ''100n'' (ux + PInt 13) (uy - PInt 25) 0 fp_c0402,
        power_symbol ''+1V8'' (ux + PInt 13) (uy - PInt 30) 0,
        wire (ux + PInt 13) (uy - dec 2881 2) (ux + PInt 13) (uy - PInt 30),
        power_symbol ''GND'' (ux + PInt 13) (uy - PInt 20) 0,
        wire (ux + PInt 13) (uy - dec 2119 2) (ux + PInt 13) (uy - PInt 20),
        power_symbol ''GND'' ux (uy + PInt 25) 0,
        wire ux (uy + dec 1905 2) ux (uy + PInt 25),
        (let hl_x = ux - PInt 22;
            dat_labels = [''EMMC_DAT0'', ''EMMC_DAT1'', ''EMMC_DAT2'', ''EMMC_DAT3'', ''EMMC_DAT4'', ''EMMC_DAT5'', ''EMMC_DAT6'',
                ''EMMC_DAT7''];
            y_offsets = [dec 127 1, dec 1016 2, dec 762 2, dec 508 2, dec 254 2, PInt 0, dec (- 254) 2, dec (- 508) 2]
        in draw [
          draw (map (\<lambda>(lbl, yo). draw [
            wire (ux - dec 127 1) (uy + yo) hl_x (uy + yo),
            hier_label lbl hl_x (uy + yo) ''bidirectional'' 180]) (zip dat_labels y_offsets)),
          wire (ux - dec 127 1) (uy - dec 1016 2) hl_x (uy - dec 1016 2),
          hier_label ''EMMC_CLK'' hl_x (uy - dec 1016 2) ''bidirectional'' 180,
          wire (ux - dec 127 1) (uy - dec 127 1) hl_x (uy - dec 127 1),
          hier_label ''EMMC_CMD'' hl_x (uy - dec 127 1) ''bidirectional'' 180,
          (let rst_x = ux + PInt 22
          in draw [
            wire (ux + dec 127 1) (uy + dec 127 1) rst_x (uy + dec 127 1),
            resistor ''10K'' (rst_x + PInt 4) (uy + PInt 6) 0 [],
            wire rst_x (uy + dec 127 1) (rst_x + PInt 4) (uy + dec 127 1),
            wire (rst_x + PInt 4) (uy + dec 981 2) (rst_x + PInt 4) (uy + dec 127 1),
            power_symbol ''+3V3'' (rst_x + PInt 4) uy 0,
            wire (rst_x + PInt 4) (uy + dec 219 2) (rst_x + PInt 4) uy])])]))]\<close>

definition build_usb_phy :: "pynum \<Rightarrow> pynum \<Rightarrow> stmt" where
  \<open>build_usb_phy base_x base_y = draw [
    text_note ''USB PHY - USB3320C (ULPI)'' base_x (base_y - PInt 5) (dec 20 1),
    text_note ''ULPI DATA[0:7]/CLK/DIR/STP/NXT via MIO[28:39]'' base_x base_y (dec 127 2),
    (let ux = base_x + PInt 50;
        uy = base_y + PInt 40
    in with_value next_ic (\<lambda>ref. draw [
        bump ''ics'',
        symbol_instance ''cirradio:USB3320C'' ref ''USB3320C-EZK'' ux uy 1 0 ''Package_DFN_QFN:QFN-32-1EP_5x5mm_P0.5mm_EP3.1x3.1mm'' [],
        symbol_pins [''17'', ''18'', ''19'', ''20'', ''21'', ''22'', ''23'', ''24'', ''15'', ''16'', ''25'', ''26'', ''4'', ''11'', ''12'',
            ''14'', ''1'', ''9'', ''33'', ''27'', ''28'', ''29'', ''30''],
        power_symbol ''+3V3'' (ux - dec 254 2) (uy - PInt 30) 0,
        wire (ux - dec 254 2) (uy - dec 2413 2) (ux - dec 254 2) (uy - PInt 30),
        power_symbol ''+3V3'' (ux + dec 254 2) (uy - PInt 30) 0,
        wire (ux + dec 254 2) (uy - dec 2413 2) (ux + dec 254 2) (uy - PInt 30),
        cap ''100n'' (ux - PInt 10) (uy - PInt 30) 0 fp_c0402,
        power_symbol ''+3V3'' (ux - PInt 10) (uy - PInt 35) 0,
        wire (ux - PInt 10) (uy - dec 3381 2) (ux - PInt 10) (uy - PInt 35),
        power_symbol ''GND'' (ux - PInt 10) (uy - PInt 25) 0,
        wire (ux - PInt 10) (uy - dec 2619 2) (ux - PInt 10) (uy - PInt 25),
        cap ''100n'' (ux + PInt 10) (uy - PInt 30) 0 fp_c0402,
        power_symbol ''+3V3'' (ux + PInt 10) (uy - PInt 35) 0,
        wire (ux + PInt 10) (uy - dec 3381 2) (ux + PInt 10) (uy - PInt 35),
        power_symbol ''GND'' (ux + PInt 10) (uy - PInt 25) 0,
        wire (ux + PInt 10) (uy - dec 2619 2) (ux + PInt 10) (uy - PInt 25),
        power_symbol ''GND'' ux (uy + PInt 30) 0,
        wire ux (uy + dec 2413 2) ux (uy + PInt 30),
        (let hl_x = ux - PInt 25;
            ulpi_data = [(''USB_MIO28'', dec 1778 2),
          (''USB_MIO29'', dec 1524 2),
          (''USB_MIO30'', dec 127 1),
          (''USB_MIO31'', dec 1016 2),
          (''USB_MIO32'', dec 762 2),
          (''USB_MIO33'', dec 508 2),
          (''USB_MIO34'', dec 254 2),
          (''USB_MIO35'', PInt 0)]
        in draw [
          draw (map (\<lambda>(lbl, yo). draw [
            wire (ux - dec 1524 2) (uy + yo) hl_x (uy + yo),
            hier_label lbl hl_x (uy + yo) ''bidirectional'' 180]) ulpi_data),
          wire (ux - dec 1524 2) (uy - dec 508 2) hl_x (uy - dec 508 2),
          hier_label ''USB_MIO36'' hl_x (uy - dec 508 2) ''bidirectional'' 180,
          wire (ux - dec 1524 2) (uy - dec 762 2) hl_x (uy - dec 762 2),
          hier_label ''USB_MIO37'' hl_x (uy - dec 762 2) ''bidirectional'' 180,
          wire (ux - dec 1524 2) (uy - dec 1016 2) hl_x (uy - dec 1016 2),
          hier_label ''USB_MIO38'' hl_x (uy - dec 1016 2) ''bidirectional'' 180,
          wire (ux - dec 1524 2) (uy - dec 127 1) hl_x (uy - dec 127 1),
          hier_label ''USB_MIO39'' hl_x (uy - dec 127 1) ''bidirectional'' 180,
          resistor ''10K'' (ux - PInt 22) (uy - dec 1778 2) 90 [],
          wire (ux - dec 1524 2) (uy - dec 1778 2) (ux - PInt 22 + dec 381 2) (uy - dec 1778 2),
          power_symbol ''+3V3'' (ux - PInt 30) (uy - dec 1778 2) 0,
          wire (ux - PInt 22 - dec 381 2) (uy - dec 1778 2) (ux - PInt 30) (uy - dec 1778 2),
          (let rb_x = ux + PInt 25
          in draw [
            wire (ux + dec 1524 2) (uy + dec 508 2) rb_x (uy + dec 508 2),
            resistor ''12K1'' (rb_x + PInt 5) (uy + dec 508 2) 90 [],
            wire rb_x (uy + dec 508 2) (rb_x + PInt 5 - dec 381 2) (uy + dec 508 2),
            power_symbol ''GND'' (rb_x + PInt 12) (uy + dec 508 2) 0,
            wire (rb_x + PInt 5 + dec 381 2) (uy + dec 508 2) (rb_x + PInt 12) (uy + dec 508 2),
            (let conn_x = ux + PInt 55
            in with_value next_conn (\<lambda>conn_ref. draw [
                bump ''connectors'',
                symbol_instance ''Connector:USB_A'' conn_ref ''USB_A'' conn_x uy 1 0 ''Connector_USB:USB_A_Molex_105057_Vertical'' [],
                symbol_pins [''1'', ''2'', ''3'', ''4'', ''5''],
                resistor ''22R'' (ux + PInt 30) (uy + dec 1524 2) 90 [],
                wire (ux + dec 1524 2) (uy + dec 1524 2) (ux + PInt 30 - dec 381 2) (uy + dec 1524 2),
                wire (ux + PInt 30 + dec 381 2) (uy + dec 1524 2) (conn_x - PInt 10) (uy + dec 1524 2),
                wire (conn_x - PInt 10) (uy + dec 1524 2) (conn_x - PInt 10) uy,
                wire (conn_x - PInt 10) uy (conn_x - dec 635 2) uy,
                resistor ''22R'' (ux + PInt 30) (uy + dec 127 1) 90 [],
                wire (ux + dec 1524 2) (uy + dec 127 1) (ux + PInt 30 - dec 381 2) (uy + dec 127 1),
                wire (ux + PInt 30 + dec 381 2) (uy + dec 127 1) (conn_x - PInt 12) (uy + dec 127 1),
                wire (conn_x - PInt 12) (uy + dec 127 1) (conn_x - PInt 12) (uy + dec 254 2),
                wire (conn_x - PInt 12) (uy + dec 254 2) (conn_x - dec 635 2) (uy + dec 254 2),
                power_symbol ''+5V'' (conn_x - dec 635 2) (uy + PInt 10) 0,
                wire (conn_x - dec 635 2) (uy + dec 508 2) (conn_x - dec 635 2) (uy + PInt 10),
                power_symbol ''GND'' (conn_x - dec 635 2) (uy - PInt 8) 0,
                wire (conn_x - dec 635 2) (uy - dec 254 2) (conn_x - dec 635 2) (uy - PInt 8),
                wire (conn_x - dec 635 2) (uy - dec 508 2) (conn_x - dec 635 2) (uy - PInt 8),
                power_symbol ''GND'' (ux + PInt 25) (uy - dec 1778 2) 0,
                wire (ux + dec 1524 2) (uy - dec 1778 2) (ux + PInt 25) (uy - dec 1778 2)]))])])]))]\<close>

definition build_ethernet :: "pynum \<Rightarrow> pynum \<Rightarrow> stmt" where
  \<open>build_ethernet base_x base_y = draw [
    text_note ''ETHERNET PHY - KSZ9031RNXIA (GigE RGMII)'' base_x (base_y - PInt 5) (dec 20 1),
    text_note ''RGMII to Zynq MIO[16:27], 25MHz crystal'' base_x base_y (dec 127 2),
    (let ux = base_x + PInt 55;
        uy = base_y + PInt 45
    in with_value next_ic (\<lambda>ref. draw [
        bump ''ics'',
        symbol_instance ''cirradio:KSZ9031'' ref ''KSZ9031RNXIA'' ux uy 1 0 ''Package_DFN_QFN:QFN-48-1EP_7x7mm_P0.5mm_EP5.15x5.15mm'' [],
        symbol_pins [''20'', ''21'', ''22'', ''23'', ''19'', ''18'', ''27'', ''28'', ''29'', ''30'', ''26'', ''25'', ''42'', ''40'',
            ''41'', ''1'', ''2'', ''4'', ''5'', ''7'', ''8'', ''10'', ''11'', ''13'', ''14'', ''16'', ''17'', ''31'', ''32'', ''33'',
            ''34'', ''37'', ''38'', ''3'', ''24'', ''49'', ''43'', ''44'', ''39''],
        power_symbol ''+1V8'' (ux - dec 508 2) (uy - PInt 38) 0,
        wire (ux - dec 508 2) (uy - dec 3175 2) (ux - dec 508 2) (uy - PInt 38),
        power_symbol ''+1V8'' (ux + dec 508 2) (uy - PInt 38) 0,
        wire (ux + dec 508 2) (uy - dec 3175 2) (ux + dec 508 2) (uy - PInt 38),
        cap ''100n'' (ux - PInt 14) (uy - PInt 38) 0 fp_c0402,
        power_symbol ''+1V8'' (ux - PInt 14) (uy - PInt 43) 0,
        wire (ux - PInt 14) (uy - dec 4181 2) (ux - PInt 14) (uy - PInt 43),
        power_symbol ''GND'' (ux - PInt 14) (uy - PInt 33) 0,
        wire (ux - PInt 14) (uy - dec 3419 2) (ux - PInt 14) (uy - PInt 33),
        cap ''10u'' (ux - PInt 20) (uy - PInt 38) 0 ''Capacitor_SMD:C_0805_2012Metric'',
        power_symbol ''+1V8'' (ux - PInt 20) (uy - PInt 43) 0,
        wire (ux - PInt 20) (uy - dec 4181 2) (ux - PInt 20) (uy - PInt 43),
        power_symbol ''GND'' (ux - PInt 20) (uy - PInt 33) 0,
        wire (ux - PInt 20) (uy - dec 3419 2) (ux - PInt 20) (uy - PInt 33),
        cap ''100n'' (ux + PInt 14) (uy - PInt 38) 0 fp_c0402,
        power_symbol ''+1V8'' (ux + PInt 14) (uy - PInt 43) 0,
        wire (ux + PInt 14) (uy - dec 4181 2) (ux + PInt 14) (uy - PInt 43),
        power_symbol ''GND'' (ux + PInt 14) (uy - PInt 33) 0,
        wire (ux + PInt 14) (uy - dec 3419 2) (ux + PInt 14) (uy - PInt 33),
        power_symbol ''GND'' ux (uy + PInt 38) 0,
        wire ux (uy + dec 3175 2) ux (uy + PInt 38),
        (let hl_x = ux - PInt 28;
            rgmii_rx = [(''ETH_MIO22'', dec 254 1),
          (''ETH_MIO23'', dec 2286 2),
          (''ETH_MIO24'', dec 2032 2),
          (''ETH_MIO25'', dec 1778 2)]
        in draw [
          draw (map (\<lambda>(lbl, yo). draw [
            wire (ux - dec 1778 2) (uy + yo) hl_x (uy + yo),
            hier_label lbl hl_x (uy + yo) ''bidirectional'' 180]) rgmii_rx),
          wire (ux - dec 1778 2) (uy + dec 127 1) hl_x (uy + dec 127 1),
          hier_label ''ETH_MIO21'' hl_x (uy + dec 127 1) ''bidirectional'' 180,
          wire (ux - dec 1778 2) (uy + dec 1016 2) hl_x (uy + dec 1016 2),
          hier_label ''ETH_MIO20'' hl_x (uy + dec 1016 2) ''bidirectional'' 180,
          (let rgmii_tx = [(''ETH_MIO16'', dec 508 2),
          (''ETH_MIO17'', dec 254 2),
          (''ETH_MIO18'', PInt 0),
          (''ETH_MIO19'', dec (- 254) 2)]
          in draw [
            draw (map (\<lambda>(lbl, yo). draw [
              wire (ux - dec 1778 2) (uy + yo) hl_x (uy + yo),
              hier_label lbl hl_x (uy + yo) ''bidirectional'' 180]) rgmii_tx),
            wire (ux - dec 1778 2) (uy - dec 762 2) hl_x (uy - dec 762 2),
            hier_label ''ETH_MIO26'' hl_x (uy - dec 762 2) ''bidirectional'' 180,
            wire (ux - dec 1778 2) (uy - dec 1016 2) hl_x (uy - dec 1016 2),
            hier_label ''ETH_MIO27'' hl_x (uy - dec 1016 2) ''bidirectional'' 180,
            resistor ''10K'' (ux - PInt 25) (uy - PInt 20) 0 [],
            wire (ux - dec 1778 2) (uy - dec 1524 2) (ux - PInt 25) (uy - dec 1524 2),
            wire (ux - PInt 25) (uy - dec 1619 2) (ux - PInt 25) (uy - dec 1524 2),
            power_symbol ''+1V8'' (ux - PInt 25) (uy - PInt 27) 0,
            wire (ux - PInt 25) (uy - dec 2381 2) (ux - PInt 25) (uy - PInt 27),
            wire (ux - dec 1778 2) (uy - dec 1778 2) hl_x (uy - dec 1778 2),
            global_label ''ETH_MDIO'' hl_x (uy - dec 1778 2) ''bidirectional'' 180,
            wire (ux - dec 1778 2) (uy - dec 2032 2) hl_x (uy - dec 2032 2),
            global_label ''ETH_MDC'' hl_x (uy - dec 2032 2) ''output'' 180,
            power_symbol ''GND'' (ux - PInt 25) (uy - dec 2286 2) 0,
            wire (ux - dec 1778 2) (uy - dec 2286 2) (ux - PInt 25) (uy - dec 2286 2),
            (let cryst_x = ux - PInt 28;
                cryst_y = uy - PInt 28
            in with_value next_crystal (\<lambda>cryst_ref. draw [
                symbol_instance ''Device:Crystal'' cryst_ref ''25MHz'' cryst_x cryst_y 1 0 ''Crystal:Crystal_SMD_3215-2Pin_3.2x1.5mm'' [],
                symbol_pins [''1'', ''2''],
                wire (cryst_x - dec 381 2) cryst_y (ux - dec 1778 2) (uy - dec 254 1),
                wire (cryst_x + dec 381 2) cryst_y (ux - dec 1778 2) (uy - dec 2794 2),
                cap ''15p'' (cryst_x - PInt 6) (cryst_y + PInt 6) 0 fp_c0402,
                wire (cryst_x - PInt 6) (cryst_y + dec 219 2) (cryst_x - PInt 6) cryst_y,
                wire (cryst_x - PInt 6) cryst_y (cryst_x - dec 381 2) cryst_y,
                power_symbol ''GND'' (cryst_x - PInt 6) (cryst_y + PInt 13) 0,
                wire (cryst_x - PInt 6) (cryst_y + dec 981 2) (cryst_x - PInt 6) (cryst_y + PInt 13),
                cap ''15p'' (cryst_x + PInt 6) (cryst_y + PInt 6) 0 fp_c0402,
                wire (cryst_x + PInt 6) (cryst_y + dec 219 2) (cryst_x + PInt 6) cryst_y,
                wire (cryst_x + PInt 6) cryst_y (cryst_x + dec 381 2) cryst_y,
                power_symbol ''GND'' (cryst_x + PInt 6) (cryst_y + PInt 13) 0,
                wire (cryst_x + PInt 6) (cryst_y + dec 981 2) (cryst_x + PInt 6) (cryst_y + PInt 13),
                (let rj_x = ux + PInt 55
                in with_value next_conn (\<lambda>rj_ref. draw [
                    bump ''connectors'',
                    symbol_instance ''Connector:RJ45_Shielded'' rj_ref ''RJ45_MagJack'' rj_x uy 1 0 ''Connector_RJ:RJ45_Amphenol_ARJM11D7'' [],
                    symbol_pins [''1'', ''2'', ''3'', ''4'', ''5'', ''6'', ''7'', ''8'', ''9''],
                    wire (ux + dec 1778 2) (uy + dec 254 1) (rj_x - dec 635 2) (uy + dec 1016 2),
                    wire (ux + dec 1778 2) (uy + dec 2286 2) (rj_x - dec 635 2) (uy + dec 762 2),
                    wire (ux + dec 1778 2) (uy + dec 1778 2) (rj_x - dec 635 2) (uy + dec 508 2),
                    wire (ux + dec 1778 2) (uy + dec 1524 2) (rj_x - dec 635 2) (uy + dec 254 2),
                    wire (ux + dec 1778 2) (uy + dec 1016 2) (rj_x - dec 635 2) uy,
                    wire (ux + dec 1778 2) (uy + dec 762 2) (rj_x - dec 635 2) (uy - dec 254 2),
                    wire (ux + dec 1778 2) (uy + dec 254 2) (rj_x - dec 635 2) (uy - dec 508 2),
                    wire (ux + dec 1778 2) uy (rj_x - dec 635 2) (uy - dec 762 2),
                    power_symbol ''GND'' (rj_x - dec 635 2) (uy - PInt 15) 0,
                    wire (rj_x - dec 635 2) (uy - dec 1016 2) (rj_x - dec 635 2) (uy - PInt 15)]))]))])])]))]\<close>

definition build_uart_usb :: "pynum \<Rightarrow> pynum \<Rightarrow> stmt" where
  \<open>build_uart_usb base_x base_y = draw [
    text_note ''UART-USB BRIDGE - FT232RQ (Console)'' base_x (base_y - PInt 5) (dec 20 1),
    text_note ''TXD=MIO[48] RXD=MIO[49] -> USB Micro-B'' base_x base_y (dec 127 2),
    (let ux = base_x + PInt 50;
        uy = base_y + PInt 35
    in with_value next_ic (\<lambda>ref. draw [
        bump ''ics'',
        symbol_instance ''cirradio:FT232RQ'' ref ''FT232RQ'' ux uy 1 0 ''Package_DFN_QFN:QFN-32-1EP_5x5mm_P0.5mm_EP3.1x3.1mm'' [],
        symbol_pins [''1'', ''5'', ''15'', ''16'', ''12'', ''9'', ''19'', ''23'', ''22'', ''17''],
        power_symbol ''+3V3'' ux (uy - PInt 25) 0,
        wire ux (uy - dec 1905 2) ux (uy - PInt 25),
        cap ''100n'' (ux + PInt 8) (uy - PInt 25) 0 fp_c0402,
        power_symbol ''+3V3'' (ux + PInt 8) (uy - PInt 30) 0,
        wire (ux + PInt 8) (uy - dec 2881 2) (ux + PInt 8) (uy - PInt 30),
        power_symbol ''GND'' (ux + PInt 8) (uy - PInt 20) 0,
        wire (ux + PInt 8) (uy - dec 2119 2) (ux + PInt 8) (uy - PInt 20),
        cap ''4u7'' (ux + PInt 14) (uy - PInt 25) 0 ''Capacitor_SMD:C_0805_2012Metric'',
        power_symbol ''+3V3'' (ux + PInt 14) (uy - PInt 30) 0,
        wire (ux + PInt 14) (uy - dec 2881 2) (ux + PInt 14) (uy - PInt 30),
        power_symbol ''GND'' (ux + PInt 14) (uy - PInt 20) 0,
        wire (ux + PInt 14) (uy - dec 2119 2) (ux + PInt 14) (uy - PInt 20),
        power_symbol ''GND'' ux (uy + PInt 25) 0,
        wire ux (uy + dec 1905 2) ux (uy + PInt 25),
        (let hl_x = ux - PInt 22
        in draw [
          wire (ux - dec 127 1) (uy + dec 127 1) hl_x (uy + dec 127 1),
          hier_label ''UART1_MIO49'' hl_x (uy + dec 127 1) ''bidirectional'' 180,
          wire (ux - dec 127 1) (uy + dec 1016 2) hl_x (uy + dec 1016 2),
          hier_label ''UART1_MIO48'' hl_x (uy + dec 1016 2) ''bidirectional'' 180,
          resistor ''10K'' (ux - PInt 18) (uy - PInt 4) 0 [],
          wire (ux - dec 127 1) uy (ux - PInt 18) uy,
          wire (ux - PInt 18) (uy - dec 19 2) (ux - PInt 18) uy,
          power_symbol ''+3V3'' (ux - PInt 18) (uy - PInt 11) 0,
          wire (ux - PInt 18) (uy - dec 781 2) (ux - PInt 18) (uy - PInt 11),
          cap ''100n'' (ux + PInt 20) uy 0 fp_c0402,
          wire (ux + dec 127 1) uy (ux + PInt 20) uy,
          wire (ux + PInt 20) (uy - dec 381 2) (ux + PInt 20) uy,
          power_symbol ''GND'' (ux + PInt 20) (uy + PInt 7) 0,
          wire (ux + PInt 20) (uy + dec 381 2) (ux + PInt 20) (uy + PInt 7),
          (let conn_x = ux + PInt 50
          in with_value next_conn (\<lambda>conn_ref. draw [
              bump ''connectors'',
              symbol_instance ''Connector:USB_B_Micro'' conn_ref ''USB_Micro_B'' conn_x uy 1 0 ''Connector_USB:USB_Micro-B_Molex_47346-0001'' [],
              symbol_pins [''1'', ''2'', ''3'', ''4'', ''5'', ''6''],
              resistor ''22R'' (ux + PInt 30) (uy + dec 127 1) 90 [],
              wire (ux + dec 127 1) (uy + dec 127 1) (ux + PInt 30 - dec 381 2) (uy + dec 127 1),
              wire (ux + PInt 30 + dec 381 2) (uy + dec 127 1) (conn_x - PInt 10) (uy + dec 127 1),
              wire (conn_x - PInt 10) (uy + dec 127 1) (conn_x - PInt 10) uy,
              wire (conn_x - PInt 10) uy (conn_x - dec 635 2) uy,
              resistor ''22R'' (ux + PInt 30) (uy + dec 1016 2) 90 [],
              wire (ux + dec 127 1) (uy + dec 1016 2) (ux + PInt 30 - dec 381 2) (uy + dec 1016 2),
              wire (ux + PInt 30 + dec 381 2) (uy + dec 1016 2) (conn_x - PInt 12) (uy + dec 1016 2),
              wire (conn_x - PInt 12) (uy + dec 1016 2) (conn_x - PInt 12) (uy + dec 254 2),
              wire (conn_x - PInt 12) (uy + dec 254 2) (conn_x - dec 635 2) (uy + dec 254 2),
              power_symbol ''+5V'' (conn_x - dec 635 2) (uy + PInt 10) 0,
              wire (conn_x - dec 635 2) (uy + dec 508 2) (conn_x - dec 635 2) (uy + PInt 10),
              power_symbol ''GND'' (conn_x - dec 635 2) (uy - PInt 10) 0,
              wire (conn_x - dec 635 2) (uy - dec 508 2) (conn_x - dec 635 2) (uy - PInt 10),
              wire (conn_x - dec 635 2) (uy - dec 762 2) (conn_x - dec 635 2) (uy - PInt 10)]))])]))]\<close>

definition build_gps :: "pynum \<Rightarrow> pynum \<Rightarrow> stmt" where
  \<open>build_gps base_x base_y = draw [
    text_note ''GPS RECEIVER - MAX-M10S'' base_x (base_y - PInt 5) (dec 20 1),
    text_note ''UART mode, 1PPS output, U.FL antenna'' base_x base_y (dec 127 2),
    (let ux = base_x + PInt 50;
        uy = base_y + PInt 30
    in with_value next_ic (\<lambda>ref. draw [
        bump ''ics'',
        symbol_instance ''cirradio:MAX-M10S'' ref ''MAX-M10S'' ux uy 1 0 ''cirradio:LCC-16_MAX-M10S'' [],
        symbol_pins [''9'', ''1'', ''3'', ''6'', ''5'', ''4'', ''10'', ''8'', ''11'', ''14'', ''13''],
        power_symbol ''+3V3A'' ux (uy - PInt 22) 0,
        wire ux (uy - dec 1651 2) ux (uy - PInt 22),
        cap ''100n'' (ux + PInt 8) (uy - PInt 22) 0 fp_c0402,
        power_symbol ''+3V3A'' (ux + PInt 8) (uy - PInt 27) 0,
        wire (ux + PInt 8) (uy - dec 2581 2) (ux + PInt 8) (uy - PInt 27),
        power_symbol ''GND'' (ux + PInt 8) (uy - PInt 17) 0,
        wire (ux + PInt 8) (uy - dec 1819 2) (ux + PInt 8) (uy - PInt 17),
        cap ''10u'' (ux + PInt 14) (uy - PInt 22) 0 ''Capacitor_SMD:C_0805_2012Metric'',
        power_symbol ''+3V3A'' (ux + PInt 14) (uy - PInt 27) 0,
        wire (ux + PInt 14) (uy - dec 2581 2) (ux + PInt 14) (uy - PInt 27),
        power_symbol ''GND'' (ux + PInt 14) (uy - PInt 17) 0,
        wire (ux + PInt 14) (uy - dec 1819 2) (ux + PInt 14) (uy - PInt 17),
        power_symbol ''GND'' ux (uy + PInt 22) 0,
        wire ux (uy + dec 1651 2) ux (uy + PInt 22),
        (let ufl_x = ux - PInt 25
        in with_value next_conn (\<lambda>ufl_ref. draw [
            bump ''connectors'',
            symbol_instance ''Connector:Conn_Coaxial'' ufl_ref ''U.FL_GPS'' ufl_x (uy + dec 1016 2) 1 0 ''Connector_Coaxial:U.FL_Hirose_U.FL-R-SMT-1_Vertical'' [],
            symbol_pins [''1'', ''2''],
            wire (ufl_x + dec 381 2) (uy + dec 1016 2) (ux - dec 127 1) (uy + dec 1016 2),
            power_symbol ''GND'' ufl_x (uy + PInt 17) 0,
            wire ufl_x (uy + dec 1397 2) ufl_x (uy + PInt 17),
            (let hl_x = ux + PInt 22
            in draw [
              wire (ux + dec 127 1) (uy + dec 1016 2) hl_x (uy + dec 1016 2),
              hier_label ''GPS_TXD'' hl_x (uy + dec 1016 2) ''output'' 0,
              wire (ux + dec 127 1) (uy + dec 762 2) hl_x (uy + dec 762 2),
              hier_label ''GPS_RXD'' hl_x (uy + dec 762 2) ''input'' 0,
              wire (ux + dec 127 1) (uy + dec 254 2) hl_x (uy + dec 254 2),
              global_label ''GPS_1PPS'' hl_x (uy + dec 254 2) ''output'' 0,
              power_symbol ''GND'' (ux - PInt 18) (uy - dec 254 2) 0,
              wire (ux - dec 127 1) (uy - dec 254 2) (ux - PInt 18) (uy - dec 254 2),
              resistor ''10K'' (ux - PInt 18) (uy - PInt 10) 0 [],
              wire (ux - dec 127 1) (uy - dec 508 2) (ux - PInt 18) (uy - dec 508 2),
              wire (ux - PInt 18) (uy - dec 619 2) (ux - PInt 18) (uy - dec 508 2),
              power_symbol ''+3V3A'' (ux - PInt 18) (uy - PInt 17) 0,
              wire (ux - PInt 18) (uy - dec 1381 2) (ux - PInt 18) (uy - PInt 17),
              power_symbol ''+3V3A'' (ux - PInt 18) (uy - dec 1016 2) 0,
              wire (ux - dec 127 1) (uy - dec 1016 2) (ux - PInt 18) (uy - dec 1016 2),
              no_connect (ux + dec 127 1) (uy - dec 508 2),
              no_connect (ux + dec 127 1) (uy - dec 762 2)])]))]))]\<close>

definition build_microsd :: "pynum \<Rightarrow> pynum \<Rightarrow> stmt" where
  \<open>build_microsd base_x base_y = draw [
    text_note ''MICRO-SD CARD SLOT'' base_x (base_y - PInt 5) (dec 20 1),
    text_note ''SD0: MIO[40:45], CD# to GPIO'' base_x base_y (dec 127 2),
    (let ux = base_x + PInt 50;
        uy = base_y + PInt 30
    in with_value next_conn (\<lambda>ref. draw [
        bump ''connectors'',
        symbol_instance ''Connector_Generic:Conn_01x09'' ref ''Micro_SD'' ux uy 1 0 ''Connector_Card:microSD_HC_Hirose_DM3D-SF'' [],
        symbol_pins [''1'', ''2'', ''3'', ''4'', ''5'', ''6'', ''7'', ''8'', ''9''],
        power_symbol ''+3V3'' (ux - dec 381 2) (uy - PInt 3) 0,
        wire (ux - dec 381 2) (uy + dec 254 2) (ux - dec 381 2) (uy - PInt 3),
        power_symbol ''GND'' (ux - dec 381 2) (uy + PInt 8) 0,
        wire (ux - dec 381 2) (uy - dec 254 2) (ux - dec 381 2) (uy + PInt 8),
        cap ''100n'' (ux + PInt 8) (uy - PInt 3) 0 fp_c0402,
        power_symbol ''+3V3'' (ux + PInt 8) (uy - PInt 8) 0,
        wire (ux + PInt 8) (uy - dec 681 2) (ux + PInt 8) (uy - PInt 8),
        power_symbol ''GND'' (ux + PInt 8) (uy + PInt 2) 0,
        wire (ux + PInt 8) (uy + dec 81 2) (ux + PInt 8) (uy + PInt 2),
        (let hl_x = ux - PInt 15
        in draw [
          wire (ux - dec 381 2) (uy + dec 1016 2) hl_x (uy + dec 1016 2),
          hier_label ''SD_MIO42'' hl_x (uy + dec 1016 2) ''bidirectional'' 180,
          resistor ''10K'' (hl_x - PInt 5) (uy + dec 1016 2) 90 [],
          wire hl_x (uy + dec 1016 2) (hl_x - PInt 5 + dec 381 2) (uy + dec 1016 2),
          power_symbol ''+3V3'' (hl_x - PInt 12) (uy + dec 1016 2) 0,
          wire (hl_x - PInt 5 - dec 381 2) (uy + dec 1016 2) (hl_x - PInt 12) (uy + dec 1016 2),
          wire (ux - dec 381 2) (uy + dec 762 2) hl_x (uy + dec 762 2),
          hier_label ''SD_MIO43'' hl_x (uy + dec 762 2) ''bidirectional'' 180,
          resistor ''10K'' (hl_x - PInt 5) (uy + dec 762 2) 90 [],
          wire hl_x (uy + dec 762 2) (hl_x - PInt 5 + dec 381 2) (uy + dec 762 2),
          power_symbol ''+3V3'' (hl_x - PInt 12) (uy + dec 762 2) 0,
          wire (hl_x - PInt 5 - dec 381 2) (uy + dec 762 2) (hl_x - PInt 12) (uy + dec 762 2),
          wire (ux - dec 381 2) (uy + dec 508 2) hl_x (uy + dec 508 2),
          hier_label ''SD_MIO41'' hl_x (uy + dec 508 2) ''bidirectional'' 180,
          resistor ''10K'' (hl_x - PInt 5) (uy + dec 508 2) 90 [],
          wire hl_x (uy + dec 508 2) (hl_x - PInt 5 + dec 381 2) (uy + dec 508 2),
          power_symbol ''+3V3'' (hl_x - PInt 12) (uy + dec 508 2) 0,
          wire (hl_x - PInt 5 - dec 381 2) (uy + dec 508 2) (hl_x - PInt 12) (uy + dec 508 2),
          wire (ux - dec 381 2) uy hl_x uy,
          hier_label ''SD_MIO40'' hl_x uy ''bidirectional'' 180,
          wire (ux - dec 381 2) (uy - dec 508 2) hl_x (uy - dec 508 2),
          hier_label ''SD_MIO44'' hl_x (uy - dec 508 2) ''bidirectional'' 180,
          resistor ''10K'' (hl_x - PInt 5) (uy - dec 508 2) 90 [],
          wire hl_x (uy - dec 508 2) (hl_x - PInt 5 + dec 381 2) (uy - dec 508 2),
          power_symbol ''+3V3'' (hl_x - PInt 12) (uy - dec 508 2) 0,
          wire (hl_x - PInt 5 - dec 381 2) (uy - dec 508 2) (hl_x - PInt 12) (uy - dec 508 2),
          wire (ux - dec 381 2) (uy - dec 762 2) hl_x (uy - dec 762 2),
          hier_label ''SD_MIO45'' hl_x (uy - dec 762 2) ''bidirectional'' 180,
          resistor ''10K'' (hl_x - PInt 5) (uy - dec 762 2) 90 [],
          wire hl_x (uy - dec 762 2) (hl_x - PInt 5 + dec 381 2) (uy - dec 762 2),
          power_symbol ''+3V3'' (hl_x - PInt 12) (uy - dec 762 2) 0,
          wire (hl_x - PInt 5 - dec 381 2) (uy - dec 762 2) (hl_x - PInt 12) (uy - dec 762 2),
          wire (ux - dec 381 2) (uy - dec 1016 2) hl_x (uy - dec 1016 2),
          hier_label ''SD_CD_N'' hl_x (uy - dec 1016 2) ''input'' 180,
          resistor ''10K'' (hl_x - PInt 5) (uy - dec 1016 2) 90 [],
          wire hl_x (uy - dec 1016 2) (hl_x - PInt 5 + dec 381 2) (uy - dec 1016 2),
          power_symbol ''+3V3'' (hl_x - PInt 12) (uy - dec 1016 2) 0,
          wire (hl_x - PInt 5 - dec 381 2) (uy - dec 1016 2) (hl_x - PInt 12) (uy - dec 1016 2)])]))]\<close>

definition generate_tamper_section :: "pynum \<Rightarrow> pynum \<Rightarrow> stmt" where
  \<open>generate_tamper_section base_x base_y = draw [
    text_note ''Tamper Detection (MIO0/MIO1/MIO2)'' base_x (base_y - PInt 5) (dec 20 1),
    (let mesh_rx = base_x + PInt 10;
        mesh_ry = base_y + PInt 10
    in draw [
      resistor ''10k'' mesh_rx mesh_ry 0 [],
      wire mesh_rx (mesh_ry - dec 254 2) mesh_rx (mesh_ry - PInt 6),
      global_label ''GPIO_TAMPER_MESH'' mesh_rx (mesh_ry - PInt 6) ''input'' 0,
      wire mesh_rx (mesh_ry + dec 254 2) mesh_rx (mesh_ry + PInt 6),
      power_symbol ''GND'' mesh_rx (mesh_ry + PInt 6) 0,
      (let lid_rx = base_x + PInt 40;
          lid_ry = base_y + PInt 10
      in draw [
        resistor ''10k'' lid_rx lid_ry 0 [],
        wire lid_rx (lid_ry - dec 254 2) lid_rx (lid_ry - PInt 6),
        global_label ''GPIO_TAMPER_LID'' lid_rx (lid_ry - PInt 6) ''input'' 0,
        wire lid_rx (lid_ry + dec 254 2) lid_rx (lid_ry + PInt 6),
        power_symbol ''GND'' lid_rx (lid_ry + PInt 6) 0,
        (let alert_x = base_x + PInt 70;
            alert_y = base_y + PInt 10
        in global_label ''GPIO_ENV_ALERT'' alert_x alert_y ''output'' 0)])])]\<close>

definition peripherals_sections :: "stmt" where
  \<open>peripherals_sections = draw [
    build_qspi (PInt 30) (PInt 20),
    build_emmc (PInt 200) (PInt 20),
    build_usb_phy (PInt 30) (PInt 120),
    build_ethernet (PInt 200) (PInt 120),
    build_uart_usb (PInt 30) (PInt 280),
    build_gps (PInt 200) (PInt 280),
    build_microsd (PInt 30) (PInt 400),
    generate_tamper_section (PInt 30) (PInt 500)]\<close>

definition peripherals_sheet :: "random \<Rightarrow> sheet" where
  \<open>peripherals_sheet rnd =
    draw [emit_header ''cirradio_gen_peripherals'' ''CIRRADIO Dev Board - Peripherals'' ''QSPI, eMMC, USB PHY, Ethernet PHY, UART-USB, GPS, Micro-SD'' ''Hierarchical labels match Zynq MIO assignments'',
            peripherals_lib_symbols,
            emit [],
            peripherals_sections,
            emit '')''] ((empty_sheet rnd)\<lparr>cap_idx := 200, res_idx := 200, pwr_idx := 200, ic_idx := 10, conn_idx := 10, crystal_idx := 10\<rparr>)\<close>

definition peripherals_report :: "string \<Rightarrow> sheet \<Rightarrow> nat \<Rightarrow> nat \<Rightarrow> string list" where
  \<open>peripherals_report path s n_open n_close =
    [''Generated: '' @ path,
     ''Component counts:'',
     ''  ICs: '' @ int_str (counts s ''ics''),
     ''    - U10: S25FL256S (QSPI Flash)'',
     ''    - U11: MTFC8GAKAJCN (eMMC 8GB)'',
     ''    - U12: USB3320C (USB PHY)'',
     ''    - U13: KSZ9031RNXIA (Ethernet PHY)'',
     ''    - U14: FT232RQ (UART-USB Bridge)'',
     ''    - U15: MAX-M10S (GPS)'',
     ''  Connectors: '' @ int_str (counts s ''connectors''),
     ''    - USB-A (host), USB Micro-B (console), RJ45, U.FL (GPS), Micro-SD'',
     ''  Crystal: 1 (25MHz for KSZ9031)'',
     ''  Capacitors: '' @ int_str (counts s ''capacitors''),
     ''  Resistors: '' @ int_str (counts s ''resistors''),
     ''  Power symbols: '' @ int_str (counts s ''symbols'' - counts s ''ics'' - counts s ''connectors'' - 1),
     ''  Wires: '' @ int_str (counts s ''wires''),
     ''  Global labels: '' @ int_str (counts s ''gl_labels''),
     ''  Hierarchical labels: '' @ int_str (counts s ''hier_labels''),
     ''  Parentheses balanced: '' @ int_str (int n_open) @ '' opens, '' @ int_str (int n_close) @ '' closes'']\<close>

definition gen_peripherals :: "random \<Rightarrow> gen_out" where
  "gen_peripherals rnd =
     (let s = peripherals_sheet rnd; path = board_dir @ ''peripherals.kicad_sch''
      in finish ''WARNING'' path (peripherals_report path s) s)"

end
