(* ===== verification/PeripheralsRead.thy ===== *)
theory PeripheralsRead
  imports SheetFile Peripherals
begin

text \<open>
  What \<open>gen_peripherals.py\<close> draws, read back by the parser of the netlist script: the parts and the nets of
  the peripheral sheet, section by section, and the whole file.
\<close>

section \<open>Parts and nets\<close>

definition build_qspi_parts :: "component list" where
  "build_qspi_parts =
    [part ''U10'' ''S25FL256S'' ''Package_SON:WSON-8-1EP_6x5mm_P1.27mm_EP3.4x4mm'' ''cirradio:S25FL256S'',
      part ''C200'' ''100n'' fp_c0402 ''Device:C'',
      part ''R200'' ''10K'' [] ''Device:R'',
      part ''R201'' ''10K'' [] ''Device:R'']"

definition build_qspi_labels :: "string list" where
  "build_qspi_labels =
    [''QSPI_MIO1'', ''QSPI_MIO3'', ''QSPI_MIO4'', ''QSPI_MIO2'', ''QSPI_MIO6'', ''QSPI_MIO5'']"

definition build_emmc_parts :: "component list" where
  "build_emmc_parts =
    [part ''U11'' ''MTFC8GAKAJCN-8GB'' ''cirradio:BGA-153_11.5x13mm'' ''cirradio:MTFC8GAKAJCN'',
      part ''C201'' ''100n'' fp_c0402 ''Device:C'',
      part ''C202'' ''100n'' fp_c0402 ''Device:C'',
      part ''R202'' ''10K'' [] ''Device:R'']"

definition build_emmc_labels :: "string list" where
  "build_emmc_labels =
    names_run ''EMMC_DAT'' 0 7 @
    [''EMMC_CLK'', ''EMMC_CMD'']"

definition build_usb_phy_parts :: "component list" where
  "build_usb_phy_parts =
    [part ''U12'' ''USB3320C-EZK'' ''Package_DFN_QFN:QFN-32-1EP_5x5mm_P0.5mm_EP3.1x3.1mm'' ''cirradio:USB3320C'',
      part ''C203'' ''100n'' fp_c0402 ''Device:C'',
      part ''C204'' ''100n'' fp_c0402 ''Device:C'',
      part ''R203'' ''10K'' [] ''Device:R'',
      part ''R204'' ''12K1'' [] ''Device:R'',
      part ''J10'' ''USB_A'' ''Connector_USB:USB_A_Molex_105057_Vertical'' ''Connector:USB_A'',
      part ''R205'' ''22R'' [] ''Device:R'',
      part ''R206'' ''22R'' [] ''Device:R'']"

definition build_usb_phy_labels :: "string list" where
  "build_usb_phy_labels =
    names_run ''USB_MIO'' 28 39"

definition build_ethernet_parts :: "component list" where
  "build_ethernet_parts =
    [part ''U13'' ''KSZ9031RNXIA'' ''Package_DFN_QFN:QFN-48-1EP_7x7mm_P0.5mm_EP5.15x5.15mm'' ''cirradio:KSZ9031'',
      part ''C205'' ''100n'' fp_c0402 ''Device:C'',
      part ''C206'' ''10u'' ''Capacitor_SMD:C_0805_2012Metric'' ''Device:C'',
      part ''C207'' ''100n'' fp_c0402 ''Device:C'',
      part ''R207'' ''10K'' [] ''Device:R'',
      part ''Y10'' ''25MHz'' ''Crystal:Crystal_SMD_3215-2Pin_3.2x1.5mm'' ''Device:Crystal'',
      part ''C208'' ''15p'' fp_c0402 ''Device:C'',
      part ''C209'' ''15p'' fp_c0402 ''Device:C'',
      part ''J11'' ''RJ45_MagJack'' ''Connector_RJ:RJ45_Amphenol_ARJM11D7'' ''Connector:RJ45_Shielded'']"

definition build_ethernet_labels :: "string list" where
  "build_ethernet_labels =
    names_run ''ETH_MIO'' 22 25 @
    [''ETH_MIO21'', ''ETH_MIO20''] @
    names_run ''ETH_MIO'' 16 19 @
    [''ETH_MIO26'', ''ETH_MIO27'']"

definition build_uart_usb_parts :: "component list" where
  "build_uart_usb_parts =
    [part ''U14'' ''FT232RQ'' ''Package_DFN_QFN:QFN-32-1EP_5x5mm_P0.5mm_EP3.1x3.1mm'' ''cirradio:FT232RQ'',
      part ''C210'' ''100n'' fp_c0402 ''Device:C'',
      part ''C211'' ''4u7'' ''Capacitor_SMD:C_0805_2012Metric'' ''Device:C'',
      part ''R208'' ''10K'' [] ''Device:R'',
      part ''C212'' ''100n'' fp_c0402 ''Device:C'',
      part ''J12'' ''USB_Micro_B'' ''Connector_USB:USB_Micro-B_Molex_47346-0001'' ''Connector:USB_B_Micro'',
      part ''R209'' ''22R'' [] ''Device:R'',
      part ''R210'' ''22R'' [] ''Device:R'']"

definition build_uart_usb_labels :: "string list" where
  "build_uart_usb_labels =
    [''UART1_MIO49'', ''UART1_MIO48'']"

definition build_gps_parts :: "component list" where
  "build_gps_parts =
    [part ''U15'' ''MAX-M10S'' ''cirradio:LCC-16_MAX-M10S'' ''cirradio:MAX-M10S'',
      part ''C213'' ''100n'' fp_c0402 ''Device:C'',
      part ''C214'' ''10u'' ''Capacitor_SMD:C_0805_2012Metric'' ''Device:C'',
      part ''J13'' ''U.FL_GPS'' ''Connector_Coaxial:U.FL_Hirose_U.FL-R-SMT-1_Vertical'' ''Connector:Conn_Coaxial'',
      part ''R211'' ''10K'' [] ''Device:R'']"

definition build_gps_labels :: "string list" where
  "build_gps_labels =
    [''GPS_TXD'', ''GPS_RXD'']"

definition build_microsd_parts :: "component list" where
  "build_microsd_parts =
    [part ''J14'' ''Micro_SD'' ''Connector_Card:microSD_HC_Hirose_DM3D-SF'' ''Connector_Generic:Conn_01x09'',
      part ''C215'' ''100n'' fp_c0402 ''Device:C''] @
    parts_run ''R'' 212 217 ''10K'' [] ''Device:R''"

definition build_microsd_labels :: "string list" where
  "build_microsd_labels =
    [''SD_MIO42'', ''SD_MIO43'', ''SD_MIO41'', ''SD_MIO40'', ''SD_MIO44'', ''SD_MIO45'', ''SD_CD_N'']"

definition generate_tamper_section_parts :: "component list" where
  "generate_tamper_section_parts =
    [part ''R218'' ''10k'' [] ''Device:R'',
      part ''R219'' ''10k'' [] ''Device:R'']"

definition peripherals_sheet_parts :: "component list" where
  "peripherals_sheet_parts = build_qspi_parts @ build_emmc_parts @ build_usb_phy_parts @ build_ethernet_parts @
      build_uart_usb_parts @ build_gps_parts @ build_microsd_parts @ generate_tamper_section_parts"

text \<open>The global labels and the power symbols, then the hierarchical labels.\<close>

definition peripherals_sheet_nets :: "string list" where
  "peripherals_sheet_nets = [''+1V8'', ''GND'', ''+3V3'', ''+5V'', ''ETH_MDIO'', ''ETH_MDC'', ''+3V3A'', ''GPS_1PPS'',
      ''GPIO_TAMPER_MESH'', ''GPIO_TAMPER_LID'', ''GPIO_ENV_ALERT''] @ build_qspi_labels @ build_emmc_labels @
      build_usb_phy_labels @ build_ethernet_labels @ build_uart_usb_labels @ build_gps_labels @ build_microsd_labels"

section \<open>The sections\<close>

definition peripherals_start :: reading where
  "peripherals_start = no_reading\<lparr>r_cap := 200, r_res := 200, r_conn := 10, r_ic := 10, r_crystal := 10\<rparr>"

lemma build_qspi_read:
  "yields_section (build_qspi a b) peripherals_start
    (peripherals_start\<lparr>r_cap := 201, r_res := 202, r_ic := 11, r_parts := rev build_qspi_parts, r_rails := [''GND'',
      ''+1V8''], r_hiers := rev build_qspi_labels\<rparr>)"
  unfolding build_qspi_def
  by (rule sectionI, (simp only: loop_simps)?, (rule section_rules | simp only: loop_simps)+,
      code_simp)

lemma build_emmc_read:
  "yields_section (build_emmc a b) (peripherals_start\<lparr>r_cap := 201, r_res := 202, r_ic := 11\<rparr>)
    (peripherals_start\<lparr>r_cap := 203, r_res := 203, r_ic := 12, r_parts := rev build_emmc_parts, r_rails := [''GND'',
      ''+1V8'', ''+3V3''], r_hiers := rev build_emmc_labels\<rparr>)"
  unfolding build_emmc_def
  by (rule sectionI, (simp only: loop_simps)?, (rule section_rules | simp only: loop_simps)+,
      code_simp)

lemma build_usb_phy_read:
  "yields_section (build_usb_phy a b) (peripherals_start\<lparr>r_cap := 203, r_res := 203, r_ic := 12\<rparr>)
    (peripherals_start\<lparr>r_cap := 205, r_res := 207, r_conn := 11, r_ic := 13, r_parts := rev build_usb_phy_parts,
      r_rails := [''+5V'', ''GND'', ''+3V3''], r_hiers := rev build_usb_phy_labels\<rparr>)"
  unfolding build_usb_phy_def
  by (rule sectionI, (simp only: loop_simps)?, (rule section_rules | simp only: loop_simps)+,
      code_simp)

lemma build_ethernet_read:
  "yields_section (build_ethernet a b) (peripherals_start\<lparr>r_cap := 205, r_res := 207, r_conn := 11, r_ic := 13\<rparr>)
    (peripherals_start\<lparr>r_cap := 210, r_res := 208, r_conn := 12, r_ic := 14, r_crystal := 11,
      r_parts := rev build_ethernet_parts, r_rails := [''ETH_MDC'', ''ETH_MDIO'', ''GND'', ''+1V8''],
      r_hiers := rev build_ethernet_labels\<rparr>)"
  unfolding build_ethernet_def
  by (rule sectionI, (simp only: loop_simps)?, (rule section_rules | simp only: loop_simps)+,
      code_simp)

lemma build_uart_usb_read:
  "yields_section (build_uart_usb a b) (peripherals_start\<lparr>r_cap := 210, r_res := 208, r_conn := 12, r_ic := 14,
      r_crystal := 11\<rparr>)
    (peripherals_start\<lparr>r_cap := 213, r_res := 211, r_conn := 13, r_ic := 15, r_crystal := 11,
      r_parts := rev build_uart_usb_parts, r_rails := [''+5V'', ''GND'', ''+3V3''],
      r_hiers := rev build_uart_usb_labels\<rparr>)"
  unfolding build_uart_usb_def
  by (rule sectionI, (simp only: loop_simps)?, (rule section_rules | simp only: loop_simps)+,
      code_simp)

lemma build_gps_read:
  "yields_section (build_gps a b) (peripherals_start\<lparr>r_cap := 213, r_res := 211, r_conn := 13, r_ic := 15,
      r_crystal := 11\<rparr>)
    (peripherals_start\<lparr>r_cap := 215, r_res := 212, r_conn := 14, r_ic := 16, r_crystal := 11,
      r_parts := rev build_gps_parts, r_rails := [''GPS_1PPS'', ''GND'', ''+3V3A''], r_hiers := rev build_gps_labels\<rparr>)"
  unfolding build_gps_def
  by (rule sectionI, (simp only: loop_simps)?, (rule section_rules | simp only: loop_simps)+,
      code_simp)

lemma build_microsd_read:
  "yields_section (build_microsd a b) (peripherals_start\<lparr>r_cap := 215, r_res := 212, r_conn := 14, r_ic := 16,
      r_crystal := 11\<rparr>)
    (peripherals_start\<lparr>r_cap := 216, r_res := 218, r_conn := 15, r_ic := 16, r_crystal := 11,
      r_parts := rev build_microsd_parts, r_rails := [''GND'', ''+3V3''], r_hiers := rev build_microsd_labels\<rparr>)"
  unfolding build_microsd_def
  by (rule sectionI, (simp only: loop_simps)?, (rule section_rules | simp only: loop_simps)+,
      code_simp)

lemma generate_tamper_section_read:
  "yields_section (generate_tamper_section a b) (peripherals_start\<lparr>r_cap := 216, r_res := 218, r_conn := 15, r_ic := 16,
      r_crystal := 11\<rparr>)
    (peripherals_start\<lparr>r_cap := 216, r_res := 220, r_conn := 15, r_ic := 16, r_crystal := 11,
      r_parts := rev generate_tamper_section_parts, r_rails := [''GPIO_ENV_ALERT'', ''GPIO_TAMPER_LID'', ''GND'',
      ''GPIO_TAMPER_MESH'']\<rparr>)"
  unfolding generate_tamper_section_def
  by (rule sectionI, (simp only: loop_simps)?, (rule section_rules | simp only: loop_simps)+,
      code_simp)

section \<open>The file\<close>

lemma peripherals_lib: "lib_block peripherals_lib_symbols"
  unfolding peripherals_lib_passives_def peripherals_lib_flash_def peripherals_lib_usb_def peripherals_lib_ethernet_def
    peripherals_lib_modules_def peripherals_lib_connectors_def peripherals_lib_symbols_def lib_device_c_def
    lib_device_r_def lib_gnd_def lib_power_def
  by (rule lib_block_run, rule lib_begin_rule, (rule lib_end_rules walk_rules walks_literal | simp only: loop_simps)+, code_simp)

lemma peripherals_body:
  "holds (draw [emit [], peripherals_sections])
    peripherals_start peripherals_sheet_parts peripherals_sheet_nets"
  unfolding peripherals_sections_def
  by (rule holdsI,
      (rule section_one section_u section_j section_chain section_blank
          build_qspi_read build_emmc_read build_usb_phy_read build_ethernet_read build_uart_usb_read
          build_gps_read build_microsd_read generate_tamper_section_read
        | (simp add: peripherals_start_def no_reading_def outputs_empty_def; fail))+)
    (simp add: peripherals_sheet_parts_def peripherals_start_def no_reading_def,
     auto simp: peripherals_sheet_nets_def peripherals_start_def no_reading_def nets_read_def outputs_join_def)

lemma peripherals_titles:
  "title_ok ''cirradio_gen_peripherals''" "title_ok ''CIRRADIO Dev Board - Peripherals''" "title_ok ''QSPI, eMMC, USB PHY, Ethernet PHY, UART-USB, GPS, Micro-SD''" "title_ok ''Hierarchical labels match Zynq MIO assignments''"
  by code_simp+

lemma peripherals_sheet_eq:
  "peripherals_sheet rnd = draw [emit '')'']
    (draw [emit [], peripherals_sections]
      (peripherals_lib_symbols (emit_header ''cirradio_gen_peripherals'' ''CIRRADIO Dev Board - Peripherals'' ''QSPI, eMMC, USB PHY, Ethernet PHY, UART-USB, GPS, Micro-SD'' ''Hierarchical labels match Zynq MIO assignments''
        ((empty_sheet rnd)\<lparr>cap_idx := 200, res_idx := 200, pwr_idx := 200, ic_idx := 10, conn_idx := 10,
      crystal_idx := 10\<rparr>))))"
  by (simp only: peripherals_sheet_def draw_simps Let_def)

lemma peripherals_file:
  "\<exists>content. gen_exit (gen_peripherals rnd) = 0 \<and> gen_file (gen_peripherals rnd) = Some (board_dir @ ''peripherals.kicad_sch'', content) \<and>
    check_parens content = (True, 0) \<and> parse_schematic content = (peripherals_sheet_parts, set peripherals_sheet_nets)"
proof -
  note h = sheet_holds [OF peripherals_lib peripherals_titles, OF _ _ _ _ peripherals_body, OF _ _ _ _ peripherals_sheet_eq]
  show ?thesis unfolding gen_peripherals_def Let_def case_prod_beta
    by (rule h) (simp_all add: empty_sheet_def peripherals_start_def no_reading_def outputs_empty_def same_indices_def)
qed

text \<open>
  C36: Run with any random bytes, \<open>gen_peripherals.py\<close> ends with status 0 and writes a balanced file; the parser
  of the netlist script reads in it exactly the listed parts, in the order they are drawn, and the
  listed nets.
\<close>

theorem peripherals_read_back:
  "\<exists>content. gen_exit (gen_peripherals rnd) = 0 \<and> gen_file (gen_peripherals rnd) = Some (board_dir @ ''peripherals.kicad_sch'', content) \<and>
    check_parens content = (True, 0) \<and> parse_schematic content = (peripherals_sheet_parts, set peripherals_sheet_nets)"
  by (rule peripherals_file)
end
