(* ===== verification/Zynq.thy ===== *)
theory Zynq
  imports Schematic
begin

text \<open>
  The processor sheet, \<open>hardware/cirradio-devboard/gen_zynq.py\<close>: the nine units of the
  Zynq, clock, reset, boot mode and JTAG, the labels of its banks and the decoupling.
\<close>

section \<open>Library symbols\<close>

definition zynq_lib_head :: "stmt" where
  \<open>zynq_lib_head = draw [
    emit ''  (lib_symbols'',
    emit lib_device_r,
    emit lib_device_c,
    emit lib_device_led,
    emit (py_join [nl]
       [''    (symbol "cirradio:XC7Z045"'',
        ''      (pin_names (offset 0.254))'',
        ''      (exclude_from_sim no) (in_bom yes) (on_board yes)'',
        ''      (property "Reference" "U" (at 0 1.27 0) (effects (font (size 1.27 1.27))))'',
        ''      (property "Value" "XC7Z045-2FFG900I" (at 0 -1.27 0) (effects (font (size 1.27 1.27))))'',
        ''      (property "Footprint" "" (at 0 0 0) (effects (font (size 1.27 1.27)) hide))'',
        ''      (property "Datasheet" "" (at 0 0 0) (effects (font (size 1.27 1.27)) hide))'',
        ''      (symbol "XC7Z045_1_1"'',
        ''        (rectangle (start -12.7 30.48) (end 12.7 -30.48) (stroke (width 0.254) (type default)) (fill (type background)))'',
        ''        (pin input line (at -15.24 27.94 0) (length 2.54) (name "PS_CLK" (effects (font (size 1.27 1.27)))) (number "C8" (effects (font (size 1.27 1.27)))))'',
        ''        (pin input line (at -15.24 25.4 0) (length 2.54) (name "PS_POR_B" (effects (font (size 1.27 1.27)))) (number "B10" (effects (font (size 1.27 1.27)))))'',
        ''        (pin input line (at -15.24 22.86 0) (length 2.54) (name "PS_SRST_B" (effects (font (size 1.27 1.27)))) (number "C10" (effects (font (size 1.27 1.27)))))'',
        ''        (pin bidirectional line (at 15.24 27.94 180) (length 2.54) (name "INIT_B" (effects (font (size 1.27 1.27)))) (number "T12" (effects (font (size 1.27 1.27)))))'',
        ''        (pin output line (at 15.24 25.4 180) (length 2.54) (name "DONE" (effects (font (size 1.27 1.27)))) (number "U11" (effects (font (size 1.27 1.27)))))'',
        ''        (pin input line (at 15.24 22.86 180) (length 2.54) (name "PROG_B" (effects (font (size 1.27 1.27)))) (number "T11" (effects (font (size 1.27 1.27)))))'',
        ''        (pin input line (at -15.24 17.78 0) (length 2.54) (name "BOOT_MODE0" (effects (font (size 1.27 1.27)))) (number "G7" (effects (font (size 1.27 1.27)))))'',
        ''        (pin input line (at -15.24 15.24 0) (length 2.54) (name "BOOT_MODE1" (effects (font (size 1.27 1.27)))) (number "G8" (effects (font (size 1.27 1.27)))))'',
        ''        (pin input line (at -15.24 12.7 0) (length 2.54) (name "BOOT_MODE2" (effects (font (size 1.27 1.27)))) (number "H7" (effects (font (size 1.27 1.27)))))'',
        ''        (pin input line (at -15.24 10.16 0) (length 2.54) (name "BOOT_MODE3" (effects (font (size 1.27 1.27)))) (number "H8" (effects (font (size 1.27 1.27)))))'',
        ''        (pin input line (at -15.24 5.08 0) (length 2.54) (name "TDI" (effects (font (size 1.27 1.27)))) (number "R13" (effects (font (size 1.27 1.27)))))'',
        ''        (pin output line (at -15.24 2.54 0) (length 2.54) (name "TDO" (effects (font (size 1.27 1.27)))) (number "P13" (effects (font (size 1.27 1.27)))))'',
        ''        (pin input line (at -15.24 0 0) (length 2.54) (name "TMS" (effects (font (size 1.27 1.27)))) (number "N13" (effects (font (size 1.27 1.27)))))'',
        ''        (pin input line (at -15.24 -2.54 0) (length 2.54) (name "TCK" (effects (font (size 1.27 1.27)))) (number "M13" (effects (font (size 1.27 1.27)))))'',
        ''        (pin input line (at -15.24 -5.08 0) (length 2.54) (name "TRST" (effects (font (size 1.27 1.27)))) (number "L13" (effects (font (size 1.27 1.27)))))'',
        ''        (pin passive line (at 15.24 17.78 180) (length 2.54) (name "PS_MIO_VREF_500" (effects (font (size 1.27 1.27)))) (number "C3" (effects (font (size 1.27 1.27)))))'',
        ''        (pin passive line (at 15.24 15.24 180) (length 2.54) (name "PS_MIO_VREF_501" (effects (font (size 1.27 1.27)))) (number "E3" (effects (font (size 1.27 1.27)))))'',
        ''      )'',
        ''      (symbol "XC7Z045_2_1"'',
        ''        (rectangle (start -10.16 72.39) (end 10.16 -72.39) (stroke (width 0.254) (type default)) (fill (type background)))''])]\<close>

definition zynq_lib_mio :: "stmt" where
  \<open>zynq_lib_mio = draw [
    draw (map (\<lambda>i. (let y_pos = dec 7112 2 - PInt i * dec 254 2;
          mio_pins = [''A4'', ''B4'', ''A5'', ''B5'', ''A6'', ''B6'', ''A7'', ''E5'', ''D5'', ''E6'', ''B7'', ''D6'', ''C7'', ''E7'',
              ''D7'', ''B8'', ''A9'', ''B9'', ''E8'', ''D8'', ''C9'', ''E9'', ''D9'', ''A10'', ''E10'', ''D10'', ''C11'', ''B11'', ''A11'',
              ''E11'', ''D11'', ''A12'', ''B12'', ''C12'', ''D12'', ''E12'', ''A13'', ''B13'', ''C13'', ''D13'', ''E13'', ''F7'', ''F8'',
              ''F9'', ''F10'', ''F11'', ''F12'', ''F13'', ''G6'', ''G9'', ''G10'', ''G11'', ''G12'', ''G13''];
          pin_num = mio_pins ! nat i
      in emit (''        (pin bidirectional line (at 12.7 '' @ num_str y_pos @ '' 180) (length 2.54) (name "MIO'' @ int_str i @
          ''" (effects (font (size 1.27 1.27)))) (number "'' @ pin_num @ ''" (effects (font (size 1.27 1.27)))))''))) [0..53]),
    emit ''      )'']\<close>

definition zynq_lib_ddr :: "stmt" where
  \<open>zynq_lib_ddr = draw [
    emit (py_join [nl]
       [''      (symbol "XC7Z045_3_1"'',
        ''        (rectangle (start -12.7 53.34) (end 12.7 -53.34) (stroke (width 0.254) (type default)) (fill (type background)))'']),
    (let dq_pins = [''H1'', ''H2'', ''H3'', ''J1'', ''J2'', ''J3'', ''K1'', ''K2'', ''K3'', ''L1'', ''L2'', ''L3'', ''M1'', ''M2'', ''M3'',
        ''N1'', ''N2'', ''N3'', ''P1'', ''P2'', ''P3'', ''R1'', ''R2'', ''R3'', ''T1'', ''T2'', ''T3'', ''U1'', ''U2'', ''U3'', ''V1'',
        ''V2'']
    in draw [
      draw (map (\<lambda>i. (let y_pos = dec 508 1 - PInt i * dec 254 2
        in emit (''        (pin bidirectional line (at 15.24 '' @ num_str y_pos @ '' 180) (length 2.54) (name "DDR_DQ'' @ int_str i @
            ''" (effects (font (size 1.27 1.27)))) (number "'' @ dq_pins ! nat i @ ''" (effects (font (size 1.27 1.27)))))''))) [0..31]),
      (let dqs_data = [(''DDR_DQS_P0'', ''H4'', dec 508 1),
          (''DDR_DQS_N0'', ''H5'', dec 4826 2),
          (''DDR_DQS_P1'', ''J4'', dec 4572 2),
          (''DDR_DQS_N1'', ''J5'', dec 4318 2),
          (''DDR_DQS_P2'', ''K4'', dec 4064 2),
          (''DDR_DQS_N2'', ''K5'', dec 381 1),
          (''DDR_DQS_P3'', ''L4'', dec 3556 2),
          (''DDR_DQS_N3'', ''L5'', dec 3302 2)]
      in draw [
        draw (map (\<lambda>(name, pin, y). emit (''        (pin bidirectional line (at -15.24 '' @ num_str y @
            '' 0) (length 2.54) (name "'' @ name @ ''" (effects (font (size 1.27 1.27)))) (number "'' @ pin @
            ''" (effects (font (size 1.27 1.27)))))'')) dqs_data),
        (let dm_data = [(''DDR_DM0'', ''M4'', dec 2794 2),
          (''DDR_DM1'', ''M5'', dec 254 1),
          (''DDR_DM2'', ''N4'', dec 2286 2),
          (''DDR_DM3'', ''N5'', dec 2032 2)]
        in draw [
          draw (map (\<lambda>(name, pin, y). emit (''        (pin output line (at -15.24 '' @ num_str y @ '' 0) (length 2.54) (name "'' @
              name @ ''" (effects (font (size 1.27 1.27)))) (number "'' @ pin @ ''" (effects (font (size 1.27 1.27)))))'')) dm_data),
          (let addr_pins = [''P4'', ''P5'', ''R4'', ''R5'', ''T4'', ''T5'', ''U4'', ''U5'', ''V3'', ''V4'', ''V5'', ''W3'', ''W4'', ''W5'',
              ''Y3'']
          in draw [
            draw (map (\<lambda>i. (let y_pos = dec 1524 2 - PInt i * dec 254 2
              in emit (''        (pin output line (at -15.24 '' @ num_str y_pos @ '' 0) (length 2.54) (name "DDR_A'' @ int_str i @
                  ''" (effects (font (size 1.27 1.27)))) (number "'' @ addr_pins ! nat i @
                  ''" (effects (font (size 1.27 1.27)))))''))) [0..14]),
            (let ba_data = [(''DDR_BA0'', ''Y4'', dec (- 254) 1),
          (''DDR_BA1'', ''Y5'', dec (- 2794) 2),
          (''DDR_BA2'', ''AA3'', dec (- 3048) 2)]
            in draw [
              draw (map (\<lambda>(name, pin, y). emit (''        (pin output line (at -15.24 '' @ num_str y @
                  '' 0) (length 2.54) (name "'' @ name @ ''" (effects (font (size 1.27 1.27)))) (number "'' @ pin @
                  ''" (effects (font (size 1.27 1.27)))))'')) ba_data),
              (let ctrl_data = [(''DDR_CAS_B'', ''AA4'', dec (- 3302) 2),
          (''DDR_RAS_B'', ''AA5'', dec (- 3556) 2),
          (''DDR_WE_B'', ''AB3'', dec (- 381) 1),
          (''DDR_CK_P'', ''AB4'', dec (- 4064) 2),
          (''DDR_CK_N'', ''AB5'', dec (- 4318) 2),
          (''DDR_CKE'', ''AC3'', dec (- 4572) 2),
          (''DDR_CS_B'', ''AC4'', dec (- 4826) 2),
          (''DDR_ODT'', ''AC5'', dec (- 508) 1)]
              in draw [
                draw (map (\<lambda>(name, pin, y). emit (''        (pin output line (at -15.24 '' @ num_str y @
                    '' 0) (length 2.54) (name "'' @ name @ ''" (effects (font (size 1.27 1.27)))) (number "'' @ pin @
                    ''" (effects (font (size 1.27 1.27)))))'')) ctrl_data),
                (let misc_data = [(''DDR_RESET_B'', ''AD3'', dec (- 3302) 2),
          (''DDR_VREF0'', ''AD4'', dec (- 381) 1),
          (''DDR_VREF1'', ''AD5'', dec (- 4064) 2),
          (''PS_DDR_VRN'', ''AE3'', dec (- 4572) 2),
          (''PS_DDR_VRP'', ''AE4'', dec (- 4826) 2)]
                in draw (map (\<lambda>(name, pin, y). (let ptype = (if contains ''RESET'' name then ''output'' else ''passive'')
                    in emit (''        (pin '' @ ptype @ '' line (at 15.24 '' @ num_str y @ '' 180) (length 2.54) (name "'' @ name @
                        ''" (effects (font (size 1.27 1.27)))) (number "'' @ pin @
                        ''" (effects (font (size 1.27 1.27)))))''))) misc_data))])])])])])])]\<close>

definition zynq_lib_banks :: "stmt" where
  \<open>zynq_lib_banks = draw [
    emit ''      )'',
    draw (map (\<lambda>(unit_num, unit_name, pin_prefix, n_pins, pin_start_nums). draw [
      emit (''      (symbol "'' @ unit_name @ ''"''),
      emit ''        (rectangle (start -10.16 66.04) (end 10.16 -66.04) (stroke (width 0.254) (type default)) (fill (type background)))'',
      (let base_pins = (if unit_num = 4 then [''AA14'', ''AA15'', ''AB14'', ''AB15'', ''AC14'', ''AC15'', ''AD14'', ''AD15'', ''AE14'',
          ''AE15'', ''AF14'', ''AF15'', ''AA16'', ''AA17'', ''AB16'', ''AB17'', ''AC16'', ''AC17'', ''AD16'', ''AD17'', ''AE16'', ''AE17'',
          ''AF16'', ''AF17'', ''AA18'', ''AA19'', ''AB18'', ''AB19'', ''AC18'', ''AC19'', ''AD18'', ''AD19'', ''AE18'', ''AE19'', ''AF18'',
          ''AF19'', ''AA20'', ''AA21'', ''AB20'', ''AB21'', ''AC20'', ''AC21'', ''AD20'', ''AD21'', ''AE20'', ''AE21'', ''AF20'', ''AF21'',
          ''AA22'', ''AA23''] else (if unit_num = 5 then [''AA24'', ''AA25'', ''AB24'', ''AB25'', ''AC24'', ''AC25'', ''AD24'', ''AD25'',
          ''AE24'', ''AE25'', ''AF24'', ''AF25'', ''AA26'', ''AA27'', ''AB26'', ''AB27'', ''AC26'', ''AC27'', ''AD26'', ''AD27'', ''AE26'',
          ''AE27'', ''AF26'', ''AF27'', ''AA28'', ''AA29'', ''AB28'', ''AB29'', ''AC28'', ''AC29'', ''AD28'', ''AD29'', ''AE28'', ''AE29'',
          ''AF28'', ''AF29'', ''AA30'', ''AB30'', ''AC30'', ''AD30'', ''AE30'', ''AF30'', ''Y14'', ''Y15'', ''Y16'', ''Y17'', ''Y18'',
          ''Y19'', ''Y20'', ''Y21''] else (if unit_num = 6 then [''A14'', ''B14'', ''C14'', ''D14'', ''E14'', ''F14'', ''A15'', ''B15'',
          ''C15'', ''D15'', ''E15'', ''F15'', ''A16'', ''B16'', ''C16'', ''D16'', ''E16'', ''F16'', ''A17'', ''B17'', ''C17'', ''D17'',
          ''E17'', ''F17'', ''A18'', ''B18'', ''C18'', ''D18'', ''E18'', ''F18'', ''A19'', ''B19'', ''C19'', ''D19'', ''E19'', ''F19'',
          ''A20'', ''B20'', ''C20'', ''D20'', ''E20'', ''F20'', ''A21'', ''B21'', ''C21'', ''D21'', ''E21'', ''F21'', ''A22'', ''B22'']
          else (if unit_num = 7 then [''A23'', ''B23'', ''C23'', ''D23'', ''E23'', ''F23'', ''A24'', ''B24'', ''C24'', ''D24'', ''E24'',
          ''F24'', ''A25'', ''B25'', ''C25'', ''D25'', ''E25'', ''F25'', ''A26'', ''B26'', ''C26'', ''D26'', ''E26'', ''F26'', ''A27'',
          ''B27'', ''C27'', ''D27'', ''E27'', ''F27'', ''A28'', ''B28'', ''C28'', ''D28'', ''E28'', ''F28'', ''A29'', ''B29'', ''C29'',
          ''D29'', ''E29'', ''F29'', ''A30'', ''B30'', ''C30'', ''D30'', ''G14'', ''G15'', ''G16'', ''G17'']
          else [''H14'', ''H15'', ''H16'', ''H17'', ''J14'', ''J15'', ''J16'', ''J17'', ''K14'', ''K15'', ''K16'', ''K17'', ''L14'',
          ''L15'', ''L16'', ''L17'', ''M14'', ''M15'', ''M16'', ''M17'', ''N14'', ''N15'', ''N16'', ''N17'', ''P14'', ''P15'', ''P16'',
          ''P17'', ''R14'', ''R15'', ''R16'', ''R17'', ''T14'', ''T15'', ''T16'', ''T17'', ''U14'', ''U15'', ''U16'', ''U17'', ''V14'',
          ''V15'', ''V16'', ''V17'', ''W14'', ''W15'', ''W16'', ''W17'', ''Y6'', ''Y7'']))));
          pin_names_list = (if unit_num = 4 then map (\<lambda>i. ''B33_L'' @ int_str (i div 2) @ (if i mod 2 = 0 then ''P''
              else ''N'')) [0..47] @ [''B33_L24P'', ''B33_L24N''] else (if unit_num = 5
              then map (\<lambda>i. ''B34_L'' @ int_str (i div 2) @ (if i mod 2 = 0 then ''P''
              else ''N'')) [0..47] @ [''B34_L24P'', ''B34_L24N''] else (if unit_num = 6
              then map (\<lambda>i. ''B13_IO'' @ int_str i) [0..49] else (if unit_num = 7
              then map (\<lambda>i. ''B12_IO'' @ int_str i) [0..49] else map (\<lambda>i. ''SPARE_IO'' @ int_str i) [0..49]))))
      in draw [
        draw (map (\<lambda>i. (let y_pos = dec 635 1 - PInt i * dec 254 2;
              y_pos = (if i = n_pins - 1 then dec (- 635) 1 else y_pos)
          in emit (''        (pin bidirectional line (at 12.7 '' @ num_str y_pos @ '' 180) (length 2.54) (name "'' @
              pin_names_list ! nat i @ ''" (effects (font (size 1.27 1.27)))) (number "'' @ base_pins ! nat i @
              ''" (effects (font (size 1.27 1.27)))))''))) [0..n_pins - 1]),
        emit ''      )''])]) [((4 :: int), ''XC7Z045_4_1'', ''B33_L'', (50 :: int), ()),
          (5, ''XC7Z045_5_1'', ''B34_L'', 50, ()),
          (6, ''XC7Z045_6_1'', ''B13_IO'', 50, ()),
          (7, ''XC7Z045_7_1'', ''B12_IO'', 50, ()),
          (8, ''XC7Z045_8_1'', ''SPARE_IO'', 50, ())])]\<close>

definition zynq_lib_power :: "stmt" where
  \<open>zynq_lib_power = draw [
    emit ''      (symbol "XC7Z045_9_1"'',
    emit ''        (rectangle (start -12.7 55.88) (end 12.7 -55.88) (stroke (width 0.254) (type default)) (fill (type background)))'',
    (let vccint_pins = [''G18'', ''G19'', ''G20'', ''G21'', ''G22'', ''G23'', ''G24'', ''G25'', ''G26'', ''G27'', ''H18'', ''H19'',
        ''H20'', ''H21'', ''H22'']
    in draw [
      draw (map (\<lambda>p. emit (''        (pin power_in line (at -15.24 53.34 0) (length 2.54) (name "VCCINT" (effects (font (size 1.27 1.27)))) (number "'' @
          p @ ''" (effects (font (size 1.27 1.27)))))'')) vccint_pins),
      (let vccaux_pins = [''H23'', ''H24'', ''H25'', ''H26'']
      in draw [
        draw (map (\<lambda>p. emit (''        (pin power_in line (at -15.24 48.26 0) (length 2.54) (name "VCCAUX" (effects (font (size 1.27 1.27)))) (number "'' @
            p @ ''" (effects (font (size 1.27 1.27)))))'')) vccaux_pins),
        draw (map (\<lambda>p. emit (''        (pin power_in line (at -15.24 43.18 0) (length 2.54) (name "VCCBRAM" (effects (font (size 1.27 1.27)))) (number "'' @
            p @ ''" (effects (font (size 1.27 1.27)))))'')) [''H27'', ''H28'']),
        draw (map (\<lambda>p. emit (''        (pin power_in line (at -15.24 38.1 0) (length 2.54) (name "VCCO_33" (effects (font (size 1.27 1.27)))) (number "'' @
            p @ ''" (effects (font (size 1.27 1.27)))))'')) [''J18'', ''J19'']),
        draw (map (\<lambda>p. emit (''        (pin power_in line (at -15.24 35.56 0) (length 2.54) (name "VCCO_34" (effects (font (size 1.27 1.27)))) (number "'' @
            p @ ''" (effects (font (size 1.27 1.27)))))'')) [''J20'', ''J21'']),
        draw (map (\<lambda>p. emit (''        (pin power_in line (at -15.24 33.02 0) (length 2.54) (name "VCCO_13" (effects (font (size 1.27 1.27)))) (number "'' @
            p @ ''" (effects (font (size 1.27 1.27)))))'')) [''J22'', ''J23'']),
        draw (map (\<lambda>p. emit (''        (pin power_in line (at -15.24 30.48 0) (length 2.54) (name "VCCO_12" (effects (font (size 1.27 1.27)))) (number "'' @
            p @ ''" (effects (font (size 1.27 1.27)))))'')) [''J24'', ''J25'']),
        draw (map (\<lambda>p. emit (''        (pin power_in line (at -15.24 25.4 0) (length 2.54) (name "VCCPINT" (effects (font (size 1.27 1.27)))) (number "'' @
            p @ ''" (effects (font (size 1.27 1.27)))))'')) [''J26'', ''J27'', ''J28'', ''K18'']),
        draw (map (\<lambda>p. emit (''        (pin power_in line (at -15.24 20.32 0) (length 2.54) (name "VCCPAUX" (effects (font (size 1.27 1.27)))) (number "'' @
            p @ ''" (effects (font (size 1.27 1.27)))))'')) [''K19'', ''K20'']),
        draw (map (\<lambda>p. emit (''        (pin power_in line (at -15.24 15.24 0) (length 2.54) (name "VCCPLL" (effects (font (size 1.27 1.27)))) (number "'' @
            p @ ''" (effects (font (size 1.27 1.27)))))'')) [''K21'', ''K22'']),
        (let gnd_pins = [''K23'', ''K24'', ''K25'', ''K26'', ''K27'', ''K28'', ''L18'', ''L19'', ''L20'', ''L21'', ''L22'', ''L23'',
            ''L24'', ''L25'', ''L26'', ''L27'', ''L28'', ''M18'', ''M19'', ''M20'', ''M21'', ''M22'', ''M23'', ''M24'', ''M25'', ''M26'',
            ''M27'', ''M28'', ''N18'', ''N19'', ''N20'']
        in draw [
          draw (map (\<lambda>p. emit (''        (pin power_in line (at 15.24 53.34 180) (length 2.54) (name "GND" (effects (font (size 1.27 1.27)))) (number "'' @
              p @ ''" (effects (font (size 1.27 1.27)))))'')) gnd_pins),
          emit ''      )'',
          emit ''    )''])])])]\<close>

definition zynq_lib_rest :: "stmt" where
  \<open>zynq_lib_rest = draw [
    emit (py_join [nl]
       [''    (symbol "cirradio:DSC1001CI2-33.333"'',
        ''      (pin_names (offset 0.254))'',
        ''      (exclude_from_sim no) (in_bom yes) (on_board yes)'',
        ''      (property "Reference" "Y" (at 0 6.35 0) (effects (font (size 1.27 1.27))))'',
        ''      (property "Value" "DSC1001CI2-33.333" (at 0 -6.35 0) (effects (font (size 1.27 1.27))))'',
        ''      (property "Footprint" "" (at 0 0 0) (effects (font (size 1.27 1.27)) hide))'',
        ''      (property "Datasheet" "" (at 0 0 0) (effects (font (size 1.27 1.27)) hide))'',
        ''      (symbol "DSC1001CI2-33.333_0_1"'',
        ''        (rectangle (start -5.08 5.08) (end 5.08 -5.08) (stroke (width 0.254) (type default)) (fill (type background)))'',
        ''      )'',
        ''      (symbol "DSC1001CI2-33.333_1_1"'',
        ''        (pin input line (at -7.62 2.54 0) (length 2.54) (name "EN" (effects (font (size 1.27 1.27)))) (number "1" (effects (font (size 1.27 1.27)))))'',
        ''        (pin power_in line (at 0 -7.62 90) (length 2.54) (name "GND" (effects (font (size 1.27 1.27)))) (number "2" (effects (font (size 1.27 1.27)))))'',
        ''        (pin output line (at 7.62 2.54 180) (length 2.54) (name "OUT" (effects (font (size 1.27 1.27)))) (number "3" (effects (font (size 1.27 1.27)))))'',
        ''        (pin power_in line (at 0 7.62 270) (length 2.54) (name "VDD" (effects (font (size 1.27 1.27)))) (number "4" (effects (font (size 1.27 1.27)))))'',
        ''      )'',
        ''    )'']),
    emit (py_join [nl]
       [''    (symbol "Connector_Generic:Conn_02x07_Odd_Even"'',
        ''      (pin_names (offset 1.016) hide) (exclude_from_sim no) (in_bom yes) (on_board yes)'',
        ''      (property "Reference" "J" (at 1.27 10.16 0) (effects (font (size 1.27 1.27))))'',
        ''      (property "Value" "Conn_02x07_Odd_Even" (at 1.27 -10.16 0) (effects (font (size 1.27 1.27))))'',
        ''      (property "Footprint" "" (at 0 0 0) (effects (font (size 1.27 1.27)) hide))'',
        ''      (property "Datasheet" "" (at 0 0 0) (effects (font (size 1.27 1.27)) hide))'',
        ''      (symbol "Conn_02x07_Odd_Even_1_1"'',
        ''        (rectangle (start -1.27 8.89) (end 3.81 -8.89) (stroke (width 0.254) (type default)) (fill (type background)))'',
        ''        (pin passive line (at -3.81 7.62 0) (length 2.54) (name "Pin_1" (effects (font (size 1.27 1.27)))) (number "1" (effects (font (size 1.27 1.27)))))'',
        ''        (pin passive line (at 6.35 7.62 180) (length 2.54) (name "Pin_2" (effects (font (size 1.27 1.27)))) (number "2" (effects (font (size 1.27 1.27)))))'',
        ''        (pin passive line (at -3.81 5.08 0) (length 2.54) (name "Pin_3" (effects (font (size 1.27 1.27)))) (number "3" (effects (font (size 1.27 1.27)))))'',
        ''        (pin passive line (at 6.35 5.08 180) (length 2.54) (name "Pin_4" (effects (font (size 1.27 1.27)))) (number "4" (effects (font (size 1.27 1.27)))))'',
        ''        (pin passive line (at -3.81 2.54 0) (length 2.54) (name "Pin_5" (effects (font (size 1.27 1.27)))) (number "5" (effects (font (size 1.27 1.27)))))'',
        ''        (pin passive line (at 6.35 2.54 180) (length 2.54) (name "Pin_6" (effects (font (size 1.27 1.27)))) (number "6" (effects (font (size 1.27 1.27)))))'',
        ''        (pin passive line (at -3.81 0 0) (length 2.54) (name "Pin_7" (effects (font (size 1.27 1.27)))) (number "7" (effects (font (size 1.27 1.27)))))'',
        ''        (pin passive line (at 6.35 0 180) (length 2.54) (name "Pin_8" (effects (font (size 1.27 1.27)))) (number "8" (effects (font (size 1.27 1.27)))))'',
        ''        (pin passive line (at -3.81 -2.54 0) (length 2.54) (name "Pin_9" (effects (font (size 1.27 1.27)))) (number "9" (effects (font (size 1.27 1.27)))))'',
        ''        (pin passive line (at 6.35 -2.54 180) (length 2.54) (name "Pin_10" (effects (font (size 1.27 1.27)))) (number "10" (effects (font (size 1.27 1.27)))))'',
        ''        (pin passive line (at -3.81 -5.08 0) (length 2.54) (name "Pin_11" (effects (font (size 1.27 1.27)))) (number "11" (effects (font (size 1.27 1.27)))))'',
        ''        (pin passive line (at 6.35 -5.08 180) (length 2.54) (name "Pin_12" (effects (font (size 1.27 1.27)))) (number "12" (effects (font (size 1.27 1.27)))))'',
        ''        (pin passive line (at -3.81 -7.62 0) (length 2.54) (name "Pin_13" (effects (font (size 1.27 1.27)))) (number "13" (effects (font (size 1.27 1.27)))))'',
        ''        (pin passive line (at 6.35 -7.62 180) (length 2.54) (name "Pin_14" (effects (font (size 1.27 1.27)))) (number "14" (effects (font (size 1.27 1.27)))))'',
        ''      )'',
        ''    )'']),
    emit (py_join [nl]
       [''    (symbol "Switch:SW_DIP_x02"'',
        ''      (pin_names (offset 1.016)) (exclude_from_sim no) (in_bom yes) (on_board yes)'',
        ''      (property "Reference" "SW" (at 0 5.08 0) (effects (font (size 1.27 1.27))))'',
        ''      (property "Value" "SW_DIP_x02" (at 0 -5.08 0) (effects (font (size 1.27 1.27))))'',
        ''      (property "Footprint" "" (at 0 0 0) (effects (font (size 1.27 1.27)) hide))'',
        ''      (property "Datasheet" "" (at 0 0 0) (effects (font (size 1.27 1.27)) hide))'',
        ''      (symbol "SW_DIP_x02_0_1"'',
        ''        (rectangle (start -3.81 3.81) (end 3.81 -3.81) (stroke (width 0.254) (type default)) (fill (type background)))'',
        ''      )'',
        ''      (symbol "SW_DIP_x02_1_1"'',
        ''        (pin passive line (at -6.35 2.54 0) (length 2.54) (name "1" (effects (font (size 1.27 1.27)))) (number "1" (effects (font (size 1.27 1.27)))))'',
        ''        (pin passive line (at -6.35 0 0) (length 2.54) (name "2" (effects (font (size 1.27 1.27)))) (number "2" (effects (font (size 1.27 1.27)))))'',
        ''        (pin passive line (at 6.35 2.54 180) (length 2.54) (name "3" (effects (font (size 1.27 1.27)))) (number "3" (effects (font (size 1.27 1.27)))))'',
        ''        (pin passive line (at 6.35 0 180) (length 2.54) (name "4" (effects (font (size 1.27 1.27)))) (number "4" (effects (font (size 1.27 1.27)))))'',
        ''      )'',
        ''    )'']),
    emit lib_sw_push,
    draw (map (\<lambda>(net, arrow_up). (if net = ''GND'' then emit lib_gnd
      else emit (lib_power net))) [(''+1V0'', True),
          (''+1V5'', True),
          (''+1V8'', True),
          (''+3V3'', True),
          (''+3V3A'', True),
          (''GND'', False)]),
    emit ''  )'']\<close>

definition zynq_lib_symbols :: "stmt" where
  "zynq_lib_symbols = draw [zynq_lib_head, zynq_lib_mio, zynq_lib_ddr, zynq_lib_banks, zynq_lib_power, zynq_lib_rest]"

section \<open>The drawing\<close>

definition zynq_clock :: "stmt" where
  \<open>zynq_clock = draw [
    text_note ''ZYNQ-7045 PS CONFIG (Unit 1)'' (PInt 30) (PInt 20) (dec 20 1),
    text_note ''Boot mode, JTAG, clock, reset'' (PInt 30) (PInt 25) (dec 127 2),
    (let u1_x = PInt 80;
        u1_y = PInt 70
    in draw [
      symbol_instance ''cirradio:XC7Z045'' ''U1'' ''XC7Z045-2FFG900I'' u1_x u1_y 1 0 [] [],
      symbol_pins [''C8'', ''B10'', ''C10'', ''T12'', ''U11'', ''T11'', ''G7'', ''G8'', ''H7'', ''H8'', ''R13'', ''P13'', ''N13'', ''M13'',
          ''L13'', ''C3'', ''E3''],
      text_note ''PS_CLK 33.333 MHz'' (PInt 30) (PInt 35) (dec 127 2),
      (let osc_x = PInt 40;
          osc_y = PInt 50
      in draw [
        symbol_instance ''cirradio:DSC1001CI2-33.333'' ''Y1'' ''33.333MHz'' osc_x osc_y 1 0 ''Package_SO:VDFN-4-1EP_2.5x2.0mm_P0.65mm'' [],
        symbol_pins [''1'', ''2'', ''3'', ''4''],
        power_symbol ''+3V3'' osc_x (osc_y - PInt 10) 0,
        wire osc_x (osc_y - dec 762 2) osc_x (osc_y - PInt 10),
        power_symbol ''GND'' osc_x (osc_y + PInt 10) 0,
        wire osc_x (osc_y + dec 762 2) osc_x (osc_y + PInt 10),
        cap ''100n'' (osc_x + PInt 10) (osc_y - PInt 4) 0 ''Capacitor_SMD:C_0402_1005Metric'',
        wire (osc_x + PInt 10) (osc_y - dec 781 2) (osc_x + PInt 10) (osc_y - PInt 10),
        power_symbol ''+3V3'' (osc_x + PInt 10) (osc_y - PInt 10) 0,
        wire (osc_x + PInt 10) (osc_y - dec 19 2) (osc_x + PInt 10) (osc_y + PInt 2),
        power_symbol ''GND'' (osc_x + PInt 10) (osc_y + PInt 2) 0,
        wire (osc_x - dec 762 2) (osc_y + dec 254 2) (osc_x - dec 762 2) (osc_y - dec 762 2),
        wire (osc_x - dec 762 2) (osc_y - dec 762 2) osc_x (osc_y - dec 762 2),
        resistor ''22R'' (PInt 55) (osc_y + dec 254 2) 90 [],
        wire (osc_x + dec 762 2) (osc_y + dec 254 2) (PInt 55 - dec 381 2) (osc_y + dec 254 2),
        wire (PInt 55 + dec 381 2) (osc_y + dec 254 2) (u1_x - dec 1524 2) (u1_y - dec 206 2)])])]\<close>

definition zynq_reset :: "pynum \<Rightarrow> pynum \<Rightarrow> pynum \<Rightarrow> stmt" where
  \<open>zynq_reset osc_y u1_y u1_x = draw [
    wire (PInt 55 + dec 381 2) (osc_y + dec 254 2) (PInt 62) (osc_y + dec 254 2),
    wire (PInt 62) (osc_y + dec 254 2) (PInt 62) (u1_y - dec 206 2),
    wire (PInt 62) (u1_y - dec 206 2) (u1_x - dec 1524 2) (u1_y - dec 206 2),
    global_label ''PS_POR_B'' (u1_x - PInt 25) (u1_y - dec 46 1) ''input'' 0,
    wire (u1_x - PInt 25) (u1_y - dec 46 1) (u1_x - dec 1524 2) (u1_y - dec 46 1),
    text_note ''PS_SRST_B reset'' (PInt 30) (PInt 90) (dec 127 2),
    (let sw_x = PInt 42;
        sw_y = u1_y - dec 714 2
    in draw [
      symbol_instance ''Switch:SW_Push'' ''SW2'' ''RESET'' sw_x sw_y 1 0 ''Button_Switch_SMD:SW_SPST_B3U-1000P'' [],
      symbol_pins [''1'', ''2''],
      power_symbol ''GND'' (sw_x - PInt 8) sw_y 0,
      wire (sw_x - dec 508 2) sw_y (sw_x - PInt 8) sw_y,
      wire (sw_x + dec 508 2) sw_y (sw_x + PInt 10) sw_y,
      resistor ''10K'' (sw_x + PInt 10) (sw_y - PInt 7) 0 [],
      power_symbol ''+1V8'' (sw_x + PInt 10) (sw_y - PInt 14) 0,
      wire (sw_x + PInt 10) (sw_y - dec 1081 2) (sw_x + PInt 10) (sw_y - PInt 14),
      wire (sw_x + PInt 10) (sw_y - dec 319 2) (sw_x + PInt 10) sw_y])]\<close>

definition zynq_boot :: "pynum \<Rightarrow> pynum \<Rightarrow> pynum \<Rightarrow> pynum \<Rightarrow> stmt" where
  \<open>zynq_boot sw_x sw_y u1_x u1_y = draw [
    cap ''100n'' (sw_x + PInt 16) (sw_y + PInt 4) 0 ''Capacitor_SMD:C_0402_1005Metric'',
    wire (sw_x + PInt 16) (sw_y + dec 19 2) (sw_x + PInt 16) sw_y,
    wire (sw_x + PInt 10) sw_y (sw_x + PInt 16) sw_y,
    wire (sw_x + PInt 16) (sw_y + dec 781 2) (sw_x + PInt 16) (sw_y + PInt 10),
    power_symbol ''GND'' (sw_x + PInt 16) (sw_y + PInt 10) 0,
    wire (sw_x + PInt 16) sw_y (u1_x - dec 1524 2) sw_y,
    text_note ''BOOT MODE (JTAG=00, QSPI=01)'' (PInt 30) (PInt 100) (dec 127 2),
    (let dip_x = PInt 42;
        dip_y = PInt 112
    in draw [
      symbol_instance ''Switch:SW_DIP_x02'' ''SW1'' ''BOOT_MODE'' dip_x dip_y 1 0 ''Button_Switch_SMD:SW_DIP_SPSTx02_Slide_6.7x6.64mm_W8.61mm_P2.54mm'' [],
      symbol_pins [''1'', ''2'', ''3'', ''4''],
      power_symbol ''+1V8'' (dip_x + PInt 12) dip_y 0,
      wire (dip_x + dec 635 2) (dip_y + dec 254 2) (dip_x + PInt 12) (dip_y + dec 254 2),
      wire (dip_x + PInt 12) (dip_y + dec 254 2) (dip_x + PInt 12) dip_y,
      wire (dip_x + dec 635 2) dip_y (dip_x + PInt 12) dip_y,
      resistor ''10K'' (dip_x - PInt 12) (dip_y + dec 254 2 + PInt 5) 0 [],
      wire (dip_x - dec 635 2) (dip_y + dec 254 2) (dip_x - PInt 12) (dip_y + dec 254 2),
      wire (dip_x - PInt 12) (dip_y + dec 254 2) (dip_x - PInt 12) (dip_y + dec 254 2 + dec 127 2),
      power_symbol ''GND'' (dip_x - PInt 12) (dip_y + dec 254 2 + PInt 10) 0,
      wire (dip_x - PInt 12) (dip_y + dec 254 2 + dec 881 2) (dip_x - PInt 12) (dip_y + dec 254 2 + PInt 10),
      resistor ''10K'' (dip_x - PInt 18) (dip_y + PInt 5) 0 [],
      wire (dip_x - dec 635 2) dip_y (dip_x - PInt 18) dip_y,
      wire (dip_x - PInt 18) dip_y (dip_x - PInt 18) (dip_y + dec 119 2),
      power_symbol ''GND'' (dip_x - PInt 18) (dip_y + PInt 10) 0,
      wire (dip_x - PInt 18) (dip_y + dec 881 2) (dip_x - PInt 18) (dip_y + PInt 10),
      wire (dip_x - PInt 12) (dip_y + dec 254 2) (u1_x - dec 1524 2) (u1_y - dec 1222 2),
      wire (dip_x - PInt 18) dip_y (dip_x - PInt 18) (u1_y - dec 1476 2),
      wire (dip_x - PInt 18) (u1_y - dec 1476 2) (u1_x - dec 1524 2) (u1_y - dec 1476 2),
      resistor ''10K'' (u1_x - PInt 25) (u1_y - dec 173 1) 0 [],
      wire (u1_x - PInt 25) (u1_y - dec 173 1 + dec 381 2) (u1_x - PInt 25) (u1_y - dec 173 1 + PInt 6),
      power_symbol ''GND'' (u1_x - PInt 25) (u1_y - dec 173 1 + PInt 6) 0])]\<close>

definition zynq_status :: "pynum \<Rightarrow> pynum \<Rightarrow> stmt" where
  \<open>zynq_status u1_x u1_y = draw [
    wire (u1_x - PInt 25) (u1_y - dec 173 1 - dec 381 2) (u1_x - PInt 25) (u1_y - dec 173 1 - PInt 5),
    wire (u1_x - PInt 25) (u1_y - dec 173 1 - PInt 5) (u1_x - dec 1524 2) (u1_y - dec 173 1),
    resistor ''10K'' (u1_x - PInt 25) (u1_y - dec 1984 2) 0 [],
    wire (u1_x - PInt 25) (u1_y - dec 1984 2 + dec 381 2) (u1_x - PInt 25) (u1_y - dec 1984 2 + PInt 6),
    power_symbol ''GND'' (u1_x - PInt 25) (u1_y - dec 1984 2 + PInt 6) 0,
    wire (u1_x - PInt 25) (u1_y - dec 1984 2 - dec 381 2) (u1_x - PInt 25) (u1_y - dec 1984 2 - PInt 5),
    wire (u1_x - PInt 25) (u1_y - dec 1984 2 - PInt 5) (u1_x - dec 1524 2) (u1_y - dec 1984 2),
    resistor ''4K7'' (u1_x + PInt 25) (u1_y - dec 206 2) 90 [],
    wire (u1_x + dec 1524 2) (u1_y - dec 206 2) (u1_x + PInt 25 - dec 381 2) (u1_y - dec 206 2),
    power_symbol ''+1V8'' (u1_x + PInt 25) (u1_y - dec 206 2 - PInt 8) 0,
    wire (u1_x + PInt 25 + dec 381 2) (u1_y - dec 206 2) (u1_x + PInt 30) (u1_y - dec 206 2),
    wire (u1_x + PInt 30) (u1_y - dec 206 2) (u1_x + PInt 30) (u1_y - dec 206 2 - PInt 8),
    wire (u1_x + PInt 30) (u1_y - dec 206 2 - PInt 8) (u1_x + PInt 25) (u1_y - dec 206 2 - PInt 8),
    text_note ''DONE LED'' (u1_x + PInt 20) (u1_y - dec 46 1 - PInt 3) (dec 10 1),
    resistor ''330R'' (u1_x + PInt 25) (u1_y - dec 46 1) 90 [],
    wire (u1_x + dec 1524 2) (u1_y - dec 46 1) (u1_x + PInt 25 - dec 381 2) (u1_y - dec 46 1),
    bump ''symbols'',
    emit (''    (symbol (lib_id "Device:LED") (at '' @ num_str (u1_x + PInt 35) @ '' '' @ num_str (u1_y - dec 46 1) @ '' 0)''),
    emit ''      (unit 1) (exclude_from_sim no) (in_bom yes) (on_board yes) (dnp no)'',
    with_value new_uid (\<lambda>u. emit (''      (uuid "'' @ u @ ''")'')),
    emit (''      (property "Reference" "D3" (at '' @ num_str (u1_x + PInt 35) @ '' '' @ num_str (u1_y - PInt 7) @
        '' 0) (effects (font (size 1.27 1.27))))''),
    emit (''      (property "Value" "GREEN" (at '' @ num_str (u1_x + PInt 35) @ '' '' @ num_str (u1_y - PInt 2) @
        '' 0) (effects (font (size 1.27 1.27))))''),
    emit (''      (property "Footprint" "LED_SMD:LED_0603_1608Metric" (at '' @ num_str (u1_x + PInt 35) @ '' '' @
        num_str (u1_y - dec 46 1) @ '' 0) (effects (font (size 1.27 1.27)) hide))''),
    emit (''      (property "Datasheet" "" (at '' @ num_str (u1_x + PInt 35) @ '' '' @ num_str (u1_y - dec 46 1) @
        '' 0) (effects (font (size 1.27 1.27)) hide))''),
    with_value new_uid (\<lambda>u. emit (''      (pin "1" (uuid "'' @ u @ ''"))'')),
    with_value new_uid (\<lambda>u. emit (''      (pin "2" (uuid "'' @ u @ ''"))'')),
    emit ''    )'',
    wire (u1_x + PInt 25 + dec 381 2) (u1_y - dec 46 1) (u1_x + PInt 35 - dec 381 2) (u1_y - dec 46 1),
    wire (u1_x + PInt 35 + dec 381 2) (u1_y - dec 46 1) (u1_x + PInt 42) (u1_y - dec 46 1),
    power_symbol ''GND'' (u1_x + PInt 42) (u1_y - dec 46 1) 0,
    resistor ''4K7'' (u1_x + PInt 22) (u1_y - dec 46 1 - PInt 6) 0 [],
    wire (u1_x + PInt 22) (u1_y - dec 46 1 - PInt 6 - dec 381 2) (u1_x + PInt 22) (u1_y - dec 46 1 - PInt 12),
    power_symbol ''+1V8'' (u1_x + PInt 22) (u1_y - dec 46 1 - PInt 12) 0,
    wire (u1_x + PInt 22) (u1_y - dec 46 1 - PInt 6 + dec 381 2) (u1_x + PInt 22) (u1_y - dec 46 1),
    resistor ''4K7'' (u1_x + PInt 25) (u1_y - dec 714 2) 90 [],
    wire (u1_x + dec 1524 2) (u1_y - dec 714 2) (u1_x + PInt 25 - dec 381 2) (u1_y - dec 714 2),
    wire (u1_x + PInt 25 + dec 381 2) (u1_y - dec 714 2) (u1_x + PInt 30) (u1_y - dec 714 2),
    wire (u1_x + PInt 30) (u1_y - dec 714 2) (u1_x + PInt 30) (u1_y - PInt 15),
    power_symbol ''+1V8'' (u1_x + PInt 30) (u1_y - PInt 15) 0,
    global_label ''+1V8'' (u1_x + PInt 22) (u1_y - dec 1222 2) ''passive'' 0,
    wire (u1_x + dec 1524 2) (u1_y - dec 1222 2) (u1_x + PInt 22) (u1_y - dec 1222 2),
    wire (u1_x + dec 1524 2) (u1_y - dec 1476 2) (u1_x + PInt 22) (u1_y - dec 1476 2),
    global_label ''+1V8'' (u1_x + PInt 22) (u1_y - dec 1476 2) ''passive'' 0]\<close>

definition zynq_jtag :: "pynum \<Rightarrow> pynum \<Rightarrow> stmt" where
  \<open>zynq_jtag u1_y u1_x = draw [
    text_note ''JTAG (ARM 2x7 1.27mm)'' (PInt 130) (PInt 35) (dec 127 2),
    (let jtag_x = PInt 155;
        jtag_y = PInt 60
    in draw [
      symbol_instance ''Connector_Generic:Conn_02x07_Odd_Even'' ''J2'' ''JTAG'' jtag_x jtag_y 1 0 ''Connector_PinHeader_1.27mm:PinHeader_2x07_P1.27mm_Vertical'' [],
      symbol_pins [''1'', ''2'', ''3'', ''4'', ''5'', ''6'', ''7'', ''8'', ''9'', ''10'', ''11'', ''12'', ''13'', ''14''],
      power_symbol ''+3V3'' (jtag_x - PInt 12) (jtag_y - PInt 12) 0,
      wire (jtag_x - dec 381 2) (jtag_y + dec 762 2) (jtag_x - PInt 12) (jtag_y + dec 762 2),
      wire (jtag_x - PInt 12) (jtag_y + dec 762 2) (jtag_x - PInt 12) (jtag_y - PInt 12),
      power_symbol ''GND'' (jtag_x - PInt 10) (jtag_y + PInt 14) 0,
      wire (jtag_x - dec 381 2) (jtag_y + dec 508 2) (jtag_x - PInt 10) (jtag_y + dec 508 2),
      wire (jtag_x - PInt 10) (jtag_y + dec 508 2) (jtag_x - PInt 10) (jtag_y + PInt 14),
      wire (jtag_x - dec 381 2) (jtag_y + dec 254 2) (jtag_x - PInt 10) (jtag_y + dec 254 2),
      wire (jtag_x - PInt 10) (jtag_y + dec 254 2) (jtag_x - PInt 10) (jtag_y + dec 508 2),
      wire (jtag_x - dec 381 2) (jtag_y - dec 254 2) (jtag_x - PInt 10) (jtag_y - dec 254 2),
      wire (jtag_x - PInt 10) (jtag_y - dec 254 2) (jtag_x - PInt 10) (jtag_y + dec 254 2),
      wire (jtag_x - dec 381 2) (jtag_y - dec 508 2) (jtag_x - PInt 10) (jtag_y - dec 508 2),
      wire (jtag_x - PInt 10) (jtag_y - dec 508 2) (jtag_x - PInt 10) (jtag_y - dec 254 2),
      wire (jtag_x - dec 381 2) (jtag_y - dec 762 2) (jtag_x - PInt 10) (jtag_y - dec 762 2),
      wire (jtag_x - PInt 10) (jtag_y - dec 762 2) (jtag_x - PInt 10) (jtag_y - dec 508 2),
      resistor ''33R'' (jtag_x + PInt 15) (jtag_y + dec 762 2) 90 [],
      wire (jtag_x + dec 635 2) (jtag_y + dec 762 2) (jtag_x + PInt 15 - dec 381 2) (jtag_y + dec 762 2),
      wire (jtag_x + PInt 15 + dec 381 2) (jtag_y + dec 762 2) (jtag_x + PInt 22) (jtag_y + dec 762 2),
      wire (jtag_x + PInt 22) (jtag_y + dec 762 2) (jtag_x + PInt 22) u1_y,
      wire (jtag_x + PInt 22) u1_y (u1_x - dec 1524 2) u1_y,
      resistor ''33R'' (jtag_x + PInt 15) (jtag_y + dec 508 2) 90 [],
      wire (jtag_x + dec 635 2) (jtag_y + dec 508 2) (jtag_x + PInt 15 - dec 381 2) (jtag_y + dec 508 2),
      wire (jtag_x + PInt 15 + dec 381 2) (jtag_y + dec 508 2) (jtag_x + PInt 24) (jtag_y + dec 508 2),
      wire (jtag_x + PInt 24) (jtag_y + dec 508 2) (jtag_x + PInt 24) (u1_y - dec 254 2),
      wire (jtag_x + PInt 24) (u1_y - dec 254 2) (u1_x - dec 1524 2) (u1_y - dec 254 2),
      wire (jtag_x + dec 635 2) (jtag_y + dec 254 2) (jtag_x + PInt 26) (jtag_y + dec 254 2),
      wire (jtag_x + PInt 26) (jtag_y + dec 254 2) (jtag_x + PInt 26) (u1_y + dec 254 2),
      wire (jtag_x + PInt 26) (u1_y + dec 254 2) (u1_x - dec 1524 2) (u1_y + dec 254 2),
      resistor ''33R'' (jtag_x + PInt 15) jtag_y 90 [],
      wire (jtag_x + dec 635 2) jtag_y (jtag_x + PInt 15 - dec 381 2) jtag_y,
      wire (jtag_x + PInt 15 + dec 381 2) jtag_y (jtag_x + PInt 28) jtag_y,
      wire (jtag_x + PInt 28) jtag_y (jtag_x + PInt 28) (u1_y + dec 508 2),
      wire (jtag_x + PInt 28) (u1_y + dec 508 2) (u1_x - dec 1524 2) (u1_y + dec 508 2),
      wire (jtag_x + dec 635 2) (jtag_y - dec 254 2) (jtag_x + PInt 30) (jtag_y - dec 254 2),
      wire (jtag_x + PInt 30) (jtag_y - dec 254 2) (jtag_x + PInt 30) (u1_y - dec 508 2),
      wire (jtag_x + PInt 30) (u1_y - dec 508 2) (u1_x - dec 1524 2) (u1_y - dec 508 2)])]\<close>

definition zynq_mio :: "stmt" where
  \<open>zynq_mio = draw [
    text_note ''PS MIO (Unit 2)'' (PInt 30) (PInt 150) (dec 20 1),
    text_note ''MIO pin assignments to peripheral sheets'' (PInt 30) (PInt 155) (dec 127 2),
    (let u2_x = PInt 80;
        u2_y = PInt 230
    in draw [
      symbol_instance ''cirradio:XC7Z045'' ''U1'' ''XC7Z045-2FFG900I'' u2_x u2_y 2 0 [] [],
      (let mio_pin_nums = [''A4'', ''B4'', ''A5'', ''B5'', ''A6'', ''B6'', ''A7'', ''E5'', ''D5'', ''E6'', ''B7'', ''D6'', ''C7'', ''E7'',
          ''D7'', ''B8'', ''A9'', ''B9'', ''E8'', ''D8'', ''C9'', ''E9'', ''D9'', ''A10'', ''E10'', ''D10'', ''C11'', ''B11'', ''A11'',
          ''E11'', ''D11'', ''A12'', ''B12'', ''C12'', ''D12'', ''E12'', ''A13'', ''B13'', ''C13'', ''D13'', ''E13'', ''F7'', ''F8'',
          ''F9'', ''F10'', ''F11'', ''F12'', ''F13'', ''G6'', ''G9'', ''G10'', ''G11'', ''G12'', ''G13'']
      in draw [
        symbol_pins mio_pin_nums,
        (let hl_x = u2_x + PInt 18
        in draw [
          text_note ''QSPI'' (hl_x + PInt 5) (u2_y - dec 7239 2 + dec 6858 2 - PInt 3) (dec 10 1),
          draw (map (\<lambda>i. (let y = u2_y - dec 7239 2 + dec 7112 2 - PInt i * dec 254 2
            in draw [
              wire (u2_x + dec 1016 2) y hl_x y,
              hier_label (''QSPI_MIO'' @ int_str i) hl_x y ''bidirectional'' 0])) [1..6]),
          text_note ''GEM0 RGMII'' (hl_x + PInt 5) (u2_y - dec 7239 2 + dec 7112 2 - PInt 16 * dec 254 2 - PInt 3) (dec 10 1),
          draw (map (\<lambda>i. (let y = u2_y - dec 7239 2 + dec 7112 2 - PInt i * dec 254 2
            in draw [
              wire (u2_x + dec 1016 2) y hl_x y,
              hier_label (''ETH_MIO'' @ int_str i) hl_x y ''bidirectional'' 0])) [16..27]),
          text_note ''USB0 ULPI'' (hl_x + PInt 5) (u2_y - dec 7239 2 + dec 7112 2 - PInt 28 * dec 254 2 - PInt 3) (dec 10 1),
          draw (map (\<lambda>i. (let y = u2_y - dec 7239 2 + dec 7112 2 - PInt i * dec 254 2
            in draw [
              wire (u2_x + dec 1016 2) y hl_x y,
              hier_label (''USB_MIO'' @ int_str i) hl_x y ''bidirectional'' 0])) [28..39]),
          text_note ''SD0'' (hl_x + PInt 5) (u2_y - dec 7239 2 + dec 7112 2 - PInt 40 * dec 254 2 - PInt 3) (dec 10 1),
          draw (map (\<lambda>i. (let y = u2_y - dec 7239 2 + dec 7112 2 - PInt i * dec 254 2
            in draw [
              wire (u2_x + dec 1016 2) y hl_x y,
              hier_label (''SD_MIO'' @ int_str i) hl_x y ''bidirectional'' 0])) [40..45]),
          text_note ''UART0'' (hl_x + PInt 5) (u2_y - dec 7239 2 + dec 7112 2 - PInt 46 * dec 254 2 - PInt 3) (dec 10 1),
          draw (map (\<lambda>i. (let y = u2_y - dec 7239 2 + dec 7112 2 - PInt i * dec 254 2
            in draw [
              wire (u2_x + dec 1016 2) y hl_x y,
              hier_label (''UART0_MIO'' @ int_str i) hl_x y ''bidirectional'' 0])) [46..47]),
          text_note ''UART1'' (hl_x + PInt 5) (u2_y - dec 7239 2 + dec 7112 2 - PInt 48 * dec 254 2 - PInt 3) (dec 10 1),
          draw (map (\<lambda>i. (let y = u2_y - dec 7239 2 + dec 7112 2 - PInt i * dec 254 2
            in draw [
              wire (u2_x + dec 1016 2) y hl_x y,
              hier_label (''UART1_MIO'' @ int_str i) hl_x y ''bidirectional'' 0])) [48..49]),
          text_note ''I2C0'' (hl_x + PInt 5) (u2_y - dec 7239 2 + dec 7112 2 - PInt 50 * dec 254 2 - PInt 3) (dec 10 1),
          draw (map (\<lambda>i. (let y = u2_y - dec 7239 2 + dec 7112 2 - PInt i * dec 254 2
            in draw [
              wire (u2_x + dec 1016 2) y hl_x y,
              hier_label (''I2C_MIO'' @ int_str i) hl_x y ''bidirectional'' 0])) [50..51]),
          (let y0 = u2_y - dec 7239 2 + dec 7112 2
          in draw [
            wire (u2_x + dec 1016 2) y0 hl_x y0,
            text_note ''BOOT_CS'' (hl_x + PInt 2) y0 (dec 10 1),
            draw (map (\<lambda>i. (let y = u2_y - dec 7239 2 + dec 7112 2 - PInt i * dec 254 2
              in draw [
                wire (u2_x + dec 1016 2) y hl_x y,
                hier_label (''MIO'' @ int_str i) hl_x y ''bidirectional'' 0])) ([7..15] @ [52..53]))])])])])]\<close>

definition zynq_ddr :: "stmt" where
  \<open>zynq_ddr = draw [
    text_note ''PS DDR INTERFACE (Unit 3)'' (PInt 180) (PInt 150) (dec 20 1),
    text_note ''DDR3L signals to memory sheet'' (PInt 180) (PInt 155) (dec 127 2),
    (let u3_x = PInt 230;
        u3_y = PInt 220
    in draw [
      symbol_instance ''cirradio:XC7Z045'' ''U1'' ''XC7Z045-2FFG900I'' u3_x u3_y 3 0 [] [],
      (let ddr_dq_pins = [''H1'', ''H2'', ''H3'', ''J1'', ''J2'', ''J3'', ''K1'', ''K2'', ''K3'', ''L1'', ''L2'', ''L3'', ''M1'', ''M2'',
          ''M3'', ''N1'', ''N2'', ''N3'', ''P1'', ''P2'', ''P3'', ''R1'', ''R2'', ''R3'', ''T1'', ''T2'', ''T3'', ''U1'', ''U2'', ''U3'',
          ''V1'', ''V2''];
          ddr_unit_pins = ddr_dq_pins @ [''H4'', ''H5'', ''J4'', ''J5'', ''K4'', ''K5'', ''L4'', ''L5'', ''M4'', ''M5'', ''N4'', ''N5''] @
              [''P4'', ''P5'', ''R4'', ''R5'', ''T4'', ''T5'', ''U4'', ''U5'', ''V3'', ''V4'', ''V5'', ''W3'', ''W4'', ''W5'', ''Y3''] @
              [''Y4'', ''Y5'', ''AA3'', ''AA4'', ''AA5'', ''AB3'', ''AB4'', ''AB5'', ''AC3'', ''AC4'', ''AC5'', ''AD3'', ''AD4'', ''AD5'',
              ''AE3'', ''AE4'']
      in draw [
        symbol_pins ddr_unit_pins,
        (let ddr_hl_x = u3_x + PInt 22
        in draw [
          draw (map (\<lambda>i. (let y = u3_y - dec 5334 2 + dec 508 1 + dec 254 2 - PInt i * dec 254 2
            in draw [
              wire (u3_x + dec 1524 2) y ddr_hl_x y,
              hier_label (''DDR_DQ'' @ int_str i) ddr_hl_x y ''bidirectional'' 0])) [0..31]),
          (let ddr_left_x = u3_x - PInt 22
          in draw [
            draw (map (\<lambda>i. draw (map (\<lambda>(suffix,
                offset). (let y = u3_y - dec 5334 2 + dec 508 1 - (PInt (i * 2 + offset)) * dec 254 2
                in draw [
                  wire (u3_x - dec 1524 2) y ddr_left_x y,
                  hier_label (''DDR_DQS_'' @ suffix @ int_str i) ddr_left_x y ''bidirectional'' 180])) [(''P'', (0 :: int)),
          (''N'', 1)])) [0..3]),
            draw (map (\<lambda>i. (let y = u3_y - dec 5334 2 + dec 2794 2 - PInt i * dec 254 2
              in draw [
                wire (u3_x - dec 1524 2) y ddr_left_x y,
                hier_label (''DDR_DM'' @ int_str i) ddr_left_x y ''output'' 180])) [0..3]),
            draw (map (\<lambda>i. (let y = u3_y - dec 5334 2 + dec 1524 2 - PInt i * dec 254 2
              in draw [
                wire (u3_x - dec 1524 2) y ddr_left_x y,
                hier_label (''DDR_A'' @ int_str i) ddr_left_x y ''output'' 180])) [0..14]),
            draw (map (\<lambda>(i, name). (let y = u3_y - dec 5334 2 - dec 254 1 - PInt i * dec 254 2
              in draw [
                wire (u3_x - dec 1524 2) y ddr_left_x y,
                hier_label name ddr_left_x y ''output'' 180])) (enum_list [''DDR_BA0'', ''DDR_BA1'', ''DDR_BA2''])),
            (let ctrl_names = [''DDR_CAS_B'', ''DDR_RAS_B'', ''DDR_WE_B'', ''DDR_CK_P'', ''DDR_CK_N'', ''DDR_CKE'', ''DDR_CS_B'',
                ''DDR_ODT'']
            in draw [
              draw (map (\<lambda>(i, name). (let y = u3_y - dec 5334 2 - dec 3302 2 - PInt i * dec 254 2
                in draw [
                  wire (u3_x - dec 1524 2) y ddr_left_x y,
                  hier_label name ddr_left_x y ''output'' 180])) (enum_list ctrl_names)),
              hier_label ''DDR_RESET_B'' ddr_hl_x (u3_y - dec 5334 2 - dec 3302 2) ''output'' 0,
              wire (u3_x + dec 1524 2) (u3_y - dec 5334 2 - dec 3302 2) ddr_hl_x (u3_y - dec 5334 2 - dec 3302 2),
              global_label ''VTTREF'' ddr_hl_x (u3_y - dec 5334 2 - dec 381 1) ''passive'' 0,
              wire (u3_x + dec 1524 2) (u3_y - dec 5334 2 - dec 381 1) ddr_hl_x (u3_y - dec 5334 2 - dec 381 1),
              global_label ''VTTREF'' ddr_hl_x (u3_y - dec 5334 2 - dec 4064 2) ''passive'' 0,
              wire (u3_x + dec 1524 2) (u3_y - dec 5334 2 - dec 4064 2) ddr_hl_x (u3_y - dec 5334 2 - dec 4064 2),
              resistor ''240R'' (ddr_hl_x + PInt 8) (u3_y - dec 5334 2 - dec 4572 2) 90 [],
              wire (u3_x + dec 1524 2) (u3_y - dec 5334 2 - dec 4572 2) (ddr_hl_x + PInt 8 - dec 381 2) (u3_y - dec 5334 2 - dec 4572 2),
              power_symbol ''GND'' (ddr_hl_x + PInt 15) (u3_y - dec 5334 2 - dec 4572 2) 0,
              wire (ddr_hl_x + PInt 8 + dec 381 2) (u3_y - dec 5334 2 - dec 4572 2) (ddr_hl_x + PInt 15) (u3_y - dec 5334 2 - dec 4572 2),
              resistor ''240R'' (ddr_hl_x + PInt 8) (u3_y - dec 5334 2 - dec 4826 2) 90 [],
              wire (u3_x + dec 1524 2) (u3_y - dec 5334 2 - dec 4826 2) (ddr_hl_x + PInt 8 - dec 381 2) (u3_y - dec 5334 2 - dec 4826 2),
              global_label ''+1V35'' (ddr_hl_x + PInt 15) (u3_y - dec 5334 2 - dec 4826 2) ''passive'' 0,
              wire (ddr_hl_x + PInt 8 + dec 381 2) (u3_y - dec 5334 2 - dec 4826 2) (ddr_hl_x + PInt 15) (u3_y - dec 5334 2 - dec 4826 2)])])])])])]\<close>

definition zynq_bank33 :: "stmt" where
  \<open>zynq_bank33 = draw [
    text_note ''PL BANK 33 HP - AD9361 LVDS (Unit 4)'' (PInt 30) (PInt 340) (dec 20 1),
    (let u4_x = PInt 65;
        u4_y = PInt 420
    in draw [
      symbol_instance ''cirradio:XC7Z045'' ''U1'' ''XC7Z045-2FFG900I'' u4_x u4_y 4 0 [] [],
      (let b33_pins = [''AA14'', ''AA15'', ''AB14'', ''AB15'', ''AC14'', ''AC15'', ''AD14'', ''AD15'', ''AE14'', ''AE15'', ''AF14'',
          ''AF15'', ''AA16'', ''AA17'', ''AB16'', ''AB17'', ''AC16'', ''AC17'', ''AD16'', ''AD17'', ''AE16'', ''AE17'', ''AF16'', ''AF17'',
          ''AA18'', ''AA19'', ''AB18'', ''AB19'', ''AC18'', ''AC19'', ''AD18'', ''AD19'', ''AE18'', ''AE19'', ''AF18'', ''AF19'', ''AA20'',
          ''AA21'', ''AB20'', ''AB21'', ''AC20'', ''AC21'', ''AD20'', ''AD21'', ''AE20'', ''AE21'', ''AF20'', ''AF21'', ''AA22'', ''AA23'']
      in draw [
        symbol_pins b33_pins,
        (let b33_hl_x = u4_x + PInt 18
        in draw [
          draw (map (\<lambda>i. (let y = u4_y - dec 6604 2 + dec 635 1 + dec 254 2 - PInt i * dec 254 2;
                y = (if i = 49 then u4_y - dec 6604 2 - dec 635 1 + dec 254 2 else y)
            in draw [
              wire (u4_x + dec 1016 2) y b33_hl_x y,
              (let pair_idx = i div 2;
                  suffix = (if i mod 2 = 0 then ''P'' else ''N'')
              in (if i < 48 then hier_label (''AD9361_B33_L'' @ int_str pair_idx @ suffix) b33_hl_x y ''bidirectional'' 0
                else hier_label (''AD9361_B33_L24'' @ (if i = 48 then ''P'' else ''N'')) b33_hl_x y ''bidirectional'' 0))])) [0..49]),
          text_note ''PL BANK 34 HP - AD9361 DATA/CTRL (Unit 5)'' (PInt 170) (PInt 340) (dec 20 1)])])])]\<close>

definition zynq_bank34 :: "stmt" where
  \<open>zynq_bank34 = (let u5_x = PInt 205;
        u5_y = PInt 420
    in draw [
      symbol_instance ''cirradio:XC7Z045'' ''U1'' ''XC7Z045-2FFG900I'' u5_x u5_y 5 0 [] [],
      (let b34_pins = [''AA24'', ''AA25'', ''AB24'', ''AB25'', ''AC24'', ''AC25'', ''AD24'', ''AD25'', ''AE24'', ''AE25'', ''AF24'',
          ''AF25'', ''AA26'', ''AA27'', ''AB26'', ''AB27'', ''AC26'', ''AC27'', ''AD26'', ''AD27'', ''AE26'', ''AE27'', ''AF26'', ''AF27'',
          ''AA28'', ''AA29'', ''AB28'', ''AB29'', ''AC28'', ''AC29'', ''AD28'', ''AD29'', ''AE28'', ''AE29'', ''AF28'', ''AF29'', ''AA30'',
          ''AB30'', ''AC30'', ''AD30'', ''AE30'', ''AF30'', ''Y14'', ''Y15'', ''Y16'', ''Y17'', ''Y18'', ''Y19'', ''Y20'', ''Y21'']
      in draw [
        symbol_pins b34_pins,
        (let b34_hl_x = u5_x + PInt 18
        in draw [
          draw (map (\<lambda>i. (let y = u5_y - dec 6604 2 + dec 635 1 + dec 254 2 - PInt i * dec 254 2;
                y = (if i = 49 then u5_y - dec 6604 2 - dec 635 1 + dec 254 2 else y)
            in draw [
              wire (u5_x + dec 1016 2) y b34_hl_x y,
              (let pair_idx = i div 2;
                  suffix = (if i mod 2 = 0 then ''P'' else ''N'')
              in (if i < 48 then hier_label (''AD9361_B34_L'' @ int_str pair_idx @ suffix) b34_hl_x y ''bidirectional'' 0
                else hier_label (''AD9361_B34_L24'' @ (if i = 48 then ''P'' else ''N'')) b34_hl_x y ''bidirectional'' 0))])) [0..49]),
          text_note ''PL BANK 13 HR - AD9361 SPI/CTRL (Unit 6)'' (PInt 30) (PInt 510) (dec 20 1)])])])\<close>

definition zynq_bank13 :: "stmt" where
  \<open>zynq_bank13 = (let u6_x = PInt 65;
        u6_y = PInt 590
    in draw [
      symbol_instance ''cirradio:XC7Z045'' ''U1'' ''XC7Z045-2FFG900I'' u6_x u6_y 6 0 [] [],
      (let b13_pins = [''A14'', ''B14'', ''C14'', ''D14'', ''E14'', ''F14'', ''A15'', ''B15'', ''C15'', ''D15'', ''E15'', ''F15'', ''A16'',
          ''B16'', ''C16'', ''D16'', ''E16'', ''F16'', ''A17'', ''B17'', ''C17'', ''D17'', ''E17'', ''F17'', ''A18'', ''B18'', ''C18'',
          ''D18'', ''E18'', ''F18'', ''A19'', ''B19'', ''C19'', ''D19'', ''E19'', ''F19'', ''A20'', ''B20'', ''C20'', ''D20'', ''E20'',
          ''F20'', ''A21'', ''B21'', ''C21'', ''D21'', ''E21'', ''F21'', ''A22'', ''B22'']
      in draw [
        symbol_pins b13_pins,
        (let b13_hl_x = u6_x + PInt 18
        in draw [
          draw (map (\<lambda>i. (let y = u6_y - dec 6604 2 + dec 635 1 + dec 254 2 - PInt i * dec 254 2;
                y = (if i = 49 then u6_y - dec 6604 2 - dec 635 1 + dec 254 2 else y)
            in draw [
              wire (u6_x + dec 1016 2) y b13_hl_x y,
              hier_label (''AD9361_B13_IO'' @ int_str i) b13_hl_x y ''bidirectional'' 0])) [0..49]),
          text_note ''PL BANK 12 HR - GPIO/LEDS/1PPS (Unit 7)'' (PInt 170) (PInt 510) (dec 20 1),
          (let u7_x = PInt 205;
              u7_y = PInt 590
          in symbol_instance ''cirradio:XC7Z045'' ''U1'' ''XC7Z045-2FFG900I'' u7_x u7_y 7 0 [] [])])])])\<close>

definition zynq_bank12 :: "pynum \<Rightarrow> pynum \<Rightarrow> stmt" where
  \<open>zynq_bank12 u7_x u7_y = (let b12_pins = [''A23'', ''B23'', ''C23'', ''D23'', ''E23'', ''F23'', ''A24'', ''B24'', ''C24'', ''D24'', ''E24'', ''F24'', ''A25'',
    ''B25'', ''C25'', ''D25'', ''E25'', ''F25'', ''A26'', ''B26'', ''C26'', ''D26'', ''E26'', ''F26'', ''A27'', ''B27'', ''C27'', ''D27'',
    ''E27'', ''F27'', ''A28'', ''B28'', ''C28'', ''D28'', ''E28'', ''F28'', ''A29'', ''B29'', ''C29'', ''D29'', ''E29'', ''F29'', ''A30'',
    ''B30'', ''C30'', ''D30'', ''G14'', ''G15'', ''G16'', ''G17'']
    in draw [
      symbol_pins b12_pins,
      (let b12_hl_x = u7_x + PInt 18
      in draw [
        draw (map (\<lambda>i. (let y = u7_y - dec 6604 2 + dec 635 1 + dec 254 2 - PInt i * dec 254 2;
              y = (if i = 49 then u7_y - dec 6604 2 - dec 635 1 + dec 254 2 else y)
          in draw [
            wire (u7_x + dec 1016 2) y b12_hl_x y,
            hier_label (''GPIO_B12_IO'' @ int_str i) b12_hl_x y ''bidirectional'' 0])) [0..49]),
        text_note ''PL SPARE (Unit 8)'' (PInt 30) (PInt 680) (dec 20 1)])])\<close>

definition zynq_spare :: "stmt" where
  \<open>zynq_spare = (let u8_x = PInt 65;
        u8_y = PInt 760
    in draw [
      symbol_instance ''cirradio:XC7Z045'' ''U1'' ''XC7Z045-2FFG900I'' u8_x u8_y 8 0 [] [],
      (let spare_pins = [''H14'', ''H15'', ''H16'', ''H17'', ''J14'', ''J15'', ''J16'', ''J17'', ''K14'', ''K15'', ''K16'', ''K17'',
          ''L14'', ''L15'', ''L16'', ''L17'', ''M14'', ''M15'', ''M16'', ''M17'', ''N14'', ''N15'', ''N16'', ''N17'', ''P14'', ''P15'',
          ''P16'', ''P17'', ''R14'', ''R15'', ''R16'', ''R17'', ''T14'', ''T15'', ''T16'', ''T17'', ''U14'', ''U15'', ''U16'', ''U17'',
          ''V14'', ''V15'', ''V16'', ''V17'', ''W14'', ''W15'', ''W16'', ''W17'', ''Y6'', ''Y7'']
      in symbol_pins spare_pins)])\<close>

definition zynq_power :: "stmt" where
  \<open>zynq_power = draw [
    text_note ''ZYNQ POWER (Unit 9) + DECOUPLING'' (PInt 30) (PInt 860) (dec 20 1),
    (let u9_x = PInt 80;
        u9_y = PInt 920
    in draw [
      symbol_instance ''cirradio:XC7Z045'' ''U1'' ''XC7Z045-2FFG900I'' u9_x u9_y 9 0 [] [],
      (let pwr_unit_pins = [''G18'', ''G19'', ''G20'', ''G21'', ''G22'', ''G23'', ''G24'', ''G25'', ''G26'', ''G27'', ''H18'', ''H19'',
          ''H20'', ''H21'', ''H22''] @ [''H23'', ''H24'', ''H25'', ''H26''] @ [''H27'', ''H28''] @ [''J18'', ''J19''] @ [''J20'',
          ''J21''] @ [''J22'', ''J23''] @ [''J24'', ''J25''] @ [''J26'', ''J27'', ''J28'', ''K18''] @ [''K19'', ''K20''] @ [''K21'',
          ''K22''] @ [''K23'', ''K24'', ''K25'', ''K26'', ''K27'', ''K28'', ''L18'', ''L19'', ''L20'', ''L21'', ''L22'', ''L23'', ''L24'',
          ''L25'', ''L26'', ''L27'', ''L28'', ''M18'', ''M19'', ''M20'', ''M21'', ''M22'', ''M23'', ''M24'', ''M25'', ''M26'', ''M27'',
          ''M28'', ''N18'', ''N19'', ''N20'']
      in draw [
        symbol_pins pwr_unit_pins,
        global_label ''+1V0'' (u9_x - PInt 22) (u9_y - dec 5588 2 + dec 5334 2) ''passive'' 180,
        wire (u9_x - dec 1524 2) (u9_y - dec 5588 2 + dec 5334 2) (u9_x - PInt 22) (u9_y - dec 5588 2 + dec 5334 2),
        global_label ''+1V5'' (u9_x - PInt 22) (u9_y - dec 5588 2 + dec 4826 2) ''passive'' 180,
        wire (u9_x - dec 1524 2) (u9_y - dec 5588 2 + dec 4826 2) (u9_x - PInt 22) (u9_y - dec 5588 2 + dec 4826 2),
        global_label ''+1V0'' (u9_x - PInt 22) (u9_y - dec 5588 2 + dec 4318 2) ''passive'' 180,
        wire (u9_x - dec 1524 2) (u9_y - dec 5588 2 + dec 4318 2) (u9_x - PInt 22) (u9_y - dec 5588 2 + dec 4318 2),
        global_label ''+1V8'' (u9_x - PInt 22) (u9_y - dec 5588 2 + dec 381 1) ''passive'' 180,
        wire (u9_x - dec 1524 2) (u9_y - dec 5588 2 + dec 381 1) (u9_x - PInt 22) (u9_y - dec 5588 2 + dec 381 1),
        global_label ''+1V8'' (u9_x - PInt 22) (u9_y - dec 5588 2 + dec 3556 2) ''passive'' 180,
        wire (u9_x - dec 1524 2) (u9_y - dec 5588 2 + dec 3556 2) (u9_x - PInt 22) (u9_y - dec 5588 2 + dec 3556 2),
        global_label ''+3V3'' (u9_x - PInt 22) (u9_y - dec 5588 2 + dec 3302 2) ''passive'' 180,
        wire (u9_x - dec 1524 2) (u9_y - dec 5588 2 + dec 3302 2) (u9_x - PInt 22) (u9_y - dec 5588 2 + dec 3302 2),
        global_label ''+3V3'' (u9_x - PInt 22) (u9_y - dec 5588 2 + dec 3048 2) ''passive'' 180,
        wire (u9_x - dec 1524 2) (u9_y - dec 5588 2 + dec 3048 2) (u9_x - PInt 22) (u9_y - dec 5588 2 + dec 3048 2),
        global_label ''+1V0'' (u9_x - PInt 22) (u9_y - dec 5588 2 + dec 254 1) ''passive'' 180,
        wire (u9_x - dec 1524 2) (u9_y - dec 5588 2 + dec 254 1) (u9_x - PInt 22) (u9_y - dec 5588 2 + dec 254 1),
        global_label ''+1V8'' (u9_x - PInt 22) (u9_y - dec 5588 2 + dec 2032 2) ''passive'' 180,
        wire (u9_x - dec 1524 2) (u9_y - dec 5588 2 + dec 2032 2) (u9_x - PInt 22) (u9_y - dec 5588 2 + dec 2032 2),
        global_label ''+1V8'' (u9_x - PInt 22) (u9_y - dec 5588 2 + dec 1524 2) ''passive'' 180,
        wire (u9_x - dec 1524 2) (u9_y - dec 5588 2 + dec 1524 2) (u9_x - PInt 22) (u9_y - dec 5588 2 + dec 1524 2),
        power_symbol ''GND'' (u9_x + PInt 22) (u9_y - dec 5588 2 + dec 5334 2) 0,
        wire (u9_x + dec 1524 2) (u9_y - dec 5588 2 + dec 5334 2) (u9_x + PInt 22) (u9_y - dec 5588 2 + dec 5334 2)])])]\<close>

definition zynq_decoupling :: "stmt" where
  \<open>zynq_decoupling = draw [
    text_note ''DECOUPLING CAPACITORS (per Xilinx UG483)'' (PInt 30) (PInt 1000) (dec 20 1),
    decoupling_group ''+1V0'' (PInt 30) (PInt 1020) 20 4 ''VCCINT'',
    decoupling_group ''+1V5'' (PInt 30) (PInt 1060) 8 2 ''VCCAUX'',
    decoupling_group ''+1V8'' (PInt 30) (PInt 1100) 4 1 ''VCCO Bank 33'',
    decoupling_group ''+1V8'' (PInt 30) (PInt 1140) 4 1 ''VCCO Bank 34'',
    decoupling_group ''+3V3'' (PInt 30) (PInt 1180) 4 1 ''VCCO Bank 13'',
    decoupling_group ''+3V3'' (PInt 30) (PInt 1220) 4 1 ''VCCO Bank 12'',
    decoupling_group ''+1V8'' (PInt 170) (PInt 1100) 4 1 ''VCCO Bank 500'',
    decoupling_group ''+1V8'' (PInt 170) (PInt 1140) 4 1 ''VCCO Bank 501'',
    decoupling_group ''+1V0'' (PInt 170) (PInt 1020) 8 2 ''VCCPINT'',
    decoupling_group ''+1V8'' (PInt 170) (PInt 1060) 4 1 ''VCCPAUX'',
    decoupling_group ''+1V0'' (PInt 30) (PInt 1260) 4 1 ''VCCBRAM'',
    decoupling_group ''+1V8'' (PInt 170) (PInt 1180) 4 1 ''VCCPLL'']\<close>

definition zynq_sheet :: "random \<Rightarrow> sheet" where
  \<open>zynq_sheet rnd =
    (let u1_x = PInt 80;
        u1_y = PInt 70;
        osc_y = PInt 50;
        sw_x = PInt 42;
        sw_y = u1_y - dec 714 2;
        u7_x = PInt 205;
        u7_y = PInt 590
     in draw [emit_header ''cirradio_gen_zynq'' ''CIRRADIO Dev Board - Zynq-7045 SoC'' ''Zynq-7045 with boot config, clocking, JTAG, decoupling'' ''9 units: PS Config, PS MIO, PS DDR, PL Banks 33/34/13/12, Spare, Power'',
            zynq_lib_symbols,
            emit [],
            zynq_clock,
            zynq_reset osc_y u1_y u1_x,
            zynq_boot sw_x sw_y u1_x u1_y,
            zynq_status u1_x u1_y,
            zynq_jtag u1_y u1_x,
            zynq_mio,
            zynq_ddr,
            zynq_bank33,
            zynq_bank34,
            zynq_bank13,
            zynq_bank12 u7_x u7_y,
            zynq_spare,
            zynq_power,
            zynq_decoupling,
            emit '')''] ((empty_sheet rnd)\<lparr>cap_idx := 100, res_idx := 100, pwr_idx := 100\<rparr>))\<close>

definition zynq_report :: "string \<Rightarrow> sheet \<Rightarrow> nat \<Rightarrow> nat \<Rightarrow> string list" where
  \<open>zynq_report path s n_open n_close =
    [''Generated: '' @ path,
     ''Component counts:'',
     ''  Zynq units placed: 9 (all as U1)'',
     ''  Oscillator: 1 (Y1)'',
     ''  JTAG header: 1 (J2)'',
     ''  DIP switch: 1 (SW1)'',
     ''  Reset button: 1 (SW2)'',
     ''  DONE LED: 1 (D3)'',
     ''  Capacitors: '' @ int_str (counts s ''capacitors''),
     ''  Resistors: '' @ int_str (counts s ''resistors''),
     ''  Power symbols: '' @ int_str (counts s ''symbols'' - 9 - 4),
     ''  Wires: '' @ int_str (counts s ''wires''),
     ''  Global labels: '' @ int_str (counts s ''gl_labels''),
     ''  Hierarchical labels: '' @ int_str (counts s ''hier_labels''),
     ''  Parentheses balanced: '' @ int_str (int n_open) @ '' opens, '' @ int_str (int n_close) @ '' closes'']\<close>

definition gen_zynq :: "random \<Rightarrow> gen_out" where
  "gen_zynq rnd =
     (let s = zynq_sheet rnd; path = board_dir @ ''zynq.kicad_sch''
      in finish ''WARNING'' path (zynq_report path s) s)"

end
