(* ===== verification/ZynqRead.thy ===== *)
theory ZynqRead
  imports SheetFile Zynq
begin

text \<open>
  What \<open>gen_zynq.py\<close> draws, read back by the parser of the netlist script: the parts and the nets of
  the processor sheet, section by section, and the whole file.
\<close>

section \<open>Parts and nets\<close>

definition zynq_clock_parts :: "component list" where
  "zynq_clock_parts =
    [part ''U1'' ''XC7Z045-2FFG900I'' [] ''cirradio:XC7Z045'',
      part ''Y1'' ''33.333MHz'' ''Package_SO:VDFN-4-1EP_2.5x2.0mm_P0.65mm'' ''cirradio:DSC1001CI2-33.333'',
      part ''C100'' ''100n'' fp_c0402 ''Device:C'',
      part ''R100'' ''22R'' [] ''Device:R'']"

definition zynq_reset_parts :: "component list" where
  "zynq_reset_parts =
    [part ''SW2'' ''RESET'' ''Button_Switch_SMD:SW_SPST_B3U-1000P'' ''Switch:SW_Push'',
      part ''R101'' ''10K'' [] ''Device:R'']"

definition zynq_boot_parts :: "component list" where
  "zynq_boot_parts =
    [part ''C101'' ''100n'' fp_c0402 ''Device:C'',
      part ''SW1'' ''BOOT_MODE'' ''Button_Switch_SMD:SW_DIP_SPSTx02_Slide_6.7x6.64mm_W8.61mm_P2.54mm'' ''Switch:SW_DIP_x02''] @
    parts_run ''R'' 102 104 ''10K'' [] ''Device:R''"

definition zynq_status_parts :: "component list" where
  "zynq_status_parts =
    [part ''R105'' ''10K'' [] ''Device:R'',
      part ''R106'' ''4K7'' [] ''Device:R'',
      part ''R107'' ''330R'' [] ''Device:R'',
      part ''D3'' ''GREEN'' ''LED_SMD:LED_0603_1608Metric'' ''Device:LED'',
      part ''R108'' ''4K7'' [] ''Device:R'',
      part ''R109'' ''4K7'' [] ''Device:R'']"

definition zynq_jtag_parts :: "component list" where
  "zynq_jtag_parts =
    [part ''J2'' ''JTAG'' ''Connector_PinHeader_1.27mm:PinHeader_2x07_P1.27mm_Vertical'' ''Connector_Generic:Conn_02x07_Odd_Even''] @
    parts_run ''R'' 110 112 ''33R'' [] ''Device:R''"

definition zynq_mio_parts :: "component list" where
  "zynq_mio_parts =
    [part ''U1'' ''XC7Z045-2FFG900I'' [] ''cirradio:XC7Z045'']"

definition zynq_mio_labels :: "string list" where
  "zynq_mio_labels =
    names_run ''QSPI_MIO'' 1 6 @
    names_run ''ETH_MIO'' 16 27 @
    names_run ''USB_MIO'' 28 39 @
    names_run ''SD_MIO'' 40 45 @
    [''UART0_MIO46'', ''UART0_MIO47'', ''UART1_MIO48'', ''UART1_MIO49'', ''I2C_MIO50'', ''I2C_MIO51''] @
    names_run ''MIO'' 7 15 @
    [''MIO52'', ''MIO53'']"

definition zynq_ddr_parts :: "component list" where
  "zynq_ddr_parts =
    [part ''U1'' ''XC7Z045-2FFG900I'' [] ''cirradio:XC7Z045'',
      part ''R113'' ''240R'' [] ''Device:R'',
      part ''R114'' ''240R'' [] ''Device:R'']"

definition zynq_ddr_labels :: "string list" where
  "zynq_ddr_labels =
    names_run ''DDR_DQ'' 0 31 @
    concat (map (\<lambda>i. [''DDR_DQS_P'' @ int_str i, ''DDR_DQS_N'' @ int_str i]) [0..3]) @
    names_run ''DDR_DM'' 0 3 @
    names_run ''DDR_A'' 0 14 @
    [''DDR_BA0'', ''DDR_BA1'', ''DDR_BA2'', ''DDR_CAS_B'', ''DDR_RAS_B'', ''DDR_WE_B'', ''DDR_CK_P'', ''DDR_CK_N'',
      ''DDR_CKE'', ''DDR_CS_B'', ''DDR_ODT'', ''DDR_RESET_B'']"

definition zynq_bank33_parts :: "component list" where
  "zynq_bank33_parts =
    [part ''U1'' ''XC7Z045-2FFG900I'' [] ''cirradio:XC7Z045'']"

definition zynq_bank33_labels :: "string list" where
  "zynq_bank33_labels =
    concat (map (\<lambda>i. [''AD9361_B33_L'' @ int_str i @ ''P'', ''AD9361_B33_L'' @ int_str i @ ''N'']) [0..24])"

definition zynq_bank34_parts :: "component list" where
  "zynq_bank34_parts =
    [part ''U1'' ''XC7Z045-2FFG900I'' [] ''cirradio:XC7Z045'']"

definition zynq_bank34_labels :: "string list" where
  "zynq_bank34_labels =
    concat (map (\<lambda>i. [''AD9361_B34_L'' @ int_str i @ ''P'', ''AD9361_B34_L'' @ int_str i @ ''N'']) [0..24])"

definition zynq_bank13_parts :: "component list" where
  "zynq_bank13_parts =
    [part ''U1'' ''XC7Z045-2FFG900I'' [] ''cirradio:XC7Z045'']"

definition zynq_bank13_labels :: "string list" where
  "zynq_bank13_labels =
    names_run ''AD9361_B13_IO'' 0 49"

definition zynq_bank12_parts :: "component list" where
  "zynq_bank12_parts =
    [part ''U1'' ''XC7Z045-2FFG900I'' [] ''cirradio:XC7Z045'']"

definition zynq_bank12_labels :: "string list" where
  "zynq_bank12_labels =
    names_run ''GPIO_B12_IO'' 0 49"

definition zynq_spare_parts :: "component list" where
  "zynq_spare_parts =
    [part ''U1'' ''XC7Z045-2FFG900I'' [] ''cirradio:XC7Z045'']"

definition zynq_power_parts :: "component list" where
  "zynq_power_parts =
    [part ''U1'' ''XC7Z045-2FFG900I'' [] ''cirradio:XC7Z045'']"

definition zynq_decoupling_parts :: "component list" where
  "zynq_decoupling_parts =
    parts_run ''C'' 102 121 ''100n'' fp_c0402 ''Device:C'' @
    parts_run ''C'' 122 125 ''10u'' ''Capacitor_SMD:C_0805_2012Metric'' ''Device:C'' @
    parts_run ''C'' 126 133 ''100n'' fp_c0402 ''Device:C'' @
    [part ''C134'' ''10u'' ''Capacitor_SMD:C_0805_2012Metric'' ''Device:C'',
      part ''C135'' ''10u'' ''Capacitor_SMD:C_0805_2012Metric'' ''Device:C''] @
    parts_run ''C'' 136 139 ''100n'' fp_c0402 ''Device:C'' @
    [part ''C140'' ''10u'' ''Capacitor_SMD:C_0805_2012Metric'' ''Device:C''] @
    parts_run ''C'' 141 144 ''100n'' fp_c0402 ''Device:C'' @
    [part ''C145'' ''10u'' ''Capacitor_SMD:C_0805_2012Metric'' ''Device:C''] @
    parts_run ''C'' 146 149 ''100n'' fp_c0402 ''Device:C'' @
    [part ''C150'' ''10u'' ''Capacitor_SMD:C_0805_2012Metric'' ''Device:C''] @
    parts_run ''C'' 151 154 ''100n'' fp_c0402 ''Device:C'' @
    [part ''C155'' ''10u'' ''Capacitor_SMD:C_0805_2012Metric'' ''Device:C''] @
    parts_run ''C'' 156 159 ''100n'' fp_c0402 ''Device:C'' @
    [part ''C160'' ''10u'' ''Capacitor_SMD:C_0805_2012Metric'' ''Device:C''] @
    parts_run ''C'' 161 164 ''100n'' fp_c0402 ''Device:C'' @
    [part ''C165'' ''10u'' ''Capacitor_SMD:C_0805_2012Metric'' ''Device:C''] @
    parts_run ''C'' 166 173 ''100n'' fp_c0402 ''Device:C'' @
    [part ''C174'' ''10u'' ''Capacitor_SMD:C_0805_2012Metric'' ''Device:C'',
      part ''C175'' ''10u'' ''Capacitor_SMD:C_0805_2012Metric'' ''Device:C''] @
    parts_run ''C'' 176 179 ''100n'' fp_c0402 ''Device:C'' @
    [part ''C180'' ''10u'' ''Capacitor_SMD:C_0805_2012Metric'' ''Device:C''] @
    parts_run ''C'' 181 184 ''100n'' fp_c0402 ''Device:C'' @
    [part ''C185'' ''10u'' ''Capacitor_SMD:C_0805_2012Metric'' ''Device:C''] @
    parts_run ''C'' 186 189 ''100n'' fp_c0402 ''Device:C'' @
    [part ''C190'' ''10u'' ''Capacitor_SMD:C_0805_2012Metric'' ''Device:C'']"

definition zynq_sheet_parts :: "component list" where
  "zynq_sheet_parts = zynq_clock_parts @ zynq_reset_parts @ zynq_boot_parts @ zynq_status_parts @ zynq_jtag_parts @
      zynq_mio_parts @ zynq_ddr_parts @ zynq_bank33_parts @ zynq_bank34_parts @ zynq_bank13_parts @ zynq_bank12_parts @
      zynq_spare_parts @ zynq_power_parts @ zynq_decoupling_parts"

text \<open>The global labels and the power symbols, then the hierarchical labels.\<close>

definition zynq_sheet_nets :: "string list" where
  "zynq_sheet_nets = [''+3V3'', ''GND'', ''PS_POR_B'', ''+1V8'', ''VTTREF'', ''+1V35'', ''+1V0'', ''+1V5''] @ zynq_mio_labels @
      zynq_ddr_labels @ zynq_bank33_labels @ zynq_bank34_labels @ zynq_bank13_labels @ zynq_bank12_labels"

section \<open>The sections\<close>

text \<open>The status LED is spelled out line by line.\<close>

lemma sim_led:
  assumes "sim (draw cs) f"
  shows \<open>sim (draw (
    emit (''    (symbol (lib_id "Device:LED") (at '' @ num_str x @ '' '' @ num_str y @ '' 0)'') #
    emit ''      (unit 1) (exclude_from_sim no) (in_bom yes) (on_board yes) (dnp no)'' #
    with_value new_uid (\<lambda>u. emit (''      (uuid "'' @ u @ ''")'')) #
    emit (''      (property "Reference" "D3" (at '' @ num_str x @ '' '' @ num_str y1 @
        '' 0) (effects (font (size 1.27 1.27))))'') #
    emit (''      (property "Value" "GREEN" (at '' @ num_str x @ '' '' @ num_str y2 @
        '' 0) (effects (font (size 1.27 1.27))))'') #
    emit (''      (property "Footprint" "LED_SMD:LED_0603_1608Metric" (at '' @ num_str x @ '' '' @
        num_str y @ '' 0) (effects (font (size 1.27 1.27)) hide))'') #
    emit (''      (property "Datasheet" "" (at '' @ num_str x @ '' '' @ num_str y @
        '' 0) (effects (font (size 1.27 1.27)) hide))'') # cs))
    (r_seq (r_part ''Device:LED'' ''D3'' ''GREEN'' ''LED_SMD:LED_0603_1608Metric'' 0) f)\<close>
  by (rule sim_spelled_uid [where x = x and y = y and ?y1.0 = y1 and ?y2.0 = y2 and n = 1, OF _ assms])
    (simp add: symbol_lines_eq int_str_small)

definition zynq_start :: reading where
  "zynq_start = no_reading\<lparr>r_cap := 100, r_res := 100\<rparr>"

lemma zynq_clock_read:
  "yields_section zynq_clock zynq_start
    (zynq_start\<lparr>r_cap := 101, r_res := 101, r_parts := rev zynq_clock_parts, r_rails := [''GND'', ''+3V3'']\<rparr>)"
  unfolding zynq_clock_def
  by (rule sectionI, (simp only: loop_simps)?, (rule section_rules | simp only: loop_simps)+,
      code_simp)

lemma zynq_reset_read:
  "yields_section (zynq_reset a b c) (zynq_start\<lparr>r_cap := 101, r_res := 101\<rparr>)
    (zynq_start\<lparr>r_cap := 101, r_res := 102, r_parts := rev zynq_reset_parts, r_rails := [''+1V8'', ''GND'',
      ''PS_POR_B'']\<rparr>)"
  unfolding zynq_reset_def
  by (rule sectionI, (simp only: loop_simps)?, (rule section_rules | simp only: loop_simps)+,
      code_simp)

lemma zynq_boot_read:
  "yields_section (zynq_boot a b c d) (zynq_start\<lparr>r_cap := 101, r_res := 102\<rparr>)
    (zynq_start\<lparr>r_cap := 102, r_res := 105, r_parts := rev zynq_boot_parts, r_rails := [''+1V8'', ''GND'']\<rparr>)"
  unfolding zynq_boot_def
  by (rule sectionI, (simp only: loop_simps)?, (rule section_rules | simp only: loop_simps)+,
      code_simp)

lemma zynq_status_read:
  "yields_section (zynq_status a b) (zynq_start\<lparr>r_cap := 102, r_res := 105\<rparr>)
    (zynq_start\<lparr>r_cap := 102, r_res := 110, r_parts := rev zynq_status_parts, r_rails := [''+1V8'', ''GND'']\<rparr>)"
  unfolding zynq_status_def
  by (rule sectionI, (simp only: loop_simps)?, (rule sim_led | rule section_rules | simp only: loop_simps)+,
      code_simp)

lemma zynq_jtag_read:
  "yields_section (zynq_jtag a b) (zynq_start\<lparr>r_cap := 102, r_res := 110\<rparr>)
    (zynq_start\<lparr>r_cap := 102, r_res := 113, r_parts := rev zynq_jtag_parts, r_rails := [''GND'', ''+3V3'']\<rparr>)"
  unfolding zynq_jtag_def
  by (rule sectionI, (simp only: loop_simps)?, (rule section_rules | simp only: loop_simps)+,
      code_simp)

lemma zynq_mio_read:
  "yields_section zynq_mio (zynq_start\<lparr>r_cap := 102, r_res := 113\<rparr>)
    (zynq_start\<lparr>r_cap := 102, r_res := 113, r_parts := rev zynq_mio_parts, r_hiers := rev zynq_mio_labels\<rparr>)"
  unfolding zynq_mio_def
  by (rule sectionI, (simp only: loop_simps)?, (rule section_rules | simp only: loop_simps)+,
      code_simp)

lemma zynq_ddr_read:
  "yields_section zynq_ddr (zynq_start\<lparr>r_cap := 102, r_res := 113\<rparr>)
    (zynq_start\<lparr>r_cap := 102, r_res := 115, r_parts := rev zynq_ddr_parts, r_rails := [''+1V35'', ''GND'', ''VTTREF''],
      r_hiers := rev zynq_ddr_labels\<rparr>)"
  unfolding zynq_ddr_def
  by (rule sectionI, (simp only: loop_simps)?, (rule section_rules | simp only: loop_simps)+,
      code_simp)

lemma zynq_bank33_read:
  "yields_section zynq_bank33 (zynq_start\<lparr>r_cap := 102, r_res := 115\<rparr>)
    (zynq_start\<lparr>r_cap := 102, r_res := 115, r_parts := rev zynq_bank33_parts, r_hiers := rev zynq_bank33_labels\<rparr>)"
  unfolding zynq_bank33_def
  by (rule sectionI, (simp only: loop_simps)?, (rule section_rules | simp only: loop_simps)+,
      code_simp)

lemma zynq_bank34_read:
  "yields_section zynq_bank34 (zynq_start\<lparr>r_cap := 102, r_res := 115\<rparr>)
    (zynq_start\<lparr>r_cap := 102, r_res := 115, r_parts := rev zynq_bank34_parts, r_hiers := rev zynq_bank34_labels\<rparr>)"
  unfolding zynq_bank34_def
  by (rule sectionI, (simp only: loop_simps)?, (rule section_rules | simp only: loop_simps)+,
      code_simp)

lemma zynq_bank13_read:
  "yields_section zynq_bank13 (zynq_start\<lparr>r_cap := 102, r_res := 115\<rparr>)
    (zynq_start\<lparr>r_cap := 102, r_res := 115, r_open := Some (''cirradio:XC7Z045'', ''U1'', ''XC7Z045-2FFG900I'', []),
      r_parts := rev zynq_bank13_parts, r_hiers := rev zynq_bank13_labels\<rparr>)"
  unfolding zynq_bank13_def
  by (rule sectionI, (simp only: loop_simps)?, (rule section_rules | simp only: loop_simps)+,
      code_simp)

lemma zynq_bank12_read:
  "yields_section (zynq_bank12 a b) (zynq_start\<lparr>r_cap := 102, r_res := 115, r_open := Some (''cirradio:XC7Z045'',
      ''U1'', ''XC7Z045-2FFG900I'', [])\<rparr>)
    (zynq_start\<lparr>r_cap := 102, r_res := 115, r_parts := rev zynq_bank12_parts, r_hiers := rev zynq_bank12_labels\<rparr>)"
  unfolding zynq_bank12_def
  by (rule sectionI, (simp only: loop_simps)?, (rule section_rules | simp only: loop_simps)+,
      code_simp)

lemma zynq_spare_read:
  "yields_section zynq_spare (zynq_start\<lparr>r_cap := 102, r_res := 115\<rparr>)
    (zynq_start\<lparr>r_cap := 102, r_res := 115, r_parts := rev zynq_spare_parts\<rparr>)"
  unfolding zynq_spare_def
  by (rule sectionI, (simp only: loop_simps)?, (rule section_rules | simp only: loop_simps)+,
      code_simp)

lemma zynq_power_read:
  "yields_section zynq_power (zynq_start\<lparr>r_cap := 102, r_res := 115\<rparr>)
    (zynq_start\<lparr>r_cap := 102, r_res := 115, r_parts := rev zynq_power_parts, r_rails := [''GND'', ''+3V3'', ''+1V8'',
      ''+1V5'', ''+1V0'']\<rparr>)"
  unfolding zynq_power_def
  by (rule sectionI, (simp only: loop_simps)?, (rule section_rules | simp only: loop_simps)+,
      code_simp)

lemma zynq_decoupling_read:
  "yields_section zynq_decoupling (zynq_start\<lparr>r_cap := 102, r_res := 115\<rparr>)
    (zynq_start\<lparr>r_cap := 191, r_res := 115, r_parts := rev zynq_decoupling_parts, r_rails := [''+3V3'', ''+1V8'',
      ''+1V5'', ''GND'', ''+1V0'']\<rparr>)"
  unfolding zynq_decoupling_def
  by (rule sectionI, (simp only: loop_simps)?, (rule section_rules | simp only: loop_simps)+,
      code_simp)

section \<open>The file\<close>

text \<open>The pins of the MIO unit and of the five banks come out of tables.\<close>

lemma zynq_lib_mio: "lib_run zynq_lib_mio (-1, -1)"
proof -
  have "lib_run zynq_lib_mio (paren_seq (0, 0) (paren_seq (paren_sum ''      )'') (0, 0)))"
    unfolding zynq_lib_mio_def
    apply (rule lib_run_draw)
     apply (rule lib_run_index [where n = 54])
       apply (rule lib_run_control)+
       apply (rule walks_nth [where n = 54], assumption, assumption, (code_simp; fail) | rule walk_rules walks_literal)+
      apply (code_simp; fail)
     apply simp
    apply (rule walk_rules walks_literal)+
    done
  moreover have "paren_seq (0, 0) (paren_seq (paren_sum ''      )'') (0, 0)) = (-1, -1)" by code_simp
  ultimately show ?thesis by simp
qed

lemma lib_run_weaken: "lib_run c p \<Longrightarrow> p = q \<Longrightarrow> lib_run c q"
  by simp

lemma zynq_lib_banks: "lib_run zynq_lib_banks (-1, -1)"
  unfolding zynq_lib_banks_def
  by (rule lib_run_weaken,
      (rule lib_run_index [where n = 50] | rule walks_nth [where n = 50], assumption, assumption, (code_simp; fail)
        | rule walk_rules walks_literal | (code_simp; fail) | (simp; fail))+)

lemma zynq_lib: "lib_block zynq_lib_symbols"
  unfolding zynq_lib_head_def zynq_lib_ddr_def zynq_lib_power_def zynq_lib_rest_def zynq_lib_symbols_def lib_device_c_def
    lib_device_led_def lib_device_r_def lib_gnd_def lib_power_def lib_sw_push_def
  by (rule lib_block_run, rule lib_begin_rule, (rule zynq_lib_mio zynq_lib_banks lib_end_rules walk_rules walks_literal | simp only: loop_simps)+, code_simp)

lemma zynq_body:
  "holds (draw [emit [], zynq_clock, zynq_reset (PInt 50) (PInt 70) (PInt 80),
      zynq_boot (PInt 42) ((PInt 70) - dec 714 2) (PInt 80) (PInt 70), zynq_status (PInt 80) (PInt 70),
      zynq_jtag (PInt 70) (PInt 80), zynq_mio, zynq_ddr, zynq_bank33, zynq_bank34, zynq_bank13,
      zynq_bank12 (PInt 205) (PInt 590), zynq_spare, zynq_power, zynq_decoupling])
    zynq_start zynq_sheet_parts zynq_sheet_nets"
  by (rule holdsI,
      (rule section_one section_u section_j section_chain section_blank
          zynq_clock_read zynq_reset_read zynq_boot_read zynq_status_read zynq_jtag_read zynq_mio_read
          zynq_ddr_read zynq_bank33_read zynq_bank34_read zynq_bank13_read zynq_bank12_read zynq_spare_read
          zynq_power_read zynq_decoupling_read
        | (simp add: zynq_start_def no_reading_def outputs_empty_def; fail))+)
    (simp add: zynq_sheet_parts_def zynq_start_def no_reading_def,
     auto simp: zynq_sheet_nets_def zynq_start_def no_reading_def nets_read_def outputs_join_def)

lemma zynq_titles:
  "title_ok ''cirradio_gen_zynq''" "title_ok ''CIRRADIO Dev Board - Zynq-7045 SoC''" "title_ok ''Zynq-7045 with boot config, clocking, JTAG, decoupling''" "title_ok ''9 units: PS Config, PS MIO, PS DDR, PL Banks 33/34/13/12, Spare, Power''"
  by code_simp+

lemma zynq_sheet_eq:
  "zynq_sheet rnd = draw [emit '')'']
    (draw [emit [], zynq_clock, zynq_reset (PInt 50) (PInt 70) (PInt 80),
      zynq_boot (PInt 42) ((PInt 70) - dec 714 2) (PInt 80) (PInt 70), zynq_status (PInt 80) (PInt 70),
      zynq_jtag (PInt 70) (PInt 80), zynq_mio, zynq_ddr, zynq_bank33, zynq_bank34, zynq_bank13,
      zynq_bank12 (PInt 205) (PInt 590), zynq_spare, zynq_power, zynq_decoupling]
      (zynq_lib_symbols (emit_header ''cirradio_gen_zynq'' ''CIRRADIO Dev Board - Zynq-7045 SoC'' ''Zynq-7045 with boot config, clocking, JTAG, decoupling'' ''9 units: PS Config, PS MIO, PS DDR, PL Banks 33/34/13/12, Spare, Power''
        ((empty_sheet rnd)\<lparr>cap_idx := 100, res_idx := 100, pwr_idx := 100\<rparr>))))"
  by (simp only: zynq_sheet_def draw_simps Let_def)

lemma zynq_file:
  "\<exists>content. gen_exit (gen_zynq rnd) = 0 \<and> gen_file (gen_zynq rnd) = Some (board_dir @ ''zynq.kicad_sch'', content) \<and>
    check_parens content = (True, 0) \<and> parse_schematic content = (zynq_sheet_parts, set zynq_sheet_nets)"
proof -
  note h = sheet_holds [OF zynq_lib zynq_titles, OF _ _ _ _ zynq_body, OF _ _ _ _ zynq_sheet_eq]
  show ?thesis unfolding gen_zynq_def Let_def case_prod_beta
    by (rule h) (simp_all add: empty_sheet_def zynq_start_def no_reading_def outputs_empty_def same_indices_def)
qed

text \<open>
  C32: Run with any random bytes, \<open>gen_zynq.py\<close> ends with status 0 and writes a balanced file; the parser
  of the netlist script reads in it exactly the listed parts, in the order they are drawn, and the
  listed nets.
\<close>

theorem zynq_read_back:
  "\<exists>content. gen_exit (gen_zynq rnd) = 0 \<and> gen_file (gen_zynq rnd) = Some (board_dir @ ''zynq.kicad_sch'', content) \<and>
    check_parens content = (True, 0) \<and> parse_schematic content = (zynq_sheet_parts, set zynq_sheet_nets)"
  by (rule zynq_file)
end
