(* ===== verification/Spec2Isabelle.thy ===== *)
theory Spec2Isabelle
  imports Chain SignalCheck FpgaCheck Toplevel Ddr3lRead Ad9361Read ConnectorsRead RfFrontendRead PeripheralsRead ZynqRead
begin

text \<open>
  \<^bold>\<open>The Python programs of the cirradio repository.\<close>

  \<^bold>\<open>Parts and how they interact.\<close>
  Under \<open>hardware/cirradio-devboard\<close> seven generators (\<open>gen_toplevel.py\<close>, \<open>gen_zynq.py\<close>,
  \<open>gen_ddr3l.py\<close>, \<open>gen_ad9361.py\<close>, \<open>gen_rf.py\<close>, \<open>gen_peripherals.py\<close>, \<open>gen_connectors.py\<close>)
  write KiCad schematics, and five scripts turn schematics into a board: \<open>gen_pcb_netlist.py\<close>
  reads the parts and net names out of the schematics and writes the first PCB file,
  \<open>gen_pcb_placement.py\<close>, \<open>gen_pcb_planes.py\<close> and \<open>gen_pcb_routing.py\<close> rewrite that file one after
  the other, and \<open>gen_pcb_drc.py\<close> checks the result. They share nothing but the text of the file,
  which each of them takes apart with regular expressions and line tests; what one writes is
  therefore the interface of the next. Under \<open>tools/board-test\<close> the suite \<open>run_all.py\<close> runs
  five test scripts as processes, hands them command lines and reads the JSON files they leave.
  Under \<open>fpga/scripts\<close> \<open>check_regmap.py\<close> compares the register map of the RTL with that of the
  C++ code and \<open>gen_test_vectors.py\<close> prints test vectors.

  \<^bold>\<open>Conventions.\<close> Effects are explicit: a file is the text that is read or written, the file
  system a finite map, the random bytes of \<open>uuid4\<close> a function from the number of the call to a
  128-bit word, and everything a test reaches over SSH, the serial port or the clock is a function
  on an unknown world that is threaded through the run. Exceptions are values of the sum type of
  \<open>Prelude\<close>. A float is the rational number it denotes, with binary64 rounding after each
  operation. A loop of the source is a recursive function of its own.

  \<^bold>\<open>Theories on Python itself.\<close>
  \<^item> \<open>Prelude\<close>: the exception monad, collections of simplification rules, facts on lists and maps.
  \<^item> \<open>PyNum\<close>, \<open>PyFloat\<close>: integers and binary64, rounding, \<open>repr\<close> and format specifications; the
    bound on the rounding error, and monotonicity of rounding.
  \<^item> \<open>PyStr\<close>: \<open>join\<close>, \<open>split\<close>, \<open>strip\<close>, \<open>find\<close>, \<open>replace\<close> with the facts that splitting undoes joining.
  \<^item> \<open>PyRegex\<close>: the backtracking matcher, \<open>search\<close>, \<open>findall\<close>, \<open>finditer\<close>, with the facts that say
    where a match can start and how a pattern reads over a text that is put together from pieces.
  \<^item> \<open>Json\<close>: \<open>loads\<close> and \<open>dumps\<close>. \<open>Uuid\<close>: \<open>uid()\<close>.

  \<^bold>\<open>Theories on the board scripts.\<close>
  \<^item> \<open>Sexpr\<close>, \<open>Drc\<close>: the grammar of balanced text, the depth scanner and the interface under which
    every generator is shown to be balanced; \<open>gen_pcb_drc.py\<close> (\<open>check_parens\<close>, \<open>drc_main\<close>, and
    its three checks) with the meaning of its exit status.
  \<^item> \<open>Netlist\<close>, \<open>NetlistDoc\<close>: \<open>parse_schematic\<close>, \<open>classify_net\<close>, \<open>generate_pcb\<close> and
    \<open>main\<close> of \<open>gen_pcb_netlist.py\<close>. The lemmas give \<open>classify_net\<close> without regular expressions, the numbering of the nets
    and what the deduplication of parts keeps; \<open>NetlistCheck\<close> proves what the readers find in the file.
  \<^item> \<open>Footprints\<close>, \<open>Placement\<close>, \<open>PlacementCheck\<close>, \<open>PlacementBoard\<close>: \<open>gen_pcb_placement.py\<close>; zones
    (\<open>zone\<close> is the class \<open>Zone\<close>, \<open>place\<close> its method, \<open>plan_placement\<close>), pads and the rewriting of the file.
  \<^item> \<open>Planes\<close>, \<open>PlanesCheck\<close>: \<open>gen_pcb_planes.py\<close>. \<open>Routing\<close>, \<open>RoutingCheck\<close>: \<open>gen_pcb_routing.py\<close>.
  \<^item> \<open>Board\<close>, \<open>Chain\<close>: a board file as prefix, sections and closing parenthesis; each script maps
    such a file to such a file, which composes to the theorem on the chain of all five scripts.

  \<^bold>\<open>Theories on the schematic generators.\<close>
  \<^item> \<open>Schematic\<close>: the record \<open>sheet\<close> holds the module globals of a generator (the list \<open>lines\<close> and the
    designator counters); a Python statement that draws is a function from sheets to sheets
    (\<open>stmt\<close>), \<open>draw\<close> is sequence, \<open>with_value\<close> the use of a helper that returns a value
    (\<open>uid()\<close>, \<open>next_cap()\<close>). The helpers the scripts repeat (\<open>place_resistor\<close>, \<open>hlabel\<close>,
    \<open>power_sym\<close> and so on) and the common end of every \<open>main\<close> are here.
  \<^item> \<open>Toplevel\<close>, \<open>Zynq\<close>, \<open>Ddr3l\<close>, \<open>Ad9361\<close>, \<open>RfFrontend\<close>, \<open>Peripherals\<close>, \<open>Connectors\<close>: the
    library symbols and the sections of each \<open>main\<close>, in the order of the source. Evaluated, the
    seven models print the committed \<open>.kicad_sch\<close> files byte for byte, apart from the UUIDs.
  \<^item> \<open>SheetText\<close>, \<open>SheetRead\<close>: what the parser of the netlist script reads in a generated
    sheet, statement by statement.

  \<^bold>\<open>Theories on the tests and the FPGA scripts.\<close>
  \<^item> \<open>BoardTest\<close>, \<open>RunAll\<close>: the five tests with their helpers \<open>board_ssh.py\<close> and
    \<open>flash_fpga.py\<close>, their command lines, and the suite. \<open>BoardTestCheck\<close> states the contract of a test
    as a locale and interprets it on the five scripts; \<open>SuiteCheck\<close> and \<open>SignalCheck\<close> show what the suite
    reports and what the tests measure.
  \<^item> \<open>Regmap\<close>, \<open>TestVectors\<close>, \<open>FpgaCheck\<close>: the FPGA scripts; the AES cipher is an argument.

  \<^bold>\<open>Bounds and fuel.\<close> The JSON reader descends with \<open>2 * n + 2\<close> fuel on a text of \<open>n\<close> characters, more
  than one step per character and container. The GPS test polls with a fuel that the time limit bounds,
  and \<open>gps_lock_ends\<close> shows that a clock that runs ends the loop before; the console test reads with one unit of
  fuel per read. The generators' \<open>str\<close> of a float tries up to 21 decimals, enough for 17
  significant digits down to \<open>10^-4\<close>; \<open>flt_repr\<close> tries up to 17 significant digits, after an exponent
  search whose fuel covers the range of binary64.
  The repetition of a regular expression is bounded by the length of the text. All other loops
  are structural or carry a measure.

  \<^bold>\<open>Not modelled.\<close> The C++ stack, the RTL and the firmware recipes are not Python. Of the
  Python code the model leaves out reading and opening files (a text is an argument, a missing
  file \<open>None\<close>), the summaries that the netlist, placement and routing scripts print, abbreviated
  options and \<open>--option=value\<close> of \<open>argparse\<close>, negative zero and floats that print with an exponent,
  and characters beyond code point 255 in the texts that the regular expressions read. The SSH client, the
  serial port, the programming tools and AES are parameters.
\<close>

end
